(* ===== verification/Py_Base.thy ===== *)
theory Py_Base
  imports Complex_Main "HOL-Library.AList" "HOL-Library.Word" "HOL-Library.Char_ord"
begin

text \<open>
  The prelude: what every component of the backend uses of Python.

  \<^item> A Python dictionary keeps its insertion order, and some of the code observes it
    (\<open>list(self._tariffs.values())\<close>, the consumers of the event bus). A dictionary is
    an association list with distinct keys: \<open>dict_get\<close> is \<open>map_of\<close>, \<open>dict_set\<close>
    overwrites in place or appends, \<open>dict_del\<close> removes.
  \<^item> A coroutine that mutates its object and may raise has the type
    \<open>'s \<Rightarrow> ('e + 'a) \<times> 's\<close>: the state is returned on the error path too, since Python
    keeps the mutations made before a \<open>raise\<close>.
  \<^item> \<open>uuid.UUID\<close> is a 128-bit word; \<open>uuid.uuid4()\<close>, \<open>secrets.token_urlsafe\<close> and
    the clocks are arguments of the operations that draw them.
  \<^item> A \<open>datetime\<close> (aware, UTC) is the integer number of microseconds since the epoch,
    a \<open>date\<close> the integer number of days.
\<close>

named_theorems dict_laws \<open>lookup laws of dictionaries and of the stores built on them\<close>
named_theorems store_defs \<open>definitions of store operations, unfolded together\<close>

type_synonym uuid = "128 word"
type_synonym datetime = int
type_synonym date = int

abbreviation (input) us_per_second :: int where "us_per_second \<equiv> 1000000"

definition date_of :: "datetime \<Rightarrow> date" where
  "date_of t = t div (86400 * 1000000)"

lemma date_of_mono: "s \<le> t \<Longrightarrow> date_of s \<le> date_of t"
  by (simp add: date_of_def zdiv_mono1)

subsection \<open>Dictionaries\<close>

type_synonym ('k, 'v) pydict = "('k \<times> 'v) list"

abbreviation dict_get :: "('k, 'v) pydict \<Rightarrow> 'k \<Rightarrow> 'v option" where
  "dict_get d k \<equiv> map_of d k"

abbreviation dict_set :: "'k \<Rightarrow> 'v \<Rightarrow> ('k, 'v) pydict \<Rightarrow> ('k, 'v) pydict" where
  "dict_set k v d \<equiv> AList.update k v d"

abbreviation dict_del :: "'k \<Rightarrow> ('k, 'v) pydict \<Rightarrow> ('k, 'v) pydict" where
  "dict_del k d \<equiv> AList.delete k d"

abbreviation dict_values :: "('k, 'v) pydict \<Rightarrow> 'v list" where
  "dict_values d \<equiv> map snd d"

abbreviation dict_keys :: "('k, 'v) pydict \<Rightarrow> 'k list" where
  "dict_keys d \<equiv> map fst d"

abbreviation dict_inv :: "('k, 'v) pydict \<Rightarrow> bool" where
  "dict_inv d \<equiv> distinct (map fst d)"

text \<open>\<open>d.get(k, default)\<close>\<close>

definition dict_get_default :: "('k, 'v) pydict \<Rightarrow> 'k \<Rightarrow> 'v \<Rightarrow> 'v" where
  "dict_get_default d k v = (case dict_get d k of None \<Rightarrow> v | Some w \<Rightarrow> w)"

lemma dict_get_set [simp, dict_laws]:
  "dict_get (dict_set k v d) k' = (if k' = k then Some v else dict_get d k')"
  by (simp add: update_conv')

lemma dict_get_del [simp, dict_laws]:
  "dict_get (dict_del k d) k' = (if k' = k then None else dict_get d k')"
  by (simp add: delete_conv')

lemma dict_inv_set [simp, intro]: "dict_inv d \<Longrightarrow> dict_inv (dict_set k v d)"
  by (rule distinct_update)

lemma dict_inv_del [simp, intro]: "dict_inv d \<Longrightarrow> dict_inv (dict_del k d)"
  by (rule distinct_delete)

lemma dict_set_append: "k \<notin> set (dict_keys d) \<Longrightarrow> dict_set k v d = d @ [(k, v)]"
  by (induction d) auto

lemma dict_set_fresh: "dict_get d k = None \<Longrightarrow> dict_set k v d = d @ [(k, v)]"
  by (rule dict_set_append) (simp add: map_of_eq_None_iff)

lemma set_dict_values_set:
  "set (dict_values (dict_set k v d)) \<subseteq> insert v (set (dict_values d))"
  by (induction d) auto

lemma dict_get_value: "dict_get d k = Some v \<Longrightarrow> v \<in> set (dict_values d)"
  by (force dest: map_of_SomeD)

lemma dict_values_get:
  "dict_inv d \<Longrightarrow> v \<in> set (dict_values d) \<Longrightarrow> \<exists>k. dict_get d k = Some v"
  by auto

lemma dict_get_default_set [simp]:
  "dict_get_default (dict_set k v d) k' w = (if k' = k then v else dict_get_default d k' w)"
  by (simp add: dict_get_default_def)

subsection \<open>Selecting from a list\<close>

text \<open>\<open>next((x for x in xs if p(x)), None)\<close>\<close>

abbreviation first_match :: "('a \<Rightarrow> bool) \<Rightarrow> 'a list \<Rightarrow> 'a option" where
  "first_match p xs \<equiv> List.find p xs"

text \<open>\<open>max(xs, key=f)\<close> on a non-empty list: the first element of greatest key.\<close>

fun max_by :: "('a \<Rightarrow> 'b::linorder) \<Rightarrow> 'a \<Rightarrow> 'a list \<Rightarrow> 'a" where
  "max_by f x [] = x"
| "max_by f x (y # ys) = (if f y > f x then max_by f y ys else max_by f x ys)"

definition max_key :: "('a \<Rightarrow> 'b::linorder) \<Rightarrow> 'a list \<Rightarrow> 'a option" where
  "max_key f xs = (case xs of [] \<Rightarrow> None | x # ys \<Rightarrow> Some (max_by f x ys))"

lemma max_by_in: "max_by f x ys \<in> insert x (set ys)"
  by (induction ys arbitrary: x) auto

lemma max_by_ge: "f x \<le> f (max_by f x ys) \<and> (\<forall>y \<in> set ys. f y \<le> f (max_by f x ys))"
proof (induction ys arbitrary: x)
  case Nil
  show ?case by simp
next
  case (Cons y ys)
  show ?case using Cons.IH[of x] Cons.IH[of y] by (auto intro: order_trans less_imp_le)
qed

lemma max_key_None [simp]: "max_key f xs = None \<longleftrightarrow> xs = []"
  by (simp add: max_key_def split: list.splits)

lemma max_key_SomeD:
  assumes "max_key f xs = Some x"
  shows "x \<in> set xs" and "\<And>y. y \<in> set xs \<Longrightarrow> f y \<le> f x"
  using assms max_by_in[of f] max_by_ge[of f]
  by (auto simp: max_key_def split: list.splits)

text \<open>A filtered list is the basis of most queries; a sum over it splits.\<close>

lemma sum_list_filter_split:
  "(\<Sum>x\<leftarrow>filter p xs. f x) + (\<Sum>x\<leftarrow>filter (\<lambda>x. \<not> p x) xs. f x) = (\<Sum>x\<leftarrow>xs. f x :: int)"
  by (induction xs) auto

lemma sum_list_filter_disjoint:
  assumes "\<And>x. \<not> (p x \<and> q x)"
  shows "(\<Sum>x\<leftarrow>filter (\<lambda>x. p x \<or> q x) xs. f x :: int) = (\<Sum>x\<leftarrow>filter p xs. f x) + (\<Sum>x\<leftarrow>filter q xs. f x)"
  using assms by (induction xs) auto

lemma find_SomeD: "List.find p xs = Some x \<Longrightarrow> p x \<and> x \<in> set xs"
  by (induction xs) (auto split: if_splits)

lemma find_NoneD: "List.find p xs = None \<Longrightarrow> x \<in> set xs \<Longrightarrow> \<not> p x"
  by (auto simp: find_None_iff)

text \<open>A search over the values of a dictionary.\<close>

lemma first_match_dict:
  assumes "dict_inv d" and "first_match p (dict_values d) = Some x"
  shows "p x \<and> (\<exists>k. dict_get d k = Some x)"
  using find_SomeD[OF assms(2)] dict_values_get[OF assms(1), of x] by blast

lemma first_match_dict_exists:
  assumes "dict_get d k = Some x" and "p x"
  shows "\<exists>y. first_match p (dict_values d) = Some y"
  using find_NoneD[of p "dict_values d" x] dict_get_value[OF assms(1)] assms(2)
  by (cases "first_match p (dict_values d)") auto

end
