(* ===== verification/Py_Float.thy ===== *)
theory Py_Float
  imports Py_Base "HOL-Library.Log_Nat"
begin

text \<open>
  Python's \<open>float\<close>: IEEE 754 binary64 with round-to-nearest, ties-to-even.
  A finite double is represented by the rational number it denotes (the sign of zero is
  not observed by the code). \<open>fl64 q\<close> is the correctly rounded double of a rational
  \<open>q\<close>, subnormals and overflow to infinity included; an arithmetic operation rounds the
  exact result once. \<open>py_round\<close> is the built-in \<open>round(x)\<close> on a float: to the nearest
  integer, ties to even, an exception on an infinity or a NaN.
\<close>

datatype pyfloat = Fin rat | PosInf | NegInf | NaN

datatype arith_error = OverflowError | ValueError | ZeroDivisionError

text \<open>The position of the leading bit of a positive rational.\<close>

definition ilog2 :: "rat \<Rightarrow> int" where
  "ilog2 q = (if 1 \<le> q then bitlen \<lfloor>q\<rfloor> - 1 else - bitlen (\<lceil>1 / q\<rceil> - 1))"

text \<open>Round half to even.\<close>

definition rhe :: "rat \<Rightarrow> int" where
  "rhe q = (let f = \<lfloor>q\<rfloor>; d = q - of_int f in
     if d < 1 / 2 then f else if 1 / 2 < d then f + 1 else if even f then f else f + 1)"

definition fl_exp :: "rat \<Rightarrow> int" where
  "fl_exp q = max (ilog2 \<bar>q\<bar> - 52) (-1074)"

definition rnd64 :: "rat \<Rightarrow> rat" where
  "rnd64 q = (if q = 0 then 0
     else of_int (rhe (q / 2 powi fl_exp q)) * 2 powi fl_exp q)"

definition fl64 :: "rat \<Rightarrow> pyfloat" where
  "fl64 q = (let r = rnd64 q in
     if 2 ^ 1024 \<le> r then PosInf else if r \<le> - (2 ^ 1024) then NegInf else Fin r)"

subsection \<open>Operations\<close>

definition float_of_int :: "int \<Rightarrow> arith_error + rat" where
  "float_of_int n = (case fl64 (of_int n) of Fin r \<Rightarrow> Inr r | _ \<Rightarrow> Inl OverflowError)"

fun fneg :: "pyfloat \<Rightarrow> pyfloat" where
  "fneg (Fin q) = Fin (- q)"
| "fneg PosInf = NegInf"
| "fneg NegInf = PosInf"
| "fneg NaN = NaN"

fun fadd :: "pyfloat \<Rightarrow> pyfloat \<Rightarrow> pyfloat" where
  "fadd NaN _ = NaN"
| "fadd _ NaN = NaN"
| "fadd (Fin a) (Fin b) = fl64 (a + b)"
| "fadd (Fin _) x = x"
| "fadd x (Fin _) = x"
| "fadd PosInf PosInf = PosInf"
| "fadd NegInf NegInf = NegInf"
| "fadd PosInf NegInf = NaN"
| "fadd NegInf PosInf = NaN"

definition fsub :: "pyfloat \<Rightarrow> pyfloat \<Rightarrow> pyfloat" where
  "fsub x y = fadd x (fneg y)"

fun fabs :: "pyfloat \<Rightarrow> pyfloat" where
  "fabs (Fin q) = Fin \<bar>q\<bar>"
| "fabs NaN = NaN"
| "fabs _ = PosInf"

text \<open>Multiplication and division by a finite double; the divisor is not zero.\<close>

fun fmul_fin :: "pyfloat \<Rightarrow> rat \<Rightarrow> pyfloat" where
  "fmul_fin NaN _ = NaN"
| "fmul_fin (Fin a) b = fl64 (a * b)"
| "fmul_fin PosInf b = (if 0 < b then PosInf else if b < 0 then NegInf else NaN)"
| "fmul_fin NegInf b = (if 0 < b then NegInf else if b < 0 then PosInf else NaN)"

fun fdiv_fin :: "pyfloat \<Rightarrow> rat \<Rightarrow> pyfloat" where
  "fdiv_fin NaN _ = NaN"
| "fdiv_fin (Fin a) b = fl64 (a / b)"
| "fdiv_fin PosInf b = (if 0 < b then PosInf else NegInf)"
| "fdiv_fin NegInf b = (if 0 < b then NegInf else PosInf)"

text \<open>Comparison: false whenever a NaN is involved.\<close>

fun flt :: "pyfloat \<Rightarrow> pyfloat \<Rightarrow> bool" where
  "flt (Fin a) (Fin b) = (a < b)"
| "flt (Fin _) PosInf = True"
| "flt NegInf (Fin _) = True"
| "flt NegInf PosInf = True"
| "flt _ _ = False"

fun feq :: "pyfloat \<Rightarrow> pyfloat \<Rightarrow> bool" where
  "feq NaN _ = False"
| "feq _ NaN = False"
| "feq x y = (x = y)"

definition fle :: "pyfloat \<Rightarrow> pyfloat \<Rightarrow> bool" where
  "fle x y \<longleftrightarrow> flt x y \<or> feq x y"

text \<open>\<open>max(0.0, x)\<close>: Python keeps the first argument unless a later one is greater.\<close>

definition fmax0 :: "pyfloat \<Rightarrow> pyfloat" where
  "fmax0 x = (if flt (Fin 0) x then x else Fin 0)"

fun py_round :: "pyfloat \<Rightarrow> arith_error + int" where
  "py_round (Fin q) = Inr (rhe q)"
| "py_round NaN = Inl ValueError"
| "py_round _ = Inl OverflowError"

text \<open>\<open>a / b\<close> on two Python integers: one correctly rounded quotient.\<close>

definition int_truediv :: "int \<Rightarrow> int \<Rightarrow> arith_error + rat" where
  "int_truediv a b =
     (if b = 0 then Inl ZeroDivisionError
      else case fl64 (of_int a / of_int b) of Fin r \<Rightarrow> Inr r | _ \<Rightarrow> Inl OverflowError)"

text \<open>\<open>max(xs)\<close> on doubles keeps its current value unless a later one is greater; \<open>int(x)\<close> truncates.\<close>

fun fmax_from :: "pyfloat \<Rightarrow> pyfloat list \<Rightarrow> pyfloat" where
  "fmax_from m [] = m"
| "fmax_from m (y # ys) = fmax_from (if flt m y then y else m) ys"

fun py_trunc :: "pyfloat \<Rightarrow> arith_error + int" where
  "py_trunc (Fin q) = Inr (if 0 \<le> q then \<lfloor>q\<rfloor> else \<lceil>q\<rceil>)"
| "py_trunc NaN = Inl ValueError"
| "py_trunc _ = Inl OverflowError"

text \<open>\<open>x / y\<close> on two floats.\<close>

fun fdiv :: "pyfloat \<Rightarrow> pyfloat \<Rightarrow> arith_error + pyfloat" where
  "fdiv x (Fin b) = (if b = 0 then Inl ZeroDivisionError else Inr (fdiv_fin x b))"
| "fdiv (Fin _) PosInf = Inr (Fin 0)"
| "fdiv (Fin _) NegInf = Inr (Fin 0)"
| "fdiv _ _ = Inr NaN"

lemma fle_not_flt: "fle x y \<Longrightarrow> \<not> flt y x"
  by (cases x; cases y) (auto simp: fle_def)

subsection \<open>The leading bit\<close>

lemma power_int_2_pos [simp]: "0 < (2::rat) powi n"
  by (simp add: zero_less_power_int)

lemma power_int_2_ne0 [simp]: "(2::rat) powi n \<noteq> 0"
  by (simp add: power_int_not_zero)

lemma power_int_2_mono: "m \<le> n \<Longrightarrow> (2::rat) powi m \<le> 2 powi n"
  by (rule power_int_increasing) simp_all

lemma power_int_2_add: "(2::rat) powi (m + n) = 2 powi m * 2 powi n"
  by (rule power_int_add) simp

lemma power_int_nat: "0 \<le> n \<Longrightarrow> (2::rat) powi n = 2 ^ nat n"
  by (simp add: power_int_def)

lemma bitlen_boundsI:
  assumes "0 < (n::int)"
  shows "(2::rat) powi (bitlen n - 1) \<le> of_int n" and "of_int n < (2::rat) powi bitlen n"
proof -
  have b: "2 ^ nat (bitlen n - 1) \<le> n" "n < 2 ^ nat (bitlen n)"
    using bitlen_bounds[OF assms] by simp_all
  have pos: "0 < bitlen n"
    using assms bitlen_nonneg[of n] bitlen_eq_zero_iff[of n] by linarith
  have "(2::rat) powi (bitlen n - 1) = of_int (2 ^ nat (bitlen n - 1))"
    using pos by (simp add: power_int_nat)
  also have "\<dots> \<le> of_int n" using b(1) of_int_le_iff by blast
  finally show "(2::rat) powi (bitlen n - 1) \<le> of_int n" .
  have "of_int n < (of_int (2 ^ nat (bitlen n)) :: rat)" using b(2) of_int_less_iff by blast
  also have "\<dots> = (2::rat) powi bitlen n"
    using pos by (simp add: power_int_nat)
  finally show "of_int n < (2::rat) powi bitlen n" .
qed

lemma ilog2_bounds:
  assumes "0 < q"
  shows "(2::rat) powi ilog2 q \<le> q" and "q < (2::rat) powi (ilog2 q + 1)"
proof -
  have "(2::rat) powi ilog2 q \<le> q \<and> q < (2::rat) powi (ilog2 q + 1)"
  proof (cases "1 \<le> q")
    case True
    then have f: "0 < \<lfloor>q\<rfloor>" by linarith
    have "\<lfloor>q\<rfloor> < 2 ^ nat (bitlen \<lfloor>q\<rfloor>)" using bitlen_bounds[OF f] by simp
    then have "q < of_int (2 ^ nat (bitlen \<lfloor>q\<rfloor>))" by (simp only: floor_less_iff)
    then have "q < 2 powi bitlen \<lfloor>q\<rfloor>" by (simp add: power_int_nat bitlen_nonneg)
    moreover have "(2::rat) powi (bitlen \<lfloor>q\<rfloor> - 1) \<le> q"
      using bitlen_boundsI(1)[OF f] of_int_floor_le[of q] by linarith
    ultimately show ?thesis using True by (simp add: ilog2_def)
  next
    case False
    define y where "y = 1 / q"
    have y: "1 < y" using False assms by (simp add: y_def)
    define n where "n = \<lceil>y\<rceil> - 1"
    have n: "0 < n" using y by (simp add: n_def less_ceiling_iff)
    have lt: "of_int n < y" by (simp add: n_def) linarith
    have le: "y \<le> of_int (n + 1)" by (simp add: n_def)
    have up: "n + 1 \<le> 2 ^ nat (bitlen n)" using bitlen_bounds[OF n] by simp
    have "(of_int (n + 1) :: rat) \<le> of_int (2 ^ nat (bitlen n))"
      using up of_int_le_iff by blast
    then have hi: "y \<le> 2 powi bitlen n"
      using le by (simp add: power_int_nat bitlen_nonneg)
    have lo: "2 powi (bitlen n - 1) < y" using bitlen_boundsI(1)[OF n] lt by linarith
    have q: "q = 1 / y" using assms by (simp add: y_def)
    have "2 powi (- bitlen n) \<le> q"
      using hi y by (simp add: q power_int_minus divide_simps)
    moreover have "q < 2 powi (- (bitlen n - 1))"
      using lo y unfolding power_int_minus q by (simp only: inverse_eq_divide)
        (rule divide_strict_left_mono, simp_all)
    moreover have "ilog2 q = - bitlen n"
      using False by (simp add: ilog2_def n_def y_def)
    ultimately show ?thesis by (simp add: algebra_simps)
  qed
  then show "(2::rat) powi ilog2 q \<le> q" and "q < (2::rat) powi (ilog2 q + 1)" by auto
qed

lemma ilog2_mono:
  assumes "0 < p" and "p \<le> q"
  shows "ilog2 p \<le> ilog2 q"
proof (rule ccontr)
  assume "\<not> ilog2 p \<le> ilog2 q"
  then have "(2::rat) powi (ilog2 q + 1) \<le> 2 powi ilog2 p" by (intro power_int_2_mono) simp
  also have "\<dots> \<le> p" by (rule ilog2_bounds(1)[OF assms(1)])
  finally have "2 powi (ilog2 q + 1) \<le> q" using assms(2) by simp
  then show False using ilog2_bounds(2)[of q] assms by simp
qed

subsection \<open>Rounding to an integer\<close>

lemma rhe_of_int [simp]: "rhe (of_int n) = n"
  by (simp add: rhe_def)

lemma rhe_numeral [simp]: "rhe (numeral n) = numeral n" "rhe 0 = 0" "rhe 1 = 1"
  using rhe_of_int[of "numeral n"] rhe_of_int[of 0] rhe_of_int[of 1] by simp_all

lemma rhe_bounds: "\<lfloor>q\<rfloor> \<le> rhe q" "rhe q \<le> \<lfloor>q\<rfloor> + 1"
  by (simp_all add: rhe_def Let_def)

lemma rhe_dist: "\<bar>of_int (rhe q) - q\<bar> \<le> 1 / 2"
proof -
  have "of_int \<lfloor>q\<rfloor> \<le> q" "q < of_int \<lfloor>q\<rfloor> + 1" by linarith+
  then show ?thesis by (auto simp: rhe_def Let_def abs_le_iff)
qed

lemma rhe_mono:
  assumes "p \<le> q"
  shows "rhe p \<le> rhe q"
proof (cases "\<lfloor>p\<rfloor> = \<lfloor>q\<rfloor>")
  case True
  then show ?thesis using assms by (auto simp: rhe_def Let_def)
next
  case False
  have "\<lfloor>p\<rfloor> \<le> \<lfloor>q\<rfloor>" using assms by (rule floor_mono)
  with False have "\<lfloor>p\<rfloor> + 1 \<le> \<lfloor>q\<rfloor>" by simp
  then show ?thesis using rhe_bounds(2)[of p] rhe_bounds(1)[of q] by linarith
qed

lemma rhe_le_int: "q \<le> of_int n \<Longrightarrow> rhe q \<le> n"
  using rhe_mono[of q "of_int n"] by simp

lemma rhe_ge_int: "of_int n \<le> q \<Longrightarrow> n \<le> rhe q"
  using rhe_mono[of "of_int n" q] by simp

lemma rhe_nonneg: "0 \<le> q \<Longrightarrow> 0 \<le> rhe q"
  using rhe_ge_int[of 0 q] by simp

lemma rhe_minus: "rhe (- q) = - rhe q"
proof (cases "q = of_int \<lfloor>q\<rfloor>")
  case True
  then have "rhe q = \<lfloor>q\<rfloor>" and "rhe (- q) = - \<lfloor>q\<rfloor>"
    using rhe_of_int[of "\<lfloor>q\<rfloor>"] rhe_of_int[of "- \<lfloor>q\<rfloor>"] by simp_all
  then show ?thesis by simp
next
  case False
  then have lt: "of_int \<lfloor>q\<rfloor> < q" by linarith
  have "\<lfloor>- q\<rfloor> = - \<lfloor>q\<rfloor> - 1"
    by (rule floor_unique) (use lt in \<open>simp_all, linarith\<close>)
  then show ?thesis by (auto simp: rhe_def Let_def)
qed

subsection \<open>Rounding to a double\<close>

lemma fl_exp_minus [simp]: "fl_exp (- q) = fl_exp q"
  by (simp add: fl_exp_def)

lemma rnd64_0 [simp]: "rnd64 0 = 0"
  by (simp add: rnd64_def)

lemma rnd64_minus: "rnd64 (- q) = - rnd64 q"
  by (simp add: rnd64_def rhe_minus)

lemma fl_exp_upper:
  assumes "0 < q"
  shows "q < 2 ^ 53 * 2 powi fl_exp q"
proof -
  have "q < 2 powi (ilog2 q + 1)" by (rule ilog2_bounds(2)[OF assms])
  also have "\<dots> \<le> 2 powi (53 + fl_exp q)"
    using assms by (intro power_int_2_mono) (simp add: fl_exp_def)
  also have "\<dots> = 2 ^ 53 * 2 powi fl_exp q"
    by (simp add: power_int_2_add)
  finally show ?thesis .
qed

lemma fl_exp_lower:
  assumes "0 < q" and "-1074 < fl_exp q"
  shows "2 ^ 52 * 2 powi fl_exp q \<le> q"
proof -
  have "fl_exp q = ilog2 q - 52" using assms by (auto simp: fl_exp_def max_def split: if_splits)
  then have "2 ^ 52 * (2::rat) powi fl_exp q = 2 powi ilog2 q"
    using power_int_2_add[of 52 "fl_exp q"] by simp
  then show ?thesis using ilog2_bounds(1)[OF assms(1)] by simp
qed

lemma fl_exp_mono: "0 < p \<Longrightarrow> p \<le> q \<Longrightarrow> fl_exp p \<le> fl_exp q"
  using ilog2_mono[of p q] by (auto simp: fl_exp_def max_def)

lemma rnd64_nonneg: "0 \<le> q \<Longrightarrow> 0 \<le> rnd64 q"
  by (simp add: rnd64_def rhe_nonneg)

lemma rnd64_mono_pos:
  assumes "0 < p" and "p \<le> q"
  shows "rnd64 p \<le> rnd64 q"
proof (cases "fl_exp p = fl_exp q")
  case True
  then show ?thesis using assms
    by (auto simp: rnd64_def intro!: mult_right_mono rhe_mono divide_right_mono)
next
  case False
  let ?e = "fl_exp p" and ?f = "fl_exp q"
  have lt: "?e < ?f" using fl_exp_mono[OF assms] False by simp
  have low: "-1074 < ?f" using lt by (simp add: fl_exp_def max_def split: if_splits)
  have "p / 2 powi ?e \<le> of_int (2 ^ 53)"
    using fl_exp_upper[OF assms(1)] by (simp add: field_simps)
  then have "rhe (p / 2 powi ?e) \<le> 2 ^ 53" by (rule rhe_le_int)
  then have "of_int (rhe (p / 2 powi ?e)) \<le> (2 ^ 53 :: rat)"
    by (metis of_int_le_iff of_int_numeral of_int_power)
  then have "rnd64 p \<le> 2 ^ 53 * 2 powi ?e"
    using assms by (simp add: rnd64_def mult_right_mono)
  also have "\<dots> = 2 powi (53 + ?e)" by (simp add: power_int_2_add)
  also have "\<dots> \<le> 2 powi (52 + ?f)" using lt by (intro power_int_2_mono) simp
  also have "\<dots> = 2 ^ 52 * 2 powi ?f" by (simp add: power_int_2_add)
  also have "\<dots> \<le> rnd64 q"
  proof -
    have "of_int (2 ^ 52) \<le> q / 2 powi ?f"
      using fl_exp_lower[OF _ low] assms by (simp add: field_simps)
    then have "2 ^ 52 \<le> rhe (q / 2 powi ?f)" by (rule rhe_ge_int)
    then have "(2 ^ 52 :: rat) \<le> of_int (rhe (q / 2 powi ?f))"
      by (metis of_int_le_iff of_int_numeral of_int_power)
    then show ?thesis using assms by (simp add: rnd64_def mult_right_mono)
  qed
  finally show ?thesis .
qed

lemma rnd64_mono:
  assumes "p \<le> q"
  shows "rnd64 p \<le> rnd64 q"
proof -
  consider "0 < p" | "p \<le> 0" "0 \<le> q" | "q < 0" using assms by linarith
  then show ?thesis
  proof cases
    case 1
    then show ?thesis using assms by (rule rnd64_mono_pos)
  next
    case 2
    then show ?thesis using rnd64_nonneg[of q] rnd64_nonneg[of "- p"] rnd64_minus[of p] by simp
  next
    case 3
    then show ?thesis using rnd64_mono_pos[of "- q" "- p"] assms rnd64_minus[of p] rnd64_minus[of q]
      by simp
  qed
qed

text \<open>Every integer of at most 53 bits is a double.\<close>

lemma rnd64_of_int_pos:
  assumes "0 < n" and "n \<le> 2 ^ 53"
  shows "rnd64 (of_int n) = of_int n"
proof -
  let ?q = "of_int n :: rat"
  have pos: "0 < ?q" using assms by simp
  have "2 powi ilog2 ?q \<le> ?q" by (rule ilog2_bounds(1)[OF pos])
  also have "?q \<le> of_int (2 ^ 53)" using assms(2) by (subst of_int_le_iff)
  finally have "(2::rat) powi ilog2 ?q \<le> 2 powi 53" by simp
  then have "ilog2 ?q \<le> 53"
    by (rule contrapos_pp) (simp only: not_le power_int_strict_increasing one_less_numeral_iff semiring_norm)
  then have "fl_exp ?q \<le> 0 \<or> ilog2 ?q = 53" using pos by (auto simp: fl_exp_def)
  then consider (small) "fl_exp ?q \<le> 0" | (edge) "ilog2 ?q = 53" by blast
  then show ?thesis
  proof cases
    case small
    define k where "k = nat (- fl_exp ?q)"
    have "fl_exp ?q = - int k" using small by (simp add: k_def)
    then have "(2::rat) powi fl_exp ?q = 1 / 2 ^ k"
      by (simp only: power_int_minus power_int_of_nat inverse_eq_divide)
    then have d: "?q / 2 powi fl_exp ?q = of_int (n * 2 ^ k)" by simp
    have "rnd64 ?q = of_int (rhe (?q / 2 powi fl_exp ?q)) * 2 powi fl_exp ?q"
      using pos by (simp add: rnd64_def)
    also have "\<dots> = (?q / 2 powi fl_exp ?q) * 2 powi fl_exp ?q" by (simp only: d rhe_of_int)
    also have "\<dots> = ?q" by simp
    finally show ?thesis .
  next
    case edge
    then have "2 ^ 53 \<le> ?q" using ilog2_bounds(1)[OF pos] by simp
    then have "n = 2 ^ 53" using assms(2)
      by (metis antisym of_int_le_iff of_int_numeral of_int_power)
    moreover have "fl_exp ?q = 1" using edge pos by (simp add: fl_exp_def)
    moreover have "rhe (2 ^ 53 / 2) = 2 ^ 52" using rhe_of_int[of "2 ^ 52"] by simp
    ultimately show ?thesis by (simp add: rnd64_def)
  qed
qed

lemma rnd64_of_int:
  assumes "\<bar>n\<bar> \<le> 2 ^ 53"
  shows "rnd64 (of_int n) = of_int n"
proof -
  consider "n = 0" | "0 < n" | "n < 0" by linarith
  then show ?thesis
  proof cases
    case 3
    then show ?thesis using rnd64_of_int_pos[of "- n"] rnd64_minus[of "of_int n"] assms by simp
  qed (use rnd64_of_int_pos[of n] assms in auto)
qed

text \<open>A power of two in range is a double, so rounding keeps every bound by one.\<close>

lemma ilog2_power [simp]: "ilog2 (2 powi k) = k"
proof -
  have "(2::rat) powi ilog2 (2 powi k) \<le> 2 powi k" "(2::rat) powi k < 2 powi (ilog2 (2 powi k) + 1)"
    using ilog2_bounds[of "2 powi k"] by simp_all
  then show ?thesis
    using power_int_2_mono[of "k + 1" "ilog2 (2 powi k)"] power_int_2_mono[of "ilog2 (2 powi k) + 1" k]
      power_int_2_add[of k 1] power_int_2_pos[of k] by (cases "ilog2 (2 powi k)" k rule: linorder_cases) force+
qed

lemma rnd64_power:
  assumes "-1074 \<le> k"
  shows "rnd64 (2 powi k) = 2 powi k"
proof -
  define e where "e = fl_exp (2 powi k)"
  have e: "e \<le> k" using assms by (simp add: e_def fl_exp_def)
  have "(2::rat) powi k / 2 powi e = 2 powi (k - e)"
    by (simp add: power_int_diff)
  also have "\<dots> = of_int (2 ^ nat (k - e))" using e by (simp add: power_int_nat)
  finally have d: "(2::rat) powi k / 2 powi e = of_int (2 ^ nat (k - e))" .
  have "rnd64 (2 powi k) = of_int (rhe (2 powi k / 2 powi e)) * 2 powi e"
    by (simp add: rnd64_def e_def)
  also have "\<dots> = (2 powi k / 2 powi e) * 2 powi e" by (simp only: d rhe_of_int)
  also have "\<dots> = 2 powi k" by simp
  finally show ?thesis .
qed

lemma rnd64_le_power: "q \<le> 2 ^ k \<Longrightarrow> rnd64 q \<le> 2 ^ k"
  using rnd64_mono[of q "2 ^ k"] rnd64_power[of "int k"] by simp

lemma rnd64_ge_power: "- (2 ^ k) \<le> q \<Longrightarrow> - (2 ^ k) \<le> rnd64 q"
  using rnd64_le_power[of "- q" k] rnd64_minus[of q] by simp

lemma fl64_finite:
  assumes "\<bar>q\<bar> \<le> 2 ^ k" and "k < 1024"
  shows "fl64 q = Fin (rnd64 q)"
proof -
  have "(2::rat) ^ k < 2 ^ 1024" using assms(2) by (intro power_strict_increasing) simp_all
  moreover have "rnd64 q \<le> 2 ^ k" "- (2 ^ k) \<le> rnd64 q"
    using assms(1) rnd64_le_power[of q k] rnd64_ge_power[of k q] by (simp_all add: abs_le_iff)
  ultimately show ?thesis by (simp add: fl64_def Let_def)
qed

lemma fl64_0 [simp]: "fl64 0 = Fin 0"
  using fl64_finite[of 0 0] by simp

lemma fl64_of_int: "\<bar>n\<bar> \<le> 2 ^ 53 \<Longrightarrow> fl64 (of_int n) = Fin (of_int n)"
proof -
  assume n: "\<bar>n\<bar> \<le> 2 ^ 53"
  then have "\<bar>of_int n :: rat\<bar> \<le> of_int (2 ^ 53)" by (simp only: of_int_abs[symmetric] of_int_le_iff)
  then have "fl64 (of_int n) = Fin (rnd64 (of_int n))" by (intro fl64_finite[where k = 53]) simp_all
  with n show ?thesis by (simp add: rnd64_of_int)
qed

lemma fl64_FinD: "fl64 q = Fin r \<Longrightarrow> r = rnd64 q"
  by (simp add: fl64_def Let_def split: if_splits)

lemma fl64_nonneg_cases:
  assumes "0 \<le> q"
  shows "fl64 q = PosInf \<or> fl64 q = Fin (rnd64 q) \<and> 0 \<le> rnd64 q"
  using rnd64_nonneg[OF assms] by (auto simp: fl64_def Let_def)

lemma fl64_mono: "p \<le> q \<Longrightarrow> fl64 p = Fin a \<Longrightarrow> fl64 q = Fin b \<Longrightarrow> a \<le> b"
  using rnd64_mono by (auto dest!: fl64_FinD)

lemma float_of_int_exact: "\<bar>n\<bar> \<le> 2 ^ 53 \<Longrightarrow> float_of_int n = Inr (of_int n)"
  by (simp add: float_of_int_def fl64_of_int)

lemma float_of_int_mono: "m \<le> n \<Longrightarrow> float_of_int m = Inr a \<Longrightarrow> float_of_int n = Inr b \<Longrightarrow> a \<le> b"
  by (auto simp: float_of_int_def split: pyfloat.splits intro: fl64_mono[of "of_int m" "of_int n"])

lemma float_of_int_nonneg: "0 \<le> n \<Longrightarrow> float_of_int n = Inr a \<Longrightarrow> 0 \<le> a"
  by (auto simp: float_of_int_def split: pyfloat.splits dest!: fl64_FinD intro!: rnd64_nonneg)

lemma float_of_int_pos:
  assumes "0 < n" and "float_of_int n = Inr a"
  shows "0 < a"
proof -
  have "float_of_int 1 = Inr 1" using float_of_int_exact[of 1] by simp
  then have "1 \<le> a" using float_of_int_mono[of 1 n 1 a] assms by simp
  then show ?thesis by simp
qed

lemma float_of_int_le_power:
  assumes "\<bar>n\<bar> \<le> 2 ^ k" and "k < 1024"
  shows "\<exists>a. float_of_int n = Inr a \<and> \<bar>a\<bar> \<le> 2 ^ k"
proof -
  have "\<bar>of_int n :: rat\<bar> \<le> of_int (2 ^ k)"
    using assms(1) by (simp only: of_int_abs[symmetric] of_int_le_iff)
  then have b: "\<bar>of_int n :: rat\<bar> \<le> 2 ^ k" by simp
  then have "\<bar>rnd64 (of_int n)\<bar> \<le> 2 ^ k"
    using rnd64_le_power[of "of_int n" k] rnd64_ge_power[of k "of_int n"] by (simp add: abs_le_iff)
  with fl64_finite[OF b assms(2)] show ?thesis by (simp add: float_of_int_def)
qed

lemma int_truediv_le_power:
  assumes "b \<noteq> 0" and "\<bar>of_int a / of_int b :: rat\<bar> \<le> 2 ^ k" and "k < 1024"
  shows "int_truediv a b = Inr (rnd64 (of_int a / of_int b))"
  using assms fl64_finite[OF assms(2,3)] by (simp add: int_truediv_def)

end
