(* ===== verification/Py_Text.thy ===== *)
theory Py_Text
  imports Py_Float
begin

text \<open>
  Strings and their conversions, as the backend uses them: \<open>str(u)\<close> and
  \<open>uuid.UUID(s)\<close>, \<open>str(n)\<close> and \<open>int(s)\<close>, \<open>lower\<close>, \<open>upper\<close>, \<open>strip\<close>,
  \<open>split\<close>, and JSON values. A string is a list of characters; the
  character operations are those of ASCII.
\<close>

subsection \<open>Positional numerals\<close>

fun fixed_digits :: "nat \<Rightarrow> nat \<Rightarrow> nat \<Rightarrow> nat list" where
  "fixed_digits b 0 n = []"
| "fixed_digits b (Suc k) n = fixed_digits b k (n div b) @ [n mod b]"

definition digits_value :: "nat \<Rightarrow> nat \<Rightarrow> nat list \<Rightarrow> nat" where
  "digits_value b acc ds = foldl (\<lambda>a d. b * a + d) acc ds"

lemma digits_value_simps [simp]:
  "digits_value b acc [] = acc"
  "digits_value b acc (d # ds) = digits_value b (b * acc + d) ds"
  "digits_value b acc (ds @ [d]) = b * digits_value b acc ds + d"
  by (simp_all add: digits_value_def)

lemma digits_value_fixed: "digits_value b 0 (fixed_digits b k n) = n mod b ^ k"
  by (induction k arbitrary: n) (simp_all add: mod_mult2_eq)

lemma length_fixed_digits [simp]: "length (fixed_digits b k n) = k"
  by (induction k arbitrary: n) simp_all

lemma fixed_digits_less: "0 < b \<Longrightarrow> d \<in> set (fixed_digits b k n) \<Longrightarrow> d < b"
  by (induction k arbitrary: n) auto

definition hex_chars :: string where
  "hex_chars = ''0123456789abcdef''"

definition digit_char :: "nat \<Rightarrow> char" where
  "digit_char d = hex_chars ! d"

definition digit_num :: "char \<Rightarrow> nat" where
  "digit_num c = (let n = of_char c :: nat in
     if 48 \<le> n \<and> n \<le> 57 then n - 48
     else if 97 \<le> n \<and> n \<le> 122 then n - 87
     else if 65 \<le> n \<and> n \<le> 90 then n - 55 else 36)"

definition digit_val :: "nat \<Rightarrow> char \<Rightarrow> nat option" where
  "digit_val b c = (if digit_num c < b then Some (digit_num c) else None)"

lemma digit_num_table: "list_all (\<lambda>d. digit_num (digit_char d) = d) [0..<16]"
  by code_simp

lemma digit_char_props:
  assumes "d < 16"
  shows "d < b \<Longrightarrow> digit_val b (digit_char d) = Some d"
    and "digit_char d \<in> set hex_chars"
proof -
  have "digit_num (digit_char d) = d" using assms digit_num_table by (simp add: list_all_iff)
  then show "d < b \<Longrightarrow> digit_val b (digit_char d) = Some d" by (simp add: digit_val_def)
  have "length hex_chars = 16" by (simp add: hex_chars_def)
  then show "digit_char d \<in> set hex_chars" using assms by (simp add: digit_char_def)
qed

text \<open>\<open>int(s, base)\<close>: digits, single underscores allowed between them.\<close>

fun parse_digits :: "nat \<Rightarrow> nat \<Rightarrow> string \<Rightarrow> nat option" where
  "parse_digits b acc [] = None"
| "parse_digits b acc (c # cs) =
     (case digit_val b c of None \<Rightarrow> None
      | Some d \<Rightarrow> (case cs of [] \<Rightarrow> Some (b * acc + d)
                 | c' # cs' \<Rightarrow> if c' = CHR ''_'' then parse_digits b (b * acc + d) cs'
                              else parse_digits b (b * acc + d) cs))"

lemma hex_chars_other: "c \<in> set hex_chars \<Longrightarrow> c \<notin> set ''-+_xXu{}.,=: ''"
proof -
  have "list_all (\<lambda>c. c \<notin> set ''-+_xXu{}.,=: '') hex_chars" by code_simp
  then show "c \<in> set hex_chars \<Longrightarrow> c \<notin> set ''-+_xXu{}.,=: ''" unfolding list_all_iff by blast
qed

definition is_ascii :: "string \<Rightarrow> bool" where
  "is_ascii s = list_all (\<lambda>c. of_char c < (128::nat)) s"

lemma hex_is_ascii:
  assumes "set s \<subseteq> set hex_chars"
  shows "is_ascii s"
proof -
  have "list_all (\<lambda>c. of_char c < (128::nat)) hex_chars" by code_simp
  then show ?thesis using assms by (auto simp: is_ascii_def list_all_iff)
qed

lemma digit_char_not_underscore: "d < 16 \<Longrightarrow> digit_char d \<noteq> CHR ''_''"
  using hex_chars_other[OF digit_char_props(2)] by auto

lemma parse_digits_map:
  "ds \<noteq> [] \<Longrightarrow> \<forall>d \<in> set ds. d < b \<Longrightarrow> b \<le> 16 \<Longrightarrow>
   parse_digits b acc (map digit_char ds) = Some (digits_value b acc ds)"
proof (induction ds arbitrary: acc)
  case Nil
  then show ?case by simp
next
  case (Cons d ds)
  then have d: "digit_val b (digit_char d) = Some d" by (intro digit_char_props(1)) auto
  show ?case
  proof (cases ds)
    case Nil
    then show ?thesis using d by simp
  next
    case (Cons e es)
    then have "digit_char e \<noteq> CHR ''_''" using Cons.prems by (intro digit_char_not_underscore) auto
    then show ?thesis using d Cons Cons.IH Cons.prems by simp
  qed
qed

definition is_space :: "char \<Rightarrow> bool" where
  "is_space c = (let n = of_char c :: nat in n = 32 \<or> (9 \<le> n \<and> n \<le> 13) \<or> (28 \<le> n \<and> n \<le> 31))"

definition strip_by :: "(char \<Rightarrow> bool) \<Rightarrow> string \<Rightarrow> string" where
  "strip_by p s = rev (dropWhile p (rev (dropWhile p s)))"

abbreviation py_strip :: "string \<Rightarrow> string" where
  "py_strip \<equiv> strip_by is_space"

lemma dropWhile_id: "\<forall>x \<in> set xs. \<not> p x \<Longrightarrow> dropWhile p xs = xs"
  by (cases xs) auto

lemma strip_by_id: "\<forall>c \<in> set s. \<not> p c \<Longrightarrow> strip_by p s = s"
  by (simp add: strip_by_def dropWhile_id)

definition py_int :: "string \<Rightarrow> int option" where
  "py_int s = (case py_strip s of [] \<Rightarrow> None
     | c # cs \<Rightarrow> if c = CHR ''-'' then map_option (\<lambda>n. - int n) (parse_digits 10 0 cs)
               else if c = CHR ''+'' then map_option int (parse_digits 10 0 cs)
               else map_option int (parse_digits 10 0 (c # cs)))"

text \<open>\<open>str(n)\<close>\<close>

fun nat_digits :: "nat \<Rightarrow> nat list" where
  "nat_digits n = (if n < 10 then [n] else nat_digits (n div 10) @ [n mod 10])"

declare nat_digits.simps [simp del]

definition str_int :: "int \<Rightarrow> string" where
  "str_int n = (if n < 0 then CHR ''-'' # map digit_char (nat_digits (nat (- n)))
                else map digit_char (nat_digits (nat n)))"

lemma nat_digits_props:
  "nat_digits n \<noteq> [] \<and> (\<forall>d \<in> set (nat_digits n). d < 10) \<and> digits_value 10 0 (nat_digits n) = n"
proof (induction n rule: nat_digits.induct)
  case (1 n)
  show ?case
  proof (cases "n < 10")
    case True
    then show ?thesis by (simp add: nat_digits.simps)
  next
    case False
    then show ?thesis using "1" by (subst (1 2 3) nat_digits.simps) auto
  qed
qed

lemma map_digit_char_hex:
  "\<forall>d \<in> set ds. d < 16 \<Longrightarrow> c \<in> set (map digit_char ds) \<Longrightarrow> c \<in> set hex_chars"
  using digit_char_props(2) by auto

lemma nat_digits_less: "\<forall>d \<in> set (nat_digits n). d < 16"
  using nat_digits_props[of n] by fastforce

lemma str_int_chars: "c \<in> set (str_int n) \<Longrightarrow> c = CHR ''-'' \<or> c \<in> set hex_chars"
  using map_digit_char_hex[OF nat_digits_less]
  by (auto simp: str_int_def simp del: set_map split: if_splits)

lemma hex_chars_plain:
  "c \<in> set hex_chars \<Longrightarrow> \<not> is_space c \<and> c \<noteq> CHR ''-'' \<and> c \<noteq> CHR ''+''"
proof -
  have "list_all (\<lambda>c. \<not> is_space c) hex_chars" by code_simp
  then show "c \<in> set hex_chars \<Longrightarrow> \<not> is_space c \<and> c \<noteq> CHR ''-'' \<and> c \<noteq> CHR ''+''"
    using hex_chars_other[of c] by (simp add: list_all_iff)
qed

lemma py_int_str_int [simp]: "py_int (str_int n) = Some n"
proof -
  let ?ds = "nat_digits (nat \<bar>n\<bar>)"
  have ds: "?ds \<noteq> []" "\<forall>d \<in> set ?ds. d < 10" "digits_value 10 0 ?ds = nat \<bar>n\<bar>"
    using nat_digits_props[of "nat \<bar>n\<bar>"] by auto
  have p: "parse_digits 10 0 (map digit_char ?ds) = Some (nat \<bar>n\<bar>)"
    using parse_digits_map[of ?ds 10 0] ds by simp
  have hex: "\<forall>c \<in> set (map digit_char ?ds). c \<in> set hex_chars"
    using map_digit_char_hex[OF nat_digits_less] by blast
  obtain c cs where c: "map digit_char ?ds = c # cs" using ds(1) by (cases ?ds) auto
  have cp: "c \<noteq> CHR ''-''" "c \<noteq> CHR ''+''" using hex hex_chars_plain unfolding c by auto
  have s: "py_strip (str_int n) = str_int n"
  proof (rule strip_by_id, rule ballI)
    fix c assume "c \<in> set (str_int n)"
    then have "c = CHR ''-'' \<or> c \<in> set hex_chars" by (rule str_int_chars)
    moreover have "\<not> is_space (CHR ''-'')" by (simp add: is_space_def)
    ultimately show "\<not> is_space c" using hex_chars_plain by blast
  qed
  show ?thesis
  proof (cases "n < 0")
    case True
    then have "str_int n = CHR ''-'' # map digit_char ?ds" by (simp add: str_int_def)
    then show ?thesis using s p True by (simp add: py_int_def)
  next
    case False
    then have e: "str_int n = map digit_char ?ds" by (simp add: str_int_def)
    show ?thesis using s p c cp False by (simp add: py_int_def e)
  qed
qed

lemma str_int_inject [simp]: "str_int m = str_int n \<longleftrightarrow> m = n"
  using py_int_str_int by (metis option.inject)

subsection \<open>UUIDs\<close>

definition uuid_hex :: "uuid \<Rightarrow> string" where
  "uuid_hex u = map digit_char (fixed_digits 16 32 (unat u))"

definition str_uuid :: "uuid \<Rightarrow> string" where
  "str_uuid u = (let h = uuid_hex u in
     take 8 h @ ''-'' @ take 4 (drop 8 h) @ ''-'' @ take 4 (drop 12 h) @ ''-''
     @ take 4 (drop 16 h) @ ''-'' @ drop 20 h)"

text \<open>\<open>s.replace(old, '')\<close> for a non-empty \<open>old = o # os\<close>.\<close>

fun remove_sub :: "char \<Rightarrow> string \<Rightarrow> string \<Rightarrow> string" where
  "remove_sub a as [] = []"
| "remove_sub a as (x # xs) =
     (if x = a \<and> take (length as) xs = as then remove_sub a as (drop (length as) xs)
      else x # remove_sub a as xs)"

text \<open>
  \<open>uuid.UUID(s)\<close>, \<open>None\<close> standing for the \<open>ValueError\<close>: the prefixes \<open>urn:\<close> and
  \<open>uuid:\<close> and the dashes are removed, braces stripped, 32 characters must remain and
  parse as a base-16 integer (blanks around, a plus sign, a \<open>0x\<close> prefix and underscores
  are accepted by \<open>int\<close>).
\<close>

definition hex_body :: "string \<Rightarrow> string" where
  "hex_body s = (case s of c # d # r \<Rightarrow>
       if c = CHR ''0'' \<and> (d = CHR ''x'' \<or> d = CHR ''X'')
       then (case r of e # r' \<Rightarrow> if e = CHR ''_'' then r' else r | [] \<Rightarrow> r) else s
     | _ \<Rightarrow> s)"

definition py_int16 :: "string \<Rightarrow> nat option" where
  "py_int16 s = (case py_strip s of [] \<Rightarrow> None
     | c # cs \<Rightarrow> parse_digits 16 0 (hex_body (if c = CHR ''+'' then cs else c # cs)))"

definition uuid_of_string :: "string \<Rightarrow> uuid option" where
  "uuid_of_string s =
     (let a = remove_sub (CHR ''u'') ''uid:'' (remove_sub (CHR ''u'') ''rn:'' s);
          h = remove_sub (CHR ''-'') [] (strip_by (\<lambda>c. c = CHR ''{'' \<or> c = CHR ''}'') a)
      in if length h \<noteq> 32 then None else map_option of_nat (py_int16 h))"

lemma remove_sub_id: "a \<notin> set s \<Longrightarrow> remove_sub a as s = s"
  by (induction s) auto

lemma remove_sub_single: "remove_sub a [] s = filter (\<lambda>c. c \<noteq> a) s"
  by (induction s) auto

lemma uuid_hex_chars: "c \<in> set (uuid_hex u) \<Longrightarrow> c \<in> set hex_chars"
  unfolding uuid_hex_def using fixed_digits_less[of 16] by (intro map_digit_char_hex) simp_all

lemma length_uuid_hex [simp]: "length (uuid_hex u) = 32"
  by (simp add: uuid_hex_def)

lemma filter_id_hex: "\<forall>c \<in> set h. c \<noteq> CHR ''-'' \<Longrightarrow> filter (\<lambda>c. c \<noteq> CHR ''-'') h = h"
  by (simp add: filter_id_conv)

lemma str_uuid_undash: "filter (\<lambda>c. c \<noteq> CHR ''-'') (str_uuid u) = uuid_hex u"
proof -
  let ?h = "uuid_hex u"
  have nd: "\<And>c. c \<in> set ?h \<Longrightarrow> c \<noteq> CHR ''-''" using uuid_hex_chars hex_chars_plain by blast
  have f: "\<And>m k. filter (\<lambda>c. c \<noteq> CHR ''-'') (take m (drop k ?h)) = take m (drop k ?h)"
    by (rule filter_id_hex) (blast dest: in_set_takeD in_set_dropD nd)
  have split: "?h = take 8 (drop 0 ?h) @ take 4 (drop 8 ?h) @ take 4 (drop 12 ?h)
      @ take 4 (drop 16 ?h) @ take 12 (drop 20 ?h)"
    using append_take_drop_id[of 8 ?h] append_take_drop_id[of 4 "drop 8 ?h"]
      append_take_drop_id[of 4 "drop 12 ?h"] append_take_drop_id[of 4 "drop 16 ?h"]
    by (simp add: drop_drop)
  have "str_uuid u = take 8 (drop 0 ?h) @ ''-'' @ take 4 (drop 8 ?h) @ ''-'' @ take 4 (drop 12 ?h)
      @ ''-'' @ take 4 (drop 16 ?h) @ ''-'' @ take 12 (drop 20 ?h)"
    by (simp add: str_uuid_def Let_def)
  then have "filter (\<lambda>c. c \<noteq> CHR ''-'') (str_uuid u) = take 8 (drop 0 ?h) @ take 4 (drop 8 ?h)
      @ take 4 (drop 12 ?h) @ take 4 (drop 16 ?h) @ take 12 (drop 20 ?h)"
    by (simp only: filter_append f) simp
  then show ?thesis using split by simp
qed

lemma set_str_uuid: "set (str_uuid u) \<subseteq> insert (CHR ''-'') (set (uuid_hex u))"
  by (auto simp: str_uuid_def Let_def dest: in_set_takeD in_set_dropD)

lemma py_int16_uuid_hex: "py_int16 (uuid_hex u) = Some (unat u)"
proof -
  let ?ds = "fixed_digits 16 32 (unat u)"
  have lt: "\<forall>d \<in> set ?ds. d < 16" using fixed_digits_less[of 16] by simp
  have ne: "?ds \<noteq> []" by (metis length_fixed_digits length_0_conv zero_neq_numeral)
  have "unat u < 16 ^ 32" using unsigned_less[of u] by simp
  then have p: "parse_digits 16 0 (uuid_hex u) = Some (unat u)"
    unfolding uuid_hex_def using parse_digits_map[OF ne lt, of 0] digits_value_fixed[of 16 32 "unat u"]
    by simp
  have s: "py_strip (uuid_hex u) = uuid_hex u"
    by (rule strip_by_id) (use uuid_hex_chars hex_chars_plain in blast)
  have "length (uuid_hex u) = Suc (Suc 30)" by simp
  then obtain c d r where c: "uuid_hex u = c # d # r"
    by (metis length_Suc_conv)
  have hc: "c \<in> set hex_chars" "d \<in> set hex_chars"
    using uuid_hex_chars[of c u] uuid_hex_chars[of d u] unfolding c by simp_all
  then have "c \<noteq> CHR ''+''" "d \<noteq> CHR ''x''" "d \<noteq> CHR ''X''"
    using hex_chars_other[of c] hex_chars_other[of d] by auto
  then show ?thesis using p s c by (simp add: py_int16_def hex_body_def)
qed

lemma uuid_of_string_str [simp]: "uuid_of_string (str_uuid u) = Some u"
proof -
  have chars: "\<And>c. c \<in> set (str_uuid u) \<Longrightarrow> c = CHR ''-'' \<or> c \<in> set hex_chars"
    using set_str_uuid[of u] uuid_hex_chars[of _ u] by blast
  have nu: "CHR ''u'' \<notin> set (str_uuid u)"
    using chars[of "CHR ''u''"] hex_chars_other[of "CHR ''u''"] by auto
  have nb: "\<forall>c \<in> set (str_uuid u). \<not> (c = CHR ''{'' \<or> c = CHR ''}'')"
  proof
    fix c assume "c \<in> set (str_uuid u)"
    then show "\<not> (c = CHR ''{'' \<or> c = CHR ''}'')" using chars[of c] hex_chars_other[of c] by auto
  qed
  show ?thesis
    by (simp add: uuid_of_string_def remove_sub_id[OF nu] strip_by_id[OF nb] remove_sub_single
        str_uuid_undash py_int16_uuid_hex)
qed

lemma str_uuid_nonempty [simp]: "str_uuid u \<noteq> []"
  by (simp add: str_uuid_def Let_def)

lemma str_uuid_inject [simp]: "str_uuid u = str_uuid v \<longleftrightarrow> u = v"
  using uuid_of_string_str by (metis option.inject)

subsection \<open>Case, splitting, JSON\<close>

definition char_lower :: "char \<Rightarrow> char" where
  "char_lower c = (let n = of_char c :: nat in if 65 \<le> n \<and> n \<le> 90 then char_of (n + 32) else c)"

definition char_upper :: "char \<Rightarrow> char" where
  "char_upper c = (let n = of_char c :: nat in if 97 \<le> n \<and> n \<le> 122 then char_of (n - 32) else c)"

abbreviation py_lower :: "string \<Rightarrow> string" where "py_lower s \<equiv> map char_lower s"
abbreviation py_upper :: "string \<Rightarrow> string" where "py_upper s \<equiv> map char_upper s"

lemma char_lower_idem [simp]: "char_lower (char_lower c) = char_lower c"
  by (auto simp: char_lower_def Let_def)

lemma char_lower_upper [simp]: "char_lower (char_upper c) = char_lower c"
  by (auto simp: char_lower_def char_upper_def Let_def)

lemma char_upper_lower [simp]: "char_upper (char_lower c) = char_upper c"
  by (auto simp: char_lower_def char_upper_def Let_def)

text \<open>\<open>s.split(c)\<close> and \<open>s.split(c, 1)\<close> unpacked into two names (\<open>None\<close>: a \<open>ValueError\<close>).\<close>

fun split_on :: "char \<Rightarrow> string \<Rightarrow> string list" where
  "split_on c [] = [[]]"
| "split_on c (x # xs) = (if x = c then [] # split_on c xs
     else (case split_on c xs of w # ws \<Rightarrow> (x # w) # ws | [] \<Rightarrow> [[x]]))"

fun split_once :: "char \<Rightarrow> string \<Rightarrow> (string \<times> string) option" where
  "split_once c [] = None"
| "split_once c (x # xs) = (if x = c then Some ([], xs)
     else map_option (\<lambda>(a, b). (x # a, b)) (split_once c xs))"

lemma split_on_no_sep [simp]: "c \<notin> set s \<Longrightarrow> split_on c s = [s]"
  by (induction s) auto

lemma split_on_sep [simp]: "c \<notin> set s \<Longrightarrow> split_on c (s @ c # t) = s # split_on c t"
  by (induction s) auto

lemma split_once_sep [simp]: "c \<notin> set s \<Longrightarrow> split_once c (s @ c # t) = Some (s, t)"
  by (induction s) auto

lemma split_once_SomeD: "split_once c s = Some (a, b) \<Longrightarrow> s = a @ c # b \<and> c \<notin> set a"
  by (induction s arbitrary: a b) (auto split: if_splits)

lemma split_once_NoneD: "split_once c s = None \<Longrightarrow> c \<notin> set s"
  by (induction s) (auto split: if_splits)

datatype json = JNull | JBool bool | JInt int | JFloat pyfloat | JStr string | JList "json list"
  | JObj "(string \<times> json) list"

fun jopt_str :: "string option \<Rightarrow> json" where
  "jopt_str None = JNull"
| "jopt_str (Some s) = JStr s"

text \<open>
  \<open>d.get(k)\<close> on a decoded body that must be an object. A duplicate key keeps its last value,
  as \<open>json.loads\<close> does; \<open>jget\<close> on anything but an object is \<open>None\<close>, which the
  callers turn into the \<open>AttributeError\<close> Python raises.
\<close>

definition jfield :: "(string \<times> json) list \<Rightarrow> string \<Rightarrow> json option" where
  "jfield kvs k = map_of (rev kvs) k"

definition jget :: "json \<Rightarrow> string \<Rightarrow> json \<Rightarrow> json option" where
  "jget j k dflt = (case j of JObj kvs \<Rightarrow> Some (case jfield kvs k of None \<Rightarrow> dflt | Some v \<Rightarrow> v) | _ \<Rightarrow> None)"

text \<open>Python truth of a JSON value (\<open>0.0\<close> is false, \<open>nan\<close> is true).\<close>

definition jtrue :: "json \<Rightarrow> bool" where
  "jtrue j \<longleftrightarrow> j \<notin> {JNull, JBool False, JInt 0, JFloat (Fin 0), JStr [], JList [], JObj []}"

lemma jfield_simps [simp]:
  "jfield [] k = None"
  "jfield ((a, v) # kvs) k = (case jfield kvs k of Some w \<Rightarrow> Some w | None \<Rightarrow> if k = a then Some v else None)"
  by (auto simp: jfield_def map_add_def split: option.splits)

text \<open>
  The built-in exceptions the components let escape. \<open>IllTyped\<close> marks a JSON value of a
  type the annotations exclude: what Python does with it from there on is not modelled.
\<close>

datatype py_error = KeyError string | AttributeError | TypeError | IndexError
  | PyValueError string | RuntimeError string | Arith arith_error | IllTyped

text \<open>\<open>d[k]\<close> on a decoded value.\<close>

definition jitem :: "json \<Rightarrow> string \<Rightarrow> py_error + json" where
  "jitem j k = (case j of JObj kvs \<Rightarrow> (case jfield kvs k of None \<Rightarrow> Inl (KeyError k) | Some v \<Rightarrow> Inr v)
     | _ \<Rightarrow> Inl TypeError)"

text \<open>\<open>uuid.UUID(x)\<close> on a decoded value.\<close>

fun uuid_of_json :: "json \<Rightarrow> py_error + uuid" where
  "uuid_of_json (JStr s) = (case uuid_of_string s of
      None \<Rightarrow> Inl (PyValueError ''badly formed hexadecimal UUID string'') | Some u \<Rightarrow> Inr u)"
| "uuid_of_json JNull = Inl TypeError"
| "uuid_of_json _ = Inl AttributeError"

subsection \<open>Bytes in hexadecimal\<close>

text \<open>\<open>bytes.hex()\<close> and \<open>bytes.fromhex\<close>, which skips ASCII white space between bytes.\<close>

definition hex_byte :: "char \<Rightarrow> string" where
  "hex_byte c = [digit_char (of_char c div 16), digit_char (of_char c mod 16)]"

definition bytes_hex :: "string \<Rightarrow> string" where
  "bytes_hex bs = concat (map hex_byte bs)"

definition ascii_space :: "char \<Rightarrow> bool" where
  "ascii_space c \<longleftrightarrow> c \<in> {CHR 0x09, CHR 0x0A, CHR 0x0B, CHR 0x0C, CHR 0x0D, CHR '' ''}"

fun bytes_fromhex :: "string \<Rightarrow> string option" where
  "bytes_fromhex [] = Some []"
| "bytes_fromhex [c] = (if ascii_space c then Some [] else None)"
| "bytes_fromhex (c # d # cs) =
     (if ascii_space c then bytes_fromhex (d # cs)
      else case (digit_val 16 c, digit_val 16 d) of
        (Some h, Some l) \<Rightarrow> map_option (Cons (char_of (16 * h + l))) (bytes_fromhex cs)
      | _ \<Rightarrow> None)"

lemma byte_nibbles: "(of_char b :: nat) div 16 < 16" "(of_char b :: nat) mod 16 < 16"
  by (rule less_mult_imp_div_less) (simp_all add: nat_of_char_less_256)

lemma digit_char_not_space: "d < 16 \<Longrightarrow> \<not> ascii_space (digit_char d)"
proof -
  have "list_all (\<lambda>d. \<not> ascii_space (digit_char d)) [0..<16]" by code_simp
  then show "d < 16 \<Longrightarrow> ?thesis" by (simp add: list_all_iff)
qed

lemma bytes_fromhex_hex [simp]: "bytes_fromhex (bytes_hex bs) = Some bs"
proof (induction bs)
  case Nil
  show ?case by (simp add: bytes_hex_def)
next
  case (Cons b bs)
  have "char_of (16 * (of_char b div 16) + of_char b mod 16 :: nat) = b" by simp
  then show ?case
    using Cons byte_nibbles by (simp add: bytes_hex_def hex_byte_def digit_char_not_space digit_char_props(1))
qed

lemma bytes_hex_inject [simp]: "bytes_hex a = bytes_hex b \<longleftrightarrow> a = b"
  by (metis bytes_fromhex_hex option.inject)

lemma set_bytes_hex: "set (bytes_hex bs) \<subseteq> set hex_chars"
proof (induction bs)
  case Nil
  show ?case by (simp add: bytes_hex_def)
next
  case (Cons b bs)
  with byte_nibbles show ?case by (simp add: bytes_hex_def hex_byte_def digit_char_props(2))
qed

subsection \<open>Sequencing of fallible expressions\<close>

text \<open>Evaluation order of the arguments of a call: the first one that raises decides.\<close>

definition rbind :: "'e + 'a \<Rightarrow> ('a \<Rightarrow> 'e + 'b) \<Rightarrow> 'e + 'b" where
  "rbind x f = (case x of Inl e \<Rightarrow> Inl e | Inr a \<Rightarrow> f a)"

lemma rbind_simps [simp]: "rbind (Inl e) f = Inl e" "rbind (Inr a) f = f a"
  by (simp_all add: rbind_def)

lemma rbind_Inr: "rbind x f = Inr b \<longleftrightarrow> (\<exists>a. x = Inr a \<and> f a = Inr b)"
  by (cases x) simp_all

text \<open>\<open>iter(x)\<close> on a decoded value: a list, the characters of a string, the keys of an object.\<close>

fun iter_json :: "json \<Rightarrow> json list option" where
  "iter_json (JList xs) = Some xs"
| "iter_json (JStr s) = Some (map (\<lambda>c. JStr [c]) s)"
| "iter_json (JObj kvs) = Some (map JStr (rev (remdups (rev (map fst kvs)))))"
| "iter_json _ = None"

subsection \<open>HTTP errors\<close>

text \<open>
  A route handler either answers, raises \<open>HTTPException(status_code, detail)\<close>, or lets
  another exception escape (which the framework turns into a 500).
\<close>

datatype 'e http_error = HTTPException int string | Raised 'e

end
