(* ===== verification/Tariffs.thy ===== *)
theory Tariffs
  imports Py_Float Py_Text
begin

text \<open>
  Tariffs (\<open>billing/tariff_calculator.py\<close>, \<open>tariff_validation.py\<close>, \<open>tariffs.py\<close>,
  \<open>tariff_versioning.py\<close>, \<open>tariff_router.py\<close>): the pure cost calculator on doubles,
  save-time validation, the in-memory store and the service over it, versions, and the
  admin routes.
\<close>

subsection \<open>The calculator\<close>

record tariff_component =
  tc_type :: string
  tc_price :: int
  tc_step :: int
  tc_after :: "int option"

definition proportional_cost :: "pyfloat \<Rightarrow> int \<Rightarrow> int \<Rightarrow> arith_error + int" where
  "proportional_cost quantity step price =
     (if step \<le> 0 then Inl ValueError
      else case float_of_int step of Inl e \<Rightarrow> Inl e
      | Inr s \<Rightarrow> (case float_of_int price of Inl e \<Rightarrow> Inl e
        | Inr p \<Rightarrow> py_round (fmul_fin (fdiv_fin quantity s) p)))"

definition billable_idle :: "pyfloat \<Rightarrow> int option \<Rightarrow> arith_error + pyfloat" where
  "billable_idle idle after =
     (case float_of_int (case after of None \<Rightarrow> 0 | Some g \<Rightarrow> g) of Inl e \<Rightarrow> Inl e
      | Inr g \<Rightarrow> Inr (fmax0 (fsub idle (Fin g))))"

definition component_cost ::
  "tariff_component \<Rightarrow> pyfloat \<Rightarrow> pyfloat \<Rightarrow> pyfloat \<Rightarrow> arith_error + int" where
  "component_cost c duration kwh idle =
     (if tc_type c = ''energy'' then proportional_cost kwh (tc_step c) (tc_price c)
      else if tc_type c = ''time'' then proportional_cost duration (tc_step c) (tc_price c)
      else if tc_type c = ''flat'' then Inr (tc_price c)
      else if tc_type c = ''idle'' then
        (case billable_idle idle (tc_after c) of Inl e \<Rightarrow> Inl e
         | Inr b \<Rightarrow> proportional_cost b (tc_step c) (tc_price c))
      else Inl ValueError)"

fun cost_loop ::
  "int \<Rightarrow> tariff_component list \<Rightarrow> pyfloat \<Rightarrow> pyfloat \<Rightarrow> pyfloat \<Rightarrow> arith_error + int" where
  "cost_loop acc [] duration kwh idle = Inr acc"
| "cost_loop acc (c # cs) duration kwh idle =
     (case component_cost c duration kwh idle of Inl e \<Rightarrow> Inl e
      | Inr n \<Rightarrow> cost_loop (acc + n) cs duration kwh idle)"

definition calculate_session_cost ::
  "tariff_component list \<Rightarrow> pyfloat \<Rightarrow> pyfloat \<Rightarrow> pyfloat \<Rightarrow> arith_error + int" where
  "calculate_session_cost cs duration kwh idle = cost_loop 0 cs duration kwh idle"

subsection \<open>Validation\<close>

datatype tariff_error =
    TariffValidationError string
  | TariffNotFoundError string
  | PricingError arith_error

fun check_steps :: "tariff_component list \<Rightarrow> tariff_error + unit" where
  "check_steps [] = Inr ()"
| "check_steps (c # cs) =
     (if tc_step c \<le> 0
      then Inl (TariffValidationError (''step_size must be > 0 (component type='' @ tc_type c @ '')''))
      else check_steps cs)"

definition validate_tariff_components :: "tariff_component list \<Rightarrow> tariff_error + unit" where
  "validate_tariff_components cs =
     (if \<not> list_ex (\<lambda>c. tc_type c = ''energy'' \<or> tc_type c = ''time'') cs
      then Inl (TariffValidationError ''tariff must include at least one energy or time component'')
      else check_steps cs)"

subsection \<open>The store, the currency provider and the service\<close>

record tariff =
  t_id :: uuid
  t_tenant :: uuid
  t_name :: string
  t_currency :: string
  t_components :: "tariff_component list"

type_synonym tariff_store = "(uuid, tariff) pydict"

definition tariff_store_create ::
  "uuid \<Rightarrow> uuid \<Rightarrow> string \<Rightarrow> string \<Rightarrow> tariff_component list \<Rightarrow> tariff_store \<Rightarrow> tariff \<times> tariff_store" where
  "tariff_store_create new_id tenant name currency cs st =
     (let t = \<lparr>t_id = new_id, t_tenant = tenant, t_name = name, t_currency = currency, t_components = cs\<rparr>
      in (t, dict_set new_id t st))"

definition tariff_store_update ::
  "uuid \<Rightarrow> string \<Rightarrow> tariff_component list \<Rightarrow> tariff_store \<Rightarrow> (tariff_error + tariff) \<times> tariff_store" where
  "tariff_store_update tid name cs st =
     (case dict_get st tid of None \<Rightarrow> (Inl (TariffNotFoundError (str_uuid tid)), st)
      | Some existing \<Rightarrow>
          let t = \<lparr>t_id = tid, t_tenant = t_tenant existing, t_name = name,
                   t_currency = t_currency existing, t_components = cs\<rparr>
          in (Inr t, dict_set tid t st))"

definition tariff_store_get :: "tariff_store \<Rightarrow> uuid \<Rightarrow> tariff option" where
  "tariff_store_get st tid = dict_get st tid"

definition tariff_store_list_all :: "tariff_store \<Rightarrow> tariff list" where
  "tariff_store_list_all st = dict_values st"

record currency_provider =
  cp_currencies :: "(uuid, string) pydict"
  cp_default :: string

definition set_currency :: "uuid \<Rightarrow> string \<Rightarrow> currency_provider \<Rightarrow> currency_provider" where
  "set_currency tenant currency p = p\<lparr>cp_currencies := dict_set tenant currency (cp_currencies p)\<rparr>"

definition get_currency :: "currency_provider \<Rightarrow> uuid \<Rightarrow> string" where
  "get_currency p tenant = dict_get_default (cp_currencies p) tenant (cp_default p)"

record tariff_service =
  ts_store :: tariff_store
  ts_currency :: currency_provider

definition create_tariff ::
  "uuid \<Rightarrow> uuid \<Rightarrow> string \<Rightarrow> tariff_component list \<Rightarrow> tariff_service
    \<Rightarrow> (tariff_error + tariff) \<times> tariff_service" where
  "create_tariff new_id tenant name cs s =
     (case validate_tariff_components cs of Inl e \<Rightarrow> (Inl e, s)
      | Inr _ \<Rightarrow>
          (let (t, st) = tariff_store_create new_id tenant name (get_currency (ts_currency s) tenant) cs (ts_store s)
           in (Inr t, s\<lparr>ts_store := st\<rparr>)))"

definition update_tariff ::
  "uuid \<Rightarrow> string \<Rightarrow> tariff_component list \<Rightarrow> tariff_service
    \<Rightarrow> (tariff_error + tariff) \<times> tariff_service" where
  "update_tariff tid name cs s =
     (case validate_tariff_components cs of Inl e \<Rightarrow> (Inl e, s)
      | Inr _ \<Rightarrow> (let (r, st) = tariff_store_update tid name cs (ts_store s)
                 in (r, s\<lparr>ts_store := st\<rparr>)))"

definition preview ::
  "tariff_service \<Rightarrow> uuid \<Rightarrow> pyfloat \<Rightarrow> pyfloat \<Rightarrow> pyfloat \<Rightarrow> tariff_error + int" where
  "preview s tid duration kwh idle =
     (case tariff_store_get (ts_store s) tid of None \<Rightarrow> Inl (TariffNotFoundError (str_uuid tid))
      | Some t \<Rightarrow> (case calculate_session_cost (t_components t) duration kwh idle of
            Inl e \<Rightarrow> Inl (PricingError e) | Inr n \<Rightarrow> Inr n))"

definition list_all_tariffs :: "tariff_service \<Rightarrow> tariff list" where
  "list_all_tariffs s = tariff_store_list_all (ts_store s)"

definition get_tariff :: "tariff_service \<Rightarrow> uuid \<Rightarrow> tariff option" where
  "get_tariff s tid = tariff_store_get (ts_store s) tid"

lemmas tariff_service_defs [store_defs] =
  tariff_store_create_def tariff_store_update_def tariff_store_get_def tariff_store_list_all_def
  create_tariff_def update_tariff_def preview_def list_all_tariffs_def get_tariff_def

subsection \<open>Admin routes\<close>

text \<open>
  The request bodies are the calculator's components (\<open>_to_inputs\<close> copies the fields of
  \<open>TariffComponentBody\<close> one by one), so a body is a name and a component list.
\<close>

record tariff_component_body =
  b_type :: string
  b_price :: int
  b_step :: int
  b_after :: "int option"

definition to_inputs :: "tariff_component_body list \<Rightarrow> tariff_component list" where
  "to_inputs bs = map (\<lambda>b. \<lparr>tc_type = b_type b, tc_price = b_price b, tc_step = b_step b, tc_after = b_after b\<rparr>) bs"

definition tariff_json :: "tariff \<Rightarrow> json" where
  "tariff_json t = JObj [(''id'', JStr (str_uuid (t_id t))), (''name'', JStr (t_name t)),
     (''currency'', JStr (t_currency t))]"

definition route_list_tariffs :: "uuid option \<Rightarrow> tariff_service \<Rightarrow> json" where
  "route_list_tariffs tenant s =
     (let ts = list_all_tariffs s;
          ts' = (case tenant of None \<Rightarrow> ts | Some i \<Rightarrow> filter (\<lambda>t. t_tenant t = i) ts)
      in JObj [(''data'', JList (map tariff_json ts'))])"

definition route_create_tariff ::
  "uuid \<Rightarrow> uuid \<Rightarrow> string \<Rightarrow> tariff_component_body list \<Rightarrow> tariff_service
    \<Rightarrow> (tariff_error http_error + json) \<times> tariff_service" where
  "route_create_tariff new_id tenant name bs s =
     (case create_tariff new_id tenant name (to_inputs bs) s of
        (Inl (TariffValidationError m), s') \<Rightarrow> (Inl (HTTPException 422 m), s')
      | (Inl e, s') \<Rightarrow> (Inl (Raised e), s')
      | (Inr t, s') \<Rightarrow> (Inr (tariff_json t), s'))"

definition route_update_tariff ::
  "uuid \<Rightarrow> string \<Rightarrow> tariff_component_body list \<Rightarrow> tariff_service
    \<Rightarrow> (tariff_error http_error + json) \<times> tariff_service" where
  "route_update_tariff tid name bs s =
     (case update_tariff tid name (to_inputs bs) s of
        (Inl (TariffValidationError m), s') \<Rightarrow> (Inl (HTTPException 422 m), s')
      | (Inl (TariffNotFoundError m), s') \<Rightarrow> (Inl (HTTPException 404 ''tariff not found''), s')
      | (Inl e, s') \<Rightarrow> (Inl (Raised e), s')
      | (Inr t, s') \<Rightarrow> (Inr (tariff_json t), s'))"

definition route_preview_tariff ::
  "uuid \<Rightarrow> pyfloat \<Rightarrow> pyfloat \<Rightarrow> pyfloat \<Rightarrow> tariff_service \<Rightarrow> tariff_error http_error + json" where
  "route_preview_tariff tid duration kwh idle s =
     (case preview s tid duration kwh idle of
        Inl (TariffNotFoundError m) \<Rightarrow> Inl (HTTPException 404 ''tariff not found'')
      | Inl e \<Rightarrow> Inl (Raised e)
      | Inr n \<Rightarrow> Inr (JObj [(''total_minor_units'', JInt n)]))"

subsection \<open>Versions\<close>

record tariff_version =
  tv_id :: uuid
  tv_tariff :: uuid
  tv_no :: int
  tv_from :: datetime
  tv_to :: "datetime option"

definition add_version ::
  "uuid \<Rightarrow> uuid \<Rightarrow> int \<Rightarrow> datetime \<Rightarrow> datetime option \<Rightarrow> tariff_version list
    \<Rightarrow> tariff_version \<times> tariff_version list" where
  "add_version new_id tid no frm to vs =
     (let v = \<lparr>tv_id = new_id, tv_tariff = tid, tv_no = no, tv_from = frm, tv_to = to\<rparr> in (v, vs @ [v]))"

definition version_covers :: "uuid \<Rightarrow> datetime \<Rightarrow> tariff_version \<Rightarrow> bool" where
  "version_covers tid moment v \<longleftrightarrow> tv_tariff v = tid \<and> tv_from v \<le> moment
     \<and> (case tv_to v of None \<Rightarrow> True | Some e \<Rightarrow> moment < e)"

definition get_active_version :: "tariff_version list \<Rightarrow> uuid \<Rightarrow> datetime \<Rightarrow> tariff_version option" where
  "get_active_version vs tid moment = max_key tv_from (filter (version_covers tid moment) vs)"

subsection \<open>Lemmas on the calculator\<close>

lemma py_round_Inr: "py_round x = Inr n \<longleftrightarrow> (\<exists>q. x = Fin q \<and> n = rhe q)"
  by (cases x) auto

lemma fmul_fin_FinD: "fmul_fin x p = Fin v \<Longrightarrow> \<exists>u. x = Fin u \<and> fl64 (u * p) = Fin v"
  by (cases x) (auto split: if_splits)

lemma fdiv_fin_FinD: "fdiv_fin x s = Fin u \<Longrightarrow> \<exists>a. x = Fin a \<and> fl64 (a / s) = Fin u"
  by (cases x) (auto split: if_splits)

lemma proportional_cost_InrD:
  assumes "proportional_cost q step price = Inr n"
  obtains a s p u v where "q = Fin a" "0 < step" "float_of_int step = Inr s" "0 < s"
    "float_of_int price = Inr p" "fl64 (a / s) = Fin u" "fl64 (u * p) = Fin v" "n = rhe v"
proof -
  obtain s p where sp: "0 < step" "float_of_int step = Inr s" "float_of_int price = Inr p"
    "py_round (fmul_fin (fdiv_fin q s) p) = Inr n"
    using assms by (auto simp: proportional_cost_def split: if_splits sum.splits)
  then obtain a u v where "q = Fin a" "fl64 (a / s) = Fin u" "fl64 (u * p) = Fin v" "n = rhe v"
    by (auto simp: py_round_Inr dest!: fmul_fin_FinD fdiv_fin_FinD)
  with sp show thesis using that float_of_int_pos by blast
qed

lemma proportional_cost_mono:
  assumes "proportional_cost (Fin a) step price = Inr m" "proportional_cost (Fin b) step price = Inr n"
    and "a \<le> b" "0 \<le> price"
  shows "m \<le> n"
proof -
  obtain s p u v where 1: "float_of_int step = Inr s" "0 < s" "float_of_int price = Inr p"
    "fl64 (a / s) = Fin u" "fl64 (u * p) = Fin v" "m = rhe v"
    using assms(1) by (auto elim: proportional_cost_InrD)
  obtain u' v' where 2: "fl64 (b / s) = Fin u'" "fl64 (u' * p) = Fin v'" "n = rhe v'"
    using assms(2) 1 by (auto elim!: proportional_cost_InrD)
  have "u \<le> u'" by (rule fl64_mono[OF divide_right_mono 1(4) 2(1)]) (use assms(3) 1(2) in simp_all)
  moreover have "0 \<le> p" using float_of_int_nonneg[OF assms(4) 1(3)] .
  ultimately have "v \<le> v'" by (intro fl64_mono[OF mult_right_mono 1(5) 2(2)])
  then show ?thesis using 1(6) 2(3) rhe_mono by simp
qed

text \<open>A double is its own rounding; the billable idle time is monotone in the idle time.\<close>

lemma fsub_Fin: "fsub (Fin a) (Fin b) = fl64 (a - b)"
  by (simp add: fsub_def)

lemma flt_0_fl64: "flt (Fin 0) (fl64 q) \<longleftrightarrow> 0 < rnd64 q"
  by (auto simp: fl64_def Let_def)

lemma fmax0_Fin: "fmax0 (Fin q) = Fin (max 0 q)"
  by (auto simp: fmax0_def)

lemma fmax0_le_0: "q \<le> 0 \<Longrightarrow> fmax0 (fl64 q) = Fin 0"
  using rnd64_mono[of q 0] by (simp add: fmax0_def flt_0_fl64)

lemma fmax0_FinD: "fmax0 (fl64 q) = Fin m \<Longrightarrow> m = max 0 (rnd64 q)"
  by (auto simp: fmax0_def flt_0_fl64 dest: fl64_FinD split: if_splits)

lemma fmax0_infinite [simp]: "fmax0 PosInf = PosInf" "fmax0 NegInf = Fin 0"
  by (simp_all add: fmax0_def)

lemma billable_idle_mono:
  assumes "billable_idle i after = Inr (Fin m)" "billable_idle i' after = Inr (Fin n)" and "fle i i'"
  shows "m \<le> n"
proof -
  obtain g where g: "fmax0 (fsub i (Fin g)) = Fin m" "fmax0 (fsub i' (Fin g)) = Fin n"
    using assms(1,2) by (auto simp: billable_idle_def split: sum.splits)
  show ?thesis
  proof (cases i')
    case (Fin b)
    then have n: "n = max 0 (rnd64 (b - g))" using g(2) by (simp add: fsub_Fin fmax0_FinD)
    show ?thesis
    proof (cases i)
      case (Fin a)
      then have "m = max 0 (rnd64 (a - g))" using g(1) by (simp add: fsub_Fin fmax0_FinD)
      moreover have "rnd64 (a - g) \<le> rnd64 (b - g)"
        using assms(3) Fin \<open>i' = Fin b\<close> by (intro rnd64_mono) (auto simp: fle_def)
      ultimately show ?thesis using n by auto
    qed (use assms(3) g n \<open>i' = Fin b\<close> in \<open>auto simp: fle_def fsub_def\<close>)
  qed (use assms(3) g in \<open>cases i; auto simp: fle_def fsub_def\<close>)+
qed

lemma proportional_cost_mono_fle:
  assumes "proportional_cost x step price = Inr m" "proportional_cost y step price = Inr n"
    and "fle x y" "0 \<le> price"
  shows "m \<le> n"
proof -
  obtain a b where "x = Fin a" "y = Fin b"
    using assms(1,2) by (auto elim!: proportional_cost_InrD)
  then show ?thesis using assms proportional_cost_mono[of a step price m b n] by (auto simp: fle_def)
qed

lemma idle_cost_mono:
  assumes "billable_idle i after = Inr x" "billable_idle i' after = Inr y"
    and "proportional_cost x step price = Inr m" "proportional_cost y step price = Inr n"
    and "fle i i'" "0 \<le> price"
  shows "m \<le> n"
proof -
  obtain a b where ab: "x = Fin a" "y = Fin b"
    using assms(3,4) by (auto elim!: proportional_cost_InrD)
  have "fle x y" using billable_idle_mono[of i after a i' b] assms ab
    by (auto simp: fle_def)
  then show ?thesis by (rule proportional_cost_mono_fle[OF assms(3,4) _ assms(6)])
qed

lemma component_cost_mono:
  assumes "component_cost c d k i = Inr m" "component_cost c d' k' i' = Inr n"
    and "fle d d'" "fle k k'" "fle i i'" "0 \<le> tc_price c"
  shows "m \<le> n"
  using assms proportional_cost_mono_fle idle_cost_mono
  by (auto simp: component_cost_def split: if_splits sum.splits)

lemma cost_loop_mono:
  assumes "cost_loop t cs d k i = Inr m" "cost_loop t' cs d' k' i' = Inr n"
    and "fle d d'" "fle k k'" "fle i i'" "\<forall>c \<in> set cs. 0 \<le> tc_price c" "t \<le> t'"
  shows "m \<le> n"
  using assms
proof (induction cs arbitrary: t t')
  case Nil
  then show ?case by simp
next
  case (Cons c cs)
  obtain x y where xy: "component_cost c d k i = Inr x" "component_cost c d' k' i' = Inr y"
    using Cons.prems(1,2) by (auto split: sum.splits)
  have "x \<le> y" using component_cost_mono[OF xy] Cons.prems by simp
  then show ?case using Cons.IH[of "t + x" "t' + y"] Cons.prems xy by simp
qed

text \<open>The loop adds up the components' costs and stops at the first error.\<close>

lemma cost_loop_sum:
  assumes "\<forall>c \<in> set cs. component_cost c d k i = Inr (f c)"
  shows "cost_loop t cs d k i = Inr (t + (\<Sum>c\<leftarrow>cs. f c))"
  using assms by (induction cs arbitrary: t) (auto simp: algebra_simps)

lemma cost_loop_cong:
  assumes "\<And>c. c \<in> set cs \<Longrightarrow> component_cost c d k i = component_cost c d' k' i'"
  shows "cost_loop t cs d k i = cost_loop t cs d' k' i'"
  using assms by (induction cs arbitrary: t) (auto split: sum.splits)

lemma cost_loop_error:
  "c \<in> set cs \<Longrightarrow> component_cost c d k i = Inl e \<Longrightarrow> \<exists>e'. cost_loop t cs d k i = Inl e'"
  by (induction cs arbitrary: t) (auto split: sum.splits)

lemma check_steps_Inr: "check_steps cs = Inr () \<longleftrightarrow> (\<forall>c \<in> set cs. 0 < tc_step c)"
  by (induction cs) auto

lemma validate_Inr:
  "validate_tariff_components cs = Inr () \<longleftrightarrow>
     (\<exists>c \<in> set cs. tc_type c = ''energy'' \<or> tc_type c = ''time'') \<and> (\<forall>c \<in> set cs. 0 < tc_step c)"
  by (auto simp: validate_tariff_components_def check_steps_Inr list_ex_iff)

lemma validate_cases: "validate_tariff_components cs = Inr () \<or> (\<exists>m. validate_tariff_components cs = Inl (TariffValidationError m))"
proof -
  have "check_steps cs = Inr () \<or> (\<exists>m. check_steps cs = Inl (TariffValidationError m))"
    by (induction cs) auto
  then show ?thesis by (auto simp: validate_tariff_components_def)
qed

text \<open>Quantities, prices and steps within 53 bits never overflow.\<close>

abbreviation money_max :: int where "money_max \<equiv> 2 ^ 53"

lemma proportional_cost_defined:
  assumes "0 < step" "step \<le> money_max" "0 \<le> price" "price \<le> money_max" "0 \<le> a" "a \<le> 2 ^ 53"
  shows "\<exists>n \<ge> 0. proportional_cost (Fin a) step price = Inr n"
proof -
  have s: "float_of_int step = Inr (of_int step)" and p: "float_of_int price = Inr (of_int price)"
    using assms by (simp_all add: float_of_int_exact)
  have sp: "(1::rat) \<le> of_int step" using assms(1) by simp
  have "a / of_int step \<le> a / 1" using assms(5) sp by (intro divide_left_mono) simp_all
  then have q: "0 \<le> a / of_int step" "a / of_int step \<le> 2 ^ 53"
    using assms(5,6) sp by simp_all
  let ?u = "rnd64 (a / of_int step)"
  have u: "0 \<le> ?u" "?u \<le> 2 ^ 53" using q rnd64_nonneg rnd64_le_power by blast+
  have d: "fl64 (a / of_int step) = Fin ?u" using q by (intro fl64_finite[where k = 53]) simp_all
  have pr: "(of_int price :: rat) \<le> 2 ^ 53"
    using assms(4) by (metis of_int_le_iff of_int_numeral of_int_power)
  have m: "0 \<le> ?u * of_int price" "?u * of_int price \<le> 2 ^ 53 * 2 ^ 53"
    using u pr assms(3) by (simp, intro mult_mono) simp_all
  then have "\<bar>?u * of_int price\<bar> \<le> 2 ^ 106" by simp
  then have "fl64 (?u * of_int price) = Fin (rnd64 (?u * of_int price))"
    by (intro fl64_finite[where k = 106]) simp_all
  then have "proportional_cost (Fin a) step price = Inr (rhe (rnd64 (?u * of_int price)))"
    using assms(1) s p d by (simp add: proportional_cost_def)
  moreover have "0 \<le> rhe (rnd64 (?u * of_int price))" using m(1) by (simp add: rhe_nonneg rnd64_nonneg)
  ultimately show ?thesis by blast
qed

lemma billable_idle_defined:
  assumes "0 \<le> a" "a \<le> 2 ^ 53" "case after of None \<Rightarrow> True | Some g \<Rightarrow> 0 \<le> g \<and> g \<le> money_max"
  shows "\<exists>b. billable_idle (Fin a) after = Inr (Fin b) \<and> 0 \<le> b \<and> b \<le> 2 ^ 53"
proof -
  define g where "g = (case after of None \<Rightarrow> 0 | Some g \<Rightarrow> g)"
  have g: "0 \<le> g" "g \<le> money_max" using assms(3) by (auto simp: g_def split: option.splits)
  have gr: "(of_int g :: rat) \<le> 2 ^ 53" "0 \<le> (of_int g :: rat)"
    using g by (metis of_int_le_iff of_int_numeral of_int_power, simp)
  have d: "\<bar>a - of_int g\<bar> \<le> 2 ^ 53" using gr assms(1,2) by linarith
  then have "fl64 (a - of_int g) = Fin (rnd64 (a - of_int g))" by (intro fl64_finite[where k = 53]) simp_all
  moreover have "rnd64 (a - of_int g) \<le> 2 ^ 53" using d by (intro rnd64_le_power) linarith
  ultimately show ?thesis using g
    by (simp add: billable_idle_def float_of_int_exact fsub_Fin fmax0_Fin flip: g_def)
qed

lemma component_cost_defined:
  assumes "0 < tc_step c" "tc_step c \<le> money_max" "0 \<le> tc_price c" "tc_price c \<le> money_max"
    and "tc_type c \<in> {''energy'', ''time'', ''flat'', ''idle''}"
    and "case tc_after c of None \<Rightarrow> True | Some g \<Rightarrow> 0 \<le> g \<and> g \<le> money_max"
    and "0 \<le> d" "d \<le> 2 ^ 53" "0 \<le> k" "k \<le> 2 ^ 53" "0 \<le> i" "i \<le> 2 ^ 53"
  shows "\<exists>n \<ge> 0. component_cost c (Fin d) (Fin k) (Fin i) = Inr n"
proof -
  obtain b where b: "billable_idle (Fin i) (tc_after c) = Inr (Fin b)" "0 \<le> b" "b \<le> 2 ^ 53"
    using billable_idle_defined[of i "tc_after c"] assms by blast
  note pc = proportional_cost_defined[OF assms(1-4)]
  have "\<exists>n \<ge> 0. proportional_cost (Fin k) (tc_step c) (tc_price c) = Inr n"
    "\<exists>n \<ge> 0. proportional_cost (Fin d) (tc_step c) (tc_price c) = Inr n"
    "\<exists>n \<ge> 0. proportional_cost (Fin b) (tc_step c) (tc_price c) = Inr n"
    using pc[of k] pc[of d] pc[of b] assms b by blast+
  then show ?thesis using assms(3,5) b(1) by (auto simp: component_cost_def)
qed

lemma cost_loop_defined:
  assumes "\<forall>c \<in> set cs. \<exists>n \<ge> 0. component_cost c d k i = Inr n" and "0 \<le> t"
  shows "\<exists>n \<ge> 0. cost_loop t cs d k i = Inr n"
  using assms
proof (induction cs arbitrary: t)
  case (Cons c cs)
  then obtain n where "0 \<le> n" "component_cost c d k i = Inr n" by auto
  then show ?case using Cons.IH[of "t + n"] Cons.prems by simp
qed simp

lemma proportional_cost_whole_steps:
  assumes "0 < step" "step \<le> money_max" "\<bar>price\<bar> \<le> money_max" "\<bar>n\<bar> \<le> money_max" "\<bar>n * price\<bar> \<le> money_max"
  shows "proportional_cost (Fin (of_int (n * step))) step price = Inr (n * price)"
proof -
  have "(of_int (n * step) :: rat) / of_int step = of_int n" using assms(1) by simp
  moreover have "(of_int n * of_int price :: rat) = of_int (n * price)" by simp
  ultimately show ?thesis using assms
    by (simp add: proportional_cost_def float_of_int_exact fl64_of_int del: of_int_mult)
qed

lemma proportional_cost_0:
  "0 < step \<Longrightarrow> float_of_int step = Inr s \<Longrightarrow> float_of_int price = Inr p \<Longrightarrow>
   proportional_cost (Fin 0) step price = Inr 0"
  by (simp add: proportional_cost_def)

lemma create_tariff_ok:
  assumes "validate_tariff_components cs = Inr ()"
  shows "create_tariff new_id tenant name cs s =
    (let t = \<lparr>t_id = new_id, t_tenant = tenant, t_name = name,
              t_currency = get_currency (ts_currency s) tenant, t_components = cs\<rparr>
     in (Inr t, s\<lparr>ts_store := dict_set new_id t (ts_store s)\<rparr>))"
  using assms by (simp add: create_tariff_def tariff_store_create_def Let_def)

lemma update_tariff_ok:
  assumes "validate_tariff_components cs = Inr ()" and "get_tariff s tid = Some t"
  shows "update_tariff tid name cs s =
    (let t' = \<lparr>t_id = tid, t_tenant = t_tenant t, t_name = name, t_currency = t_currency t, t_components = cs\<rparr>
     in (Inr t', s\<lparr>ts_store := dict_set tid t' (ts_store s)\<rparr>))"
  using assms by (simp add: update_tariff_def tariff_store_update_def get_tariff_def tariff_store_get_def Let_def)

definition sample_energy :: tariff_component where
  "sample_energy = \<lparr>tc_type = ''energy'', tc_price = 30, tc_step = 1, tc_after = None\<rparr>"

definition sample_idle :: tariff_component where
  "sample_idle = \<lparr>tc_type = ''idle'', tc_price = 5, tc_step = 1, tc_after = Some 10\<rparr>"

lemma sample_energy_cost: "\<bar>n\<bar> \<le> 1000 \<Longrightarrow>
    calculate_session_cost [sample_energy] d (Fin (of_int n)) i = Inr (n * 30)"
  using proportional_cost_whole_steps[of 1 30 n]
  by (simp add: calculate_session_cost_def component_cost_def sample_energy_def)

lemma dict_keys_update: "dict_get d k = Some v \<Longrightarrow> dict_keys (dict_set k w d) = dict_keys d"
  by (induction d) (auto split: if_splits)

subsection \<open>Properties\<close>

text \<open>
  The session cost is monotone: with non-negative prices, a session that is at least
  as long, as large and as idle never costs less, floating-point rounding included.
\<close>

theorem session_cost_mono:
  assumes "\<forall>c \<in> set cs. 0 \<le> tc_price c"
    and "fle d d'" "fle k k'" "fle i i'"
    and "calculate_session_cost cs d k i = Inr m" "calculate_session_cost cs d' k' i' = Inr n"
  shows "m \<le> n"
  using assms by (auto simp: calculate_session_cost_def intro: cost_loop_mono)

theorem session_cost_mono_witness:
  "fle (Fin 1) (Fin 2) \<and> calculate_session_cost [sample_energy] (Fin 0) (Fin 1) (Fin 0) = Inr 30
     \<and> calculate_session_cost [sample_energy] (Fin 0) (Fin 2) (Fin 0) = Inr 60 \<and> (30::int) \<le> 60"
proof -
  have h: "\<forall>c \<in> set [sample_energy]. 0 \<le> tc_price c" by (simp add: sample_energy_def)
  have f: "fle (Fin 0) (Fin 0)" "fle (Fin 1) (Fin 2)" by (simp_all add: fle_def)
  have c: "calculate_session_cost [sample_energy] (Fin 0) (Fin 1) (Fin 0) = Inr 30"
    "calculate_session_cost [sample_energy] (Fin 0) (Fin 2) (Fin 0) = Inr 60"
    using sample_energy_cost[of 1] sample_energy_cost[of 2] by simp_all
  show ?thesis using session_cost_mono[OF h f(1) f(2) f(1) c] c f(2) by simp
qed

text \<open>
  A validated tariff of the four documented component types prices every session
  within 53-bit magnitudes: the calculator returns, and the amount is not negative.
\<close>

theorem validated_tariff_prices_session:
  assumes "validate_tariff_components cs = Inr ()"
    and "\<forall>c \<in> set cs. tc_type c \<in> {''energy'', ''time'', ''flat'', ''idle''}
       \<and> tc_step c \<le> money_max \<and> 0 \<le> tc_price c \<and> tc_price c \<le> money_max
       \<and> (case tc_after c of None \<Rightarrow> True | Some g \<Rightarrow> 0 \<le> g \<and> g \<le> money_max)"
    and "0 \<le> d" "d \<le> 2 ^ 53" "0 \<le> k" "k \<le> 2 ^ 53" "0 \<le> i" "i \<le> 2 ^ 53"
  shows "\<exists>n \<ge> 0. calculate_session_cost cs (Fin d) (Fin k) (Fin i) = Inr n"
  unfolding calculate_session_cost_def
proof (rule cost_loop_defined)
  have "\<forall>c \<in> set cs. 0 < tc_step c" using assms(1) by (simp add: validate_Inr)
  then show "\<forall>c \<in> set cs. \<exists>n \<ge> 0. component_cost c (Fin d) (Fin k) (Fin i) = Inr n"
    using assms(2-) by (intro ballI component_cost_defined) auto
qed simp

theorem validated_tariff_prices_session_witness:
  "\<exists>n \<ge> 0. calculate_session_cost [sample_energy, sample_idle] (Fin 30) (Fin (7/2)) (Fin 12) = Inr n"
  by (rule validated_tariff_prices_session)
    (simp_all add: validate_Inr sample_energy_def sample_idle_def)

text \<open>
  Idle time within the grace period of every idle component costs nothing: the
  session is priced exactly as one with no idle time.
\<close>

theorem idle_within_grace_is_free:
  assumes "rnd64 i = i"
    and "\<forall>c \<in> set cs. tc_type c = ''idle'' \<longrightarrow> (\<exists>g \<ge> 0. tc_after c = Some g \<and> i \<le> of_int g)"
  shows "calculate_session_cost cs d k (Fin i) = calculate_session_cost cs d k (Fin 0)"
  unfolding calculate_session_cost_def
proof (rule cost_loop_cong)
  fix c assume c: "c \<in> set cs"
  have "billable_idle (Fin i) (tc_after c) = billable_idle (Fin 0) (tc_after c)"
    if idle: "tc_type c = ''idle''"
  proof -
    obtain g where g: "0 \<le> g" "tc_after c = Some g" "i \<le> of_int g" using assms(2) c idle by blast
    show ?thesis
    proof (cases "float_of_int g")
      case (Inr f)
      have f: "f = rnd64 (of_int g)"
        using Inr by (auto simp: float_of_int_def split: pyfloat.splits dest: fl64_FinD)
      have "i - f \<le> 0" using rnd64_mono[OF g(3)] assms(1) f by simp
      moreover have "0 - f \<le> 0" using f rnd64_nonneg[of "of_int g"] g(1) by simp
      ultimately show ?thesis
        using Inr g(2) fmax0_le_0[of "i - f"] fmax0_le_0[of "0 - f"]
        by (simp add: billable_idle_def fsub_Fin del: diff_0)
    qed (simp add: g(2) billable_idle_def)
  qed
  then show "component_cost c d k (Fin i) = component_cost c d k (Fin 0)"
    by (auto simp: component_cost_def)
qed

theorem idle_within_grace_is_free_witness:
  "calculate_session_cost [sample_energy, sample_idle] (Fin 30) (Fin 2) (Fin 8)
   = calculate_session_cost [sample_energy, sample_idle] (Fin 30) (Fin 2) (Fin 0)"
  using rnd64_of_int[of 8]
  by (intro idle_within_grace_is_free) (simp_all add: sample_energy_def sample_idle_def)

text \<open>
  Whole steps are priced exactly: \<open>n\<close> full steps of an energy component cost
  \<open>n\<close> times its price, with no rounding error, up to 53 bits.
\<close>

theorem whole_energy_steps_exact:
  assumes "0 < tc_step c" "tc_step c \<le> money_max" "\<bar>tc_price c\<bar> \<le> money_max"
    and "tc_type c = ''energy''" "\<bar>n\<bar> \<le> money_max" "\<bar>n * tc_price c\<bar> \<le> money_max"
  shows "calculate_session_cost [c] d (Fin (of_int (n * tc_step c))) i = Inr (n * tc_price c)"
  using proportional_cost_whole_steps[OF assms(1-3,5-6)] assms(4)
  by (simp add: calculate_session_cost_def component_cost_def)

theorem whole_energy_steps_exact_witness:
  "calculate_session_cost [sample_energy] (Fin 0) (Fin 12) (Fin 0) = Inr 360"
  using whole_energy_steps_exact[of sample_energy 12 "Fin 0" "Fin 0"]
  by (simp add: sample_energy_def)

text \<open>
  Save-time validation does not look at the type of the other components: a tariff
  with an unknown component type beside a valid one is accepted and stored, and no
  session can be priced with it afterwards (every preview raises).
\<close>

theorem unknown_component_accepted_never_priced:
  assumes "validate_tariff_components cs = Inr ()" and "c \<in> set cs"
    and "tc_type c \<notin> {''energy'', ''time'', ''flat'', ''idle''}"
  shows "\<exists>t s'. create_tariff new_id tenant name cs s = (Inr t, s')
     \<and> get_tariff s' new_id = Some t
     \<and> (\<forall>d k i. \<exists>e. preview s' new_id d k i = Inl (PricingError e))"
proof -
  have "component_cost c d k i = Inl ValueError" for d k i
    using assms(3) by (simp add: component_cost_def)
  then have "\<exists>e. calculate_session_cost cs d k i = Inl e" for d k i
    unfolding calculate_session_cost_def by (rule cost_loop_error[OF assms(2)])
  moreover have "preview (snd (create_tariff new_id tenant name cs s)) new_id d k i =
      (case calculate_session_cost cs d k i of Inl e \<Rightarrow> Inl (PricingError e) | Inr n \<Rightarrow> Inr n)" for d k i
    by (simp add: create_tariff_ok[OF assms(1)] preview_def tariff_store_get_def Let_def)
  ultimately have "\<exists>e. preview (snd (create_tariff new_id tenant name cs s)) new_id d k i = Inl (PricingError e)"
    for d k i by (metis old.sum.simps(5))
  then show ?thesis
    using create_tariff_ok[OF assms(1)] by (simp add: get_tariff_def tariff_store_get_def Let_def)
qed

theorem unknown_component_accepted_never_priced_witness:
  "\<exists>t s'. create_tariff 7 1 ''promo'' [sample_energy, sample_energy\<lparr>tc_type := ''parking''\<rparr>]
        \<lparr>ts_store = [], ts_currency = \<lparr>cp_currencies = [], cp_default = ''USD''\<rparr>\<rparr> = (Inr t, s')
     \<and> get_tariff s' 7 = Some t \<and> (\<forall>d k i. \<exists>e. preview s' 7 d k i = Inl (PricingError e))"
  by (rule unknown_component_accepted_never_priced[where c = "sample_energy\<lparr>tc_type := ''parking''\<rparr>"])
    (simp_all add: validate_Inr sample_energy_def)

text \<open>
  Updating a tariff replaces its name and components and nothing else: the tenant and
  the currency it was created in stay, every other tariff stays, and the listing keeps
  its order.
\<close>

theorem update_tariff_keeps_currency:
  assumes "validate_tariff_components cs = Inr ()" and "get_tariff s tid = Some t"
    and "update_tariff tid name cs s = (r, s')"
  shows "(\<exists>t'. r = Inr t' \<and> get_tariff s' tid = Some t' \<and> t_currency t' = t_currency t
        \<and> t_tenant t' = t_tenant t \<and> t_name t' = name \<and> t_components t' = cs)
     \<and> (\<forall>other. other = tid \<or> get_tariff s' other = get_tariff s other)
     \<and> dict_keys (ts_store s') = dict_keys (ts_store s)
     \<and> ts_currency s' = ts_currency s"
proof -
  have "dict_get (ts_store s) tid = Some t" using assms(2) by (simp add: get_tariff_def tariff_store_get_def)
  then show ?thesis using assms(3) unfolding update_tariff_ok[OF assms(1,2)]
    by (clarsimp simp: get_tariff_def tariff_store_get_def Let_def dict_keys_update)
qed

theorem update_tariff_keeps_currency_witness:
  "\<exists>t s s'. get_tariff s 7 = Some t \<and> update_tariff 7 ''night'' [sample_energy] s = (Inr (t\<lparr>t_name := ''night''\<rparr>), s')
     \<and> dict_keys (ts_store s') = dict_keys (ts_store s)"
proof -
  let ?t = "\<lparr>t_id = 7, t_tenant = 1, t_name = ''day'', t_currency = ''AED'', t_components = [sample_energy]\<rparr>"
  let ?s = "\<lparr>ts_store = [(7, ?t)], ts_currency = \<lparr>cp_currencies = [], cp_default = ''USD''\<rparr>\<rparr>"
  have v: "validate_tariff_components [sample_energy] = Inr ()" by (simp add: validate_Inr sample_energy_def)
  have g: "get_tariff ?s 7 = Some ?t" by (simp add: get_tariff_def tariff_store_get_def)
  obtain r s' where u: "update_tariff 7 ''night'' [sample_energy] ?s = (r, s')" by fastforce
  have "r = Inr (?t\<lparr>t_name := ''night''\<rparr>)" using update_tariff_ok[OF v g, of "''night''"] u by (simp add: Let_def)
  then show ?thesis using update_tariff_keeps_currency[OF v g u] g u by blast
qed

text \<open>
  A session is billed against the version active when it started: the active version
  is one that covers the moment and has the latest start among those, and adding a
  version that only takes effect later never changes it.
\<close>

theorem later_version_does_not_reprice:
  assumes "frm > moment"
  shows "get_active_version (snd (add_version new_id tid' no frm to vs)) tid moment
           = get_active_version vs tid moment
     \<and> (\<forall>v. get_active_version vs tid moment = Some v \<longrightarrow> v \<in> set vs \<and> version_covers tid moment v
            \<and> (\<forall>w \<in> set vs. version_covers tid moment w \<longrightarrow> tv_from w \<le> tv_from v))"
proof -
  let ?vs = "filter (version_covers tid moment) vs"
  have "get_active_version (snd (add_version new_id tid' no frm to vs)) tid moment = get_active_version vs tid moment"
    using assms by (simp add: get_active_version_def add_version_def version_covers_def Let_def)
  moreover have "v \<in> set vs \<and> version_covers tid moment v
      \<and> (\<forall>w \<in> set vs. version_covers tid moment w \<longrightarrow> tv_from w \<le> tv_from v)"
    if "get_active_version vs tid moment = Some v" for v
    using max_key_SomeD[OF that[unfolded get_active_version_def]] by simp
  ultimately show ?thesis by blast
qed

theorem later_version_does_not_reprice_witness:
  "get_active_version (snd (add_version 9 1 2 200 None
      [\<lparr>tv_id = 8, tv_tariff = 1, tv_no = 1, tv_from = 50, tv_to = None\<rparr>])) 1 100
   = Some \<lparr>tv_id = 8, tv_tariff = 1, tv_no = 1, tv_from = 50, tv_to = None\<rparr>"
  using later_version_does_not_reprice[of 100 200 9 1 2 None
      "[\<lparr>tv_id = 8, tv_tariff = 1, tv_no = 1, tv_from = 50, tv_to = None\<rparr>]" 1]
  by (simp add: get_active_version_def version_covers_def max_key_def)

end
