(* ===== verification/Pricing.thy ===== *)
theory Pricing
  imports Py_Text
begin

text \<open>
  Discounts and overrides (\<open>billing/promotions.py\<close>, \<open>billing/pricing_resolution.py\<close>,
  \<open>billing/payouts.py\<close>): promotion codes with validity window and usage limit, the order in
  which the price of a session is resolved, and the operators' share of the revenue.
  Percentages are basis points, but \<open>/\<close> on two Python integers goes through a double.
\<close>

subsection \<open>Promotions\<close>

record promotion =
  pm_id :: uuid
  pm_tenant :: uuid
  pm_code :: "string option"
  pm_type :: string
  pm_value :: int
  pm_from :: datetime
  pm_to :: datetime
  pm_limit :: "int option"

datatype promotion_error = PromotionError string

type_synonym promotion_store = "(string, promotion) pydict"
type_synonym redemption_store = "(uuid \<times> string) list"

definition promotion_add :: "promotion \<Rightarrow> promotion_store \<Rightarrow> promotion_store" where
  "promotion_add p st = (case pm_code p of None \<Rightarrow> st | Some c \<Rightarrow> dict_set c p st)"

definition promotion_init :: "promotion list \<Rightarrow> promotion_store" where
  "promotion_init ps = fold promotion_add ps []"

definition get_by_code :: "promotion_store \<Rightarrow> string \<Rightarrow> promotion option" where
  "get_by_code st code = dict_get st code"

definition count_redemptions :: "redemption_store \<Rightarrow> uuid \<Rightarrow> int" where
  "count_redemptions rs pid = int (length (filter (\<lambda>r. fst r = pid) rs))"

definition record_redemption :: "uuid \<Rightarrow> string \<Rightarrow> redemption_store \<Rightarrow> redemption_store" where
  "record_redemption pid session rs = rs @ [(pid, session)]"

definition is_promo_within_validity_window :: "promotion \<Rightarrow> datetime \<Rightarrow> bool" where
  "is_promo_within_validity_window p now \<longleftrightarrow> pm_from p \<le> now \<and> now \<le> pm_to p"

definition redeem_promo_code ::
  "string \<Rightarrow> string \<Rightarrow> datetime \<Rightarrow> promotion_store \<Rightarrow> redemption_store
    \<Rightarrow> (promotion_error + promotion) \<times> redemption_store" where
  "redeem_promo_code code session now st rs =
     (case get_by_code st code of
        None \<Rightarrow> (Inl (PromotionError (''unknown promo code: '' @ code)), rs)
      | Some p \<Rightarrow>
          if \<not> is_promo_within_validity_window p now
          then (Inl (PromotionError (''promo code expired or not yet valid: '' @ code)), rs)
          else if (case pm_limit p of None \<Rightarrow> False | Some l \<Rightarrow> l \<le> count_redemptions rs (pm_id p))
          then (Inl (PromotionError (''promo code usage limit reached: '' @ code)), rs)
          else (Inr p, record_redemption (pm_id p) session rs))"

text \<open>\<open>round(amount * value / 10_000)\<close>: one correctly rounded quotient, then half to even.\<close>

definition basis_points :: "int \<Rightarrow> int \<Rightarrow> arith_error + int" where
  "basis_points amount v =
     (case int_truediv (amount * v) 10000 of Inl e \<Rightarrow> Inl e | Inr q \<Rightarrow> Inr (rhe q))"

definition apply_discount :: "int \<Rightarrow> promotion \<Rightarrow> arith_error + int" where
  "apply_discount base p =
     (if pm_type p = ''percent'' then
        (case basis_points base (pm_value p) of Inl e \<Rightarrow> Inl e | Inr d \<Rightarrow> Inr (max 0 (base - d)))
      else if pm_type p = ''flat'' then Inr (max 0 (base - pm_value p))
      else Inl ValueError)"

subsection \<open>Payouts\<close>

record payout_rule =
  pr_operator :: uuid
  pr_site :: "uuid option"
  pr_split :: string
  pr_value :: int

definition calculate_payout :: "int \<Rightarrow> payout_rule \<Rightarrow> arith_error + int" where
  "calculate_payout gross r =
     (if pr_split r = ''percent'' then basis_points gross (pr_value r)
      else if pr_split r = ''flat_fee'' then Inr (pr_value r)
      else Inl ValueError)"

subsection \<open>Resolution order\<close>

record site_override =
  so_site :: uuid
  so_tariff :: uuid

record operator_override =
  oo_operator :: uuid
  oo_tariff :: uuid

record override_store =
  os_site :: "(uuid, site_override) pydict"
  os_operator :: "(uuid, operator_override) pydict"

definition set_site_override :: "uuid \<Rightarrow> uuid \<Rightarrow> override_store \<Rightarrow> override_store" where
  "set_site_override site tid st =
     st\<lparr>os_site := dict_set site \<lparr>so_site = site, so_tariff = tid\<rparr> (os_site st)\<rparr>"

definition set_operator_override :: "uuid \<Rightarrow> uuid \<Rightarrow> override_store \<Rightarrow> override_store" where
  "set_operator_override opr tid st =
     st\<lparr>os_operator := dict_set opr \<lparr>oo_operator = opr, oo_tariff = tid\<rparr> (os_operator st)\<rparr>"

definition get_site_override :: "override_store \<Rightarrow> uuid \<Rightarrow> site_override option" where
  "get_site_override st site = dict_get (os_site st) site"

definition get_operator_override :: "override_store \<Rightarrow> uuid \<Rightarrow> operator_override option" where
  "get_operator_override st opr = dict_get (os_operator st) opr"

record pricing_resolution =
  px_source :: string
  px_tariff :: "uuid option"
  px_promotion :: "promotion option"

definition resolve_pricing_source ::
  "uuid \<Rightarrow> override_store \<Rightarrow> promotion_store \<Rightarrow> datetime \<Rightarrow> string option \<Rightarrow> uuid option
    \<Rightarrow> uuid option \<Rightarrow> pricing_resolution" where
  "resolve_pricing_source default_id ov st now promo_code site operator_id =
     (let promo = (case promo_code of None \<Rightarrow> None | Some c \<Rightarrow>
            (case get_by_code st c of None \<Rightarrow> None
             | Some p \<Rightarrow> if is_promo_within_validity_window p now then Some p else None));
          so = (case site of None \<Rightarrow> None | Some s \<Rightarrow> get_site_override ov s);
          oo = (case operator_id of None \<Rightarrow> None | Some oid \<Rightarrow> get_operator_override ov oid)
      in case promo of
           Some p \<Rightarrow> \<lparr>px_source = ''promo'', px_tariff = None, px_promotion = Some p\<rparr>
         | None \<Rightarrow> (case so of
             Some s \<Rightarrow> \<lparr>px_source = ''site'', px_tariff = Some (so_tariff s), px_promotion = None\<rparr>
           | None \<Rightarrow> (case oo of
               Some v \<Rightarrow> \<lparr>px_source = ''operator'', px_tariff = Some (oo_tariff v), px_promotion = None\<rparr>
             | None \<Rightarrow> \<lparr>px_source = ''default'', px_tariff = Some default_id, px_promotion = None\<rparr>)))"

subsection \<open>The redemption counter\<close>

text \<open>
  What \<open>redeem_promo_code\<close> relies on of \<open>PromotionRedemptionStore\<close>: recording a
  redemption raises that promotion's count by one and no other.
\<close>

locale redemption_counter =
  fixes count :: "'s \<Rightarrow> uuid \<Rightarrow> int"
    and recordr :: "uuid \<Rightarrow> string \<Rightarrow> 's \<Rightarrow> 's"
  assumes count_record: "count (recordr p x s) q = count s q + (if p = q then 1 else 0)"
begin

lemma count_fold:
  "count (fold (\<lambda>(p, x). recordr p x) ps s) q = count s q + int (length (filter (\<lambda>y. fst y = q) ps))"
  by (induction ps arbitrary: s) (auto simp: count_record)

lemma count_guarded:
  assumes "\<not> l \<le> count s p" "count s q \<le> l"
  shows "count (recordr p x s) q \<le> l"
  using assms by (auto simp: count_record)

end

interpretation redemptions: redemption_counter count_redemptions record_redemption
  by unfold_locales (simp add: count_redemptions_def record_redemption_def)

text \<open>A sequence of calls, each with its code, session and time.\<close>

fun redeem_all ::
  "(string \<times> string \<times> datetime) list \<Rightarrow> promotion_store \<Rightarrow> redemption_store \<Rightarrow> redemption_store" where
  "redeem_all [] st rs = rs"
| "redeem_all ((code, session, now) # cs) st rs =
     redeem_all cs st (snd (redeem_promo_code code session now st rs))"

text \<open>Distinct promotions have distinct ids (they are drawn by \<open>uuid4\<close>).\<close>

definition ids_distinct :: "promotion_store \<Rightarrow> bool" where
  "ids_distinct st \<longleftrightarrow> (\<forall>p \<in> set (dict_values st). \<forall>q \<in> set (dict_values st). pm_id p = pm_id q \<longrightarrow> pm_limit p = pm_limit q)"

lemma redeem_keeps_limit:
  assumes "ids_distinct st" "get_by_code st c = Some p" "pm_limit p = Some l"
    and "count_redemptions rs (pm_id p) \<le> l"
  shows "count_redemptions (snd (redeem_promo_code code session now st rs)) (pm_id p) \<le> l"
proof (cases "\<exists>q. fst (redeem_promo_code code session now st rs) = Inr q \<and> pm_id q = pm_id p")
  case True
  then obtain q where q: "get_by_code st code = Some q" "pm_id q = pm_id p"
    "\<not> (case pm_limit q of None \<Rightarrow> False | Some l \<Rightarrow> l \<le> count_redemptions rs (pm_id q))"
    "snd (redeem_promo_code code session now st rs) = record_redemption (pm_id q) session rs"
    by (auto simp: redeem_promo_code_def split: option.splits if_splits)
  have "pm_limit q = Some l"
    using assms(1-3) q(1,2) dict_get_value[of st] unfolding ids_distinct_def get_by_code_def by metis
  then have "\<not> l \<le> count_redemptions rs (pm_id p)" using q(2,3) by simp
  then show ?thesis using q redemptions.count_guarded[OF _ assms(4)] by simp
next
  case False
  then show ?thesis using assms(4)
    by (auto simp: redeem_promo_code_def redemptions.count_record split: option.splits)
qed

lemma basis_points_bounds:
  assumes "0 \<le> a" "a \<le> 2 ^ 53" "0 \<le> v" "v \<le> 10000"
  obtains n where "basis_points a v = Inr n" "0 \<le> n" "n \<le> a"
    "a * v div 10000 \<le> n" "n \<le> a * v div 10000 + 1"
proof -
  let ?q = "of_int (a * v) / of_int 10000 :: rat"
  let ?d = "a * v div 10000"
  have le: "a * v \<le> a * 10000" using assms by (simp add: mult_left_mono)
  have "(of_int (a * v) :: rat) \<le> of_int (a * 10000)" using le by (simp only: of_int_le_iff)
  then have qa: "?q \<le> of_int a" by simp
  have q0: "0 \<le> ?q" using assms by simp
  have a53: "(of_int a :: rat) \<le> 2 ^ 53"
    using assms(2) by (metis of_int_le_iff of_int_numeral of_int_power)
  have d: "int_truediv (a * v) 10000 = Inr (rnd64 ?q)"
    by (rule int_truediv_le_power[where k = 53]) (use q0 qa a53 in auto)
  have fl: "\<lfloor>?q\<rfloor> = ?d" by (rule floor_divide_of_int_eq)
  have b: "0 \<le> ?d" "?d \<le> a" using assms le by (simp_all add: pos_imp_zdiv_nonneg_iff)
  have r: "rnd64 ?q \<le> of_int a"
    using rnd64_mono[OF qa] rnd64_of_int[of a] assms by simp
  have "of_int ?d \<le> ?q" using of_int_floor_le[of ?q] fl by simp
  then have lo: "of_int ?d \<le> rnd64 ?q"
    using rnd64_mono[of "of_int ?d" ?q] rnd64_of_int[of ?d] b assms by simp
  have hi: "rnd64 ?q \<le> of_int (?d + 1)"
  proof (cases "?d = a")
    case True
    then show ?thesis using r by simp
  next
    case False
    have "?q \<le> of_int (?d + 1)" using real_of_int_floor_add_one_ge fl
      by (metis floor_correct le_less)
    then show ?thesis using rnd64_mono[of ?q "of_int (?d + 1)"] rnd64_of_int[of "?d + 1"] b assms False
      by simp
  qed
  show thesis
    by (rule that[of "rhe (rnd64 ?q)"])
      (use d r lo hi b rhe_ge_int[OF lo] in \<open>auto simp: basis_points_def intro: rhe_le_int\<close>)
qed

lemma override_precedence:
  assumes "case promo_code of None \<Rightarrow> True | Some c \<Rightarrow>
      (case get_by_code st c of None \<Rightarrow> True | Some p \<Rightarrow> \<not> is_promo_within_validity_window p now)"
  shows "resolve_pricing_source dflt (set_site_override s t ov) st now promo_code (Some s) opr
           = \<lparr>px_source = ''site'', px_tariff = Some t, px_promotion = None\<rparr>"
    and "resolve_pricing_source dflt (set_operator_override v u ov) st now promo_code None (Some v)
           = \<lparr>px_source = ''operator'', px_tariff = Some u, px_promotion = None\<rparr>"
    and "resolve_pricing_source dflt ov st now promo_code None None
           = \<lparr>px_source = ''default'', px_tariff = Some dflt, px_promotion = None\<rparr>"
  using assms
  by (auto simp: resolve_pricing_source_def set_site_override_def set_operator_override_def
      get_site_override_def get_operator_override_def split: option.splits)

subsection \<open>Properties\<close>

text \<open>
  Over any sequence of calls of \<open>redeem_promo_code\<close>, with whatever codes and times,
  a promotion's usage limit is never exceeded.
\<close>

theorem usage_limit_never_exceeded:
  assumes "ids_distinct st" "get_by_code st c = Some p" "pm_limit p = Some l"
    and "count_redemptions rs (pm_id p) \<le> l"
  shows "count_redemptions (redeem_all calls st rs) (pm_id p) \<le> l"
  using assms(4)
proof (induction calls arbitrary: rs)
  case Nil
  then show ?case by simp
next
  case (Cons call calls)
  obtain code session now where [simp]: "call = (code, session, now)" by (cases call)
  show ?case using Cons.IH[OF redeem_keeps_limit[OF assms(1-3) Cons.prems]] by simp
qed

definition sample_promo :: promotion where
  "sample_promo = \<lparr>pm_id = 7, pm_tenant = 1, pm_code = Some ''SUMMER'', pm_type = ''percent'', pm_value = 1000,
     pm_from = 0, pm_to = 100, pm_limit = Some 1\<rparr>"

theorem usage_limit_never_exceeded_witness:
  "count_redemptions (redeem_all [(''SUMMER'', ''a'', 5), (''SUMMER'', ''b'', 6)] [(''SUMMER'', sample_promo)] []) 7 \<le> 1"
proof -
  have "ids_distinct [(''SUMMER'', sample_promo)]" by (simp add: ids_distinct_def)
  moreover have "get_by_code [(''SUMMER'', sample_promo)] ''SUMMER'' = Some sample_promo"
    by (simp add: get_by_code_def)
  moreover have "pm_limit sample_promo = Some 1" "pm_id sample_promo = 7"
    by (simp_all add: sample_promo_def)
  ultimately show ?thesis
    using usage_limit_never_exceeded[of "[(''SUMMER'', sample_promo)]" "''SUMMER''" sample_promo 1 "[]"
        "[(''SUMMER'', ''a'', 5), (''SUMMER'', ''b'', 6)]"]
    by (simp add: count_redemptions_def)
qed

text \<open>
  Within 53-bit amounts and at most 10000 basis points, the discount and the payout
  never raise; the discounted price and the payout lie between zero and the amount, and are
  within one minor unit of the exact share although the quotient is a rounded double.
\<close>

theorem percent_shares_bounded:
  assumes "0 \<le> a" "a \<le> 2 ^ 53" "0 \<le> v" "v \<le> 10000"
  shows "\<exists>n. calculate_payout a \<lparr>pr_operator = opr, pr_site = site, pr_split = ''percent'', pr_value = v\<rparr> = Inr n
      \<and> 0 \<le> n \<and> n \<le> a \<and> a * v div 10000 \<le> n \<and> n \<le> a * v div 10000 + 1
      \<and> apply_discount a \<lparr>pm_id = pid, pm_tenant = t, pm_code = c, pm_type = ''percent'', pm_value = v,
           pm_from = f, pm_to = e, pm_limit = l\<rparr> = Inr (a - n)"
  by (rule basis_points_bounds[OF assms]) (simp add: calculate_payout_def apply_discount_def)

theorem percent_shares_bounded_witness:
  "\<exists>n. calculate_payout 1999 \<lparr>pr_operator = 1, pr_site = None, pr_split = ''percent'', pr_value = 1500\<rparr> = Inr n
      \<and> 0 \<le> n \<and> n \<le> 1999 \<and> 299 \<le> n \<and> n \<le> 300
      \<and> apply_discount 1999 (sample_promo\<lparr>pm_value := 1500\<rparr>) = Inr (1999 - n)"
  using percent_shares_bounded[of 1999 1500 1 None 7 1 "Some ''SUMMER''" 0 100 "Some 1"]
  by (simp add: sample_promo_def)

text \<open>
  A promotion code that is inside its window wins over the site override, the operator
  override and the tenant default, even when its usage limit is exhausted, in which case
  redeeming the code is refused: the resolution does not look at the limit.
\<close>

theorem exhausted_promo_still_resolved:
  assumes "get_by_code st code = Some p" "is_promo_within_validity_window p now"
    and "pm_limit p = Some l" "l \<le> count_redemptions rs (pm_id p)"
  shows "resolve_pricing_source dflt ov st now (Some code) site opr
           = \<lparr>px_source = ''promo'', px_tariff = None, px_promotion = Some p\<rparr>
      \<and> redeem_promo_code code session now st rs
           = (Inl (PromotionError (''promo code usage limit reached: '' @ code)), rs)"
  using assms by (simp add: resolve_pricing_source_def redeem_promo_code_def)

theorem exhausted_promo_still_resolved_witness:
  "px_source (resolve_pricing_source 3 \<lparr>os_site = [], os_operator = []\<rparr> [(''SUMMER'', sample_promo)] 5
       (Some ''SUMMER'') None None) = ''promo''
   \<and> redeem_promo_code ''SUMMER'' ''b'' 5 [(''SUMMER'', sample_promo)] [(7, ''a'')]
       = (Inl (PromotionError ''promo code usage limit reached: SUMMER''), [(7, ''a'')])"
  using exhausted_promo_still_resolved[of "[(''SUMMER'', sample_promo)]" "''SUMMER''" sample_promo 5 1 "[(7, ''a'')]"
      3 "\<lparr>os_site = [], os_operator = []\<rparr>" None None "''b''"]
  by (simp add: get_by_code_def is_promo_within_validity_window_def count_redemptions_def sample_promo_def)

end
