(* ===== verification/Wallet.thy ===== *)
theory Wallet
  imports Py_Text
begin

text \<open>
  Payments (\<open>billing/payment_provider.py\<close>, \<open>payment_methods.py\<close>,
  \<open>payment_method_router.py\<close>, \<open>wallet.py\<close>, \<open>wallet_router.py\<close>,
  \<open>stripe_webhook.py\<close>): the stub PSP and the Stripe adapter with its retry loop, the
  driver's default payment method, the append-only wallet ledger, and the signed webhook
  that credits it. The HTTP client, HMAC-SHA256 and the request body parser are parameters.
\<close>

subsection \<open>Payment providers\<close>

datatype ppe_message = PlainMessage json | UnexpectedStatus json

datatype provider_error = PaymentProviderError ppe_message | ProviderRaised py_error

abbreviation ppe :: "string \<Rightarrow> provider_error" where
  "ppe m \<equiv> PaymentProviderError (PlainMessage (JStr m))"

text \<open>\<open>PaymentProvider.charge\<close> on a provider state: token, amount, currency, idempotency key.\<close>

type_synonym 'p charge_op =
  "string \<Rightarrow> int \<Rightarrow> string \<Rightarrow> string \<Rightarrow> 'p \<Rightarrow> (provider_error + json) \<times> 'p"

record stub_provider =
  sp_charges :: "(string \<times> int \<times> string \<times> string) list"
  sp_next :: int
  sp_failing :: "string set"

definition stub_set_failing :: "string \<Rightarrow> bool \<Rightarrow> stub_provider \<Rightarrow> stub_provider" where
  "stub_set_failing tok failing p =
     p\<lparr>sp_failing := (if failing then insert tok (sp_failing p) else sp_failing p - {tok})\<rparr>"

definition stub_charge :: "stub_provider charge_op" where
  "stub_charge tok amount currency key p =
     (let p1 = p\<lparr>sp_charges := sp_charges p @ [(tok, amount, currency, key)]\<rparr> in
      if tok \<in> sp_failing p1 then (Inl (ppe (''card declined for token '' @ tok)), p1)
      else let p2 = p1\<lparr>sp_next := sp_next p1 + 1\<rparr>
           in (Inr (JStr (''stub-txn-'' @ str_int (sp_next p2))), p2))"

text \<open>
  What the HTTP client gives back: a transport failure, or a status and a body, which
  \<open>response.json()\<close> decodes or refuses (\<open>None\<close>).
\<close>

datatype http_outcome = HttpFailure | HttpResponse int "json option"

record psp_request =
  rq_url :: string
  rq_amount :: int
  rq_currency :: string
  rq_method :: string
  rq_bearer :: string
  rq_key :: string

record stripe_config =
  sc_api_key :: string
  sc_base_url :: string
  sc_max_attempts :: int

definition stripe_request :: "stripe_config \<Rightarrow> string \<Rightarrow> int \<Rightarrow> string \<Rightarrow> string \<Rightarrow> psp_request" where
  "stripe_request cfg tok amount currency key =
     \<lparr>rq_url = sc_base_url cfg @ ''/payment_intents'', rq_amount = amount, rq_currency = py_lower currency,
      rq_method = tok, rq_bearer = ''Bearer '' @ sc_api_key cfg, rq_key = key\<rparr>"

text \<open>The answer to a response below 500: the decline, the unexpected status, or the id.\<close>

definition stripe_answer :: "int \<Rightarrow> json option \<Rightarrow> provider_error + json" where
  "stripe_answer status body =
     (case body of
        None \<Rightarrow> Inl (ppe ''malformed PSP response body'')
      | Some data \<Rightarrow>
        (if status \<ge> 400 then
           (case jget data ''error'' JNull of
              None \<Rightarrow> Inl (ProviderRaised AttributeError)
            | Some e \<Rightarrow>
              (case jget (if jtrue e then e else JObj []) ''message''
                      (JStr (''PSP declined the charge (status '' @ str_int status @ '')'')) of
                 None \<Rightarrow> Inl (ProviderRaised AttributeError)
               | Some m \<Rightarrow> Inl (PaymentProviderError (PlainMessage m))))
         else
           (case jget data ''status'' JNull of
              None \<Rightarrow> Inl (ProviderRaised AttributeError)
            | Some (JList _) \<Rightarrow> Inl (ProviderRaised TypeError)
            | Some (JObj _) \<Rightarrow> Inl (ProviderRaised TypeError)
            | Some st \<Rightarrow>
                if st \<notin> {JStr ''succeeded'', JStr ''processing'', JStr ''requires_capture''}
                then Inl (PaymentProviderError (UnexpectedStatus st))
                else (case jitem data ''id'' of Inl e \<Rightarrow> Inl (ProviderRaised e) | Inr i \<Rightarrow> Inr i))))"

definition retryable :: "http_outcome \<Rightarrow> bool" where
  "retryable r = (case r of HttpFailure \<Rightarrow> True | HttpResponse status _ \<Rightarrow> status \<ge> 500)"

text \<open>
  The loop over \<open>range(max_attempts)\<close>. The client is a state machine \<open>post\<close>; the
  result carries the exponents of the back-off sleeps, \<open>base * 2 ** attempt\<close> seconds.
\<close>

fun stripe_attempts ::
  "(psp_request \<Rightarrow> 'h \<Rightarrow> http_outcome \<times> 'h) \<Rightarrow> psp_request \<Rightarrow> nat \<Rightarrow> nat \<Rightarrow> 'h
    \<Rightarrow> (provider_error + json) option \<times> nat list \<times> 'h" where
  "stripe_attempts post rq attempt 0 h = (None, [], h)"
| "stripe_attempts post rq attempt (Suc left) h =
     (let (r, h') = post rq h in
      if retryable r then
        let (res, sleeps, h'') = stripe_attempts post rq (Suc attempt) left h'
        in (res, (if left > 0 then attempt # sleeps else sleeps), h'')
      else (case r of HttpResponse status body \<Rightarrow> (Some (stripe_answer status body), [], h')
            | HttpFailure \<Rightarrow> (None, [], h')))"

definition stripe_charge ::
  "(psp_request \<Rightarrow> 'h \<Rightarrow> http_outcome \<times> 'h) \<Rightarrow> stripe_config \<Rightarrow> 'h charge_op" where
  "stripe_charge post cfg tok amount currency key h =
     (let (res, sleeps, h') = stripe_attempts post (stripe_request cfg tok amount currency key) 0
                                (nat (sc_max_attempts cfg)) h
      in (case res of
            None \<Rightarrow> Inl (ppe (''PSP request failed after '' @ str_int (sc_max_attempts cfg) @ '' attempts''))
          | Some r \<Rightarrow> r, h'))"

subsection \<open>Payment methods\<close>

abbreviation "WALLET_BALANCE \<equiv> ''wallet_balance''"
abbreviation "DIRECT_CARD \<equiv> ''direct_card''"

record payment_method =
  py_id :: uuid
  py_wallet :: uuid
  py_type :: string
  py_token :: "string option"
  py_default :: bool

type_synonym payment_method_store = "(uuid, payment_method) pydict"

definition method_add :: "payment_method \<Rightarrow> payment_method_store \<Rightarrow> payment_method_store" where
  "method_add m st = (if py_default m then dict_set (py_wallet m) m st else st)"

definition get_default :: "payment_method_store \<Rightarrow> uuid \<Rightarrow> payment_method option" where
  "get_default st w = dict_get st w"

definition set_default ::
  "uuid \<Rightarrow> uuid \<Rightarrow> string \<Rightarrow> string option \<Rightarrow> payment_method_store
    \<Rightarrow> payment_method \<times> payment_method_store" where
  "set_default new_id w ty tok st =
     (let m = \<lparr>py_id = new_id, py_wallet = w, py_type = ty, py_token = tok, py_default = True\<rparr>
      in (m, dict_set w m st))"

text \<open>The pydantic validator of \<open>SetPaymentMethodRequest.type\<close>; its \<open>ValueError\<close> is a 422.\<close>

definition validate_method_type :: "string \<Rightarrow> bool" where
  "validate_method_type v \<longleftrightarrow> v \<in> {WALLET_BALANCE, DIRECT_CARD}"

definition method_dict :: "payment_method \<Rightarrow> json" where
  "method_dict m = JObj [(''id'', JStr (str_uuid (py_id m))), (''type'', JStr (py_type m)),
     (''psp_token'', jopt_str (py_token m)), (''is_default'', JBool (py_default m))]"

definition route_get_payment_method :: "uuid \<Rightarrow> payment_method_store \<Rightarrow> json" where
  "route_get_payment_method w st =
     JObj [(''data'', case get_default st w of None \<Rightarrow> JNull | Some m \<Rightarrow> method_dict m)]"

definition route_set_payment_method ::
  "uuid \<Rightarrow> uuid \<Rightarrow> string \<Rightarrow> string option \<Rightarrow> payment_method_store
    \<Rightarrow> (py_error http_error + json) \<times> payment_method_store" where
  "route_set_payment_method new_id w ty tok st =
     (if \<not> validate_method_type ty
      then (Inl (HTTPException 422 ''type must be one of ('wallet_balance', 'direct_card')''), st)
      else if ty = DIRECT_CARD \<and> (tok = None \<or> tok = Some [])
      then (Inl (HTTPException 422 ''psp_token is required for a direct_card payment method''), st)
      else let (m, st') = set_default new_id w ty tok st in (Inr (method_dict m), st'))"

subsection \<open>The wallet ledger\<close>

abbreviation "TOPUP \<equiv> ''topup''"
abbreviation "CHARGE_DEDUCTION \<equiv> ''charge_deduction''"

record ledger_entry =
  le_wallet :: uuid
  le_amount :: int
  le_type :: string
  le_ref :: string

type_synonym ledger = "ledger_entry list"

definition ledger_append :: "uuid \<Rightarrow> int \<Rightarrow> string \<Rightarrow> string \<Rightarrow> ledger \<Rightarrow> ledger" where
  "ledger_append w amount ty ref l = l @ [\<lparr>le_wallet = w, le_amount = amount, le_type = ty, le_ref = ref\<rparr>]"

definition sum_for_wallet :: "ledger \<Rightarrow> uuid \<Rightarrow> int" where
  "sum_for_wallet l w = (\<Sum>e\<leftarrow>filter (\<lambda>e. le_wallet e = w) l. le_amount e)"

definition has_reference :: "ledger \<Rightarrow> uuid \<Rightarrow> string \<Rightarrow> bool" where
  "has_reference l w ref = list_ex (\<lambda>e. le_wallet e = w \<and> le_ref e = ref) l"

definition entries_for :: "ledger \<Rightarrow> uuid \<Rightarrow> ledger" where
  "entries_for l w = filter (\<lambda>e. le_wallet e = w) l"

text \<open>\<open>WalletService\<close> over a ledger and a provider.\<close>

record 'p wallet_service =
  ws_ledger :: ledger
  ws_provider :: 'p

definition initiate_topup ::
  "'p charge_op \<Rightarrow> uuid \<Rightarrow> uuid \<Rightarrow> string \<Rightarrow> int \<Rightarrow> string \<Rightarrow> 'p wallet_service
    \<Rightarrow> (provider_error + json) \<times> 'p wallet_service" where
  "initiate_topup charge new_id w tok amount currency s =
     (let key = ''topup:'' @ str_uuid w @ '':'' @ str_uuid new_id;
          (r, p) = charge tok amount currency key (ws_provider s)
      in (r, s\<lparr>ws_provider := p\<rparr>))"

definition handle_topup_webhook :: "uuid \<Rightarrow> string \<Rightarrow> int \<Rightarrow> 'p wallet_service \<Rightarrow> 'p wallet_service" where
  "handle_topup_webhook w txn amount s =
     (if has_reference (ws_ledger s) w txn then s
      else s\<lparr>ws_ledger := ledger_append w amount TOPUP txn (ws_ledger s)\<rparr>)"

definition get_balance :: "'p wallet_service \<Rightarrow> uuid \<Rightarrow> int" where
  "get_balance s w = sum_for_wallet (ws_ledger s) w"

definition route_topup ::
  "'p charge_op \<Rightarrow> uuid \<Rightarrow> uuid \<Rightarrow> string \<Rightarrow> int \<Rightarrow> string \<Rightarrow> 'p wallet_service
    \<Rightarrow> (provider_error http_error + json) \<times> 'p wallet_service" where
  "route_topup charge new_id w tok amount currency s =
     (let (r, s') = initiate_topup charge new_id w tok amount currency s
      in (case r of Inl e \<Rightarrow> Inl (Raised e) | Inr ref \<Rightarrow> Inr (JObj [(''psp_transaction_ref'', ref)]), s'))"

definition route_topup_webhook ::
  "uuid \<Rightarrow> string \<Rightarrow> int \<Rightarrow> 'p wallet_service \<Rightarrow> json \<times> 'p wallet_service" where
  "route_topup_webhook w txn amount s =
     (JObj [(''status'', JStr ''ok'')], handle_topup_webhook w txn amount s)"

definition route_get_balance :: "uuid \<Rightarrow> 'p wallet_service \<Rightarrow> json" where
  "route_get_balance w s =
     JObj [(''wallet_id'', JStr (str_uuid w)), (''balance_minor_units'', JInt (get_balance s w))]"

subsection \<open>Stripe webhooks\<close>

text \<open>
  \<open>hmac key message\<close> stands for \<open>hmac.new(key, message, sha256).hexdigest()\<close>.
  \<open>hmac.compare_digest\<close> raises on a string that is not ASCII.
\<close>

datatype webhook_error = StripeWebhookError string | WebhookRaised py_error

definition build_test_signature ::
  "(string \<Rightarrow> string \<Rightarrow> string) \<Rightarrow> string \<Rightarrow> string \<Rightarrow> int \<Rightarrow> string" where
  "build_test_signature hmac payload secret ts =
     ''t='' @ str_int ts @ '',v1='' @ hmac secret (str_int ts @ ''.'' @ payload)"

definition signature_parts :: "string \<Rightarrow> (string, string) pydict" where
  "signature_parts header =
     fold (\<lambda>part d. case split_once (CHR ''='') part of None \<Rightarrow> d | Some (k, v) \<Rightarrow> dict_set k v d)
       (split_on (CHR '','') header) []"

definition verify_stripe_signature ::
  "(string \<Rightarrow> string \<Rightarrow> string) \<Rightarrow> string \<Rightarrow> string \<Rightarrow> string \<Rightarrow> int \<Rightarrow> pyfloat \<Rightarrow> webhook_error + unit" where
  "verify_stripe_signature hmac payload header secret tolerance now =
     (let parts = signature_parts header in
      case (dict_get parts ''t'', dict_get parts ''v1'') of
        (Some t, Some v1) \<Rightarrow>
          (case py_int t of
             None \<Rightarrow> Inl (StripeWebhookError ''malformed timestamp in Stripe-Signature header'')
           | Some ts \<Rightarrow>
             (case float_of_int ts of
                Inl e \<Rightarrow> Inl (WebhookRaised (Arith e))
              | Inr tf \<Rightarrow>
                if flt (Fin (of_int tolerance)) (fabs (fsub now (Fin tf)))
                then Inl (StripeWebhookError ''Stripe-Signature timestamp outside tolerance window'')
                else if \<not> is_ascii v1 then Inl (WebhookRaised TypeError)
                else if hmac secret (str_int ts @ ''.'' @ payload) \<noteq> v1
                then Inl (StripeWebhookError ''signature mismatch'')
                else Inr ()))
      | _ \<Rightarrow> Inl (StripeWebhookError ''malformed Stripe-Signature header''))"

text \<open>The fields of the event the webhook reads, in the order it reads them.\<close>

definition webhook_credit ::
  "json \<Rightarrow> 'p wallet_service \<Rightarrow> (py_error http_error + json) \<times> 'p wallet_service" where
  "webhook_credit event s =
     (case Option.bind (jget event ''data'' (JObj [])) (\<lambda>d. jget d ''object'' (JObj [])) of
        None \<Rightarrow> (Inl (Raised AttributeError), s)
      | Some intent \<Rightarrow>
        (case Option.bind (jget intent ''metadata'' (JObj [])) (\<lambda>m. jget m ''wallet_id'' JNull) of
           None \<Rightarrow> (Inl (Raised AttributeError), s)
         | Some raw \<Rightarrow>
           if \<not> jtrue raw then (Inl (HTTPException 400 ''payment_intent missing metadata.wallet_id''), s)
           else (case raw of
               JStr r \<Rightarrow>
                 (case uuid_of_string r of
                    None \<Rightarrow> (Inl (HTTPException 400 ''metadata.wallet_id is not a valid UUID''), s)
                  | Some w \<Rightarrow>
                    (case (jitem intent ''id'', jitem intent ''amount'') of
                       (Inl e, _) \<Rightarrow> (Inl (Raised e), s)
                     | (_, Inl e) \<Rightarrow> (Inl (Raised e), s)
                     | (Inr (JStr txn), Inr (JInt amount)) \<Rightarrow>
                         (Inr (JObj [(''status'', JStr ''ok'')]), handle_topup_webhook w txn amount s)
                     | _ \<Rightarrow> (Inl (Raised IllTyped), s)))
             | _ \<Rightarrow> (Inl (Raised AttributeError), s))))"

definition route_stripe_webhook ::
  "(string \<Rightarrow> string \<Rightarrow> string) \<Rightarrow> (string \<Rightarrow> py_error + json) \<Rightarrow> string \<Rightarrow> pyfloat
    \<Rightarrow> string option \<Rightarrow> string \<Rightarrow> 'p wallet_service
    \<Rightarrow> (py_error http_error + json) \<times> 'p wallet_service" where
  "route_stripe_webhook hmac request_json secret now header payload s =
     (case header of
        None \<Rightarrow> (Inl (HTTPException 400 ''missing Stripe-Signature header''), s)
      | Some [] \<Rightarrow> (Inl (HTTPException 400 ''missing Stripe-Signature header''), s)
      | Some h \<Rightarrow>
        (case verify_stripe_signature hmac payload h secret 300 now of
           Inl (StripeWebhookError m) \<Rightarrow> (Inl (HTTPException 400 m), s)
         | Inl (WebhookRaised e) \<Rightarrow> (Inl (Raised e), s)
         | Inr _ \<Rightarrow>
           (case request_json payload of
              Inl e \<Rightarrow> (Inl (Raised e), s)
            | Inr event \<Rightarrow>
              (case jget event ''type'' JNull of
                 None \<Rightarrow> (Inl (Raised AttributeError), s)
               | Some ty \<Rightarrow>
                 if ty \<noteq> JStr ''payment_intent.succeeded''
                 then (Inr (JObj [(''status'', JStr ''ignored''), (''type'', ty)]), s)
                 else webhook_credit event s))))"

subsection \<open>Two deliveries on a ledger that suspends\<close>

text \<open>
  \<open>handle_topup_webhook\<close> awaits the ledger twice. On a ledger whose calls suspend (the
  PostgREST one) another delivery may run between the check and the append. A task is its
  program counter; a step runs one awaited call of one task.
\<close>

datatype webhook_pc = BeforeCheck | BeforeAppend | Finished

inductive webhook_step ::
  "uuid \<Rightarrow> string \<Rightarrow> int \<Rightarrow> ledger \<times> webhook_pc list \<Rightarrow> ledger \<times> webhook_pc list \<Rightarrow> bool"
  for w txn amount where
  check_seen: "\<lbrakk>i < length pcs; pcs ! i = BeforeCheck; has_reference l w txn\<rbrakk>
    \<Longrightarrow> webhook_step w txn amount (l, pcs) (l, pcs[i := Finished])"
| check_new: "\<lbrakk>i < length pcs; pcs ! i = BeforeCheck; \<not> has_reference l w txn\<rbrakk>
    \<Longrightarrow> webhook_step w txn amount (l, pcs) (l, pcs[i := BeforeAppend])"
| append: "\<lbrakk>i < length pcs; pcs ! i = BeforeAppend\<rbrakk>
    \<Longrightarrow> webhook_step w txn amount (l, pcs) (ledger_append w amount TOPUP txn l, pcs[i := Finished])"

subsection \<open>The ledger's contract\<close>

locale wallet_ledger =
  fixes append :: "uuid \<Rightarrow> int \<Rightarrow> string \<Rightarrow> string \<Rightarrow> 'l \<Rightarrow> 'l"
    and sum_for :: "'l \<Rightarrow> uuid \<Rightarrow> int"
    and has_ref :: "'l \<Rightarrow> uuid \<Rightarrow> string \<Rightarrow> bool"
  assumes sum_append: "sum_for (append w a ty r l) v = sum_for l v + (if w = v then a else 0)"
    and has_append: "has_ref (append w a ty r l) v q \<longleftrightarrow> has_ref l v q \<or> w = v \<and> r = q"
begin

lemma credit_once_sum:
  assumes "\<forall>(v, t, a) \<in> set ds. a = amt v t"
  shows "sum_for (fold (\<lambda>(v, t, a) l. if has_ref l v t then l else append v a ty t l) ds l) w
     = sum_for l w + (\<Sum>t \<in> {t \<in> (fst \<circ> snd) ` {d \<in> set ds. fst d = w}. \<not> has_ref l w t}. amt w t)"
  using assms
proof (induction ds arbitrary: l)
  case Nil
  then show ?case by simp
next
  case (Cons d ds)
  obtain v t a where d: "d = (v, t, a)" by (cases d)
  then have a: "a = amt v t" using Cons.prems by simp
  let ?l = "if has_ref l v t then l else append v a ty t l"
  let ?T = "(fst \<circ> snd) ` {d \<in> set ds. fst d = w}"
  let ?U = "(fst \<circ> snd) ` {e \<in> set (d # ds). fst e = w}"
  have U: "?U = (if v = w then insert t ?T else ?T)" using d by force
  have fin: "finite ?T" by simp
  have IH: "sum_for (fold (\<lambda>(v, t, a) l. if has_ref l v t then l else append v a ty t l) ds ?l) w
      = sum_for ?l w + (\<Sum>t \<in> {t \<in> ?T. \<not> has_ref ?l w t}. amt w t)"
    using Cons.prems by (intro Cons.IH) simp
  have "sum_for ?l w + (\<Sum>t \<in> {t \<in> ?T. \<not> has_ref ?l w t}. amt w t)
      = sum_for l w + (\<Sum>t \<in> {t \<in> ?U. \<not> has_ref l w t}. amt w t)"
  proof (cases "v = w \<and> \<not> has_ref l v t")
    case True
    have 1: "{x \<in> ?U. \<not> has_ref l w x} = insert t {x \<in> ?T. \<not> has_ref ?l w x}"
      using True U by (auto simp: has_append)
    have "t \<notin> {x \<in> ?T. \<not> has_ref ?l w x}" using True by (simp add: has_append)
    then have "(\<Sum>t \<in> {t \<in> ?U. \<not> has_ref l w t}. amt w t)
        = amt w t + (\<Sum>t \<in> {t \<in> ?T. \<not> has_ref ?l w t}. amt w t)"
      unfolding 1 using fin by simp
    moreover have "sum_for ?l w = sum_for l w + amt w t" using True a by (auto simp: sum_append)
    ultimately show ?thesis by linarith
  next
    case False
    then have "{x \<in> ?U. \<not> has_ref l w x} = {x \<in> ?T. \<not> has_ref ?l w x}"
      using U by (auto simp: has_append)
    then show ?thesis using False by (auto simp: sum_append)
  qed
  then show ?case using IH d by simp
qed

end

interpretation memory_ledger: wallet_ledger ledger_append sum_for_wallet has_reference
  by unfold_locales (auto simp: ledger_append_def sum_for_wallet_def has_reference_def)

lemma ledger_of_webhooks:
  "ws_ledger (fold (\<lambda>(w, t, a). handle_topup_webhook w t a) ds s)
     = fold (\<lambda>(w, t, a) l. if has_reference l w t then l else ledger_append w a TOPUP t l) ds (ws_ledger s)"
  by (induction ds arbitrary: s) (auto simp: handle_topup_webhook_def)

lemma initiate_topup_keeps_balance:
  "get_balance (snd (initiate_topup charge new_id w tok amount currency s)) v = get_balance s v"
  by (simp add: initiate_topup_def get_balance_def split: prod.splits)

subsection \<open>The retry loop\<close>

text \<open>A client that answers its n-th request with \<open>outs n\<close> and records the requests.\<close>

definition recording_client ::
  "(nat \<Rightarrow> http_outcome) \<Rightarrow> psp_request \<Rightarrow> psp_request list \<Rightarrow> http_outcome \<times> psp_request list" where
  "recording_client outs rq h = (outs (length h), h @ [rq])"

lemma recording_client_eq: "recording_client outs rq h = (outs (length h), h @ [rq])"
  by (simp add: recording_client_def)

lemma stripe_attempts_stop:
  assumes "\<And>i. i < n \<Longrightarrow> retryable (outs (length h + i))" "outs (length h + n) = HttpResponse st body"
    "st < 500" "n < left"
  shows "stripe_attempts (recording_client outs) rq k left h
     = (Some (stripe_answer st body), [k..<k + n], h @ replicate (Suc n) rq)"
  using assms
proof (induction n arbitrary: k left h)
  case 0
  then obtain m where "left = Suc m" by (cases left) auto
  with 0 show ?case by (simp add: recording_client_eq[of outs rq h] retryable_def)
next
  case (Suc n)
  then obtain m where m: "left = Suc m" "n < m" by (cases left) auto
  have "retryable (outs (length h))" using Suc.prems(1)[of 0] by simp
  moreover have "stripe_attempts (recording_client outs) rq (Suc k) m (h @ [rq])
      = (Some (stripe_answer st body), [Suc k..<Suc k + n], (h @ [rq]) @ replicate (Suc n) rq)"
    using Suc.prems(1)[of "Suc _"] Suc.prems(2,3) m by (intro Suc.IH) simp_all
  moreover have "[k..<k + Suc n] = k # [Suc k..<Suc k + n]" by (simp add: upt_conv_Cons del: upt_Suc)
  ultimately show ?case using m by (simp add: recording_client_eq[of outs rq h] del: upt_Suc stripe_attempts.simps(1))
qed

lemma stripe_attempts_exhaust:
  assumes "\<And>i. i < left \<Longrightarrow> retryable (outs (length h + i))"
  shows "stripe_attempts (recording_client outs) rq k left h
     = (None, [k..<k + left - 1], h @ replicate left rq)"
  using assms
proof (induction left arbitrary: k h)
  case 0
  then show ?case by simp
next
  case (Suc m)
  have "retryable (outs (length h))" using Suc.prems[of 0] by simp
  moreover have "stripe_attempts (recording_client outs) rq (Suc k) m (h @ [rq])
      = (None, [Suc k..<Suc k + m - 1], (h @ [rq]) @ replicate m rq)"
    using Suc.prems[of "Suc _"] by (intro Suc.IH) simp
  moreover have "[k..<k + Suc m - 1] = (if 0 < m then k # [Suc k..<Suc k + m - 1] else [])"
    by (simp add: upt_conv_Cons del: upt_Suc)
  ultimately show ?case by (simp add: recording_client_eq[of outs rq h] del: upt_Suc)
qed

subsection \<open>Signatures\<close>

lemma signature_parts_build:
  assumes "\<And>k m. set (hmac k m) \<subseteq> set hex_chars"
  shows "signature_parts (build_test_signature hmac payload secret ts)
     = [(''t'', str_int ts), (''v1'', hmac secret (str_int ts @ ''.'' @ payload))]"
proof -
  let ?h = "hmac secret (str_int ts @ ''.'' @ payload)"
  have h: "CHR '','' \<notin> set ?h" using assms[of secret] hex_chars_other by fastforce
  have i: "CHR '','' \<notin> set (str_int ts)" using str_int_chars hex_chars_other by fastforce
  have "split_on (CHR '','') (build_test_signature hmac payload secret ts)
      = [''t='' @ str_int ts, ''v1='' @ ?h]"
    using split_on_sep[of "CHR '',''" "''t='' @ str_int ts" "''v1='' @ ?h"] h i
    by (simp add: build_test_signature_def)
  then show ?thesis by (simp add: signature_parts_def)
qed

text \<open>The header as parsed: what an accepted signature says.\<close>

lemma verify_InrD:
  assumes "verify_stripe_signature hmac payload header secret tolerance now = Inr ()"
  obtains t ts tf where "dict_get (signature_parts header) ''t'' = Some t" "py_int t = Some ts"
    "float_of_int ts = Inr tf" "\<not> flt (Fin (of_int tolerance)) (fabs (fsub now (Fin tf)))"
    "dict_get (signature_parts header) ''v1'' = Some (hmac secret (str_int ts @ ''.'' @ payload))"
  using assms by (auto simp: verify_stripe_signature_def Let_def split: option.splits sum.splits if_splits)

lemma webhook_credit_rejects:
  "snd (webhook_credit event s) \<noteq> s \<Longrightarrow> \<exists>w txn amount. snd (webhook_credit event s) = handle_topup_webhook w txn amount s"
  by (auto simp: webhook_credit_def split: option.splits json.splits sum.splits if_splits)

subsection \<open>Properties\<close>

text \<open>
  C1: However often and in whatever order the PSP delivers its confirmations, a wallet's
  balance grows by each transaction's amount exactly once; transactions the ledger already
  holds count for nothing.
\<close>

theorem topup_webhooks_credit_once:
  assumes "\<forall>(v, t, a) \<in> set ds. a = amt v t"
  shows "get_balance (fold (\<lambda>(v, t, a). handle_topup_webhook v t a) ds s) w
     = get_balance s w
       + (\<Sum>t \<in> {t \<in> (fst \<circ> snd) ` {d \<in> set ds. fst d = w}. \<not> has_reference (ws_ledger s) w t}. amt w t)"
  unfolding get_balance_def ledger_of_webhooks using assms by (rule memory_ledger.credit_once_sum)

theorem topup_webhooks_credit_once_witness:
  "get_balance (fold (\<lambda>(v, t, a). handle_topup_webhook v t a)
      [(1, ''x'', 500), (1, ''y'', 700), (1, ''x'', 500)] \<lparr>ws_ledger = [], ws_provider = ()\<rparr>) 1 = 1200"
proof -
  have "{t. t \<in> {''x'', ''y''}} = {''x'', ''y''}" by auto
  moreover have "(fst \<circ> snd) ` {d \<in> set [(1::uuid, ''x'', 500::int), (1, ''y'', 700), (1, ''x'', 500)]. fst d = 1}
      = {''x'', ''y''}" by (auto simp: image_iff)
  ultimately show ?thesis
    using topup_webhooks_credit_once[of "[(1, ''x'', 500), (1, ''y'', 700), (1, ''x'', 500)]"
        "\<lambda>v t. if t = ''x'' then 500 else 700" "\<lparr>ws_ledger = [], ws_provider = ()\<rparr>" 1]
    by (simp add: get_balance_def sum_for_wallet_def has_reference_def del: fold_simps)
qed

text \<open>
  On a ledger whose calls suspend, the check and the append of
  \<open>handle_topup_webhook\<close> can interleave: two deliveries of one confirmation, neither
  seen before, can both pass the check and credit the wallet twice.
\<close>

theorem concurrent_webhooks_credit_twice:
  assumes "\<not> has_reference l w txn"
  shows "\<exists>l'. (webhook_step w txn amount)\<^sup>*\<^sup>* (l, [BeforeCheck, BeforeCheck]) (l', [Finished, Finished])
     \<and> sum_for_wallet l' w = sum_for_wallet l w + 2 * amount"
proof -
  let ?R = "webhook_step w txn amount"
  let ?m = "ledger_append w amount TOPUP txn"
  have "?R (l, [BeforeCheck, BeforeCheck]) (l, [BeforeAppend, BeforeCheck])"
    using check_new[of 0 "[BeforeCheck, BeforeCheck]" l w txn amount] assms by simp
  moreover have "?R (l, [BeforeAppend, BeforeCheck]) (l, [BeforeAppend, BeforeAppend])"
    using check_new[of 1 "[BeforeAppend, BeforeCheck]" l w txn amount] assms by simp
  moreover have "?R (l, [BeforeAppend, BeforeAppend]) (?m l, [Finished, BeforeAppend])"
    using append[of 0 "[BeforeAppend, BeforeAppend]" w txn amount l] by simp
  moreover have "?R (?m l, [Finished, BeforeAppend]) (?m (?m l), [Finished, Finished])"
    using append[of 1 "[Finished, BeforeAppend]" w txn amount "?m l"] by simp
  ultimately have "?R\<^sup>*\<^sup>* (l, [BeforeCheck, BeforeCheck]) (?m (?m l), [Finished, Finished])"
    by (elim converse_rtranclp_into_rtranclp) (rule rtranclp.rtrancl_refl)
  moreover have "sum_for_wallet (?m (?m l)) w = sum_for_wallet l w + 2 * amount"
    by (simp add: memory_ledger.sum_append)
  ultimately show ?thesis by blast
qed

theorem concurrent_webhooks_credit_twice_witness:
  "\<exists>l'. (webhook_step 1 ''pi_1'' 500)\<^sup>*\<^sup>* ([], [BeforeCheck, BeforeCheck]) (l', [Finished, Finished])
     \<and> sum_for_wallet l' 1 = sum_for_wallet [] 1 + 2 * 500"
  by (rule concurrent_webhooks_credit_twice) (simp add: has_reference_def)

text \<open>
  A header made by \<open>build_test_signature\<close> verifies under the same secret and
  payload while its timestamp is within the tolerance; \<open>hexdigest\<close> answers hexadecimal.
\<close>

theorem stripe_signature_roundtrip:
  assumes hex: "\<forall>k m. set (hmac k m) \<subseteq> set hex_chars"
    and "float_of_int ts = Inr tf" "fle (fabs (fsub now (Fin tf))) (Fin (of_int tolerance))"
  shows "verify_stripe_signature hmac payload (build_test_signature hmac payload secret ts) secret tolerance now
     = Inr ()"
proof -
  have "\<not> flt (Fin (of_int tolerance)) (fabs (fsub now (Fin tf)))"
    using assms(3) by (rule fle_not_flt)
  then show ?thesis
    using signature_parts_build[of hmac payload secret ts] hex assms(2) hex_is_ascii
    by (simp add: verify_stripe_signature_def)
qed

definition toy_hmac :: "string \<Rightarrow> string \<Rightarrow> string" where
  "toy_hmac k m = map (\<lambda>c. if c \<in> set hex_chars then c else CHR ''0'') (k @ m)"

lemma toy_hmac_hex: "set (toy_hmac k m) \<subseteq> set hex_chars"
proof -
  have "CHR ''0'' \<in> set hex_chars" by (simp add: hex_chars_def)
  then show ?thesis by (auto simp: toy_hmac_def)
qed

lemma toy_clock: "float_of_int 1000 = Inr 1000" "fle (fabs (fsub (Fin 1200) (Fin 1000))) (Fin (of_int 300))"
  using float_of_int_exact[of 1000] fl64_of_int[of 200] by (simp_all add: fsub_def fle_def)

theorem stripe_signature_roundtrip_witness:
  "verify_stripe_signature toy_hmac ''{}'' (build_test_signature toy_hmac ''{}'' ''whsec'' 1000) ''whsec'' 300 (Fin 1200)
     = Inr ()"
  by (rule stripe_signature_roundtrip[OF _ toy_clock]) (simp add: toy_hmac_hex)

text \<open>
  C2: The Stripe webhook route changes the service only for a request whose
  \<open>Stripe-Signature\<close> carries a timestamp within five minutes of the clock and, as its
  \<open>v1\<close> part, the digest of that timestamp and of the very body that was received; the
  change is then one call of \<open>handle_topup_webhook\<close>.
\<close>

theorem stripe_webhook_only_credits_signed:
  assumes "snd (route_stripe_webhook hmac parse secret now header payload s) \<noteq> s"
  shows "\<exists>h t ts tf w txn amount. header = Some h
     \<and> dict_get (signature_parts h) ''t'' = Some t \<and> py_int t = Some ts \<and> float_of_int ts = Inr tf
     \<and> \<not> flt (Fin 300) (fabs (fsub now (Fin tf)))
     \<and> dict_get (signature_parts h) ''v1'' = Some (hmac secret (str_int ts @ ''.'' @ payload))
     \<and> snd (route_stripe_webhook hmac parse secret now header payload s) = handle_topup_webhook w txn amount s"
proof -
  obtain h where h: "header = Some h" using assms by (cases header) (simp_all add: route_stripe_webhook_def)
  then obtain c cs where hc: "h = c # cs" using assms by (cases h) (simp_all add: route_stripe_webhook_def)
  have v: "verify_stripe_signature hmac payload h secret 300 now = Inr ()"
    using assms h hc
    by (cases "verify_stripe_signature hmac payload h secret 300 now")
      (simp_all add: route_stripe_webhook_def split: webhook_error.splits)
  obtain event where e: "parse payload = Inr event"
    using assms h hc v by (cases "parse payload") (auto simp: route_stripe_webhook_def)
  have r: "snd (route_stripe_webhook hmac parse secret now header payload s) = snd (webhook_credit event s)"
    using assms h hc v e by (auto simp: route_stripe_webhook_def split: option.splits if_splits)
  obtain w txn amount where c: "snd (webhook_credit event s) = handle_topup_webhook w txn amount s"
    using webhook_credit_rejects[of event s] assms r by auto
  obtain t ts tf where v: "dict_get (signature_parts h) ''t'' = Some t" "py_int t = Some ts"
    "float_of_int ts = Inr tf" "\<not> flt (Fin (of_int 300)) (fabs (fsub now (Fin tf)))"
    "dict_get (signature_parts h) ''v1'' = Some (hmac secret (str_int ts @ ''.'' @ payload))"
    using verify_InrD[OF v] by blast
  show ?thesis
    by (rule exI[of _ h], rule exI[of _ t], rule exI[of _ ts], rule exI[of _ tf], rule exI[of _ w],
        rule exI[of _ txn], rule exI[of _ amount]) (use h v r c in simp)
qed

definition sample_event :: json where
  "sample_event = JObj [(''type'', JStr ''payment_intent.succeeded''), (''data'', JObj [(''object'', JObj
     [(''metadata'', JObj [(''wallet_id'', JStr (str_uuid 1))]), (''id'', JStr ''pi_1''), (''amount'', JInt 500)])])]"

theorem stripe_webhook_only_credits_signed_witness:
  "\<exists>w txn amount. snd (route_stripe_webhook toy_hmac (\<lambda>_. Inr sample_event) ''whsec'' (Fin 1200)
      (Some (build_test_signature toy_hmac ''{}'' ''whsec'' 1000)) ''{}'' \<lparr>ws_ledger = [], ws_provider = ()\<rparr>)
    = handle_topup_webhook w txn amount \<lparr>ws_ledger = [], ws_provider = ()\<rparr>"
proof -
  let ?s = "\<lparr>ws_ledger = [], ws_provider = ()\<rparr>"
  let ?h = "build_test_signature toy_hmac ''{}'' ''whsec'' 1000"
  have v: "verify_stripe_signature toy_hmac ''{}'' ?h ''whsec'' 300 (Fin 1200) = Inr ()"
    using signature_parts_build[of toy_hmac "''{}''" "''whsec''" 1000] toy_hmac_hex toy_clock(1)
      fle_not_flt[OF toy_clock(2)] hex_is_ascii
    by (simp add: verify_stripe_signature_def)
  obtain c cs where hc: "?h = c # cs" by (simp add: build_test_signature_def)
  have "route_stripe_webhook toy_hmac (\<lambda>_. Inr sample_event) ''whsec'' (Fin 1200) (Some ?h) ''{}'' ?s
      = webhook_credit sample_event ?s"
    using v hc by (simp add: route_stripe_webhook_def sample_event_def jget_def)
  also have "snd (webhook_credit sample_event ?s) = handle_topup_webhook 1 ''pi_1'' 500 ?s"
    by (simp add: webhook_credit_def sample_event_def jget_def jitem_def jtrue_def)
  finally have "snd (route_stripe_webhook toy_hmac (\<lambda>_. Inr sample_event) ''whsec'' (Fin 1200) (Some ?h) ''{}'' ?s) \<noteq> ?s"
    by (simp add: handle_topup_webhook_def has_reference_def ledger_append_def)
  from stripe_webhook_only_credits_signed[OF this] show ?thesis by blast
qed

text \<open>
  The Stripe adapter sends the same request, with the same idempotency key, until the
  first answer that is neither a transport failure nor a 5xx, and at most
  \<open>max_attempts\<close> times; that answer alone decides the result, so a decline is never
  retried.
\<close>

theorem stripe_charge_retries:
  assumes "\<forall>i < n. retryable (outs i)"
    and "nat (sc_max_attempts cfg) = n \<and> res = Inl (ppe (''PSP request failed after '' @ str_int (sc_max_attempts cfg) @ '' attempts'')) \<and> k = n
       \<or> int n < sc_max_attempts cfg \<and> outs n = HttpResponse st body \<and> st < 500 \<and> res = stripe_answer st body \<and> k = Suc n"
  shows "stripe_charge (recording_client outs) cfg tok amount currency key []
     = (res, replicate k (stripe_request cfg tok amount currency key))"
  using assms(2)
proof (elim disjE conjE)
  assume "nat (sc_max_attempts cfg) = n" "k = n"
    "res = Inl (ppe (''PSP request failed after '' @ str_int (sc_max_attempts cfg) @ '' attempts''))"
  then show ?thesis
    using stripe_attempts_exhaust[of n outs "[]"] assms(1) by (simp add: stripe_charge_def)
next
  assume "int n < sc_max_attempts cfg" "outs n = HttpResponse st body" "st < 500" "res = stripe_answer st body" "k = Suc n"
  then show ?thesis
    using stripe_attempts_stop[of n outs "[]" st body "nat (sc_max_attempts cfg)"] assms(1)
    by (simp add: stripe_charge_def zless_nat_conj)
qed

theorem stripe_charge_retries_witness:
  "stripe_charge (recording_client (\<lambda>n. if n = 0 then HttpFailure else HttpResponse 402 (Some (JObj []))))
      \<lparr>sc_api_key = ''sk'', sc_base_url = ''u'', sc_max_attempts = 3\<rparr> ''pm_1'' 500 ''AED'' ''session:1'' []
   = (stripe_answer 402 (Some (JObj [])), replicate 2 (stripe_request
       \<lparr>sc_api_key = ''sk'', sc_base_url = ''u'', sc_max_attempts = 3\<rparr> ''pm_1'' 500 ''AED'' ''session:1''))"
  by (rule stripe_charge_retries[where n = 1 and st = 402 and body = "Some (JObj [])"])
    (simp_all add: retryable_def)

end
