(* ===== verification/Session_Billing.thy ===== *)
theory Session_Billing
  imports Wallet
begin

text \<open>
  Charging a session (\<open>billing/session_billing.py\<close>): the driver's default payment
  method decides between a ledger deduction and a card charge; a failed card charge marks the
  session, schedules a retry and, after enough failures in a row, suspends the driver.
\<close>

abbreviation "CHARGED \<equiv> ''charged''"
abbreviation "PAYMENT_FAILED \<equiv> ''payment_failed''"

datatype session_billing_error = NoPaymentMethodError string | BillingRaised py_error

text \<open>The stores the service is built on, and the provider's own state.\<close>

record 'p session_billing =
  sb_methods :: payment_method_store
  sb_ledger :: ledger
  sb_provider :: 'p
  sb_status :: "(string, string) pydict"
  sb_failures :: "(uuid, int) pydict"
  sb_suspended :: "uuid set"
  sb_retries :: "(string \<times> int \<times> datetime) list"

definition mark_status :: "string \<Rightarrow> string \<Rightarrow> 'p session_billing \<Rightarrow> 'p session_billing" where
  "mark_status session st s = s\<lparr>sb_status := dict_set session st (sb_status s)\<rparr>"

definition get_status :: "'p session_billing \<Rightarrow> string \<Rightarrow> string option" where
  "get_status s session = dict_get (sb_status s) session"

definition suspend :: "uuid \<Rightarrow> 'p session_billing \<Rightarrow> 'p session_billing" where
  "suspend driver s = s\<lparr>sb_suspended := insert driver (sb_suspended s)\<rparr>"

definition is_suspended :: "'p session_billing \<Rightarrow> uuid \<Rightarrow> bool" where
  "is_suspended s driver \<longleftrightarrow> driver \<in> sb_suspended s"

definition record_failure :: "uuid \<Rightarrow> 'p session_billing \<Rightarrow> int \<times> 'p session_billing" where
  "record_failure driver s =
     (let n = dict_get_default (sb_failures s) driver 0 + 1
      in (n, s\<lparr>sb_failures := dict_set driver n (sb_failures s)\<rparr>))"

definition reset_failures :: "uuid \<Rightarrow> 'p session_billing \<Rightarrow> 'p session_billing" where
  "reset_failures driver s = s\<lparr>sb_failures := dict_set driver 0 (sb_failures s)\<rparr>"

definition schedule_retry :: "string \<Rightarrow> int \<Rightarrow> datetime \<Rightarrow> 'p session_billing \<Rightarrow> 'p session_billing" where
  "schedule_retry session attempt next_at s = s\<lparr>sb_retries := sb_retries s @ [(session, attempt, next_at)]\<rparr>"

text \<open>\<open>(5, 30, 120)[min(n - 1, 2)]\<close>, where a negative index counts from the end.\<close>

definition backoff_minutes_for_attempt :: "int \<Rightarrow> int option" where
  "backoff_minutes_for_attempt n =
     (let xs = [5, 30, 120]; i = min (n - 1) (int (length xs) - 1)
      in if 0 \<le> i then Some (xs ! nat i)
         else if - int (length xs) \<le> i then Some (xs ! nat (i + int (length xs))) else None)"

definition charge_failed ::
  "int \<Rightarrow> datetime \<Rightarrow> string \<Rightarrow> uuid \<Rightarrow> 'p session_billing
    \<Rightarrow> (session_billing_error + unit) \<times> 'p session_billing" where
  "charge_failed suspend_after now session driver s =
     (let (n, s1) = record_failure driver (mark_status session PAYMENT_FAILED s) in
      case backoff_minutes_for_attempt n of
        None \<Rightarrow> (Inl (BillingRaised IndexError), s1)
      | Some m \<Rightarrow>
        let s2 = schedule_retry session n (now + m * 60 * us_per_second) s1
        in (Inr (), if n \<ge> suspend_after then suspend driver s2 else s2))"

definition charge_session ::
  "'p charge_op \<Rightarrow> int \<Rightarrow> datetime \<Rightarrow> string \<Rightarrow> uuid \<Rightarrow> uuid \<Rightarrow> int \<Rightarrow> string \<Rightarrow> 'p session_billing
    \<Rightarrow> (session_billing_error + unit) \<times> 'p session_billing" where
  "charge_session charge suspend_after now session wallet driver amount currency s =
     (let key = ''session:'' @ session in
      case get_default (sb_methods s) wallet of
        None \<Rightarrow> (Inr (), mark_status session CHARGED
                  (s\<lparr>sb_ledger := ledger_append wallet (- amount) CHARGE_DEDUCTION key (sb_ledger s)\<rparr>))
      | Some m \<Rightarrow>
        if py_type m = WALLET_BALANCE
        then (Inr (), mark_status session CHARGED
                  (s\<lparr>sb_ledger := ledger_append wallet (- amount) CHARGE_DEDUCTION key (sb_ledger s)\<rparr>))
        else (case (py_type m = DIRECT_CARD, py_token m) of
            (True, Some tok) \<Rightarrow>
              (let (r, p) = charge tok amount currency key (sb_provider s);
                   s1 = s\<lparr>sb_provider := p\<rparr>
               in case r of
                    Inl (PaymentProviderError _) \<Rightarrow> charge_failed suspend_after now session driver s1
                  | Inl (ProviderRaised e) \<Rightarrow> (Inl (BillingRaised e), s1)
                  | Inr _ \<Rightarrow> (Inr (), reset_failures driver (mark_status session CHARGED s1)))
          | _ \<Rightarrow> (Inl (NoPaymentMethodError
                       (''wallet '' @ str_uuid wallet @ '' has no usable payment method'')), s)))"

subsection \<open>Lemmas\<close>

abbreviation failures_of :: "'p session_billing \<Rightarrow> uuid \<Rightarrow> int" where
  "failures_of s d \<equiv> dict_get_default (sb_failures s) d 0"

text \<open>Failure counts are never negative; every operation keeps that.\<close>

definition failures_inv :: "'p session_billing \<Rightarrow> bool" where
  "failures_inv s \<longleftrightarrow> (\<forall>d. 0 \<le> failures_of s d)"

lemma backoff_defined: "1 \<le> n \<Longrightarrow> backoff_minutes_for_attempt n = Some (if n = 1 then 5 else if n = 2 then 30 else 120)"
proof -
  assume "1 \<le> n"
  then consider "n = 1" | "n = 2" | "3 \<le> n" by linarith
  then show ?thesis
  proof cases
    case 3
    then have "min (n - 1) 2 = (2::int)" by simp
    with 3 show ?thesis by (simp add: backoff_minutes_for_attempt_def Let_def)
  qed (simp_all add: backoff_minutes_for_attempt_def Let_def)
qed

lemma charge_failed_eq:
  assumes "n = failures_of s driver + 1" "backoff_minutes_for_attempt n = Some m"
  shows "charge_failed N now session driver s =
    (Inr (), s\<lparr>sb_status := dict_set session PAYMENT_FAILED (sb_status s),
       sb_failures := dict_set driver n (sb_failures s),
       sb_retries := sb_retries s @ [(session, n, now + m * 60 * 1000000)],
       sb_suspended := (if n \<ge> N then insert driver (sb_suspended s) else sb_suspended s)\<rparr>)"
  using assms(2) unfolding charge_failed_def record_failure_def
  by (simp add: assms(1)[symmetric] mark_status_def schedule_retry_def suspend_def)

text \<open>A driver paying by card: the method, its token, and a PSP that declines every charge.\<close>

definition pays_by_card :: "'p session_billing \<Rightarrow> uuid \<Rightarrow> string \<Rightarrow> bool" where
  "pays_by_card s w tok \<longleftrightarrow> (\<exists>m. get_default (sb_methods s) w = Some m \<and> py_type m = DIRECT_CARD \<and> py_token m = Some tok)"

lemma charge_session_card:
  assumes "pays_by_card s w tok"
  shows "charge_session charge N now session w driver amount currency s =
    (let (r, p) = charge tok amount currency (''session:'' @ session) (sb_provider s); s1 = s\<lparr>sb_provider := p\<rparr>
     in case r of Inl (PaymentProviderError _) \<Rightarrow> charge_failed N now session driver s1
        | Inl (ProviderRaised e) \<Rightarrow> (Inl (BillingRaised e), s1)
        | Inr _ \<Rightarrow> (Inr (), reset_failures driver (mark_status session CHARGED s1)))"
  using assms by (auto simp: charge_session_def pays_by_card_def Let_def)

text \<open>A run of declined card charges, one session after another, for one driver.\<close>

fun charge_run ::
  "'p charge_op \<Rightarrow> int \<Rightarrow> uuid \<Rightarrow> uuid \<Rightarrow> string \<Rightarrow> (string \<times> int \<times> datetime) list \<Rightarrow> 'p session_billing
    \<Rightarrow> 'p session_billing" where
  "charge_run charge N w d cur [] s = s"
| "charge_run charge N w d cur ((session, amount, now) # xs) s =
     charge_run charge N w d cur xs (snd (charge_session charge N now session w d amount cur s))"

definition declines :: "'p charge_op \<Rightarrow> string \<Rightarrow> bool" where
  "declines charge tok \<longleftrightarrow> (\<forall>a c k p. \<exists>m. fst (charge tok a c k p) = Inl (PaymentProviderError m))"

lemma declined_step_at:
  assumes "pays_by_card s w tok" "failures_inv s"
    and c: "charge tok amount cur (''session:'' @ session) (sb_provider s) = (Inl (PaymentProviderError m), p)"
    and s'_def: "s' = snd (charge_session charge N now session w d amount cur s)"
  shows "pays_by_card s' w tok" "failures_inv s'" "failures_of s' d = failures_of s d + 1"
    "sb_suspended s' = (if failures_of s d + 1 \<ge> N then insert d (sb_suspended s) else sb_suspended s)"
    "get_status s' session = Some PAYMENT_FAILED" "length (sb_retries s') = Suc (length (sb_retries s))" "sb_provider s' = p"
proof -
  have "1 \<le> failures_of (s\<lparr>sb_provider := p\<rparr>) d + 1" using assms(2) by (simp add: failures_inv_def)
  note b = backoff_defined[OF this]
  have e: "s' = snd (charge_failed N now session d (s\<lparr>sb_provider := p\<rparr>))"
    unfolding s'_def charge_session_card[OF assms(1)] c by simp
  note e = e[unfolded charge_failed_eq[OF refl b] snd_conv]
  show "pays_by_card s' w tok" using assms(1) unfolding e pays_by_card_def by simp
  show "failures_inv s'" using assms(2) unfolding e failures_inv_def by (simp add: add_increasing2)
  show "failures_of s' d = failures_of s d + 1" unfolding e by simp
  show "sb_suspended s' = (if failures_of s d + 1 \<ge> N then insert d (sb_suspended s) else sb_suspended s)"
    unfolding e by simp
  show "get_status s' session = Some PAYMENT_FAILED" unfolding e get_status_def by simp
  show "length (sb_retries s') = Suc (length (sb_retries s))" unfolding e by simp
  show "sb_provider s' = p" unfolding e by simp
qed

lemma declined_step:
  assumes "pays_by_card s w tok" "declines charge tok" "failures_inv s"
    and s'_def: "s' = snd (charge_session charge N now session w d amount cur s)"
  shows "pays_by_card s' w tok" "failures_inv s'" "failures_of s' d = failures_of s d + 1"
    "sb_suspended s' = (if failures_of s d + 1 \<ge> N then insert d (sb_suspended s) else sb_suspended s)"
    "get_status s' session = Some PAYMENT_FAILED" "length (sb_retries s') = Suc (length (sb_retries s))"
proof -
  obtain m p where c: "charge tok amount cur (''session:'' @ session) (sb_provider s) = (Inl (PaymentProviderError m), p)"
    using assms(2) unfolding declines_def by (metis prod.collapse)
  note st = declined_step_at[OF assms(1,3) c s'_def]
  show "pays_by_card s' w tok" "failures_inv s'" "failures_of s' d = failures_of s d + 1"
    "sb_suspended s' = (if failures_of s d + 1 \<ge> N then insert d (sb_suspended s) else sb_suspended s)"
    "get_status s' session = Some PAYMENT_FAILED" "length (sb_retries s') = Suc (length (sb_retries s))" by (rule st)+
qed

lemma declined_run:
  assumes "pays_by_card s w tok" "declines charge tok" "failures_inv s"
    and s'_def: "s' = charge_run charge N w d cur xs s"
  shows "failures_of s' d = failures_of s d + int (length xs)
    \<and> length (sb_retries s') = length (sb_retries s) + length xs
    \<and> (d \<in> sb_suspended s' \<longleftrightarrow> d \<in> sb_suspended s \<or> xs \<noteq> [] \<and> N \<le> failures_of s d + int (length xs))"
  unfolding s'_def using assms(1,3)
proof (induction xs arbitrary: s)
  case Nil
  then show ?case by simp
next
  case (Cons x xs)
  obtain session amount now where x: "x = (session, amount, now)" by (cases x)
  let ?t = "snd (charge_session charge N now session w d amount cur s)"
  note st = declined_step[OF Cons.prems(1) assms(2) Cons.prems(2) refl, where N = N and now = now and session = session and d = d
      and amount = amount and cur = cur]
  have "d \<in> sb_suspended ?t \<longleftrightarrow> d \<in> sb_suspended s \<or> N \<le> failures_of s d + 1" using st(4) by auto
  then show ?case using Cons.IH[OF st(1,2)] st(3,6) by (auto simp: x)
qed

subsection \<open>Properties\<close>

text \<open>
  After card charges declined in a row the driver is suspended exactly when the
  failures since the last success have reached the threshold; each one counts once and
  schedules one retry.
\<close>

theorem suspended_after_n_declines:
  assumes "pays_by_card s w tok" "declines charge tok" "failures_inv s" "d \<notin> sb_suspended s" "xs \<noteq> []"
  shows "(is_suspended (charge_run charge N w d cur xs s) d \<longleftrightarrow> N \<le> failures_of s d + int (length xs))
    \<and> failures_of (charge_run charge N w d cur xs s) d = failures_of s d + int (length xs)
    \<and> length (sb_retries (charge_run charge N w d cur xs s)) = length (sb_retries s) + length xs"
  using declined_run[OF assms(1-3) refl, of N d cur xs] assms(4,5) by (simp add: is_suspended_def)

definition sample_billing :: "stub_provider session_billing" where
  "sample_billing = \<lparr>sb_methods = [(1, \<lparr>py_id = 9, py_wallet = 1, py_type = DIRECT_CARD, py_token = Some ''pm_x'', py_default = True\<rparr>)],
     sb_ledger = [], sb_provider = \<lparr>sp_charges = [], sp_next = 0, sp_failing = {''pm_x''}\<rparr>,
     sb_status = [], sb_failures = [], sb_suspended = {}, sb_retries = []\<rparr>"

definition declining_charge :: "stub_provider charge_op" where
  "declining_charge tok amount cur key p = stub_charge tok amount cur key (stub_set_failing tok True p)"

theorem suspended_after_n_declines_witness:
  "is_suspended (charge_run declining_charge 3 1 2 ''AED'' [(''a'', 10, 0), (''b'', 10, 1), (''c'', 10, 2)] sample_billing) 2"
proof -
  have "pays_by_card sample_billing 1 ''pm_x''" by (simp add: pays_by_card_def sample_billing_def get_default_def)
  moreover have "declines declining_charge ''pm_x''"
    by (simp add: declines_def declining_charge_def stub_charge_def stub_set_failing_def Let_def)
  moreover have "failures_inv sample_billing" by (simp add: failures_inv_def sample_billing_def dict_get_default_def)
  moreover have "(2::uuid) \<notin> sb_suspended sample_billing" by (simp add: sample_billing_def)
  ultimately show ?thesis
    using suspended_after_n_declines[of sample_billing 1 "''pm_x''" declining_charge 2
        "[(''a'', 10, 0), (''b'', 10, 1), (''c'', 10, 2)]" 3 "''AED''"]
    by (simp add: sample_billing_def dict_get_default_def)
qed

text \<open>
  C3: A session whose charge returns is never left unbilled: it is marked charged or
  payment-failed, and when it is charged the amount is either one ledger deduction under the
  session's reference or one accepted card charge under the session's idempotency key.
\<close>

theorem charged_session_is_billed:
  assumes "charge_session charge N now session w d amount cur s = (Inr (), s')" "failures_inv s"
  shows "get_status s' session = Some PAYMENT_FAILED
    \<or> get_status s' session = Some CHARGED \<and>
      (sb_ledger s' = ledger_append w (- amount) CHARGE_DEDUCTION (''session:'' @ session) (sb_ledger s)
         \<and> sb_provider s' = sb_provider s
       \<or> sb_ledger s' = sb_ledger s
         \<and> (\<exists>tok ref. charge tok amount cur (''session:'' @ session) (sb_provider s) = (Inr ref, sb_provider s')))"
proof (cases "\<exists>tok. pays_by_card s w tok")
  case True
  then obtain tok where t: "pays_by_card s w tok" by blast
  obtain r p where c: "charge tok amount cur (''session:'' @ session) (sb_provider s) = (r, p)" by fastforce
  show ?thesis
  proof (cases r)
    case (Inr ref)
    then have "s' = reset_failures d (mark_status session CHARGED (s\<lparr>sb_provider := p\<rparr>))"
      using assms(1) unfolding charge_session_card[OF t] c by simp
    then have "sb_ledger s' = sb_ledger s" "sb_provider s' = p" "get_status s' session = Some CHARGED"
      by (simp_all add: reset_failures_def mark_status_def get_status_def)
    with c Inr show ?thesis by blast
  next
    case (Inl e)
    have "1 \<le> failures_of (s\<lparr>sb_provider := p\<rparr>) d + 1" using assms(2) by (simp add: failures_inv_def)
    note b = charge_failed_eq[OF refl backoff_defined[OF this]]
    show ?thesis using assms(1) Inl unfolding charge_session_card[OF t] c
      by (cases e) (auto simp: b get_status_def)
  qed
next
  case False
  then have "s' = mark_status session CHARGED
     (s\<lparr>sb_ledger := ledger_append w (- amount) CHARGE_DEDUCTION (''session:'' @ session) (sb_ledger s)\<rparr>)"
    using assms(1) by (auto simp: charge_session_def pays_by_card_def Let_def split: option.splits bool.splits if_splits)
  then show ?thesis by (simp add: mark_status_def get_status_def)
qed

theorem charged_session_is_billed_witness:
  "get_status (snd (charge_session stub_charge 3 0 ''a'' 7 2 10 ''AED'' sample_billing)) ''a'' = Some CHARGED"
proof -
  let ?s = "snd (charge_session stub_charge 3 0 ''a'' 7 2 10 ''AED'' sample_billing)"
  have e: "charge_session stub_charge 3 0 ''a'' 7 2 10 ''AED'' sample_billing = (Inr (), ?s)"
    by (simp add: charge_session_def sample_billing_def get_default_def)
  have i: "failures_inv sample_billing" by (simp add: failures_inv_def sample_billing_def dict_get_default_def)
  have "get_status ?s ''a'' \<noteq> Some PAYMENT_FAILED"
    by (simp add: charge_session_def sample_billing_def get_default_def get_status_def mark_status_def)
  with charged_session_is_billed[OF e i] show ?thesis by blast
qed

text \<open>
  A wallet-paid session is deducted on every call: unlike the card path, which carries
  an idempotency key, charging one session twice takes its amount twice.
\<close>

theorem wallet_charge_not_idempotent:
  assumes "get_default (sb_methods s) w = None"
  shows "sum_for_wallet (sb_ledger (snd (charge_session charge N t2 session w d amount cur
            (snd (charge_session charge N t1 session w d amount cur s))))) w
       = sum_for_wallet (sb_ledger s) w - 2 * amount"
  using assms by (simp add: charge_session_def mark_status_def memory_ledger.sum_append)

theorem wallet_charge_not_idempotent_witness:
  "sum_for_wallet (sb_ledger (snd (charge_session stub_charge 3 1 ''a'' 7 2 10 ''AED''
      (snd (charge_session stub_charge 3 0 ''a'' 7 2 10 ''AED'' sample_billing))))) 7 = - 20"
  using wallet_charge_not_idempotent[of sample_billing 7 stub_charge 3 1 "''a''" 2 10 "''AED''" 0]
  by (simp add: sample_billing_def get_default_def sum_for_wallet_def)

end
