(* ===== verification/Invoicing.thy ===== *)
theory Invoicing
  imports Py_Text
begin

text \<open>
  Invoices (\<open>billing/invoicing.py\<close>, \<open>billing/invoice_pdf.py\<close>): generation per
  period, the draft/issued/overdue life cycle, credit notes, and the attached document.
\<close>

record session_record =
  sr_session :: string
  sr_account :: uuid
  sr_time :: datetime
  sr_amount :: int

record invoice =
  iv_id :: uuid
  iv_tenant :: uuid
  iv_account :: uuid
  iv_start :: datetime
  iv_end :: datetime
  iv_status :: string
  iv_total :: int
  iv_due :: "datetime option"
  iv_pdf :: "string option"

record invoice_adjustment =
  ia_id :: uuid
  ia_invoice :: uuid
  ia_amount :: int
  ia_reason :: string

abbreviation "DRAFT \<equiv> ''draft''"
abbreviation "ISSUED \<equiv> ''issued''"
abbreviation "OVERDUE \<equiv> ''overdue''"

datatype invoice_error = InvoiceImmutableError string | InvoiceNotFoundError string | InvoiceKeyError uuid

record invoice_store =
  is_invoices :: "(uuid, invoice) pydict"
  is_adjustments :: "invoice_adjustment list"

definition invoice_create ::
  "uuid \<Rightarrow> uuid \<Rightarrow> uuid \<Rightarrow> datetime \<Rightarrow> datetime \<Rightarrow> int \<Rightarrow> datetime option \<Rightarrow> invoice_store
    \<Rightarrow> invoice \<times> invoice_store" where
  "invoice_create new_id tenant account start stop amount due st =
     (let iv = \<lparr>iv_id = new_id, iv_tenant = tenant, iv_account = account, iv_start = start, iv_end = stop,
                iv_status = DRAFT, iv_total = amount, iv_due = due, iv_pdf = None\<rparr>
      in (iv, st\<lparr>is_invoices := dict_set new_id iv (is_invoices st)\<rparr>))"

definition invoice_get :: "invoice_store \<Rightarrow> uuid \<Rightarrow> invoice option" where
  "invoice_get st i = dict_get (is_invoices st) i"

text \<open>Mutating a stored invoice; \<open>self._invoices[id]\<close> raises \<open>KeyError\<close> when it is absent.\<close>

definition invoice_modify ::
  "uuid \<Rightarrow> (invoice \<Rightarrow> invoice) \<Rightarrow> invoice_store \<Rightarrow> (invoice_error + unit) \<times> invoice_store" where
  "invoice_modify i f st =
     (case dict_get (is_invoices st) i of None \<Rightarrow> (Inl (InvoiceKeyError i), st)
      | Some iv \<Rightarrow> (Inr (), st\<lparr>is_invoices := dict_set i (f iv) (is_invoices st)\<rparr>))"

definition update_status :: "uuid \<Rightarrow> string \<Rightarrow> invoice_store \<Rightarrow> (invoice_error + unit) \<times> invoice_store" where
  "update_status i status st = invoice_modify i (iv_status_update (\<lambda>_. status)) st"

definition set_total :: "uuid \<Rightarrow> int \<Rightarrow> invoice_store \<Rightarrow> (invoice_error + unit) \<times> invoice_store" where
  "set_total i amount st = invoice_modify i (iv_total_update (\<lambda>_. amount)) st"

definition apply_adjustment :: "invoice_adjustment \<Rightarrow> invoice_store \<Rightarrow> (invoice_error + unit) \<times> invoice_store" where
  "apply_adjustment a st =
     invoice_modify (ia_invoice a) (iv_total_update (\<lambda>t. t + ia_amount a))
       (st\<lparr>is_adjustments := is_adjustments st @ [a]\<rparr>)"

definition adjustments_for :: "invoice_store \<Rightarrow> uuid \<Rightarrow> invoice_adjustment list" where
  "adjustments_for st i = filter (\<lambda>a. ia_invoice a = i) (is_adjustments st)"

definition in_period :: "datetime \<Rightarrow> datetime \<Rightarrow> session_record \<Rightarrow> bool" where
  "in_period start stop s \<longleftrightarrow> start \<le> sr_time s \<and> sr_time s < stop"

definition generate_for_period ::
  "uuid \<Rightarrow> uuid \<Rightarrow> uuid \<Rightarrow> datetime \<Rightarrow> datetime \<Rightarrow> session_record list \<Rightarrow> datetime option \<Rightarrow> invoice_store
    \<Rightarrow> invoice \<times> invoice_store" where
  "generate_for_period new_id tenant account start stop sessions due st =
     (let relevant = filter (in_period start stop) sessions;
          amount = (\<Sum>s\<leftarrow>relevant. sr_amount s)
      in invoice_create new_id tenant account start stop amount due st)"

definition issue :: "uuid \<Rightarrow> invoice_store \<Rightarrow> (invoice_error + unit) \<times> invoice_store" where
  "issue i st = update_status i ISSUED st"

definition edit_draft :: "uuid \<Rightarrow> int \<Rightarrow> invoice_store \<Rightarrow> (invoice_error + unit) \<times> invoice_store" where
  "edit_draft i amount st =
     (case invoice_get st i of
        None \<Rightarrow> (Inl (InvoiceNotFoundError (str_uuid i)), st)
      | Some iv \<Rightarrow>
        if iv_status iv \<noteq> DRAFT
        then (Inl (InvoiceImmutableError (''invoice '' @ str_uuid i @ '' is '' @ iv_status iv
                @ ''; only draft invoices can be edited directly'')), st)
        else set_total i amount st)"

definition apply_credit_note ::
  "uuid \<Rightarrow> uuid \<Rightarrow> int \<Rightarrow> string \<Rightarrow> invoice_store \<Rightarrow> (invoice_error + invoice_adjustment) \<times> invoice_store" where
  "apply_credit_note new_id i amount reason st =
     (case invoice_get st i of
        None \<Rightarrow> (Inl (InvoiceNotFoundError (str_uuid i)), st)
      | Some iv \<Rightarrow>
        (let a = \<lparr>ia_id = new_id, ia_invoice = i, ia_amount = amount, ia_reason = reason\<rparr>;
             (r, st') = apply_adjustment a st
         in (case r of Inl e \<Rightarrow> Inl e | Inr _ \<Rightarrow> Inr a, st')))"

definition mark_overdue_if_past_due ::
  "uuid \<Rightarrow> datetime \<Rightarrow> invoice_store \<Rightarrow> (invoice_error + unit) \<times> invoice_store" where
  "mark_overdue_if_past_due i now st =
     (case invoice_get st i of
        None \<Rightarrow> (Inl (InvoiceNotFoundError (str_uuid i)), st)
      | Some iv \<Rightarrow>
        if iv_status iv = ISSUED \<and> (case iv_due iv of None \<Rightarrow> False | Some due \<Rightarrow> now > due)
        then update_status i OVERDUE st else (Inr (), st))"

subsection \<open>The attached document\<close>

definition stub_render :: "invoice \<Rightarrow> string" where
  "stub_render iv = ''INVOICE '' @ str_uuid (iv_id iv) @ [CHR 0x0A] @ ''Total: '' @ str_int (iv_total iv)"

definition storage_upload ::
  "string \<Rightarrow> string \<Rightarrow> (string, string) pydict \<Rightarrow> string \<times> (string, string) pydict" where
  "storage_upload key content up = (''https://storage.example.com/'' @ key, dict_set key content up)"

definition attach_url :: "uuid \<Rightarrow> string \<Rightarrow> invoice_store \<Rightarrow> invoice_store" where
  "attach_url i url st =
     (case invoice_get st i of None \<Rightarrow> st
      | Some iv \<Rightarrow> st\<lparr>is_invoices := dict_set i (iv\<lparr>iv_pdf := Some url\<rparr>) (is_invoices st)\<rparr>)"

definition generate_and_attach ::
  "(invoice \<Rightarrow> string) \<Rightarrow> (string \<Rightarrow> string \<Rightarrow> 'u \<Rightarrow> string \<times> 'u) \<Rightarrow> invoice \<Rightarrow> 'u \<times> invoice_store
    \<Rightarrow> string \<times> 'u \<times> invoice_store" where
  "generate_and_attach render upload iv w =
     (let (up, st) = w;
          content = render iv;
          key = ''invoices/'' @ str_uuid (iv_tenant iv) @ ''/'' @ str_uuid (iv_id iv) @ ''.pdf'';
          (url, up') = upload key content up
      in (url, up', attach_url (iv_id iv) url st))"

subsection \<open>The life cycle\<close>

datatype invoice_op =
    Issue uuid
  | EditDraft uuid int
  | CreditNote uuid uuid int string
  | MarkOverdue uuid datetime

fun invoice_step :: "invoice_op \<Rightarrow> invoice_store \<Rightarrow> invoice_store" where
  "invoice_step (Issue i) st = snd (issue i st)"
| "invoice_step (EditDraft i amount) st = snd (edit_draft i amount st)"
| "invoice_step (CreditNote n i amount reason) st = snd (apply_credit_note n i amount reason st)"
| "invoice_step (MarkOverdue i now) st = snd (mark_overdue_if_past_due i now st)"

lemmas invoice_ops = issue_def edit_draft_def apply_credit_note_def mark_overdue_if_past_due_def
  update_status_def set_total_def apply_adjustment_def invoice_modify_def invoice_get_def Let_def

abbreviation adjusted :: "invoice_store \<Rightarrow> uuid \<Rightarrow> int" where
  "adjusted st i \<equiv> (\<Sum>a\<leftarrow>adjustments_for st i. ia_amount a)"

text \<open>Once out of draft an invoice never goes back, and its total moves with its credit notes alone.\<close>

lemma invoice_step_issued:
  assumes "invoice_get st i = Some iv" "iv_status iv \<noteq> DRAFT"
  obtains iv' where "invoice_get (invoice_step a st) i = Some iv'" "iv_status iv' \<noteq> DRAFT"
    "iv_total iv' - adjusted (invoice_step a st) i = iv_total iv - adjusted st i"
    "iv_account iv' = iv_account iv" "iv_start iv' = iv_start iv" "iv_end iv' = iv_end iv"
proof -
  have "\<exists>iv'. invoice_get (invoice_step a st) i = Some iv' \<and> iv_status iv' \<noteq> DRAFT
    \<and> iv_total iv' - adjusted (invoice_step a st) i = iv_total iv - adjusted st i
    \<and> iv_account iv' = iv_account iv \<and> iv_start iv' = iv_start iv \<and> iv_end iv' = iv_end iv"
    using assms by (cases a) (auto simp: invoice_ops adjustments_for_def split: option.splits)
  with that show thesis by blast
qed

lemma sum_period_split:
  assumes "a \<le> b" "b \<le> c"
  shows "(\<Sum>s\<leftarrow>filter (in_period a c) ss. sr_amount s)
    = (\<Sum>s\<leftarrow>filter (in_period a b) ss. sr_amount s) + (\<Sum>s\<leftarrow>filter (in_period b c) ss. sr_amount s)"
proof -
  have "in_period a c = (\<lambda>s. in_period a b s \<or> in_period b c s)" using assms by (auto simp: in_period_def)
  moreover have "\<not> (in_period a b s \<and> in_period b c s)" for s by (auto simp: in_period_def)
  ultimately show ?thesis using sum_list_filter_disjoint[of "in_period a b" "in_period b c"] by simp
qed

subsection \<open>Properties\<close>

text \<open>
  C21: However a time range is cut into adjacent billing periods, the totals of the
  invoices generated for the periods add up to the amount of all sessions in the range: no
  session is lost or counted twice.
\<close>

theorem periods_partition_revenue:
  assumes "sorted (b # bs)"
  shows "(\<Sum>(x, y)\<leftarrow>zip (b # bs) bs. iv_total (fst (generate_for_period n t acc x y ss due st)))
     = (\<Sum>s\<leftarrow>filter (in_period b (last (b # bs))) ss. sr_amount s)"
  using assms
proof (induction bs arbitrary: b)
  case Nil
  then show ?case by (simp add: in_period_def)
next
  case (Cons c bs)
  have "b \<le> c" "c \<le> last (c # bs)" using Cons.prems by (auto simp: sorted_wrt_append)
  then show ?case
    using Cons.IH[of c] Cons.prems sum_period_split[of b c "last (c # bs)" ss]
    by (simp add: generate_for_period_def invoice_create_def Let_def)
qed

definition sample_sessions :: "session_record list" where
  "sample_sessions = map (\<lambda>(t, a). \<lparr>sr_session = ''s'', sr_account = 1, sr_time = t, sr_amount = a\<rparr>) [(0, 5), (10, 7), (19, 11), (20, 13)]"

theorem periods_partition_revenue_witness:
  "(\<Sum>(x, y)\<leftarrow>zip [0, 10, 20] [10, 20]. iv_total (fst (generate_for_period 1 2 3 x y sample_sessions None
       \<lparr>is_invoices = [], is_adjustments = []\<rparr>))) = 23"
  using periods_partition_revenue[of 0 "[10, 20]" 1 2 3 sample_sessions None "\<lparr>is_invoices = [], is_adjustments = []\<rparr>"]
  by (simp add: sample_sessions_def in_period_def)

text \<open>
  Through any sequence of issuing, editing, credit notes and overdue marking, an
  invoice that has left draft never returns to it, keeps its account and period, and its
  total differs from the one it had by exactly the credit notes recorded since.
\<close>

theorem issued_invoice_total:
  assumes "invoice_get st i = Some iv" "iv_status iv \<noteq> DRAFT"
  shows "\<exists>iv'. invoice_get (fold invoice_step ops st) i = Some iv' \<and> iv_status iv' \<noteq> DRAFT
    \<and> iv_total iv' - adjusted (fold invoice_step ops st) i = iv_total iv - adjusted st i
    \<and> iv_account iv' = iv_account iv \<and> iv_start iv' = iv_start iv \<and> iv_end iv' = iv_end iv"
  using assms
proof (induction ops arbitrary: st iv)
  case Nil
  then show ?case by simp
next
  case (Cons a ops)
  obtain iv1 where iv1: "invoice_get (invoice_step a st) i = Some iv1" "iv_status iv1 \<noteq> DRAFT"
    "iv_total iv1 - adjusted (invoice_step a st) i = iv_total iv - adjusted st i"
    "iv_account iv1 = iv_account iv" "iv_start iv1 = iv_start iv" "iv_end iv1 = iv_end iv"
    by (rule invoice_step_issued[OF Cons.prems])
  show ?case using Cons.IH[OF iv1(1,2)] iv1(3-6) by simp
qed

definition sample_store :: invoice_store where
  "sample_store = snd (issue 1 (snd (generate_for_period 1 2 3 0 20 sample_sessions None
      \<lparr>is_invoices = [], is_adjustments = []\<rparr>)))"

lemma sample_store_get:
  "invoice_get sample_store 1 = Some \<lparr>iv_id = 1, iv_tenant = 2, iv_account = 3, iv_start = 0, iv_end = 20,
     iv_status = ISSUED, iv_total = 23, iv_due = None, iv_pdf = None\<rparr>"
  by (simp add: sample_store_def sample_sessions_def invoice_ops generate_for_period_def invoice_create_def in_period_def)

theorem issued_invoice_total_witness:
  "\<exists>iv'. invoice_get (fold invoice_step [EditDraft 1 999, CreditNote 7 1 (- 3) ''meter'', Issue 1] sample_store) 1 = Some iv'
     \<and> iv_status iv' \<noteq> DRAFT \<and> iv_account iv' = 3"
  using issued_invoice_total[OF sample_store_get, of "[EditDraft 1 999, CreditNote 7 1 (- 3) ''meter'', Issue 1]"]
  by (auto simp del: fold_simps)

text \<open>
  Issuing has no guard on the status: an invoice already marked overdue goes back to
  issued, and stays so until it is marked again.
\<close>

theorem issue_resets_overdue:
  assumes "invoice_get st i = Some iv" "iv_status iv = ISSUED" "iv_due iv = Some due" "due < now"
  shows "\<exists>iv1 iv2. invoice_get (snd (mark_overdue_if_past_due i now st)) i = Some iv1 \<and> iv_status iv1 = OVERDUE
     \<and> invoice_get (snd (issue i (snd (mark_overdue_if_past_due i now st)))) i = Some iv2 \<and> iv_status iv2 = ISSUED"
  using assms by (simp add: invoice_ops)

theorem issue_resets_overdue_witness:
  "\<exists>iv2. invoice_get (snd (issue 1 (snd (mark_overdue_if_past_due 1 50
      (snd (issue 1 (snd (generate_for_period 1 2 3 0 20 [] (Some 40) \<lparr>is_invoices = [], is_adjustments = []\<rparr>)))))))) 1
     = Some iv2 \<and> iv_status iv2 = ISSUED"
proof -
  let ?st = "snd (issue 1 (snd (generate_for_period 1 2 3 0 20 [] (Some 40) \<lparr>is_invoices = [], is_adjustments = []\<rparr>)))"
  have "invoice_get ?st 1 = Some \<lparr>iv_id = 1, iv_tenant = 2, iv_account = 3, iv_start = 0, iv_end = 20,
     iv_status = ISSUED, iv_total = 0, iv_due = Some 40, iv_pdf = None\<rparr>"
    by (simp add: invoice_ops generate_for_period_def invoice_create_def)
  from issue_resets_overdue[OF this, of 40 50] show ?thesis by auto
qed

end
