(* ===== verification/Ocpp_Stores.thy ===== *)
theory Ocpp_Stores
  imports Py_Text
begin

text \<open>
  The stores of the OCPP gateway (\<open>ocpp_gateway/presence.py\<close>, \<open>presence_api.py\<close>,
  \<open>credentials.py\<close>, \<open>registration.py\<close>, \<open>transactions.py\<close>, \<open>connectors.py\<close>,
  \<open>meter_values.py\<close>, \<open>live_meter_readings.py\<close>, \<open>events.py\<close>): presence, charger
  credentials, registration, the transaction life cycle, and the metering path. A
  \<open>time.time()\<close> or \<open>time.monotonic()\<close> value is a double; PBKDF2 is a parameter.
\<close>

subsection \<open>Presence\<close>

record presence_state =
  ps_charger :: string
  ps_tenant :: string
  ps_status :: string
  ps_node :: string
  ps_protocol :: string
  ps_connected_at :: pyfloat
  ps_last_seen :: pyfloat

type_synonym presence = "(string, presence_state) pydict"

definition presence_key :: "string \<Rightarrow> string" where
  "presence_key c = ''presence:'' @ c"

definition mark_online :: "pyfloat \<Rightarrow> string \<Rightarrow> uuid \<Rightarrow> string \<Rightarrow> string \<Rightarrow> presence \<Rightarrow> presence" where
  "mark_online now c tenant node proto r =
     dict_set c \<lparr>ps_charger = c, ps_tenant = str_uuid tenant, ps_status = ''online'', ps_node = node,
        ps_protocol = proto, ps_connected_at = now, ps_last_seen = now\<rparr> r"

definition refresh :: "pyfloat \<Rightarrow> string \<Rightarrow> presence \<Rightarrow> presence" where
  "refresh now c r =
     (case dict_get r c of None \<Rightarrow> r
      | Some p \<Rightarrow> dict_set c (p\<lparr>ps_last_seen := now, ps_status := ''online''\<rparr>) r)"

definition mark_offline :: "string \<Rightarrow> presence \<Rightarrow> presence" where
  "mark_offline c r =
     (case dict_get r c of None \<Rightarrow> r | Some p \<Rightarrow> dict_set c (p\<lparr>ps_status := ''offline''\<rparr>) r)"

definition presence_get :: "presence \<Rightarrow> string \<Rightarrow> presence_state option" where
  "presence_get r c = dict_get r c"

text \<open>
  The Redis registry: a client with \<open>get\<close> and \<open>set(key, value, ex)\<close>, and
  \<open>json.dumps(asdict(state))\<close> / \<open>PresenceState(**json.loads(raw))\<close> as parameters.
\<close>

definition redis_get ::
  "('r \<Rightarrow> string \<Rightarrow> 'v option) \<Rightarrow> ('v \<Rightarrow> presence_state) \<Rightarrow> 'r \<Rightarrow> string \<Rightarrow> presence_state option" where
  "redis_get rget loads r c = map_option loads (rget r (presence_key c))"

definition redis_mark_online ::
  "(string \<Rightarrow> 'v \<Rightarrow> int \<Rightarrow> 'r \<Rightarrow> 'r) \<Rightarrow> (presence_state \<Rightarrow> 'v) \<Rightarrow> int \<Rightarrow> pyfloat \<Rightarrow> string \<Rightarrow> uuid
    \<Rightarrow> string \<Rightarrow> string \<Rightarrow> 'r \<Rightarrow> 'r" where
  "redis_mark_online rset dumps ttl now c tenant node proto r =
     rset (presence_key c) (dumps \<lparr>ps_charger = c, ps_tenant = str_uuid tenant, ps_status = ''online'', ps_node = node,
        ps_protocol = proto, ps_connected_at = now, ps_last_seen = now\<rparr>) ttl r"

definition redis_refresh ::
  "('r \<Rightarrow> string \<Rightarrow> 'v option) \<Rightarrow> (string \<Rightarrow> 'v \<Rightarrow> int \<Rightarrow> 'r \<Rightarrow> 'r) \<Rightarrow> (presence_state \<Rightarrow> 'v)
    \<Rightarrow> ('v \<Rightarrow> presence_state) \<Rightarrow> int \<Rightarrow> pyfloat \<Rightarrow> string \<Rightarrow> 'r \<Rightarrow> 'r" where
  "redis_refresh rget rset dumps loads ttl now c r =
     (case redis_get rget loads r c of None \<Rightarrow> r
      | Some p \<Rightarrow> rset (presence_key c) (dumps (p\<lparr>ps_last_seen := now, ps_status := ''online''\<rparr>)) ttl r)"

definition redis_mark_offline ::
  "('r \<Rightarrow> string \<Rightarrow> 'v option) \<Rightarrow> (string \<Rightarrow> 'v \<Rightarrow> int \<Rightarrow> 'r \<Rightarrow> 'r) \<Rightarrow> (presence_state \<Rightarrow> 'v)
    \<Rightarrow> ('v \<Rightarrow> presence_state) \<Rightarrow> int \<Rightarrow> string \<Rightarrow> 'r \<Rightarrow> 'r" where
  "redis_mark_offline rget rset dumps loads grace c r =
     (case redis_get rget loads r c of None \<Rightarrow> r
      | Some p \<Rightarrow> rset (presence_key c) (dumps (p\<lparr>ps_status := ''offline''\<rparr>)) grace r)"

subsection \<open>The presence read API\<close>

definition get_bulk_presence :: "string list \<Rightarrow> presence \<Rightarrow> (string, presence_state option) pydict" where
  "get_bulk_presence cs r = fold (\<lambda>c d. dict_set c (presence_get r c) d) cs []"

definition presence_json :: "presence_state option \<Rightarrow> json" where
  "presence_json p = (case p of None \<Rightarrow> JNull
     | Some q \<Rightarrow> JObj [(''charger_id'', JStr (ps_charger q)), (''tenant_id'', JStr (ps_tenant q)),
         (''status'', JStr (ps_status q)), (''node_id'', JStr (ps_node q)),
         (''protocol_version'', JStr (ps_protocol q)), (''connected_at'', JFloat (ps_connected_at q)),
         (''last_seen'', JFloat (ps_last_seen q))])"

definition route_bulk_presence :: "string list \<Rightarrow> presence \<Rightarrow> json" where
  "route_bulk_presence ids r = JObj (map (\<lambda>(c, p). (c, presence_json p)) (get_bulk_presence ids r))"

definition route_single_presence :: "string \<Rightarrow> presence \<Rightarrow> json" where
  "route_single_presence c r = presence_json (presence_get r c)"

subsection \<open>Credentials\<close>

text \<open>\<open>kdf secret salt\<close>: \<open>hashlib.pbkdf2_hmac("sha256", secret, salt, 100_000)\<close>.\<close>

definition hash_credential :: "(string \<Rightarrow> string \<Rightarrow> string) \<Rightarrow> string \<Rightarrow> string \<Rightarrow> string" where
  "hash_credential kdf salt secret = ''pbkdf2$'' @ bytes_hex salt @ ''$'' @ bytes_hex (kdf secret salt)"

definition verify_credential :: "(string \<Rightarrow> string \<Rightarrow> string) \<Rightarrow> string \<Rightarrow> string \<Rightarrow> py_error + bool" where
  "verify_credential kdf secret stored =
     (case split_on (CHR ''$'') stored of
        [scheme, salt_hex, derived_hex] \<Rightarrow>
          if scheme \<noteq> ''pbkdf2'' then Inr False
          else (case bytes_fromhex salt_hex of
              None \<Rightarrow> Inl (PyValueError ''non-hexadecimal number found in fromhex() arg'')
            | Some salt \<Rightarrow>
                if \<not> is_ascii derived_hex then Inl TypeError
                else Inr (bytes_hex (kdf secret salt) = derived_hex))
      | _ \<Rightarrow> Inr False)"

type_synonym credential_store = "(string, string) pydict"

definition set_credential ::
  "(string \<Rightarrow> string \<Rightarrow> string) \<Rightarrow> string \<Rightarrow> string \<Rightarrow> string \<Rightarrow> credential_store \<Rightarrow> credential_store" where
  "set_credential kdf salt c secret st = dict_set c (hash_credential kdf salt secret) st"

definition credential_verify ::
  "(string \<Rightarrow> string \<Rightarrow> string) \<Rightarrow> credential_store \<Rightarrow> string \<Rightarrow> string \<Rightarrow> py_error + bool" where
  "credential_verify kdf st c credential =
     (case dict_get st c of None \<Rightarrow> Inr False | Some stored \<Rightarrow> verify_credential kdf credential stored)"

subsection \<open>Registration\<close>

record boot_result =
  br_status :: string
  br_new :: bool

record charger_row =
  ch_tenant :: uuid
  ch_vendor :: "string option"
  ch_model :: "string option"
  ch_firmware :: "string option"
  ch_status :: string
  ch_last_boot :: pyfloat

type_synonym charger_registry = "(string, charger_row) pydict"

definition upsert_on_boot ::
  "pyfloat \<Rightarrow> string \<Rightarrow> uuid \<Rightarrow> string option \<Rightarrow> string option \<Rightarrow> string option \<Rightarrow> charger_registry
    \<Rightarrow> boot_result \<times> charger_registry" where
  "upsert_on_boot now c tenant vendor model firmware reg =
     (case dict_get reg c of
        None \<Rightarrow> (\<lparr>br_status = ''pending'', br_new = True\<rparr>,
                 dict_set c \<lparr>ch_tenant = tenant, ch_vendor = vendor, ch_model = model, ch_firmware = firmware,
                    ch_status = ''pending'', ch_last_boot = now\<rparr> reg)
      | Some row \<Rightarrow> (\<lparr>br_status = ch_status row, br_new = False\<rparr>,
                 dict_set c (row\<lparr>ch_vendor := vendor, ch_model := model, ch_firmware := firmware, ch_last_boot := now\<rparr>) reg))"

definition set_charger_status :: "string \<Rightarrow> string \<Rightarrow> charger_registry \<Rightarrow> (py_error + unit) \<times> charger_registry" where
  "set_charger_status c status reg =
     (case dict_get reg c of None \<Rightarrow> (Inl (KeyError c), reg)
      | Some row \<Rightarrow> (Inr (), dict_set c (row\<lparr>ch_status := status\<rparr>) reg))"

subsection \<open>Transactions\<close>

record active_transaction =
  at_id :: uuid
  at_charger :: string
  at_connector :: int
  at_tag :: string
  at_start :: datetime

record stop_result =
  st_already :: bool
  st_tenant :: "uuid option"
  st_charger :: string

text \<open>A row of \<open>_records\<close>; a key the source has not set yet is \<open>None\<close>.\<close>

record txn_record =
  tx_status :: string
  tx_tenant :: "uuid option"
  tx_charger :: string
  tx_meter_start :: "int option"
  tx_start :: "datetime option"
  tx_meter_stop :: "int option"
  tx_stop :: "datetime option"
  tx_reason :: "string option"

record txn_repo =
  tr_active :: "(string, active_transaction) pydict"
  tr_records :: "(uuid, txn_record) pydict"

datatype txn_error = UnknownTransactionError string

definition seed_active_transaction :: "string \<Rightarrow> active_transaction \<Rightarrow> txn_repo \<Rightarrow> txn_repo" where
  "seed_active_transaction c t r =
     r\<lparr>tr_active := dict_set c t (tr_active r),
       tr_records := dict_set (at_id t) \<lparr>tx_status = ''active'', tx_tenant = None, tx_charger = c, tx_meter_start = None,
          tx_start = None, tx_meter_stop = None, tx_stop = None, tx_reason = None\<rparr> (tr_records r)\<rparr>"

definition get_active_transaction :: "txn_repo \<Rightarrow> string \<Rightarrow> active_transaction option" where
  "get_active_transaction r c = dict_get (tr_active r) c"

definition start_transaction ::
  "uuid \<Rightarrow> string \<Rightarrow> uuid \<Rightarrow> int \<Rightarrow> string \<Rightarrow> int \<Rightarrow> datetime \<Rightarrow> txn_repo \<Rightarrow> active_transaction \<times> txn_repo" where
  "start_transaction new_id c tenant connector tag meter start r =
     (let t = \<lparr>at_id = new_id, at_charger = c, at_connector = connector, at_tag = tag, at_start = start\<rparr>
      in (t, r\<lparr>tr_active := dict_set c t (tr_active r),
               tr_records := dict_set new_id \<lparr>tx_status = ''active'', tx_tenant = Some tenant, tx_charger = c,
                  tx_meter_start = Some meter, tx_start = Some start, tx_meter_stop = None, tx_stop = None,
                  tx_reason = None\<rparr> (tr_records r)\<rparr>))"

definition stop_transaction ::
  "uuid \<Rightarrow> int \<Rightarrow> datetime \<Rightarrow> string option \<Rightarrow> txn_repo \<Rightarrow> (txn_error + stop_result) \<times> txn_repo" where
  "stop_transaction tid meter stop reason r =
     (case dict_get (tr_records r) tid of
        None \<Rightarrow> (Inl (UnknownTransactionError (''unknown transaction_id: '' @ str_uuid tid)), r)
      | Some rec \<Rightarrow>
        if tx_status rec = ''completed''
        then (Inr \<lparr>st_already = True, st_tenant = tx_tenant rec, st_charger = tx_charger rec\<rparr>, r)
        else
          let c = tx_charger rec;
              recs = dict_set tid (rec\<lparr>tx_status := ''completed'', tx_meter_stop := Some meter,
                        tx_stop := Some stop, tx_reason := reason\<rparr>) (tr_records r);
              act = (case dict_get (tr_active r) c of
                       Some a \<Rightarrow> if at_id a = tid then dict_del c (tr_active r) else tr_active r
                     | None \<Rightarrow> tr_active r)
          in (Inr \<lparr>st_already = False, st_tenant = tx_tenant rec, st_charger = c\<rparr>,
              r\<lparr>tr_active := act, tr_records := recs\<rparr>))"

subsection \<open>Connectors\<close>

record connector_status =
  cs_charger :: string
  cs_connector :: int
  cs_status :: string
  cs_error :: "string option"

type_synonym connector_store = "(string \<times> int, connector_status) pydict"

definition connector_update :: "string \<Rightarrow> int \<Rightarrow> string \<Rightarrow> string option \<Rightarrow> connector_store \<Rightarrow> connector_store" where
  "connector_update c n status err st =
     dict_set (c, n) \<lparr>cs_charger = c, cs_connector = n, cs_status = status, cs_error = err\<rparr> st"

definition connector_get :: "connector_store \<Rightarrow> string \<Rightarrow> int \<Rightarrow> connector_status option" where
  "connector_get st c n = dict_get st (c, n)"

subsection \<open>Meter values\<close>

record meter_reading =
  mr_tenant :: uuid
  mr_txn :: uuid
  mr_charger :: string
  mr_ts :: datetime
  mr_measurand :: string
  mr_value :: pyfloat
  mr_unit :: string

text \<open>The buffer with its sink: the batches written so far, in order.\<close>

record meter_buffer =
  mb_batches :: "meter_reading list list"
  mb_max :: int
  mb_interval :: pyfloat
  mb_buffer :: "meter_reading list"
  mb_opened :: "pyfloat option"

definition write_batch :: "meter_reading list \<Rightarrow> meter_buffer \<Rightarrow> meter_buffer" where
  "write_batch rows b = b\<lparr>mb_batches := mb_batches b @ [rows]\<rparr>"

definition all_written_rows :: "meter_buffer \<Rightarrow> meter_reading list" where
  "all_written_rows b = concat (mb_batches b)"

definition pending_count :: "meter_buffer \<Rightarrow> int" where
  "pending_count b = int (length (mb_buffer b))"

definition should_flush :: "pyfloat \<Rightarrow> meter_buffer \<Rightarrow> bool" where
  "should_flush now b \<longleftrightarrow> int (length (mb_buffer b)) \<ge> mb_max b
     \<or> (case mb_opened b of None \<Rightarrow> False | Some t \<Rightarrow> fle (mb_interval b) (fsub now t))"

definition meter_flush :: "meter_buffer \<Rightarrow> meter_buffer" where
  "meter_flush b =
     (if mb_buffer b = [] then b
      else write_batch (mb_buffer b) (b\<lparr>mb_buffer := [], mb_opened := None\<rparr>))"

text \<open>\<open>add\<close> reads the clock when it opens the buffer (\<open>t1\<close>) and again in \<open>_should_flush\<close> (\<open>t2\<close>).\<close>

definition meter_add :: "pyfloat \<Rightarrow> pyfloat \<Rightarrow> meter_reading \<Rightarrow> meter_buffer \<Rightarrow> meter_buffer" where
  "meter_add t1 t2 x b =
     (let b1 = (if mb_buffer b = [] then b\<lparr>mb_opened := Some t1\<rparr> else b);
          b2 = b1\<lparr>mb_buffer := mb_buffer b1 @ [x]\<rparr>
      in if should_flush t2 b2 then meter_flush b2 else b2)"

subsection \<open>Latest readings\<close>

type_synonym latest_readings = "(uuid, (string, meter_reading) pydict) pydict"

definition latest_update :: "meter_reading \<Rightarrow> latest_readings \<Rightarrow> latest_readings" where
  "latest_update x st =
     (let by = dict_get_default st (mr_txn x) [];
          by' = (case dict_get by (mr_measurand x) of
                   None \<Rightarrow> dict_set (mr_measurand x) x by
                 | Some e \<Rightarrow> if mr_ts x \<ge> mr_ts e then dict_set (mr_measurand x) x by else by)
      in dict_set (mr_txn x) by' st)"

definition get_latest :: "latest_readings \<Rightarrow> uuid \<Rightarrow> string \<Rightarrow> meter_reading option" where
  "get_latest st t m = dict_get (dict_get_default st t []) m"

subsection \<open>Published events\<close>

record event_log =
  ev_disconnected :: "(uuid \<times> string) list"
  ev_status :: "(uuid \<times> string \<times> int \<times> string \<times> string option) list"
  ev_stop :: "(uuid option \<times> string \<times> uuid) list"
  ev_ocpp :: "(uuid \<times> string \<times> string \<times> (string \<times> json) list) list"

definition publish_disconnected :: "uuid \<Rightarrow> string \<Rightarrow> event_log \<Rightarrow> event_log" where
  "publish_disconnected t c e = e\<lparr>ev_disconnected := ev_disconnected e @ [(t, c)]\<rparr>"

definition publish_status_notification ::
  "uuid \<Rightarrow> string \<Rightarrow> int \<Rightarrow> string \<Rightarrow> string option \<Rightarrow> event_log \<Rightarrow> event_log" where
  "publish_status_notification t c n status err e = e\<lparr>ev_status := ev_status e @ [(t, c, n, status, err)]\<rparr>"

definition publish_stop_transaction :: "uuid option \<Rightarrow> string \<Rightarrow> uuid \<Rightarrow> event_log \<Rightarrow> event_log" where
  "publish_stop_transaction t c tid e = e\<lparr>ev_stop := ev_stop e @ [(t, c, tid)]\<rparr>"

definition publish_ocpp_event ::
  "uuid \<Rightarrow> string \<Rightarrow> string \<Rightarrow> (string \<times> json) list \<Rightarrow> event_log \<Rightarrow> event_log" where
  "publish_ocpp_event t c ty payload e = e\<lparr>ev_ocpp := ev_ocpp e @ [(t, c, ty, payload)]\<rparr>"

subsection \<open>The presence contract\<close>

text \<open>The writes of \<open>PresenceRegistry\<close>, and what each means for one charger.\<close>

datatype presence_op =
    MarkOnline pyfloat string uuid string string
  | Refresh pyfloat string
  | MarkOffline string

fun presence_apply ::
  "(pyfloat \<Rightarrow> string \<Rightarrow> uuid \<Rightarrow> string \<Rightarrow> string \<Rightarrow> 'r \<Rightarrow> 'r) \<Rightarrow> (pyfloat \<Rightarrow> string \<Rightarrow> 'r \<Rightarrow> 'r)
    \<Rightarrow> (string \<Rightarrow> 'r \<Rightarrow> 'r) \<Rightarrow> presence_op \<Rightarrow> 'r \<Rightarrow> 'r" where
  "presence_apply on rf off (MarkOnline now c t n p) r = on now c t n p r"
| "presence_apply on rf off (Refresh now c) r = rf now c r"
| "presence_apply on rf off (MarkOffline c) r = off c r"

fun presence_spec :: "string \<Rightarrow> presence_op \<Rightarrow> presence_state option \<Rightarrow> presence_state option" where
  "presence_spec c (MarkOnline now d t n p) s =
     (if c = d then Some \<lparr>ps_charger = d, ps_tenant = str_uuid t, ps_status = ''online'', ps_node = n, ps_protocol = p,
        ps_connected_at = now, ps_last_seen = now\<rparr> else s)"
| "presence_spec c (Refresh now d) s =
     (if c = d then map_option (\<lambda>q. q\<lparr>ps_last_seen := now, ps_status := ''online''\<rparr>) s else s)"
| "presence_spec c (MarkOffline d) s =
     (if c = d then map_option (\<lambda>q. q\<lparr>ps_status := ''offline''\<rparr>) s else s)"

locale presence_registry =
  fixes get :: "'r \<Rightarrow> string \<Rightarrow> presence_state option"
    and on :: "pyfloat \<Rightarrow> string \<Rightarrow> uuid \<Rightarrow> string \<Rightarrow> string \<Rightarrow> 'r \<Rightarrow> 'r"
    and rf :: "pyfloat \<Rightarrow> string \<Rightarrow> 'r \<Rightarrow> 'r"
    and off :: "string \<Rightarrow> 'r \<Rightarrow> 'r"
  assumes get_on: "get (on now d t n p r) c = presence_spec c (MarkOnline now d t n p) (get r c)"
    and get_rf: "get (rf now d r) c = presence_spec c (Refresh now d) (get r c)"
    and get_off: "get (off d r) c = presence_spec c (MarkOffline d) (get r c)"
begin

lemma run_spec: "get (fold (presence_apply on rf off) ops r) c = fold (presence_spec c) ops (get r c)"
proof (induction ops arbitrary: r)
  case Nil
  show ?case by simp
next
  case (Cons a ops)
  show ?case using Cons by (cases a) (simp_all add: get_on get_rf get_off del: presence_spec.simps)
qed

lemma off_other [simp]: "c \<noteq> d \<Longrightarrow> get (off d r) c = get r c"
  by (simp add: get_off)

end

interpretation memory_presence: presence_registry presence_get mark_online refresh mark_offline
  by unfold_locales (auto simp: presence_get_def mark_online_def refresh_def mark_offline_def split: option.splits)

lemma presence_key_inject [simp]: "presence_key c = presence_key d \<longleftrightarrow> c = d"
  by (simp add: presence_key_def)

lemma redis_presence_registry:
  assumes "\<And>r k v ex k'. rget (rset k v ex r) k' = (if k' = k then Some v else rget r k')" "\<And>p. loads (dumps p) = p"
  shows "presence_registry (redis_get rget loads) (redis_mark_online rset dumps ttl)
     (redis_refresh rget rset dumps loads ttl) (redis_mark_offline rget rset dumps loads grace)"
  by unfold_locales
    (auto simp: redis_get_def redis_mark_online_def redis_refresh_def redis_mark_offline_def assms split: option.splits)

subsection \<open>Credentials, registration\<close>

lemma hex_no_dollar: "CHR ''$'' \<notin> set (bytes_hex bs)"
proof -
  have "CHR ''$'' \<notin> set hex_chars" by (simp add: hex_chars_def)
  then show ?thesis using set_bytes_hex by blast
qed

lemma split_hash:
  "split_on (CHR ''$'') (hash_credential kdf salt secret) = [''pbkdf2'', bytes_hex salt, bytes_hex (kdf secret salt)]"
proof -
  have "split_on (CHR ''$'') (bytes_hex salt @ CHR ''$'' # bytes_hex (kdf secret salt)) = [bytes_hex salt, bytes_hex (kdf secret salt)]"
    using hex_no_dollar by simp
  then show ?thesis
    using split_on_sep[of "CHR ''$''" "''pbkdf2''" "bytes_hex salt @ CHR ''$'' # bytes_hex (kdf secret salt)"]
    by (simp add: hash_credential_def)
qed

subsection \<open>The transaction repository's invariant\<close>

text \<open>
  Every active transaction is filed under its own charger and its record says active; no
  other charger holds the same transaction.
\<close>

definition txn_inv :: "txn_repo \<Rightarrow> bool" where
  "txn_inv r \<longleftrightarrow> (\<forall>c t. dict_get (tr_active r) c = Some t \<longrightarrow> at_charger t = c \<and>
     (\<exists>rec. dict_get (tr_records r) (at_id t) = Some rec \<and> tx_status rec = ''active'' \<and> tx_charger rec = c))"

lemma txn_invD:
  assumes "txn_inv r" "dict_get (tr_active r) c = Some t"
  obtains rec where "at_charger t = c" "dict_get (tr_records r) (at_id t) = Some rec" "tx_status rec = ''active''" "tx_charger rec = c"
  using assms by (auto simp: txn_inv_def)

lemma txn_invI:
  assumes "\<And>c t. dict_get (tr_active r) c = Some t \<Longrightarrow> at_charger t = c \<and>
     (\<exists>rec. dict_get (tr_records r) (at_id t) = Some rec \<and> tx_status rec = ''active'' \<and> tx_charger rec = c)"
  shows "txn_inv r"
  using assms by (simp add: txn_inv_def)

lemma txn_inv_start:
  assumes "txn_inv r" "dict_get (tr_records r) new_id = None"
  shows "txn_inv (snd (start_transaction new_id c tenant n tag m s r))"
  by (rule txn_invI) (use assms in \<open>auto simp: start_transaction_def Let_def split: if_splits elim: txn_invD\<close>)

lemma stop_unknown: "dict_get (tr_records r) tid = None \<Longrightarrow> snd (stop_transaction tid m s reason r) = r"
  by (simp add: stop_transaction_def)

lemma stop_completed:
  "dict_get (tr_records r) tid = Some rec \<Longrightarrow> tx_status rec = ''completed'' \<Longrightarrow>
     stop_transaction tid m s reason r = (Inr \<lparr>st_already = True, st_tenant = tx_tenant rec, st_charger = tx_charger rec\<rparr>, r)"
  by (simp add: stop_transaction_def)

lemma stop_active:
  assumes "dict_get (tr_records r) tid = Some rec" "tx_status rec \<noteq> ''completed''"
  shows "fst (stop_transaction tid m s reason r) = Inr \<lparr>st_already = False, st_tenant = tx_tenant rec, st_charger = tx_charger rec\<rparr>"
    and "tr_records (snd (stop_transaction tid m s reason r)) = dict_set tid (rec\<lparr>tx_status := ''completed'',
        tx_meter_stop := Some m, tx_stop := Some s, tx_reason := reason\<rparr>) (tr_records r)"
    and "dict_get (tr_active (snd (stop_transaction tid m s reason r))) c
       = (case dict_get (tr_active r) c of Some a \<Rightarrow> if c = tx_charger rec \<and> at_id a = tid then None else Some a | None \<Rightarrow> None)"
  using assms by (auto simp: stop_transaction_def Let_def split: option.splits)

lemma txn_inv_stop:
  assumes "txn_inv r"
  shows "txn_inv (snd (stop_transaction tid m s reason r))"
proof (cases "\<exists>rec. dict_get (tr_records r) tid = Some rec \<and> tx_status rec \<noteq> ''completed''")
  case True
  then obtain rec where rec: "dict_get (tr_records r) tid = Some rec" "tx_status rec \<noteq> ''completed''" by blast
  show ?thesis
    by (rule txn_invI, unfold stop_active(3)[OF rec] stop_active(2)[OF rec])
      (use assms rec in \<open>auto split: option.splits if_splits elim: txn_invD\<close>)
next
  case False
  then show ?thesis using assms by (cases "dict_get (tr_records r) tid") (auto simp: stop_unknown stop_completed)
qed

text \<open>A record, once there, stays; a completed one never changes again.\<close>

lemma start_keeps_record:
  "dict_get (tr_records r) tid = Some rec \<Longrightarrow> new_id \<noteq> tid \<Longrightarrow>
     dict_get (tr_records (snd (start_transaction new_id c tenant n tag m s r))) tid = Some rec"
  by (simp add: start_transaction_def Let_def)

lemma stop_keeps_completed:
  assumes "dict_get (tr_records r) tid = Some rec" "tx_status rec = ''completed''"
  shows "dict_get (tr_records (snd (stop_transaction tid' m s reason r))) tid = Some rec"
  using assms by (auto simp: stop_transaction_def Let_def split: option.splits if_splits)

subsection \<open>The meter buffer\<close>

text \<open>Nothing is lost, duplicated or reordered: what was written and what is buffered is what was added.\<close>

abbreviation meter_rows :: "meter_buffer \<Rightarrow> meter_reading list" where
  "meter_rows b \<equiv> all_written_rows b @ mb_buffer b"

definition meter_inv :: "meter_buffer \<Rightarrow> bool" where
  "meter_inv b \<longleftrightarrow> int (length (mb_buffer b)) < max 1 (mb_max b)
     \<and> (\<forall>batch \<in> set (mb_batches b). batch \<noteq> [] \<and> int (length batch) \<le> max 1 (mb_max b))"

lemma meter_flush_rows [simp]: "meter_rows (meter_flush b) = meter_rows b" "mb_buffer (meter_flush b) = []" "mb_max (meter_flush b) = mb_max b"
  by (simp_all add: meter_flush_def write_batch_def all_written_rows_def)

lemma meter_add_rows [simp]: "meter_rows (meter_add t1 t2 x b) = meter_rows b @ [x]" "mb_max (meter_add t1 t2 x b) = mb_max b"
proof -
  have "mb_max (meter_add t1 t2 x b) = mb_max b" by (simp add: meter_add_def Let_def)
  then show "mb_max (meter_add t1 t2 x b) = mb_max b" .
  show "meter_rows (meter_add t1 t2 x b) = meter_rows b @ [x]"
    by (simp add: meter_add_def Let_def meter_flush_def write_batch_def all_written_rows_def)
qed

lemma meter_inv_flush: "meter_inv b \<Longrightarrow> meter_inv (meter_flush b)"
  by (auto simp: meter_inv_def meter_flush_def write_batch_def)

lemma meter_inv_add:
  assumes "meter_inv b"
  shows "meter_inv (meter_add t1 t2 x b)"
  using assms by (auto simp: meter_inv_def meter_add_def meter_flush_def write_batch_def should_flush_def Let_def)

subsection \<open>Latest readings\<close>

lemma get_latest_update:
  "get_latest (latest_update x st) t m =
     (if t = mr_txn x \<and> m = mr_measurand x
      then (case get_latest st t m of Some e \<Rightarrow> if mr_ts x \<ge> mr_ts e then Some x else Some e | None \<Rightarrow> Some x)
      else get_latest st t m)"
  by (auto simp: get_latest_def latest_update_def Let_def split: option.splits)

text \<open>A sequence of readings and flushes.\<close>

datatype meter_op = Add pyfloat pyfloat meter_reading | Flush

fun meter_step :: "meter_op \<Rightarrow> meter_buffer \<Rightarrow> meter_buffer" where
  "meter_step (Add t1 t2 x) b = meter_add t1 t2 x b"
| "meter_step Flush b = meter_flush b"

fun added :: "meter_op list \<Rightarrow> meter_reading list" where
  "added [] = []"
| "added (Add t1 t2 x # ops) = x # added ops"
| "added (Flush # ops) = added ops"

lemma meter_step_inv: "meter_inv b \<Longrightarrow> meter_inv (meter_step a b)"
  by (cases a) (simp_all add: meter_inv_add meter_inv_flush)

lemma meter_run_inv: "meter_inv b \<Longrightarrow> meter_inv (fold meter_step ops b)"
  by (induction ops arbitrary: b) (simp_all add: meter_step_inv)

lemma meter_run_rows: "meter_rows (fold meter_step ops b) = meter_rows b @ added ops"
proof (induction ops arbitrary: b)
  case Nil
  show ?case by simp
next
  case (Cons a ops)
  have "meter_rows (meter_step a b) @ added ops = meter_rows b @ added (a # ops)"
  proof (cases a)
    case (Add t1 t2 x)
    then show ?thesis using meter_add_rows(1)[of t1 t2 x b] by (metis added.simps(2) append.assoc append_Cons append_Nil meter_step.simps(1))
  next
    case Flush
    then show ?thesis using meter_flush_rows(1)[of b] by simp
  qed
  then show ?case using Cons.IH[of "meter_step a b"] by simp
qed

lemma latest_run:
  "get_latest (fold latest_update xs st) t m =
     (let ys = filter (\<lambda>x. mr_txn x = t \<and> mr_measurand x = m) xs in
      fold (\<lambda>x e. case e of None \<Rightarrow> Some x | Some y \<Rightarrow> if mr_ts x \<ge> mr_ts y then Some x else Some y) ys (get_latest st t m))"
  by (induction xs arbitrary: st) (auto simp: get_latest_update Let_def split: option.splits)

lemma newest_fold:
  assumes "fold (\<lambda>x e. case e of None \<Rightarrow> Some x | Some y \<Rightarrow> if mr_ts x \<ge> mr_ts y then Some x else Some y) ys e = Some z"
  shows "(z \<in> set ys \<or> e = Some z) \<and> (\<forall>y \<in> set ys. mr_ts y \<le> mr_ts z) \<and> (\<forall>y. e = Some y \<longrightarrow> mr_ts y \<le> mr_ts z)"
  using assms
proof (induction ys arbitrary: e)
  case Nil
  then show ?case by simp
next
  case (Cons y ys)
  show ?case
  proof (cases e)
    case None
    then show ?thesis using Cons.IH[of "Some y"] Cons.prems by auto
  next
    case (Some w)
    then show ?thesis
      using Cons.IH[of "if mr_ts y \<ge> mr_ts w then Some y else Some w"] Cons.prems
      by (auto split: if_splits)
  qed
qed

lemma newest_fold_some: "ys \<noteq> [] \<or> e \<noteq> None \<Longrightarrow>
  fold (\<lambda>x e. case e of None \<Rightarrow> Some x | Some y \<Rightarrow> if mr_ts x \<ge> mr_ts y then Some x else Some y) ys e \<noteq> None"
  by (induction ys arbitrary: e) (auto split: option.splits)

subsection \<open>Properties\<close>

text \<open>
  Over any sequence of readings and flushes the meter path loses, duplicates and
  reorders nothing: what reached the sink followed by what is buffered is exactly what was
  added, every written batch is non-empty and within \<open>max_batch_size\<close>, and after a
  flush everything has been written.
\<close>

theorem meter_values_conserved:
  assumes "meter_inv b"
  shows "all_written_rows (fold meter_step ops b) @ mb_buffer (fold meter_step ops b)
      = all_written_rows b @ mb_buffer b @ added ops
    \<and> meter_inv (fold meter_step ops b)
    \<and> all_written_rows (meter_flush (fold meter_step ops b)) = all_written_rows b @ mb_buffer b @ added ops"
proof -
  have r: "meter_rows (fold meter_step ops b) = all_written_rows b @ mb_buffer b @ added ops"
    using meter_run_rows[of ops b] by simp
  have "all_written_rows (meter_flush (fold meter_step ops b)) = meter_rows (fold meter_step ops b)"
    using meter_flush_rows(1,2)[of "fold meter_step ops b"] by simp
  then show ?thesis using r meter_run_inv[OF assms, of ops] by simp
qed

definition sample_reading :: "datetime \<Rightarrow> meter_reading" where
  "sample_reading ts = \<lparr>mr_tenant = 1, mr_txn = 2, mr_charger = ''CP'', mr_ts = ts, mr_measurand = ''Energy'', mr_value = Fin 3, mr_unit = ''Wh''\<rparr>"

definition sample_buffer :: meter_buffer where
  "sample_buffer = \<lparr>mb_batches = [], mb_max = 2, mb_interval = Fin 2, mb_buffer = [], mb_opened = None\<rparr>"

theorem meter_values_conserved_witness:
  "all_written_rows (meter_flush (fold meter_step (map (\<lambda>n. Add (Fin 0) (Fin 0) (sample_reading n)) [1, 2, 3]) sample_buffer))
     = map sample_reading [1, 2, 3]"
proof -
  have "meter_inv sample_buffer" by (simp add: meter_inv_def sample_buffer_def)
  from meter_values_conserved[OF this, of "map (\<lambda>n. Add (Fin 0) (Fin 0) (sample_reading n)) [1, 2, 3]"]
  show ?thesis by (simp add: sample_buffer_def all_written_rows_def del: fold_simps)
qed

text \<open>
  The live reading served for a transaction and measurand is one that arrived for it
  and none that arrived is newer, in whatever order the frames came in.
\<close>

theorem latest_reading_is_newest:
  assumes "x \<in> set xs"
  shows "\<exists>z \<in> set xs. get_latest (fold latest_update xs []) (mr_txn x) (mr_measurand x) = Some z
     \<and> mr_txn z = mr_txn x \<and> mr_measurand z = mr_measurand x
     \<and> (\<forall>y. y \<in> set xs \<and> mr_txn y = mr_txn x \<and> mr_measurand y = mr_measurand x \<longrightarrow> mr_ts y \<le> mr_ts z)"
proof -
  let ?ys = "filter (\<lambda>y. mr_txn y = mr_txn x \<and> mr_measurand y = mr_measurand x) xs"
  let ?f = "\<lambda>x e. case e of None \<Rightarrow> Some x | Some y \<Rightarrow> if mr_ts x \<ge> mr_ts y then Some x else Some y"
  have n: "get_latest [] (mr_txn x) (mr_measurand x) = None" by (simp add: get_latest_def dict_get_default_def)
  have "?ys \<noteq> []" using assms by (auto simp: filter_empty_conv)
  then obtain z where z: "fold ?f ?ys None = Some z" using newest_fold_some[of ?ys None] by blast
  have "z \<in> set ?ys" "\<forall>y \<in> set ?ys. mr_ts y \<le> mr_ts z" using newest_fold[OF z] by simp_all
  moreover have "get_latest (fold latest_update xs []) (mr_txn x) (mr_measurand x) = Some z"
    using z n by (simp add: latest_run)
  ultimately show ?thesis by auto
qed

theorem latest_reading_is_newest_witness:
  "\<exists>z. get_latest (fold latest_update [sample_reading 5, sample_reading 9, sample_reading 7] []) 2 ''Energy'' = Some z \<and> mr_ts z = 9"
proof -
  obtain z where z: "get_latest (fold latest_update [sample_reading 5, sample_reading 9, sample_reading 7] []) 2 ''Energy'' = Some z"
    "mr_ts (sample_reading 9) \<le> mr_ts z" "z \<in> set [sample_reading 5, sample_reading 9, sample_reading 7]"
    using latest_reading_is_newest[of "sample_reading 9" "[sample_reading 5, sample_reading 9, sample_reading 7]"]
    by (auto simp: sample_reading_def)
  then show ?thesis by (auto simp: sample_reading_def)
qed

text \<open>
  The credential check is exact: a charger whose credential was set is accepted for the
  presented secret exactly when the derived key is the stored one (always for the secret that
  was set), and a charger without one is refused; the salt and digest survive the hexadecimal
  record.
\<close>

theorem credential_check_exact:
  "credential_verify kdf (set_credential kdf salt c secret st) c presented
     = Inr (kdf presented salt = kdf secret salt)
   \<and> credential_verify kdf (set_credential kdf salt c secret st) c secret = Inr True"
  by (simp add: credential_verify_def set_credential_def verify_credential_def split_hash hex_is_ascii set_bytes_hex)

text \<open>
  The Redis registry behaves like the in-memory one: from states that agree, the same
  writes leave both reading the same presence for every charger. The client returns what was
  last set under a key that has not expired, and decoding undoes encoding.
\<close>

theorem redis_presence_refines_memory:
  assumes "\<forall>r k v ex k'. rget (rset k v ex r) k' = (if k' = k then Some v else rget r k')" "\<forall>p. loads (dumps p) = p"
    and "\<forall>c. redis_get rget loads r c = presence_get m c"
  shows "redis_get rget loads (fold (presence_apply (redis_mark_online rset dumps ttl)
            (redis_refresh rget rset dumps loads ttl) (redis_mark_offline rget rset dumps loads grace)) ops r) c
       = presence_get (fold (presence_apply mark_online refresh mark_offline) ops m) c"
proof -
  have "presence_registry (redis_get rget loads) (redis_mark_online rset dumps ttl)
     (redis_refresh rget rset dumps loads ttl) (redis_mark_offline rget rset dumps loads grace)"
    using assms(1,2) by (intro redis_presence_registry) simp_all
  from presence_registry.run_spec[OF this, of ops r c] show ?thesis
    using assms(3) by (simp add: memory_presence.run_spec)
qed

theorem redis_presence_refines_memory_witness:
  "redis_get map_of id (fold (presence_apply (redis_mark_online (\<lambda>k v ex. dict_set k v) id 600)
      (redis_refresh map_of (\<lambda>k v ex. dict_set k v) id id 600) (redis_mark_offline map_of (\<lambda>k v ex. dict_set k v) id id 60))
      [MarkOnline (Fin 1) ''CP'' 3 ''n1'' ''ocpp1.6'', MarkOffline ''CP''] []) ''CP''
   = presence_get (fold (presence_apply mark_online refresh mark_offline)
      [MarkOnline (Fin 1) ''CP'' 3 ''n1'' ''ocpp1.6'', MarkOffline ''CP''] []) ''CP''"
  by (rule redis_presence_refines_memory) (simp_all add: redis_get_def presence_get_def)

text \<open>
  A repeated BootNotification never recreates a charger nor resets its registration: the
  tenant and status of the first boot (or of a later approval) survive any boots that follow.
\<close>

theorem reboot_keeps_registration:
  assumes "dict_get reg c = Some row"
  shows "\<exists>row'. dict_get (fold (\<lambda>(now, d, t, v, m, f) r. snd (upsert_on_boot now d t v m f r)) boots reg) c = Some row'
     \<and> ch_tenant row' = ch_tenant row \<and> ch_status row' = ch_status row
     \<and> fst (upsert_on_boot now c t v m f (fold (\<lambda>(now, d, t, v, m, f) r. snd (upsert_on_boot now d t v m f r)) boots reg))
         = \<lparr>br_status = ch_status row, br_new = False\<rparr>"
  using assms
proof (induction boots arbitrary: reg row)
  case Nil
  then show ?case by (simp add: upsert_on_boot_def)
next
  case (Cons b boots)
  obtain now' d t' v' m' f' where b: "b = (now', d, t', v', m', f')" by (cases b)
  obtain row1 where "dict_get (snd (upsert_on_boot now' d t' v' m' f' reg)) c = Some row1"
    "ch_tenant row1 = ch_tenant row" "ch_status row1 = ch_status row"
    using Cons.prems by (cases "d = c"; cases "dict_get reg d") (auto simp: upsert_on_boot_def)
  then show ?case using Cons.IH[of "snd (upsert_on_boot now' d t' v' m' f' reg)" row1] by (simp add: b)
qed

theorem reboot_keeps_registration_witness:
  "\<exists>row'. dict_get (fold (\<lambda>(now, d, t, v, m, f) r. snd (upsert_on_boot now d t v m f r)) [(Fin 5, ''CP'', 2, None, None, None)]
      (snd (set_charger_status ''CP'' ''accepted'' (snd (upsert_on_boot (Fin 1) ''CP'' 1 None None None []))))) ''CP'' = Some row'
     \<and> ch_tenant row' = 1 \<and> ch_status row' = ''accepted''"
proof -
  have "dict_get (snd (set_charger_status ''CP'' ''accepted'' (snd (upsert_on_boot (Fin 1) ''CP'' 1 None None None [])))) ''CP''
      = Some \<lparr>ch_tenant = 1, ch_vendor = None, ch_model = None, ch_firmware = None, ch_status = ''accepted'', ch_last_boot = Fin 1\<rparr>"
    by (simp add: set_charger_status_def upsert_on_boot_def)
  from reboot_keeps_registration[OF this, of "[(Fin 5, ''CP'', 2, None, None, None)]" NaN 1 None None None] show ?thesis
    by (auto simp del: fold_simps)
qed

end
