(* ===== verification/Ocpp_Gateway.thy ===== *)
theory Ocpp_Gateway
  imports Ocpp_Stores
begin

text \<open>
  The charger-facing side of the OCPP gateway (\<open>ocpp_gateway/authorize.py\<close>,
  \<open>connection_manager.py\<close>, \<open>message_handlers.py\<close>, the firmware store of
  \<open>commands.py\<close>, and the OCPP-J transport \<open>ws_app.py\<close>): handshake, presence,
  heartbeat sweep, the inbound message handlers with their dispatcher, and the frame loop
  with the server-initiated calls. The composition root gives \<open>ConnectionManager\<close> and
  \<open>OcppMessageHandlers\<close> the same stores; they share one state here.
\<close>

subsection \<open>Authorization\<close>

datatype auth_status = ACCEPTED | BLOCKED | EXPIRED | INVALID

fun auth_value :: "auth_status \<Rightarrow> string" where
  "auth_value ACCEPTED = ''Accepted''"
| "auth_value BLOCKED = ''Blocked''"
| "auth_value EXPIRED = ''Expired''"
| "auth_value INVALID = ''Invalid''"

record authorizer =
  az_local :: "(string, auth_status) pydict"
  az_roaming :: "(string, auth_status) pydict"
  az_checked :: "string list"

definition local_set_status :: "string \<Rightarrow> auth_status \<Rightarrow> authorizer \<Rightarrow> authorizer" where
  "local_set_status tag st a = a\<lparr>az_local := dict_set tag st (az_local a)\<rparr>"

definition local_lookup :: "authorizer \<Rightarrow> string \<Rightarrow> auth_status option" where
  "local_lookup a tag = dict_get (az_local a) tag"

definition roaming_set_status :: "string \<Rightarrow> auth_status \<Rightarrow> authorizer \<Rightarrow> authorizer" where
  "roaming_set_status tag st a = a\<lparr>az_roaming := dict_set tag st (az_roaming a)\<rparr>"

definition roaming_check :: "string \<Rightarrow> authorizer \<Rightarrow> auth_status \<times> authorizer" where
  "roaming_check tag a =
     (dict_get_default (az_roaming a) tag INVALID, a\<lparr>az_checked := az_checked a @ [tag]\<rparr>)"

definition authorize :: "string \<Rightarrow> authorizer \<Rightarrow> auth_status \<times> authorizer" where
  "authorize tag a =
     (case local_lookup a tag of Some st \<Rightarrow> (st, a) | None \<Rightarrow> roaming_check tag a)"

subsection \<open>Firmware updates\<close>

record firmware_record =
  fw_charger :: string
  fw_tenant :: uuid
  fw_version :: string
  fw_status :: string

record firmware_store =
  fs_records :: "(string \<times> string, firmware_record) pydict"
  fs_latest :: "(string, string) pydict"

definition firmware_start :: "string \<Rightarrow> uuid \<Rightarrow> string \<Rightarrow> firmware_store \<Rightarrow> firmware_record \<times> firmware_store" where
  "firmware_start c t v st =
     (let rec = \<lparr>fw_charger = c, fw_tenant = t, fw_version = v, fw_status = ''pending''\<rparr>
      in (rec, st\<lparr>fs_records := dict_set (c, v) rec (fs_records st), fs_latest := dict_set c v (fs_latest st)\<rparr>))"

definition firmware_update_status ::
  "string \<Rightarrow> string \<Rightarrow> string \<Rightarrow> firmware_store \<Rightarrow> (py_error + firmware_record) \<times> firmware_store" where
  "firmware_update_status c v status st =
     (case dict_get (fs_records st) (c, v) of
        None \<Rightarrow> (Inl (PyValueError (''unknown firmware update: '' @ c @ ''@'' @ v)), st)
      | Some rec \<Rightarrow> let rec' = rec\<lparr>fw_status := status\<rparr>
          in (Inr rec', st\<lparr>fs_records := dict_set (c, v) rec' (fs_records st)\<rparr>))"

definition firmware_get :: "firmware_store \<Rightarrow> string \<Rightarrow> string \<Rightarrow> firmware_record option" where
  "firmware_get st c v = dict_get (fs_records st) (c, v)"

text \<open>\<open>... if version else None\<close>: an empty version string counts as none.\<close>

definition get_latest_for_charger :: "firmware_store \<Rightarrow> string \<Rightarrow> firmware_record option" where
  "get_latest_for_charger st c =
     (case dict_get (fs_latest st) c of None \<Rightarrow> None
      | Some v \<Rightarrow> if v = [] then None else dict_get (fs_records st) (c, v))"

subsection \<open>The gateway's state\<close>

record gateway =
  gw_presence :: presence
  gw_credentials :: credential_store
  gw_txns :: txn_repo
  gw_registry :: charger_registry
  gw_events :: event_log
  gw_connectors :: connector_store
  gw_auth :: authorizer
  gw_meter :: meter_buffer
  gw_firmware :: "firmware_store option"
  gw_latest :: "latest_readings option"
  gw_node :: string
  gw_interval :: int

subsection \<open>The connection manager\<close>

record handshake_result =
  hs_accepted :: bool
  hs_protocol :: "string option"
  hs_reason :: "string option"

record reconnect_result =
  rr_handshake :: handshake_result
  rr_resumed :: "active_transaction option"

definition resolve_handler_codepath :: "string option \<Rightarrow> string option" where
  "resolve_handler_codepath p = (if p \<in> {Some ''ocpp1.6'', Some ''ocpp2.0.1''} then p else None)"

definition handle_handshake ::
  "(string \<Rightarrow> string \<Rightarrow> string) \<Rightarrow> pyfloat \<Rightarrow> string \<Rightarrow> uuid \<Rightarrow> string \<Rightarrow> string option \<Rightarrow> gateway
    \<Rightarrow> (py_error + handshake_result) \<times> gateway" where
  "handle_handshake kdf now c tenant credential subprotocol g =
     (case resolve_handler_codepath subprotocol of
        None \<Rightarrow> (Inr \<lparr>hs_accepted = False, hs_protocol = None, hs_reason = Some ''unsupported subprotocol''\<rparr>, g)
      | Some proto \<Rightarrow>
        (case credential_verify kdf (gw_credentials g) c credential of
           Inl e \<Rightarrow> (Inl e, g)
         | Inr ok \<Rightarrow>
           if \<not> ok then (Inr \<lparr>hs_accepted = False, hs_protocol = None, hs_reason = Some ''invalid credentials''\<rparr>, g)
           else (Inr \<lparr>hs_accepted = True, hs_protocol = Some proto, hs_reason = None\<rparr>,
                 g\<lparr>gw_presence := mark_online now c tenant (gw_node g) proto (gw_presence g)\<rparr>)))"

definition handle_reconnect ::
  "(string \<Rightarrow> string \<Rightarrow> string) \<Rightarrow> pyfloat \<Rightarrow> string \<Rightarrow> uuid \<Rightarrow> string \<Rightarrow> string option \<Rightarrow> gateway
    \<Rightarrow> (py_error + reconnect_result) \<times> gateway" where
  "handle_reconnect kdf now c tenant credential subprotocol g =
     (let eligible = (case presence_get (gw_presence g) c of None \<Rightarrow> False | Some p \<Rightarrow> ps_status p = ''online'');
          (h, g') = handle_handshake kdf now c tenant credential subprotocol g
      in (case h of Inl e \<Rightarrow> Inl e
          | Inr hs \<Rightarrow> Inr \<lparr>rr_handshake = hs,
              rr_resumed = (if hs_accepted hs \<and> eligible then get_active_transaction (gw_txns g') c else None)\<rparr>, g'))"

definition handle_inbound_frame :: "pyfloat \<Rightarrow> string \<Rightarrow> gateway \<Rightarrow> gateway" where
  "handle_inbound_frame now c g = g\<lparr>gw_presence := refresh now c (gw_presence g)\<rparr>"

text \<open>\<open>mark_offline\<close> runs before \<open>uuid.UUID(state.tenant_id)\<close> is evaluated.\<close>

definition offline_and_publish :: "string \<Rightarrow> presence_state \<Rightarrow> gateway \<Rightarrow> (py_error + unit) \<times> gateway" where
  "offline_and_publish c p g =
     (let g1 = g\<lparr>gw_presence := mark_offline c (gw_presence g)\<rparr> in
      case uuid_of_string (ps_tenant p) of
        None \<Rightarrow> (Inl (PyValueError ''badly formed hexadecimal UUID string''), g1)
      | Some t \<Rightarrow> (Inr (), g1\<lparr>gw_events := publish_disconnected t c (gw_events g1)\<rparr>))"

definition handle_disconnect :: "string \<Rightarrow> gateway \<Rightarrow> (py_error + unit) \<times> gateway" where
  "handle_disconnect c g =
     (case presence_get (gw_presence g) c of
        None \<Rightarrow> (Inr (), g)
      | Some p \<Rightarrow> if ps_status p \<noteq> ''online'' then (Inr (), g) else offline_and_publish c p g)"

fun check_and_expire_heartbeats ::
  "pyfloat \<Rightarrow> int \<Rightarrow> string list \<Rightarrow> gateway \<Rightarrow> (py_error + string list) \<times> gateway" where
  "check_and_expire_heartbeats now interval [] g = (Inr [], g)"
| "check_and_expire_heartbeats now interval (c # cs) g =
     (case presence_get (gw_presence g) c of
        None \<Rightarrow> check_and_expire_heartbeats now interval cs g
      | Some p \<Rightarrow>
        if ps_status p \<noteq> ''online'' then check_and_expire_heartbeats now interval cs g
        else if flt (Fin (of_int (interval * 2))) (fsub now (ps_last_seen p))
        then (case offline_and_publish c p g of
                (Inl e, g') \<Rightarrow> (Inl e, g')
              | (Inr _, g') \<Rightarrow>
                (case check_and_expire_heartbeats now interval cs g' of
                   (Inl e, g'') \<Rightarrow> (Inl e, g'') | (Inr off, g'') \<Rightarrow> (Inr (c # off), g'')))
        else check_and_expire_heartbeats now interval cs g)"

definition cm_boot_notification ::
  "pyfloat \<Rightarrow> string \<Rightarrow> uuid \<Rightarrow> string option \<Rightarrow> string option \<Rightarrow> string option \<Rightarrow> gateway
    \<Rightarrow> boot_result \<times> gateway" where
  "cm_boot_notification now c tenant vendor model fw g =
     (let (b, reg) = upsert_on_boot now c tenant vendor model fw (gw_registry g) in (b, g\<lparr>gw_registry := reg\<rparr>))"

subsection \<open>The message handlers\<close>

datatype frame_error = FramePy py_error | FrameUnknownTransaction string

definition handle_boot_notification ::
  "pyfloat \<Rightarrow> string \<Rightarrow> uuid \<Rightarrow> string option \<Rightarrow> string option \<Rightarrow> string option \<Rightarrow> gateway
    \<Rightarrow> (frame_error + string \<times> int) \<times> gateway" where
  "handle_boot_notification now c tenant vendor model fw g =
     (let (b, reg) = upsert_on_boot now c tenant vendor model fw (gw_registry g);
          g' = g\<lparr>gw_registry := reg\<rparr>
      in (if br_status b = ''pending'' then Inr (''Pending'', gw_interval g)
          else if br_status b = ''accepted'' then Inr (''Accepted'', gw_interval g)
          else if br_status b = ''rejected'' then Inr (''Rejected'', gw_interval g)
          else Inl (FramePy (KeyError (br_status b))), g'))"

definition handle_status_notification ::
  "string \<Rightarrow> uuid \<Rightarrow> int \<Rightarrow> string \<Rightarrow> string option \<Rightarrow> gateway \<Rightarrow> gateway" where
  "handle_status_notification c tenant n status err g =
     g\<lparr>gw_connectors := connector_update c n status err (gw_connectors g),
       gw_events := publish_status_notification tenant c n status err (gw_events g)\<rparr>"

definition handle_authorize :: "string \<Rightarrow> gateway \<Rightarrow> auth_status \<times> gateway" where
  "handle_authorize tag g = (let (st, a) = authorize tag (gw_auth g) in (st, g\<lparr>gw_auth := a\<rparr>))"

definition handle_start_transaction ::
  "uuid \<Rightarrow> string \<Rightarrow> uuid \<Rightarrow> int \<Rightarrow> string \<Rightarrow> int \<Rightarrow> datetime \<Rightarrow> gateway \<Rightarrow> (uuid \<times> string) \<times> gateway" where
  "handle_start_transaction new_id c tenant n tag meter start g =
     (let (st, g1) = handle_authorize tag g in
      if st \<noteq> ACCEPTED then ((0, auth_value st), g1)
      else let (t, txns) = start_transaction new_id c tenant n tag meter start (gw_txns g1)
           in ((at_id t, auth_value ACCEPTED), g1\<lparr>gw_txns := txns\<rparr>))"

definition handle_stop_transaction ::
  "uuid \<Rightarrow> int \<Rightarrow> datetime \<Rightarrow> string option \<Rightarrow> gateway \<Rightarrow> (frame_error + string) \<times> gateway" where
  "handle_stop_transaction tid meter stop reason g =
     (let g1 = g\<lparr>gw_meter := meter_flush (gw_meter g)\<rparr>;
          (r, txns) = stop_transaction tid meter stop reason (gw_txns g1);
          g2 = g1\<lparr>gw_txns := txns\<rparr>
      in case r of
           Inl (UnknownTransactionError m) \<Rightarrow> (Inl (FrameUnknownTransaction m), g2)
         | Inr sr \<Rightarrow> (Inr ''Accepted'',
             if st_already sr then g2
             else g2\<lparr>gw_events := publish_stop_transaction (st_tenant sr) (st_charger sr) tid (gw_events g2)\<rparr>))"

text \<open>
  The readings loop. An element is unpacked into three names (another length is a
  \<open>ValueError\<close>); the readings before a bad one have been added. \<open>clk i\<close> are the two
  clock reads of the i-th \<open>add\<close>.
\<close>

definition reading_of ::
  "uuid \<Rightarrow> uuid \<Rightarrow> string \<Rightarrow> datetime \<Rightarrow> json list \<Rightarrow> py_error + meter_reading" where
  "reading_of tenant tid c ts r =
     (case r of
        [m, v, u] \<Rightarrow>
          (case (m, v, u) of
             (JStr ms, JFloat x, JStr us) \<Rightarrow> Inr \<lparr>mr_tenant = tenant, mr_txn = tid, mr_charger = c, mr_ts = ts,
                mr_measurand = ms, mr_value = x, mr_unit = us\<rparr>
           | (JStr ms, JInt n, JStr us) \<Rightarrow> Inr \<lparr>mr_tenant = tenant, mr_txn = tid, mr_charger = c, mr_ts = ts,
                mr_measurand = ms, mr_value = Fin (of_int n), mr_unit = us\<rparr>
           | _ \<Rightarrow> Inl IllTyped)
      | _ \<Rightarrow> Inl (PyValueError ''values to unpack (expected 3)''))"

definition add_reading :: "pyfloat \<times> pyfloat \<Rightarrow> meter_reading \<Rightarrow> gateway \<Rightarrow> gateway" where
  "add_reading ck x g =
     (let g1 = g\<lparr>gw_meter := meter_add (fst ck) (snd ck) x (gw_meter g)\<rparr>
      in g1\<lparr>gw_latest := map_option (latest_update x) (gw_latest g1)\<rparr>)"

fun handle_meter_values ::
  "(nat \<Rightarrow> pyfloat \<times> pyfloat) \<Rightarrow> uuid \<Rightarrow> uuid \<Rightarrow> string \<Rightarrow> datetime \<Rightarrow> json list list \<Rightarrow> gateway
    \<Rightarrow> (py_error + unit) \<times> gateway" where
  "handle_meter_values clk tenant tid c ts [] g = (Inr (), g)"
| "handle_meter_values clk tenant tid c ts (r # rs) g =
     (case reading_of tenant tid c ts r of
        Inl e \<Rightarrow> (Inl e, g)
      | Inr x \<Rightarrow> handle_meter_values (\<lambda>i. clk (Suc i)) tenant tid c ts rs (add_reading (clk 0) x g))"

definition publish_event :: "string \<Rightarrow> uuid \<Rightarrow> string \<Rightarrow> (string \<times> json) list \<Rightarrow> gateway \<Rightarrow> gateway" where
  "publish_event c tenant ty payload g = g\<lparr>gw_events := publish_ocpp_event tenant c ty payload (gw_events g)\<rparr>"

definition handle_data_transfer :: "string \<Rightarrow> uuid \<Rightarrow> json \<Rightarrow> json \<Rightarrow> json \<Rightarrow> gateway \<Rightarrow> json \<times> gateway" where
  "handle_data_transfer c tenant vendor message data g =
     (JObj [(''status'', JStr ''Accepted'')],
      publish_event c tenant ''data_transfer'' [(''vendor_id'', vendor), (''message_id'', message), (''data'', data)] g)"

definition handle_firmware_status_notification ::
  "string \<Rightarrow> uuid \<Rightarrow> string \<Rightarrow> gateway \<Rightarrow> (py_error + unit) \<times> gateway" where
  "handle_firmware_status_notification c tenant status g =
     (let g1 = publish_event c tenant ''firmware_status'' [(''status'', JStr status)] g in
      case gw_firmware g1 of
        None \<Rightarrow> (Inr (), g1)
      | Some fs \<Rightarrow>
        (case get_latest_for_charger fs c of
           None \<Rightarrow> (Inr (), g1)
         | Some rec \<Rightarrow>
           (let (r, fs') = firmware_update_status c (fw_version rec) status fs
            in (case r of Inl e \<Rightarrow> Inl e | Inr _ \<Rightarrow> Inr (), g1\<lparr>gw_firmware := Some fs'\<rparr>))))"

definition handle_diagnostics_status_notification :: "string \<Rightarrow> uuid \<Rightarrow> json \<Rightarrow> gateway \<Rightarrow> gateway" where
  "handle_diagnostics_status_notification c tenant status g =
     publish_event c tenant ''diagnostics_status'' [(''status'', status)] g"

definition handle_security_event_notification :: "string \<Rightarrow> uuid \<Rightarrow> json \<Rightarrow> json \<Rightarrow> json \<Rightarrow> gateway \<Rightarrow> gateway" where
  "handle_security_event_notification c tenant ty timestamp tech g =
     publish_event c tenant ''security_event'' [(''type'', ty), (''timestamp'', timestamp), (''tech_info'', tech)] g"

definition handle_log_status_notification :: "string \<Rightarrow> uuid \<Rightarrow> json \<Rightarrow> json \<Rightarrow> gateway \<Rightarrow> gateway" where
  "handle_log_status_notification c tenant status request g =
     publish_event c tenant ''log_status'' [(''status'', status), (''request_id'', request)] g"

subsection \<open>Dispatch\<close>

text \<open>
  A payload after \<open>_prepare_payload\<close>: decoded values, with the timestamps and the
  readings converted. A handler argument of another type than the annotated one is
  \<open>IllTyped\<close>; an absent \<open>payload[k]\<close> is a \<open>KeyError\<close>.
\<close>

datatype fval = FJ json | FTime datetime | FReadings "json list list"

type_synonym fpayload = "(string, fval) pydict"

definition fitem :: "fpayload \<Rightarrow> string \<Rightarrow> py_error + fval" where
  "fitem p k = (case dict_get p k of None \<Rightarrow> Inl (KeyError k) | Some v \<Rightarrow> Inr v)"

definition fitem_json :: "fpayload \<Rightarrow> string \<Rightarrow> py_error + json" where
  "fitem_json p k = rbind (fitem p k) (\<lambda>v. case v of FJ j \<Rightarrow> Inr j | _ \<Rightarrow> Inl IllTyped)"

definition fitem_str :: "fpayload \<Rightarrow> string \<Rightarrow> py_error + string" where
  "fitem_str p k = rbind (fitem p k) (\<lambda>v. case v of FJ (JStr s) \<Rightarrow> Inr s | _ \<Rightarrow> Inl IllTyped)"

definition fitem_int :: "fpayload \<Rightarrow> string \<Rightarrow> py_error + int" where
  "fitem_int p k = rbind (fitem p k) (\<lambda>v. case v of FJ (JInt n) \<Rightarrow> Inr n | _ \<Rightarrow> Inl IllTyped)"

definition fitem_time :: "fpayload \<Rightarrow> string \<Rightarrow> py_error + datetime" where
  "fitem_time p k = rbind (fitem p k) (\<lambda>v. case v of FTime t \<Rightarrow> Inr t | _ \<Rightarrow> Inl IllTyped)"

definition fitem_uuid :: "fpayload \<Rightarrow> string \<Rightarrow> py_error + uuid" where
  "fitem_uuid p k = rbind (fitem p k) (\<lambda>v. case v of FJ j \<Rightarrow> uuid_of_json j | _ \<Rightarrow> Inl IllTyped)"

definition fget_json :: "fpayload \<Rightarrow> string \<Rightarrow> json" where
  "fget_json p k = (case dict_get p k of Some (FJ j) \<Rightarrow> j | _ \<Rightarrow> JNull)"

definition fget_str :: "fpayload \<Rightarrow> string \<Rightarrow> py_error + string option" where
  "fget_str p k = (case dict_get p k of None \<Rightarrow> Inr None | Some (FJ JNull) \<Rightarrow> Inr None
     | Some (FJ (JStr s)) \<Rightarrow> Inr (Some s) | _ \<Rightarrow> Inl IllTyped)"

text \<open>What a frame draws from outside: a fresh id, the wall clock, the buffer's clock reads.\<close>

record frame_env =
  fe_id :: uuid
  fe_now :: pyfloat
  fe_clk :: "nat \<Rightarrow> pyfloat \<times> pyfloat"

type_synonym frame_result = "(frame_error + json) \<times> gateway"

definition frame_fail :: "gateway \<Rightarrow> py_error \<Rightarrow> frame_result" where
  "frame_fail g e = (Inl (FramePy e), g)"

definition dispatch_boot :: "frame_env \<Rightarrow> string \<Rightarrow> uuid \<Rightarrow> fpayload \<Rightarrow> gateway \<Rightarrow> frame_result" where
  "dispatch_boot env c tenant p g =
     (case rbind (fget_str p ''vendor'') (\<lambda>v. rbind (fget_str p ''model'') (\<lambda>m.
             rbind (fget_str p ''firmware_version'') (\<lambda>f. Inr (v, m, f)))) of
        Inl e \<Rightarrow> frame_fail g e
      | Inr (v, m, f) \<Rightarrow>
        (let (r, g') = handle_boot_notification (fe_now env) c tenant v m f g
         in (case r of Inl e \<Rightarrow> Inl e
             | Inr (st, n) \<Rightarrow> Inr (JObj [(''status'', JStr st), (''interval'', JInt n)]), g')))"

definition dispatch_status :: "string \<Rightarrow> uuid \<Rightarrow> fpayload \<Rightarrow> gateway \<Rightarrow> frame_result" where
  "dispatch_status c tenant p g =
     (case rbind (fitem_int p ''connector_id'') (\<lambda>n. rbind (fitem_str p ''status'') (\<lambda>s.
             rbind (fget_str p ''error_code'') (\<lambda>e. Inr (n, s, e)))) of
        Inl e \<Rightarrow> frame_fail g e
      | Inr (n, s, e) \<Rightarrow> (Inr (JObj []), handle_status_notification c tenant n s e g))"

definition dispatch_authorize :: "fpayload \<Rightarrow> gateway \<Rightarrow> frame_result" where
  "dispatch_authorize p g =
     (case fitem_str p ''id_tag'' of
        Inl e \<Rightarrow> frame_fail g e
      | Inr tag \<Rightarrow> (let (st, g') = handle_authorize tag g
                   in (Inr (JObj [(''id_tag_status'', JStr (auth_value st))]), g')))"

definition dispatch_start :: "frame_env \<Rightarrow> string \<Rightarrow> uuid \<Rightarrow> fpayload \<Rightarrow> gateway \<Rightarrow> frame_result" where
  "dispatch_start env c tenant p g =
     (case rbind (fitem_int p ''connector_id'') (\<lambda>n. rbind (fitem_str p ''id_tag'') (\<lambda>tag.
             rbind (fitem_int p ''meter_start'') (\<lambda>m. rbind (fitem_time p ''start_timestamp'') (\<lambda>t. Inr (n, tag, m, t))))) of
        Inl e \<Rightarrow> frame_fail g e
      | Inr (n, tag, m, t) \<Rightarrow>
        (let ((tid, st), g') = handle_start_transaction (fe_id env) c tenant n tag m t g
         in (Inr (JObj [(''transaction_id'', JStr (str_uuid tid)), (''id_tag_status'', JStr st)]), g')))"

definition dispatch_stop :: "fpayload \<Rightarrow> gateway \<Rightarrow> frame_result" where
  "dispatch_stop p g =
     (case rbind (fitem_uuid p ''transaction_id'') (\<lambda>tid. rbind (fitem_int p ''meter_stop'') (\<lambda>m.
             rbind (fitem_time p ''stop_timestamp'') (\<lambda>t. rbind (fget_str p ''reason'') (\<lambda>r. Inr (tid, m, t, r))))) of
        Inl e \<Rightarrow> frame_fail g e
      | Inr (tid, m, t, r) \<Rightarrow>
        (let (res, g') = handle_stop_transaction tid m t r g
         in (case res of Inl e \<Rightarrow> Inl e | Inr st \<Rightarrow> Inr (JObj [(''id_tag_status'', JStr st)]), g')))"

definition dispatch_meter :: "frame_env \<Rightarrow> string \<Rightarrow> uuid \<Rightarrow> fpayload \<Rightarrow> gateway \<Rightarrow> frame_result" where
  "dispatch_meter env c tenant p g =
     (case rbind (fitem_uuid p ''transaction_id'') (\<lambda>tid. rbind (fitem_time p ''ts'') (\<lambda>t.
             rbind (fitem p ''readings'') (\<lambda>rs. case rs of FReadings xs \<Rightarrow> Inr (tid, t, xs) | _ \<Rightarrow> Inl IllTyped))) of
        Inl e \<Rightarrow> frame_fail g e
      | Inr (tid, t, xs) \<Rightarrow>
        (let (r, g') = handle_meter_values (fe_clk env) tenant tid c t xs g
         in (case r of Inl e \<Rightarrow> Inl (FramePy e) | Inr _ \<Rightarrow> Inr (JObj []), g')))"

definition dispatch_firmware :: "string \<Rightarrow> uuid \<Rightarrow> fpayload \<Rightarrow> gateway \<Rightarrow> frame_result" where
  "dispatch_firmware c tenant p g =
     (case fitem_str p ''status'' of
        Inl e \<Rightarrow> frame_fail g e
      | Inr s \<Rightarrow> (let (r, g') = handle_firmware_status_notification c tenant s g
                 in (case r of Inl e \<Rightarrow> Inl (FramePy e) | Inr _ \<Rightarrow> Inr (JObj []), g')))"

definition dispatch_events :: "string \<Rightarrow> uuid \<Rightarrow> string \<Rightarrow> fpayload \<Rightarrow> gateway \<Rightarrow> frame_result" where
  "dispatch_events c tenant action p g =
     (if action = ''DataTransfer'' then
        (case fitem_json p ''vendor_id'' of Inl e \<Rightarrow> frame_fail g e
         | Inr v \<Rightarrow> (let (j, g') = handle_data_transfer c tenant v (fget_json p ''message_id'') (fget_json p ''data'') g in (Inr j, g')))
      else if action = ''FirmwareStatusNotification'' then dispatch_firmware c tenant p g
      else if action = ''DiagnosticsStatusNotification'' then
        (case fitem_json p ''status'' of Inl e \<Rightarrow> frame_fail g e
         | Inr s \<Rightarrow> (Inr (JObj []), handle_diagnostics_status_notification c tenant s g))
      else if action = ''SecurityEventNotification'' then
        (case rbind (fitem_json p ''type'') (\<lambda>ty. rbind (fitem_json p ''timestamp'') (\<lambda>t. Inr (ty, t))) of
           Inl e \<Rightarrow> frame_fail g e
         | Inr (ty, t) \<Rightarrow> (Inr (JObj []), handle_security_event_notification c tenant ty t (fget_json p ''tech_info'') g))
      else if action = ''LogStatusNotification'' then
        (case fitem_json p ''status'' of Inl e \<Rightarrow> frame_fail g e
         | Inr s \<Rightarrow> (Inr (JObj []), handle_log_status_notification c tenant s (fget_json p ''request_id'') g))
      else frame_fail g (PyValueError (''unsupported OCPP action: '' @ action)))"

definition handle_frame :: "frame_env \<Rightarrow> string \<Rightarrow> uuid \<Rightarrow> string \<Rightarrow> fpayload \<Rightarrow> gateway \<Rightarrow> frame_result" where
  "handle_frame env c tenant action p g =
     (if action = ''BootNotification'' then dispatch_boot env c tenant p g
      else if action = ''StatusNotification'' then dispatch_status c tenant p g
      else if action = ''Authorize'' then dispatch_authorize p g
      else if action = ''StartTransaction'' then dispatch_start env c tenant p g
      else if action = ''StopTransaction'' then dispatch_stop p g
      else if action = ''MeterValues'' then dispatch_meter env c tenant p g
      else dispatch_events c tenant action p g)"

subsection \<open>The OCPP-J transport\<close>

text \<open>
  An open socket is known by a number; its pending calls map a call's unique id to the state
  of its future. \<open>LiveConnectionRegistry\<close> maps a charger to the socket registered last.
\<close>

datatype future = Waiting | Resolved json | Rejected json json

record live_connection =
  lc_socket :: nat
  lc_pending :: "(string, future) pydict"
  lc_sent :: "json list"

datatype remote_call_error = RemoteCallTimeout string | RemoteCallRejected json json

text \<open>\<open>send_call\<close>: register the future and send; when the wait ends, forget it.\<close>

definition send_call_begin :: "uuid \<Rightarrow> string \<Rightarrow> json \<Rightarrow> live_connection \<Rightarrow> live_connection" where
  "send_call_begin new_id action payload l =
     l\<lparr>lc_pending := dict_set (str_uuid new_id) Waiting (lc_pending l),
       lc_sent := lc_sent l @ [JList [JInt 2, JStr (str_uuid new_id), JStr action, payload]]\<rparr>"

definition send_call_end ::
  "uuid \<Rightarrow> string \<Rightarrow> live_connection \<Rightarrow> (remote_call_error + json) \<times> live_connection" where
  "send_call_end new_id action l =
     (case dict_get (lc_pending l) (str_uuid new_id) of
        Some (Resolved j) \<Rightarrow> Inr j
      | Some (Rejected code desc) \<Rightarrow> Inl (RemoteCallRejected code desc)
      | _ \<Rightarrow> Inl (RemoteCallTimeout (action @ '' timed out waiting for the charge point'')),
      l\<lparr>lc_pending := dict_del (str_uuid new_id) (lc_pending l)\<rparr>)"

text \<open>A key that cannot be hashed raises; one that is not pending, or is done, is ignored.\<close>

definition settle :: "json \<Rightarrow> future \<Rightarrow> live_connection \<Rightarrow> (py_error + bool) \<times> live_connection" where
  "settle unique_id f l =
     (case unique_id of
        JList _ \<Rightarrow> (Inl TypeError, l)
      | JObj _ \<Rightarrow> (Inl TypeError, l)
      | JStr u \<Rightarrow> (if dict_get (lc_pending l) u = Some Waiting
                  then (Inr True, l\<lparr>lc_pending := dict_set u f (lc_pending l)\<rparr>) else (Inr False, l))
      | _ \<Rightarrow> (Inr False, l))"

definition resolve_call :: "json \<Rightarrow> json \<Rightarrow> live_connection \<Rightarrow> (py_error + bool) \<times> live_connection" where
  "resolve_call unique_id result l = settle unique_id (Resolved result) l"

definition reject_call :: "json \<Rightarrow> json \<Rightarrow> json \<Rightarrow> live_connection \<Rightarrow> (py_error + bool) \<times> live_connection" where
  "reject_call unique_id code desc l = settle unique_id (Rejected code desc) l"

type_synonym connection_registry = "(string, nat) pydict"

definition register_connection :: "string \<Rightarrow> nat \<Rightarrow> connection_registry \<Rightarrow> connection_registry" where
  "register_connection c k r = dict_set c k r"

definition unregister_connection :: "string \<Rightarrow> nat \<Rightarrow> connection_registry \<Rightarrow> connection_registry" where
  "unregister_connection c k r = (if dict_get r c = Some k then dict_del c r else r)"

definition get_connection :: "connection_registry \<Rightarrow> string \<Rightarrow> nat option" where
  "get_connection r c = dict_get r c"

text \<open>
  \<open>_prepare_payload\<close>: \<open>dict(payload)\<close>, then the conversions. \<open>fromiso\<close> stands for
  \<open>datetime.fromisoformat\<close> on strings (\<open>None\<close>: it raises \<open>ValueError\<close>).
\<close>

fun dict_pairs :: "json list \<Rightarrow> py_error + fpayload" where
  "dict_pairs [] = Inr []"
| "dict_pairs (x # xs) =
     (case iter_json x of
        None \<Rightarrow> Inl TypeError
      | Some [JStr k, v] \<Rightarrow> rbind (dict_pairs xs) (\<lambda>d. Inr (if k \<in> set (dict_keys d) then d else (k, FJ v) # d))
      | Some [JList _, _] \<Rightarrow> Inl TypeError
      | Some [JObj _, _] \<Rightarrow> Inl TypeError
      | Some [_, _] \<Rightarrow> dict_pairs xs
      | Some _ \<Rightarrow> Inl (PyValueError ''dictionary update sequence element has wrong length; 2 is required''))"

definition dict_of_json :: "json \<Rightarrow> py_error + fpayload" where
  "dict_of_json j = (case j of
      JObj kvs \<Rightarrow> Inr (fold (\<lambda>(k, v) d. dict_set k (FJ v) d) kvs [])
    | _ \<Rightarrow> (case iter_json j of None \<Rightarrow> Inl TypeError | Some xs \<Rightarrow> dict_pairs xs))"

definition convert_time :: "(string \<Rightarrow> datetime option) \<Rightarrow> string \<Rightarrow> fpayload \<Rightarrow> py_error + fpayload" where
  "convert_time fromiso k d =
     (case dict_get d k of None \<Rightarrow> Inr d
      | Some (FJ (JStr s)) \<Rightarrow> (case fromiso s of
            None \<Rightarrow> Inl (PyValueError (''Invalid isoformat string: '' @ [CHR 0x27] @ s @ [CHR 0x27]))
          | Some t \<Rightarrow> Inr (dict_set k (FTime t) d))
      | Some _ \<Rightarrow> Inl TypeError)"

fun tuples :: "json list \<Rightarrow> py_error + json list list" where
  "tuples [] = Inr []"
| "tuples (x # xs) = (case iter_json x of None \<Rightarrow> Inl TypeError | Some r \<Rightarrow> rbind (tuples xs) (\<lambda>rs. Inr (r # rs)))"

definition convert_readings :: "fpayload \<Rightarrow> py_error + fpayload" where
  "convert_readings d =
     (case dict_get d ''readings'' of None \<Rightarrow> Inr d
      | Some (FJ j) \<Rightarrow> (case iter_json j of None \<Rightarrow> Inl TypeError
            | Some xs \<Rightarrow> rbind (tuples xs) (\<lambda>rs. Inr (dict_set ''readings'' (FReadings rs) d)))
      | Some _ \<Rightarrow> Inl IllTyped)"

definition prepare_payload :: "(string \<Rightarrow> datetime option) \<Rightarrow> string \<Rightarrow> json \<Rightarrow> py_error + fpayload" where
  "prepare_payload fromiso action payload =
     rbind (dict_of_json payload) (\<lambda>d.
     rbind (if action = ''StartTransaction'' then convert_time fromiso ''start_timestamp'' d else Inr d) (\<lambda>d1.
     rbind (if action = ''StopTransaction'' then convert_time fromiso ''stop_timestamp'' d1 else Inr d1) (\<lambda>d2.
     if action = ''MeterValues'' then rbind (convert_time fromiso ''ts'' d2) convert_readings else Inr d2)))"

text \<open>
  One turn of the receive loop: \<open>Reply\<close> a frame (or nothing) and go on, or leave the loop
  because an exception escaped. The texts Python gives a \<open>TypeError\<close> or a non-string
  action are not rendered.
\<close>

datatype turn = Reply "json option" | Escaped frame_error

definition call_error :: "json \<Rightarrow> string \<Rightarrow> string \<Rightarrow> json" where
  "call_error uid code desc = JList [JInt 4, uid, JStr code, JStr desc, JObj []]"

definition error_reply :: "json \<Rightarrow> frame_error \<Rightarrow> turn" where
  "error_reply uid e =
     (case e of
        FramePy (PyValueError m) \<Rightarrow> Reply (Some (call_error uid ''NotSupported'' m))
      | FramePy (KeyError k) \<Rightarrow> Reply (Some (call_error uid ''FormationViolation'' ([CHR 0x27] @ k @ [CHR 0x27])))
      | FramePy TypeError \<Rightarrow> Reply (Some (call_error uid ''FormationViolation'' ''TypeError''))
      | _ \<Rightarrow> Escaped e)"

definition call_turn ::
  "(string \<Rightarrow> datetime option) \<Rightarrow> string \<Rightarrow> frame_env \<Rightarrow> string \<Rightarrow> uuid \<Rightarrow> json \<Rightarrow> json \<Rightarrow> json \<Rightarrow> gateway
    \<Rightarrow> turn \<times> gateway" where
  "call_turn fromiso now_iso env c tenant uid action payload g =
     (let g1 = handle_inbound_frame (fe_now env) c g in
      case action of
        JStr a \<Rightarrow>
          (if a = ''Heartbeat''
           then (Reply (Some (JList [JInt 3, uid, JObj [(''current_time'', JStr now_iso)]])), g1)
           else (case prepare_payload fromiso a payload of
               Inl e \<Rightarrow> (error_reply uid (FramePy e), g1)
             | Inr p \<Rightarrow>
               (let (r, g2) = handle_frame env c tenant a p g1
                in (case r of Inl e \<Rightarrow> error_reply uid e | Inr j \<Rightarrow> Reply (Some (JList [JInt 3, uid, j])), g2))))
      | _ \<Rightarrow> (case dict_of_json payload of
               Inl e \<Rightarrow> (error_reply uid (FramePy e), g1)
             | Inr _ \<Rightarrow> (Reply (Some (call_error uid ''NotSupported'' ''unsupported OCPP action: '')), g1)))"

text \<open>A JSON number equal to an integer: \<open>3.0 == 3\<close> in Python.\<close>

definition jnum_eq :: "json \<Rightarrow> int \<Rightarrow> bool" where
  "jnum_eq j n \<longleftrightarrow> j = JInt n \<or> j = JFloat (Fin (of_int n))"

definition protocol_error :: "string \<Rightarrow> turn" where
  "protocol_error m = Reply (Some (call_error (JStr ''unknown'') ''ProtocolError'' m))"

definition settled :: "(py_error + bool) \<times> live_connection \<Rightarrow> gateway \<Rightarrow> turn \<times> live_connection \<times> gateway" where
  "settled r g = (case fst r of Inl e \<Rightarrow> Escaped (FramePy e) | Inr _ \<Rightarrow> Reply None, snd r, g)"

definition frame_turn ::
  "(string \<Rightarrow> datetime option) \<Rightarrow> string \<Rightarrow> frame_env \<Rightarrow> string \<Rightarrow> uuid \<Rightarrow> json \<Rightarrow> live_connection \<Rightarrow> gateway
    \<Rightarrow> turn \<times> live_connection \<times> gateway" where
  "frame_turn fromiso now_iso env c tenant frame l g =
     (case frame of
        JList (ty # uid # rest) \<Rightarrow>
          if jnum_eq ty 3 then settled (resolve_call uid (case rest of [] \<Rightarrow> JObj [] | r # _ \<Rightarrow> r) l) g
          else if jnum_eq ty 4 then
            settled (reject_call uid (case rest of [] \<Rightarrow> JStr ''GenericError'' | x # _ \<Rightarrow> x)
                       (case rest of _ # y # _ \<Rightarrow> y | _ \<Rightarrow> JStr []) l) g
          else if \<not> jnum_eq ty 2 \<or> rest = [] then (protocol_error ''expected an OCPP Call frame'', l, g)
          else (let (t, g') = call_turn fromiso now_iso env c tenant uid (hd rest)
                                (case tl rest of [] \<Rightarrow> JObj [] | p # _ \<Rightarrow> p) g
                in (t, l, g'))
      | _ \<Rightarrow> (protocol_error ''malformed OCPP-J frame'', l, g))"

text \<open>
  The endpoint around the loop: opening (\<open>Inr\<close> the negotiated protocol, or the close code
  and reason) and the \<open>finally\<close> block that runs however the loop ends.
\<close>

definition negotiate :: "string \<Rightarrow> string option" where
  "negotiate header =
     first_match (\<lambda>p. p \<in> {''ocpp1.6'', ''ocpp2.0.1''}) (map (strip_by is_space) (split_on (CHR '','') header))"

definition ws_open ::
  "(string \<Rightarrow> string \<Rightarrow> string) \<Rightarrow> pyfloat \<Rightarrow> nat \<Rightarrow> string \<Rightarrow> string option \<Rightarrow> string option \<Rightarrow> string option
    \<Rightarrow> connection_registry \<Rightarrow> gateway
    \<Rightarrow> (py_error + (int \<times> string) + string option) \<times> connection_registry \<times> gateway" where
  "ws_open kdf now k c tenant_raw credential header conns g =
     (let subprotocol = negotiate (case header of None \<Rightarrow> [] | Some h \<Rightarrow> h) in
      case tenant_raw of
        None \<Rightarrow> (Inr (Inl (4001, ''tenant_id query parameter required'')), conns, g)
      | Some raw \<Rightarrow>
        (case uuid_of_string raw of
           None \<Rightarrow> (Inr (Inl (4001, ''tenant_id must be a UUID'')), conns, g)
         | Some tenant \<Rightarrow>
           (case handle_handshake kdf now c tenant (case credential of None \<Rightarrow> [] | Some x \<Rightarrow> x) subprotocol g of
              (Inl e, g') \<Rightarrow> (Inl e, conns, g')
            | (Inr hs, g') \<Rightarrow>
              if \<not> hs_accepted hs
              then (Inr (Inl (4003, case hs_reason hs of Some (x # xs) \<Rightarrow> x # xs | _ \<Rightarrow> ''handshake rejected'')), conns, g')
              else (Inr (Inr subprotocol), register_connection c k conns, g'))))"

definition ws_close ::
  "nat \<Rightarrow> string \<Rightarrow> connection_registry \<Rightarrow> gateway \<Rightarrow> (py_error + unit) \<times> connection_registry \<times> gateway" where
  "ws_close k c conns g =
     (let (r, g') = handle_disconnect c g in (r, unregister_connection c k conns, g'))"

subsection \<open>What a frame changes\<close>

lemma add_reading_keeps [simp]:
  "gw_txns (add_reading ck x g) = gw_txns g" "gw_events (add_reading ck x g) = gw_events g"
  "gw_presence (add_reading ck x g) = gw_presence g"
  by (simp_all add: add_reading_def Let_def)

lemma meter_values_keep:
  "gw_txns (snd (handle_meter_values clk tenant tid c ts rs g)) = gw_txns g
   \<and> gw_events (snd (handle_meter_values clk tenant tid c ts rs g)) = gw_events g"
  by (induction rs arbitrary: g clk) (auto split: sum.splits)

lemma dispatch_meter_keeps:
  "gw_txns (snd (dispatch_meter env c tenant p g)) = gw_txns g
   \<and> gw_events (snd (dispatch_meter env c tenant p g)) = gw_events g"
  by (simp add: dispatch_meter_def frame_fail_def case_prod_beta Let_def meter_values_keep split: sum.split)

definition keeps_txns :: "gateway \<Rightarrow> gateway \<Rightarrow> bool" where
  "keeps_txns g g' \<longleftrightarrow> gw_txns g' = gw_txns g \<and> ev_stop (gw_events g') = ev_stop (gw_events g)"

lemma publish_event_keeps [simp]: "keeps_txns g (publish_event c tenant ty payload g)"
  by (simp add: keeps_txns_def publish_event_def publish_ocpp_event_def)

lemma keeps_txns_refl [simp]: "keeps_txns g g"
  by (simp add: keeps_txns_def)

lemma keeps_txns_trans: "keeps_txns g g' \<Longrightarrow> keeps_txns g' g'' \<Longrightarrow> keeps_txns g g''"
  by (simp add: keeps_txns_def)

lemma keeps_txns_updates [simp]:
  "keeps_txns g (g'\<lparr>gw_registry := r\<rparr>) = keeps_txns g g'" "keeps_txns g (g'\<lparr>gw_auth := a\<rparr>) = keeps_txns g g'"
  "keeps_txns g (g'\<lparr>gw_firmware := f\<rparr>) = keeps_txns g g'" "keeps_txns g (g'\<lparr>gw_presence := q\<rparr>) = keeps_txns g g'"
  by (simp_all add: keeps_txns_def)

lemma handle_firmware_keeps: "keeps_txns g (snd (handle_firmware_status_notification c tenant s g))"
  by (simp add: handle_firmware_status_notification_def Let_def case_prod_beta split: option.split)

lemma dispatch_boot_keeps: "keeps_txns g (snd (dispatch_boot env c tenant p g))"
  by (simp add: dispatch_boot_def frame_fail_def handle_boot_notification_def Let_def case_prod_beta split: sum.split)

lemma dispatch_status_keeps: "keeps_txns g (snd (dispatch_status c tenant p g))"
  by (simp add: dispatch_status_def frame_fail_def handle_status_notification_def publish_status_notification_def
      case_prod_beta keeps_txns_def split: sum.split)

lemma dispatch_authorize_keeps: "keeps_txns g (snd (dispatch_authorize p g))"
  by (simp add: dispatch_authorize_def frame_fail_def handle_authorize_def Let_def case_prod_beta split: sum.split)

lemma dispatch_firmware_keeps: "keeps_txns g (snd (dispatch_firmware c tenant p g))"
  by (simp add: dispatch_firmware_def frame_fail_def Let_def case_prod_beta handle_firmware_keeps split: sum.split)

lemma dispatch_events_keeps: "keeps_txns g (snd (dispatch_events c tenant action p g))"
  by (simp add: dispatch_events_def frame_fail_def dispatch_firmware_keeps handle_data_transfer_def
      handle_diagnostics_status_notification_def handle_security_event_notification_def
      handle_log_status_notification_def Let_def case_prod_beta split: sum.split)

text \<open>Only the transaction frames touch the repository or publish a stop.\<close>

lemma other_frames_keep:
  assumes "action \<noteq> ''StartTransaction''" "action \<noteq> ''StopTransaction''"
  shows "keeps_txns g (snd (handle_frame env c tenant action p g))"
proof -
  have "keeps_txns g (snd (dispatch_meter env c tenant p g))"
    using dispatch_meter_keeps[of env c tenant p g] by (simp add: keeps_txns_def)
  then show ?thesis
    using assms dispatch_boot_keeps dispatch_status_keeps dispatch_authorize_keeps dispatch_events_keeps
    unfolding handle_frame_def by (simp split: if_split)
qed

lemma dispatch_start_cases:
  obtains (fail) "snd (dispatch_start env c tenant p g) = g"
  | (run) n tag m t where "snd (dispatch_start env c tenant p g)
        = snd (handle_start_transaction (fe_id env) c tenant n tag m t g)"
proof -
  have "snd (dispatch_start env c tenant p g) = g \<or> (\<exists>n tag m t. snd (dispatch_start env c tenant p g)
        = snd (handle_start_transaction (fe_id env) c tenant n tag m t g))"
    unfolding dispatch_start_def frame_fail_def Let_def case_prod_beta
    by (split sum.split) auto
  with that show thesis by blast
qed

lemma dispatch_stop_cases:
  obtains (fail) "snd (dispatch_stop p g) = g"
  | (run) tid m t r where "snd (dispatch_stop p g) = snd (handle_stop_transaction tid m t r g)"
proof -
  have "snd (dispatch_stop p g) = g \<or> (\<exists>tid m t r. snd (dispatch_stop p g) = snd (handle_stop_transaction tid m t r g))"
    unfolding dispatch_stop_def frame_fail_def Let_def case_prod_beta by (split sum.split) auto
  with that show thesis by blast
qed

text \<open>A start that is not authorized leaves the repository alone and answers the zero id.\<close>

lemma start_unauthorized:
  assumes "fst (authorize tag (gw_auth g)) \<noteq> ACCEPTED"
  shows "handle_start_transaction new_id c tenant n tag m t g
     = ((0, auth_value (fst (authorize tag (gw_auth g)))), g\<lparr>gw_auth := snd (authorize tag (gw_auth g))\<rparr>)"
  using assms by (simp add: handle_start_transaction_def handle_authorize_def Let_def case_prod_beta)

lemma start_authorized:
  assumes "fst (authorize tag (gw_auth g)) = ACCEPTED"
  shows "handle_start_transaction new_id c tenant n tag m t g
     = ((new_id, ''Accepted''), g\<lparr>gw_auth := snd (authorize tag (gw_auth g)),
          gw_txns := snd (start_transaction new_id c tenant n tag m t (gw_txns g))\<rparr>)"
  using assms by (simp add: handle_start_transaction_def handle_authorize_def start_transaction_def Let_def case_prod_beta)

subsection \<open>Stops are published once\<close>

abbreviation stops_of :: "gateway \<Rightarrow> uuid \<Rightarrow> nat" where
  "stops_of g tid \<equiv> length (filter (\<lambda>e. snd (snd e) = tid) (ev_stop (gw_events g)))"

definition completed :: "gateway \<Rightarrow> uuid \<Rightarrow> bool" where
  "completed g tid \<longleftrightarrow> (\<exists>rec. dict_get (tr_records (gw_txns g)) tid = Some rec \<and> tx_status rec = ''completed'')"

definition stop_inv :: "gateway \<Rightarrow> bool" where
  "stop_inv g \<longleftrightarrow> txn_inv (gw_txns g) \<and> (\<forall>tid. stops_of g tid = (if completed g tid then 1 else 0))"

text \<open>A step of the gateway: one dispatched frame with a fresh id, or one connection event.\<close>

inductive gateway_step :: "gateway \<Rightarrow> gateway \<Rightarrow> bool" where
  frame: "dict_get (tr_records (gw_txns g)) (fe_id env) = None
    \<Longrightarrow> gateway_step g (snd (handle_frame env c tenant action p g))"
| inbound: "gateway_step g (handle_inbound_frame now c g)"
| handshake: "gateway_step g (snd (handle_handshake kdf now c tenant cred sub g))"
| disconnect: "gateway_step g (snd (handle_disconnect c g))"
| sweep: "gateway_step g (snd (check_and_expire_heartbeats now interval cs g))"

lemma stop_inv_cong:
  assumes "keeps_txns g g'" "stop_inv g"
  shows "stop_inv g'"
  using assms by (simp add: stop_inv_def completed_def keeps_txns_def)

lemma offline_and_publish_keeps: "keeps_txns g (snd (offline_and_publish c p g))"
  by (simp add: keeps_txns_def offline_and_publish_def publish_disconnected_def Let_def split: option.split)

lemma sweep_keeps: "keeps_txns g (snd (check_and_expire_heartbeats now i cs g))"
proof (induction cs arbitrary: g)
  case Nil
  show ?case by simp
next
  case (Cons c cs)
  show ?case
  proof (cases "presence_get (gw_presence g) c")
    case None
    then show ?thesis using Cons by simp
  next
    case (Some p)
    obtain r g' where o: "offline_and_publish c p g = (r, g')" by fastforce
    obtain q g'' where s: "check_and_expire_heartbeats now i cs g' = (q, g'')" by fastforce
    have k: "keeps_txns g g'" using offline_and_publish_keeps[of g c p] o by simp
    have k2: "keeps_txns g g''" using keeps_txns_trans[OF k] Cons[of g'] s by simp
    show ?thesis using Some Cons[of g] o s k k2 by (cases r; cases q) simp_all
  qed
qed

lemma stop_inv_start:
  assumes "stop_inv g" "dict_get (tr_records (gw_txns g)) new_id = None"
  shows "stop_inv (g\<lparr>gw_auth := a, gw_txns := snd (start_transaction new_id c tenant n tag m t (gw_txns g))\<rparr>)"
proof -
  let ?g = "g\<lparr>gw_auth := a, gw_txns := snd (start_transaction new_id c tenant n tag m t (gw_txns g))\<rparr>"
  have "completed ?g tid = completed g tid" for tid
    using assms(2) by (auto simp: completed_def start_transaction_def Let_def)
  moreover have "txn_inv (gw_txns ?g)" using assms by (simp add: stop_inv_def txn_inv_start)
  ultimately show ?thesis using assms(1) by (simp add: stop_inv_def)
qed

lemma stop_inv_stop:
  assumes "stop_inv g"
  shows "stop_inv (snd (handle_stop_transaction tid m t reason g))"
proof (cases "dict_get (tr_records (gw_txns g)) tid")
  case None
  then have "snd (handle_stop_transaction tid m t reason g) = g\<lparr>gw_meter := meter_flush (gw_meter g)\<rparr>"
    by (simp add: handle_stop_transaction_def stop_transaction_def Let_def)
  then show ?thesis using assms stop_inv_cong[of g] by (simp add: keeps_txns_def)
next
  case (Some rec)
  show ?thesis
  proof (cases "tx_status rec = ''completed''")
    case True
    then have "snd (handle_stop_transaction tid m t reason g) = g\<lparr>gw_meter := meter_flush (gw_meter g)\<rparr>"
      using Some by (simp add: handle_stop_transaction_def stop_completed Let_def)
    then show ?thesis using assms stop_inv_cong[of g] by (simp add: keeps_txns_def)
  next
    case False
    let ?r = "stop_transaction tid m t reason (gw_txns g)"
    let ?g = "snd (handle_stop_transaction tid m t reason g)"
    note st = stop_active[OF Some False, of m t reason]
    have e: "gw_txns ?g = snd ?r" "ev_stop (gw_events ?g) = ev_stop (gw_events g) @ [(tx_tenant rec, tx_charger rec, tid)]"
      using st(1) by (simp_all add: handle_stop_transaction_def Let_def publish_stop_transaction_def case_prod_beta)
    have "completed ?g u \<longleftrightarrow> u = tid \<or> completed g u" for u
      unfolding completed_def e(1) st(2) by simp
    moreover have "\<not> completed g tid" using Some False by (simp add: completed_def)
    moreover have "txn_inv (gw_txns ?g)" using assms by (simp add: e(1) stop_inv_def txn_inv_stop)
    ultimately show ?thesis using assms by (simp add: stop_inv_def e(2))
  qed
qed

lemma stop_inv_frame:
  assumes "stop_inv g" "dict_get (tr_records (gw_txns g)) (fe_id env) = None"
  shows "stop_inv (snd (handle_frame env c tenant action p g))"
proof -
  consider "action = ''StartTransaction''" | "action = ''StopTransaction''"
    | "action \<noteq> ''StartTransaction''" "action \<noteq> ''StopTransaction''" by blast
  then show ?thesis
  proof cases
    case 1
    then have e: "snd (handle_frame env c tenant action p g) = snd (dispatch_start env c tenant p g)"
      by (simp add: handle_frame_def)
    show ?thesis unfolding e
    proof (cases rule: dispatch_start_cases[of env c tenant p g])
      case fail
      then show "stop_inv (snd (dispatch_start env c tenant p g))" using assms(1) by simp
    next
      case (run n tag m t)
      show "stop_inv (snd (dispatch_start env c tenant p g))"
      proof (cases "fst (authorize tag (gw_auth g)) = ACCEPTED")
        case True
        then show ?thesis unfolding run start_authorized[OF True] snd_conv
          by (intro stop_inv_start assms)
      next
        case False
        then show ?thesis unfolding run start_unauthorized[OF False] snd_conv
          by (intro stop_inv_cong[OF _ assms(1)]) simp
      qed
    qed
  next
    case 2
    then have e: "snd (handle_frame env c tenant action p g) = snd (dispatch_stop p g)" by (simp add: handle_frame_def)
    show ?thesis unfolding e
      by (cases rule: dispatch_stop_cases[of p g]) (use assms(1) stop_inv_stop in simp_all)
  next
    case 3
    then show ?thesis using stop_inv_cong[OF other_frames_keep assms(1)] by blast
  qed
qed

lemma handshake_keeps: "keeps_txns g (snd (handle_handshake kdf now c tenant cred sub g))"
  by (simp add: handle_handshake_def split: option.split sum.split)

lemma stop_inv_step:
  assumes "gateway_step g g'" "stop_inv g"
  shows "stop_inv g'"
  using assms
proof (induction rule: gateway_step.induct)
  case (frame g env c tenant action p)
  then show ?case by (intro stop_inv_frame)
next
  case (inbound g now c)
  then show ?case by (intro stop_inv_cong[OF _ inbound]) (simp add: handle_inbound_frame_def)
next
  case (handshake g kdf now c tenant cred sub)
  then show ?case by (rule stop_inv_cong[OF handshake_keeps])
next
  case (disconnect g c)
  have "keeps_txns g (snd (handle_disconnect c g))"
    by (simp add: handle_disconnect_def offline_and_publish_keeps split: option.split)
  then show ?case using disconnect by (rule stop_inv_cong)
next
  case (sweep g now interval cs)
  then show ?case by (rule stop_inv_cong[OF sweep_keeps])
qed

subsection \<open>The heartbeat sweep\<close>

text \<open>A presence entry a sweep would expire; \<open>mark_online\<close> always stores a well-formed tenant.\<close>

definition stale :: "pyfloat \<Rightarrow> int \<Rightarrow> gateway \<Rightarrow> string \<Rightarrow> bool" where
  "stale now i g c \<longleftrightarrow> (\<exists>p. presence_get (gw_presence g) c = Some p \<and> ps_status p = ''online''
     \<and> flt (Fin (of_int (i * 2))) (fsub now (ps_last_seen p)))"

definition tenants_ok :: "gateway \<Rightarrow> bool" where
  "tenants_ok g \<longleftrightarrow> (\<forall>c p. presence_get (gw_presence g) c = Some p \<longrightarrow> uuid_of_string (ps_tenant p) \<noteq> None)"

lemma presence_get_mark_offline:
  "presence_get (mark_offline d r) c = (if c = d then map_option (\<lambda>q. q\<lparr>ps_status := ''offline''\<rparr>) (presence_get r c) else presence_get r c)"
  using memory_presence.get_off[of d r c] by simp

lemma offline_and_publish_ok:
  assumes "tenants_ok g" "presence_get (gw_presence g) c = Some p"
  obtains g' where "offline_and_publish c p g = (Inr (), g')" "gw_presence g' = mark_offline c (gw_presence g)" "tenants_ok g'"
    "map snd (ev_disconnected (gw_events g')) = map snd (ev_disconnected (gw_events g)) @ [c]"
proof -
  obtain t where t: "uuid_of_string (ps_tenant p) = Some t" using assms by (auto simp: tenants_ok_def)
  let ?g1 = "g\<lparr>gw_presence := mark_offline c (gw_presence g)\<rparr>"
  let ?g = "?g1\<lparr>gw_events := publish_disconnected t c (gw_events ?g1)\<rparr>"
  have "tenants_ok ?g" using assms(1) by (auto simp: tenants_ok_def presence_get_mark_offline split: if_splits)
  then show thesis
    using that[of ?g] t by (simp add: offline_and_publish_def publish_disconnected_def)
qed

lemma stale_after_offline:
  assumes "gw_presence g' = mark_offline c (gw_presence g)"
  shows "stale now i g' d \<longleftrightarrow> d \<noteq> c \<and> stale now i g d"
  using assms by (auto simp: stale_def presence_get_mark_offline)

lemma sweep_exact:
  assumes "distinct cs" "tenants_ok g"
  shows "\<exists>g'. check_and_expire_heartbeats now i cs g = (Inr (filter (stale now i g) cs), g') \<and> tenants_ok g'
     \<and> (\<forall>c. stale now i g' c \<longleftrightarrow> stale now i g c \<and> c \<notin> set cs)
     \<and> map snd (ev_disconnected (gw_events g')) = map snd (ev_disconnected (gw_events g)) @ filter (stale now i g) cs"
  using assms
proof (induction cs arbitrary: g)
  case Nil
  then show ?case by simp
next
  case (Cons c cs)
  show ?case
  proof (cases "stale now i g c")
    case True
    then obtain p where p: "presence_get (gw_presence g) c = Some p" "ps_status p = ''online''"
      "flt (Fin (of_int (i * 2))) (fsub now (ps_last_seen p))" by (auto simp: stale_def)
    obtain g1 where g1: "offline_and_publish c p g = (Inr (), g1)" "gw_presence g1 = mark_offline c (gw_presence g)"
      "tenants_ok g1" "map snd (ev_disconnected (gw_events g1)) = map snd (ev_disconnected (gw_events g)) @ [c]"
      by (rule offline_and_publish_ok[OF Cons.prems(2) p(1)])
    note st = stale_after_offline[OF g1(2), of now i]
    have f: "filter (stale now i g1) cs = filter (stale now i g) cs"
      using Cons.prems(1) by (intro filter_cong) (auto simp: st)
    obtain g' where g': "check_and_expire_heartbeats now i cs g1 = (Inr (filter (stale now i g) cs), g')" "tenants_ok g'"
      "\<forall>d. stale now i g' d \<longleftrightarrow> stale now i g1 d \<and> d \<notin> set cs"
      "map snd (ev_disconnected (gw_events g')) = map snd (ev_disconnected (gw_events g)) @ c # filter (stale now i g) cs"
      using Cons.IH[OF _ g1(3)] Cons.prems(1) unfolding f g1(4) by auto
    have "check_and_expire_heartbeats now i (c # cs) g = (Inr (c # filter (stale now i g) cs), g')"
      using p g1(1) g'(1) by simp
    then show ?thesis using g'(2-4) True by (auto simp: st)
  next
    case False
    then have "check_and_expire_heartbeats now i (c # cs) g = check_and_expire_heartbeats now i cs g"
      by (auto simp: stale_def split: option.split)
    then show ?thesis using Cons.IH[OF _ Cons.prems(2)] Cons.prems(1) False by auto
  qed
qed

subsection \<open>Properties\<close>

text \<open>
  C27: In every state the gateway reaches, by whatever frames, handshakes, disconnects and
  sweeps, a transaction's stop has been published exactly once if it is completed and not at
  all otherwise, however often the charger repeats its StopTransaction; and every active
  transaction is filed under its own charger with an active record.
\<close>

theorem stop_published_exactly_once:
  assumes "gateway_step\<^sup>*\<^sup>* g g'" "stop_inv g"
  shows "stops_of g' tid = (if completed g' tid then 1 else 0) \<and> txn_inv (gw_txns g')"
proof -
  have "stop_inv g'" using assms by (induction rule: rtranclp_induct) (simp_all add: stop_inv_step)
  then show ?thesis by (simp add: stop_inv_def)
qed

definition sample_gateway :: gateway where
  "sample_gateway = \<lparr>gw_presence = [], gw_credentials = [], gw_txns = \<lparr>tr_active = [], tr_records = []\<rparr>, gw_registry = [],
     gw_events = \<lparr>ev_disconnected = [], ev_status = [], ev_stop = [], ev_ocpp = []\<rparr>, gw_connectors = [],
     gw_auth = \<lparr>az_local = [(''TAG'', ACCEPTED)], az_roaming = [], az_checked = []\<rparr>,
     gw_meter = \<lparr>mb_batches = [], mb_max = 50, mb_interval = Fin 2, mb_buffer = [], mb_opened = None\<rparr>,
     gw_firmware = None, gw_latest = None, gw_node = ''n1'', gw_interval = 300\<rparr>"

definition sample_env :: "uuid \<Rightarrow> frame_env" where
  "sample_env i = \<lparr>fe_id = i, fe_now = Fin 0, fe_clk = (\<lambda>_. (Fin 0, Fin 0))\<rparr>"

definition sample_stop :: fpayload where
  "sample_stop = [(''transaction_id'', FJ (JStr (str_uuid 5))), (''meter_stop'', FJ (JInt 900)), (''stop_timestamp'', FTime 7)]"

definition sample_started :: gateway where
  "sample_started = snd (handle_start_transaction 5 ''CP'' 1 1 ''TAG'' 100 3 sample_gateway)"

lemma sample_started_simps:
  "fst (authorize ''TAG'' (gw_auth sample_gateway)) = ACCEPTED"
  "tr_records (gw_txns sample_started) = [(5, \<lparr>tx_status = ''active'', tx_tenant = Some 1, tx_charger = ''CP'',
     tx_meter_start = Some 100, tx_start = Some 3, tx_meter_stop = None, tx_stop = None, tx_reason = None\<rparr>)]"
proof -
  show a: "fst (authorize ''TAG'' (gw_auth sample_gateway)) = ACCEPTED"
    by (simp add: authorize_def local_lookup_def sample_gateway_def)
  show "tr_records (gw_txns sample_started) = [(5, \<lparr>tx_status = ''active'', tx_tenant = Some 1, tx_charger = ''CP'',
     tx_meter_start = Some 100, tx_start = Some 3, tx_meter_stop = None, tx_stop = None, tx_reason = None\<rparr>)]"
    unfolding sample_started_def start_authorized[OF a] by (simp add: start_transaction_def Let_def) (simp add: sample_gateway_def)
qed

lemma sample_started_inv: "stop_inv sample_started"
  unfolding sample_started_def start_authorized[OF sample_started_simps(1)] snd_conv
  by (rule stop_inv_start) (simp_all add: stop_inv_def txn_inv_def completed_def sample_gateway_def)

theorem stop_published_exactly_once_witness:
  "stops_of (snd (handle_frame (sample_env 9) ''CP'' 1 ''StopTransaction'' sample_stop
      (snd (handle_frame (sample_env 8) ''CP'' 1 ''StopTransaction'' sample_stop sample_started)))) 5 \<le> 1"
proof -
  let ?g1 = "snd (handle_frame (sample_env 8) ''CP'' 1 ''StopTransaction'' sample_stop sample_started)"
  have s: "snd (handle_frame e c t ''StopTransaction'' sample_stop g) = snd (handle_stop_transaction 5 900 7 None g)" for e c t g
    by (simp add: handle_frame_def dispatch_stop_def sample_stop_def fitem_uuid_def fitem_def fitem_int_def fitem_time_def
        fget_str_def case_prod_beta Let_def)
  have r: "dict_get (tr_records (gw_txns ?g1)) 9 = None"
    using sample_started_simps(2)
    by (simp add: s handle_stop_transaction_def stop_transaction_def Let_def case_prod_beta split: option.split)
  have "gateway_step sample_started ?g1"
    by (rule gateway_step.frame) (simp add: sample_started_simps(2) sample_env_def)
  moreover have "gateway_step ?g1 (snd (handle_frame (sample_env 9) ''CP'' 1 ''StopTransaction'' sample_stop ?g1))"
    using r by (intro gateway_step.frame) (simp add: sample_env_def[of 9])
  ultimately have "gateway_step\<^sup>*\<^sup>* sample_started (snd (handle_frame (sample_env 9) ''CP'' 1 ''StopTransaction'' sample_stop ?g1))"
    by (meson converse_rtranclp_into_rtranclp r_into_rtranclp)
  from stop_published_exactly_once[OF this sample_started_inv, of 5] show ?thesis by (auto split: if_splits)
qed

text \<open>
  A heartbeat sweep over distinct chargers returns exactly those that are online and
  silent for more than twice the interval, publishes one disconnect for each in order, and
  leaves none of them stale, so a second sweep at the same time finds nothing.
\<close>

theorem sweep_expires_exactly_stale:
  assumes "distinct cs" "tenants_ok g"
  shows "\<exists>g'. check_and_expire_heartbeats now i cs g = (Inr (filter (stale now i g) cs), g')
     \<and> map snd (ev_disconnected (gw_events g')) = map snd (ev_disconnected (gw_events g)) @ filter (stale now i g) cs
     \<and> fst (check_and_expire_heartbeats now i cs g') = Inr []"
proof -
  obtain g' where g': "check_and_expire_heartbeats now i cs g = (Inr (filter (stale now i g) cs), g')" "tenants_ok g'"
    "\<forall>c. stale now i g' c \<longleftrightarrow> stale now i g c \<and> c \<notin> set cs"
    "map snd (ev_disconnected (gw_events g')) = map snd (ev_disconnected (gw_events g)) @ filter (stale now i g) cs"
    using sweep_exact[OF assms, of now i] by blast
  have "filter (stale now i g') cs = []" using g'(3) by (simp add: filter_empty_conv)
  then have "fst (check_and_expire_heartbeats now i cs g') = Inr []"
    using sweep_exact[OF assms(1) g'(2), of now i] by auto
  with g' show ?thesis by blast
qed

theorem sweep_expires_exactly_stale_witness:
  "\<exists>g'. check_and_expire_heartbeats (Fin 2000) 300 [''CP''] (sample_gateway\<lparr>gw_presence := mark_online (Fin 0) ''CP'' 1 ''n1'' ''ocpp1.6'' []\<rparr>)
     = (Inr [''CP''], g')"
proof -
  let ?g = "sample_gateway\<lparr>gw_presence := mark_online (Fin 0) ''CP'' 1 ''n1'' ''ocpp1.6'' []\<rparr>"
  have "tenants_ok ?g" by (simp add: tenants_ok_def presence_get_def mark_online_def)
  moreover have "fsub (Fin 2000) (Fin 0) = Fin 2000" using fl64_of_int[of 2000] by (simp add: fsub_def)
  then have "stale (Fin 2000) 300 ?g ''CP''" by (simp add: stale_def presence_get_def mark_online_def)
  ultimately show ?thesis using sweep_expires_exactly_stale[of "[''CP'']" ?g "Fin 2000" 300] by auto
qed

text \<open>
  A transaction is opened only for an authorized tag: any other StartTransaction frame,
  malformed or refused, leaves the repository as it was.
\<close>

theorem start_requires_authorization:
  assumes "gw_txns (snd (handle_frame env c tenant ''StartTransaction'' p g)) \<noteq> gw_txns g"
  shows "\<exists>tag n m t. fst (authorize tag (gw_auth g)) = ACCEPTED
     \<and> snd (handle_frame env c tenant ''StartTransaction'' p g)
       = snd (handle_start_transaction (fe_id env) c tenant n tag m t g)"
proof -
  have e: "snd (handle_frame env c tenant ''StartTransaction'' p g) = snd (dispatch_start env c tenant p g)"
    by (simp add: handle_frame_def)
  show ?thesis
  proof (cases rule: dispatch_start_cases[of env c tenant p g])
    case fail
    then show ?thesis using assms e by simp
  next
    case (run n tag m t)
    have "fst (authorize tag (gw_auth g)) = ACCEPTED"
      using assms unfolding e run by (rule contrapos_np) (simp add: start_unauthorized)
    then show ?thesis using e run by auto
  qed
qed

theorem start_requires_authorization_witness:
  "\<exists>tag. fst (authorize tag (gw_auth sample_gateway)) = ACCEPTED"
proof -
  let ?p = "[(''connector_id'', FJ (JInt 1)), (''id_tag'', FJ (JStr ''TAG'')), (''meter_start'', FJ (JInt 100)), (''start_timestamp'', FTime 3)]"
  have "snd (handle_frame (sample_env 5) ''CP'' 1 ''StartTransaction'' ?p sample_gateway) = sample_started"
    by (simp add: handle_frame_def dispatch_start_def fitem_def fitem_int_def fitem_time_def fitem_str_def
        case_prod_beta Let_def sample_started_def sample_env_def)
  moreover have "gw_txns sample_started \<noteq> gw_txns sample_gateway"
    using sample_started_simps(2) by (auto simp: sample_gateway_def)
  ultimately have "gw_txns (snd (handle_frame (sample_env 5) ''CP'' 1 ''StartTransaction'' ?p sample_gateway)) \<noteq> gw_txns sample_gateway"
    by simp
  from start_requires_authorization[OF this] show ?thesis by blast
qed

text \<open>
  A StopTransaction for an id the repository does not know (the zero id answered to a
  refused start is one) is answered by no CallError: the exception escapes the receive loop
  and the connection is closed.
\<close>

theorem unknown_stop_drops_connection:
  assumes "prepare_payload fromiso ''StopTransaction'' payload = Inr p"
    and "rbind (fitem_uuid p ''transaction_id'') (\<lambda>tid. rbind (fitem_int p ''meter_stop'') (\<lambda>m.
             rbind (fitem_time p ''stop_timestamp'') (\<lambda>t. rbind (fget_str p ''reason'') (\<lambda>r. Inr (tid, m, t, r))))) = Inr (tid, m, t, r)"
    and "dict_get (tr_records (gw_txns g)) tid = None"
  shows "fst (frame_turn fromiso now_iso env c tenant (JList [JInt 2, uid, JStr ''StopTransaction'', payload]) l g)
     = Escaped (FrameUnknownTransaction (''unknown transaction_id: '' @ str_uuid tid))"
proof -
  let ?g = "handle_inbound_frame (fe_now env) c g"
  have "gw_txns ?g = gw_txns g" by (simp add: handle_inbound_frame_def)
  then have "fst (handle_stop_transaction tid m t r ?g) = Inl (FrameUnknownTransaction (''unknown transaction_id: '' @ str_uuid tid))"
    using assms(3) by (simp add: handle_stop_transaction_def stop_transaction_def Let_def)
  then have "fst (handle_frame env c tenant ''StopTransaction'' p ?g) = Inl (FrameUnknownTransaction (''unknown transaction_id: '' @ str_uuid tid))"
    using assms(2) by (simp add: handle_frame_def dispatch_stop_def case_prod_beta Let_def)
  then show ?thesis
    using assms(1) by (simp add: frame_turn_def jnum_eq_def call_turn_def Let_def case_prod_beta error_reply_def)
qed

theorem unknown_stop_drops_connection_witness:
  "fst (frame_turn (\<lambda>_. Some 7) ''now'' (sample_env 8) ''CP'' 1 (JList [JInt 2, JStr ''u'', JStr ''StopTransaction'',
      JObj [(''transaction_id'', JStr (str_uuid 0)), (''meter_stop'', JInt 900), (''stop_timestamp'', JStr ''x'')]])
      \<lparr>lc_socket = 0, lc_pending = [], lc_sent = []\<rparr> sample_gateway)
   = Escaped (FrameUnknownTransaction (''unknown transaction_id: '' @ str_uuid 0))"
proof (rule unknown_stop_drops_connection[where m = 900 and t = 7 and r = None and p = "[(''transaction_id'', FJ (JStr (str_uuid 0))),
    (''meter_stop'', FJ (JInt 900)), (''stop_timestamp'', FTime 7)]"])
  show "prepare_payload (\<lambda>_. Some 7) ''StopTransaction'' (JObj [(''transaction_id'', JStr (str_uuid 0)), (''meter_stop'', JInt 900), (''stop_timestamp'', JStr ''x'')])
    = Inr [(''transaction_id'', FJ (JStr (str_uuid 0))), (''meter_stop'', FJ (JInt 900)), (''stop_timestamp'', FTime 7)]"
    by (simp add: prepare_payload_def dict_of_json_def convert_time_def)
qed (simp_all add: fitem_uuid_def fitem_def fitem_int_def fitem_time_def fget_str_def sample_gateway_def)

text \<open>
  A server-initiated call gets back what its charger answered: the CallResult carrying
  the call's unique id, arriving while the call is pending, is the call's result; other
  pending calls keep their state, and a second answer to the same id changes nothing.
\<close>

theorem call_result_routed:
  assumes "l1 = send_call_begin i action payload l"
    and "frame_turn fromiso now_iso env c tenant (JList [JInt 3, JStr (str_uuid i), result]) l1 g = (t, l2, g')"
  shows "fst (send_call_end i action l2) = Inr result \<and> g' = g
    \<and> (\<forall>u. u \<noteq> str_uuid i \<longrightarrow> dict_get (lc_pending (snd (send_call_end i action l2))) u = dict_get (lc_pending l) u)
    \<and> dict_get (lc_pending (snd (send_call_end i action l2))) (str_uuid i) = None
    \<and> resolve_call (JStr (str_uuid i)) other l2 = (Inr False, l2)"
  using assms
  by (auto simp: frame_turn_def jnum_eq_def settled_def resolve_call_def settle_def send_call_begin_def send_call_end_def)

theorem call_result_routed_witness:
  "fst (send_call_end 4 ''Reset'' (fst (snd (frame_turn (\<lambda>_. None) ''now'' (sample_env 8) ''CP'' 1
      (JList [JInt 3, JStr (str_uuid 4), JObj []])
      (send_call_begin 4 ''Reset'' (JObj []) \<lparr>lc_socket = 0, lc_pending = [], lc_sent = []\<rparr>) sample_gateway)))) = Inr (JObj [])"
  using call_result_routed[OF refl, of "\<lambda>_. None" "''now''" "sample_env 8" "''CP''" 1 4 "JObj []" "''Reset''" "JObj []"
      "\<lparr>lc_socket = 0, lc_pending = [], lc_sent = []\<rparr>" sample_gateway]
  by (metis prod.collapse)

text \<open>
  A socket that closes after its charger has already reconnected takes the live
  connection's presence down: the registry keeps the new socket, but the charger is marked
  offline and its disconnect is published.
\<close>

theorem stale_close_marks_live_charger_offline:
  assumes "handle_handshake kdf now c tenant cred sub g = (Inr hs, g1)" "hs_accepted hs" "old \<noteq> new"
    and "ws_close old c (register_connection c new conns) g1 = (r, conns', g2)"
  shows "get_connection conns' c = Some new
    \<and> (\<exists>p. presence_get (gw_presence g2) c = Some p \<and> ps_status p = ''offline'')
    \<and> ev_disconnected (gw_events g2) = ev_disconnected (gw_events g1) @ [(tenant, c)]"
proof -
  obtain proto where g1: "g1 = g\<lparr>gw_presence := mark_online now c tenant (gw_node g) proto (gw_presence g)\<rparr>"
    using assms(1,2) by (auto simp: handle_handshake_def split: option.splits sum.splits if_splits)
  then obtain p where p: "presence_get (gw_presence g1) c = Some p" "ps_status p = ''online''" "ps_tenant p = str_uuid tenant"
    by (simp add: mark_online_def presence_get_def)
  have "handle_disconnect c g1 = offline_and_publish c p g1" using p by (simp add: handle_disconnect_def)
  then have g2: "g2 = snd (offline_and_publish c p g1)" and conns: "conns' = unregister_connection c old (register_connection c new conns)"
    using assms(4) by (auto simp: ws_close_def case_prod_beta Let_def)
  show ?thesis
    using p conns assms(3) unfolding g2
    by (simp add: offline_and_publish_def Let_def publish_disconnected_def presence_get_mark_offline
        unregister_connection_def register_connection_def get_connection_def)
qed

definition sample_kdf :: "string \<Rightarrow> string \<Rightarrow> string" where
  "sample_kdf secret salt = secret @ salt"

definition sample_secured :: gateway where
  "sample_secured = sample_gateway\<lparr>gw_credentials := set_credential sample_kdf ''s'' ''CP'' ''pw'' []\<rparr>"

lemma sample_handshake:
  "handle_handshake sample_kdf (Fin 1) ''CP'' 1 ''pw'' (Some ''ocpp1.6'') sample_secured
     = (Inr \<lparr>hs_accepted = True, hs_protocol = Some ''ocpp1.6'', hs_reason = None\<rparr>,
        sample_secured\<lparr>gw_presence := mark_online (Fin 1) ''CP'' 1 ''n1'' ''ocpp1.6'' []\<rparr>)"
proof -
  have "credential_verify sample_kdf (gw_credentials sample_secured) ''CP'' ''pw'' = Inr True"
    by (simp add: sample_secured_def credential_verify_def set_credential_def verify_credential_def split_hash
        hex_is_ascii set_bytes_hex)
  then show ?thesis
    by (simp add: handle_handshake_def resolve_handler_codepath_def) (simp add: sample_secured_def sample_gateway_def)
qed

theorem stale_close_marks_live_charger_offline_witness:
  "get_connection (fst (snd (ws_close 1 ''CP'' (register_connection ''CP'' 2 [])
      (sample_secured\<lparr>gw_presence := mark_online (Fin 1) ''CP'' 1 ''n1'' ''ocpp1.6'' []\<rparr>)))) ''CP'' = Some 2"
  using stale_close_marks_live_charger_offline[OF sample_handshake, of 1 2 "[]"]
    handshake_result.select_convs(1) prod.collapse by (metis n_not_Suc_n numeral_2_eq_2 One_nat_def)

end
