(* ===== verification/Ocpp_Commands.thy ===== *)
theory Ocpp_Commands
  imports Ocpp_Gateway
begin

text \<open>
  The event bus and the outbound commands (\<open>ocpp_gateway/event_bus.py\<close>,
  \<open>bus_event_publisher.py\<close>, \<open>commands.py\<close>, \<open>command_router.py\<close>,
  \<open>nats_command_transport.py\<close>): fan-out with per-consumer isolation and
  de-duplication, the command log and service, its routes, and the two halves of the NATS
  transport. NATS itself and the consumers' handlers are parameters.
\<close>

subsection \<open>The event bus\<close>

definition event_subject :: "uuid \<Rightarrow> string \<Rightarrow> string \<Rightarrow> string" where
  "event_subject t c ty = ''ocpp.'' @ str_uuid t @ ''.'' @ c @ ''.'' @ ty"

record event =
  e_id :: uuid
  e_subject :: string
  e_payload :: "(string \<times> json) list"

text \<open>
  A consumer with the state its handler works on; the handler says whether it succeeded
  (\<open>False\<close>: it raised). The seen-store and the alert sink are shared by the consumers.
\<close>

type_synonym 's event_handler = "event \<Rightarrow> 's \<Rightarrow> bool \<times> 's"

record 's consumer =
  c_name :: string
  c_handler :: "'s event_handler"
  c_state :: 's
  c_threshold :: int
  c_failures :: int
  c_handled :: "uuid list"

record 's event_bus =
  eb_consumers :: "(string, 's consumer) pydict"
  eb_published :: "event list"
  eb_seen :: "(string \<times> uuid) set"
  eb_alerts :: "(string \<times> int) list"

definition has_processed :: "'s event_bus \<Rightarrow> string \<Rightarrow> uuid \<Rightarrow> bool" where
  "has_processed b n i \<longleftrightarrow> (n, i) \<in> eb_seen b"

definition mark_processed :: "string \<Rightarrow> uuid \<Rightarrow> 's event_bus \<Rightarrow> 's event_bus" where
  "mark_processed n i b = b\<lparr>eb_seen := insert (n, i) (eb_seen b)\<rparr>"

definition alert_consumer_lag :: "string \<Rightarrow> int \<Rightarrow> 's event_bus \<Rightarrow> 's event_bus" where
  "alert_consumer_lag n lag b = b\<lparr>eb_alerts := eb_alerts b @ [(n, lag)]\<rparr>"

text \<open>\<open>EventConsumer.deliver\<close> on the consumer registered under \<open>key\<close>.\<close>

definition deliver :: "event \<Rightarrow> string \<Rightarrow> 's consumer \<Rightarrow> 's event_bus \<Rightarrow> 's event_bus" where
  "deliver e key k b =
     (if has_processed b (c_name k) (e_id e) then b
      else
        let (ok, st) = c_handler k e (c_state k) in
        if \<not> ok then
          let k1 = k\<lparr>c_state := st, c_failures := c_failures k + 1\<rparr>;
              b1 = b\<lparr>eb_consumers := dict_set key k1 (eb_consumers b)\<rparr>
          in if c_failures k1 \<ge> c_threshold k1 then alert_consumer_lag (c_name k) (c_failures k1) b1 else b1
        else
          let k1 = k\<lparr>c_state := st, c_handled := c_handled k @ [e_id e], c_failures := 0\<rparr>
          in mark_processed (c_name k) (e_id e) (b\<lparr>eb_consumers := dict_set key k1 (eb_consumers b)\<rparr>))"

definition register_consumer :: "'s consumer \<Rightarrow> 's event_bus \<Rightarrow> 's event_bus" where
  "register_consumer k b = b\<lparr>eb_consumers := dict_set (c_name k) k (eb_consumers b)\<rparr>"

text \<open>The loop over \<open>self._consumers.values()\<close>: the consumers by key, in registration order.\<close>

fun deliver_all :: "event \<Rightarrow> string list \<Rightarrow> 's event_bus \<Rightarrow> 's event_bus" where
  "deliver_all e [] b = b"
| "deliver_all e (n # ns) b =
     deliver_all e ns (case dict_get (eb_consumers b) n of None \<Rightarrow> b | Some k \<Rightarrow> deliver e n k b)"

definition bus_publish ::
  "uuid \<Rightarrow> string \<Rightarrow> (string \<times> json) list \<Rightarrow> uuid option \<Rightarrow> 's event_bus \<Rightarrow> event \<times> 's event_bus" where
  "bus_publish new_id subject payload event_id b =
     (let e = \<lparr>e_id = (case event_id of None \<Rightarrow> new_id | Some i \<Rightarrow> i), e_subject = subject, e_payload = payload\<rparr>;
          b1 = b\<lparr>eb_published := eb_published b @ [e]\<rparr>
      in (e, deliver_all e (dict_keys (eb_consumers b1)) b1))"

definition redeliver :: "event \<Rightarrow> string option \<Rightarrow> 's event_bus \<Rightarrow> (py_error + unit) \<times> 's event_bus" where
  "redeliver e name b =
     (case name of
        Some (x # xs) \<Rightarrow> (case dict_get (eb_consumers b) (x # xs) of
            None \<Rightarrow> (Inl (KeyError (x # xs)), b) | Some k \<Rightarrow> (Inr (), deliver e (x # xs) k b))
      | _ \<Rightarrow> (Inr (), deliver_all e (dict_keys (eb_consumers b)) b))"

text \<open>\<open>NatsEventBus\<close>: before \<open>connect\<close> it refuses; then it hands over subject, body and message id.\<close>

definition nats_publish ::
  "uuid \<Rightarrow> string \<Rightarrow> (string \<times> json) list \<Rightarrow> uuid option \<Rightarrow> (string \<times> json \<times> string) list option
    \<Rightarrow> (py_error + event) \<times> (string \<times> json \<times> string) list option" where
  "nats_publish new_id subject payload event_id js =
     (case js of
        None \<Rightarrow> (Inl (RuntimeError ''NatsEventBus.connect() must be called before publish()''), js)
      | Some sent \<Rightarrow>
        let e = \<lparr>e_id = (case event_id of None \<Rightarrow> new_id | Some i \<Rightarrow> i), e_subject = subject, e_payload = payload\<rparr>
        in (Inr e, Some (sent @ [(subject, JObj payload, str_uuid (e_id e))])))"

subsection \<open>The bus-backed publisher\<close>

definition bus_publish_disconnected :: "uuid \<Rightarrow> uuid \<Rightarrow> string \<Rightarrow> 's event_bus \<Rightarrow> 's event_bus" where
  "bus_publish_disconnected new_id t c b =
     snd (bus_publish new_id (event_subject t c ''disconnected'') [(''charger_id'', JStr c)] None b)"

definition bus_publish_status_notification ::
  "uuid \<Rightarrow> uuid \<Rightarrow> string \<Rightarrow> int \<Rightarrow> string \<Rightarrow> string option \<Rightarrow> 's event_bus \<Rightarrow> 's event_bus" where
  "bus_publish_status_notification new_id t c n status err b =
     snd (bus_publish new_id (event_subject t c ''status_notification'')
       [(''charger_id'', JStr c), (''connector_id'', JInt n), (''status'', JStr status), (''error_code'', jopt_str err)] None b)"

definition bus_publish_stop_transaction :: "uuid \<Rightarrow> uuid \<Rightarrow> string \<Rightarrow> uuid \<Rightarrow> 's event_bus \<Rightarrow> 's event_bus" where
  "bus_publish_stop_transaction new_id t c tid b =
     snd (bus_publish new_id (event_subject t c ''stop_transaction'')
       [(''charger_id'', JStr c), (''transaction_id'', JStr (str_uuid tid))] None b)"

text \<open>\<open>{"charger_id": charger_id, **payload}\<close>: a \<open>charger_id\<close> in the payload overrides.\<close>

definition bus_publish_ocpp_event ::
  "uuid \<Rightarrow> uuid \<Rightarrow> string \<Rightarrow> string \<Rightarrow> (string \<times> json) list \<Rightarrow> 's event_bus \<Rightarrow> 's event_bus" where
  "bus_publish_ocpp_event new_id t c ty payload b =
     snd (bus_publish new_id (event_subject t c ty)
       (fold (\<lambda>(k, v). dict_set k v) payload [(''charger_id'', JStr c)]) None b)"

subsection \<open>The command log\<close>

datatype command_status = PENDING | CMD_ACCEPTED | CMD_REJECTED | TIMED_OUT

fun command_status_value :: "command_status \<Rightarrow> string" where
  "command_status_value PENDING = ''pending''"
| "command_status_value CMD_ACCEPTED = ''accepted''"
| "command_status_value CMD_REJECTED = ''rejected''"
| "command_status_value TIMED_OUT = ''timed_out''"

record command_record =
  cr_id :: uuid
  cr_charger :: string
  cr_tenant :: uuid
  cr_type :: string
  cr_status :: command_status
  cr_requested :: datetime
  cr_responded :: "datetime option"
  cr_result :: json

type_synonym command_log = "(uuid, command_record) pydict"

definition log_create :: "uuid \<Rightarrow> string \<Rightarrow> uuid \<Rightarrow> string \<Rightarrow> datetime \<Rightarrow> command_log \<Rightarrow> command_log" where
  "log_create i c t ty now l =
     dict_set i \<lparr>cr_id = i, cr_charger = c, cr_tenant = t, cr_type = ty, cr_status = PENDING, cr_requested = now,
        cr_responded = None, cr_result = JNull\<rparr> l"

definition mark_responded ::
  "datetime \<Rightarrow> uuid \<Rightarrow> command_status \<Rightarrow> json \<Rightarrow> command_log \<Rightarrow> (py_error + unit) \<times> command_log" where
  "mark_responded now i status result l =
     (case dict_get l i of
        None \<Rightarrow> (Inl (KeyError (str_uuid i)), l)
      | Some r \<Rightarrow> (Inr (), dict_set i (r\<lparr>cr_status := status, cr_responded := Some now, cr_result := result\<rparr>) l))"

definition log_get :: "command_log \<Rightarrow> uuid \<Rightarrow> command_record option" where
  "log_get l i = dict_get l i"

text \<open>\<open>xs[:n]\<close>, where a negative \<open>n\<close> counts from the end.\<close>

definition py_prefix :: "int \<Rightarrow> 'a list \<Rightarrow> 'a list" where
  "py_prefix n xs = (if 0 \<le> n then take (nat n) xs else take (nat (int (length xs) + n)) xs)"

definition list_recent :: "command_log \<Rightarrow> string \<Rightarrow> int \<Rightarrow> command_record list" where
  "list_recent l c limit = py_prefix limit (rev (filter (\<lambda>r. cr_charger r = c) (dict_values l)))"

subsection \<open>The command service\<close>

record command_outcome =
  co_status :: command_status
  co_result :: json

text \<open>\<open>CommandTransport.send\<close>: node, charger, command id, type, payload, timeout.\<close>

type_synonym 't transport =
  "string \<Rightarrow> string \<Rightarrow> uuid \<Rightarrow> string \<Rightarrow> json \<Rightarrow> pyfloat \<Rightarrow> 't \<Rightarrow> (py_error + command_outcome) \<times> 't"

record fake_transport =
  ft_calls :: "(string \<times> string \<times> uuid \<times> string \<times> json \<times> pyfloat) list"
  ft_outcomes :: "(string, command_outcome) pydict"
  ft_default :: command_outcome

definition fake_set_outcome :: "string \<Rightarrow> command_outcome \<Rightarrow> fake_transport \<Rightarrow> fake_transport" where
  "fake_set_outcome c outcome t = t\<lparr>ft_outcomes := dict_set c outcome (ft_outcomes t)\<rparr>"

definition fake_send :: "fake_transport transport" where
  "fake_send node c i ty payload timeout t =
     (Inr (dict_get_default (ft_outcomes t) c (ft_default t)),
      t\<lparr>ft_calls := ft_calls t @ [(node, c, i, ty, payload, timeout)]\<rparr>)"

type_synonym capacity_provider = "(string \<times> int, int) pydict"

definition set_capacity :: "string \<Rightarrow> int \<Rightarrow> int \<Rightarrow> capacity_provider \<Rightarrow> capacity_provider" where
  "set_capacity c n watts p = dict_set (c, n) watts p"

definition get_max_power_watts :: "capacity_provider \<Rightarrow> string \<Rightarrow> int \<Rightarrow> int option" where
  "get_max_power_watts p c n = dict_get p (c, n)"

datatype command_error = ChargerOfflineError string | ChargingProfileExceedsCapacityError string | CommandRaised py_error

record command_result =
  cx_id :: uuid
  cx_status :: command_status
  cx_result :: json

record 't command_service =
  sv_presence :: presence
  sv_log :: command_log
  sv_transport :: 't
  sv_firmware :: firmware_store
  sv_timeout :: pyfloat

text \<open>\<open>t1\<close> is the time of the request, \<open>t2\<close> the time \<open>mark_responded\<close> reads.\<close>

definition send_command ::
  "'t transport \<Rightarrow> uuid \<Rightarrow> datetime \<Rightarrow> datetime \<Rightarrow> string \<Rightarrow> uuid \<Rightarrow> string \<Rightarrow> json \<Rightarrow> pyfloat option
    \<Rightarrow> 't command_service \<Rightarrow> (command_error + command_result) \<times> 't command_service" where
  "send_command send i t1 t2 c tenant ty payload timeout s =
     (case (case presence_get (sv_presence s) c of
              None \<Rightarrow> None | Some p \<Rightarrow> if ps_status p \<noteq> ''online'' then None else Some p) of
        None \<Rightarrow>
          (let l = log_create i c tenant ty t1 (sv_log s);
               (r, l') = mark_responded t2 i CMD_REJECTED (JObj [(''reason'', JStr ''charger offline'')]) l
           in (case r of Inl e \<Rightarrow> Inl (CommandRaised e)
               | Inr _ \<Rightarrow> Inl (ChargerOfflineError (''charger '' @ c @ '' is offline'')), s\<lparr>sv_log := l'\<rparr>))
      | Some p \<Rightarrow>
          (let l = log_create i c tenant ty t1 (sv_log s);
               (o', tr) = send (ps_node p) c i ty payload (case timeout of None \<Rightarrow> sv_timeout s | Some x \<Rightarrow> x) (sv_transport s);
               s1 = s\<lparr>sv_log := l, sv_transport := tr\<rparr>
           in case o' of
                Inl e \<Rightarrow> (Inl (CommandRaised e), s1)
              | Inr oc \<Rightarrow>
                (let (r, l') = mark_responded t2 i (co_status oc) (co_result oc) (sv_log s1)
                 in (case r of Inl e \<Rightarrow> Inl (CommandRaised e)
                     | Inr _ \<Rightarrow> Inr \<lparr>cx_id = i, cx_status = co_status oc, cx_result = co_result oc\<rparr>, s1\<lparr>sv_log := l'\<rparr>))))"

definition send_set_charging_profile ::
  "'t transport \<Rightarrow> uuid \<Rightarrow> datetime \<Rightarrow> datetime \<Rightarrow> string \<Rightarrow> uuid \<Rightarrow> int \<Rightarrow> int \<Rightarrow> capacity_provider \<Rightarrow> json
    \<Rightarrow> 't command_service \<Rightarrow> (command_error + command_result) \<times> 't command_service" where
  "send_set_charging_profile send i t1 t2 c tenant n watts caps payload s =
     (case get_max_power_watts caps c n of
        Some m \<Rightarrow>
          if watts > m then (Inl (ChargingProfileExceedsCapacityError
              (''requested '' @ str_int watts @ ''W exceeds connector max '' @ str_int m @ ''W'')), s)
          else send_command send i t1 t2 c tenant ''SetChargingProfile'' payload None s
      | None \<Rightarrow> send_command send i t1 t2 c tenant ''SetChargingProfile'' payload None s)"

definition start_firmware_update ::
  "'t transport \<Rightarrow> uuid \<Rightarrow> datetime \<Rightarrow> datetime \<Rightarrow> string \<Rightarrow> uuid \<Rightarrow> string \<Rightarrow> string
    \<Rightarrow> 't command_service \<Rightarrow> (command_error + command_result) \<times> 't command_service" where
  "start_firmware_update send i t1 t2 c tenant version url s =
     send_command send i t1 t2 c tenant ''UpdateFirmware'' (JObj [(''location'', JStr url), (''version'', JStr version)]) None
       (s\<lparr>sv_firmware := snd (firmware_start c tenant version (sv_firmware s))\<rparr>)"

definition service_firmware_status ::
  "string \<Rightarrow> string \<Rightarrow> string \<Rightarrow> 't command_service \<Rightarrow> (py_error + firmware_record) \<times> 't command_service" where
  "service_firmware_status c version status s =
     (let (r, fs) = firmware_update_status c version status (sv_firmware s) in (r, s\<lparr>sv_firmware := fs\<rparr>))"

subsection \<open>The routes\<close>

definition supported_command_types :: "string set" where
  "supported_command_types = {''RemoteStartTransaction'', ''RemoteStopTransaction'', ''Reset'', ''UnlockConnector'',
     ''ChangeConfiguration'', ''GetConfiguration'', ''ClearCache'', ''TriggerMessage'', ''GetDiagnostics''}"

definition command_result_dict :: "command_result \<Rightarrow> json" where
  "command_result_dict r = JObj [(''command_id'', JStr (str_uuid (cx_id r))),
     (''status'', JStr (command_status_value (cx_status r))), (''result'', cx_result r)]"

text \<open>\<open>isofmt\<close> stands for \<open>datetime.isoformat\<close>.\<close>

definition command_record_dict :: "(datetime \<Rightarrow> string) \<Rightarrow> command_record \<Rightarrow> json" where
  "command_record_dict isofmt r = JObj [(''command_id'', JStr (str_uuid (cr_id r))), (''charger_id'', JStr (cr_charger r)),
     (''tenant_id'', JStr (str_uuid (cr_tenant r))), (''type'', JStr (cr_type r)),
     (''status'', JStr (command_status_value (cr_status r))), (''requested_at'', JStr (isofmt (cr_requested r))),
     (''responded_at'', jopt_str (map_option isofmt (cr_responded r))), (''result'', cr_result r)]"

definition route_send_command ::
  "'t transport \<Rightarrow> uuid \<Rightarrow> datetime \<Rightarrow> datetime \<Rightarrow> string \<Rightarrow> uuid \<Rightarrow> string \<Rightarrow> json \<Rightarrow> pyfloat option
    \<Rightarrow> 't command_service \<Rightarrow> (command_error http_error + json) \<times> 't command_service" where
  "route_send_command send i t1 t2 c tenant ty payload timeout s =
     (if ty \<notin> supported_command_types
      then (Inl (HTTPException 422 ''command_type must be one of ['ChangeConfiguration', 'ClearCache', 'GetConfiguration', 'GetDiagnostics', 'RemoteStartTransaction', 'RemoteStopTransaction', 'Reset', 'TriggerMessage', 'UnlockConnector']''), s)
      else let (r, s') = send_command send i t1 t2 c tenant ty payload timeout s
           in (case r of Inl (ChargerOfflineError m) \<Rightarrow> Inl (HTTPException 409 m)
               | Inl e \<Rightarrow> Inl (Raised e) | Inr x \<Rightarrow> Inr (command_result_dict x), s'))"

definition route_list_recent_commands :: "(datetime \<Rightarrow> string) \<Rightarrow> string \<Rightarrow> int \<Rightarrow> command_log \<Rightarrow> json" where
  "route_list_recent_commands isofmt c limit l = JList (map (command_record_dict isofmt) (list_recent l c limit))"

definition route_get_command ::
  "(datetime \<Rightarrow> string) \<Rightarrow> string \<Rightarrow> uuid \<Rightarrow> command_log \<Rightarrow> command_error http_error + json" where
  "route_get_command isofmt c i l =
     (case log_get l i of
        None \<Rightarrow> Inl (HTTPException 404 ''command not found'')
      | Some r \<Rightarrow> if cr_charger r \<noteq> c then Inl (HTTPException 404 ''command not found'') else Inr (command_record_dict isofmt r))"

subsection \<open>The NATS transport\<close>

definition command_subject :: "string \<Rightarrow> string \<Rightarrow> string" where
  "command_subject node c = ''ocpp-cmd.'' @ node @ ''.'' @ c"

text \<open>\<open>self._nc.request\<close>: a timeout, nobody listening, or the reply's bytes, which \<open>json.loads\<close> decodes or refuses.\<close>

datatype nats_reply = NatsTimeout | NoResponders | NatsData "json option"

definition nats_request_body :: "uuid \<Rightarrow> string \<Rightarrow> json \<Rightarrow> json" where
  "nats_request_body i ty payload =
     JObj [(''command_id'', JStr (str_uuid i)), (''command_type'', JStr ty), (''payload'', payload)]"

definition nats_outcome :: "string \<Rightarrow> string \<Rightarrow> nats_reply \<Rightarrow> py_error + command_outcome" where
  "nats_outcome node c reply =
     (case reply of
        NatsTimeout \<Rightarrow> Inr \<lparr>co_status = TIMED_OUT, co_result = JObj [(''reason'',
            JStr ''no response from the gateway node holding this charger's connection'')]\<rparr>
      | NoResponders \<Rightarrow> Inr \<lparr>co_status = CMD_REJECTED, co_result = JObj [(''reason'',
            JStr (''no gateway node is listening for charger '' @ c @ '' (node '' @ node @ '')''))]\<rparr>
      | NatsData None \<Rightarrow> Inr \<lparr>co_status = CMD_REJECTED, co_result = JObj [(''reason'', JStr ''malformed response from gateway node'')]\<rparr>
      | NatsData (Some body) \<Rightarrow>
        (case (jget body ''status'' JNull, jget body ''result'' JNull) of
           (Some st, Some res) \<Rightarrow>
             (case st of
                JList _ \<Rightarrow> Inl TypeError | JObj _ \<Rightarrow> Inl TypeError
              | _ \<Rightarrow> Inr \<lparr>co_status = (if st = JStr ''accepted'' then CMD_ACCEPTED
                    else if st = JStr ''timed_out'' then TIMED_OUT else CMD_REJECTED), co_result = res\<rparr>)
         | _ \<Rightarrow> Inl AttributeError))"

definition nats_send ::
  "(string \<Rightarrow> json \<Rightarrow> pyfloat \<Rightarrow> 'n \<Rightarrow> nats_reply \<times> 'n) \<Rightarrow> 'n option transport" where
  "nats_send request node c i ty payload timeout nc =
     (case nc of
        None \<Rightarrow> (Inl (RuntimeError ''NatsCommandTransport.connect() must be called before send()''), None)
      | Some n \<Rightarrow> let (reply, n') = request (command_subject node c) (nats_request_body i ty payload) timeout n
                 in (nats_outcome node c reply, Some n'))"

text \<open>The receiving half: the charger is the last token of the subject.\<close>

definition served_charger :: "string \<Rightarrow> string" where
  "served_charger subject = last (split_on (CHR ''.'') subject)"

datatype call_end = CallReturned json | CallTimedOut | CallRejected json json | CallFailed

definition serve_reply :: "call_end \<Rightarrow> json" where
  "serve_reply r =
     (case r of
        CallReturned j \<Rightarrow> JObj [(''status'', JStr ''accepted''), (''result'', j)]
      | CallTimedOut \<Rightarrow> JObj [(''status'', JStr ''timed_out''), (''result'', JNull)]
      | CallRejected code desc \<Rightarrow> JObj [(''status'', JStr ''rejected''), (''result'', JObj [(''error_code'', code), (''description'', desc)])]
      | CallFailed \<Rightarrow> JObj [(''status'', JStr ''rejected''), (''result'', JObj [(''reason'', JStr ''internal error'')])])"

text \<open>\<open>call k ty payload\<close> runs \<open>send_call\<close> on socket \<open>k\<close>; \<open>data = None\<close>: the message is not JSON.\<close>

definition serve_command ::
  "(nat \<Rightarrow> json \<Rightarrow> json \<Rightarrow> call_end) \<Rightarrow> string \<Rightarrow> json option \<Rightarrow> connection_registry \<Rightarrow> py_error + json" where
  "serve_command call subject data conns =
     (case data of
        None \<Rightarrow> Inr (JObj [(''status'', JStr ''rejected''), (''result'', JObj [(''reason'', JStr ''malformed request'')])])
      | Some request \<Rightarrow>
        (case get_connection conns (served_charger subject) of
           None \<Rightarrow> Inr (JObj [(''status'', JStr ''rejected''), (''result'', JObj [(''reason'', JStr ''charger not connected on this node'')])])
         | Some k \<Rightarrow>
           (case (jget request ''command_type'' (JStr []), jget request ''payload'' JNull) of
              (Some ty, Some p) \<Rightarrow> Inr (serve_reply (call k ty (if jtrue p then p else JObj [])))
            | _ \<Rightarrow> Inl AttributeError)))"

subsection \<open>Consumers are isolated\<close>

text \<open>What one delivery does to one consumer, from its own state and whether it has seen the event.\<close>

definition own_delivery :: "event \<Rightarrow> bool \<Rightarrow> 's consumer \<Rightarrow> 's consumer" where
  "own_delivery e seen k =
     (if seen then k
      else let (ok, st) = c_handler k e (c_state k)
           in if ok then k\<lparr>c_state := st, c_handled := c_handled k @ [e_id e], c_failures := 0\<rparr>
              else k\<lparr>c_state := st, c_failures := c_failures k + 1\<rparr>)"

definition handler_ok :: "event \<Rightarrow> 's consumer \<Rightarrow> bool" where
  "handler_ok e k = fst (c_handler k e (c_state k))"

definition bus_inv :: "'s event_bus \<Rightarrow> bool" where
  "bus_inv b \<longleftrightarrow> dict_inv (eb_consumers b) \<and> (\<forall>n k. dict_get (eb_consumers b) n = Some k \<longrightarrow>
     c_name k = n \<and> distinct (c_handled k) \<and> set (c_handled k) = {i. (n, i) \<in> eb_seen b})"

lemma own_delivery_name [simp]: "c_name (own_delivery e seen k) = c_name k"
  by (simp add: own_delivery_def Let_def case_prod_beta)

lemma deliver_effect:
  assumes "c_name k = n"
  shows "dict_get (eb_consumers (deliver e n k b)) m
      = (if m = n \<and> \<not> has_processed b n (e_id e) then Some (own_delivery e False k) else dict_get (eb_consumers b) m)"
    and "eb_seen (deliver e n k b)
      = (if \<not> has_processed b n (e_id e) \<and> handler_ok e k then insert (n, e_id e) (eb_seen b) else eb_seen b)"
    and "dict_inv (eb_consumers b) \<Longrightarrow> dict_inv (eb_consumers (deliver e n k b))"
    and "dict_get (eb_consumers b) n = Some k \<Longrightarrow> dict_keys (eb_consumers (deliver e n k b)) = dict_keys (eb_consumers b)"
proof -
  have keys: "dict_keys (dict_set n x (eb_consumers b)) = dict_keys (eb_consumers b)"
    if "dict_get (eb_consumers b) n = Some k" for x
    using that by (induction "eb_consumers b" arbitrary: b) (force dest: map_of_SomeD simp: update_keys image_iff)+
  show "dict_get (eb_consumers (deliver e n k b)) m
      = (if m = n \<and> \<not> has_processed b n (e_id e) then Some (own_delivery e False k) else dict_get (eb_consumers b) m)"
    using assms by (simp add: deliver_def own_delivery_def mark_processed_def alert_consumer_lag_def Let_def case_prod_beta)
  show "eb_seen (deliver e n k b)
      = (if \<not> has_processed b n (e_id e) \<and> handler_ok e k then insert (n, e_id e) (eb_seen b) else eb_seen b)"
    using assms by (simp add: deliver_def handler_ok_def mark_processed_def alert_consumer_lag_def Let_def case_prod_beta)
  show "dict_inv (eb_consumers b) \<Longrightarrow> dict_inv (eb_consumers (deliver e n k b))"
    by (simp add: deliver_def mark_processed_def alert_consumer_lag_def Let_def case_prod_beta)
  show "dict_get (eb_consumers b) n = Some k \<Longrightarrow> dict_keys (eb_consumers (deliver e n k b)) = dict_keys (eb_consumers b)"
    using keys by (simp add: deliver_def mark_processed_def alert_consumer_lag_def Let_def case_prod_beta)
qed

lemma bus_inv_deliver:
  assumes "bus_inv b" "dict_get (eb_consumers b) n = Some k"
  shows "bus_inv (deliver e n k b)"
proof -
  have k: "c_name k = n" "distinct (c_handled k)" "set (c_handled k) = {i. (n, i) \<in> eb_seen b}"
    using assms by (auto simp: bus_inv_def)
  note eff = deliver_effect[OF k(1), where e = e and b = b]
  have own: "c_handled (own_delivery e False k) = (if handler_ok e k then c_handled k @ [e_id e] else c_handled k)"
    by (simp add: own_delivery_def handler_ok_def Let_def case_prod_beta)
  have new: "e_id e \<notin> set (c_handled k)" if "\<not> has_processed b n (e_id e)"
    using that k(3) by (simp add: has_processed_def)
  have "c_name j = m \<and> distinct (c_handled j) \<and> set (c_handled j) = {i. (m, i) \<in> eb_seen (deliver e n k b)}"
    if j: "dict_get (eb_consumers (deliver e n k b)) m = Some j" for m j
  proof (cases "m = n \<and> \<not> has_processed b n (e_id e)")
    case True
    then have "j = own_delivery e False k" using j eff(1) by simp
    with True show ?thesis using k new own eff(2) by auto
  next
    case False
    then have "dict_get (eb_consumers b) m = Some j" using j eff(1) by auto
    then have "c_name j = m" "distinct (c_handled j)" "set (c_handled j) = {i. (m, i) \<in> eb_seen b}"
      using assms(1) by (auto simp: bus_inv_def)
    with False show ?thesis using eff(2) by auto
  qed
  then show ?thesis using eff(3) assms(1) unfolding bus_inv_def by blast
qed

lemma bus_inv_deliver_all: "bus_inv b \<Longrightarrow> bus_inv (deliver_all e ns b)"
  by (induction ns arbitrary: b) (auto simp: bus_inv_deliver split: option.split)

lemma deliver_all_effect:
  assumes "bus_inv b" "distinct ns"
  shows "dict_get (eb_consumers (deliver_all e ns b)) m
    = (case dict_get (eb_consumers b) m of None \<Rightarrow> None
       | Some k \<Rightarrow> Some (if m \<in> set ns then own_delivery e (has_processed b m (e_id e)) k else k))"
  using assms
proof (induction ns arbitrary: b)
  case Nil
  then show ?case by (simp split: option.split)
next
  case (Cons n ns)
  show ?case
  proof (cases "dict_get (eb_consumers b) n")
    case None
    then show ?thesis using Cons by (auto split: option.split)
  next
    case (Some k)
    then have kn: "c_name k = n" using Cons.prems(1) by (auto simp: bus_inv_def)
    note eff = deliver_effect[OF kn, where e = e and b = b]
    have "has_processed (deliver e n k b) m i = has_processed b m i" if "m \<noteq> n" for i
      using that eff(2) by (simp add: has_processed_def)
    moreover have "own_delivery e True x = x" for x :: "'a consumer" by (simp add: own_delivery_def)
    ultimately show ?thesis
      using Cons.IH[OF bus_inv_deliver[OF Cons.prems(1) Some]] Cons.prems(2) Some eff(1)
      by (cases "m = n"; cases "has_processed b n (e_id e)") (auto split: option.split)
  qed
qed

subsection \<open>Properties\<close>

text \<open>
  Publishing affects every consumer exactly as its own handler decides: the outcome for
  one consumer depends on that consumer and on whether it has already processed the event, and
  on no other consumer, however those fail.
\<close>

theorem publish_isolates_consumers:
  assumes "bus_inv b" "dict_get (eb_consumers b) n = Some k"
    and "e = \<lparr>e_id = (case event_id of None \<Rightarrow> new_id | Some i \<Rightarrow> i), e_subject = subject, e_payload = payload\<rparr>"
  shows "dict_get (eb_consumers (snd (bus_publish new_id subject payload event_id b))) n
     = Some (own_delivery e (has_processed b n (e_id e)) k)"
proof -
  let ?b = "b\<lparr>eb_published := eb_published b @ [e]\<rparr>"
  have i: "bus_inv ?b" using assms(1) by (simp add: bus_inv_def)
  have "n \<in> set (dict_keys (eb_consumers b))" using assms(2) by (force dest: map_of_SomeD)
  moreover have "distinct (dict_keys (eb_consumers b))" using assms(1) by (simp add: bus_inv_def)
  ultimately show ?thesis
    using deliver_all_effect[OF i, of "dict_keys (eb_consumers b)" e n] assms(2)
    by (simp add: bus_publish_def assms(3) Let_def has_processed_def)
qed

definition sample_consumer :: "string \<Rightarrow> bool \<Rightarrow> nat consumer" where
  "sample_consumer n ok = \<lparr>c_name = n, c_handler = (\<lambda>e s. (ok, Suc s)), c_state = 0, c_threshold = 1, c_failures = 0, c_handled = []\<rparr>"

definition sample_bus :: "nat event_bus" where
  "sample_bus = \<lparr>eb_consumers = [(''bad'', sample_consumer ''bad'' False), (''good'', sample_consumer ''good'' True)],
     eb_published = [], eb_seen = {}, eb_alerts = []\<rparr>"

lemma sample_bus_inv: "bus_inv sample_bus"
  by (simp add: bus_inv_def sample_bus_def sample_consumer_def)

theorem publish_isolates_consumers_witness:
  "\<exists>k. dict_get (eb_consumers (snd (bus_publish 3 ''ocpp.x'' [] None sample_bus))) ''good'' = Some k \<and> c_handled k = [3]"
proof -
  have g: "dict_get (eb_consumers sample_bus) ''good'' = Some (sample_consumer ''good'' True)" by (simp add: sample_bus_def)
  from publish_isolates_consumers[OF sample_bus_inv g refl, where event_id = None and new_id = 3 and subject = "''ocpp.x''" and payload = "[]"] show ?thesis
    by (simp add: own_delivery_def has_processed_def sample_bus_def sample_consumer_def)
qed

datatype bus_op = Publish uuid string "(string \<times> json) list" "uuid option" | Redeliver event "string option"

fun bus_step :: "bus_op \<Rightarrow> 's event_bus \<Rightarrow> 's event_bus" where
  "bus_step (Publish i subject payload eid) b = snd (bus_publish i subject payload eid b)"
| "bus_step (Redeliver e name) b = snd (redeliver e name b)"

lemma bus_inv_step: "bus_inv b \<Longrightarrow> bus_inv (bus_step a b)"
proof (cases a)
  case (Publish i subject payload eid)
  assume "bus_inv b"
  then have "bus_inv (b\<lparr>eb_published := x\<rparr>)" for x by (simp add: bus_inv_def)
  then show ?thesis using Publish by (simp add: bus_publish_def Let_def bus_inv_deliver_all)
next
  case (Redeliver e name)
  assume "bus_inv b"
  then show ?thesis using Redeliver
    by (auto simp: redeliver_def bus_inv_deliver_all bus_inv_deliver split: option.split list.split)
qed

lemma bus_inv_run: "bus_inv b \<Longrightarrow> bus_inv (fold bus_step ops b)"
  by (induction ops arbitrary: b) (simp_all add: bus_inv_step)

text \<open>
  Through any sequence of publications and redeliveries a consumer processes an event
  successfully at most once, and it is recorded as seen exactly when it was processed: a
  failed delivery may be retried, a successful one never runs again.
\<close>

theorem event_processed_at_most_once:
  assumes "bus_inv b" "dict_get (eb_consumers (fold bus_step ops b)) n = Some k"
  shows "count_list (c_handled k) i \<le> 1
     \<and> (0 < count_list (c_handled k) i \<longleftrightarrow> has_processed (fold bus_step ops b) n i)"
proof -
  have k: "distinct (c_handled k)" "set (c_handled k) = {i. (n, i) \<in> eb_seen (fold bus_step ops b)}"
    using bus_inv_run[OF assms(1), of ops] assms(2) by (auto simp: bus_inv_def)
  have "distinct xs \<Longrightarrow> count_list xs i \<le> 1" for xs :: "uuid list"
    by (induction xs) (auto simp: count_list_0_iff)
  then have "count_list (c_handled k) i \<le> 1" using k(1) by blast
  moreover have "0 < count_list (c_handled k) i \<longleftrightarrow> i \<in> set (c_handled k)"
    using count_list_0_iff[of "c_handled k" i] by auto
  ultimately show ?thesis using k(2) by (simp add: has_processed_def)
qed

theorem event_processed_at_most_once_witness:
  "\<exists>k. dict_get (eb_consumers (fold bus_step [Publish 3 ''ocpp.x'' [] None, Redeliver \<lparr>e_id = 3, e_subject = ''ocpp.x'', e_payload = []\<rparr> None]
      sample_bus)) ''good'' = Some k \<and> count_list (c_handled k) 3 \<le> 1"
proof -
  let ?ops = "[Publish 3 ''ocpp.x'' [] None, Redeliver \<lparr>e_id = 3, e_subject = ''ocpp.x'', e_payload = []\<rparr> None]"
  have "dict_get (eb_consumers (fold bus_step ?ops sample_bus)) ''good'' \<noteq> None"
    by (simp add: bus_publish_def redeliver_def sample_bus_def sample_consumer_def deliver_def has_processed_def
        mark_processed_def alert_consumer_lag_def Let_def)
  then obtain k where k: "dict_get (eb_consumers (fold bus_step ?ops sample_bus)) ''good'' = Some k" by blast
  from event_processed_at_most_once[OF sample_bus_inv k, of 3] k show ?thesis by blast
qed

text \<open>
  Every command that is sent leaves one answered record in the log, and an offline
  charger's command never reaches the transport: the record says rejected and the service
  raises.
\<close>

theorem send_command_logged:
  assumes "send_command send i t1 t2 c tenant ty payload timeout s = (res, s')"
    and "\<forall>e t'. send (case presence_get (sv_presence s) c of Some p \<Rightarrow> ps_node p | None \<Rightarrow> []) c i ty payload
            (case timeout of None \<Rightarrow> sv_timeout s | Some x \<Rightarrow> x) (sv_transport s) \<noteq> (Inl e, t')"
  shows "\<exists>r. log_get (sv_log s') i = Some r \<and> cr_charger r = c \<and> cr_type r = ty \<and> cr_requested r = t1 \<and> cr_responded r = Some t2
     \<and> (\<forall>j. j \<noteq> i \<longrightarrow> log_get (sv_log s') j = log_get (sv_log s) j)
     \<and> (case res of
          Inr x \<Rightarrow> cx_status x = cr_status r \<and> cx_id x = i \<and> (\<exists>p. presence_get (sv_presence s) c = Some p \<and> ps_status p = ''online'')
        | Inl _ \<Rightarrow> cr_status r = CMD_REJECTED \<and> sv_transport s' = sv_transport s
             \<and> \<not> (\<exists>p. presence_get (sv_presence s) c = Some p \<and> ps_status p = ''online''))"
proof (cases "\<exists>p. presence_get (sv_presence s) c = Some p \<and> ps_status p = ''online''")
  case True
  then obtain p where p: "presence_get (sv_presence s) c = Some p" "ps_status p = ''online''" by blast
  obtain oc tr where o: "send (ps_node p) c i ty payload (case timeout of None \<Rightarrow> sv_timeout s | Some x \<Rightarrow> x) (sv_transport s) = (Inr oc, tr)"
    using assms(2) p by (metis option.simps(5) sumE surj_pair)
  show ?thesis using assms(1) p o
    by (auto simp: send_command_def Let_def mark_responded_def log_create_def log_get_def)
next
  case False
  then have "(case presence_get (sv_presence s) c of None \<Rightarrow> None | Some p \<Rightarrow> if ps_status p \<noteq> ''online'' then None else Some p) = None"
    by (auto split: option.split)
  with False show ?thesis using assms(1)
    by (auto simp: send_command_def Let_def mark_responded_def log_create_def log_get_def)
qed

definition sample_service :: "fake_transport command_service" where
  "sample_service = \<lparr>sv_presence = [], sv_log = [], sv_transport = \<lparr>ft_calls = [], ft_outcomes = [],
     ft_default = \<lparr>co_status = CMD_ACCEPTED, co_result = JObj []\<rparr>\<rparr>, sv_firmware = \<lparr>fs_records = [], fs_latest = []\<rparr>, sv_timeout = Fin 30\<rparr>"

theorem send_command_logged_witness:
  "\<exists>r. log_get (sv_log (snd (send_command fake_send 4 1 2 ''CP'' 7 ''Reset'' (JObj []) None sample_service))) 4 = Some r
     \<and> cr_status r = CMD_REJECTED"
proof -
  obtain res s' where e: "send_command fake_send 4 1 2 ''CP'' 7 ''Reset'' (JObj []) None sample_service = (res, s')" by fastforce
  have "res = Inl (ChargerOfflineError ''charger CP is offline'')"
    using e by (simp add: send_command_def sample_service_def presence_get_def mark_responded_def log_create_def)
  then show ?thesis using send_command_logged[OF e] e by (auto simp: fake_send_def)
qed

lemma last_split_on: "last (split_on d (a @ d # b)) = last (split_on d b)"
proof (induction a)
  case Nil
  have "split_on d b \<noteq> []" by (induction b) (auto split: list.split)
  then show ?case by simp
next
  case (Cons x a)
  have n: "split_on d w \<noteq> []" for w by (induction w) (auto split: list.split)
  obtain w ws where w: "split_on d (a @ d # b) = w # ws" using n by (cases "split_on d (a @ d # b)") auto
  have "ws \<noteq> []"
  proof -
    have "length (split_on d (u @ d # v)) \<ge> 2" for u v
    proof (induction u)
      case Nil
      show ?case using n[of v] by (cases "split_on d v") auto
    next
      case (Cons y u)
      then show ?case by (auto split: list.split)
    qed
    from this[of a b] w show ?thesis by (cases ws) auto
  qed
  then show ?case using Cons w by auto
qed

lemma last_split_no_sep: "d \<notin> set (last (split_on d s))"
proof (induction s)
  case Nil
  show ?case by simp
next
  case (Cons x s)
  have "split_on d s \<noteq> []" by (induction s) (auto split: list.split)
  then show ?case using Cons by (auto split: list.split)
qed

text \<open>
  The charger a command reaches on its gateway node is the one it was sent to exactly
  when the charger's id contains no dot; otherwise the node looks up what follows the last dot.
\<close>

theorem served_charger_exact:
  "served_charger (command_subject node c) = c \<longleftrightarrow> CHR ''.'' \<notin> set c"
proof -
  have "served_charger (command_subject node c) = last (split_on (CHR ''.'') c)"
    using last_split_on[of "CHR ''.''" "''ocpp-cmd.'' @ node" c] by (simp add: served_charger_def command_subject_def)
  moreover have "CHR ''.'' \<notin> set c \<Longrightarrow> last (split_on (CHR ''.'') c) = c" by simp
  ultimately show ?thesis using last_split_no_sep[of "CHR ''.''" c] by metis
qed

text \<open>
  What a gateway node answers is what the sender reports: the reply to a call that
  returned, timed out or was rejected becomes the accepted, timed-out or rejected outcome with
  the charger's own result.
\<close>

theorem nats_reply_roundtrip:
  "nats_outcome node c (NatsData (Some (serve_reply r))) = Inr (case r of
      CallReturned j \<Rightarrow> \<lparr>co_status = CMD_ACCEPTED, co_result = j\<rparr>
    | CallTimedOut \<Rightarrow> \<lparr>co_status = TIMED_OUT, co_result = JNull\<rparr>
    | CallRejected code desc \<Rightarrow> \<lparr>co_status = CMD_REJECTED, co_result = JObj [(''error_code'', code), (''description'', desc)]\<rparr>
    | CallFailed \<Rightarrow> \<lparr>co_status = CMD_REJECTED, co_result = JObj [(''reason'', JStr ''internal error'')]\<rparr>)"
  by (cases r) (simp_all add: nats_outcome_def serve_reply_def jget_def)

end
