(* ===== verification/Ocpi_Commands.thy ===== *)
theory Ocpi_Commands
  imports Ocpp_Commands
begin

text \<open>
  The OCPI modules that act on a running session (\<open>ocpi/charging_profiles.py\<close>,
  \<open>ocpi/charging_preferences.py\<close>, \<open>ocpi/commands.py\<close>): the map from a session to its
  charger, smart-charging profiles with the capacity check, stated preferences, and the
  remote start, stop, reserve, unlock and cancel commands over \<open>RemoteCommandService\<close>.
\<close>

subsection \<open>Sessions and their chargers\<close>

record session_binding =
  sb_charger :: string
  sb_tenant :: uuid
  sb_connector :: int

type_synonym session_charger_map = "(string, session_binding) pydict"

definition set_binding :: "string \<Rightarrow> session_binding \<Rightarrow> session_charger_map \<Rightarrow> session_charger_map" where
  "set_binding sid b m = dict_set sid b m"

definition get_charger_for_session :: "session_charger_map \<Rightarrow> string \<Rightarrow> session_binding option" where
  "get_charger_for_session m sid = dict_get m sid"

text \<open>What one remote command draws: its id, the time of the request, the time of the answer.\<close>

type_synonym draw = "uuid \<times> datetime \<times> datetime"

definition remote_command ::
  "'t transport \<Rightarrow> draw \<Rightarrow> string \<Rightarrow> uuid \<Rightarrow> string \<Rightarrow> json \<Rightarrow> 't command_service
    \<Rightarrow> (command_error + command_result) \<times> 't command_service" where
  "remote_command send d c tenant ty payload s =
     send_command send (fst d) (fst (snd d)) (snd (snd d)) c tenant ty payload None s"

subsection \<open>Charging profiles\<close>

record profile_period =
  pp_start :: int
  pp_limit :: pyfloat

record charging_profile =
  cp_session :: string
  cp_unit :: string
  cp_periods :: "profile_period list"
  cp_duration :: "int option"
  cp_min_rate :: "pyfloat option"
  cp_start :: "datetime option"

datatype profile_status = PROFILE_ACCEPTED | PROFILE_REJECTED | PROFILE_UNKNOWN_SESSION

definition to_ocpp_set_charging_profile_payload ::
  "int \<Rightarrow> string \<Rightarrow> profile_period list \<Rightarrow> int option \<Rightarrow> pyfloat option \<Rightarrow> json" where
  "to_ocpp_set_charging_profile_payload connector rate_unit periods duration min_rate =
     JObj [(''connectorId'', JInt connector),
       (''csChargingProfile'', JObj [(''chargingProfileId'', JInt 1), (''stackLevel'', JInt 0),
          (''chargingProfilePurpose'', JStr ''TxProfile''), (''chargingProfileKind'', JStr ''Relative''),
          (''chargingSchedule'', JObj [(''chargingRateUnit'', JStr rate_unit),
             (''duration'', case duration of None \<Rightarrow> JNull | Some d \<Rightarrow> JInt d),
             (''minChargingRate'', case min_rate of None \<Rightarrow> JNull | Some r \<Rightarrow> JFloat r),
             (''chargingSchedulePeriod'', JList (map (\<lambda>p. JObj [(''startPeriod'', JInt (pp_start p)), (''limit'', JFloat (pp_limit p))]) periods))])])]"

record 't profile_service =
  fp_map :: session_charger_map
  fp_active :: "(string, charging_profile) pydict"
  fp_commands :: "'t command_service"
  fp_capacity :: capacity_provider

definition requested_watts :: "profile_period list \<Rightarrow> arith_error + int" where
  "requested_watts periods = (case map pp_limit periods of [] \<Rightarrow> Inr 0 | x # xs \<Rightarrow> py_trunc (fmax_from x xs))"

definition set_charging_profile ::
  "'t transport \<Rightarrow> draw \<Rightarrow> string \<Rightarrow> string \<Rightarrow> profile_period list \<Rightarrow> int option \<Rightarrow> pyfloat option \<Rightarrow> datetime option
    \<Rightarrow> 't profile_service \<Rightarrow> (py_error + profile_status \<times> string option) \<times> 't profile_service" where
  "set_charging_profile send d sid rate_unit periods duration min_rate start s =
     (case get_charger_for_session (fp_map s) sid of
        None \<Rightarrow> (Inr (PROFILE_UNKNOWN_SESSION, None), s)
      | Some b \<Rightarrow>
        if rate_unit \<noteq> ''W'' then (Inr (PROFILE_REJECTED, Some ''only charging_rate_unit=W is supported''), s)
        else
          (case requested_watts periods of
             Inl e \<Rightarrow> (Inl (Arith e), s)
           | Inr watts \<Rightarrow>
             (let (r, cs) = send_set_charging_profile send (fst d) (fst (snd d)) (snd (snd d)) (sb_charger b) (sb_tenant b)
                              (sb_connector b) watts (fp_capacity s)
                              (to_ocpp_set_charging_profile_payload (sb_connector b) rate_unit periods duration min_rate) (fp_commands s);
                  s1 = s\<lparr>fp_commands := cs\<rparr>
              in case r of
                   Inl (ChargingProfileExceedsCapacityError m) \<Rightarrow> (Inr (PROFILE_REJECTED, Some m), s1)
                 | Inl (ChargerOfflineError m) \<Rightarrow> (Inr (PROFILE_REJECTED, Some m), s1)
                 | Inl (CommandRaised e) \<Rightarrow> (Inl e, s1)
                 | Inr x \<Rightarrow>
                   if cx_status x \<noteq> CMD_ACCEPTED
                   then (Inr (PROFILE_REJECTED, Some (''charge point responded '' @ command_status_value (cx_status x))), s1)
                   else (Inr (PROFILE_ACCEPTED, None),
                         s1\<lparr>fp_active := dict_set sid \<lparr>cp_session = sid, cp_unit = rate_unit, cp_periods = periods,
                            cp_duration = duration, cp_min_rate = min_rate, cp_start = start\<rparr> (fp_active s1)\<rparr>))))"

definition get_active_profile :: "'t profile_service \<Rightarrow> string \<Rightarrow> profile_status \<times> charging_profile option" where
  "get_active_profile s sid =
     (case get_charger_for_session (fp_map s) sid of
        None \<Rightarrow> (PROFILE_UNKNOWN_SESSION, None) | Some _ \<Rightarrow> (PROFILE_ACCEPTED, dict_get (fp_active s) sid))"

subsection \<open>Charging preferences\<close>

datatype preferences_status =
    PREF_ACCEPTED | DEPARTURE_REQUIRED | ENERGY_NEED_REQUIRED | NOT_POSSIBLE | PROFILE_TYPE_NOT_SUPPORTED

record charging_preferences =
  cf_session :: string
  cf_type :: string
  cf_departure :: "datetime option"
  cf_energy :: "pyfloat option"
  cf_discharge :: "bool option"

definition set_charging_preferences ::
  "session_charger_map \<Rightarrow> string \<Rightarrow> string \<Rightarrow> datetime option \<Rightarrow> pyfloat option \<Rightarrow> bool option
    \<Rightarrow> (string, charging_preferences) pydict \<Rightarrow> preferences_status \<times> (string, charging_preferences) pydict" where
  "set_charging_preferences m sid ty departure energy discharge st =
     (case get_charger_for_session m sid of
        None \<Rightarrow> (NOT_POSSIBLE, st)
      | Some _ \<Rightarrow>
        if ty \<notin> {''CHEAP'', ''FAST'', ''GREEN'', ''REGULAR''} then (PROFILE_TYPE_NOT_SUPPORTED, st)
        else if ty \<noteq> ''FAST'' \<and> departure = None then (DEPARTURE_REQUIRED, st)
        else if ty = ''CHEAP'' \<and> energy = None then (ENERGY_NEED_REQUIRED, st)
        else (PREF_ACCEPTED, dict_set sid \<lparr>cf_session = sid, cf_type = ty, cf_departure = departure, cf_energy = energy,
                cf_discharge = discharge\<rparr> st))"

definition get_charging_preferences :: "(string, charging_preferences) pydict \<Rightarrow> string \<Rightarrow> charging_preferences option" where
  "get_charging_preferences st sid = dict_get st sid"

subsection \<open>Commands\<close>

datatype ocpi_status = OCPI_ACCEPTED | OCPI_REJECTED | OCPI_UNKNOWN_SESSION

record ocpi_command_result =
  oc_result :: ocpi_status
  oc_session :: "string option"
  oc_reason :: "string option"

record 't ocpi_command_service =
  os_map :: session_charger_map
  os_txns :: txn_repo
  os_commands :: "'t command_service"

definition ocpi_start_session ::
  "'t transport \<Rightarrow> draw \<Rightarrow> uuid \<Rightarrow> string \<Rightarrow> uuid \<Rightarrow> string \<Rightarrow> int \<Rightarrow> 't ocpi_command_service
    \<Rightarrow> (py_error + ocpi_command_result) \<times> 't ocpi_command_service" where
  "ocpi_start_session send d new_id location tenant token connector s =
     (let (r, cs) = remote_command send d location tenant ''RemoteStartTransaction''
                      (JObj [(''idTag'', JStr token), (''connectorId'', JInt connector)]) (os_commands s);
          s1 = s\<lparr>os_commands := cs\<rparr>
      in case r of
           Inl (ChargerOfflineError m) \<Rightarrow> (Inr \<lparr>oc_result = OCPI_REJECTED, oc_session = None, oc_reason = Some m\<rparr>, s1)
         | Inl (ChargingProfileExceedsCapacityError m) \<Rightarrow> (Inl (RuntimeError m), s1)
         | Inl (CommandRaised e) \<Rightarrow> (Inl e, s1)
         | Inr x \<Rightarrow>
           if cx_status x \<noteq> CMD_ACCEPTED
           then (Inr \<lparr>oc_result = OCPI_REJECTED, oc_session = None,
                   oc_reason = Some (''charge point responded '' @ command_status_value (cx_status x))\<rparr>, s1)
           else (Inr \<lparr>oc_result = OCPI_ACCEPTED, oc_session = Some (str_uuid new_id), oc_reason = None\<rparr>,
                 s1\<lparr>os_map := set_binding (str_uuid new_id) \<lparr>sb_charger = location, sb_tenant = tenant, sb_connector = connector\<rparr> (os_map s1)\<rparr>))"

definition ocpi_stop_session ::
  "'t transport \<Rightarrow> draw \<Rightarrow> string \<Rightarrow> uuid \<Rightarrow> 't ocpi_command_service
    \<Rightarrow> (py_error + ocpi_command_result) \<times> 't ocpi_command_service" where
  "ocpi_stop_session send d sid tenant s =
     (case get_charger_for_session (os_map s) sid of
        None \<Rightarrow> (Inr \<lparr>oc_result = OCPI_UNKNOWN_SESSION, oc_session = None, oc_reason = None\<rparr>, s)
      | Some b \<Rightarrow>
        (case get_active_transaction (os_txns s) (sb_charger b) of
           None \<Rightarrow> (Inr \<lparr>oc_result = OCPI_REJECTED, oc_session = Some sid, oc_reason = Some ''no active transaction on this charger''\<rparr>, s)
         | Some t \<Rightarrow>
           (let (r, cs) = remote_command send d (sb_charger b) tenant ''RemoteStopTransaction''
                            (JObj [(''transactionId'', JStr (str_uuid (at_id t)))]) (os_commands s);
                s1 = s\<lparr>os_commands := cs\<rparr>
            in case r of
                 Inl (ChargerOfflineError m) \<Rightarrow> (Inr \<lparr>oc_result = OCPI_REJECTED, oc_session = Some sid, oc_reason = Some m\<rparr>, s1)
               | Inl (ChargingProfileExceedsCapacityError m) \<Rightarrow> (Inl (RuntimeError m), s1)
               | Inl (CommandRaised e) \<Rightarrow> (Inl e, s1)
               | Inr x \<Rightarrow> (Inr \<lparr>oc_result = (if cx_status x = CMD_ACCEPTED then OCPI_ACCEPTED else OCPI_REJECTED),
                               oc_session = Some sid, oc_reason = None\<rparr>, s1))))"

definition ocpi_dispatch ::
  "'t transport \<Rightarrow> draw \<Rightarrow> string \<Rightarrow> uuid \<Rightarrow> string \<Rightarrow> json \<Rightarrow> 't ocpi_command_service
    \<Rightarrow> (py_error + ocpi_command_result) \<times> 't ocpi_command_service" where
  "ocpi_dispatch send d c tenant ty payload s =
     (let (r, cs) = remote_command send d c tenant ty payload (os_commands s);
          s1 = s\<lparr>os_commands := cs\<rparr>
      in (case r of
            Inl (ChargerOfflineError m) \<Rightarrow> Inr \<lparr>oc_result = OCPI_REJECTED, oc_session = None, oc_reason = Some m\<rparr>
          | Inl (ChargingProfileExceedsCapacityError m) \<Rightarrow> Inl (RuntimeError m)
          | Inl (CommandRaised e) \<Rightarrow> Inl e
          | Inr x \<Rightarrow> Inr \<lparr>oc_result = (if cx_status x = CMD_ACCEPTED then OCPI_ACCEPTED else OCPI_REJECTED),
                          oc_session = None, oc_reason = None\<rparr>, s1))"

text \<open>\<open>isofmt\<close> stands for \<open>datetime.isoformat\<close>.\<close>

definition reserve_now ::
  "'t transport \<Rightarrow> (datetime \<Rightarrow> string) \<Rightarrow> draw \<Rightarrow> string \<Rightarrow> uuid \<Rightarrow> string \<Rightarrow> datetime \<Rightarrow> string \<Rightarrow> int
    \<Rightarrow> 't ocpi_command_service \<Rightarrow> (py_error + ocpi_command_result) \<times> 't ocpi_command_service" where
  "reserve_now send isofmt d location tenant token expiry rid connector s =
     ocpi_dispatch send d location tenant ''ReserveNow'' (JObj [(''connectorId'', JInt connector),
       (''expiryDate'', JStr (isofmt expiry)), (''idTag'', JStr token), (''reservationId'', JStr rid)]) s"

definition unlock_connector ::
  "'t transport \<Rightarrow> draw \<Rightarrow> string \<Rightarrow> uuid \<Rightarrow> int \<Rightarrow> 't ocpi_command_service
    \<Rightarrow> (py_error + ocpi_command_result) \<times> 't ocpi_command_service" where
  "unlock_connector send d location tenant connector s =
     ocpi_dispatch send d location tenant ''UnlockConnector'' (JObj [(''connectorId'', JInt connector)]) s"

definition ocpi_cancel_reservation ::
  "'t transport \<Rightarrow> draw \<Rightarrow> string \<Rightarrow> uuid \<Rightarrow> string \<Rightarrow> 't ocpi_command_service
    \<Rightarrow> (py_error + ocpi_command_result) \<times> 't ocpi_command_service" where
  "ocpi_cancel_reservation send d location tenant rid s =
     ocpi_dispatch send d location tenant ''CancelReservation'' (JObj [(''reservationId'', JStr rid)]) s"

subsection \<open>Properties\<close>

lemma send_command_never_capacity:
  "fst (send_command send i t1 t2 c tenant ty payload timeout s) \<noteq> Inl (ChargingProfileExceedsCapacityError m)"
  by (simp add: send_command_def Let_def case_prod_beta split: option.split sum.split)

text \<open>
  The capacity check truncates the requested limit to whole watts. A profile whose
  limit is at least one watt above the connector's maximum is refused and nothing is sent;
  one that exceeds it by less than a watt passes, and when the charger accepts it the
  excessive profile is stored as the active one.
\<close>

theorem capacity_check_whole_watts:
  assumes "get_charger_for_session (fp_map s) sid = Some b"
    and "get_max_power_watts (fp_capacity s) (sb_charger b) (sb_connector b) = Some m" "0 \<le> m" "of_int m < q"
    and "ps = [\<lparr>pp_start = 0, pp_limit = Fin q\<rparr>]"
    and "remote_command send d (sb_charger b) (sb_tenant b) ''SetChargingProfile''
           (to_ocpp_set_charging_profile_payload (sb_connector b) ''W'' ps None None) (fp_commands s) = (Inr x, cs)"
    and "cx_status x = CMD_ACCEPTED"
  shows "if of_int m + 1 \<le> q
    then (\<exists>why. set_charging_profile send d sid ''W'' ps None None start s = (Inr (PROFILE_REJECTED, Some why), s))
    else fst (set_charging_profile send d sid ''W'' ps None None start s) = Inr (PROFILE_ACCEPTED, None)
      \<and> (\<exists>p. snd (get_active_profile (snd (set_charging_profile send d sid ''W'' ps None None start s)) sid) = Some p
           \<and> cp_periods p = ps)"
proof -
  have q0: "0 \<le> q" using assms(3,4) by (meson less_le_not_le of_int_0_le_iff order_trans)
  then have w: "requested_watts ps = Inr \<lfloor>q\<rfloor>" using assms(5) by (simp add: requested_watts_def)
  show ?thesis
  proof (cases "of_int m + 1 \<le> q")
    case True
    then have "m + 1 \<le> \<lfloor>q\<rfloor>" by (simp add: le_floor_iff)
    then show ?thesis using True assms(1,2) w by (simp add: set_charging_profile_def send_set_charging_profile_def)
  next
    case False
    then have "\<lfloor>q\<rfloor> = m" using assms(4) by (simp add: floor_unique)
    then show ?thesis using False assms w
      by (simp add: set_charging_profile_def send_set_charging_profile_def remote_command_def get_active_profile_def)
  qed
qed

definition sample_profile_service :: "fake_transport profile_service" where
  "sample_profile_service = \<lparr>fp_map = [(''s1'', \<lparr>sb_charger = ''CP'', sb_tenant = 1, sb_connector = 1\<rparr>)], fp_active = [],
     fp_commands = sample_service\<lparr>sv_presence := mark_online (Fin 0) ''CP'' 1 ''n1'' ''ocpp1.6'' []\<rparr>,
     fp_capacity = [((''CP'', 1), 11000)]\<rparr>"

theorem capacity_check_whole_watts_witness:
  "fst (set_charging_profile fake_send (4, 1, 2) ''s1'' ''W'' [\<lparr>pp_start = 0, pp_limit = Fin (22001 / 2)\<rparr>] None None None
      sample_profile_service) = Inr (PROFILE_ACCEPTED, None)"
proof -
  let ?s = sample_profile_service and ?ps = "[\<lparr>pp_start = 0, pp_limit = Fin (22001 / 2)\<rparr>]"
  let ?r = "remote_command fake_send (4, 1, 2) ''CP'' 1 ''SetChargingProfile''
     (to_ocpp_set_charging_profile_payload 1 ''W'' ?ps None None) (fp_commands ?s)"
  obtain cs where c: "?r = (Inr \<lparr>cx_id = 4, cx_status = CMD_ACCEPTED, cx_result = JObj []\<rparr>, cs)"
    by (simp add: remote_command_def send_command_def sample_profile_service_def sample_service_def presence_get_def
        mark_online_def fake_send_def dict_get_default_def log_create_def mark_responded_def)
  have "get_charger_for_session (fp_map ?s) ''s1'' = Some \<lparr>sb_charger = ''CP'', sb_tenant = 1, sb_connector = 1\<rparr>"
    by (simp add: sample_profile_service_def get_charger_for_session_def)
  moreover have "get_max_power_watts (fp_capacity ?s) ''CP'' 1 = Some 11000"
    by (simp add: sample_profile_service_def get_max_power_watts_def)
  ultimately show ?thesis
    using capacity_check_whole_watts[of ?s "''s1''" "\<lparr>sb_charger = ''CP'', sb_tenant = 1, sb_connector = 1\<rparr>" 11000 "22001 / 2"
        ?ps fake_send "(4, 1, 2)" "\<lparr>cx_id = 4, cx_status = CMD_ACCEPTED, cx_result = JObj []\<rparr>" cs None] c
    by simp
qed

end
