(* ===== verification/Ocpi_Partners.thy ===== *)
theory Ocpi_Partners
  imports Ocpi_Commands
begin

text \<open>
  The partner side of OCPI: error codes (\<open>ocpi/errors.py\<close>), the partner registry
  (\<open>ocpi/partner_store.py\<close>), the credentials handshake (\<open>ocpi/versions.py\<close>), roaming token
  whitelisting (\<open>ocpi/tokens.py\<close>), price lists and reconciliation
  (\<open>ocpi/partner_admin.py\<close>) and the operator's routes (\<open>ocpi/admin_router.py\<close>).
  \<open>secrets.token_urlsafe\<close> and \<open>uuid.uuid4\<close> are arguments; \<open>isofmt\<close> is \<open>datetime.isoformat\<close>.
\<close>

subsection \<open>Errors\<close>

datatype ocpi_error_code =
    SUCCESS | INVALID_PARAMETERS | NOT_ENOUGH_INFORMATION | UNKNOWN_LOCATION | UNKNOWN_TOKEN | UNKNOWN_TARIFF
  | UNKNOWN_SESSION | GENERIC_SERVER_ERROR | UNABLE_TO_USE_CLIENT_API | UNSUPPORTED_VERSION | NO_MATCHING_ENDPOINTS

fun ocpi_code :: "ocpi_error_code \<Rightarrow> int" where
  "ocpi_code SUCCESS = 1000"
| "ocpi_code INVALID_PARAMETERS = 2001"
| "ocpi_code NOT_ENOUGH_INFORMATION = 2002"
| "ocpi_code UNKNOWN_LOCATION = 2003"
| "ocpi_code UNKNOWN_TOKEN = 2004"
| "ocpi_code UNKNOWN_TARIFF = 2005"
| "ocpi_code UNKNOWN_SESSION = 2006"
| "ocpi_code GENERIC_SERVER_ERROR = 3000"
| "ocpi_code UNABLE_TO_USE_CLIENT_API = 3001"
| "ocpi_code UNSUPPORTED_VERSION = 3002"
| "ocpi_code NO_MATCHING_ENDPOINTS = 3003"

definition http_status_by_error_code :: "(ocpi_error_code, int) pydict" where
  "http_status_by_error_code = [(INVALID_PARAMETERS, 400), (NOT_ENOUGH_INFORMATION, 400), (UNKNOWN_LOCATION, 404),
     (UNKNOWN_TOKEN, 401), (UNKNOWN_TARIFF, 404), (UNKNOWN_SESSION, 404), (GENERIC_SERVER_ERROR, 500),
     (UNABLE_TO_USE_CLIENT_API, 500), (UNSUPPORTED_VERSION, 406), (NO_MATCHING_ENDPOINTS, 404)]"

record ocpi_error =
  oe_code :: ocpi_error_code
  oe_message :: string

definition ocpi_http_status :: "ocpi_error \<Rightarrow> int" where
  "ocpi_http_status e = dict_get_default http_status_by_error_code (oe_code e) 500"

definition to_response_body :: "(datetime \<Rightarrow> string) \<Rightarrow> datetime \<Rightarrow> ocpi_error \<Rightarrow> json" where
  "to_response_body isofmt now e =
     JObj [(''status_code'', JInt (ocpi_code (oe_code e))), (''status_message'', JStr (oe_message e)),
           (''timestamp'', JStr (isofmt now))]"

text \<open>An exception, by what the mapping distinguishes: its class and \<open>str(exc)\<close>.\<close>

datatype exception =
    EOcpi ocpi_error | EValidation string | EValue string | EType string | EKey string | EOther string

definition map_exception_to_ocpi_error :: "exception \<Rightarrow> ocpi_error" where
  "map_exception_to_ocpi_error exc =
     (case exc of
        EOcpi e \<Rightarrow> e
      | EValidation m \<Rightarrow> \<lparr>oe_code = INVALID_PARAMETERS, oe_message = m\<rparr>
      | EValue m \<Rightarrow> \<lparr>oe_code = INVALID_PARAMETERS, oe_message = m\<rparr>
      | EType m \<Rightarrow> \<lparr>oe_code = INVALID_PARAMETERS, oe_message = m\<rparr>
      | EKey m \<Rightarrow> \<lparr>oe_code = INVALID_PARAMETERS, oe_message = m\<rparr>
      | EOther m \<Rightarrow> \<lparr>oe_code = GENERIC_SERVER_ERROR, oe_message = ''internal server error''\<rparr>)"

subsection \<open>The partner registry\<close>

record partner =
  pt_id :: uuid
  pt_tenant :: uuid
  pt_party :: string
  pt_country :: string
  pt_token_a :: string
  pt_token_c :: "string option"
  pt_version :: "string option"
  pt_status :: string
  pt_handshake :: "datetime option"

type_synonym partner_registry = "(uuid, partner) pydict"

definition partner_add :: "partner \<Rightarrow> partner_registry \<Rightarrow> partner_registry" where
  "partner_add p r = dict_set (pt_id p) p r"

definition partner_create ::
  "uuid \<Rightarrow> uuid \<Rightarrow> string \<Rightarrow> string \<Rightarrow> string \<Rightarrow> partner_registry \<Rightarrow> partner \<times> partner_registry" where
  "partner_create i tenant party country token r =
     (let p = \<lparr>pt_id = i, pt_tenant = tenant, pt_party = party, pt_country = country, pt_token_a = token,
               pt_token_c = None, pt_version = None, pt_status = ''pending'', pt_handshake = None\<rparr>
      in (p, dict_set i p r))"

definition find_by_token_a :: "partner_registry \<Rightarrow> string \<Rightarrow> partner option" where
  "find_by_token_a r token = first_match (\<lambda>p. pt_token_a p = token) (dict_values r)"

definition find_by_token_c :: "partner_registry \<Rightarrow> string \<Rightarrow> partner option" where
  "find_by_token_c r token = first_match (\<lambda>p. pt_token_c p = Some token) (dict_values r)"

definition set_negotiated_version ::
  "datetime \<Rightarrow> uuid \<Rightarrow> string \<Rightarrow> string \<Rightarrow> partner_registry \<Rightarrow> (py_error + unit) \<times> partner_registry" where
  "set_negotiated_version now i version token_c r =
     (case dict_get r i of
        None \<Rightarrow> (Inl (KeyError (str_uuid i)), r)
      | Some p \<Rightarrow> (Inr (), dict_set i (p\<lparr>pt_version := Some version, pt_token_c := Some token_c, pt_status := ''connected'',
                                    pt_handshake := Some now\<rparr>) r))"

definition registry_rotate_token_a :: "uuid \<Rightarrow> string \<Rightarrow> partner_registry \<Rightarrow> (py_error + unit) \<times> partner_registry" where
  "registry_rotate_token_a i token r =
     (case dict_get r i of
        None \<Rightarrow> (Inl (KeyError (str_uuid i)), r)
      | Some p \<Rightarrow> (Inr (), dict_set i (p\<lparr>pt_token_a := token\<rparr>) r))"

definition partner_list_all :: "partner_registry \<Rightarrow> partner list" where
  "partner_list_all r = dict_values r"

subsection \<open>Versions and credentials\<close>

definition supported_versions :: "string list" where
  "supported_versions = [''2.1.1'', ''2.2.1'', ''2.3.0'']"

definition build_versions_response :: "(datetime \<Rightarrow> string) \<Rightarrow> datetime \<Rightarrow> string \<Rightarrow> json" where
  "build_versions_response isofmt now base_url =
     JObj [(''status_code'', JInt (ocpi_code SUCCESS)), (''status_message'', JStr ''Success''), (''timestamp'', JStr (isofmt now)),
       (''data'', JList (map (\<lambda>v. JObj [(''version'', JStr v), (''url'', JStr (base_url @ ''/'' @ v))]) supported_versions))]"

text \<open>\<open>OcpiError\<close> or another exception; \<open>t1\<close> is the time of the handshake, \<open>t2\<close> of the answer.\<close>

definition negotiate_credentials ::
  "(datetime \<Rightarrow> string) \<Rightarrow> datetime \<Rightarrow> datetime \<Rightarrow> string \<Rightarrow> string \<Rightarrow> string \<Rightarrow> partner_registry
    \<Rightarrow> ((ocpi_error + py_error) + json) \<times> partner_registry" where
  "negotiate_credentials isofmt t1 t2 new_token token_a version r =
     (if version \<notin> set supported_versions
      then (Inl (Inl \<lparr>oe_code = UNSUPPORTED_VERSION, oe_message = ''version '' @ version @ '' is not supported''\<rparr>), r)
      else case find_by_token_a r token_a of
        None \<Rightarrow> (Inl (Inl \<lparr>oe_code = UNKNOWN_TOKEN, oe_message = ''unknown partner token''\<rparr>), r)
      | Some p \<Rightarrow>
        (case set_negotiated_version t1 (pt_id p) version new_token r of
           (Inl e, r') \<Rightarrow> (Inl (Inr e), r')
         | (Inr _, r') \<Rightarrow>
           (Inr (JObj [(''status_code'', JInt (ocpi_code SUCCESS)), (''status_message'', JStr ''Success''),
              (''timestamp'', JStr (isofmt t2)),
              (''data'', JObj [(''token'', JStr new_token), (''url'', JStr (''/ocpi/'' @ version @ ''/versions'')), (''roles'', JList [])])]), r')))"

definition authenticate_partner :: "partner_registry \<Rightarrow> string \<Rightarrow> ocpi_error + uuid" where
  "authenticate_partner r token =
     (case find_by_token_c r token of
        None \<Rightarrow> Inl \<lparr>oe_code = UNKNOWN_TOKEN, oe_message = ''unknown or unrecognized partner token''\<rparr>
      | Some p \<Rightarrow> Inr (pt_id p))"

subsection \<open>Roaming tokens\<close>

definition token_cache_key :: "string \<Rightarrow> string" where
  "token_cache_key uid = ''ocpi:token:'' @ uid"

text \<open>Entries are \<open>(status, expires_at)\<close>; \<open>now\<close> is what the clock returns at the call.\<close>

type_synonym token_cache = "(string, string \<times> pyfloat) pydict"

definition expiry :: "pyfloat \<Rightarrow> int \<Rightarrow> pyfloat" where
  "expiry now ttl = fadd now (fl64 (of_int ttl))"

definition cache_set_status :: "pyfloat \<Rightarrow> string \<Rightarrow> string \<Rightarrow> int \<Rightarrow> token_cache \<Rightarrow> token_cache" where
  "cache_set_status now uid status ttl c = dict_set uid (status, expiry now ttl) c"

definition cache_get_status :: "pyfloat \<Rightarrow> string \<Rightarrow> token_cache \<Rightarrow> string option \<times> token_cache" where
  "cache_get_status now uid c =
     (case dict_get c uid of
        None \<Rightarrow> (None, c)
      | Some (status, expires) \<Rightarrow> if fle expires now then (None, dict_del uid c) else (Some status, c))"

definition cache_refresh_ttl :: "pyfloat \<Rightarrow> string \<Rightarrow> int \<Rightarrow> token_cache \<Rightarrow> token_cache" where
  "cache_refresh_ttl now uid ttl c =
     (case dict_get c uid of None \<Rightarrow> c | Some (status, _) \<Rightarrow> dict_set uid (status, expiry now ttl) c)"

definition cache_expires_at :: "string \<Rightarrow> token_cache \<Rightarrow> pyfloat option" where
  "cache_expires_at uid c = map_option snd (dict_get c uid)"

text \<open>The Redis cache over a client's \<open>set\<close>, \<open>get\<close> and \<open>expire\<close>; a value may come back as bytes.\<close>

datatype redis_value = RBytes string | RStr string

definition redis_set_status ::
  "(string \<Rightarrow> string \<Rightarrow> int \<Rightarrow> 'r \<Rightarrow> 'r) \<Rightarrow> string \<Rightarrow> string \<Rightarrow> int \<Rightarrow> 'r \<Rightarrow> 'r" where
  "redis_set_status rset uid status ttl r = rset (token_cache_key uid) status ttl r"

definition redis_get_status ::
  "('r \<Rightarrow> string \<Rightarrow> redis_value option) \<Rightarrow> (string \<Rightarrow> string) \<Rightarrow> string \<Rightarrow> 'r \<Rightarrow> string option" where
  "redis_get_status rget decode uid r =
     (case rget r (token_cache_key uid) of None \<Rightarrow> None | Some (RBytes b) \<Rightarrow> Some (decode b) | Some (RStr s) \<Rightarrow> Some s)"

definition redis_refresh_ttl :: "(string \<Rightarrow> int \<Rightarrow> 'r \<Rightarrow> 'r) \<Rightarrow> string \<Rightarrow> int \<Rightarrow> 'r \<Rightarrow> 'r" where
  "redis_refresh_ttl rexpire uid ttl r = rexpire (token_cache_key uid) ttl r"

definition whitelist_token :: "int \<Rightarrow> pyfloat \<Rightarrow> string \<Rightarrow> token_cache \<Rightarrow> token_cache" where
  "whitelist_token ttl now uid c = cache_set_status now uid ''whitelisted'' ttl c"

definition blacklist_token :: "int \<Rightarrow> pyfloat \<Rightarrow> string \<Rightarrow> token_cache \<Rightarrow> token_cache" where
  "blacklist_token ttl now uid c = cache_set_status now uid ''blacklisted'' ttl c"

text \<open>The checker, over any cache: \<open>t1\<close> and \<open>t2\<close> are the clock at its two calls.\<close>

definition roaming_token_check ::
  "(pyfloat \<Rightarrow> string \<Rightarrow> 'c \<Rightarrow> string option \<times> 'c) \<Rightarrow> (pyfloat \<Rightarrow> string \<Rightarrow> int \<Rightarrow> 'c \<Rightarrow> 'c)
    \<Rightarrow> int \<Rightarrow> pyfloat \<Rightarrow> pyfloat \<Rightarrow> string \<Rightarrow> 'c \<Rightarrow> auth_status \<times> 'c" where
  "roaming_token_check get refr ttl t1 t2 tag c =
     (case get t1 tag c of
        (None, c1) \<Rightarrow> (INVALID, c1)
      | (Some st, c1) \<Rightarrow> if st = ''blacklisted'' then (BLOCKED, c1) else (ACCEPTED, refr t2 tag ttl c1))"

subsection \<open>Price lists\<close>

record partner_price_list =
  pl_partner :: uuid
  pl_connector :: string
  pl_tariff :: uuid
  pl_from :: datetime

definition price_attach :: "partner_price_list \<Rightarrow> partner_price_list list \<Rightarrow> partner_price_list list" where
  "price_attach p es = es @ [p]"

definition price_get_active :: "partner_price_list list \<Rightarrow> uuid \<Rightarrow> string \<Rightarrow> datetime \<Rightarrow> partner_price_list option" where
  "price_get_active es partner connector when =
     max_key pl_from (filter (\<lambda>e. pl_partner e = partner \<and> pl_connector e = connector \<and> pl_from e \<le> when) es)"

subsection \<open>Reconciliation\<close>

definition mismatch_threshold :: pyfloat where
  "mismatch_threshold = fl64 (2 / 100)"

definition delta_fraction :: "pyfloat \<Rightarrow> pyfloat \<Rightarrow> arith_error + pyfloat" where
  "delta_fraction ours theirs =
     (if feq ours (Fin 0) then Inr (if feq theirs (Fin 0) then Fin 0 else Fin 1)
      else fdiv (fabs (fsub theirs ours)) ours)"

record reconciliation_entry =
  re_local :: "string option"
  re_partner :: string
  re_status :: string
  re_delta :: "pyfloat option"

definition delta_status :: "pyfloat \<Rightarrow> pyfloat \<Rightarrow> string" where
  "delta_status delta threshold = (if flt threshold delta then ''mismatched'' else ''matched'')"

definition reconcile_one ::
  "(string, pyfloat) pydict \<Rightarrow> pyfloat \<Rightarrow> string \<times> string option \<times> pyfloat \<Rightarrow> arith_error + reconciliation_entry" where
  "reconcile_one totals threshold rep =
     (case rep of (uid, local, theirs) \<Rightarrow>
        (case (case local of None \<Rightarrow> None | Some l \<Rightarrow> dict_get totals l) of
           None \<Rightarrow> Inr \<lparr>re_local = local, re_partner = uid, re_status = ''pending'', re_delta = None\<rparr>
         | Some ours \<Rightarrow> rbind (delta_fraction ours theirs) (\<lambda>delta.
             Inr \<lparr>re_local = local, re_partner = uid, re_status = delta_status delta threshold, re_delta = Some delta\<rparr>)))"

fun reconcile_cdr_batch ::
  "(string, pyfloat) pydict \<Rightarrow> (string \<times> string option \<times> pyfloat) list \<Rightarrow> pyfloat \<Rightarrow> arith_error + reconciliation_entry list" where
  "reconcile_cdr_batch totals [] threshold = Inr []"
| "reconcile_cdr_batch totals (rep # reps) threshold =
     rbind (reconcile_one totals threshold rep) (\<lambda>e. rbind (reconcile_cdr_batch totals reps threshold) (\<lambda>es. Inr (e # es)))"

definition filter_reconciliation_entries :: "reconciliation_entry list \<Rightarrow> string option \<Rightarrow> reconciliation_entry list" where
  "filter_reconciliation_entries es status = (case status of None \<Rightarrow> es | Some st \<Rightarrow> filter (\<lambda>e. re_status e = st) es)"

type_synonym reconciliation_runs = "(datetime \<times> reconciliation_entry list) list"

definition save_batch :: "reconciliation_entry list \<Rightarrow> datetime \<Rightarrow> reconciliation_runs \<Rightarrow> reconciliation_runs" where
  "save_batch es run_at runs = runs @ [(run_at, es)]"

definition query_runs :: "reconciliation_runs \<Rightarrow> datetime option \<Rightarrow> datetime option \<Rightarrow> reconciliation_entry list" where
  "query_runs runs from until =
     concat (map snd (filter (\<lambda>(run_at, es). \<not> (from \<noteq> None \<and> run_at < the from) \<and> \<not> (until \<noteq> None \<and> the until < run_at)) runs))"

text \<open>
  \<open>csv.writer\<close> in its default dialect: fields separated by commas, a row closed by CR LF, a
  field in quotes when it holds a comma, a quote or a line break, inner quotes doubled.
  \<open>fmt4\<close> is \<open>format(x, '.4f')\<close>.
\<close>

definition csv_field :: "string \<Rightarrow> string" where
  "csv_field f =
     (if list_ex (\<lambda>c. c \<in> {CHR '','', CHR 0x22, CHR 0x0D, CHR 0x0A}) f
      then [CHR 0x22] @ concat (map (\<lambda>c. if c = CHR 0x22 then [c, c] else [c]) f) @ [CHR 0x22] else f)"

definition csv_row :: "string list \<Rightarrow> string" where
  "csv_row fs = concat (case map csv_field fs of [] \<Rightarrow> [] | x # xs \<Rightarrow> x # map (\<lambda>f. '','' @ f) xs) @ [CHR 0x0D, CHR 0x0A]"

definition export_reconciliation_csv :: "(pyfloat \<Rightarrow> string) \<Rightarrow> reconciliation_entry list \<Rightarrow> string" where
  "export_reconciliation_csv fmt4 es =
     csv_row [''local_cdr_id'', ''partner_cdr_uid'', ''status'', ''delta_fraction'']
     @ concat (map (\<lambda>e. csv_row [case re_local e of None \<Rightarrow> [] | Some l \<Rightarrow> l, re_partner e, re_status e,
                                 case re_delta e of None \<Rightarrow> [] | Some d \<Rightarrow> fmt4 d]) es)"

subsection \<open>The operator's routes\<close>

definition partner_to_dict :: "(datetime \<Rightarrow> string) \<Rightarrow> partner \<Rightarrow> (string \<times> json) list" where
  "partner_to_dict isofmt p =
     [(''id'', JStr (str_uuid (pt_id p))), (''tenant_id'', JStr (str_uuid (pt_tenant p))), (''party_id'', JStr (pt_party p)),
      (''country_code'', JStr (pt_country p)), (''negotiated_version'', jopt_str (pt_version p)), (''status'', JStr (pt_status p)),
      (''last_handshake_at'', jopt_str (map_option isofmt (pt_handshake p)))]"

definition route_list_partners :: "(datetime \<Rightarrow> string) \<Rightarrow> partner_registry \<Rightarrow> json" where
  "route_list_partners isofmt r = JObj [(''data'', JList (map (\<lambda>p. JObj (partner_to_dict isofmt p)) (partner_list_all r)))]"

definition route_create_partner ::
  "(datetime \<Rightarrow> string) \<Rightarrow> uuid \<Rightarrow> string \<Rightarrow> uuid \<Rightarrow> string \<Rightarrow> string \<Rightarrow> partner_registry \<Rightarrow> json \<times> partner_registry" where
  "route_create_partner isofmt i token tenant party country r =
     (let (p, r') = partner_create i tenant party country token r
      in (JObj (partner_to_dict isofmt p @ [(''token_a'', JStr token)]), r'))"

definition route_rotate_token :: "string \<Rightarrow> uuid \<Rightarrow> partner_registry \<Rightarrow> (py_error + json) \<times> partner_registry" where
  "route_rotate_token token i r =
     (case registry_rotate_token_a i token r of
        (Inl e, r') \<Rightarrow> (Inl e, r') | (Inr _, r') \<Rightarrow> (Inr (JObj [(''token_a'', JStr token)]), r'))"

definition route_attach_price_list ::
  "(datetime \<Rightarrow> string) \<Rightarrow> uuid \<Rightarrow> string \<Rightarrow> uuid \<Rightarrow> datetime \<Rightarrow> partner_price_list list \<Rightarrow> json \<times> partner_price_list list" where
  "route_attach_price_list isofmt partner connector tariff from es =
     (JObj [(''partner_id'', JStr (str_uuid partner)), (''connector_type'', JStr connector),
            (''tariff_id'', JStr (str_uuid tariff)), (''effective_from'', JStr (isofmt from))],
      price_attach \<lparr>pl_partner = partner, pl_connector = connector, pl_tariff = tariff, pl_from = from\<rparr> es)"

definition entry_dict :: "reconciliation_entry \<Rightarrow> json" where
  "entry_dict e = JObj [(''local_cdr_id'', jopt_str (re_local e)), (''partner_cdr_uid'', JStr (re_partner e)),
     (''status'', JStr (re_status e)), (''delta_fraction'', case re_delta e of None \<Rightarrow> JNull | Some d \<Rightarrow> JFloat d)]"

definition route_reconciliation :: "string option \<Rightarrow> datetime option \<Rightarrow> datetime option \<Rightarrow> reconciliation_runs \<Rightarrow> json" where
  "route_reconciliation status from until runs =
     JObj [(''data'', JList (map entry_dict (filter_reconciliation_entries (query_runs runs from until) status)))]"

definition route_reconciliation_export ::
  "(pyfloat \<Rightarrow> string) \<Rightarrow> string option \<Rightarrow> datetime option \<Rightarrow> datetime option \<Rightarrow> reconciliation_runs \<Rightarrow> string" where
  "route_reconciliation_export fmt4 status from until runs =
     export_reconciliation_csv fmt4 (filter_reconciliation_entries (query_runs runs from until) status)"

definition route_bind_session :: "string \<Rightarrow> string \<Rightarrow> uuid \<Rightarrow> int \<Rightarrow> session_charger_map \<Rightarrow> json \<times> session_charger_map" where
  "route_bind_session sid charger tenant connector m =
     (JObj [(''session_id'', JStr sid), (''charger_id'', JStr charger), (''connector_id'', JInt connector)],
      set_binding sid \<lparr>sb_charger = charger, sb_tenant = tenant, sb_connector = connector\<rparr> m)"

subsection \<open>The registry invariant\<close>

text \<open>
  Partners are stored under their own id and no two hold the same token_c (it is drawn
  afresh at every handshake).
\<close>

definition registry_ok :: "partner_registry \<Rightarrow> bool" where
  "registry_ok r \<longleftrightarrow> dict_inv r \<and> list_all (\<lambda>(i, p). pt_id p = i) r
     \<and> list_all (\<lambda>(i, p). list_all (\<lambda>(j, q). pt_token_c p = None \<or> pt_token_c p \<noteq> pt_token_c q \<or> i = j) r) r"

lemma registry_get_id: "registry_ok r \<Longrightarrow> dict_get r i = Some p \<Longrightarrow> pt_id p = i"
  by (drule map_of_SomeD) (auto simp: registry_ok_def list_all_iff)

lemma registry_token_unique:
  assumes "registry_ok r" and "dict_get r i = Some p" and "dict_get r j = Some q"
    and "pt_token_c p = Some t" and "pt_token_c q = Some t"
  shows "i = j"
  using assms map_of_SomeD[OF assms(2)] map_of_SomeD[OF assms(3)]
  by (fastforce simp: registry_ok_def list_all_iff)

lemma registry_okI:
  assumes "dict_inv r" and "\<And>i p. dict_get r i = Some p \<Longrightarrow> pt_id p = i"
    and "\<And>i j p q t. dict_get r i = Some p \<Longrightarrow> dict_get r j = Some q \<Longrightarrow> pt_token_c p = Some t \<Longrightarrow> pt_token_c q = Some t \<Longrightarrow> i = j"
  shows "registry_ok r"
proof -
  have g: "(i, p) \<in> set r \<Longrightarrow> dict_get r i = Some p" for i p using assms(1) by simp
  have "pt_token_c p = None \<or> pt_token_c p \<noteq> pt_token_c q \<or> i = j" if "(i, p) \<in> set r" "(j, q) \<in> set r" for i p j q
    using assms(3)[OF g[OF that(1)] g[OF that(2)]] by (cases "pt_token_c p") auto
  then show ?thesis using assms(1) assms(2)[OF g] by (fastforce simp: registry_ok_def list_all_iff)
qed

lemma authenticate_iff:
  assumes "registry_ok r"
  shows "authenticate_partner r t = Inr i \<longleftrightarrow> (\<exists>p. dict_get r i = Some p \<and> pt_token_c p = Some t)"
proof
  assume "authenticate_partner r t = Inr i"
  then obtain p where p: "find_by_token_c r t = Some p" "pt_id p = i"
    by (auto simp: authenticate_partner_def split: option.splits)
  have "dict_inv r" using assms by (simp add: registry_ok_def)
  from first_match_dict[OF this p(1)[unfolded find_by_token_c_def]]
  show "\<exists>p. dict_get r i = Some p \<and> pt_token_c p = Some t" using registry_get_id[OF assms] p(2) by blast
next
  assume "\<exists>p. dict_get r i = Some p \<and> pt_token_c p = Some t"
  then obtain p where p: "dict_get r i = Some p" "pt_token_c p = Some t" by blast
  then obtain q where q: "find_by_token_c r t = Some q"
    using first_match_dict_exists[of r i p "\<lambda>p. pt_token_c p = Some t"] by (auto simp: find_by_token_c_def)
  have "dict_inv r" using assms by (simp add: registry_ok_def)
  from first_match_dict[OF this q[unfolded find_by_token_c_def]]
  obtain j where j: "dict_get r j = Some q" "pt_token_c q = Some t" by blast
  then have "i = j" using registry_token_unique[OF assms p(1) j(1) p(2) j(2)] by simp
  then show "authenticate_partner r t = Inr i"
    using registry_get_id[OF assms j(1)] q by (simp add: authenticate_partner_def)
qed

lemma find_by_token_a_get:
  assumes "registry_ok r" and "find_by_token_a r t = Some p"
  shows "dict_get r (pt_id p) = Some p"
proof -
  have "dict_inv r" using assms(1) by (simp add: registry_ok_def)
  from first_match_dict[OF this assms(2)[unfolded find_by_token_a_def]]
  show ?thesis using registry_get_id[OF assms(1)] by blast
qed

text \<open>
  A handshake that answers gives the partner exactly one credential: the new token_c
  authenticates it, no token it held before does any more, every other partner authenticates
  as before, and token_c values stay unique. A handshake that is refused changes nothing.
\<close>

theorem handshake_replaces_credential:
  assumes "registry_ok r" and "\<forall>i p. dict_get r i = Some p \<longrightarrow> pt_token_c p \<noteq> Some new_token"
    and "negotiate_credentials isofmt t1 t2 new_token token_a version r = (res, r')"
  shows "case res of
      Inl e \<Rightarrow> r' = r \<and> (version \<in> set supported_versions \<longrightarrow> find_by_token_a r token_a = None)
    | Inr body \<Rightarrow> registry_ok r' \<and> (\<exists>p. find_by_token_a r token_a = Some p
        \<and> (\<forall>t. authenticate_partner r' t = Inr (pt_id p) \<longleftrightarrow> t = new_token)
        \<and> (\<forall>t i. i \<noteq> pt_id p \<longrightarrow> (authenticate_partner r' t = Inr i \<longleftrightarrow> authenticate_partner r t = Inr i)))"
proof (cases "version \<in> set supported_versions \<and> (\<exists>p. find_by_token_a r token_a = Some p)")
  case False
  then show ?thesis using assms(3) by (auto simp: negotiate_credentials_def split: if_splits option.splits)
next
  case True
  then obtain p where p: "find_by_token_a r token_a = Some p" "version \<in> set supported_versions" by blast
  note g = find_by_token_a_get[OF assms(1) p(1)]
  let ?q = "p\<lparr>pt_version := Some version, pt_token_c := Some new_token, pt_status := ''connected'', pt_handshake := Some t1\<rparr>"
  have r: "(\<exists>body. res = Inr body)" "r' = dict_set (pt_id p) ?q r"
    using assms(3) p g by (auto simp: negotiate_credentials_def set_negotiated_version_def)
  have ok: "registry_ok r'"
  proof (rule registry_okI)
    show "dict_inv r'" using assms(1) unfolding r(2) by (intro dict_inv_set) (simp add: registry_ok_def)
    show "\<And>i x. dict_get r' i = Some x \<Longrightarrow> pt_id x = i"
      using registry_get_id[OF assms(1)] by (auto simp: r(2) split: if_splits)
    show "\<And>i j x y t. dict_get r' i = Some x \<Longrightarrow> dict_get r' j = Some y \<Longrightarrow> pt_token_c x = Some t \<Longrightarrow> pt_token_c y = Some t \<Longrightarrow> i = j"
      using registry_token_unique[OF assms(1)] assms(2) by (auto simp: r(2) split: if_splits)
  qed
  then show ?thesis using r(1) p(1) assms(1) by (auto simp: authenticate_iff r(2))
qed

definition sample_partner :: partner where
  "sample_partner = \<lparr>pt_id = 1, pt_tenant = 7, pt_party = ''EVA'', pt_country = ''DE'', pt_token_a = ''A'', pt_token_c = Some ''old'',
     pt_version = Some ''2.2.1'', pt_status = ''connected'', pt_handshake = Some 0\<rparr>"

theorem handshake_replaces_credential_witness:
  "authenticate_partner (snd (negotiate_credentials (\<lambda>_. []) 5 6 ''new'' ''A'' ''2.3.0'' [(1, sample_partner)])) ''new'' = Inr 1
   \<and> authenticate_partner (snd (negotiate_credentials (\<lambda>_. []) 5 6 ''new'' ''A'' ''2.3.0'' [(1, sample_partner)])) ''old'' \<noteq> Inr 1"
proof -
  let ?r = "[(1, sample_partner)]" and ?n = "negotiate_credentials (\<lambda>_. []) 5 6 ''new'' ''A'' ''2.3.0'' [(1, sample_partner)]"
  have ok: "registry_ok ?r" by (simp add: registry_ok_def sample_partner_def)
  have fresh: "\<forall>i p. dict_get ?r i = Some p \<longrightarrow> pt_token_c p \<noteq> Some ''new''" by (simp add: sample_partner_def)
  have f: "find_by_token_a ?r ''A'' = Some sample_partner" "pt_id sample_partner = 1" "''2.3.0'' \<in> set supported_versions"
    by (simp_all add: find_by_token_a_def sample_partner_def supported_versions_def)
  show ?thesis
    using handshake_replaces_credential[OF ok fresh surjective_pairing, of "\<lambda>_. []" 5 6 "''A''" "''2.3.0''"] f
    by (cases "fst ?n") simp_all
qed

subsection \<open>The token cache as an interface\<close>

text \<open>
  What the checker needs of a cache: \<open>view t c k\<close> is what \<open>get_status\<close> would answer at
  time \<open>t\<close>. Reading does not change a later answer for the entry it found, and a refresh
  keeps the entry until \<open>ttl\<close> seconds after it.
\<close>

locale token_cache_laws =
  fixes get :: "pyfloat \<Rightarrow> string \<Rightarrow> 'c \<Rightarrow> string option \<times> 'c"
    and refr :: "pyfloat \<Rightarrow> string \<Rightarrow> int \<Rightarrow> 'c \<Rightarrow> 'c"
    and view :: "pyfloat \<Rightarrow> 'c \<Rightarrow> string \<Rightarrow> string option"
  assumes get_view: "fst (get t k c) = view t c k"
    and get_keeps: "view t c k = Some st \<Longrightarrow> snd (get t k c) = c"
    and refresh_view: "view t c k = Some st \<Longrightarrow>
      view u (refr t2 k ttl c) k = (if fle (expiry t2 ttl) u then None else Some st)"
begin

lemma check_accepts:
  assumes "view t1 c k = Some st" and "st \<noteq> ''blacklisted''"
  shows "roaming_token_check get refr ttl t1 t2 k c = (ACCEPTED, refr t2 k ttl c)"
proof (cases "get t1 k c")
  case (Pair a c1)
  then show ?thesis using get_view[of t1 k c] get_keeps[OF assms(1)] assms by (simp add: roaming_token_check_def)
qed

lemma check_status:
  "fst (roaming_token_check get refr ttl t1 t2 k c) =
     (case view t1 c k of None \<Rightarrow> INVALID | Some st \<Rightarrow> if st = ''blacklisted'' then BLOCKED else ACCEPTED)"
  using get_view[of t1 k c] by (cases "get t1 k c") (auto simp: roaming_token_check_def split: option.splits)

text \<open>A sequence of checks at the pairs of clock readings \<open>ts\<close>.\<close>

lemma checks_accept:
  assumes "view (fst t) c k = Some st" and "st \<noteq> ''blacklisted''"
    and "\<forall>i < length ts. \<not> fle (expiry (snd ((t # ts) ! i)) ttl) (fst (ts ! i))"
  shows "view (fst u) (fold (\<lambda>t c. snd (roaming_token_check get refr ttl (fst t) (snd t) k c)) (t # ts) c) k
         = (if fle (expiry (snd (last (t # ts))) ttl) (fst u) then None else Some st)"
  using assms(1,3)
proof (induction ts arbitrary: t c)
  case Nil
  then show ?case by (simp add: check_accepts[OF Nil.prems(1) assms(2)] refresh_view[OF Nil.prems(1)])
next
  case (Cons t' ts)
  let ?c = "refr (snd t) k ttl c"
  have n: "\<not> fle (expiry (snd t) ttl) (fst t')" using Cons.prems(2) by fastforce
  then have v: "view (fst t') ?c k = Some st" by (simp add: refresh_view[OF Cons.prems(1)])
  have "\<forall>i < length ts. \<not> fle (expiry (snd ((t' # ts) ! i)) ttl) (fst (ts ! i))"
    using Cons.prems(2) by (metis Suc_less_eq length_Cons nth_Cons_Suc)
  from Cons.IH[OF v this] show ?case by (simp add: check_accepts[OF Cons.prems(1) assms(2)])
qed

end

definition cache_view :: "pyfloat \<Rightarrow> token_cache \<Rightarrow> string \<Rightarrow> string option" where
  "cache_view t c k = fst (cache_get_status t k c)"

interpretation memory_cache: token_cache_laws cache_get_status cache_refresh_ttl cache_view
  by unfold_locales
    (auto simp: cache_view_def cache_get_status_def cache_refresh_ttl_def split: option.splits if_splits)

text \<open>
  A roaming driver's token, once whitelisted, is accepted at every Authorize check
  as long as each check comes before the entry of the previous one expires (the refresh on
  every check keeps it alive indefinitely); the first check after a gap of the whole
  time-to-live finds it invalid. A blacklisted token is blocked until its entry expires.
\<close>

theorem whitelisted_token_stays_accepted:
  assumes "c = whitelist_token ttl t0 uid c0" and "\<not> fle (expiry t0 ttl) (fst t)"
    and "\<forall>i < length ts. \<not> fle (expiry (snd ((t # ts) ! i)) ttl) (fst (ts ! i))"
  shows "fst (roaming_token_check cache_get_status cache_refresh_ttl ttl (fst u) (snd u) uid
      (fold (\<lambda>t c. snd (roaming_token_check cache_get_status cache_refresh_ttl ttl (fst t) (snd t) uid c)) (t # ts) c))
    = (if fle (expiry (snd (last (t # ts))) ttl) (fst u) then INVALID else ACCEPTED)"
proof -
  have "cache_view (fst t) c uid = Some ''whitelisted''"
    using assms(1,2) by (simp add: cache_view_def cache_get_status_def whitelist_token_def cache_set_status_def)
  from memory_cache.checks_accept[OF this _ assms(3), of u] show ?thesis
    by (simp add: memory_cache.check_status del: fold_simps)
qed

theorem whitelisted_token_stays_accepted_witness:
  "fst (roaming_token_check cache_get_status cache_refresh_ttl 3600 (Fin 9000) (Fin 9000) ''T''
      (fold (\<lambda>t c. snd (roaming_token_check cache_get_status cache_refresh_ttl 3600 (fst t) (snd t) ''T'' c))
         [(Fin 3000, Fin 3000), (Fin 6000, Fin 6000)] (whitelist_token 3600 (Fin 0) ''T'' []))) = ACCEPTED"
proof -
  have e: "fl64 (of_int n) = Fin (of_int n)" if "\<bar>n\<bar> \<le> 2 ^ 53" for n using that by (rule fl64_of_int)
  have x: "expiry (Fin 0) 3600 = Fin 3600" "expiry (Fin 3000) 3600 = Fin 6600" "expiry (Fin 6000) 3600 = Fin 9600"
    using e[of 3600] e[of 6600] e[of 9600] by (simp_all add: expiry_def)
  show ?thesis
    using whitelisted_token_stays_accepted[of "whitelist_token 3600 (Fin 0) ''T'' []" 3600 "Fin 0" "''T''" "[]" "(Fin 3000, Fin 3000)"
        "[(Fin 6000, Fin 6000)]" "(Fin 9000, Fin 9000)"] x
    by (simp add: fle_def del: fold_simps)
qed

subsection \<open>Reconciliation reports\<close>

lemma delta_fraction_total: "\<exists>d. delta_fraction ours theirs = Inr d"
proof (cases ours)
  case (Fin q)
  then show ?thesis by (simp add: delta_fraction_def)
qed (cases "fabs (fsub theirs ours)"; simp add: delta_fraction_def)+

lemma fl64_nonpos: "q \<le> 0 \<Longrightarrow> flt (Fin 0) (fl64 q) = False"
  using rnd64_nonneg[of "- q"] rnd64_minus[of q] by (auto simp: fl64_def Let_def)

lemma mismatch_threshold_pos: "mismatch_threshold = Fin (rnd64 (2 / 100))" "0 \<le> rnd64 (2 / 100)"
  using fl64_finite[of "2 / 100" 0] by (simp_all add: mismatch_threshold_def rnd64_nonneg)

lemma negative_local_matches:
  assumes "ours < 0" and "delta_fraction (Fin ours) theirs = Inr d"
  shows "\<not> flt mismatch_threshold d"
proof -
  have d: "d = fdiv_fin (fabs (fsub theirs (Fin ours))) ours" using assms by (simp add: delta_fraction_def)
  have "\<not> flt (Fin 0) d"
  proof (cases "fabs (fsub theirs (Fin ours))")
    case (Fin q)
    then have "0 \<le> q" by (cases "fsub theirs (Fin ours)") auto
    then show ?thesis using Fin d assms(1) by (simp add: fl64_nonpos divide_nonneg_neg)
  next
    case NegInf
    then show ?thesis by (cases "fsub theirs (Fin ours)") simp_all
  qed (use d assms(1) in simp_all)
  then show ?thesis using mismatch_threshold_pos(2) unfolding mismatch_threshold_pos(1) by (cases d) simp_all
qed

text \<open>What an entry must say of the report it stands for.\<close>

definition entry_for :: "(string, pyfloat) pydict \<Rightarrow> string \<times> string option \<times> pyfloat \<Rightarrow> reconciliation_entry \<Rightarrow> bool" where
  "entry_for totals rep e \<longleftrightarrow> re_partner e = fst rep \<and> re_local e = fst (snd rep)
     \<and> (case (case fst (snd rep) of None \<Rightarrow> None | Some l \<Rightarrow> dict_get totals l) of
          None \<Rightarrow> re_status e = ''pending''
        | Some (Fin ours) \<Rightarrow> if ours < 0 then re_status e = ''matched'' else re_status e \<in> {''matched'', ''mismatched''}
        | Some _ \<Rightarrow> re_status e \<in> {''matched'', ''mismatched''})"

lemma reconcile_one_total: "\<exists>e. reconcile_one totals mismatch_threshold rep = Inr e \<and> entry_for totals rep e"
proof (cases rep)
  case (fields uid l theirs)
  show ?thesis
  proof (cases "case l of None \<Rightarrow> None | Some l \<Rightarrow> dict_get totals l")
    case None
    then show ?thesis using fields by (auto simp: reconcile_one_def entry_for_def split: option.splits)
  next
    case (Some ours)
    obtain d where d: "delta_fraction ours theirs = Inr d" using delta_fraction_total by blast
    have "\<not> flt mismatch_threshold d" if "ours = Fin q" "q < 0" for q using d that negative_local_matches by blast
    then show ?thesis using fields Some d
      by (auto simp: reconcile_one_def entry_for_def delta_status_def split: pyfloat.split)
  qed
qed

text \<open>
  A reconciliation run never raises. It yields exactly one entry per partner report,
  in the order of the reports and with its ids; an entry is pending exactly when the report
  names no local CDR or an unknown one. An entry whose local total is negative (a credit)
  is always reported as matched, however large the difference: the deviation is divided
  by the signed total.
\<close>

theorem reconcile_batch_complete:
  "\<exists>es. reconcile_cdr_batch totals reps mismatch_threshold = Inr es \<and> list_all2 (entry_for totals) reps es"
proof (induction reps)
  case Nil
  show ?case by simp
next
  case (Cons rep reps)
  with reconcile_one_total[of totals rep] show ?case by auto
qed

end
