(* ===== verification/Ocpi_Data.thy ===== *)
theory Ocpi_Data
  imports Ocpi_Partners Tariffs
begin

text \<open>
  The data OCPI exchanges: the internal domain model (\<open>ocpi/domain.py\<close>) and its adapters to
  the wire schemas of the three versions (\<open>ocpi/v211_shim\<close>, \<open>ocpi/v221\<close>, \<open>ocpi/v230\<close>), the
  location read model and its synchronisation (\<open>ocpi/locations.py\<close>,
  \<open>ocpi/location_sync.py\<close>), session pushes (\<open>ocpi/session_sync.py\<close>), charge detail records
  (\<open>ocpi/cdr.py\<close>), the tariff bridge (\<open>ocpi/tariff_bridge.py\<close>) and the partner-facing routes
  (\<open>ocpi/router.py\<close>). \<open>isojson\<close> is the JSON form of a datetime in \<open>model_dump\<close>.
\<close>

subsection \<open>Domain model\<close>

record geo_location =
  gl_latitude :: string
  gl_longitude :: string

record ocpi_location =
  ol_id :: string
  ol_party :: string
  ol_country_code :: string
  ol_publish :: bool
  ol_name :: "string option"
  ol_address :: string
  ol_city :: string
  ol_postal :: "string option"
  ol_country :: string
  ol_coordinates :: geo_location
  ol_updated :: datetime
  ol_evse :: "string option"

record ocpi_price_component =
  opc_type :: string
  opc_price :: pyfloat
  opc_step :: int

record ocpi_tariff_element =
  ote_components :: "ocpi_price_component list"

record ocpi_tariff =
  ot_id :: string
  ot_party :: string
  ot_country_code :: string
  ot_currency :: string
  ot_elements :: "ocpi_tariff_element list"
  ot_updated :: datetime

record ocpi_cdr =
  od_id :: string
  od_start :: datetime
  od_end :: datetime
  od_token :: string
  od_auth :: string
  od_currency :: string
  od_cost :: pyfloat
  od_energy :: pyfloat
  od_updated :: datetime

subsection \<open>Wire schemas and adapters\<close>

record location_v211 =
  l211_id :: string
  l211_type :: string
  l211_name :: "string option"
  l211_address :: string
  l211_city :: string
  l211_postal :: "string option"
  l211_country :: string
  l211_coordinates :: geo_location
  l211_updated :: datetime

record tariff_v211 =
  t211_id :: string
  t211_currency :: string
  t211_updated :: datetime

definition location_to_v211 :: "ocpi_location \<Rightarrow> location_v211" where
  "location_to_v211 l = \<lparr>l211_id = ol_id l, l211_type = ''ON_STREET'', l211_name = ol_name l, l211_address = ol_address l,
     l211_city = ol_city l, l211_postal = ol_postal l, l211_country = ol_country l,
     l211_coordinates = \<lparr>gl_latitude = gl_latitude (ol_coordinates l), gl_longitude = gl_longitude (ol_coordinates l)\<rparr>,
     l211_updated = ol_updated l\<rparr>"

definition tariff_to_v211 :: "ocpi_tariff \<Rightarrow> tariff_v211" where
  "tariff_to_v211 t = \<lparr>t211_id = ot_id t, t211_currency = ot_currency t, t211_updated = ot_updated t\<rparr>"

record location_v221 =
  l221_id :: string
  l221_party :: string
  l221_country_code :: string
  l221_publish :: bool
  l221_name :: "string option"
  l221_address :: string
  l221_city :: string
  l221_postal :: "string option"
  l221_country :: string
  l221_coordinates :: geo_location
  l221_updated :: datetime

definition location_to_v221 :: "ocpi_location \<Rightarrow> location_v221" where
  "location_to_v221 l = \<lparr>l221_id = ol_id l, l221_party = ol_party l, l221_country_code = ol_country_code l,
     l221_publish = ol_publish l, l221_name = ol_name l, l221_address = ol_address l, l221_city = ol_city l,
     l221_postal = ol_postal l, l221_country = ol_country l,
     l221_coordinates = \<lparr>gl_latitude = gl_latitude (ol_coordinates l), gl_longitude = gl_longitude (ol_coordinates l)\<rparr>,
     l221_updated = ol_updated l\<rparr>"

definition location_from_v221 :: "location_v221 \<Rightarrow> ocpi_location" where
  "location_from_v221 p = \<lparr>ol_id = l221_id p, ol_party = l221_party p, ol_country_code = l221_country_code p,
     ol_publish = l221_publish p, ol_name = l221_name p, ol_address = l221_address p, ol_city = l221_city p,
     ol_postal = l221_postal p, ol_country = l221_country p,
     ol_coordinates = \<lparr>gl_latitude = gl_latitude (l221_coordinates p), gl_longitude = gl_longitude (l221_coordinates p)\<rparr>,
     ol_updated = l221_updated p, ol_evse = None\<rparr>"

record price_component_v221 =
  pc221_type :: string
  pc221_price :: pyfloat
  pc221_step :: int

record tariff_v221 =
  t221_id :: string
  t221_party :: string
  t221_country_code :: string
  t221_currency :: string
  t221_elements :: "price_component_v221 list list"
  t221_updated :: datetime

definition tariff_to_v221 :: "ocpi_tariff \<Rightarrow> tariff_v221" where
  "tariff_to_v221 t = \<lparr>t221_id = ot_id t, t221_party = ot_party t, t221_country_code = ot_country_code t,
     t221_currency = ot_currency t,
     t221_elements = map (\<lambda>e. map (\<lambda>pc. \<lparr>pc221_type = opc_type pc, pc221_price = opc_price pc, pc221_step = opc_step pc\<rparr>)
        (ote_components e)) (ot_elements t),
     t221_updated = ot_updated t\<rparr>"

record location_v230 =
  l230_id :: string
  l230_party :: string
  l230_country_code :: string
  l230_publish :: bool
  l230_name :: "string option"
  l230_address :: string
  l230_city :: string
  l230_postal :: "string option"
  l230_country :: string
  l230_coordinates :: geo_location
  l230_facilities :: "string list option"
  l230_updated :: datetime

definition location_to_v230 :: "ocpi_location \<Rightarrow> location_v230" where
  "location_to_v230 l = \<lparr>l230_id = ol_id l, l230_party = ol_party l, l230_country_code = ol_country_code l,
     l230_publish = ol_publish l, l230_name = ol_name l, l230_address = ol_address l, l230_city = ol_city l,
     l230_postal = ol_postal l, l230_country = ol_country l,
     l230_coordinates = \<lparr>gl_latitude = gl_latitude (ol_coordinates l), gl_longitude = gl_longitude (ol_coordinates l)\<rparr>,
     l230_facilities = None, l230_updated = ol_updated l\<rparr>"

definition location_from_v230 :: "location_v230 \<Rightarrow> ocpi_location" where
  "location_from_v230 p = \<lparr>ol_id = l230_id p, ol_party = l230_party p, ol_country_code = l230_country_code p,
     ol_publish = l230_publish p, ol_name = l230_name p, ol_address = l230_address p, ol_city = l230_city p,
     ol_postal = l230_postal p, ol_country = l230_country p,
     ol_coordinates = \<lparr>gl_latitude = gl_latitude (l230_coordinates p), gl_longitude = gl_longitude (l230_coordinates p)\<rparr>,
     ol_updated = l230_updated p, ol_evse = None\<rparr>"

record price_component_v230 =
  pc230_type :: string
  pc230_price :: pyfloat
  pc230_step :: int

record tariff_v230 =
  t230_id :: string
  t230_party :: string
  t230_country_code :: string
  t230_currency :: string
  t230_elements :: "price_component_v230 list list"
  t230_updated :: datetime

definition tariff_to_v230 :: "ocpi_tariff \<Rightarrow> tariff_v230" where
  "tariff_to_v230 t = \<lparr>t230_id = ot_id t, t230_party = ot_party t, t230_country_code = ot_country_code t,
     t230_currency = ot_currency t,
     t230_elements = map (\<lambda>e. map (\<lambda>pc. \<lparr>pc230_type = opc_type pc, pc230_price = opc_price pc, pc230_step = opc_step pc\<rparr>)
        (ote_components e)) (ot_elements t),
     t230_updated = ot_updated t\<rparr>"

subsection \<open>The location read model\<close>

type_synonym location_repo = "(string, ocpi_location) pydict"

definition location_get :: "location_repo \<Rightarrow> string \<Rightarrow> ocpi_location option" where
  "location_get r i = dict_get r i"

definition location_list_all :: "location_repo \<Rightarrow> ocpi_location list" where
  "location_list_all r = dict_values r"

definition location_upsert :: "ocpi_location \<Rightarrow> location_repo \<Rightarrow> location_repo" where
  "location_upsert l r = dict_set (ol_id l) l r"

definition set_mapping :: "string \<Rightarrow> string \<Rightarrow> (string, string) pydict \<Rightarrow> (string, string) pydict" where
  "set_mapping charger location m = dict_set charger location m"

definition get_location_id_for_charger :: "(string, string) pydict \<Rightarrow> string \<Rightarrow> string option" where
  "get_location_id_for_charger m charger = dict_get m charger"

text \<open>A push client: it may raise \<open>PartnerPushError(message)\<close>; its state is what it has sent.\<close>

datatype push_error = PartnerPushError string | SessionPushError string

type_synonym 'p location_pusher = "uuid \<Rightarrow> ocpi_location \<Rightarrow> 'p \<Rightarrow> (push_error + unit) \<times> 'p"

definition memory_push_location :: "(uuid \<times> ocpi_location) list location_pusher" where
  "memory_push_location partner l sent = (Inr (), sent @ [(partner, l)])"

text \<open>
  The HTTP client: \<open>patch url body headers\<close> answers a status code or raises an
  \<open>httpx.HTTPError\<close>, here the string of the exception.
\<close>

type_synonym 'n http_patch = "string \<Rightarrow> json \<Rightarrow> (string \<times> string) list \<Rightarrow> 'n \<Rightarrow> (string + int) \<times> 'n"

definition rstrip_slash :: "string \<Rightarrow> string" where
  "rstrip_slash s = rev (dropWhile (\<lambda>c. c = CHR ''/'') (rev s))"

definition location_json :: "(datetime \<Rightarrow> string) \<Rightarrow> ocpi_location \<Rightarrow> json" where
  "location_json isojson l =
     JObj [(''id'', JStr (ol_id l)), (''party_id'', JStr (ol_party l)), (''country_code'', JStr (ol_country_code l)),
       (''publish'', JBool (ol_publish l)), (''name'', jopt_str (ol_name l)), (''address'', JStr (ol_address l)),
       (''city'', JStr (ol_city l)), (''postal_code'', jopt_str (ol_postal l)), (''country'', JStr (ol_country l)),
       (''coordinates'', JObj [(''latitude'', JStr (gl_latitude (ol_coordinates l))), (''longitude'', JStr (gl_longitude (ol_coordinates l)))]),
       (''last_updated'', JStr (isojson (ol_updated l))), (''evse_status'', jopt_str (ol_evse l))]"

definition http_push_location :: "'n http_patch \<Rightarrow> (datetime \<Rightarrow> string) \<Rightarrow> string \<Rightarrow> string \<Rightarrow> 'n location_pusher" where
  "http_push_location patch isojson base_url token partner l n =
     (case patch (rstrip_slash base_url @ ''/locations/'' @ ol_country_code l @ ''/'' @ ol_party l @ ''/'' @ ol_id l)
             (location_json isojson l) [(''Authorization'', ''Token '' @ token)] n of
        (Inl exc, n') \<Rightarrow> (Inl (PartnerPushError (''partner '' @ str_uuid partner @ '' unreachable: '' @ exc)), n')
      | (Inr code, n') \<Rightarrow>
        if 400 \<le> code then (Inl (PartnerPushError (''partner '' @ str_uuid partner @ '' rejected location push (status '' @ str_int code @ '')'')), n')
        else (Inr (), n'))"

text \<open>The loop over the connected partners; it stops at the first push that raises.\<close>

fun push_to_all :: "'p location_pusher \<Rightarrow> uuid list \<Rightarrow> ocpi_location \<Rightarrow> 'p \<Rightarrow> (push_error + unit) \<times> 'p" where
  "push_to_all push [] l p = (Inr (), p)"
| "push_to_all push (i # js) l p =
     (case push i l p of (Inl e, p') \<Rightarrow> (Inl e, p') | (Inr _, p') \<Rightarrow> push_to_all push js l p')"

record 'p location_sync =
  ls_map :: "(string, string) pydict"
  ls_repo :: location_repo
  ls_push :: 'p

definition sync_status_notification ::
  "'p location_pusher \<Rightarrow> datetime \<Rightarrow> string \<Rightarrow> string \<Rightarrow> uuid list \<Rightarrow> 'p location_sync
    \<Rightarrow> (push_error + ocpi_location option) \<times> 'p location_sync" where
  "sync_status_notification push now charger status partners s =
     (case get_location_id_for_charger (ls_map s) charger of
        None \<Rightarrow> (Inr None, s)
      | Some i \<Rightarrow>
        (case location_get (ls_repo s) i of
           None \<Rightarrow> (Inr None, s)
         | Some l \<Rightarrow>
           (let l' = l\<lparr>ol_evse := Some status, ol_updated := now\<rparr>;
                s1 = s\<lparr>ls_repo := location_upsert l' (ls_repo s)\<rparr>;
                (r, p) = push_to_all push partners l' (ls_push s1)
            in (case r of Inl e \<Rightarrow> Inl e | Inr _ \<Rightarrow> Inr (Some l'), s1\<lparr>ls_push := p\<rparr>))))"

subsection \<open>Session pushes\<close>

definition memory_push_session :: "uuid \<Rightarrow> string \<Rightarrow> pyfloat \<Rightarrow> (uuid \<times> string \<times> pyfloat) list \<Rightarrow> (push_error + unit) \<times> (uuid \<times> string \<times> pyfloat) list" where
  "memory_push_session partner sid kwh sent = (Inr (), sent @ [(partner, sid, kwh)])"

definition http_push_session :: "'n http_patch \<Rightarrow> string \<Rightarrow> string \<Rightarrow> uuid \<Rightarrow> string \<Rightarrow> pyfloat \<Rightarrow> 'n \<Rightarrow> (push_error + unit) \<times> 'n" where
  "http_push_session patch base_url token partner sid kwh n =
     (case patch (rstrip_slash base_url @ ''/sessions/'' @ sid) (JObj [(''kwh'', JFloat kwh)]) [(''Authorization'', ''Token '' @ token)] n of
        (Inl exc, n') \<Rightarrow> (Inl (SessionPushError (''partner '' @ str_uuid partner @ '' unreachable: '' @ exc)), n')
      | (Inr code, n') \<Rightarrow>
        if 400 \<le> code then (Inl (SessionPushError (''partner '' @ str_uuid partner @ '' rejected session push (status '' @ str_int code @ '')'')), n')
        else (Inr (), n'))"

definition sync_meter_values ::
  "(uuid \<Rightarrow> string \<Rightarrow> pyfloat \<Rightarrow> 'p \<Rightarrow> (push_error + unit) \<times> 'p) \<Rightarrow> uuid \<Rightarrow> string \<Rightarrow> pyfloat \<Rightarrow> 'p \<Rightarrow> (push_error + unit) \<times> 'p" where
  "sync_meter_values push partner sid kwh p = push partner sid kwh p"

subsection \<open>Charge detail records\<close>

record 'p cdr_service =
  cd_store :: "(string, ocpi_cdr) pydict"
  cd_client :: 'p
  cd_pushed :: "(uuid \<times> string) list"

definition cdr_get_by_session :: "(string, ocpi_cdr) pydict \<Rightarrow> string \<Rightarrow> ocpi_cdr option" where
  "cdr_get_by_session st sid = dict_get st sid"

definition cdr_save :: "string \<Rightarrow> ocpi_cdr \<Rightarrow> (string, ocpi_cdr) pydict \<Rightarrow> (string, ocpi_cdr) pydict" where
  "cdr_save sid c st = dict_set sid c st"

definition memory_push_cdr :: "uuid \<Rightarrow> ocpi_cdr \<Rightarrow> (uuid \<times> string) list \<Rightarrow> (push_error + unit) \<times> (uuid \<times> string) list" where
  "memory_push_cdr partner c sent = (Inr (), sent @ [(partner, od_id c)])"

text \<open>\<open>factory\<close> is the record \<open>cdr_factory()\<close> would return.\<close>

definition generate_cdr_on_stop_transaction :: "string \<Rightarrow> ocpi_cdr \<Rightarrow> 'p cdr_service \<Rightarrow> ocpi_cdr \<times> 'p cdr_service" where
  "generate_cdr_on_stop_transaction sid factory s =
     (case cdr_get_by_session (cd_store s) sid of
        Some c \<Rightarrow> (c, s)
      | None \<Rightarrow> (factory, s\<lparr>cd_store := cdr_save sid factory (cd_store s)\<rparr>))"

definition push_cdr_idempotent ::
  "(uuid \<Rightarrow> ocpi_cdr \<Rightarrow> 'p \<Rightarrow> (push_error + unit) \<times> 'p) \<Rightarrow> uuid \<Rightarrow> ocpi_cdr \<Rightarrow> 'p cdr_service \<Rightarrow> (push_error + unit) \<times> 'p cdr_service" where
  "push_cdr_idempotent push partner c s =
     (if (partner, od_id c) \<in> set (cd_pushed s) then (Inr (), s)
      else (let (r, p) = push partner c (cd_client s); s1 = s\<lparr>cd_client := p\<rparr>
            in case r of Inl e \<Rightarrow> (Inl e, s1) | Inr _ \<Rightarrow> (Inr (), s1\<lparr>cd_pushed := cd_pushed s1 @ [(partner, od_id c)]\<rparr>)))"

record reconciliation_result =
  rr_status :: string
  rr_delta :: pyfloat

definition reconcile_incoming_cdr :: "pyfloat \<Rightarrow> pyfloat \<Rightarrow> arith_error + reconciliation_result" where
  "reconcile_incoming_cdr local_kwh partner_kwh =
     rbind (delta_fraction local_kwh partner_kwh) (\<lambda>d. Inr \<lparr>rr_status = delta_status d mismatch_threshold, rr_delta = d\<rparr>)"

subsection \<open>The tariff bridge\<close>

definition component_type_to_ocpi :: "(string, string) pydict" where
  "component_type_to_ocpi = [(''energy'', ''ENERGY''), (''time'', ''TIME''), (''flat'', ''FLAT''), (''idle'', ''PARKING_TIME'')]"

definition ocpi_component :: "tariff_component \<Rightarrow> arith_error + ocpi_price_component" where
  "ocpi_component c = rbind (int_truediv (tc_price c) 100) (\<lambda>p.
     Inr \<lparr>opc_type = dict_get_default component_type_to_ocpi (tc_type c) (py_upper (tc_type c)), opc_price = Fin p, opc_step = tc_step c\<rparr>)"

fun rmap :: "('a \<Rightarrow> 'e + 'b) \<Rightarrow> 'a list \<Rightarrow> 'e + 'b list" where
  "rmap f [] = Inr []"
| "rmap f (x # xs) = rbind (f x) (\<lambda>y. rbind (rmap f xs) (\<lambda>ys. Inr (y # ys)))"

definition to_ocpi_tariff :: "datetime \<Rightarrow> tariff \<Rightarrow> string \<Rightarrow> string \<Rightarrow> arith_error + ocpi_tariff" where
  "to_ocpi_tariff now t party country =
     rbind (rmap ocpi_component (t_components t)) (\<lambda>pcs.
       Inr \<lparr>ot_id = str_uuid (t_id t), ot_party = party, ot_country_code = country, ot_currency = t_currency t,
            ot_elements = [\<lparr>ote_components = pcs\<rparr>], ot_updated = now\<rparr>)"

text \<open>\<open>nows\<close> gives the clock at each conversion of the list.\<close>

definition catalog_list_all :: "(nat \<Rightarrow> datetime) \<Rightarrow> string \<Rightarrow> string \<Rightarrow> tariff_service \<Rightarrow> arith_error + ocpi_tariff list" where
  "catalog_list_all nows party country s =
     rmap (\<lambda>(i, t). to_ocpi_tariff (nows i) t party country) (enumerate 0 (list_all_tariffs s))"

definition catalog_get :: "datetime \<Rightarrow> string \<Rightarrow> string \<Rightarrow> string \<Rightarrow> tariff_service \<Rightarrow> arith_error + ocpi_tariff option" where
  "catalog_get now party country tariff_id s =
     (case uuid_of_string tariff_id of
        None \<Rightarrow> Inr None
      | Some u \<Rightarrow> (case get_tariff s u of None \<Rightarrow> Inr None
          | Some t \<Rightarrow> rbind (to_ocpi_tariff now t party country) (\<lambda>x. Inr (Some x))))"

subsection \<open>The partner-facing routes\<close>

text \<open>
  A route answers a status code and a body; \<open>register_ocpi_exception_handlers\<close> turns an
  \<open>OcpiError\<close> into its own status and body, any other exception escapes.
\<close>

definition handle_ocpi_error :: "(datetime \<Rightarrow> string) \<Rightarrow> datetime \<Rightarrow> ocpi_error \<Rightarrow> int \<times> json" where
  "handle_ocpi_error isofmt now e = (ocpi_http_status e, to_response_body isofmt now e)"

definition route_credentials ::
  "(datetime \<Rightarrow> string) \<Rightarrow> datetime \<Rightarrow> datetime \<Rightarrow> string \<Rightarrow> string \<Rightarrow> string \<Rightarrow> partner_registry
    \<Rightarrow> (py_error + int \<times> json) \<times> partner_registry" where
  "route_credentials isofmt t1 t2 new_token version authorization r =
     (case negotiate_credentials isofmt t1 t2 new_token authorization version r of
        (Inl (Inl e), r') \<Rightarrow> (Inr (handle_ocpi_error isofmt t2 e), r')
      | (Inl (Inr e), r') \<Rightarrow> (Inl e, r')
      | (Inr body, r') \<Rightarrow> (Inr (200, body), r'))"

definition coordinates_json :: "geo_location \<Rightarrow> json" where
  "coordinates_json g = JObj [(''latitude'', JStr (gl_latitude g)), (''longitude'', JStr (gl_longitude g))]"

definition location_v211_json :: "(datetime \<Rightarrow> string) \<Rightarrow> location_v211 \<Rightarrow> json" where
  "location_v211_json isojson l =
     JObj [(''id'', JStr (l211_id l)), (''type'', JStr (l211_type l)), (''name'', jopt_str (l211_name l)), (''address'', JStr (l211_address l)),
       (''city'', JStr (l211_city l)), (''postal_code'', jopt_str (l211_postal l)), (''country'', JStr (l211_country l)),
       (''coordinates'', coordinates_json (l211_coordinates l)), (''last_updated'', JStr (isojson (l211_updated l)))]"

definition tariff_v211_json :: "(datetime \<Rightarrow> string) \<Rightarrow> tariff_v211 \<Rightarrow> json" where
  "tariff_v211_json isojson t =
     JObj [(''id'', JStr (t211_id t)), (''currency'', JStr (t211_currency t)), (''last_updated'', JStr (isojson (t211_updated t)))]"

definition location_v221_json :: "(datetime \<Rightarrow> string) \<Rightarrow> location_v221 \<Rightarrow> json" where
  "location_v221_json isojson l =
     JObj [(''id'', JStr (l221_id l)), (''party_id'', JStr (l221_party l)), (''country_code'', JStr (l221_country_code l)),
       (''publish'', JBool (l221_publish l)), (''name'', jopt_str (l221_name l)), (''address'', JStr (l221_address l)),
       (''city'', JStr (l221_city l)), (''postal_code'', jopt_str (l221_postal l)), (''country'', JStr (l221_country l)),
       (''coordinates'', coordinates_json (l221_coordinates l)), (''last_updated'', JStr (isojson (l221_updated l)))]"

definition tariff_v221_json :: "(datetime \<Rightarrow> string) \<Rightarrow> tariff_v221 \<Rightarrow> json" where
  "tariff_v221_json isojson t =
     JObj [(''id'', JStr (t221_id t)), (''party_id'', JStr (t221_party t)), (''country_code'', JStr (t221_country_code t)),
       (''currency'', JStr (t221_currency t)),
       (''elements'', JList (map (\<lambda>e. JObj [(''price_components'', JList (map (\<lambda>pc. JObj [(''type'', JStr (pc221_type pc)),
          (''price'', JFloat (pc221_price pc)), (''step_size'', JInt (pc221_step pc))]) e))]) (t221_elements t))),
       (''last_updated'', JStr (isojson (t221_updated t)))]"

definition location_v230_json :: "(datetime \<Rightarrow> string) \<Rightarrow> location_v230 \<Rightarrow> json" where
  "location_v230_json isojson l =
     JObj [(''id'', JStr (l230_id l)), (''party_id'', JStr (l230_party l)), (''country_code'', JStr (l230_country_code l)),
       (''publish'', JBool (l230_publish l)), (''name'', jopt_str (l230_name l)), (''address'', JStr (l230_address l)),
       (''city'', JStr (l230_city l)), (''postal_code'', jopt_str (l230_postal l)), (''country'', JStr (l230_country l)),
       (''coordinates'', coordinates_json (l230_coordinates l)),
       (''facilities'', case l230_facilities l of None \<Rightarrow> JNull | Some fs \<Rightarrow> JList (map JStr fs)),
       (''last_updated'', JStr (isojson (l230_updated l)))]"

definition tariff_v230_json :: "(datetime \<Rightarrow> string) \<Rightarrow> tariff_v230 \<Rightarrow> json" where
  "tariff_v230_json isojson t =
     JObj [(''id'', JStr (t230_id t)), (''party_id'', JStr (t230_party t)), (''country_code'', JStr (t230_country_code t)),
       (''currency'', JStr (t230_currency t)),
       (''elements'', JList (map (\<lambda>e. JObj [(''price_components'', JList (map (\<lambda>pc. JObj [(''type'', JStr (pc230_type pc)),
          (''price'', JFloat (pc230_price pc)), (''step_size'', JInt (pc230_step pc))]) e))]) (t230_elements t))),
       (''last_updated'', JStr (isojson (t230_updated t)))]"

text \<open>
  The read routes share their shape: an unknown id raises, a known one is converted by the
  version's adapter. \<open>wire\<close> is adapter and dump together.
\<close>

definition route_get_location :: "(ocpi_location \<Rightarrow> json) \<Rightarrow> string \<Rightarrow> location_repo \<Rightarrow> ocpi_error + json" where
  "route_get_location wire i r =
     (case location_get r i of
        None \<Rightarrow> Inl \<lparr>oe_code = UNKNOWN_LOCATION, oe_message = ''unknown location: '' @ i\<rparr> | Some l \<Rightarrow> Inr (wire l))"

definition get_location_v211 :: "(datetime \<Rightarrow> string) \<Rightarrow> string \<Rightarrow> location_repo \<Rightarrow> ocpi_error + json" where
  "get_location_v211 isojson = route_get_location (\<lambda>l. location_v211_json isojson (location_to_v211 l))"

definition get_location_v221 :: "(datetime \<Rightarrow> string) \<Rightarrow> string \<Rightarrow> location_repo \<Rightarrow> ocpi_error + json" where
  "get_location_v221 isojson = route_get_location (\<lambda>l. location_v221_json isojson (location_to_v221 l))"

definition get_location_v230 :: "(datetime \<Rightarrow> string) \<Rightarrow> string \<Rightarrow> location_repo \<Rightarrow> ocpi_error + json" where
  "get_location_v230 isojson = route_get_location (\<lambda>l. location_v230_json isojson (location_to_v230 l))"

definition list_locations_v211 :: "(datetime \<Rightarrow> string) \<Rightarrow> location_repo \<Rightarrow> json" where
  "list_locations_v211 isojson r =
     JObj [(''data'', JList (map (\<lambda>l. location_v211_json isojson (location_to_v211 l)) (location_list_all r)))]"

definition route_list_tariffs_ocpi :: "(ocpi_tariff \<Rightarrow> json) \<Rightarrow> arith_error + ocpi_tariff list \<Rightarrow> arith_error + json" where
  "route_list_tariffs_ocpi wire ts = rbind ts (\<lambda>ts. Inr (JObj [(''data'', JList (map wire ts))]))"

definition route_get_tariff_ocpi ::
  "(ocpi_tariff \<Rightarrow> json) \<Rightarrow> string \<Rightarrow> arith_error + ocpi_tariff option \<Rightarrow> (ocpi_error + arith_error) + json" where
  "route_get_tariff_ocpi wire i found =
     (case found of
        Inl e \<Rightarrow> Inl (Inr e)
      | Inr None \<Rightarrow> Inl (Inl \<lparr>oe_code = UNKNOWN_TARIFF, oe_message = ''unknown tariff: '' @ i\<rparr>)
      | Inr (Some t) \<Rightarrow> Inr (wire t))"

definition list_tariffs_v211 :: "(datetime \<Rightarrow> string) \<Rightarrow> (nat \<Rightarrow> datetime) \<Rightarrow> string \<Rightarrow> string \<Rightarrow> tariff_service \<Rightarrow> arith_error + json" where
  "list_tariffs_v211 isojson nows party country s =
     route_list_tariffs_ocpi (\<lambda>t. tariff_v211_json isojson (tariff_to_v211 t)) (catalog_list_all nows party country s)"

definition list_tariffs_v221 :: "(datetime \<Rightarrow> string) \<Rightarrow> (nat \<Rightarrow> datetime) \<Rightarrow> string \<Rightarrow> string \<Rightarrow> tariff_service \<Rightarrow> arith_error + json" where
  "list_tariffs_v221 isojson nows party country s =
     route_list_tariffs_ocpi (\<lambda>t. tariff_v221_json isojson (tariff_to_v221 t)) (catalog_list_all nows party country s)"

definition list_tariffs_v230 :: "(datetime \<Rightarrow> string) \<Rightarrow> (nat \<Rightarrow> datetime) \<Rightarrow> string \<Rightarrow> string \<Rightarrow> tariff_service \<Rightarrow> arith_error + json" where
  "list_tariffs_v230 isojson nows party country s =
     route_list_tariffs_ocpi (\<lambda>t. tariff_v230_json isojson (tariff_to_v230 t)) (catalog_list_all nows party country s)"

definition get_tariff_v211 :: "(datetime \<Rightarrow> string) \<Rightarrow> datetime \<Rightarrow> string \<Rightarrow> string \<Rightarrow> string \<Rightarrow> tariff_service \<Rightarrow> (ocpi_error + arith_error) + json" where
  "get_tariff_v211 isojson now party country i s =
     route_get_tariff_ocpi (\<lambda>t. tariff_v211_json isojson (tariff_to_v211 t)) i (catalog_get now party country i s)"

definition get_tariff_v221 :: "(datetime \<Rightarrow> string) \<Rightarrow> datetime \<Rightarrow> string \<Rightarrow> string \<Rightarrow> string \<Rightarrow> tariff_service \<Rightarrow> (ocpi_error + arith_error) + json" where
  "get_tariff_v221 isojson now party country i s =
     route_get_tariff_ocpi (\<lambda>t. tariff_v221_json isojson (tariff_to_v221 t)) i (catalog_get now party country i s)"

definition get_tariff_v230 :: "(datetime \<Rightarrow> string) \<Rightarrow> datetime \<Rightarrow> string \<Rightarrow> string \<Rightarrow> string \<Rightarrow> tariff_service \<Rightarrow> (ocpi_error + arith_error) + json" where
  "get_tariff_v230 isojson now party country i s =
     route_get_tariff_ocpi (\<lambda>t. tariff_v230_json isojson (tariff_to_v230 t)) i (catalog_get now party country i s)"

definition reject_v211_write :: "(datetime \<Rightarrow> string) \<Rightarrow> datetime \<Rightarrow> int \<times> json" where
  "reject_v211_write isofmt now =
     (405, to_response_body isofmt now \<lparr>oe_code = GENERIC_SERVER_ERROR,
        oe_message = ''the 2.1.1 shim is read-only; token/session mutation is not supported''\<rparr>)"

text \<open>The routes over the services of \<open>Ocpi_Commands\<close>.\<close>

fun profile_status_value :: "profile_status \<Rightarrow> string" where
  "profile_status_value PROFILE_ACCEPTED = ''ACCEPTED''"
| "profile_status_value PROFILE_REJECTED = ''REJECTED''"
| "profile_status_value PROFILE_UNKNOWN_SESSION = ''UNKNOWN_SESSION''"

fun ocpi_status_value :: "ocpi_status \<Rightarrow> string" where
  "ocpi_status_value OCPI_ACCEPTED = ''ACCEPTED''"
| "ocpi_status_value OCPI_REJECTED = ''REJECTED''"
| "ocpi_status_value OCPI_UNKNOWN_SESSION = ''UNKNOWN_SESSION''"

fun preferences_status_value :: "preferences_status \<Rightarrow> string" where
  "preferences_status_value PREF_ACCEPTED = ''ACCEPTED''"
| "preferences_status_value DEPARTURE_REQUIRED = ''DEPARTURE_REQUIRED''"
| "preferences_status_value ENERGY_NEED_REQUIRED = ''ENERGY_NEED_REQUIRED''"
| "preferences_status_value NOT_POSSIBLE = ''NOT_POSSIBLE''"
| "preferences_status_value PROFILE_TYPE_NOT_SUPPORTED = ''PROFILE_TYPE_NOT_SUPPORTED''"

definition ocpi_command_result_dict :: "ocpi_command_result \<Rightarrow> json" where
  "ocpi_command_result_dict r =
     JObj [(''result'', JStr (ocpi_status_value (oc_result r))), (''session_id'', jopt_str (oc_session r)), (''reason'', jopt_str (oc_reason r))]"

definition charging_preferences_dict :: "(datetime \<Rightarrow> string) \<Rightarrow> charging_preferences option \<Rightarrow> json" where
  "charging_preferences_dict isofmt p =
     (case p of None \<Rightarrow> JNull
      | Some c \<Rightarrow> JObj [(''profile_type'', JStr (cf_type c)), (''departure_time'', jopt_str (map_option isofmt (cf_departure c))),
          (''energy_need_kwh'', case cf_energy c of None \<Rightarrow> JNull | Some e \<Rightarrow> JFloat e),
          (''discharge_allowed'', case cf_discharge c of None \<Rightarrow> JNull | Some b \<Rightarrow> JBool b)])"

definition active_profile_dict :: "(datetime \<Rightarrow> string) \<Rightarrow> charging_profile option \<Rightarrow> json" where
  "active_profile_dict isofmt p =
     (case p of None \<Rightarrow> JNull
      | Some c \<Rightarrow> JObj [(''charging_rate_unit'', JStr (cp_unit c)),
          (''charging_profile_period'', JList (map (\<lambda>q. JObj [(''start_period'', JInt (pp_start q)), (''limit'', JFloat (pp_limit q))]) (cp_periods c))),
          (''duration'', case cp_duration c of None \<Rightarrow> JNull | Some d \<Rightarrow> JInt d),
          (''min_charging_rate'', case cp_min_rate c of None \<Rightarrow> JNull | Some r \<Rightarrow> JFloat r),
          (''start_date_time'', jopt_str (map_option isofmt (cp_start c)))])"

definition put_charging_profile ::
  "'t transport \<Rightarrow> draw \<Rightarrow> string \<Rightarrow> string \<Rightarrow> profile_period list \<Rightarrow> int option \<Rightarrow> pyfloat option \<Rightarrow> datetime option
    \<Rightarrow> 't profile_service \<Rightarrow> (py_error + json) \<times> 't profile_service" where
  "put_charging_profile send d sid rate_unit periods duration min_rate start s =
     (case set_charging_profile send d sid rate_unit periods duration min_rate start s of
        (Inl e, s') \<Rightarrow> (Inl e, s')
      | (Inr (st, reason), s') \<Rightarrow> (Inr (JObj [(''result'', JStr (profile_status_value st)), (''reason'', jopt_str reason)]), s'))"

definition get_charging_profile :: "(datetime \<Rightarrow> string) \<Rightarrow> string \<Rightarrow> 't profile_service \<Rightarrow> json" where
  "get_charging_profile isofmt sid s =
     (case get_active_profile s sid of (st, p) \<Rightarrow>
        JObj [(''result'', JStr (profile_status_value st)), (''profile'', active_profile_dict isofmt p)])"

definition route_ocpi_command ::
  "(py_error + ocpi_command_result) \<times> 't ocpi_command_service \<Rightarrow> (py_error + json) \<times> 't ocpi_command_service" where
  "route_ocpi_command r = (case r of (Inl e, s) \<Rightarrow> (Inl e, s) | (Inr x, s) \<Rightarrow> (Inr (ocpi_command_result_dict x), s))"

definition route_start_session ::
  "'t transport \<Rightarrow> draw \<Rightarrow> uuid \<Rightarrow> uuid \<Rightarrow> string \<Rightarrow> string \<Rightarrow> int \<Rightarrow> 't ocpi_command_service \<Rightarrow> (py_error + json) \<times> 't ocpi_command_service" where
  "route_start_session send d new_id tenant location token connector s =
     route_ocpi_command (ocpi_start_session send d new_id location tenant token connector s)"

definition route_stop_session ::
  "'t transport \<Rightarrow> draw \<Rightarrow> uuid \<Rightarrow> string \<Rightarrow> 't ocpi_command_service \<Rightarrow> (py_error + json) \<times> 't ocpi_command_service" where
  "route_stop_session send d tenant sid s = route_ocpi_command (ocpi_stop_session send d sid tenant s)"

definition route_reserve_now ::
  "'t transport \<Rightarrow> (datetime \<Rightarrow> string) \<Rightarrow> draw \<Rightarrow> uuid \<Rightarrow> string \<Rightarrow> string \<Rightarrow> datetime \<Rightarrow> string \<Rightarrow> int
    \<Rightarrow> 't ocpi_command_service \<Rightarrow> (py_error + json) \<times> 't ocpi_command_service" where
  "route_reserve_now send isofmt d tenant location token expires rid connector s =
     route_ocpi_command (reserve_now send isofmt d location tenant token expires rid connector s)"

definition route_unlock_connector ::
  "'t transport \<Rightarrow> draw \<Rightarrow> uuid \<Rightarrow> string \<Rightarrow> int \<Rightarrow> 't ocpi_command_service \<Rightarrow> (py_error + json) \<times> 't ocpi_command_service" where
  "route_unlock_connector send d tenant location connector s = route_ocpi_command (unlock_connector send d location tenant connector s)"

definition route_cancel_reservation_ocpi ::
  "'t transport \<Rightarrow> draw \<Rightarrow> uuid \<Rightarrow> string \<Rightarrow> string \<Rightarrow> 't ocpi_command_service \<Rightarrow> (py_error + json) \<times> 't ocpi_command_service" where
  "route_cancel_reservation_ocpi send d tenant location rid s = route_ocpi_command (ocpi_cancel_reservation send d location tenant rid s)"

definition route_set_charging_preferences ::
  "session_charger_map \<Rightarrow> string \<Rightarrow> string \<Rightarrow> datetime option \<Rightarrow> pyfloat option \<Rightarrow> bool option
    \<Rightarrow> (string, charging_preferences) pydict \<Rightarrow> json \<times> (string, charging_preferences) pydict" where
  "route_set_charging_preferences m sid ty departure energy discharge st =
     (case set_charging_preferences m sid ty departure energy discharge st of
        (r, st') \<Rightarrow> (JObj [(''result'', JStr (preferences_status_value r))], st'))"

definition route_get_charging_preferences :: "(datetime \<Rightarrow> string) \<Rightarrow> string \<Rightarrow> (string, charging_preferences) pydict \<Rightarrow> json" where
  "route_get_charging_preferences isofmt sid st =
     JObj [(''preferences'', charging_preferences_dict isofmt (get_charging_preferences st sid))]"

subsection \<open>Properties\<close>

text \<open>
  The version adapters lose nothing but the EVSE status: a location converted to the
  2.2.1 or to the 2.3.0 schema and back is the location without its \<open>evse_status\<close>, and the
  2.2.1 form of a 2.3.0 location is the one the location itself gives.
\<close>

theorem location_adapters_roundtrip:
  "location_from_v221 (location_to_v221 l) = l\<lparr>ol_evse := None\<rparr>
   \<and> location_from_v230 (location_to_v230 l) = l\<lparr>ol_evse := None\<rparr>
   \<and> location_to_v221 (location_from_v221 p) = p
   \<and> location_to_v221 (location_from_v230 (location_to_v230 l)) = location_to_v221 l"
  by (simp add: location_from_v221_def location_to_v221_def location_from_v230_def location_to_v230_def)

text \<open>
  A partner endpoint that may fail: its \<open>n\<close>-th call succeeds when \<open>ok n\<close>, and then the
  record is delivered.
\<close>

definition flaky_push :: "(nat \<Rightarrow> bool) \<Rightarrow> uuid \<Rightarrow> ocpi_cdr \<Rightarrow> nat \<times> (uuid \<times> string) list \<Rightarrow> (push_error + unit) \<times> nat \<times> (uuid \<times> string) list" where
  "flaky_push ok partner c st =
     (if ok (fst st) then (Inr (), Suc (fst st), snd st @ [(partner, od_id c)])
      else (Inl (PartnerPushError ''unreachable''), Suc (fst st), snd st))"

datatype cdr_event = StopEvent string ocpi_cdr | PushEvent uuid ocpi_cdr

fun cdr_apply :: "(nat \<Rightarrow> bool) \<Rightarrow> cdr_event \<Rightarrow> (nat \<times> (uuid \<times> string) list) cdr_service \<Rightarrow> (nat \<times> (uuid \<times> string) list) cdr_service" where
  "cdr_apply ok (StopEvent sid factory) s = snd (generate_cdr_on_stop_transaction sid factory s)"
| "cdr_apply ok (PushEvent partner c) s = snd (push_cdr_idempotent (flaky_push ok) partner c s)"

fun first_cdr :: "string \<Rightarrow> cdr_event list \<Rightarrow> ocpi_cdr option" where
  "first_cdr sid [] = None"
| "first_cdr sid (StopEvent sid' c # es) = (if sid' = sid then Some c else first_cdr sid es)"
| "first_cdr sid (PushEvent _ _ # es) = first_cdr sid es"

definition delivered_ok :: "(nat \<times> (uuid \<times> string) list) cdr_service \<Rightarrow> bool" where
  "delivered_ok s \<longleftrightarrow> distinct (snd (cd_client s)) \<and> set (snd (cd_client s)) = set (cd_pushed s)"

lemma cdr_apply_delivered: "delivered_ok s \<Longrightarrow> delivered_ok (cdr_apply ok e s)"
  by (cases e) (auto simp: delivered_ok_def generate_cdr_on_stop_transaction_def push_cdr_idempotent_def flaky_push_def
      split: option.split)

lemma cdr_apply_store:
  "dict_get (cd_store (cdr_apply ok e s)) sid =
     (case dict_get (cd_store s) sid of Some c \<Rightarrow> Some c | None \<Rightarrow> first_cdr sid [e])"
  by (cases e) (auto simp: generate_cdr_on_stop_transaction_def push_cdr_idempotent_def flaky_push_def
      cdr_get_by_session_def cdr_save_def split: option.split)

lemma cdr_run_delivered: "delivered_ok s \<Longrightarrow> delivered_ok (fold (cdr_apply ok) es s)"
  by (induction es arbitrary: s) (simp_all add: cdr_apply_delivered)

lemma cdr_run_store:
  "dict_get (cd_store (fold (cdr_apply ok) es s)) sid = (case dict_get (cd_store s) sid of Some c \<Rightarrow> Some c | None \<Rightarrow> first_cdr sid es)"
proof (induction es arbitrary: s)
  case Nil
  show ?case by (simp split: option.split)
next
  case (Cons e es)
  then show ?case by (cases e) (auto simp: cdr_apply_store simp del: cdr_apply.simps split: option.split)
qed

text \<open>
  However often stop events are redelivered and pushes fail and are retried, each
  session has one CDR for good, the first one minted for it; a further stop event answers
  that record; and a partner is delivered a CDR id at most once, a delivered one being
  never pushed again.
\<close>

theorem cdr_minted_and_delivered_once:
  assumes "s = fold (cdr_apply ok) es \<lparr>cd_store = [], cd_client = (0, []), cd_pushed = []\<rparr>"
  shows "dict_get (cd_store s) sid = first_cdr sid es
    \<and> (\<forall>c factory. first_cdr sid es = Some c \<longrightarrow> generate_cdr_on_stop_transaction sid factory s = (c, s))
    \<and> distinct (snd (cd_client s))
    \<and> (\<forall>partner c. (partner, od_id c) \<in> set (snd (cd_client s)) \<longrightarrow> push_cdr_idempotent (flaky_push ok) partner c s = (Inr (), s))"
proof -
  have "delivered_ok s" unfolding assms by (rule cdr_run_delivered) (simp add: delivered_ok_def)
  moreover have "dict_get (cd_store s) sid = first_cdr sid es" unfolding assms by (simp add: cdr_run_store)
  ultimately show ?thesis
    by (simp add: delivered_ok_def generate_cdr_on_stop_transaction_def cdr_get_by_session_def push_cdr_idempotent_def)
qed

definition sample_cdr :: ocpi_cdr where
  "sample_cdr = \<lparr>od_id = ''c1'', od_start = 0, od_end = 1, od_token = ''T'', od_auth = ''WHITELIST'', od_currency = ''EUR'',
     od_cost = Fin 1, od_energy = Fin 2, od_updated = 1\<rparr>"

theorem cdr_minted_and_delivered_once_witness:
  "distinct (snd (cd_client (fold (cdr_apply (\<lambda>n. n = 1)) [StopEvent ''s'' sample_cdr, PushEvent 1 sample_cdr, PushEvent 1 sample_cdr,
      PushEvent 1 sample_cdr, StopEvent ''s'' (sample_cdr\<lparr>od_id := ''c2''\<rparr>)] \<lparr>cd_store = [], cd_client = (0, []), cd_pushed = []\<rparr>)))
   \<and> snd (cd_client (fold (cdr_apply (\<lambda>n. n = 1)) [StopEvent ''s'' sample_cdr, PushEvent 1 sample_cdr, PushEvent 1 sample_cdr,
      PushEvent 1 sample_cdr, StopEvent ''s'' (sample_cdr\<lparr>od_id := ''c2''\<rparr>)] \<lparr>cd_store = [], cd_client = (0, []), cd_pushed = []\<rparr>)) = [(1, ''c1'')]"
  using cdr_minted_and_delivered_once[OF refl]
  by (simp add: generate_cdr_on_stop_transaction_def cdr_get_by_session_def cdr_save_def push_cdr_idempotent_def flaky_push_def sample_cdr_def)

end
