(* ===== verification/Driver_App.thy ===== *)
theory Driver_App
  imports Ocpi_Data
begin

text \<open>
  The driver's own features: vehicles (\<open>driver_app/vehicles.py\<close>, \<open>vehicle_router.py\<close>),
  rewards (\<open>rewards.py\<close>, \<open>rewards_router.py\<close>), the log of completed sessions
  (\<open>session_history.py\<close>), reservations (\<open>reservations.py\<close>, \<open>reservation_router.py\<close>), the map
  (\<open>map_router.py\<close>), the route planner (\<open>route_planner.py\<close>, \<open>route_planner_router.py\<close>) and
  usage insights (\<open>usage_insights.py\<close>, \<open>usage_insights_router.py\<close>). The driver id of a route
  is the one the access token carries.
\<close>

subsection \<open>Vehicles\<close>

record vehicle =
  vh_id :: uuid
  vh_driver :: uuid
  vh_make :: string
  vh_model :: string
  vh_connector :: string
  vh_capacity :: pyfloat
  vh_pnc :: bool

type_synonym vehicle_store = "(uuid, vehicle) pydict"

datatype driver_error = VehicleNotFoundError string | UnknownRewardError string | InsufficientPointsError string
  | ReservationError string | ReservationNotFoundError string | RoutingError string

definition vehicle_create ::
  "uuid \<Rightarrow> uuid \<Rightarrow> string \<Rightarrow> string \<Rightarrow> string \<Rightarrow> pyfloat \<Rightarrow> vehicle_store \<Rightarrow> vehicle \<times> vehicle_store" where
  "vehicle_create i driver mk model connector capacity st =
     (let v = \<lparr>vh_id = i, vh_driver = driver, vh_make = mk, vh_model = model, vh_connector = connector,
               vh_capacity = capacity, vh_pnc = False\<rparr>
      in (v, dict_set i v st))"

definition vehicle_list_for_driver :: "vehicle_store \<Rightarrow> uuid \<Rightarrow> vehicle list" where
  "vehicle_list_for_driver st driver = filter (\<lambda>v. vh_driver v = driver) (dict_values st)"

definition vehicle_get :: "vehicle_store \<Rightarrow> uuid \<Rightarrow> vehicle option" where
  "vehicle_get st i = dict_get st i"

definition set_plug_and_charge :: "uuid \<Rightarrow> bool \<Rightarrow> vehicle_store \<Rightarrow> (driver_error + vehicle) \<times> vehicle_store" where
  "set_plug_and_charge i enabled st =
     (case dict_get st i of
        None \<Rightarrow> (Inl (VehicleNotFoundError (str_uuid i)), st)
      | Some v \<Rightarrow> (let v' = v\<lparr>vh_pnc := enabled\<rparr> in (Inr v', dict_set i v' st)))"

definition vehicle_delete :: "uuid \<Rightarrow> vehicle_store \<Rightarrow> vehicle_store" where
  "vehicle_delete i st = dict_del i st"

definition vehicle_to_dict :: "vehicle \<Rightarrow> json" where
  "vehicle_to_dict v = JObj [(''id'', JStr (str_uuid (vh_id v))), (''make'', JStr (vh_make v)), (''model'', JStr (vh_model v)),
     (''connector_type'', JStr (vh_connector v)), (''battery_capacity_kwh'', JFloat (vh_capacity v)),
     (''plug_and_charge_enabled'', JBool (vh_pnc v))]"

definition owned_vehicle_or_404 :: "uuid \<Rightarrow> uuid \<Rightarrow> vehicle_store \<Rightarrow> driver_error http_error + vehicle" where
  "owned_vehicle_or_404 i driver st =
     (case vehicle_get st i of
        None \<Rightarrow> Inl (HTTPException 404 ''vehicle not found'')
      | Some v \<Rightarrow> if vh_driver v \<noteq> driver then Inl (HTTPException 404 ''vehicle not found'') else Inr v)"

definition route_list_vehicles :: "uuid \<Rightarrow> vehicle_store \<Rightarrow> json" where
  "route_list_vehicles driver st = JObj [(''data'', JList (map vehicle_to_dict (vehicle_list_for_driver st driver)))]"

definition route_create_vehicle ::
  "uuid \<Rightarrow> uuid \<Rightarrow> string \<Rightarrow> string \<Rightarrow> string \<Rightarrow> pyfloat \<Rightarrow> vehicle_store \<Rightarrow> json \<times> vehicle_store" where
  "route_create_vehicle i driver mk model connector capacity st =
     (let (v, st') = vehicle_create i driver mk model connector capacity st in (vehicle_to_dict v, st'))"

definition route_set_plug_and_charge :: "uuid \<Rightarrow> uuid \<Rightarrow> bool \<Rightarrow> vehicle_store \<Rightarrow> (driver_error http_error + json) \<times> vehicle_store" where
  "route_set_plug_and_charge driver i enabled st =
     (case owned_vehicle_or_404 i driver st of
        Inl e \<Rightarrow> (Inl e, st)
      | Inr _ \<Rightarrow> (case set_plug_and_charge i enabled st of
          (Inl _, st') \<Rightarrow> (Inl (HTTPException 404 ''vehicle not found''), st') | (Inr v, st') \<Rightarrow> (Inr (vehicle_to_dict v), st')))"

definition route_delete_vehicle :: "uuid \<Rightarrow> uuid \<Rightarrow> vehicle_store \<Rightarrow> (driver_error http_error + int) \<times> vehicle_store" where
  "route_delete_vehicle driver i st =
     (case owned_vehicle_or_404 i driver st of Inl e \<Rightarrow> (Inl e, st) | Inr _ \<Rightarrow> (Inr 204, vehicle_delete i st))"

subsection \<open>Rewards\<close>

definition points_per_completed_session :: int where
  "points_per_completed_session = 50"

record reward_item =
  ri_id :: string
  ri_name :: string
  ri_cost :: int

definition reward_catalog :: "reward_item list" where
  "reward_catalog =
     [\<lparr>ri_id = ''free-coffee'', ri_name = ''Free coffee voucher'', ri_cost = 100\<rparr>,
      \<lparr>ri_id = ''discount-5'', ri_name = ''5% off your next session'', ri_cost = 200\<rparr>,
      \<lparr>ri_id = ''discount-10'', ri_name = ''10% off your next session'', ri_cost = 350\<rparr>]"

type_synonym rewards_store = "(uuid, int) pydict"

definition rewards_get_balance :: "rewards_store \<Rightarrow> uuid \<Rightarrow> int" where
  "rewards_get_balance st driver = dict_get_default st driver 0"

definition add_points :: "uuid \<Rightarrow> int \<Rightarrow> rewards_store \<Rightarrow> int \<times> rewards_store" where
  "add_points driver n st = (let b = dict_get_default st driver 0 + n in (b, dict_set driver b st))"

definition deduct_points :: "uuid \<Rightarrow> int \<Rightarrow> rewards_store \<Rightarrow> int \<times> rewards_store" where
  "deduct_points driver n st = (let b = dict_get_default st driver 0 - n in (b, dict_set driver b st))"

definition award_for_completed_session :: "uuid \<Rightarrow> rewards_store \<Rightarrow> int \<times> rewards_store" where
  "award_for_completed_session driver st = add_points driver points_per_completed_session st"

definition redeem :: "uuid \<Rightarrow> string \<Rightarrow> rewards_store \<Rightarrow> (driver_error + int) \<times> rewards_store" where
  "redeem driver reward_id st =
     (case first_match (\<lambda>i. ri_id i = reward_id) reward_catalog of
        None \<Rightarrow> (Inl (UnknownRewardError reward_id), st)
      | Some reward \<Rightarrow>
        (let balance = rewards_get_balance st driver
         in if balance < ri_cost reward
            then (Inl (InsufficientPointsError (''need '' @ str_int (ri_cost reward) @ '' points, have '' @ str_int balance)), st)
            else (let (b, st') = deduct_points driver (ri_cost reward) st in (Inr b, st'))))"

definition catalog_dict :: json where
  "catalog_dict = JList (map (\<lambda>i. JObj [(''id'', JStr (ri_id i)), (''name'', JStr (ri_name i)), (''points_cost'', JInt (ri_cost i))]) reward_catalog)"

definition route_get_rewards :: "uuid \<Rightarrow> rewards_store \<Rightarrow> json" where
  "route_get_rewards driver st = JObj [(''balance'', JInt (rewards_get_balance st driver)), (''catalog'', catalog_dict)]"

definition route_redeem :: "string \<Rightarrow> string \<Rightarrow> rewards_store \<Rightarrow> (py_error http_error + json) \<times> rewards_store" where
  "route_redeem driver reward_id st =
     (case uuid_of_string driver of
        None \<Rightarrow> (Inl (Raised (PyValueError ''badly formed hexadecimal UUID string'')), st)
      | Some d \<Rightarrow> (case redeem d reward_id st of
          (Inl (UnknownRewardError _), st') \<Rightarrow> (Inl (HTTPException 404 ''unknown reward''), st')
        | (Inl (InsufficientPointsError m), st') \<Rightarrow> (Inl (HTTPException 400 m), st')
        | (Inl _, st') \<Rightarrow> (Inl (Raised (RuntimeError [])), st')
        | (Inr b, st') \<Rightarrow> (Inr (JObj [(''balance'', JInt b)]), st')))"

subsection \<open>Completed sessions\<close>

record completed_session =
  cs_session :: string
  cs_driver :: uuid
  cs_charger :: string
  cs_started :: datetime
  cs_ended :: datetime
  cs_energy :: pyfloat
  cs_cost :: int
  cs_currency :: string

definition record_session :: "completed_session \<Rightarrow> completed_session list \<Rightarrow> completed_session list" where
  "record_session s st = st @ [s]"

definition history_list_for_driver :: "completed_session list \<Rightarrow> uuid \<Rightarrow> date \<Rightarrow> date \<Rightarrow> completed_session list" where
  "history_list_for_driver st driver from until =
     filter (\<lambda>s. cs_driver s = driver \<and> from \<le> date_of (cs_ended s) \<and> date_of (cs_ended s) \<le> until) st"

subsection \<open>Reservations\<close>

record reservation =
  rv_id :: string
  rv_charger :: string
  rv_connector :: int
  rv_expires :: datetime

record 't reservation_service =
  rs_ocpi :: "'t ocpi_command_service"
  rs_owner :: "(string, uuid) pydict"
  rs_reservations :: "(string, reservation) pydict"

definition driver_id_tag :: "uuid \<Rightarrow> string" where
  "driver_id_tag driver = ''DRIVER:'' @ str_uuid driver"

text \<open>\<open>result.reason or dflt\<close>\<close>

definition reason_or :: "string option \<Rightarrow> string \<Rightarrow> string" where
  "reason_or r dflt = (case r of None \<Rightarrow> dflt | Some s \<Rightarrow> if s = [] then dflt else s)"

definition reserve ::
  "'t transport \<Rightarrow> (datetime \<Rightarrow> string) \<Rightarrow> draw \<Rightarrow> uuid \<Rightarrow> string \<Rightarrow> int \<Rightarrow> datetime \<Rightarrow> uuid \<Rightarrow> uuid
    \<Rightarrow> 't reservation_service \<Rightarrow> ((driver_error + py_error) + reservation) \<times> 't reservation_service" where
  "reserve send isofmt d new_id charger connector expires driver tenant s =
     (let rid = str_uuid new_id;
          (r, o') = reserve_now send isofmt d charger tenant (driver_id_tag driver) expires rid connector (rs_ocpi s);
          s1 = s\<lparr>rs_ocpi := o'\<rparr>
      in case r of
           Inl e \<Rightarrow> (Inl (Inr e), s1)
         | Inr x \<Rightarrow>
           if oc_result x \<noteq> OCPI_ACCEPTED then (Inl (Inl (ReservationError (reason_or (oc_reason x) ''reservation rejected''))), s1)
           else (let v = \<lparr>rv_id = rid, rv_charger = charger, rv_connector = connector, rv_expires = expires\<rparr>
                 in (Inr v, s1\<lparr>rs_owner := dict_set rid driver (rs_owner s1),
                              rs_reservations := dict_set rid v (rs_reservations s1)\<rparr>)))"

definition reservations_for_driver :: "uuid \<Rightarrow> 't reservation_service \<Rightarrow> reservation list" where
  "reservations_for_driver driver s =
     filter (\<lambda>v. dict_get (rs_owner s) (rv_id v) = Some driver) (dict_values (rs_reservations s))"

definition cancel ::
  "'t transport \<Rightarrow> draw \<Rightarrow> string \<Rightarrow> uuid \<Rightarrow> uuid \<Rightarrow> 't reservation_service
    \<Rightarrow> ((driver_error + py_error) + unit) \<times> 't reservation_service" where
  "cancel send d rid driver tenant s =
     (if dict_get (rs_owner s) rid \<noteq> Some driver then (Inl (Inl (ReservationNotFoundError rid)), s)
      else case dict_get (rs_reservations s) rid of
        None \<Rightarrow> (Inl (Inl (ReservationNotFoundError rid)), s)
      | Some v \<Rightarrow>
        (let (r, o') = ocpi_cancel_reservation send d (rv_charger v) tenant rid (rs_ocpi s); s1 = s\<lparr>rs_ocpi := o'\<rparr>
         in case r of
              Inl e \<Rightarrow> (Inl (Inr e), s1)
            | Inr x \<Rightarrow>
              if oc_result x \<noteq> OCPI_ACCEPTED then (Inl (Inl (ReservationError (reason_or (oc_reason x) ''cancellation rejected''))), s1)
              else (Inr (), s1\<lparr>rs_owner := dict_del rid (rs_owner s1), rs_reservations := dict_del rid (rs_reservations s1)\<rparr>)))"

definition reservation_dict :: "(datetime \<Rightarrow> string) \<Rightarrow> reservation \<Rightarrow> json" where
  "reservation_dict isofmt v = JObj [(''id'', JStr (rv_id v)), (''charger_id'', JStr (rv_charger v)),
     (''connector_id'', JInt (rv_connector v)), (''expires_at'', JStr (isofmt (rv_expires v)))]"

definition route_list_reservations :: "(datetime \<Rightarrow> string) \<Rightarrow> uuid \<Rightarrow> 't reservation_service \<Rightarrow> json" where
  "route_list_reservations isofmt driver s = JObj [(''data'', JList (map (reservation_dict isofmt) (reservations_for_driver driver s)))]"

definition route_create_reservation ::
  "'t transport \<Rightarrow> (datetime \<Rightarrow> string) \<Rightarrow> draw \<Rightarrow> uuid \<Rightarrow> string \<Rightarrow> int \<Rightarrow> datetime \<Rightarrow> uuid \<Rightarrow> uuid
    \<Rightarrow> 't reservation_service \<Rightarrow> ((driver_error + py_error) http_error + json) \<times> 't reservation_service" where
  "route_create_reservation send isofmt d new_id charger connector expires driver tenant s =
     (case reserve send isofmt d new_id charger connector expires driver tenant s of
        (Inl (Inl (ReservationError m)), s') \<Rightarrow> (Inl (HTTPException 400 m), s')
      | (Inl e, s') \<Rightarrow> (Inl (Raised e), s')
      | (Inr v, s') \<Rightarrow> (Inr (reservation_dict isofmt v), s'))"

definition route_cancel_reservation ::
  "'t transport \<Rightarrow> draw \<Rightarrow> string \<Rightarrow> uuid \<Rightarrow> uuid \<Rightarrow> 't reservation_service
    \<Rightarrow> ((driver_error + py_error) http_error + int) \<times> 't reservation_service" where
  "route_cancel_reservation send d rid driver tenant s =
     (case cancel send d rid driver tenant s of
        (Inl (Inl (ReservationNotFoundError _)), s') \<Rightarrow> (Inl (HTTPException 404 ''reservation not found''), s')
      | (Inl (Inl (ReservationError m)), s') \<Rightarrow> (Inl (HTTPException 400 m), s')
      | (Inl e, s') \<Rightarrow> (Inl (Raised e), s')
      | (Inr _, s') \<Rightarrow> (Inr 204, s'))"

subsection \<open>The charger map\<close>

text \<open>\<open>parse_float\<close> is \<open>float(s)\<close> on a string, \<open>None\<close> for its \<open>ValueError\<close>.\<close>

definition parse_bbox :: "(string \<Rightarrow> pyfloat option) \<Rightarrow> string \<Rightarrow> (pyfloat \<times> pyfloat \<times> pyfloat \<times> pyfloat) option" where
  "parse_bbox parse_float bbox =
     (case map parse_float (split_on (CHR '','') bbox) of
        [Some a, Some b, Some c, Some d] \<Rightarrow> Some (a, b, c, d) | _ \<Rightarrow> None)"

definition in_box :: "pyfloat \<times> pyfloat \<times> pyfloat \<times> pyfloat \<Rightarrow> pyfloat \<Rightarrow> pyfloat \<Rightarrow> bool" where
  "in_box box lat lng = (case box of (a, b, c, d) \<Rightarrow> fle a lat \<and> fle lat c \<and> fle b lng \<and> fle lng d)"

fun map_pins ::
  "(string \<Rightarrow> pyfloat option) \<Rightarrow> pyfloat \<times> pyfloat \<times> pyfloat \<times> pyfloat \<Rightarrow> bool \<Rightarrow> ocpi_location list \<Rightarrow> json list option" where
  "map_pins parse_float box available_only [] = Some []"
| "map_pins parse_float box available_only (l # ls) =
     (if \<not> ol_publish l then map_pins parse_float box available_only ls
      else case (parse_float (gl_latitude (ol_coordinates l)), parse_float (gl_longitude (ol_coordinates l))) of
        (Some lat, Some lng) \<Rightarrow>
          if \<not> in_box box lat lng \<or> (available_only \<and> ol_evse l \<noteq> Some ''AVAILABLE'')
          then map_pins parse_float box available_only ls
          else map_option (Cons (JObj [(''id'', JStr (ol_id l)), (''name'', jopt_str (ol_name l)), (''lat'', JFloat lat),
                  (''lng'', JFloat lng), (''status'', jopt_str (ol_evse l))])) (map_pins parse_float box available_only ls)
      | _ \<Rightarrow> None)"

definition route_list_chargers :: "(string \<Rightarrow> pyfloat option) \<Rightarrow> string \<Rightarrow> bool \<Rightarrow> location_repo \<Rightarrow> py_error + json" where
  "route_list_chargers parse_float bbox available_only r =
     (case parse_bbox parse_float bbox of
        None \<Rightarrow> Inl (PyValueError [])
      | Some box \<Rightarrow> (case map_pins parse_float box available_only (location_list_all r) of
          None \<Rightarrow> Inl (PyValueError []) | Some pins \<Rightarrow> Inr (JObj [(''data'', JList pins)])))"

subsection \<open>The route planner\<close>

text \<open>
  \<open>get_route\<close> is the routing client (an estimate of distance and duration, or a
  \<open>RoutingError\<close>), \<open>haversine\<close> the great-circle distance, computed by the C mathematics
  library.
\<close>

type_synonym point = "pyfloat \<times> pyfloat"

record suggested_charger =
  sg_id :: string
  sg_name :: "string option"
  sg_lat :: pyfloat
  sg_lng :: pyfloat

record route_plan =
  rp_distance :: pyfloat
  rp_duration :: pyfloat
  rp_needed :: bool
  rp_charger :: "suggested_charger option"

definition usable_range_km :: "pyfloat \<Rightarrow> pyfloat" where
  "usable_range_km capacity = fdiv_fin (fmul_fin capacity (rnd64 (8 / 10))) (rnd64 (18 / 100))"

text \<open>\<open>min(candidates, key=\<dots>)\<close>: the first candidate of least distance.\<close>

fun fmin_by :: "('a \<Rightarrow> pyfloat) \<Rightarrow> 'a \<Rightarrow> 'a list \<Rightarrow> 'a" where
  "fmin_by f x [] = x"
| "fmin_by f x (y # ys) = fmin_by f (if flt (f y) (f x) then y else x) ys"

definition location_point :: "(string \<Rightarrow> pyfloat option) \<Rightarrow> ocpi_location \<Rightarrow> point option" where
  "location_point parse_float l =
     (case (parse_float (gl_latitude (ol_coordinates l)), parse_float (gl_longitude (ol_coordinates l))) of
        (Some a, Some b) \<Rightarrow> Some (a, b) | _ \<Rightarrow> None)"

definition nearest_published_charger ::
  "(string \<Rightarrow> pyfloat option) \<Rightarrow> (point \<Rightarrow> point \<Rightarrow> pyfloat) \<Rightarrow> point \<Rightarrow> location_repo \<Rightarrow> py_error + suggested_charger option" where
  "nearest_published_charger parse_float haversine p r =
     (let candidates = filter ol_publish (location_list_all r) in
      if list_ex (\<lambda>l. location_point parse_float l = None) candidates then Inl (PyValueError [])
      else case candidates of [] \<Rightarrow> Inr None
        | c # cs \<Rightarrow> (let n = fmin_by (\<lambda>l. haversine p (the (location_point parse_float l))) c cs;
                       q = the (location_point parse_float n)
                   in Inr (Some \<lparr>sg_id = ol_id n, sg_name = ol_name n, sg_lat = fst q, sg_lng = snd q\<rparr>)))"

definition plan_route ::
  "(string \<Rightarrow> pyfloat option) \<Rightarrow> (point \<Rightarrow> point \<Rightarrow> pyfloat) \<Rightarrow> (point \<Rightarrow> point \<Rightarrow> string + pyfloat \<times> pyfloat)
    \<Rightarrow> uuid \<Rightarrow> uuid \<Rightarrow> point \<Rightarrow> point \<Rightarrow> vehicle_store \<Rightarrow> location_repo \<Rightarrow> (driver_error + py_error) + route_plan" where
  "plan_route parse_float haversine get_route driver i origin destination st r =
     (case vehicle_get st i of
        None \<Rightarrow> Inl (Inl (VehicleNotFoundError (str_uuid i)))
      | Some v \<Rightarrow>
        if vh_driver v \<noteq> driver then Inl (Inl (VehicleNotFoundError (str_uuid i)))
        else (case get_route origin destination of
          Inl m \<Rightarrow> Inl (Inl (RoutingError m))
        | Inr (distance, duration) \<Rightarrow>
          if flt (usable_range_km (vh_capacity v)) distance
          then (case nearest_published_charger parse_float haversine destination r of
                  Inl e \<Rightarrow> Inl (Inr e)
                | Inr c \<Rightarrow> Inr \<lparr>rp_distance = distance, rp_duration = duration, rp_needed = True, rp_charger = c\<rparr>)
          else Inr \<lparr>rp_distance = distance, rp_duration = duration, rp_needed = False, rp_charger = None\<rparr>))"

definition plan_to_dict :: "route_plan \<Rightarrow> json" where
  "plan_to_dict p = JObj [(''distance_km'', JFloat (rp_distance p)), (''duration_minutes'', JFloat (rp_duration p)),
     (''charging_stop_needed'', JBool (rp_needed p)),
     (''suggested_charger'', case rp_charger p of None \<Rightarrow> JNull
        | Some c \<Rightarrow> JObj [(''id'', JStr (sg_id c)), (''name'', jopt_str (sg_name c)), (''lat'', JFloat (sg_lat c)), (''lng'', JFloat (sg_lng c))])]"

definition route_plan_route ::
  "(string \<Rightarrow> pyfloat option) \<Rightarrow> (point \<Rightarrow> point \<Rightarrow> pyfloat) \<Rightarrow> (point \<Rightarrow> point \<Rightarrow> string + pyfloat \<times> pyfloat)
    \<Rightarrow> uuid \<Rightarrow> uuid \<Rightarrow> point \<Rightarrow> point \<Rightarrow> vehicle_store \<Rightarrow> location_repo \<Rightarrow> (driver_error + py_error) http_error + json" where
  "route_plan_route parse_float haversine get_route driver i origin destination st r =
     (case plan_route parse_float haversine get_route driver i origin destination st r of
        Inl (Inl (VehicleNotFoundError _)) \<Rightarrow> Inl (HTTPException 404 ''vehicle not found'')
      | Inl (Inl (RoutingError m)) \<Rightarrow> Inl (HTTPException 502 m)
      | Inl e \<Rightarrow> Inl (Raised e)
      | Inr p \<Rightarrow> Inr (plan_to_dict p))"

subsection \<open>Usage insights\<close>

record daily_usage_point =
  du_date :: date
  du_count :: nat
  du_kwh :: pyfloat
  du_cost :: int
  du_site :: "string option"

definition group_by_day :: "completed_session list \<Rightarrow> (date, completed_session list) pydict" where
  "group_by_day ss = fold (\<lambda>s d. dict_set (date_of (cs_ended s)) (dict_get_default d (date_of (cs_ended s)) [] @ [s]) d) ss []"

definition energy_by_charger :: "completed_session list \<Rightarrow> (string, pyfloat) pydict" where
  "energy_by_charger ss = fold (\<lambda>s d. dict_set (cs_charger s) (fadd (dict_get_default d (cs_charger s) (Fin 0)) (cs_energy s)) d) ss []"

fun fmax_by :: "('a \<Rightarrow> pyfloat) \<Rightarrow> 'a \<Rightarrow> 'a list \<Rightarrow> 'a" where
  "fmax_by f x [] = x"
| "fmax_by f x (y # ys) = fmax_by f (if flt (f x) (f y) then y else x) ys"

definition top_site_name :: "location_repo \<Rightarrow> completed_session list \<Rightarrow> string option" where
  "top_site_name r ss =
     (let d = energy_by_charger ss in case dict_keys d of
        [] \<Rightarrow> None
      | k # ks \<Rightarrow> (let top = fmax_by (\<lambda>c. the (dict_get d c)) k ks
                  in case location_get r top of Some l \<Rightarrow> ol_name l | None \<Rightarrow> Some top))"

text \<open>
  \<open>fsum\<close> is the built-in \<open>sum\<close> on floats (compensated since Python 3.12). \<open>sorted\<close> on the
  items orders them by day, the keys being distinct.
\<close>

definition get_daily_usage ::
  "(pyfloat list \<Rightarrow> pyfloat) \<Rightarrow> completed_session list \<Rightarrow> location_repo \<Rightarrow> uuid \<Rightarrow> date \<Rightarrow> date \<Rightarrow> daily_usage_point list" where
  "get_daily_usage fsum st r driver from until =
     map (\<lambda>(day, ss). \<lparr>du_date = day, du_count = length ss, du_kwh = fsum (map cs_energy ss),
                      du_cost = (\<Sum>s\<leftarrow>ss. cs_cost s), du_site = top_site_name r ss\<rparr>)
       (sort_key fst (group_by_day (history_list_for_driver st driver from until)))"

definition point_to_dict :: "(date \<Rightarrow> string) \<Rightarrow> daily_usage_point \<Rightarrow> json" where
  "point_to_dict isodate p = JObj [(''usage_date'', JStr (isodate (du_date p))), (''session_count'', JInt (int (du_count p))),
     (''kwh_total'', JFloat (du_kwh p)), (''cost_total_minor_units'', JInt (du_cost p)), (''top_site_name'', jopt_str (du_site p))]"

definition route_get_daily_usage ::
  "(pyfloat list \<Rightarrow> pyfloat) \<Rightarrow> (date \<Rightarrow> string) \<Rightarrow> completed_session list \<Rightarrow> location_repo \<Rightarrow> uuid \<Rightarrow> date \<Rightarrow> date \<Rightarrow> json" where
  "route_get_daily_usage fsum isodate st r driver from until =
     JObj [(''data'', JList (map (point_to_dict isodate) (get_daily_usage fsum st r driver from until)))]"

subsection \<open>Rewards are never overdrawn\<close>

datatype reward_op = Award uuid | Redeem uuid string

fun reward_apply :: "reward_op \<Rightarrow> rewards_store \<Rightarrow> rewards_store" where
  "reward_apply (Award d) st = snd (award_for_completed_session d st)"
| "reward_apply (Redeem d rid) st = snd (redeem d rid st)"

text \<open>The points a driver earned and the points the accepted redemptions of a run cost.\<close>

definition earned :: "uuid \<Rightarrow> reward_op list \<Rightarrow> int" where
  "earned d ops = points_per_completed_session * int (length (filter (\<lambda>op. op = Award d) ops))"

definition reward_cost :: "string \<Rightarrow> int" where
  "reward_cost rid = (case first_match (\<lambda>i. ri_id i = rid) reward_catalog of None \<Rightarrow> 0 | Some i \<Rightarrow> ri_cost i)"

definition op_cost :: "uuid \<Rightarrow> reward_op \<Rightarrow> rewards_store \<Rightarrow> int" where
  "op_cost d op st = (case op of Award _ \<Rightarrow> 0
     | Redeem e rid \<Rightarrow> (case fst (redeem e rid st) of Inl _ \<Rightarrow> 0 | Inr _ \<Rightarrow> if e = d then reward_cost rid else 0))"

fun spent :: "uuid \<Rightarrow> reward_op list \<Rightarrow> rewards_store \<Rightarrow> int" where
  "spent d [] st = 0"
| "spent d (op # ops) st = op_cost d op st + spent d ops (reward_apply op st)"

lemma reward_step:
  "rewards_get_balance (reward_apply op st) d = rewards_get_balance st d + earned d [op] - op_cost d op st"
proof (cases op)
  case (Award e)
  then show ?thesis
    by (simp add: award_for_completed_session_def add_points_def rewards_get_balance_def earned_def op_cost_def Let_def)
next
  case (Redeem e rid)
  then show ?thesis
    by (simp add: redeem_def deduct_points_def rewards_get_balance_def earned_def op_cost_def reward_cost_def Let_def
        split: option.split)
qed

lemma reward_step_nonneg:
  assumes "0 \<le> rewards_get_balance st d"
  shows "0 \<le> rewards_get_balance (reward_apply op st) d"
proof (cases op)
  case (Award e)
  then show ?thesis using assms
    by (auto simp: award_for_completed_session_def add_points_def rewards_get_balance_def points_per_completed_session_def Let_def)
next
  case (Redeem e rid)
  then show ?thesis using assms
    by (simp add: redeem_def deduct_points_def rewards_get_balance_def Let_def split: option.split)
qed

lemma reward_run:
  "rewards_get_balance (fold reward_apply ops st) d = rewards_get_balance st d + earned d ops - spent d ops st
   \<and> (0 \<le> rewards_get_balance st d \<longrightarrow> 0 \<le> rewards_get_balance (fold reward_apply ops st) d)"
proof (induction ops arbitrary: st)
  case Nil
  show ?case by (simp add: earned_def)
next
  case (Cons op ops)
  have "earned d (op # ops) = earned d [op] + earned d ops" by (simp add: earned_def algebra_simps)
  then show ?case using Cons[of "reward_apply op st"] reward_step[of op st d] reward_step_nonneg[of st d op] by auto
qed

text \<open>
  A driver's points balance is fifty per completed session less the cost of the
  rewards actually redeemed, whatever other drivers do in between, and it is never
  negative: a redemption that the balance does not cover is refused and costs nothing.
\<close>

theorem rewards_never_overdrawn:
  "rewards_get_balance (fold reward_apply ops []) d = earned d ops - spent d ops []
   \<and> 0 \<le> rewards_get_balance (fold reward_apply ops []) d"
  using reward_run[of ops "[]" d] by (simp add: rewards_get_balance_def dict_get_default_def)

subsection \<open>Drivers are isolated from each other\<close>

datatype vehicle_op = CreateVehicle uuid string string string pyfloat | SetPnc uuid bool | DeleteVehicle uuid

fun vehicle_apply :: "uuid \<Rightarrow> vehicle_op \<Rightarrow> vehicle_store \<Rightarrow> vehicle_store" where
  "vehicle_apply driver (CreateVehicle i mk model connector capacity) st = snd (route_create_vehicle i driver mk model connector capacity st)"
| "vehicle_apply driver (SetPnc i b) st = snd (route_set_plug_and_charge driver i b st)"
| "vehicle_apply driver (DeleteVehicle i) st = snd (route_delete_vehicle driver i st)"

definition op_fresh :: "vehicle_op \<Rightarrow> vehicle_store \<Rightarrow> bool" where
  "op_fresh op st = (case op of CreateVehicle i _ _ _ _ \<Rightarrow> dict_get st i = None | _ \<Rightarrow> True)"

lemma filter_values_set:
  "dict_get d k = Some v \<Longrightarrow> \<not> P v \<Longrightarrow> \<not> P w \<Longrightarrow> filter P (dict_values (dict_set k w d)) = filter P (dict_values d)"
  by (induction d) (auto split: if_splits)

lemma filter_values_del:
  "dict_inv d \<Longrightarrow> dict_get d k = Some v \<Longrightarrow> \<not> P v \<Longrightarrow> filter P (dict_values (dict_del k d)) = filter P (dict_values d)"
proof (induction d)
  case Nil
  then show ?case by simp
next
  case (Cons a d)
  show ?case
  proof (cases "fst a = k")
    case True
    then have "dict_del k d = d" using Cons.prems(1) by simp
    then show ?thesis using True Cons.prems by (cases a) simp
  next
    case False
    then show ?thesis using Cons by (cases a) simp
  qed
qed

lemma owned_vehicle_Inr: "owned_vehicle_or_404 i driver st = Inr v \<longleftrightarrow> dict_get st i = Some v \<and> vh_driver v = driver"
  by (auto simp: owned_vehicle_or_404_def vehicle_get_def split: option.splits)

text \<open>
  Whatever a driver requests, the vehicles another driver sees do not change: a
  vehicle can only be altered or deleted by its owner, and asking for someone else's
  answers the same 404 as asking for one that does not exist.
\<close>

theorem vehicles_isolated:
  assumes "dict_inv st" and "op_fresh op st" and "driver \<noteq> other"
  shows "vehicle_list_for_driver (vehicle_apply driver op st) other = vehicle_list_for_driver st other
    \<and> dict_inv (vehicle_apply driver op st)
    \<and> (vehicle_get st i = None \<longrightarrow> route_delete_vehicle driver i st = (Inl (HTTPException 404 ''vehicle not found''), st))
    \<and> (\<forall>v. vehicle_get st i = Some v \<and> vh_driver v \<noteq> driver \<longrightarrow>
          route_delete_vehicle driver i st = (Inl (HTTPException 404 ''vehicle not found''), st)
          \<and> route_set_plug_and_charge driver i b st = (Inl (HTTPException 404 ''vehicle not found''), st))"
proof -
  have step: "vehicle_list_for_driver (vehicle_apply driver op st) other = vehicle_list_for_driver st other
    \<and> dict_inv (vehicle_apply driver op st)"
  proof (cases op)
    case (CreateVehicle j mk model connector capacity)
    then show ?thesis using assms
      by (simp add: route_create_vehicle_def vehicle_create_def vehicle_list_for_driver_def op_fresh_def dict_set_fresh
          map_of_eq_None_iff Let_def)
  next
    case (SetPnc j e)
    show ?thesis
    proof (cases "owned_vehicle_or_404 j driver st")
      case (Inl a)
      then show ?thesis using SetPnc assms(1) by (simp add: route_set_plug_and_charge_def)
    next
      case (Inr v)
      then have "dict_get st j = Some v" "vh_driver v = driver" by (simp_all add: owned_vehicle_Inr)
      then show ?thesis using SetPnc Inr assms
        by (simp add: route_set_plug_and_charge_def set_plug_and_charge_def vehicle_list_for_driver_def filter_values_set Let_def)
    qed
  next
    case (DeleteVehicle j)
    show ?thesis
    proof (cases "owned_vehicle_or_404 j driver st")
      case (Inl a)
      then show ?thesis using DeleteVehicle assms(1) by (simp add: route_delete_vehicle_def)
    next
      case (Inr v)
      then have "dict_get st j = Some v" "vh_driver v = driver" by (simp_all add: owned_vehicle_Inr)
      then show ?thesis using DeleteVehicle Inr assms
        by (simp add: route_delete_vehicle_def vehicle_delete_def vehicle_list_for_driver_def filter_values_del)
    qed
  qed
  then show ?thesis
    by (simp add: route_delete_vehicle_def route_set_plug_and_charge_def owned_vehicle_or_404_def split: option.split)
qed

definition sample_vehicle :: vehicle where
  "sample_vehicle = \<lparr>vh_id = 5, vh_driver = 1, vh_make = ''VW'', vh_model = ''ID.3'', vh_connector = ''CCS'', vh_capacity = Fin 58, vh_pnc = False\<rparr>"

theorem vehicles_isolated_witness:
  "vehicle_list_for_driver (vehicle_apply 2 (DeleteVehicle 5) [(5, sample_vehicle)]) 1 = [sample_vehicle]"
  using vehicles_isolated[of "[(5, sample_vehicle)]" "DeleteVehicle 5" 2 1 5 True]
  by (simp add: op_fresh_def vehicle_list_for_driver_def sample_vehicle_def del: vehicle_apply.simps)

subsection \<open>Reservations belong to their driver\<close>

definition reservations_ok :: "'t reservation_service \<Rightarrow> bool" where
  "reservations_ok s \<longleftrightarrow> dict_inv (rs_owner s) \<and> dict_inv (rs_reservations s)
     \<and> dict_keys (rs_owner s) = dict_keys (rs_reservations s) \<and> list_all (\<lambda>(k, v). rv_id v = k) (rs_reservations s)"

lemma reservations_ok_get:
  "reservations_ok s \<Longrightarrow> dict_get (rs_owner s) k = None \<longleftrightarrow> dict_get (rs_reservations s) k = None"
  by (simp add: reservations_ok_def map_of_eq_None_iff flip: set_map)

lemma dict_keys_set: "dict_keys (dict_set k v d) = (if k \<in> set (dict_keys d) then dict_keys d else dict_keys d @ [k])"
  by (induction d) auto

lemma reserve_keeps_ok:
  assumes "reservations_ok s"
  shows "reservations_ok (snd (reserve send isofmt d new_id charger connector expires driver tenant s))"
proof -
  have eq: "dict_keys (dict_set k a (rs_owner s)) = dict_keys (dict_set k b (rs_reservations s))" for k a b
    using assms by (simp only: dict_keys_set reservations_ok_def)
  have "list_all (\<lambda>(k, v). rv_id v = k) (dict_set (rv_id v) v xs)" if "list_all (\<lambda>(k, v). rv_id v = k) xs" for v xs
    using that by (induction xs) auto
  from this[of "rs_reservations s" "\<lparr>rv_id = str_uuid new_id, rv_charger = charger, rv_connector = connector, rv_expires = expires\<rparr>"]
  show ?thesis using assms eq
    by (auto simp: reserve_def reservations_ok_def Let_def case_prod_beta split: sum.split)
qed

lemma dict_del_ok: "list_all P d \<Longrightarrow> list_all P (dict_del k d)"
  by (induction d) auto

text \<open>
  Only the driver who holds a reservation can cancel it. Anyone else, like someone
  who names no reservation at all, is answered that it was not found and nothing is sent to
  the charger; the holder's cancellation removes exactly that reservation when the charger
  accepts it and none otherwise. Owners and reservations always stay in step.
\<close>

theorem cancel_owner_only:
  assumes "reservations_ok s" and "cancel send d rid driver tenant s = (r, s')"
  shows "reservations_ok s'
    \<and> (if dict_get (rs_owner s) rid = Some driver
       then rs_reservations s' = (if r = Inr () then dict_del rid (rs_reservations s) else rs_reservations s)
          \<and> r \<noteq> Inl (Inl (ReservationNotFoundError rid))
       else r = Inl (Inl (ReservationNotFoundError rid)) \<and> s' = s)"
proof (cases "dict_get (rs_owner s) rid = Some driver")
  case False
  then show ?thesis using assms by (simp add: cancel_def)
next
  case True
  then obtain v where v: "dict_get (rs_reservations s) rid = Some v" using reservations_ok_get[OF assms(1), of rid] by auto
  have "dict_keys (dict_del rid (rs_owner s)) = dict_keys (dict_del rid (rs_reservations s))"
    using assms(1) by (simp add: delete_keys reservations_ok_def)
  then show ?thesis using assms True v
    by (auto simp: cancel_def reservations_ok_def Let_def case_prod_beta dict_del_ok split: sum.splits if_splits)
qed

definition sample_reservations :: "fake_transport reservation_service" where
  "sample_reservations = \<lparr>rs_ocpi = \<lparr>os_map = [], os_txns = \<lparr>tr_active = [], tr_records = []\<rparr>, os_commands = sample_service\<rparr>,
     rs_owner = [(''r1'', 1)], rs_reservations = [(''r1'', \<lparr>rv_id = ''r1'', rv_charger = ''CP'', rv_connector = 1, rv_expires = 9\<rparr>)]\<rparr>"

theorem cancel_owner_only_witness:
  "snd (cancel fake_send (1, 2, 3) ''r1'' 2 7 sample_reservations) = sample_reservations"
  using cancel_owner_only[of sample_reservations fake_send "(1, 2, 3)" "''r1''" 2 7, OF _ surjective_pairing]
  by (simp add: sample_reservations_def reservations_ok_def)

subsection \<open>Usage insights account for every session\<close>

lemma group_by_day_get:
  "dict_get (group_by_day ss) day =
     (let g = filter (\<lambda>s. date_of (cs_ended s) = day) ss in if g = [] then None else Some g)"
proof (induction ss rule: rev_induct)
  case Nil
  show ?case by (simp add: group_by_day_def)
next
  case (snoc s ss)
  have "group_by_day (ss @ [s]) = dict_set (date_of (cs_ended s)) (dict_get_default (group_by_day ss) (date_of (cs_ended s)) [] @ [s]) (group_by_day ss)"
    by (simp add: group_by_day_def)
  then show ?case using snoc by (auto simp: dict_get_default_def Let_def)
qed

lemma group_by_day_inv: "dict_inv (group_by_day ss)"
proof (induction ss rule: rev_induct)
  case Nil
  show ?case by (simp add: group_by_day_def)
next
  case (snoc s ss)
  then show ?case by (simp add: group_by_day_def)
qed

lemma group_by_day_entry: "(day, g) \<in> set (group_by_day ss) \<Longrightarrow> g = filter (\<lambda>s. date_of (cs_ended s) = day) ss \<and> g \<noteq> []"
  using group_by_day_get[of ss day] group_by_day_inv[of ss] by (auto simp: Let_def split: if_splits)

lemma sum_groups:
  assumes "distinct ds" and "set (map f ss) \<subseteq> set ds"
  shows "(\<Sum>d\<leftarrow>ds. \<Sum>s\<leftarrow>filter (\<lambda>s. f s = d) ss. c s) = (\<Sum>s\<leftarrow>ss. c s :: int)"
  using assms(2)
proof (induction ss)
  case Nil
  show ?case by (induction ds) simp_all
next
  case (Cons s ss)
  have "(\<Sum>d\<leftarrow>ds. \<Sum>s\<leftarrow>filter (\<lambda>s. f s = d) (s # ss). c s)
      = (\<Sum>d\<leftarrow>ds. (if d = f s then c s else 0) + (\<Sum>s\<leftarrow>filter (\<lambda>s. f s = d) ss. c s))"
    by (intro arg_cong[of _ _ sum_list] map_cong) auto
  also have "\<dots> = (\<Sum>d\<leftarrow>ds. if d = f s then c s else 0) + (\<Sum>d\<leftarrow>ds. \<Sum>s\<leftarrow>filter (\<lambda>s. f s = d) ss. c s)"
    by (rule sum_list_addf)
  also have "(\<Sum>d\<leftarrow>ds. if d = f s then c s else 0) = c s"
    using assms(1) Cons.prems by (simp add: sum_list_distinct_conv_sum_set sum.delta)
  finally show ?case using Cons by simp
qed

text \<open>
  The daily usage report accounts for every completed session of the driver in the
  range exactly once: its days are in increasing order without repetition, a day is
  present exactly when a session ended on it, with the number of those sessions, and the
  daily costs add up to the cost of all of them.
\<close>

theorem daily_usage_partitions:
  assumes "ss = history_list_for_driver st driver from until" and "ps = get_daily_usage fsum st r driver from until"
  shows "sorted_wrt (<) (map du_date ps)
    \<and> (\<forall>day n. (\<exists>p \<in> set ps. du_date p = day \<and> du_count p = n) \<longleftrightarrow>
          n = length (filter (\<lambda>s. date_of (cs_ended s) = day) ss) \<and> 0 < n)
    \<and> (\<Sum>p\<leftarrow>ps. du_cost p) = (\<Sum>s\<leftarrow>ss. cs_cost s)"
proof -
  let ?f = "\<lambda>s. date_of (cs_ended s)" and ?g = "sort_key fst (group_by_day ss)"
  have days: "map du_date ps = map fst ?g" by (simp add: assms get_daily_usage_def case_prod_beta comp_def)
  have dist: "distinct (map fst ?g)" using group_by_day_inv[of ss] by (simp add: distinct_map inj_on_def)
  have "sorted_wrt (<) (map fst ?g)" using dist by (intro strict_sorted_iff[THEN iffD2]) simp
  moreover have "(\<exists>p \<in> set ps. du_date p = day \<and> du_count p = n) \<longleftrightarrow> n = length (filter (\<lambda>s. ?f s = day) ss) \<and> 0 < n" for day n
  proof -
    have "(\<exists>p \<in> set ps. du_date p = day \<and> du_count p = n) \<longleftrightarrow> (\<exists>g. (day, g) \<in> set (group_by_day ss) \<and> length g = n)"
      by (force simp: assms get_daily_usage_def)
    also have "\<dots> \<longleftrightarrow> (\<exists>g. dict_get (group_by_day ss) day = Some g \<and> length g = n)" using group_by_day_inv[of ss] by simp
    finally show ?thesis by (cases "filter (\<lambda>s. ?f s = day) ss") (auto simp: group_by_day_get Let_def)
  qed
  moreover have "(\<Sum>p\<leftarrow>ps. du_cost p) = (\<Sum>d\<leftarrow>map fst ?g. \<Sum>s\<leftarrow>filter (\<lambda>s. ?f s = d) ss. cs_cost s)"
    by (simp add: assms get_daily_usage_def case_prod_beta comp_def cong: map_cong)
      (intro arg_cong[of _ _ sum_list] map_cong refl, use group_by_day_entry in \<open>force simp: assms\<close>)
  moreover have "set (map ?f ss) \<subseteq> set (map fst ?g)"
    using group_by_day_get[of ss] by (force simp: Let_def filter_empty_conv dest!: map_of_SomeD split: if_splits)
  ultimately show ?thesis using sum_groups[OF dist, of ?f ss cs_cost] days by simp
qed

definition sample_session :: "datetime \<Rightarrow> completed_session" where
  "sample_session t = \<lparr>cs_session = ''s'', cs_driver = 1, cs_charger = ''CP'', cs_started = 0, cs_ended = t, cs_energy = Fin 10,
     cs_cost = 400, cs_currency = ''AED''\<rparr>"

theorem daily_usage_partitions_witness:
  "(\<Sum>p\<leftarrow>get_daily_usage (\<lambda>_. Fin 0) [sample_session 1, sample_session 90000000000, sample_session 2] [] 1 0 1. du_cost p) = 1200"
  using daily_usage_partitions[OF refl refl, of "\<lambda>_. Fin 0" "[sample_session 1, sample_session 90000000000, sample_session 2]" "[]" 1 0 1]
  by (simp add: history_list_for_driver_def sample_session_def date_of_def)

end
