(* ===== verification/Charging_Auth.thy ===== *)
theory Charging_Auth
  imports Py_Text
begin

text \<open>
  How a driver is identified at a charger: signed QR codes (\<open>charging_auth/qr_token.py\<close>),
  Autocharge by MAC address (\<open>charging_auth/autocharge.py\<close>) and Plug and Charge certificates
  (\<open>charging_auth/plug_and_charge.py\<close>). HMAC, base64, the JSON codec and X.509 are library
  code and stand as parameters.
\<close>

subsection \<open>QR tokens\<close>

datatype qr_error = QrTokenError string | QrRaised py_error

record qr_payload =
  qp_charger :: string
  qp_connector :: int

text \<open>
  \<open>encode\<close> is \<open>json.dumps\<close> followed by URL-safe base64, \<open>decode\<close> the way back (\<open>None\<close> for any
  exception); \<open>hmac secret message\<close> is the hexadecimal digest.
\<close>

definition qr_payload_json :: "string \<Rightarrow> int \<Rightarrow> pyfloat \<Rightarrow> int \<Rightarrow> json" where
  "qr_payload_json charger connector issued ttl =
     JObj [(''charger_id'', JStr charger), (''connector_id'', JInt connector), (''issued_at'', JFloat issued), (''ttl'', JInt ttl)]"

definition sign_qr_token ::
  "(json \<Rightarrow> string) \<Rightarrow> (string \<Rightarrow> string \<Rightarrow> string) \<Rightarrow> string \<Rightarrow> int \<Rightarrow> string \<Rightarrow> int \<Rightarrow> pyfloat \<Rightarrow> string" where
  "sign_qr_token encode hmac charger connector secret ttl issued =
     (let p = encode (qr_payload_json charger connector issued ttl) in p @ ''.'' @ hmac secret p)"

text \<open>A JSON number: an int (a bool is one) or a float; \<open>a + b\<close> and \<open>now > x\<close> on them.\<close>

fun jnum :: "json \<Rightarrow> (int + pyfloat) option" where
  "jnum (JInt n) = Some (Inl n)"
| "jnum (JBool b) = Some (Inl (if b then 1 else 0))"
| "jnum (JFloat x) = Some (Inr x)"
| "jnum _ = None"

definition num_add :: "int + pyfloat \<Rightarrow> int + pyfloat \<Rightarrow> arith_error + (int + pyfloat)" where
  "num_add a b =
     (case a of
        Inl m \<Rightarrow> (case b of Inl n \<Rightarrow> Inr (Inl (m + n)) | Inr y \<Rightarrow> rbind (float_of_int m) (\<lambda>x. Inr (Inr (fadd (Fin x) y))))
      | Inr x \<Rightarrow> (case b of Inl n \<Rightarrow> rbind (float_of_int n) (\<lambda>y. Inr (Inr (fadd x (Fin y)))) | Inr y \<Rightarrow> Inr (Inr (fadd x y))))"

definition float_gt_num :: "pyfloat \<Rightarrow> int + pyfloat \<Rightarrow> bool" where
  "float_gt_num now x = (case x of Inl n \<Rightarrow> flt (Fin (of_int n)) now | Inr y \<Rightarrow> flt y now)"

definition qr_deadline :: "json \<Rightarrow> py_error + (int + pyfloat)" where
  "qr_deadline payload =
     rbind (jitem payload ''issued_at'') (\<lambda>a. rbind (jitem payload ''ttl'') (\<lambda>b.
       case (jnum a, jnum b) of
         (Some x, Some y) \<Rightarrow> (case num_add x y of Inl e \<Rightarrow> Inl (Arith e) | Inr z \<Rightarrow> Inr z)
       | _ \<Rightarrow> Inl IllTyped))"

definition qr_fields :: "json \<Rightarrow> py_error + qr_payload" where
  "qr_fields payload =
     rbind (jitem payload ''charger_id'') (\<lambda>c. rbind (jitem payload ''connector_id'') (\<lambda>n.
       case (c, n) of (JStr s, JInt k) \<Rightarrow> Inr \<lparr>qp_charger = s, qp_connector = k\<rparr> | _ \<Rightarrow> Inl IllTyped))"

text \<open>
  \<open>compare_digest\<close> on two strings raises \<open>TypeError\<close> when one is not ASCII, and
  \<open>encode("ascii")\<close> a \<open>UnicodeEncodeError\<close>; neither is a \<open>QrTokenError\<close>.
\<close>

definition verify_qr_token ::
  "(string \<Rightarrow> json option) \<Rightarrow> (string \<Rightarrow> string \<Rightarrow> string) \<Rightarrow> string \<Rightarrow> string \<Rightarrow> pyfloat \<Rightarrow> qr_error + qr_payload" where
  "verify_qr_token decode hmac token secret now =
     (case split_once (CHR ''.'') token of
        None \<Rightarrow> Inl (QrTokenError ''malformed QR token'')
      | Some (p, signature) \<Rightarrow>
        if \<not> is_ascii p then Inl (QrRaised (PyValueError ''ordinal not in range(128)''))
        else if \<not> is_ascii signature then Inl (QrRaised TypeError)
        else if hmac secret p \<noteq> signature then Inl (QrTokenError ''invalid or tampered QR token'')
        else (case decode p of
          None \<Rightarrow> Inl (QrTokenError ''malformed QR token payload'')
        | Some payload \<Rightarrow> (case qr_deadline payload of
            Inl e \<Rightarrow> Inl (QrRaised e)
          | Inr t \<Rightarrow> if float_gt_num now t then Inl (QrTokenError ''QR token has expired'')
                    else (case qr_fields payload of Inl e \<Rightarrow> Inl (QrRaised e) | Inr q \<Rightarrow> Inr q))))"

subsection \<open>Autocharge\<close>

type_synonym mac_store = "(string, uuid) pydict"

definition mac_register :: "string \<Rightarrow> uuid \<Rightarrow> mac_store \<Rightarrow> mac_store" where
  "mac_register mac driver st = dict_set (py_lower mac) driver st"

definition get_driver_id_for_mac :: "mac_store \<Rightarrow> string \<Rightarrow> uuid option" where
  "get_driver_id_for_mac st mac = dict_get st (py_lower mac)"

definition synthesize_id_tag_for_mac :: "string \<Rightarrow> string" where
  "synthesize_id_tag_for_mac mac = ''AUTOCHARGE:'' @ py_upper mac"

subsection \<open>Plug and Charge\<close>

datatype pnc_error = PlugAndChargeError string | OcspError string | PncRaised py_error

definition emaid_register :: "string \<Rightarrow> uuid \<Rightarrow> (string, uuid) pydict \<Rightarrow> (string, uuid) pydict" where
  "emaid_register emaid driver m = dict_set emaid driver m"

definition get_driver_id_for_emaid :: "(string, uuid) pydict \<Rightarrow> string \<Rightarrow> uuid option" where
  "get_driver_id_for_emaid m emaid = dict_get m emaid"

text \<open>
  What the code uses of \<open>cryptography.x509\<close>: loading a PEM, the names, the RSA verification
  (the CA's key on the certificate's signature; anything but \<open>InvalidSignature\<close> escapes), the
  validity period, the serial number and the subject's common names.
\<close>

record 'c x509_ops =
  xo_load :: "string \<Rightarrow> 'c option"
  xo_issuer :: "'c \<Rightarrow> string"
  xo_subject :: "'c \<Rightarrow> string"
  xo_verify :: "'c \<Rightarrow> 'c \<Rightarrow> py_error + bool"
  xo_not_before :: "'c \<Rightarrow> datetime"
  xo_not_after :: "'c \<Rightarrow> datetime"
  xo_serial :: "'c \<Rightarrow> int"
  xo_common_names :: "'c \<Rightarrow> string list"

type_synonym 'c ocsp_checker = "'c \<Rightarrow> 'c \<Rightarrow> pnc_error + bool"

definition ocsp_revoke :: "int \<Rightarrow> int set \<Rightarrow> int set" where
  "ocsp_revoke serial revoked = insert serial revoked"

definition memory_is_revoked :: "'c x509_ops \<Rightarrow> int set \<Rightarrow> 'c ocsp_checker" where
  "memory_is_revoked x revoked cert issuer = Inr (xo_serial x cert \<in> revoked)"

text \<open>
  \<open>build\<close> makes the DER request, \<open>post\<close> sends it (an \<open>httpx\<close> error as its text, or status and
  content), \<open>parse\<close> reads the response: whether its status is successful, that status as text,
  and whether the certificate status is good.
\<close>

definition http_is_revoked ::
  "('c \<Rightarrow> 'c \<Rightarrow> string) \<Rightarrow> (string \<Rightarrow> string \<Rightarrow> string + int \<times> string) \<Rightarrow> (string \<Rightarrow> (bool \<times> string \<times> bool) option)
    \<Rightarrow> string \<Rightarrow> 'c ocsp_checker" where
  "http_is_revoked build post parse url cert issuer =
     (case post url (build cert issuer) of
        Inl exc \<Rightarrow> Inl (OcspError (''OCSP responder unreachable: '' @ exc))
      | Inr (code, content) \<Rightarrow>
        if code \<noteq> 200 then Inl (OcspError (''OCSP responder returned status '' @ str_int code))
        else (case parse content of
          None \<Rightarrow> Inl (OcspError ''malformed OCSP response'')
        | Some (ok, status, good) \<Rightarrow>
          if \<not> ok then Inl (OcspError (''OCSP responder did not return a successful status: '' @ status))
          else Inr (\<not> good)))"

definition signed_by :: "'c x509_ops \<Rightarrow> 'c \<Rightarrow> 'c \<Rightarrow> py_error + bool" where
  "signed_by x cert ca = (if xo_issuer x cert \<noteq> xo_subject x ca then Inr False else xo_verify x ca cert)"

definition extract_emaid :: "'c x509_ops \<Rightarrow> 'c \<Rightarrow> string option" where
  "extract_emaid x cert = (case xo_common_names x cert of [] \<Rightarrow> None | n # _ \<Rightarrow> Some n)"

text \<open>\<open>next((ca for ca in cas if _signed_by(cert, ca)), None)\<close>, where the test may raise.\<close>

fun find_issuer :: "'c x509_ops \<Rightarrow> 'c \<Rightarrow> 'c list \<Rightarrow> py_error + 'c option" where
  "find_issuer x cert [] = Inr None"
| "find_issuer x cert (ca # cas) =
     (case signed_by x cert ca of Inl e \<Rightarrow> Inl e | Inr True \<Rightarrow> Inr (Some ca) | Inr False \<Rightarrow> find_issuer x cert cas)"

record 'c pnc_validator =
  pv_cas :: "'c list"
  pv_map :: "(string, uuid) pydict"
  pv_ocsp :: "'c ocsp_checker option"

definition ocsp_status :: "'c pnc_validator \<Rightarrow> 'c \<Rightarrow> 'c \<Rightarrow> pnc_error + bool" where
  "ocsp_status v cert ca = (case pv_ocsp v of None \<Rightarrow> Inr False | Some check \<Rightarrow> check cert ca)"

definition resolve_driver_from_cert :: "'c x509_ops \<Rightarrow> datetime \<Rightarrow> 'c pnc_validator \<Rightarrow> string \<Rightarrow> pnc_error + uuid" where
  "resolve_driver_from_cert x now v pem =
     (case xo_load x pem of
        None \<Rightarrow> Inl (PlugAndChargeError ''malformed certificate'')
      | Some cert \<Rightarrow>
        (case find_issuer x cert (pv_cas v) of
           Inl e \<Rightarrow> Inl (PncRaised e)
         | Inr None \<Rightarrow> Inl (PlugAndChargeError ''certificate not signed by any trusted CA'')
         | Inr (Some ca) \<Rightarrow>
           if now < xo_not_before x cert \<or> now > xo_not_after x cert
           then Inl (PlugAndChargeError ''certificate is not within its validity period'')
           else rbind (ocsp_status v cert ca) (\<lambda>revoked.
             if revoked then Inl (PlugAndChargeError ''certificate has been revoked'')
             else (case extract_emaid x cert of
               None \<Rightarrow> Inl (PlugAndChargeError ''certificate missing EMAID in subject common name'')
             | Some emaid \<Rightarrow>
               if emaid = [] then Inl (PlugAndChargeError ''certificate missing EMAID in subject common name'')
               else (case get_driver_id_for_emaid (pv_map v) emaid of
                 None \<Rightarrow> Inl (PlugAndChargeError (''no driver account mapped for EMAID '' @ emaid))
               | Some d \<Rightarrow> Inr d)))))"

subsection \<open>Properties\<close>

text \<open>
  What the QR code relies on of its codec and HMAC for a payload \<open>j\<close>: the encoding is
  ASCII without a dot and decodes to the payload; a digest is ASCII.
\<close>

definition qr_codec_ok :: "(json \<Rightarrow> string) \<Rightarrow> (string \<Rightarrow> json option) \<Rightarrow> (string \<Rightarrow> string \<Rightarrow> string) \<Rightarrow> string \<Rightarrow> json \<Rightarrow> bool" where
  "qr_codec_ok encode decode hmac secret j \<longleftrightarrow>
     is_ascii (encode j) \<and> CHR ''.'' \<notin> set (encode j) \<and> decode (encode j) = Some j \<and> is_ascii (hmac secret (encode j))"

lemma verify_signed:
  assumes "qr_codec_ok encode decode hmac secret (qr_payload_json charger connector issued ttl)" and "\<bar>ttl\<bar> \<le> 2 ^ 53"
  shows "verify_qr_token decode hmac (sign_qr_token encode hmac charger connector secret ttl issued) secret now
      = (if flt (fadd issued (Fin (of_int ttl))) now then Inl (QrTokenError ''QR token has expired'')
         else Inr \<lparr>qp_charger = charger, qp_connector = connector\<rparr>)"
proof -
  let ?j = "qr_payload_json charger connector issued ttl"
  have e: "is_ascii (encode ?j)" "CHR ''.'' \<notin> set (encode ?j)" "decode (encode ?j) = Some ?j" "is_ascii (hmac secret (encode ?j))"
    using assms(1) unfolding qr_codec_ok_def by blast+
  have "qr_deadline ?j = Inr (Inr (fadd issued (Fin (of_int ttl))))"
    using float_of_int_exact[OF assms(2)] by (simp add: qr_payload_json_def qr_deadline_def jitem_def num_add_def)
  moreover have "qr_fields ?j = Inr \<lparr>qp_charger = charger, qp_connector = connector\<rparr>"
    by (simp add: qr_payload_json_def qr_fields_def jitem_def)
  ultimately show ?thesis using e by (simp add: verify_qr_token_def sign_qr_token_def Let_def float_gt_num_def)
qed

lemma verify_needs_signature:
  "CHR ''.'' \<notin> set p \<Longrightarrow> verify_qr_token decode hmac (p @ ''.'' @ sig) secret now = Inr q \<Longrightarrow> sig = hmac secret p"
  by (simp add: verify_qr_token_def split: if_splits)

text \<open>
  A QR token verifies under the secret it was signed with exactly until its
  deadline, giving back the charger and the connector; after the deadline it is refused as
  expired. A token whose signature part is not the HMAC of its payload part under the
  given secret is never accepted.
\<close>

theorem qr_token_verifies:
  assumes "qr_codec_ok encode decode hmac secret (qr_payload_json charger connector issued ttl)" and "\<bar>ttl\<bar> \<le> 2 ^ 53"
  shows "verify_qr_token decode hmac (sign_qr_token encode hmac charger connector secret ttl issued) secret now
      = (if flt (fadd issued (Fin (of_int ttl))) now then Inl (QrTokenError ''QR token has expired'')
         else Inr \<lparr>qp_charger = charger, qp_connector = connector\<rparr>)
    \<and> (\<forall>p sig q. CHR ''.'' \<notin> set p \<and> verify_qr_token decode hmac (p @ ''.'' @ sig) secret now = Inr q \<longrightarrow> sig = hmac secret p)"
  using verify_signed[OF assms] verify_needs_signature by blast

theorem qr_token_verifies_witness:
  "verify_qr_token (\<lambda>_. Some (qr_payload_json ''CP'' 1 (Fin 0) 300)) (\<lambda>k m. k @ m)
     (sign_qr_token (\<lambda>_. ''cGF5'') (\<lambda>k m. k @ m) ''CP'' 1 ''key'' 300 (Fin 0)) ''key'' (Fin 250)
   = Inr \<lparr>qp_charger = ''CP'', qp_connector = 1\<rparr>"
proof -
  have "qr_codec_ok (\<lambda>_. ''cGF5'') (\<lambda>_. Some (qr_payload_json ''CP'' 1 (Fin 0) 300)) (\<lambda>k m. k @ m) ''key'' (qr_payload_json ''CP'' 1 (Fin 0) 300)"
    by (simp add: qr_codec_ok_def is_ascii_def)
  from qr_token_verifies[OF this, of "Fin 250"] show ?thesis
    using fl64_of_int[of 300] by simp
qed

lemma find_issuer_trusted:
  "find_issuer x cert cas = Inr (Some ca) \<Longrightarrow> ca \<in> set cas \<and> xo_issuer x cert = xo_subject x ca \<and> xo_verify x ca cert = Inr True"
  by (induction cas) (auto simp: signed_by_def split: sum.splits bool.splits if_splits)

lemma resolve_driver_Inr:
  "resolve_driver_from_cert x now v pem = Inr d \<longleftrightarrow>
     (\<exists>cert ca emaid. xo_load x pem = Some cert \<and> find_issuer x cert (pv_cas v) = Inr (Some ca)
        \<and> xo_not_before x cert \<le> now \<and> now \<le> xo_not_after x cert \<and> ocsp_status v cert ca = Inr False
        \<and> extract_emaid x cert = Some emaid \<and> emaid \<noteq> [] \<and> get_driver_id_for_emaid (pv_map v) emaid = Some d)"
  by (auto simp: resolve_driver_from_cert_def rbind_Inr not_less split: option.splits sum.splits if_splits)

lemma http_is_revoked_False:
  "http_is_revoked build post parse url cert ca = Inr False \<longleftrightarrow>
     (\<exists>content status. post url (build cert ca) = Inr (200, content) \<and> parse content = Some (True, status, True))"
  by (auto simp: http_is_revoked_def split: sum.splits option.splits prod.splits if_splits)

text \<open>
  With the production OCSP client, a certificate identifies a driver only if it
  parses, one of the configured CAs has the issuer's name and verifies the signature, the
  clock is within the validity period, the responder was reached and answered successfully
  that this certificate is good, and the common name is an EMAID mapped to that driver:
  every failure along the way, including an unreachable or malformed responder, refuses.
\<close>

theorem plug_and_charge_fails_closed:
  assumes "pv_ocsp v = Some (http_is_revoked build post parse url)" and "resolve_driver_from_cert x now v pem = Inr d"
  shows "\<exists>cert ca content status emaid. xo_load x pem = Some cert \<and> ca \<in> set (pv_cas v)
     \<and> xo_issuer x cert = xo_subject x ca \<and> xo_verify x ca cert = Inr True
     \<and> xo_not_before x cert \<le> now \<and> now \<le> xo_not_after x cert
     \<and> post url (build cert ca) = Inr (200, content) \<and> parse content = Some (True, status, True)
     \<and> hd (xo_common_names x cert) = emaid \<and> dict_get (pv_map v) emaid = Some d"
proof -
  from assms(2) obtain cert ca emaid where
    r: "xo_load x pem = Some cert" "find_issuer x cert (pv_cas v) = Inr (Some ca)" "xo_not_before x cert \<le> now"
      "now \<le> xo_not_after x cert" "ocsp_status v cert ca = Inr False" "extract_emaid x cert = Some emaid"
      "get_driver_id_for_emaid (pv_map v) emaid = Some d" unfolding resolve_driver_Inr by blast
  from r(5) assms(1) obtain content status where
    "post url (build cert ca) = Inr (200, content)" "parse content = Some (True, status, True)"
    by (auto simp: ocsp_status_def http_is_revoked_False)
  moreover have "hd (xo_common_names x cert) = emaid" using r(6) by (auto simp: extract_emaid_def split: list.splits)
  ultimately show ?thesis using r find_issuer_trusted[OF r(2)] by (auto simp: get_driver_id_for_emaid_def)
qed

text \<open>A toy X.509: a certificate is its serial, the CA is number 0 and signs everything.\<close>

definition sample_x509 :: "int x509_ops" where
  "sample_x509 = \<lparr>xo_load = (\<lambda>p. if p = ''pem'' then Some 7 else None), xo_issuer = (\<lambda>_. ''CA''), xo_subject = (\<lambda>c. if c = 0 then ''CA'' else ''leaf''),
     xo_verify = (\<lambda>ca c. Inr (ca = 0)), xo_not_before = (\<lambda>_. 0), xo_not_after = (\<lambda>_. 10), xo_serial = id, xo_common_names = (\<lambda>_. [''EM1''])\<rparr>"

theorem plug_and_charge_fails_closed_witness:
  "resolve_driver_from_cert sample_x509 5 \<lparr>pv_cas = [0], pv_map = [(''EM1'', 3)],
      pv_ocsp = Some (http_is_revoked (\<lambda>_ _. ''req'') (\<lambda>_ _. Inr (200, ''ok'')) (\<lambda>_. Some (True, ''0'', True)) ''url'')\<rparr> ''pem'' = Inr 3
   \<and> (\<exists>c. xo_load sample_x509 ''pem'' = Some c \<and> xo_verify sample_x509 0 c = Inr True)"
proof -
  let ?v = "\<lparr>pv_cas = [0], pv_map = [(''EM1'', 3)],
      pv_ocsp = Some (http_is_revoked (\<lambda>_ _. ''req'') (\<lambda>_ _. Inr (200, ''ok'')) (\<lambda>_. Some (True, ''0'', True)) ''url'')\<rparr>"
  have r: "resolve_driver_from_cert sample_x509 5 ?v ''pem'' = Inr 3"
    by (simp add: resolve_driver_from_cert_def sample_x509_def signed_by_def ocsp_status_def http_is_revoked_def
        extract_emaid_def get_driver_id_for_emaid_def)
  from plug_and_charge_fails_closed[OF _ r] show ?thesis using r by fastforce
qed

end
