(* ===== verification/Session_Start.thy ===== *)
theory Session_Start
  imports Driver_App Wallet Charging_Auth
begin

text \<open>
  Starting, watching and stopping a charging session (\<open>charging_auth/session_start.py\<close> and
  \<open>charging_auth/session_start_router.py\<close>): the four ways to start, the live snapshot, the stop
  with its reward and history record, and the routes. \<open>wallet_of\<close> is the configured
  \<open>wallet_id_for_driver\<close>.
\<close>

datatype session_error =
    SessionStartError string | SessionNotFoundError string | SessionTariff tariff_error | SessionOcsp string | SessionRaised py_error

record session_start_result =
  sr_session :: string
  sr_driver :: uuid
  sr_charger :: string
  sr_connector :: "int option"
  sr_tag :: string
  sr_method :: "payment_method option"
  sr_auth :: string

record session_status =
  su_charger :: string
  su_connector :: int
  su_active :: bool

record live_status =
  lv_status :: string
  lv_energy :: pyfloat
  lv_power :: pyfloat
  lv_cost :: int
  lv_currency :: string
  lv_started :: datetime
  lv_updated :: datetime

record 't session_service =
  ss_methods :: payment_method_store
  ss_commands :: "'t command_service"
  ss_map :: session_charger_map
  ss_txns :: txn_repo
  ss_vehicles :: vehicle_store
  ss_rewards :: rewards_store
  ss_readings :: latest_readings
  ss_tariffs :: tariff_service
  ss_history :: "completed_session list"
  ss_owner :: "(string, uuid) pydict"

definition synthesize_id_tag_for_driver :: "uuid \<Rightarrow> string" where
  "synthesize_id_tag_for_driver driver = ''DRIVER:'' @ str_uuid driver"

definition resolve_payment_method :: "(uuid \<Rightarrow> uuid) \<Rightarrow> uuid \<Rightarrow> 't session_service \<Rightarrow> payment_method option" where
  "resolve_payment_method wallet_of driver s = get_default (ss_methods s) (wallet_of driver)"

definition require_plug_and_charge_opt_in :: "uuid \<Rightarrow> 't session_service \<Rightarrow> session_error + unit" where
  "require_plug_and_charge_opt_in driver s =
     (if list_ex vh_pnc (vehicle_list_for_driver (ss_vehicles s) driver) then Inr ()
      else Inl (SessionStartError ''plug and charge is not enabled for this driver's vehicles''))"

text \<open>\<open>connector_id or 1\<close>\<close>

definition connector_or_1 :: "int option \<Rightarrow> int" where
  "connector_or_1 c = (case c of None \<Rightarrow> 1 | Some n \<Rightarrow> if n = 0 then 1 else n)"

definition dispatch_remote_start ::
  "'t transport \<Rightarrow> (uuid \<Rightarrow> uuid) \<Rightarrow> draw \<Rightarrow> uuid \<Rightarrow> uuid \<Rightarrow> uuid \<Rightarrow> string \<Rightarrow> int option \<Rightarrow> string \<Rightarrow> string
    \<Rightarrow> 't session_service \<Rightarrow> (session_error + session_start_result) \<times> 't session_service" where
  "dispatch_remote_start send wallet_of d new_id driver tenant charger connector tag auth s =
     (let payload = JObj ((''idTag'', JStr tag) # (case connector of None \<Rightarrow> [] | Some n \<Rightarrow> [(''connectorId'', JInt n)]));
          (r, cs) = remote_command send d charger tenant ''RemoteStartTransaction'' payload (ss_commands s);
          s1 = s\<lparr>ss_commands := cs\<rparr>
      in case r of
           Inl (ChargerOfflineError m) \<Rightarrow> (Inl (SessionStartError m), s1)
         | Inl (ChargingProfileExceedsCapacityError m) \<Rightarrow> (Inl (SessionRaised (RuntimeError m)), s1)
         | Inl (CommandRaised e) \<Rightarrow> (Inl (SessionRaised e), s1)
         | Inr x \<Rightarrow>
           if cx_status x \<noteq> CMD_ACCEPTED
           then (Inl (SessionStartError (''charge point responded '' @ command_status_value (cx_status x))), s1)
           else (let sid = str_uuid new_id;
                     s2 = s1\<lparr>ss_map := set_binding sid \<lparr>sb_charger = charger, sb_tenant = tenant, sb_connector = connector_or_1 connector\<rparr> (ss_map s1),
                             ss_owner := dict_set sid driver (ss_owner s1)\<rparr>
                 in (Inr \<lparr>sr_session = sid, sr_driver = driver, sr_charger = charger, sr_connector = connector, sr_tag = tag,
                          sr_method = resolve_payment_method wallet_of driver s2, sr_auth = auth\<rparr>, s2)))"

definition owned_binding :: "string \<Rightarrow> uuid \<Rightarrow> 't session_service \<Rightarrow> session_error + session_binding" where
  "owned_binding sid driver s =
     (if dict_get (ss_owner s) sid \<noteq> Some driver then Inl (SessionNotFoundError sid)
      else case get_charger_for_session (ss_map s) sid of
        None \<Rightarrow> Inl (SessionNotFoundError sid) | Some b \<Rightarrow> Inr b)"

definition get_session_status :: "string \<Rightarrow> uuid \<Rightarrow> 't session_service \<Rightarrow> session_error + session_status" where
  "get_session_status sid driver s =
     rbind (owned_binding sid driver s) (\<lambda>b.
       Inr \<lparr>su_charger = sb_charger b, su_connector = sb_connector b,
            su_active = (get_active_transaction (ss_txns s) (sb_charger b) \<noteq> None)\<rparr>)"

definition reading_value :: "meter_reading option \<Rightarrow> pyfloat" where
  "reading_value r = (case r of None \<Rightarrow> Fin 0 | Some x \<Rightarrow> mr_value x)"

definition reading_times :: "meter_reading option \<Rightarrow> meter_reading option \<Rightarrow> datetime \<Rightarrow> datetime" where
  "reading_times e p now =
     (case (e, p) of (None, None) \<Rightarrow> now | (Some x, None) \<Rightarrow> mr_ts x | (None, Some y) \<Rightarrow> mr_ts y
      | (Some x, Some y) \<Rightarrow> max (mr_ts x) (mr_ts y))"

definition duration_minutes :: "datetime \<Rightarrow> datetime \<Rightarrow> arith_error + pyfloat" where
  "duration_minutes started now =
     rbind (int_truediv (now - started) 1000000) (\<lambda>secs. Inr (fmax0 (fdiv_fin (Fin secs) 60)))"

definition compute_live_snapshot ::
  "active_transaction \<Rightarrow> uuid \<Rightarrow> datetime \<Rightarrow> 't session_service \<Rightarrow> session_error + live_status" where
  "compute_live_snapshot t tenant now s =
     (let e = get_latest (ss_readings s) (at_id t) ''Energy.Active.Import.Register'';
          p = get_latest (ss_readings s) (at_id t) ''Power.Active.Import'';
          snapshot = (\<lambda>cost currency. \<lparr>lv_status = ''charging'', lv_energy = reading_value e, lv_power = reading_value p,
             lv_cost = cost, lv_currency = currency, lv_started = at_start t, lv_updated = reading_times e p now\<rparr>)
      in case duration_minutes (at_start t) now of
           Inl err \<Rightarrow> Inl (SessionRaised (Arith err))
         | Inr duration \<Rightarrow>
           (case filter (\<lambda>t. t_tenant t = tenant) (list_all_tariffs (ss_tariffs s)) of
              [] \<Rightarrow> Inr (snapshot 0 ''AED'')
            | tariff # _ \<Rightarrow> (case preview (ss_tariffs s) (t_id tariff) duration (reading_value e) (Fin 0) of
                Inl err \<Rightarrow> Inl (SessionTariff err) | Inr cost \<Rightarrow> Inr (snapshot cost (t_currency tariff)))))"

definition get_live_status ::
  "string \<Rightarrow> uuid \<Rightarrow> uuid \<Rightarrow> datetime \<Rightarrow> 't session_service \<Rightarrow> session_error + live_status" where
  "get_live_status sid driver tenant now s =
     rbind (owned_binding sid driver s) (\<lambda>b.
       case get_active_transaction (ss_txns s) (sb_charger b) of
         None \<Rightarrow> Inr \<lparr>lv_status = ''finished'', lv_energy = Fin 0, lv_power = Fin 0, lv_cost = 0, lv_currency = ''AED'',
                     lv_started = now, lv_updated = now\<rparr>
       | Some t \<Rightarrow> compute_live_snapshot t tenant now s)"

definition stop_session ::
  "'t transport \<Rightarrow> draw \<Rightarrow> datetime \<Rightarrow> string \<Rightarrow> uuid \<Rightarrow> uuid \<Rightarrow> 't session_service
    \<Rightarrow> (session_error + unit) \<times> 't session_service" where
  "stop_session send d now sid driver tenant s =
     (case owned_binding sid driver s of
        Inl e \<Rightarrow> (Inl e, s)
      | Inr b \<Rightarrow>
        (case get_active_transaction (ss_txns s) (sb_charger b) of
           None \<Rightarrow> (Inl (SessionStartError ''no active transaction on this charger''), s)
         | Some t \<Rightarrow>
           (case compute_live_snapshot t tenant now s of
              Inl e \<Rightarrow> (Inl e, s)
            | Inr snap \<Rightarrow>
              (let (r, cs) = remote_command send d (sb_charger b) tenant ''RemoteStopTransaction''
                               (JObj [(''transactionId'', JStr (str_uuid (at_id t)))]) (ss_commands s);
                   s1 = s\<lparr>ss_commands := cs\<rparr>
               in case r of
                    Inl (ChargerOfflineError m) \<Rightarrow> (Inl (SessionStartError m), s1)
                  | Inl (ChargingProfileExceedsCapacityError m) \<Rightarrow> (Inl (SessionRaised (RuntimeError m)), s1)
                  | Inl (CommandRaised e) \<Rightarrow> (Inl (SessionRaised e), s1)
                  | Inr x \<Rightarrow>
                    if cx_status x \<noteq> CMD_ACCEPTED
                    then (Inl (SessionStartError (''charge point responded '' @ command_status_value (cx_status x))), s1)
                    else (Inr (), s1\<lparr>ss_rewards := snd (award_for_completed_session driver (ss_rewards s1)),
                           ss_history := record_session \<lparr>cs_session = sid, cs_driver = driver, cs_charger = sb_charger b,
                             cs_started = at_start t, cs_ended = now, cs_energy = lv_energy snap, cs_cost = lv_cost snap,
                             cs_currency = lv_currency snap\<rparr> (ss_history s1)\<rparr>)))))"

definition start_via_qr ::
  "(string \<Rightarrow> json option) \<Rightarrow> (string \<Rightarrow> string \<Rightarrow> string) \<Rightarrow> 't transport \<Rightarrow> (uuid \<Rightarrow> uuid) \<Rightarrow> draw \<Rightarrow> uuid \<Rightarrow> pyfloat
    \<Rightarrow> string \<Rightarrow> uuid \<Rightarrow> string \<Rightarrow> uuid \<Rightarrow> 't session_service \<Rightarrow> (session_error + session_start_result) \<times> 't session_service" where
  "start_via_qr decode hmac send wallet_of d new_id now token driver secret tenant s =
     (case verify_qr_token decode hmac token secret now of
        Inl (QrTokenError m) \<Rightarrow> (Inl (SessionStartError m), s)
      | Inl (QrRaised e) \<Rightarrow> (Inl (SessionRaised e), s)
      | Inr p \<Rightarrow> dispatch_remote_start send wallet_of d new_id driver tenant (qp_charger p) (Some (qp_connector p))
                  (synthesize_id_tag_for_driver driver) ''qr'' s)"

definition start_via_autocharge ::
  "'t transport \<Rightarrow> (uuid \<Rightarrow> uuid) \<Rightarrow> draw \<Rightarrow> uuid \<Rightarrow> string \<Rightarrow> string \<Rightarrow> uuid \<Rightarrow> mac_store
    \<Rightarrow> 't session_service \<Rightarrow> (session_error + session_start_result) \<times> 't session_service" where
  "start_via_autocharge send wallet_of d new_id mac charger tenant macs s =
     (case get_driver_id_for_mac macs mac of
        None \<Rightarrow> (Inl (SessionStartError (''no driver registered for MAC address '' @ mac)), s)
      | Some driver \<Rightarrow> (case require_plug_and_charge_opt_in driver s of
          Inl e \<Rightarrow> (Inl e, s)
        | Inr _ \<Rightarrow> dispatch_remote_start send wallet_of d new_id driver tenant charger None (synthesize_id_tag_for_mac mac) ''autocharge'' s))"

definition start_via_plug_and_charge ::
  "'c x509_ops \<Rightarrow> datetime \<Rightarrow> 't transport \<Rightarrow> (uuid \<Rightarrow> uuid) \<Rightarrow> draw \<Rightarrow> uuid \<Rightarrow> string \<Rightarrow> string \<Rightarrow> uuid \<Rightarrow> 'c pnc_validator
    \<Rightarrow> 't session_service \<Rightarrow> (session_error + session_start_result) \<times> 't session_service" where
  "start_via_plug_and_charge x now send wallet_of d new_id pem charger tenant v s =
     (case resolve_driver_from_cert x now v pem of
        Inl (PlugAndChargeError m) \<Rightarrow> (Inl (SessionStartError m), s)
      | Inl (OcspError m) \<Rightarrow> (Inl (SessionOcsp m), s)
      | Inl (PncRaised e) \<Rightarrow> (Inl (SessionRaised e), s)
      | Inr driver \<Rightarrow> (case require_plug_and_charge_opt_in driver s of
          Inl e \<Rightarrow> (Inl e, s)
        | Inr _ \<Rightarrow> dispatch_remote_start send wallet_of d new_id driver tenant charger None (synthesize_id_tag_for_driver driver) ''plug_and_charge'' s))"

definition start_via_app ::
  "'t transport \<Rightarrow> (uuid \<Rightarrow> uuid) \<Rightarrow> draw \<Rightarrow> uuid \<Rightarrow> string \<Rightarrow> int \<Rightarrow> uuid \<Rightarrow> uuid
    \<Rightarrow> 't session_service \<Rightarrow> (session_error + session_start_result) \<times> 't session_service" where
  "start_via_app send wallet_of d new_id charger connector driver tenant s =
     dispatch_remote_start send wallet_of d new_id driver tenant charger (Some connector) (synthesize_id_tag_for_driver driver) ''app'' s"

subsection \<open>Routes\<close>

definition session_start_dict :: "session_start_result \<Rightarrow> json" where
  "session_start_dict r = JObj [(''session_id'', JStr (sr_session r)), (''driver_id'', JStr (str_uuid (sr_driver r))),
     (''charger_id'', JStr (sr_charger r)), (''connector_id'', case sr_connector r of None \<Rightarrow> JNull | Some n \<Rightarrow> JInt n),
     (''id_tag'', JStr (sr_tag r)), (''auth_method'', JStr (sr_auth r)),
     (''payment_method'', case sr_method r of None \<Rightarrow> JNull
        | Some m \<Rightarrow> JObj [(''id'', JStr (str_uuid (py_id m))), (''type'', JStr (py_type m))])]"

definition session_status_dict :: "session_status \<Rightarrow> json" where
  "session_status_dict st = JObj [(''charger_id'', JStr (su_charger st)), (''connector_id'', JInt (su_connector st)), (''active'', JBool (su_active st))]"

definition live_status_dict :: "(datetime \<Rightarrow> string) \<Rightarrow> live_status \<Rightarrow> json" where
  "live_status_dict isofmt st = JObj [(''status'', JStr (lv_status st)), (''energy_kwh'', JFloat (lv_energy st)),
     (''power_kw'', JFloat (lv_power st)), (''cost_minor_units'', JInt (lv_cost st)), (''currency'', JStr (lv_currency st)),
     (''started_at'', JStr (isofmt (lv_started st))), (''updated_at'', JStr (isofmt (lv_updated st)))]"

text \<open>Every start route answers its result or maps a \<open>SessionStartError\<close> to a 400.\<close>

definition route_start ::
  "(session_error + session_start_result) \<times> 't session_service \<Rightarrow> (session_error http_error + json) \<times> 't session_service" where
  "route_start r =
     (case r of
        (Inl (SessionStartError m), s) \<Rightarrow> (Inl (HTTPException 400 m), s)
      | (Inl e, s) \<Rightarrow> (Inl (Raised e), s)
      | (Inr x, s) \<Rightarrow> (Inr (session_start_dict x), s))"

definition bad_uuid :: session_error where
  "bad_uuid = SessionRaised (PyValueError ''badly formed hexadecimal UUID string'')"

definition route_start_qr ::
  "(string \<Rightarrow> json option) \<Rightarrow> (string \<Rightarrow> string \<Rightarrow> string) \<Rightarrow> 't transport \<Rightarrow> (uuid \<Rightarrow> uuid) \<Rightarrow> draw \<Rightarrow> uuid \<Rightarrow> pyfloat
    \<Rightarrow> string \<Rightarrow> string \<Rightarrow> string \<Rightarrow> uuid \<Rightarrow> 't session_service \<Rightarrow> (session_error http_error + json) \<times> 't session_service" where
  "route_start_qr decode hmac send wallet_of d new_id now token driver secret tenant s =
     (case uuid_of_string driver of
        None \<Rightarrow> (Inl (Raised bad_uuid), s)
      | Some u \<Rightarrow> route_start (start_via_qr decode hmac send wallet_of d new_id now token u secret tenant s))"

definition route_start_autocharge ::
  "'t transport \<Rightarrow> (uuid \<Rightarrow> uuid) \<Rightarrow> draw \<Rightarrow> uuid \<Rightarrow> string \<Rightarrow> string \<Rightarrow> uuid \<Rightarrow> mac_store
    \<Rightarrow> 't session_service \<Rightarrow> (session_error http_error + json) \<times> 't session_service" where
  "route_start_autocharge send wallet_of d new_id mac charger tenant macs s =
     route_start (start_via_autocharge send wallet_of d new_id mac charger tenant macs s)"

definition route_start_plug_and_charge ::
  "'c x509_ops \<Rightarrow> datetime \<Rightarrow> 't transport \<Rightarrow> (uuid \<Rightarrow> uuid) \<Rightarrow> draw \<Rightarrow> uuid \<Rightarrow> string \<Rightarrow> string \<Rightarrow> uuid \<Rightarrow> 'c pnc_validator
    \<Rightarrow> 't session_service \<Rightarrow> (session_error http_error + json) \<times> 't session_service" where
  "route_start_plug_and_charge x now send wallet_of d new_id pem charger tenant v s =
     route_start (start_via_plug_and_charge x now send wallet_of d new_id pem charger tenant v s)"

definition route_start_app ::
  "'t transport \<Rightarrow> (uuid \<Rightarrow> uuid) \<Rightarrow> draw \<Rightarrow> uuid \<Rightarrow> string \<Rightarrow> int \<Rightarrow> string \<Rightarrow> uuid
    \<Rightarrow> 't session_service \<Rightarrow> (session_error http_error + json) \<times> 't session_service" where
  "route_start_app send wallet_of d new_id charger connector driver tenant s =
     (case uuid_of_string driver of
        None \<Rightarrow> (Inl (Raised bad_uuid), s)
      | Some u \<Rightarrow> route_start (start_via_app send wallet_of d new_id charger connector u tenant s))"

definition not_found_404 :: "session_error + json \<Rightarrow> session_error http_error + json" where
  "not_found_404 r =
     (case r of
        Inl (SessionNotFoundError _) \<Rightarrow> Inl (HTTPException 404 ''session not found'')
      | Inl e \<Rightarrow> Inl (Raised e)
      | Inr j \<Rightarrow> Inr j)"

definition route_get_status :: "string \<Rightarrow> uuid \<Rightarrow> 't session_service \<Rightarrow> session_error http_error + json" where
  "route_get_status sid driver s = not_found_404 (rbind (get_session_status sid driver s) (\<lambda>st. Inr (session_status_dict st)))"

definition route_get_live_status ::
  "(datetime \<Rightarrow> string) \<Rightarrow> string \<Rightarrow> uuid \<Rightarrow> uuid \<Rightarrow> datetime \<Rightarrow> 't session_service \<Rightarrow> session_error http_error + json" where
  "route_get_live_status isofmt sid driver tenant now s =
     not_found_404 (rbind (get_live_status sid driver tenant now s) (\<lambda>st. Inr (live_status_dict isofmt st)))"

definition route_driver_stop_session ::
  "'t transport \<Rightarrow> draw \<Rightarrow> datetime \<Rightarrow> string \<Rightarrow> string \<Rightarrow> uuid \<Rightarrow> 't session_service
    \<Rightarrow> (session_error http_error + json) \<times> 't session_service" where
  "route_driver_stop_session send d now sid driver tenant s =
     (case uuid_of_string driver of
        None \<Rightarrow> (Inl (Raised bad_uuid), s)
      | Some u \<Rightarrow> (case stop_session send d now sid u tenant s of
          (Inl (SessionNotFoundError _), s') \<Rightarrow> (Inl (HTTPException 404 ''session not found''), s')
        | (Inl (SessionStartError m), s') \<Rightarrow> (Inl (HTTPException 400 m), s')
        | (Inl e, s') \<Rightarrow> (Inl (Raised e), s')
        | (Inr _, s') \<Rightarrow> (Inr (JObj [(''session_id'', JStr sid), (''stopped'', JBool True)]), s')))"

subsection \<open>A small installation\<close>

definition fake_ready :: "string \<Rightarrow> fake_transport command_service \<Rightarrow> bool" where
  "fake_ready c cs \<longleftrightarrow> map_option ps_status (presence_get (sv_presence cs) c) = Some ''online''
     \<and> co_status (dict_get_default (ft_outcomes (sv_transport cs)) c (ft_default (sv_transport cs))) = CMD_ACCEPTED"

definition sample_sessions :: "fake_transport session_service" where
  "sample_sessions = \<lparr>ss_methods = [], ss_commands = sample_service\<lparr>sv_presence := mark_online (Fin 0) ''CP'' 7 ''n1'' ''ocpp1.6'' []\<rparr>,
     ss_map = [(''s1'', \<lparr>sb_charger = ''CP'', sb_tenant = 7, sb_connector = 1\<rparr>)],
     ss_txns = \<lparr>tr_active = [(''CP'', \<lparr>at_id = 9, at_charger = ''CP'', at_connector = 1, at_tag = ''RFID'', at_start = 0\<rparr>)], tr_records = []\<rparr>,
     ss_vehicles = [], ss_rewards = [], ss_readings = [],
     ss_tariffs = \<lparr>ts_store = [], ts_currency = \<lparr>cp_currencies = [], cp_default = ''AED''\<rparr>\<rparr>, ss_history = [], ss_owner = [(''s1'', 1)]\<rparr>"

subsection \<open>Starting\<close>

text \<open>The part of the state that says which sessions exist and whose they are.\<close>

abbreviation sessions_of :: "'t session_service \<Rightarrow> session_charger_map \<times> (string, uuid) pydict" where
  "sessions_of s \<equiv> (ss_map s, ss_owner s)"

lemma session_dispatch_cases:
  assumes "dispatch_remote_start send wallet_of d new_id driver tenant charger connector tag auth s = (r, s')"
  shows "case r of
      Inl _ \<Rightarrow> sessions_of s' = sessions_of s
    | Inr x \<Rightarrow> sr_session x = str_uuid new_id \<and> sr_driver x = driver \<and> sr_charger x = charger
        \<and> owned_binding (str_uuid new_id) driver s' = Inr \<lparr>sb_charger = charger, sb_tenant = tenant, sb_connector = connector_or_1 connector\<rparr>
        \<and> (\<forall>sid. sid \<noteq> str_uuid new_id \<longrightarrow> (\<forall>e. owned_binding sid e s' = owned_binding sid e s))
        \<and> (\<forall>e. e \<noteq> driver \<longrightarrow> owned_binding (str_uuid new_id) e s' = Inl (SessionNotFoundError (str_uuid new_id)))"
proof -
  obtain r0 cs where c: "remote_command send d charger tenant ''RemoteStartTransaction''
      (JObj ((''idTag'', JStr tag) # (case connector of None \<Rightarrow> [] | Some n \<Rightarrow> [(''connectorId'', JInt n)]))) (ss_commands s) = (r0, cs)"
    by fastforce
  show ?thesis using assms
    by (auto simp: dispatch_remote_start_def c Let_def owned_binding_def get_charger_for_session_def set_binding_def
        split: sum.splits command_error.splits if_splits option.splits)
qed

text \<open>
  A session started from the app belongs to the driver who started it: the new
  session id is bound to the charger, that driver can look it up, every other driver is
  told it does not exist, and no other session changes. A start the charger refuses, or
  that cannot reach it, creates no session.
\<close>

theorem started_session_owned:
  assumes "start_via_app send wallet_of d new_id charger connector driver tenant s = (r, s')"
  shows "case r of
      Inl _ \<Rightarrow> ss_map s' = ss_map s \<and> ss_owner s' = ss_owner s
    | Inr x \<Rightarrow> sr_session x = str_uuid new_id
        \<and> (\<exists>b. owned_binding (sr_session x) driver s' = Inr b \<and> sb_charger b = charger \<and> sb_tenant b = tenant)
        \<and> (\<forall>e. e \<noteq> driver \<longrightarrow> get_session_status (sr_session x) e s' = Inl (SessionNotFoundError (sr_session x)))
        \<and> (\<forall>sid e. sid \<noteq> sr_session x \<longrightarrow> owned_binding sid e s' = owned_binding sid e s)"
  using session_dispatch_cases[OF assms[unfolded start_via_app_def]]
  by (auto simp: get_session_status_def split: sum.splits)

theorem started_session_owned_witness:
  "\<exists>x s'. start_via_app fake_send id (4, 1, 2) 5 ''CP'' 1 3 7 sample_sessions = (Inr x, s')
     \<and> get_session_status (sr_session x) 8 s' = Inl (SessionNotFoundError (sr_session x))"
proof -
  let ?r = "start_via_app fake_send id (4, 1, 2) 5 ''CP'' 1 3 7 sample_sessions"
  obtain x where x: "fst ?r = Inr x"
    by (simp add: start_via_app_def dispatch_remote_start_def sample_sessions_def remote_command_def send_command_def
        sample_service_def presence_get_def mark_online_def fake_send_def dict_get_default_def log_create_def mark_responded_def Let_def)
  from started_session_owned[OF surjective_pairing, of fake_send id "(4, 1, 2)" 5 "''CP''" 1 3 7 sample_sessions] x
  have "get_session_status (sr_session x) 8 (snd ?r) = Inl (SessionNotFoundError (sr_session x))" by auto
  then show ?thesis using x by (metis surjective_pairing)
qed

text \<open>
  C40: The QR route verifies the token under a secret the client itself sends, so the
  signature protects nothing: whoever signs a payload with a secret of their own choosing
  starts a session at the charger they named, exactly as an authenticated app start would.
\<close>

theorem qr_route_accepts_forged_tokens:
  assumes "qr_codec_ok encode decode hmac chosen (qr_payload_json charger connector issued ttl)" and "\<bar>ttl\<bar> \<le> 2 ^ 53"
    and "\<not> flt (fadd issued (Fin (of_int ttl))) now"
  shows "route_start_qr decode hmac send wallet_of d new_id now
      (sign_qr_token encode hmac charger connector chosen ttl issued) (str_uuid driver) chosen tenant s
    = route_start (dispatch_remote_start send wallet_of d new_id driver tenant charger (Some connector)
        (synthesize_id_tag_for_driver driver) ''qr'' s)"
proof -
  let ?j = "qr_payload_json charger connector issued ttl"
  have "verify_qr_token decode hmac (sign_qr_token encode hmac charger connector chosen ttl issued) chosen now
      = Inr \<lparr>qp_charger = charger, qp_connector = connector\<rparr>"
    using verify_signed[OF assms(1,2), of now] assms(3) by simp
  then show ?thesis by (simp add: route_start_qr_def start_via_qr_def)
qed

theorem qr_route_accepts_forged_tokens_witness:
  "\<exists>j. fst (route_start_qr (\<lambda>_. Some (qr_payload_json ''CP'' 1 (Fin 0) 300)) (\<lambda>k m. k @ m) fake_send id (4, 1, 2) 5 (Fin 250)
     (sign_qr_token (\<lambda>_. ''cGF5'') (\<lambda>k m. k @ m) ''CP'' 1 ''mine'' 300 (Fin 0)) (str_uuid 3) ''mine'' 7 sample_sessions) = Inr j"
proof -
  have c: "qr_codec_ok (\<lambda>_. ''cGF5'') (\<lambda>_. Some (qr_payload_json ''CP'' 1 (Fin 0) 300)) (\<lambda>k m. k @ m) ''mine'' (qr_payload_json ''CP'' 1 (Fin 0) 300)"
    by (simp add: qr_codec_ok_def is_ascii_def)
  have t: "\<not> flt (fadd (Fin 0) (Fin (of_int 300))) (Fin 250)" using fl64_of_int[of 300] by simp
  show ?thesis
    unfolding qr_route_accepts_forged_tokens[OF c _ t, simplified]
    by (simp add: route_start_def dispatch_remote_start_def sample_sessions_def remote_command_def send_command_def
        sample_service_def presence_get_def mark_online_def fake_send_def dict_get_default_def log_create_def mark_responded_def Let_def)
qed

subsection \<open>Stopping\<close>

text \<open>
  A charger that accepts commands: while the command service is \<open>ready\<close> every command to it is
  accepted and leaves it ready.
\<close>

locale accepting_charger =
  fixes send :: "'t transport" and charger :: string and ready :: "'t command_service \<Rightarrow> bool"
  assumes accepts: "ready cs \<Longrightarrow> \<exists>x cs'. remote_command send d charger tenant ty payload cs = (Inr x, cs')
      \<and> cx_status x = CMD_ACCEPTED \<and> ready cs'"
begin

lemma stop_accepted:
  assumes "ready (ss_commands s)" and "owned_binding sid driver s = Inr b" and "sb_charger b = charger"
    and "get_active_transaction (ss_txns s) charger = Some t" and "compute_live_snapshot t tenant now s = Inr snap"
  shows "\<exists>cs'. ready cs' \<and> stop_session send d now sid driver tenant s = (Inr (), s\<lparr>ss_commands := cs',
     ss_rewards := snd (award_for_completed_session driver (ss_rewards s)),
     ss_history := ss_history s @ [\<lparr>cs_session = sid, cs_driver = driver, cs_charger = charger, cs_started = at_start t,
        cs_ended = now, cs_energy = lv_energy snap, cs_cost = lv_cost snap, cs_currency = lv_currency snap\<rparr>]\<rparr>)"
proof -
  from accepts[OF assms(1), of d tenant "''RemoteStopTransaction''" "JObj [(''transactionId'', JStr (str_uuid (at_id t)))]"]
  obtain x cs' where "remote_command send d charger tenant ''RemoteStopTransaction''
      (JObj [(''transactionId'', JStr (str_uuid (at_id t)))]) (ss_commands s) = (Inr x, cs')" "cx_status x = CMD_ACCEPTED" "ready cs'"
    by blast
  then show ?thesis using assms by (intro exI[of _ cs']) (simp add: stop_session_def record_session_def)
qed

end

lemma mark_responded_created: "\<exists>l'. mark_responded t2 i st res (log_create i c tenant ty t1 l) = (Inr (), l')"
  by (simp add: mark_responded_def log_create_def)

interpretation fake_charger: accepting_charger fake_send c "fake_ready c" for c
proof
  fix cs :: "fake_transport command_service" and d tenant ty payload
  assume "fake_ready c cs"
  then obtain p where p: "presence_get (sv_presence cs) c = Some p" "ps_status p = ''online''"
    "co_status (dict_get_default (ft_outcomes (sv_transport cs)) c (ft_default (sv_transport cs))) = CMD_ACCEPTED"
    by (auto simp: fake_ready_def)
  obtain l' where "mark_responded (snd (snd d)) (fst d) CMD_ACCEPTED
      (co_result (dict_get_default (ft_outcomes (sv_transport cs)) c (ft_default (sv_transport cs))))
      (log_create (fst d) c tenant ty (fst (snd d)) (sv_log cs)) = (Inr (), l')"
    using mark_responded_created by blast
  with p show "\<exists>x cs'. remote_command fake_send d c tenant ty payload cs = (Inr x, cs') \<and> cx_status x = CMD_ACCEPTED \<and> fake_ready c cs'"
    by (simp add: remote_command_def send_command_def fake_send_def fake_ready_def Let_def)
qed

text \<open>A driver's stop requests for one session, at the given draws and times.\<close>

fun stops :: "'t transport \<Rightarrow> string \<Rightarrow> uuid \<Rightarrow> uuid \<Rightarrow> (draw \<times> datetime) list \<Rightarrow> 't session_service \<Rightarrow> 't session_service" where
  "stops send sid driver tenant [] s = s"
| "stops send sid driver tenant (x # xs) s = stops send sid driver tenant xs (snd (stop_session send (fst x) (snd x) sid driver tenant s))"

lemma stops_fake:
  assumes "fake_ready (sb_charger b) (ss_commands s)" and "owned_binding sid driver s = Inr b"
    and "get_active_transaction (ss_txns s) (sb_charger b) = Some t"
    and "\<forall>x \<in> set xs. \<exists>snap. compute_live_snapshot t tenant (snd x) s = Inr snap"
  shows "owned_binding sid driver (stops fake_send sid driver tenant xs s) = Inr b
    \<and> rewards_get_balance (ss_rewards (stops fake_send sid driver tenant xs s)) driver
        = rewards_get_balance (ss_rewards s) driver + points_per_completed_session * int (length xs)
    \<and> (\<exists>h. ss_history (stops fake_send sid driver tenant xs s) = ss_history s @ h \<and> length h = length xs
        \<and> list_all (\<lambda>r. cs_session r = sid \<and> cs_driver r = driver \<and> cs_started r = at_start t) h)"
  using assms
proof (induction xs arbitrary: s)
  case Nil
  then show ?case by simp
next
  case (Cons x xs)
  then obtain snap where "compute_live_snapshot t tenant (snd x) s = Inr snap" by auto
  from fake_charger.stop_accepted[OF Cons.prems(1,2) refl Cons.prems(3) this, of "fst x"]
  obtain cs' where cs: "fake_ready (sb_charger b) cs'"
    and st: "stop_session fake_send (fst x) (snd x) sid driver tenant s = (Inr (), s\<lparr>ss_commands := cs',
     ss_rewards := snd (award_for_completed_session driver (ss_rewards s)),
     ss_history := ss_history s @ [\<lparr>cs_session = sid, cs_driver = driver, cs_charger = sb_charger b, cs_started = at_start t,
        cs_ended = snd x, cs_energy = lv_energy snap, cs_cost = lv_cost snap, cs_currency = lv_currency snap\<rparr>]\<rparr>)" (is "_ = (_, ?s)")
    by blast
  have own: "owned_binding sid driver ?s = Inr b" using Cons.prems(2) by (simp add: owned_binding_def split: if_splits)
  have act: "get_active_transaction (ss_txns ?s) (sb_charger b) = Some t" using Cons.prems(3) by simp
  have "ss_tariffs ?s = ss_tariffs s" "ss_readings ?s = ss_readings s" by simp_all
  then have "compute_live_snapshot t tenant now ?s = compute_live_snapshot t tenant now s" for now
    unfolding compute_live_snapshot_def by (simp only:)
  then have "\<forall>x \<in> set xs. \<exists>snap. compute_live_snapshot t tenant (snd x) ?s = Inr snap" using Cons.prems(4) by simp
  from Cons.IH[OF _ own act this] cs obtain h where
    "owned_binding sid driver (stops fake_send sid driver tenant xs ?s) = Inr b"
    "rewards_get_balance (ss_rewards (stops fake_send sid driver tenant xs ?s)) driver
        = rewards_get_balance (ss_rewards ?s) driver + points_per_completed_session * int (length xs)"
    "ss_history (stops fake_send sid driver tenant xs ?s) = ss_history ?s @ h" "length h = length xs"
    "list_all (\<lambda>r. cs_session r = sid \<and> cs_driver r = driver \<and> cs_started r = at_start t) h" by auto
  then show ?case using st
    by (simp add: award_for_completed_session_def add_points_def rewards_get_balance_def Let_def algebra_simps)
qed

text \<open>
  A session is not tied to the transaction it started. Its owner's stop request stops
  whatever transaction is active on the charger at that moment, whoever is charging, and the
  session never ends: until the charger reports the transaction stopped, every further
  request is accepted again, earns the owner another fifty points and appends another
  completed session with the other driver's charging time.
\<close>

theorem stop_is_repeatable_and_unowned:
  assumes "fake_ready (sb_charger b) (ss_commands s)" and "owned_binding sid driver s = Inr b"
    and "get_active_transaction (ss_txns s) (sb_charger b) = Some t" and "at_tag t \<noteq> synthesize_id_tag_for_driver driver"
    and "\<forall>x \<in> set xs. \<exists>snap. compute_live_snapshot t tenant (snd x) s = Inr snap"
  shows "rewards_get_balance (ss_rewards (stops fake_send sid driver tenant xs s)) driver
        = rewards_get_balance (ss_rewards s) driver + 50 * int (length xs)
    \<and> (\<exists>h. ss_history (stops fake_send sid driver tenant xs s) = ss_history s @ h \<and> length h = length xs
        \<and> list_all (\<lambda>r. cs_session r = sid \<and> cs_driver r = driver \<and> cs_started r = at_start t) h)"
  using stops_fake[OF assms(1,2,3,5)] by (simp add: points_per_completed_session_def)

theorem stop_is_repeatable_and_unowned_witness:
  "rewards_get_balance (ss_rewards (stops fake_send ''s1'' 1 7 [((1, 0, 0), 5), ((2, 0, 0), 6), ((3, 0, 0), 6)] sample_sessions)) 1 = 150"
proof -
  let ?b = "\<lparr>sb_charger = ''CP'', sb_tenant = 7, sb_connector = 1\<rparr>"
    and ?t = "\<lparr>at_id = 9, at_charger = ''CP'', at_connector = 1, at_tag = ''RFID'', at_start = 0\<rparr>"
  have 1: "fake_ready (sb_charger ?b) (ss_commands sample_sessions)"
    by (simp add: fake_ready_def sample_sessions_def sample_service_def mark_online_def presence_get_def dict_get_default_def)
  have 2: "owned_binding ''s1'' 1 sample_sessions = Inr ?b"
    by (simp add: owned_binding_def sample_sessions_def get_charger_for_session_def)
  have 3: "get_active_transaction (ss_txns sample_sessions) (sb_charger ?b) = Some ?t"
    by (simp add: get_active_transaction_def sample_sessions_def)
  have 4: "at_tag ?t \<noteq> synthesize_id_tag_for_driver 1" by (simp add: synthesize_id_tag_for_driver_def)
  have i: "\<exists>q. int_truediv n 1000000 = Inr q" if "\<bar>n\<bar> \<le> 100" for n
  proof -
    have "\<bar>of_int n / 1000000 :: rat\<bar> \<le> 2 ^ 0" using that by (simp add: abs_le_iff)
    from fl64_finite[OF this] show ?thesis by (simp add: int_truediv_def)
  qed
  have "\<exists>snap. compute_live_snapshot ?t 7 now sample_sessions = Inr snap" if "\<bar>now\<bar> \<le> 100" for now
    using i[OF that] by (auto simp: compute_live_snapshot_def sample_sessions_def duration_minutes_def list_all_tariffs_def
        tariff_store_list_all_def Let_def)
  then have 5: "\<forall>x \<in> set [((1, 0, 0), 5), ((2, 0, 0), 6), ((3, 0, 0), 6)]. \<exists>snap. compute_live_snapshot ?t 7 (snd x) sample_sessions = Inr snap"
    by simp
  have "rewards_get_balance (ss_rewards sample_sessions) 1 = 0"
    by (simp add: rewards_get_balance_def sample_sessions_def dict_get_default_def)
  with stop_is_repeatable_and_unowned[OF 1 2 3 4 5] show ?thesis by simp
qed

end
