(* ===== verification/Gateway_Auth.thy ===== *)
theory Gateway_Auth
  imports Py_Text
begin

text \<open>
  The public gateway: rate limiting (\<open>gateway/rate_limit.py\<close>), refresh tokens with reuse
  detection (\<open>gateway/refresh_store.py\<close>), access tokens (\<open>gateway/jwt_tokens.py\<close>), PKCE
  (\<open>gateway/pkce.py\<close>), the OAuth and SSO endpoints (\<open>gateway/app.py\<close>, \<open>gateway/sso.py\<close>), and
  the trust boundary of the internal services: the signed tenant header
  (\<open>gateway/trust.py\<close>, \<open>gateway/middleware.py\<close>) and the tenant context (\<open>core/tenancy.py\<close>).
  HMAC, SHA-256, base64, PyJWT, the XML parser and Starlette's header lookup are parameters.
\<close>

subsection \<open>Rate limiting\<close>

type_synonym limiter = "(string, int \<times> pyfloat) pydict"

definition allow :: "pyfloat \<Rightarrow> string \<Rightarrow> int \<Rightarrow> int \<Rightarrow> limiter \<Rightarrow> bool \<times> limiter" where
  "allow now key limit window st =
     (let (count, start) = dict_get_default st key (0, now);
          (count, start) = (if fle (Fin (of_int window)) (fsub now start) then (0, now) else (count, start));
          count = count + 1
      in (count \<le> limit, dict_set key (count, start) st))"

text \<open>The Redis limiter over a client's \<open>incr\<close> and \<open>expire\<close>.\<close>

definition redis_allow ::
  "(string \<Rightarrow> 'r \<Rightarrow> int \<times> 'r) \<Rightarrow> (string \<Rightarrow> int \<Rightarrow> 'r \<Rightarrow> 'r) \<Rightarrow> string \<Rightarrow> int \<Rightarrow> int \<Rightarrow> 'r \<Rightarrow> bool \<times> 'r" where
  "redis_allow incr expire key limit window r =
     (let (current, r1) = incr key r in (current \<le> limit, if current = 1 then expire key window r1 else r1))"

subsection \<open>Refresh tokens\<close>

record refresh_token =
  rt_token :: string
  rt_family :: string
  rt_subject :: string
  rt_tenant :: uuid

record refresh_store =
  rf_tokens :: "(string, refresh_token) pydict"
  rf_current :: "(string, string) pydict"
  rf_revoked :: "string set"

text \<open>\<open>family\<close> and \<open>new\<close> are the drawn family id and token value.\<close>

definition refresh_issue :: "uuid \<Rightarrow> string \<Rightarrow> string \<Rightarrow> uuid \<Rightarrow> refresh_store \<Rightarrow> refresh_token \<times> refresh_store" where
  "refresh_issue family new subject tenant st =
     (let rt = \<lparr>rt_token = new, rt_family = str_uuid family, rt_subject = subject, rt_tenant = tenant\<rparr>
      in (rt, st\<lparr>rf_tokens := dict_set new rt (rf_tokens st), rf_current := dict_set (str_uuid family) new (rf_current st)\<rparr>))"

definition refresh_rotate :: "string \<Rightarrow> string \<Rightarrow> refresh_store \<Rightarrow> (string + refresh_token) \<times> refresh_store" where
  "refresh_rotate new token st =
     (case dict_get (rf_tokens st) token of
        None \<Rightarrow> (Inl ''unknown refresh token'', st)
      | Some e \<Rightarrow>
        if rt_family e \<in> rf_revoked st then (Inl ''refresh token family revoked'', st)
        else if dict_get (rf_current st) (rt_family e) \<noteq> Some token
        then (Inl ''refresh token reuse detected; family revoked'', st\<lparr>rf_revoked := insert (rt_family e) (rf_revoked st)\<rparr>)
        else (let rt = \<lparr>rt_token = new, rt_family = rt_family e, rt_subject = rt_subject e, rt_tenant = rt_tenant e\<rparr>
              in (Inr rt, st\<lparr>rf_tokens := dict_set new rt (rf_tokens st), rf_current := dict_set (rt_family e) new (rf_current st)\<rparr>)))"

definition revoke_family :: "string \<Rightarrow> refresh_store \<Rightarrow> refresh_store" where
  "revoke_family family st = st\<lparr>rf_revoked := insert family (rf_revoked st)\<rparr>"

subsection \<open>Access tokens and PKCE\<close>

record access_claims =
  ac_sub :: string
  ac_tenant :: string
  ac_iat :: datetime
  ac_exp :: datetime
  ac_jti :: string

definition create_access_token ::
  "(access_claims \<Rightarrow> string) \<Rightarrow> int \<Rightarrow> datetime \<Rightarrow> uuid \<Rightarrow> string \<Rightarrow> uuid \<Rightarrow> string" where
  "create_access_token jwt_encode ttl now jti subject tenant =
     jwt_encode \<lparr>ac_sub = subject, ac_tenant = str_uuid tenant, ac_iat = now, ac_exp = now + ttl * us_per_second, ac_jti = str_uuid jti\<rparr>"

text \<open>\<open>jwt_decode\<close> raises a \<open>PyJWTError\<close> (its text) or returns the claims.\<close>

definition decode_access_token :: "(string \<Rightarrow> string + json) \<Rightarrow> string \<Rightarrow> string + json" where
  "decode_access_token jwt_decode token = jwt_decode token"

text \<open>\<open>hmac.compare_digest\<close> on two strings.\<close>

definition compare_digest :: "string \<Rightarrow> string \<Rightarrow> py_error + bool" where
  "compare_digest a b = (if is_ascii a \<and> is_ascii b then Inr (a = b) else Inl TypeError)"

definition compute_code_challenge :: "(string \<Rightarrow> string) \<Rightarrow> (string \<Rightarrow> string) \<Rightarrow> string \<Rightarrow> py_error + string" where
  "compute_code_challenge sha b64 verifier =
     (if is_ascii verifier then Inr (rev (dropWhile (\<lambda>c. c = CHR ''='') (rev (b64 (sha verifier)))))
      else Inl (PyValueError ''ordinal not in range(128)''))"

definition verify_code_verifier :: "(string \<Rightarrow> string) \<Rightarrow> (string \<Rightarrow> string) \<Rightarrow> string \<Rightarrow> string \<Rightarrow> py_error + bool" where
  "verify_code_verifier sha b64 verifier challenge =
     rbind (compute_code_challenge sha b64 verifier) (\<lambda>expected. compare_digest expected challenge)"

subsection \<open>Authorization codes\<close>

record pending_authorization =
  pa_challenge :: string
  pa_subject :: string
  pa_tenant :: uuid

type_synonym code_store = "(string, pending_authorization) pydict"

definition code_create :: "uuid \<Rightarrow> string \<Rightarrow> uuid \<Rightarrow> string \<Rightarrow> code_store \<Rightarrow> string \<times> code_store" where
  "code_create code subject tenant challenge st =
     (str_uuid code, dict_set (str_uuid code) \<lparr>pa_challenge = challenge, pa_subject = subject, pa_tenant = tenant\<rparr> st)"

definition code_consume :: "string \<Rightarrow> code_store \<Rightarrow> (py_error http_error + pending_authorization) \<times> code_store" where
  "code_consume code st =
     (case dict_get st code of
        None \<Rightarrow> (Inl (HTTPException 400 ''invalid or already-used authorization code''), st)
      | Some p \<Rightarrow> (Inr p, dict_del code st))"

subsection \<open>Single sign-on\<close>

datatype sso_error = SSOError string | SSORaised py_error

record sso_identity =
  si_subject :: string
  si_email :: json

text \<open>
  \<open>header\<close> is \<open>jwt.get_unverified_header\<close>, \<open>resolve\<close> the configured key resolver, \<open>verify\<close> the
  verification of signature, algorithm, audience, issuer and expiry; each may raise a
  \<open>PyJWTError\<close>.
\<close>

definition oidc_authenticate ::
  "(string \<Rightarrow> string + json) \<Rightarrow> (json \<Rightarrow> 'k) \<Rightarrow> (string \<Rightarrow> 'k \<Rightarrow> string \<Rightarrow> string \<Rightarrow> string \<Rightarrow> string + json)
    \<Rightarrow> string \<Rightarrow> string \<Rightarrow> string \<Rightarrow> string \<Rightarrow> sso_error + sso_identity" where
  "oidc_authenticate header resolve verify issuer audience algorithm id_token =
     (case header id_token of
        Inl m \<Rightarrow> Inl (SSOError m)
      | Inr h \<Rightarrow>
        (case jget h ''kid'' (JStr []) of
           None \<Rightarrow> Inl (SSORaised AttributeError)
         | Some kid \<Rightarrow>
           (case verify id_token (resolve kid) algorithm audience issuer of
              Inl m \<Rightarrow> Inl (SSOError m)
            | Inr claims \<Rightarrow>
              (case (jget claims ''sub'' JNull, jget claims ''email'' JNull) of
                 (Some sub, Some email) \<Rightarrow>
                   if \<not> jtrue sub then Inl (SSOError ''id_token missing sub claim'')
                   else (case sub of JStr s \<Rightarrow> Inr \<lparr>si_subject = s, si_email = email\<rparr> | _ \<Rightarrow> Inl (SSORaised IllTyped))
               | _ \<Rightarrow> Inl (SSORaised AttributeError)))))"

text \<open>
  What the code reads of a SAML response: the text of the issuer and of the name id (\<open>None\<close>
  when the element or its text is missing) and the \<open>NotOnOrAfter\<close> attribute of the conditions.
\<close>

record saml_assertion =
  sa_issuer :: "string option"
  sa_name_id :: "string option"
  sa_not_on_or_after :: "string option"

text \<open>\<open>s.replace("Z", "+00:00")\<close>\<close>

definition replace_z :: "string \<Rightarrow> string" where
  "replace_z s = concat (map (\<lambda>c. if c = CHR ''Z'' then ''+00:00'' else [c]) s)"

definition saml_expired :: "(string \<Rightarrow> py_error + datetime) \<Rightarrow> datetime \<Rightarrow> saml_assertion \<Rightarrow> py_error + bool" where
  "saml_expired fromiso now a =
     (case sa_not_on_or_after a of
        None \<Rightarrow> Inr False
      | Some s \<Rightarrow> if s = [] then Inr False else rbind (fromiso (replace_z s)) (\<lambda>t. Inr (t \<le> now)))"

definition saml_authenticate ::
  "(string \<Rightarrow> string + saml_assertion option) \<Rightarrow> (string \<Rightarrow> py_error + datetime) \<Rightarrow> datetime \<Rightarrow> string \<Rightarrow> string \<Rightarrow> sso_error + sso_identity" where
  "saml_authenticate parse fromiso now issuer xml =
     (case parse xml of
        Inl m \<Rightarrow> Inl (SSOError (''malformed SAML response: '' @ m))
      | Inr None \<Rightarrow> Inl (SSOError ''no assertion present in SAML response'')
      | Inr (Some a) \<Rightarrow>
        if sa_issuer a \<noteq> Some issuer then Inl (SSOError ''unexpected SAML issuer'')
        else if sa_name_id a \<in> {None, Some []} then Inl (SSOError ''SAML assertion missing NameID'')
        else (case saml_expired fromiso now a of
          Inl e \<Rightarrow> Inl (SSORaised e)
        | Inr True \<Rightarrow> Inl (SSOError ''SAML assertion expired'')
        | Inr False \<Rightarrow> Inr \<lparr>si_subject = the (sa_name_id a), si_email = JNull\<rparr>))"

subsection \<open>The gateway application\<close>

record gateway_config =
  gc_limit :: int
  gc_window :: int
  gc_ttl :: int
  gc_jwt :: "access_claims \<Rightarrow> string"
  gc_sha :: "string \<Rightarrow> string"
  gc_b64 :: "string \<Rightarrow> string"

record gateway_state =
  gs_limiter :: limiter
  gs_refresh :: refresh_store
  gs_codes :: code_store

text \<open>What a request draws: the two clocks, the ids and the opaque token.\<close>

record gateway_draw =
  gd_mono :: pyfloat
  gd_now :: datetime
  gd_jti :: uuid
  gd_family :: uuid
  gd_token :: string

record token_request =
  tq_grant :: string
  tq_code :: "string option"
  tq_verifier :: "string option"
  tq_refresh :: "string option"

record token_response =
  tp_access :: string
  tp_refresh :: string

definition enforce_rate_limit ::
  "gateway_config \<Rightarrow> gateway_draw \<Rightarrow> uuid \<Rightarrow> gateway_state \<Rightarrow> (py_error http_error + unit) \<times> gateway_state" where
  "enforce_rate_limit cfg d tenant s =
     (case allow (gd_mono d) (''tenant:'' @ str_uuid tenant) (gc_limit cfg) (gc_window cfg) (gs_limiter s) of
        (ok, l) \<Rightarrow> (if ok then Inr () else Inl (HTTPException 429 ''rate limit exceeded''), s\<lparr>gs_limiter := l\<rparr>))"

definition access_token_for :: "gateway_config \<Rightarrow> gateway_draw \<Rightarrow> string \<Rightarrow> uuid \<Rightarrow> string" where
  "access_token_for cfg d subject tenant = create_access_token (gc_jwt cfg) (gc_ttl cfg) (gd_now d) (gd_jti d) subject tenant"

definition route_authorize :: "uuid \<Rightarrow> string \<Rightarrow> uuid \<Rightarrow> string \<Rightarrow> gateway_state \<Rightarrow> json \<times> gateway_state" where
  "route_authorize code subject tenant challenge s =
     (case code_create code subject tenant challenge (gs_codes s) of (c, st) \<Rightarrow> (JObj [(''code'', JStr c)], s\<lparr>gs_codes := st\<rparr>))"

definition falsy :: "string option \<Rightarrow> bool" where
  "falsy x \<longleftrightarrow> x \<in> {None, Some []}"

text \<open>Issuing a fresh pair of tokens once the identity is established.\<close>

definition issue_pair ::
  "gateway_config \<Rightarrow> gateway_draw \<Rightarrow> string \<Rightarrow> uuid \<Rightarrow> gateway_state \<Rightarrow> (py_error http_error + token_response) \<times> gateway_state" where
  "issue_pair cfg d subject tenant s =
     (case enforce_rate_limit cfg d tenant s of
        (Inl e, s1) \<Rightarrow> (Inl e, s1)
      | (Inr _, s1) \<Rightarrow>
        (case refresh_issue (gd_family d) (gd_token d) subject tenant (gs_refresh s1) of (rt, st) \<Rightarrow>
           (Inr \<lparr>tp_access = access_token_for cfg d subject tenant, tp_refresh = rt_token rt\<rparr>, s1\<lparr>gs_refresh := st\<rparr>)))"

definition token_by_code ::
  "gateway_config \<Rightarrow> gateway_draw \<Rightarrow> token_request \<Rightarrow> gateway_state \<Rightarrow> (py_error http_error + token_response) \<times> gateway_state" where
  "token_by_code cfg d q s =
     (if falsy (tq_code q) \<or> falsy (tq_verifier q) then (Inl (HTTPException 400 ''code and code_verifier required''), s)
      else case code_consume (the (tq_code q)) (gs_codes s) of
        (Inl e, _) \<Rightarrow> (Inl e, s)
      | (Inr p, st) \<Rightarrow>
        (case verify_code_verifier (gc_sha cfg) (gc_b64 cfg) (the (tq_verifier q)) (pa_challenge p) of
           Inl e \<Rightarrow> (Inl (Raised e), s\<lparr>gs_codes := st\<rparr>)
         | Inr False \<Rightarrow> (Inl (HTTPException 400 ''PKCE verification failed''), s\<lparr>gs_codes := st\<rparr>)
         | Inr True \<Rightarrow> issue_pair cfg d (pa_subject p) (pa_tenant p) (s\<lparr>gs_codes := st\<rparr>)))"

definition token_by_refresh ::
  "gateway_config \<Rightarrow> gateway_draw \<Rightarrow> token_request \<Rightarrow> gateway_state \<Rightarrow> (py_error http_error + token_response) \<times> gateway_state" where
  "token_by_refresh cfg d q s =
     (if falsy (tq_refresh q) then (Inl (HTTPException 400 ''refresh_token required''), s)
      else case refresh_rotate (gd_token d) (the (tq_refresh q)) (gs_refresh s) of
        (Inl m, st) \<Rightarrow> (Inl (HTTPException 401 m), s\<lparr>gs_refresh := st\<rparr>)
      | (Inr rt, st) \<Rightarrow>
        (case enforce_rate_limit cfg d (rt_tenant rt) (s\<lparr>gs_refresh := st\<rparr>) of
           (Inl e, s1) \<Rightarrow> (Inl e, s1)
         | (Inr _, s1) \<Rightarrow> (Inr \<lparr>tp_access = access_token_for cfg d (rt_subject rt) (rt_tenant rt), tp_refresh = rt_token rt\<rparr>, s1)))"

definition route_token ::
  "gateway_config \<Rightarrow> gateway_draw \<Rightarrow> token_request \<Rightarrow> gateway_state \<Rightarrow> (py_error http_error + token_response) \<times> gateway_state" where
  "route_token cfg d q s =
     (if tq_grant q = ''authorization_code'' then token_by_code cfg d q s
      else if tq_grant q = ''refresh_token'' then token_by_refresh cfg d q s
      else (Inl (HTTPException 400 (''unsupported grant_type: '' @ tq_grant q)), s))"

definition route_sso_callback ::
  "gateway_config \<Rightarrow> gateway_draw \<Rightarrow> (string, string \<Rightarrow> sso_error + sso_identity) pydict \<Rightarrow> string \<Rightarrow> uuid \<Rightarrow> string
    \<Rightarrow> gateway_state \<Rightarrow> (py_error http_error + token_response) \<times> gateway_state" where
  "route_sso_callback cfg d providers provider tenant credential s =
     (case dict_get providers provider of
        None \<Rightarrow> (Inl (HTTPException 404 ''unknown SSO provider''), s)
      | Some authenticate \<Rightarrow>
        (case authenticate credential of
           Inl (SSOError m) \<Rightarrow> (Inl (HTTPException 401 m), s)
         | Inl (SSORaised e) \<Rightarrow> (Inl (Raised e), s)
         | Inr ident \<Rightarrow> issue_pair cfg d (si_subject ident) tenant s))"

subsection \<open>The trusted tenant header\<close>

type_synonym headers = "(string \<times> string) list"

definition sign_tenant_id :: "(string \<Rightarrow> string \<Rightarrow> string) \<Rightarrow> string \<Rightarrow> string \<Rightarrow> string" where
  "sign_tenant_id hmac secret tenant = hmac secret tenant"

definition verify_tenant_signature :: "(string \<Rightarrow> string \<Rightarrow> string) \<Rightarrow> string \<Rightarrow> string \<Rightarrow> string \<Rightarrow> py_error + bool" where
  "verify_tenant_signature hmac secret tenant signature = compare_digest (sign_tenant_id hmac secret tenant) signature"

definition exempt_paths :: "string set" where
  "exempt_paths = {''/healthz'', ''/metrics'', ''/docs'', ''/openapi.json'', ''/redoc''}"

text \<open>\<open>{k.decode().lower(): v.decode() for k, v in scope["headers"]}\<close>: the last of equal names wins.\<close>

definition header_dict :: "headers \<Rightarrow> string \<Rightarrow> string option" where
  "header_dict hs k = map_of (rev (map (\<lambda>(k, v). (py_lower k, v)) hs)) k"

text \<open>A middleware passes the request on with a tenant context, or answers a problem response.\<close>

datatype verdict = Forward "uuid option" | Problem int string | Escapes py_error

definition gateway_signature_middleware ::
  "(string \<Rightarrow> string \<Rightarrow> string) \<Rightarrow> string \<Rightarrow> (string \<Rightarrow> headers \<Rightarrow> verdict) \<Rightarrow> string \<Rightarrow> headers \<Rightarrow> verdict" where
  "gateway_signature_middleware hmac secret app path hs =
     (if path \<in> exempt_paths then app path hs
      else case header_dict hs ''x-tenant-id'' of
        None \<Rightarrow> app path hs
      | Some tenant \<Rightarrow>
        if falsy (header_dict hs ''x-gateway-signature'') then Problem 403 ''untrusted tenant header''
        else (case verify_tenant_signature hmac secret tenant (the (header_dict hs ''x-gateway-signature'')) of
          Inl e \<Rightarrow> Escapes e
        | Inr False \<Rightarrow> Problem 403 ''untrusted tenant header''
        | Inr True \<Rightarrow> app path hs))"

text \<open>\<open>hget\<close> is \<open>request.headers.get\<close>; \<open>app\<close> receives the context variable.\<close>

definition tenant_context_middleware ::
  "(headers \<Rightarrow> string \<Rightarrow> string option) \<Rightarrow> (uuid option \<Rightarrow> verdict) \<Rightarrow> string \<Rightarrow> headers \<Rightarrow> verdict" where
  "tenant_context_middleware hget app path hs =
     (if path \<in> exempt_paths then app None
      else if falsy (hget hs ''x-tenant-id'') then Problem 401 ''tenant context required''
      else case uuid_of_string (the (hget hs ''x-tenant-id'')) of
        None \<Rightarrow> Problem 401 ''invalid tenant context''
      | Some tenant \<Rightarrow> app (Some tenant))"

definition require_current_tenant :: "uuid option \<Rightarrow> py_error http_error + uuid" where
  "require_current_tenant context =
     (case context of None \<Rightarrow> Inl (HTTPException 401 ''tenant context required'') | Some tenant \<Rightarrow> Inr tenant)"

text \<open>The two middlewares of the internal application, the signature check outermost.\<close>

definition internal_request ::
  "(string \<Rightarrow> string \<Rightarrow> string) \<Rightarrow> string \<Rightarrow> (headers \<Rightarrow> string \<Rightarrow> string option) \<Rightarrow> string \<Rightarrow> headers \<Rightarrow> verdict" where
  "internal_request hmac secret hget = gateway_signature_middleware hmac secret (tenant_context_middleware hget Forward)"

subsection \<open>Rate limits hold within a window\<close>

fun allow_run :: "(pyfloat \<times> string) list \<Rightarrow> int \<Rightarrow> int \<Rightarrow> limiter \<Rightarrow> bool list" where
  "allow_run [] limit window st = []"
| "allow_run (c # cs) limit window st =
     (case allow (fst c) (snd c) limit window st of (ok, st') \<Rightarrow> ok # allow_run cs limit window st')"

lemma allow_in_window:
  assumes "dict_get st k = Some (n, t0)" and "\<not> fle (Fin (of_int window)) (fsub now t0)"
  shows "allow now k limit window st = (n + 1 \<le> limit, dict_set k (n + 1, t0) st)"
  using assms by (simp add: allow_def Let_def dict_get_default_def)

lemma allow_other:
  assumes "k' \<noteq> k"
  shows "dict_get (snd (allow now k' limit window st)) k = dict_get st k"
  using assms by (simp add: allow_def Let_def case_prod_beta)

lemma map_less_Suc:
  "map (\<lambda>i. n + int i < limit) [0..<Suc m] = (n + 1 \<le> limit) # map (\<lambda>i. n + 1 + int i < limit) [0..<m]"
  by (subst upt_conv_Cons, simp, subst map_Suc_upt[symmetric]) (auto simp: comp_def add.assoc)

lemma allow_run_window:
  assumes "dict_get st k = Some (n, t0)"
    and "\<forall>c \<in> set cs. snd c = k \<longrightarrow> \<not> fle (Fin (of_int window)) (fsub (fst c) t0)"
  shows "map fst (filter (\<lambda>p. snd (snd p) = k) (zip (allow_run cs limit window st) cs))
       = map (\<lambda>i. n + int i < limit) [0..<length (filter (\<lambda>c. snd c = k) cs)]"
  using assms
proof (induction cs arbitrary: st n)
  case Nil
  show ?case by simp
next
  case (Cons c cs)
  show ?case
  proof (cases "snd c = k")
    case True
    then have a: "allow (fst c) k limit window st = (n + 1 \<le> limit, dict_set k (n + 1, t0) st)"
      using Cons.prems by (intro allow_in_window) simp_all
    have "map fst (filter (\<lambda>p. snd (snd p) = k) (zip (allow_run cs limit window (dict_set k (n + 1, t0) st)) cs))
       = map (\<lambda>i. n + 1 + int i < limit) [0..<length (filter (\<lambda>c. snd c = k) cs)]"
      by (rule Cons.IH) (use Cons.prems in simp_all)
    then show ?thesis using True a by (simp add: map_less_Suc del: upt_Suc)
  next
    case False
    then have "dict_get (snd (allow (fst c) (snd c) limit window st)) k = Some (n, t0)" using Cons.prems(1) by (simp add: allow_other)
    then show ?thesis using False Cons by (cases "allow (fst c) (snd c) limit window st") simp
  qed
qed

lemma allow_run_fresh:
  assumes "\<forall>n t. dict_get st k = Some (n, t) \<longrightarrow> fle (Fin (of_int window)) (fsub now t)"
    and "\<forall>c \<in> set cs. snd c = k \<longrightarrow> \<not> fle (Fin (of_int window)) (fsub (fst c) now)"
  shows "map fst (filter (\<lambda>p. snd (snd p) = k) (zip (allow_run ((now, k) # cs) limit window st) ((now, k) # cs)))
       = map (\<lambda>i. int i < limit) [0..<Suc (length (filter (\<lambda>c. snd c = k) cs))]"
proof -
  have a: "allow now k limit window st = (1 \<le> limit, dict_set k (1, now) st)"
    using assms(1) by (cases "dict_get st k") (auto simp: allow_def Let_def dict_get_default_def)
  have "map fst (filter (\<lambda>p. snd (snd p) = k) (zip (allow_run cs limit window (dict_set k (1, now) st)) cs))
      = map (\<lambda>i. 1 + int i < limit) [0..<length (filter (\<lambda>c. snd c = k) cs)]"
    by (rule allow_run_window) (use assms(2) in simp_all)
  then show ?thesis using a map_less_Suc[of 0 limit] by (simp del: upt_Suc)
qed

text \<open>
  Within a rate-limit window the first \<open>limit\<close> calls of a key are allowed and every later one is
  refused, however the calls of other keys are interleaved with them and whatever those keys do:
  the decisions for one key, in order, are exactly \<open>True\<close> for the first \<open>limit\<close> calls and
  \<open>False\<close> from then on. The window is opened by the first call of a key that has no entry or
  whose entry has expired.
\<close>

theorem rate_limit_exact_in_window:
  assumes "\<forall>n t. dict_get st k = Some (n, t) \<longrightarrow> fle (Fin (of_int window)) (fsub now t)"
    and "\<forall>c \<in> set cs. snd c = k \<longrightarrow> \<not> fle (Fin (of_int window)) (fsub (fst c) now)"
  shows "map fst (filter (\<lambda>p. snd (snd p) = k) (zip (allow_run ((now, k) # cs) limit window st) ((now, k) # cs)))
       = map (\<lambda>i. int i < limit) [0..<Suc (length (filter (\<lambda>c. snd c = k) cs))]"
  using assms by (rule allow_run_fresh)

theorem rate_limit_exact_in_window_witness:
  "map fst (filter (\<lambda>p. snd (snd p) = ''a'') (zip (allow_run ((Fin 100, ''a'') # [(Fin 101, ''b''), (Fin 102, ''a''), (Fin 103, ''a'')]) 2 60 [(''a'', (9, Fin 10))])
       ((Fin 100, ''a'') # [(Fin 101, ''b''), (Fin 102, ''a''), (Fin 103, ''a'')]))) = [True, True, False]"
  using fl64_of_int[of 90] fl64_of_int[of 2] fl64_of_int[of 3]
  by (subst rate_limit_exact_in_window) (simp_all add: fle_def fsub_def upt_rec)

fun redis_run ::
  "(string \<Rightarrow> 'r \<Rightarrow> int \<times> 'r) \<Rightarrow> (string \<Rightarrow> int \<Rightarrow> 'r \<Rightarrow> 'r) \<Rightarrow> string list \<Rightarrow> int \<Rightarrow> int \<Rightarrow> 'r \<Rightarrow> bool list" where
  "redis_run incr expire [] limit window r = []"
| "redis_run incr expire (k # ks) limit window r =
     (case redis_allow incr expire k limit window r of (ok, r') \<Rightarrow> ok # redis_run incr expire ks limit window r')"

lemma redis_run_window:
  assumes "\<forall>k r. fst (incr k r) = count k r + 1"
    and "\<forall>k k' r. count k' (snd (incr k r)) = (if k' = k then count k r + 1 else count k' r)"
    and "\<forall>k k' w r. count k' (expire k w r) = count k' r"
  shows "map fst (filter (\<lambda>p. snd p = k) (zip (redis_run incr expire ks limit window r) ks))
       = map (\<lambda>i. count k r + int i < limit) [0..<length (filter (\<lambda>k'. k' = k) ks)]"
proof (induction ks arbitrary: r)
  case Nil
  show ?case by simp
next
  case (Cons k' ks)
  have "fst (redis_allow incr expire k' limit window r) \<longleftrightarrow> count k' r + 1 \<le> limit"
      "count k (snd (redis_allow incr expire k' limit window r)) = (if k = k' then count k r + 1 else count k r)"
    using assms by (simp_all add: redis_allow_def case_prod_beta Let_def)
  then show ?case
    using Cons.IH[of "snd (redis_allow incr expire k' limit window r)"]
    by (cases "k' = k") (simp_all add: map_less_Suc case_prod_beta del: upt_Suc)
qed

text \<open>
  C35: The Redis limiter and the in-memory limiter decide alike: for calls within one window, starting
  without a counter for the key, the decisions for that key are the same sequence, however
  calls of other keys are interleaved. Redis is any client whose \<open>INCR\<close> adds one to the counter of its
  key and returns it and whose \<open>EXPIRE\<close> leaves the counters alone (until the window is over).
\<close>

theorem redis_limiter_equals_memory_limiter:
  assumes redis_incr: "\<forall>k r. fst (incr k r) = count k r + 1"
    and redis_incr_counts: "\<forall>k k' r. count k' (snd (incr k r)) = (if k' = k then count k r + 1 else count k' r)"
    and redis_expire: "\<forall>k k' w r. count k' (expire k w r) = count k' r"
    and "count k r = 0" and "dict_get st k = None"
    and "\<forall>c \<in> set cs. snd c = k \<longrightarrow> \<not> fle (Fin (of_int window)) (fsub (fst c) now)"
  shows "map fst (filter (\<lambda>p. snd p = k) (zip (redis_run incr expire (k # map snd cs) limit window r) (k # map snd cs)))
       = map fst (filter (\<lambda>p. snd (snd p) = k) (zip (allow_run ((now, k) # cs) limit window st) ((now, k) # cs)))"
proof -
  have "length (filter (\<lambda>k'. k' = k) (k # map snd cs)) = Suc (length (filter (\<lambda>c. snd c = k) cs))"
    by (simp add: filter_map comp_def)
  then show ?thesis
    using redis_run_window[OF assms(1-3), of k "k # map snd cs" limit window r] allow_run_fresh[OF _ assms(6), of st limit] assms(4,5)
    by simp
qed

definition counter_incr :: "string \<Rightarrow> (string \<Rightarrow> int) \<Rightarrow> int \<times> (string \<Rightarrow> int)" where
  "counter_incr k r = (r k + 1, r(k := r k + 1))"

theorem redis_limiter_equals_memory_limiter_witness:
  "map fst (filter (\<lambda>p. snd p = ''a'') (zip (redis_run counter_incr (\<lambda>k w r. r) (''a'' # map snd [(Fin 1, ''b''), (Fin 2, ''a'')]) 1 60 (\<lambda>_. 0))
       (''a'' # map snd [(Fin 1, ''b''), (Fin 2, ''a'')])))
   = map fst (filter (\<lambda>p. snd (snd p) = ''a'') (zip (allow_run ((Fin 0, ''a'') # [(Fin 1, ''b''), (Fin 2, ''a'')]) 1 60 []) ((Fin 0, ''a'') # [(Fin 1, ''b''), (Fin 2, ''a'')])))"
  using fl64_of_int[of 2]
  by (intro redis_limiter_equals_memory_limiter[where count = "\<lambda>k r. r k"]) (simp_all add: counter_incr_def fle_def fsub_def)

subsection \<open>Refresh tokens are single use\<close>

text \<open>The transitions of the refresh store; drawn tokens and families are new.\<close>

inductive refresh_step :: "refresh_store \<Rightarrow> refresh_store \<Rightarrow> bool" where
  Issued: "dict_get (rf_tokens st) new = None \<Longrightarrow> dict_get (rf_current st) (str_uuid family) = None \<Longrightarrow>
     refresh_step st (snd (refresh_issue family new subject tenant st))"
| Rotated: "dict_get (rf_tokens st) new = None \<Longrightarrow> refresh_step st (snd (refresh_rotate new token st))"
| Revoked: "refresh_step st (revoke_family family st)"

inductive_cases refresh_stepE: "refresh_step st st'"

definition token_of_family :: "refresh_store \<Rightarrow> string \<Rightarrow> string \<Rightarrow> bool" where
  "token_of_family st token family = (case dict_get (rf_tokens st) token of None \<Rightarrow> False | Some e \<Rightarrow> rt_family e = family)"

definition retired :: "refresh_store \<Rightarrow> string \<Rightarrow> string \<Rightarrow> bool" where
  "retired st token family \<longleftrightarrow> token_of_family st token family \<and> dict_get (rf_current st) family \<noteq> Some token"

lemma refresh_step_keeps:
  assumes "refresh_step st st'"
  shows "token_of_family st token family \<Longrightarrow> token_of_family st' token family"
    and "retired st token family \<Longrightarrow> retired st' token family"
    and "family \<in> rf_revoked st \<Longrightarrow> family \<in> rf_revoked st'"
  using assms
  by (auto elim!: refresh_stepE simp: refresh_issue_def refresh_rotate_def revoke_family_def Let_def
      retired_def token_of_family_def split: option.splits if_splits)

lemma refresh_steps_keep:
  assumes "refresh_step\<^sup>*\<^sup>* st st'"
  shows "token_of_family st token family \<Longrightarrow> token_of_family st' token family"
    and "retired st token family \<Longrightarrow> retired st' token family"
    and "family \<in> rf_revoked st \<Longrightarrow> family \<in> rf_revoked st'"
  using assms by (induction rule: rtranclp_induct) (auto dest: refresh_step_keeps)

lemma rotate_retires:
  assumes "refresh_rotate new token st = (Inr rt, st')" and "dict_get (rf_tokens st) new = None"
  shows "retired st' token (rt_family rt)"
  using assms by (auto simp: refresh_rotate_def Let_def retired_def token_of_family_def split: option.splits if_splits)

lemma rotate_retired:
  assumes "retired st token family"
  shows "\<exists>m. fst (refresh_rotate new token st) = Inl m"
    and "family \<in> rf_revoked (snd (refresh_rotate new token st))"
  using assms by (auto simp: refresh_rotate_def Let_def retired_def token_of_family_def split: option.splits)

lemma rotate_revoked:
  assumes "token_of_family st token family" and "family \<in> rf_revoked st"
  shows "refresh_rotate new token st = (Inl ''refresh token family revoked'', st)"
  using assms by (auto simp: refresh_rotate_def token_of_family_def split: option.splits)

text \<open>
  C4: Refresh tokens are single use, and a replay closes the whole family. Once a token has been
  rotated, then after any further sequence of issues, rotations and revocations presenting it is
  refused and its family is revoked; from then on, again after any sequence of operations,
  every token of that family is refused and the store does not change, including the token the legitimate
  holder got last.
\<close>

theorem replayed_refresh_token_closes_family:
  assumes "refresh_rotate new token st = (Inr rt, st1)" and "dict_get (rf_tokens st) new = None"
    and "refresh_step\<^sup>*\<^sup>* st1 st2"
  shows "(\<exists>m. fst (refresh_rotate new2 token st2) = Inl m)
    \<and> (refresh_step\<^sup>*\<^sup>* (snd (refresh_rotate new2 token st2)) st3 \<longrightarrow> token_of_family st3 other (rt_family rt) \<longrightarrow>
         refresh_rotate new3 other st3 = (Inl ''refresh token family revoked'', st3))"
proof -
  have r: "retired st2 token (rt_family rt)"
    using rotate_retires[OF assms(1,2)] refresh_steps_keep(2)[OF assms(3)] by blast
  then show ?thesis
    using rotate_retired[OF r, of new2] refresh_steps_keep(3)[of "snd (refresh_rotate new2 token st2)" st3 "rt_family rt"]
    by (auto intro: rotate_revoked)
qed

definition sample_store :: refresh_store where
  "sample_store = \<lparr>rf_tokens = [(''t0'', \<lparr>rt_token = ''t0'', rt_family = ''f'', rt_subject = ''ann'', rt_tenant = 1\<rparr>)],
     rf_current = [(''f'', ''t0'')], rf_revoked = {}\<rparr>"

definition rotated_store :: refresh_store where
  "rotated_store = snd (refresh_rotate ''t1'' ''t0'' sample_store)"

theorem replayed_refresh_token_closes_family_witness:
  "(\<exists>m. fst (refresh_rotate ''t2'' ''t0'' rotated_store) = Inl m)
   \<and> refresh_rotate ''t3'' ''t1'' (snd (refresh_rotate ''t2'' ''t0'' rotated_store))
       = (Inl ''refresh token family revoked'', snd (refresh_rotate ''t2'' ''t0'' rotated_store))"
proof -
  have r: "refresh_rotate ''t1'' ''t0'' sample_store
      = (Inr \<lparr>rt_token = ''t1'', rt_family = ''f'', rt_subject = ''ann'', rt_tenant = 1\<rparr>, rotated_store)"
    by (simp add: rotated_store_def refresh_rotate_def sample_store_def Let_def)
  have "token_of_family (snd (refresh_rotate ''t2'' ''t0'' rotated_store)) ''t1'' ''f''"
    by (simp add: rotated_store_def refresh_rotate_def sample_store_def token_of_family_def Let_def)
  then show ?thesis
    using replayed_refresh_token_closes_family[OF r, of rotated_store "''t2''" _ "''t1''" "''t3''"]
    by (simp add: sample_store_def)
qed

subsection \<open>Tokens for a code\<close>

text \<open>
  An authorization code buys tokens only for the caller who holds the PKCE verifier, and only
  once. If the exchange succeeds the code was pending, the verifier hashes to the challenge the
  code was created with, and the access token names the subject and the tenant of the
  authorization; and whatever the answer, the code is spent: a later request with it is refused
  with 400 and leaves the state alone.
\<close>

theorem code_exchange_pkce_single_use:
  assumes "tq_grant q = ''authorization_code''" and "tq_code q = Some code"
    and "route_token cfg d q s = (r, s')"
  shows "(\<forall>resp. r = Inr resp \<longrightarrow> (\<exists>p v. dict_get (gs_codes s) code = Some p \<and> tq_verifier q = Some v
            \<and> compute_code_challenge (gc_sha cfg) (gc_b64 cfg) v = Inr (pa_challenge p)
            \<and> tp_access resp = access_token_for cfg d (pa_subject p) (pa_tenant p)))
    \<and> (code \<noteq> [] \<and> \<not> falsy (tq_verifier q) \<longrightarrow>
         (\<forall>d'. route_token cfg d' q s' = (Inl (HTTPException 400 ''invalid or already-used authorization code''), s')))"
proof (cases "code = [] \<or> falsy (tq_verifier q)")
  case True
  then show ?thesis using assms by (auto simp: route_token_def token_by_code_def falsy_def)
next
  case False
  then obtain v where v: "tq_verifier q = Some v" "v \<noteq> []" by (auto simp: falsy_def)
  have spent: "dict_get (gs_codes s') code = None"
    using False assms
    by (auto simp: route_token_def token_by_code_def falsy_def code_consume_def issue_pair_def enforce_rate_limit_def
        refresh_issue_def Let_def split: option.splits sum.splits bool.splits prod.splits if_splits)
  have "\<forall>resp. r = Inr resp \<longrightarrow> (\<exists>p. dict_get (gs_codes s) code = Some p
            \<and> compute_code_challenge (gc_sha cfg) (gc_b64 cfg) v = Inr (pa_challenge p)
            \<and> tp_access resp = access_token_for cfg d (pa_subject p) (pa_tenant p))"
    using False assms v
    by (auto simp: route_token_def token_by_code_def falsy_def code_consume_def issue_pair_def enforce_rate_limit_def
        verify_code_verifier_def compare_digest_def rbind_Inr
        split: option.splits sum.splits bool.splits prod.splits if_splits)
  moreover have "route_token cfg d' q s' = (Inl (HTTPException 400 ''invalid or already-used authorization code''), s')" for d'
    using spent assms(1,2) False by (simp add: route_token_def token_by_code_def falsy_def code_consume_def)
  ultimately show ?thesis using v by auto
qed

definition sample_config :: gateway_config where
  "sample_config = \<lparr>gc_limit = 1, gc_window = 60, gc_ttl = 900, gc_jwt = (\<lambda>c. ac_sub c @ ''@'' @ ac_tenant c),
     gc_sha = (\<lambda>s. s), gc_b64 = (\<lambda>s. s @ ''='')\<rparr>"

definition sample_draw :: "string \<Rightarrow> gateway_draw" where
  "sample_draw t = \<lparr>gd_mono = Fin 0, gd_now = 0, gd_jti = 5, gd_family = 6, gd_token = t\<rparr>"

definition sample_gateway :: "limiter \<Rightarrow> gateway_state" where
  "sample_gateway l = \<lparr>gs_limiter = l, gs_refresh = sample_store,
     gs_codes = [(''c1'', \<lparr>pa_challenge = ''vv'', pa_subject = ''ann'', pa_tenant = 1\<rparr>)]\<rparr>"

definition code_request :: token_request where
  "code_request = \<lparr>tq_grant = ''authorization_code'', tq_code = Some ''c1'', tq_verifier = Some ''vv'', tq_refresh = None\<rparr>"

lemma is_ascii_vv [simp]: "is_ascii ''vv''"
  by (simp add: is_ascii_def)

theorem code_exchange_pkce_single_use_witness:
  "(\<exists>resp. fst (route_token sample_config (sample_draw ''t1'') code_request (sample_gateway [])) = Inr resp)
   \<and> route_token sample_config (sample_draw ''t2'') code_request
       (snd (route_token sample_config (sample_draw ''t1'') code_request (sample_gateway [])))
     = (Inl (HTTPException 400 ''invalid or already-used authorization code''),
        snd (route_token sample_config (sample_draw ''t1'') code_request (sample_gateway [])))"
proof
  show "\<exists>resp. fst (route_token sample_config (sample_draw ''t1'') code_request (sample_gateway [])) = Inr resp"
    by (simp add: code_request_def route_token_def token_by_code_def falsy_def code_consume_def sample_gateway_def
        verify_code_verifier_def compute_code_challenge_def compare_digest_def sample_config_def issue_pair_def
        enforce_rate_limit_def allow_def sample_draw_def dict_get_default_def refresh_issue_def Let_def)
  show "route_token sample_config (sample_draw ''t2'') code_request
       (snd (route_token sample_config (sample_draw ''t1'') code_request (sample_gateway [])))
     = (Inl (HTTPException 400 ''invalid or already-used authorization code''),
        snd (route_token sample_config (sample_draw ''t1'') code_request (sample_gateway [])))"
    using code_exchange_pkce_single_use[of code_request "''c1''" sample_config, OF _ _ surjective_pairing]
    by (simp add: code_request_def falsy_def)
qed

subsection \<open>A rate-limited refresh\<close>

text \<open>
  A refresh that meets the rate limit costs the client its whole session. The token is rotated
  before the limit is checked, so the 429 answer carries no new token while the old one
  is already retired; when the client retries with the token it has, as a 429 invites it to, the
  retry is taken for a replay: the answer is 401 and the family is revoked, at whatever time the
  retry comes.
\<close>

theorem rate_limited_refresh_revokes_family:
  assumes "tq_grant q = ''refresh_token''" and "tq_refresh q = Some token"
    and "route_token cfg d q s = (Inl (HTTPException 429 detail), s')"
    and "dict_get (rf_tokens (gs_refresh s)) (gd_token d) = None"
    and "dict_get (rf_tokens (gs_refresh s)) token = Some e"
  shows "fst (route_token cfg d' q s') = Inl (HTTPException 401 ''refresh token reuse detected; family revoked'')
    \<and> rt_family e \<in> rf_revoked (gs_refresh (snd (route_token cfg d' q s')))"
proof -
  obtain rt st where rot: "refresh_rotate (gd_token d) token (gs_refresh s) = (Inr rt, st)" and s': "gs_refresh s' = st"
    using assms(1-3)
    by (auto simp: route_token_def token_by_refresh_def enforce_rate_limit_def split: if_splits sum.splits prod.splits)
  have "rt_family e \<notin> rf_revoked st" "dict_get (rf_current st) (rt_family e) \<noteq> Some token" "dict_get (rf_tokens st) token = Some e"
    using rot assms(4,5) by (auto simp: refresh_rotate_def Let_def split: if_splits)
  then have "refresh_rotate (gd_token d') token st
      = (Inl ''refresh token reuse detected; family revoked'', st\<lparr>rf_revoked := insert (rt_family e) (rf_revoked st)\<rparr>)"
    by (simp add: refresh_rotate_def)
  moreover have "token \<noteq> []" using assms(1-3) by (auto simp: route_token_def token_by_refresh_def falsy_def)
  ultimately show ?thesis
    using assms(1,2) s' by (simp add: route_token_def token_by_refresh_def falsy_def)
qed

definition refresh_request :: token_request where
  "refresh_request = \<lparr>tq_grant = ''refresh_token'', tq_code = None, tq_verifier = None, tq_refresh = Some ''t0''\<rparr>"

definition busy_gateway :: gateway_state where
  "busy_gateway = sample_gateway [(''tenant:'' @ str_uuid 1, (1, Fin 0))]"

definition refused_gateway :: gateway_state where
  "refused_gateway = snd (route_token sample_config (sample_draw ''t1'') refresh_request busy_gateway)"

theorem rate_limited_refresh_revokes_family_witness:
  "fst (route_token sample_config (sample_draw ''t2'') refresh_request refused_gateway)
     = Inl (HTTPException 401 ''refresh token reuse detected; family revoked'')"
proof -
  have "route_token sample_config (sample_draw ''t1'') refresh_request busy_gateway
      = (Inl (HTTPException 429 ''rate limit exceeded''), refused_gateway)"
    unfolding refused_gateway_def
    by (simp add: refresh_request_def route_token_def token_by_refresh_def falsy_def refresh_rotate_def busy_gateway_def
        sample_gateway_def sample_store_def sample_config_def sample_draw_def enforce_rate_limit_def allow_def
        dict_get_default_def fsub_def fle_def Let_def)
  from rate_limited_refresh_revokes_family[OF _ _ this] show ?thesis
    by (simp add: refresh_request_def busy_gateway_def sample_gateway_def sample_store_def sample_draw_def)
qed

subsection \<open>The tenant an internal service sees\<close>

lemma map_of_single_last:
  assumes "length (filter (\<lambda>p. fst p = k) hs) \<le> 1"
  shows "map_of (rev hs) k = map_of hs k"
  using assms
proof (induction hs)
  case Nil
  show ?case by simp
next
  case (Cons p hs)
  show ?case
  proof (cases "fst p = k")
    case True
    then have "filter (\<lambda>p. fst p = k) hs = []" using Cons.prems by simp
    then have "map_of (rev hs) k = None" by (auto simp: map_of_eq_None_iff filter_empty_conv)
    with True show ?thesis by (cases p) (simp add: map_add_def)
  next
    case False
    then show ?thesis using Cons by (cases p) (simp add: map_add_def split: option.split)
  qed
qed

lemma header_dict_lower:
  assumes "\<forall>p \<in> set hs. py_lower (fst p) = fst p"
  shows "header_dict hs k = map_of (rev hs) k"
proof -
  have "map (\<lambda>(k, v). (py_lower k, v)) hs = hs" using assms by (induction hs) auto
  then show ?thesis by (simp add: header_dict_def)
qed

lemma internal_request_forward:
  assumes "path \<notin> exempt_paths" and "header_dict hs ''x-tenant-id'' = Some raw" and "hget hs ''x-tenant-id'' = Some used"
  shows "internal_request hmac secret hget path hs = Forward (Some t) \<longleftrightarrow>
     header_dict hs ''x-gateway-signature'' = Some (sign_tenant_id hmac secret raw)
     \<and> is_ascii (sign_tenant_id hmac secret raw) \<and> sign_tenant_id hmac secret raw \<noteq> []
     \<and> used \<noteq> [] \<and> uuid_of_string used = Some t"
proof (cases "header_dict hs ''x-gateway-signature''")
  case None
  then show ?thesis using assms by (simp add: internal_request_def gateway_signature_middleware_def falsy_def)
next
  case (Some sig)
  have tc: "tenant_context_middleware hget Forward path hs = Forward (Some t) \<longleftrightarrow> used \<noteq> [] \<and> uuid_of_string used = Some t"
    using assms(1,3) by (simp add: tenant_context_middleware_def falsy_def split: option.split)
  have "internal_request hmac secret hget path hs
      = (if sig = [] then Problem 403 ''untrusted tenant header''
         else if is_ascii (sign_tenant_id hmac secret raw) \<and> is_ascii sig
         then if sign_tenant_id hmac secret raw = sig then tenant_context_middleware hget Forward path hs
              else Problem 403 ''untrusted tenant header''
         else Escapes TypeError)"
    using assms(1,2) Some
    by (simp add: internal_request_def gateway_signature_middleware_def falsy_def verify_tenant_signature_def compare_digest_def)
  then show ?thesis using tc Some by auto
qed

lemma py_lower_tenant [simp]: "py_lower ''x-tenant-id'' = ''x-tenant-id''"
  by (simp add: char_lower_def)

text \<open>
  C6: An internal service believes a tenant header only when the gateway signed it. For a request
  with at most one tenant header (names in lower case, as the server delivers them) to a path
  that is not exempt, the route runs with tenant \<open>t\<close> exactly when the header is the text of
  \<open>t\<close> and the signature header is its HMAC under the shared secret; so nobody without the secret
  reaches a route. Starlette's \<open>headers.get\<close> is the first header of that name.
\<close>

theorem tenant_context_needs_signature:
  assumes starlette_get: "\<forall>hs k. hget hs k = map_of hs (py_lower k)"
    and "path \<notin> exempt_paths" and "\<forall>p \<in> set hs. py_lower (fst p) = fst p"
    and "length (filter (\<lambda>p. fst p = ''x-tenant-id'') hs) \<le> 1"
  shows "internal_request hmac secret hget path hs = Forward (Some t) \<longleftrightarrow>
     (\<exists>raw. map_of hs ''x-tenant-id'' = Some raw \<and> uuid_of_string raw = Some t
        \<and> header_dict hs ''x-gateway-signature'' = Some (sign_tenant_id hmac secret raw)
        \<and> raw \<noteq> [] \<and> sign_tenant_id hmac secret raw \<noteq> [] \<and> is_ascii (sign_tenant_id hmac secret raw))"
proof -
  have h: "header_dict hs ''x-tenant-id'' = map_of hs ''x-tenant-id''"
    using assms(3,4) by (simp add: header_dict_lower map_of_single_last)
  have g: "hget hs ''x-tenant-id'' = map_of hs ''x-tenant-id''"
    using assms(1) py_lower_tenant by metis
  show ?thesis
  proof (cases "map_of hs ''x-tenant-id''")
    case None
    then show ?thesis
      using assms(2) h g by (simp add: internal_request_def gateway_signature_middleware_def tenant_context_middleware_def falsy_def)
  next
    case (Some raw)
    then show ?thesis using internal_request_forward[OF assms(2), of hs raw hget raw] h g by auto
  qed
qed

text \<open>A concrete signature, header lookup and pair of headers.\<close>

definition sample_hmac :: "string \<Rightarrow> string \<Rightarrow> string" where
  "sample_hmac secret m = ''mac''"

definition starlette_get :: "headers \<Rightarrow> string \<Rightarrow> string option" where
  "starlette_get hs k = map_of hs (py_lower k)"

definition signed_headers :: headers where
  "signed_headers = [(''x-tenant-id'', str_uuid 7), (''x-gateway-signature'', ''mac'')]"

lemma is_ascii_mac [simp]: "is_ascii ''mac''"
  by (simp add: is_ascii_def)

lemma signed_headers_lower: "\<forall>p \<in> set signed_headers. py_lower (fst p) = fst p"
  by (simp add: signed_headers_def char_lower_def)

theorem tenant_context_needs_signature_witness:
  "internal_request sample_hmac ''s'' starlette_get ''/v1/tariffs'' signed_headers = Forward (Some 7)"
proof -
  have "header_dict signed_headers ''x-gateway-signature'' = Some ''mac''" "map_of signed_headers ''x-tenant-id'' = Some (str_uuid 7)"
    using header_dict_lower[OF signed_headers_lower] by (simp_all add: signed_headers_def)
  then show ?thesis
    using tenant_context_needs_signature[of starlette_get "''/v1/tariffs''" signed_headers sample_hmac "''s''" 7] signed_headers_lower
    by (simp add: starlette_get_def exempt_paths_def sample_hmac_def sign_tenant_id_def) (simp add: signed_headers_def)
qed

text \<open>
  C10: With two tenant headers the check and the use disagree: the signature middleware verifies the
  last one, the tenant middleware behind it takes the first. Anyone holding one signed pair, for
  a tenant of their own, is therefore served as any other tenant they name in a header in front of it.
\<close>

theorem duplicate_tenant_header_is_spoofed:
  assumes starlette_get: "\<forall>hs k. hget hs k = map_of hs (py_lower k)"
    and "path \<notin> exempt_paths"
    and "is_ascii (sign_tenant_id hmac secret (str_uuid own))" and "sign_tenant_id hmac secret (str_uuid own) \<noteq> []"
  shows "internal_request hmac secret hget path
     [(''x-tenant-id'', str_uuid victim), (''x-tenant-id'', str_uuid own),
      (''x-gateway-signature'', sign_tenant_id hmac secret (str_uuid own))] = Forward (Some victim)"
    (is "internal_request _ _ _ _ ?hs = _")
proof -
  have "\<forall>p \<in> set ?hs. py_lower (fst p) = fst p" by (simp add: char_lower_def)
  then have "header_dict ?hs ''x-tenant-id'' = Some (str_uuid own)"
      "header_dict ?hs ''x-gateway-signature'' = Some (sign_tenant_id hmac secret (str_uuid own))"
    by (simp_all add: header_dict_lower)
  moreover have "hget ?hs ''x-tenant-id'' = Some (str_uuid victim)"
    using assms(1) py_lower_tenant by simp
  ultimately show ?thesis
    using internal_request_forward[OF assms(2)] assms(3,4) by simp
qed

theorem duplicate_tenant_header_is_spoofed_witness:
  "internal_request sample_hmac ''s'' starlette_get ''/v1/tariffs''
     [(''x-tenant-id'', str_uuid 9), (''x-tenant-id'', str_uuid 7), (''x-gateway-signature'', sign_tenant_id sample_hmac ''s'' (str_uuid 7))]
   = Forward (Some 9)"
  by (rule duplicate_tenant_header_is_spoofed) (simp_all add: starlette_get_def exempt_paths_def sample_hmac_def sign_tenant_id_def)

end
