(* ===== verification/Identity.thy ===== *)
theory Identity
  imports Gateway_Auth Ocpp_Stores "HOL-Library.Countable"
begin

text \<open>
  Driver accounts (\<open>identity/driver_auth.py\<close>), signup, login and refresh
  (\<open>identity/driver_auth_router.py\<close>), the identity read from a bearer token
  (\<open>identity/driver_session.py\<close>), and the forwarders of the edge application to the internal
  services (\<open>driver_app/session_start_forwarder.py\<close>, \<open>rewards_forwarder.py\<close>,
  \<open>wallet_forwarder.py\<close>, \<open>gateway/dev_forwarder.py\<close>). Passwords use the credential hashing of
  the charger credentials. The HTTP client, the JSON codec and PyJWT are parameters.
\<close>

subsection \<open>Accounts\<close>

definition PLATFORM_TENANT_ID :: uuid where
  "PLATFORM_TENANT_ID = 1"

record driver_account =
  da_id :: uuid
  da_tenant :: uuid
  da_email :: string
  da_full_name :: string
  da_hash :: string

record account_store =
  as_by_id :: "(uuid, driver_account) pydict"
  as_id_by_email :: "(string, uuid) pydict"

definition normalized_email :: "string \<Rightarrow> string" where
  "normalized_email email = py_lower (py_strip email)"

datatype account_error = EmailAlreadyRegisteredError string

text \<open>\<open>kdf\<close> is PBKDF2; \<open>salt\<close> and \<open>new_id\<close> are drawn.\<close>

definition account_create ::
  "(string \<Rightarrow> string \<Rightarrow> string) \<Rightarrow> string \<Rightarrow> uuid \<Rightarrow> string \<Rightarrow> string \<Rightarrow> string \<Rightarrow> uuid \<Rightarrow> account_store
    \<Rightarrow> (account_error + driver_account) \<times> account_store" where
  "account_create kdf salt new_id email name password tenant st =
     (let n = normalized_email email in
      if dict_get (as_id_by_email st) n \<noteq> None then (Inl (EmailAlreadyRegisteredError email), st)
      else (let a = \<lparr>da_id = new_id, da_tenant = tenant, da_email = n, da_full_name = name, da_hash = hash_credential kdf salt password\<rparr>
            in (Inr a, \<lparr>as_by_id = dict_set new_id a (as_by_id st), as_id_by_email = dict_set n new_id (as_id_by_email st)\<rparr>)))"

definition find_by_email :: "account_store \<Rightarrow> string \<Rightarrow> driver_account option" where
  "find_by_email st email =
     (case dict_get (as_id_by_email st) (normalized_email email) of None \<Rightarrow> None | Some i \<Rightarrow> dict_get (as_by_id st) i)"

definition account_get :: "account_store \<Rightarrow> uuid \<Rightarrow> driver_account option" where
  "account_get st i = dict_get (as_by_id st) i"

definition verify_password :: "(string \<Rightarrow> string \<Rightarrow> string) \<Rightarrow> driver_account \<Rightarrow> string \<Rightarrow> py_error + bool" where
  "verify_password kdf a password = verify_credential kdf password (da_hash a)"

subsection \<open>Signup, login, refresh\<close>

definition check_email :: "string \<Rightarrow> bool" where
  "check_email v \<longleftrightarrow> CHR ''@'' \<in> set v \<and> hd v \<noteq> CHR ''@'' \<and> last v \<noteq> CHR ''@''"

definition account_to_dict :: "driver_account \<Rightarrow> json" where
  "account_to_dict a = JObj [(''id'', JStr (str_uuid (da_id a))), (''email'', JStr (da_email a)), (''full_name'', JStr (da_full_name a))]"

record auth_session =
  au_access :: string
  au_refresh :: string
  au_driver :: json

text \<open>What the endpoints share with the gateway: token encoding and draws.\<close>

definition issue_session ::
  "gateway_config \<Rightarrow> gateway_draw \<Rightarrow> driver_account \<Rightarrow> refresh_store \<Rightarrow> auth_session \<times> refresh_store" where
  "issue_session cfg d a rs =
     (case refresh_issue (gd_family d) (gd_token d) (str_uuid (da_id a)) (da_tenant a) rs of (rt, rs') \<Rightarrow>
        (\<lparr>au_access = access_token_for cfg d (str_uuid (da_id a)) (da_tenant a), au_refresh = rt_token rt, au_driver = account_to_dict a\<rparr>, rs'))"

definition route_signup ::
  "(string \<Rightarrow> string \<Rightarrow> string) \<Rightarrow> gateway_config \<Rightarrow> gateway_draw \<Rightarrow> string \<Rightarrow> uuid \<Rightarrow> string \<Rightarrow> string \<Rightarrow> string
    \<Rightarrow> account_store \<times> refresh_store \<Rightarrow> (py_error http_error + auth_session) \<times> account_store \<times> refresh_store" where
  "route_signup kdf cfg d salt new_id email name password s =
     (if \<not> check_email email then (Inl (HTTPException 422 ''not a valid email address''), s)
      else case account_create kdf salt new_id email name password PLATFORM_TENANT_ID (fst s) of
        (Inl _, st) \<Rightarrow> (Inl (HTTPException 409 ''email already registered''), st, snd s)
      | (Inr a, st) \<Rightarrow> (case issue_session cfg d a (snd s) of (r, rs) \<Rightarrow> (Inr r, st, rs)))"

definition route_login ::
  "(string \<Rightarrow> string \<Rightarrow> string) \<Rightarrow> gateway_config \<Rightarrow> gateway_draw \<Rightarrow> string \<Rightarrow> string
    \<Rightarrow> account_store \<times> refresh_store \<Rightarrow> (py_error http_error + auth_session) \<times> account_store \<times> refresh_store" where
  "route_login kdf cfg d email password s =
     (if \<not> check_email email then (Inl (HTTPException 422 ''not a valid email address''), s)
      else case find_by_email (fst s) email of
        None \<Rightarrow> (Inl (HTTPException 401 ''invalid email or password''), s)
      | Some a \<Rightarrow>
        (case verify_password kdf a password of
           Inl e \<Rightarrow> (Inl (Raised e), s)
         | Inr False \<Rightarrow> (Inl (HTTPException 401 ''invalid email or password''), s)
         | Inr True \<Rightarrow> (case issue_session cfg d a (snd s) of (r, rs) \<Rightarrow> (Inr r, fst s, rs))))"

definition route_refresh ::
  "gateway_config \<Rightarrow> gateway_draw \<Rightarrow> string
    \<Rightarrow> account_store \<times> refresh_store \<Rightarrow> (py_error http_error + auth_session) \<times> account_store \<times> refresh_store" where
  "route_refresh cfg d token s =
     (case refresh_rotate (gd_token d) token (snd s) of
        (Inl _, rs) \<Rightarrow> (Inl (HTTPException 401 ''invalid refresh token''), fst s, rs)
      | (Inr rt, rs) \<Rightarrow>
        (case uuid_of_string (rt_subject rt) of
           None \<Rightarrow> (Inl (Raised (PyValueError ''badly formed hexadecimal UUID string'')), fst s, rs)
         | Some i \<Rightarrow>
           (case account_get (fst s) i of
              None \<Rightarrow> (Inl (HTTPException 401 ''invalid refresh token''), fst s, rs)
            | Some a \<Rightarrow> (Inr \<lparr>au_access = access_token_for cfg d (str_uuid (da_id a)) (da_tenant a), au_refresh = rt_token rt,
                             au_driver = account_to_dict a\<rparr>, fst s, rs))))"

subsection \<open>The identity behind a bearer token\<close>

record driver_identity =
  di_driver :: uuid
  di_tenant :: uuid

definition identity_of_payload :: "json \<Rightarrow> py_error + driver_identity" where
  "identity_of_payload payload =
     rbind (rbind (jitem payload ''sub'') uuid_of_json) (\<lambda>driver.
       rbind (rbind (jitem payload ''tenant_id'') uuid_of_json) (\<lambda>tenant. Inr \<lparr>di_driver = driver, di_tenant = tenant\<rparr>))"

definition require_driver_identity ::
  "(string \<Rightarrow> string + json) \<Rightarrow> string option \<Rightarrow> py_error http_error + driver_identity" where
  "require_driver_identity jwt_decode authorization =
     (case authorization of
        None \<Rightarrow> Inl (HTTPException 401 ''missing bearer token'')
      | Some h \<Rightarrow>
        if take 7 h \<noteq> ''Bearer '' then Inl (HTTPException 401 ''missing bearer token'')
        else (case decode_access_token jwt_decode (drop 7 h) of
          Inl _ \<Rightarrow> Inl (HTTPException 401 ''invalid or expired token'')
        | Inr payload \<Rightarrow>
          (case identity_of_payload payload of
             Inl (KeyError _) \<Rightarrow> Inl (HTTPException 401 ''malformed token subject'')
           | Inl (PyValueError _) \<Rightarrow> Inl (HTTPException 401 ''malformed token subject'')
           | Inl e \<Rightarrow> Inl (Raised e)
           | Inr ident \<Rightarrow> Inr ident)))"

definition require_driver_id :: "(string \<Rightarrow> string + json) \<Rightarrow> string option \<Rightarrow> py_error http_error + uuid" where
  "require_driver_id jwt_decode authorization =
     (case require_driver_identity jwt_decode authorization of Inl e \<Rightarrow> Inl e | Inr ident \<Rightarrow> Inr (di_driver ident))"

subsection \<open>Forwarders\<close>

record upstream_request =
  uq_method :: string
  uq_path :: string
  uq_params :: "(string \<times> string) list"
  uq_body :: string
  uq_headers :: headers

record http_response =
  hr_status :: int
  hr_content :: string
  hr_media :: "string option"

text \<open>
  \<open>client\<close> is the HTTP client: it answers or raises (its text), and changes the upstream.
  \<open>json_loads\<close> and \<open>json_dumps\<close> are the codec.
\<close>

datatype forward_error = UpstreamError string | ForwardRaised py_error

type_synonym 'u client = "upstream_request \<Rightarrow> 'u \<Rightarrow> (string + http_response) \<times> 'u"

definition relay :: "(string + http_response) \<times> 'u \<Rightarrow> (forward_error + http_response) \<times> 'u" where
  "relay x = (case fst x of Inl m \<Rightarrow> Inl (UpstreamError m) | Inr r \<Rightarrow> Inr r, snd x)"

text \<open>\<open>{"x-tenant-id": \<dots>, SIGNATURE_HEADER: \<dots>}\<close>, and the same with the content type.\<close>

definition signed_tenant_headers :: "(string \<Rightarrow> string \<Rightarrow> string) \<Rightarrow> string \<Rightarrow> uuid \<Rightarrow> headers" where
  "signed_tenant_headers hmac secret tenant =
     [(''x-tenant-id'', str_uuid tenant), (''x-gateway-signature'', sign_tenant_id hmac secret (str_uuid tenant))]"

definition signed_json_headers :: "(string \<Rightarrow> string \<Rightarrow> string) \<Rightarrow> string \<Rightarrow> driver_identity \<Rightarrow> headers" where
  "signed_json_headers hmac secret ident = (''content-type'', ''application/json'') # signed_tenant_headers hmac secret (di_tenant ident)"

text \<open>\<open>payload = json.loads(raw_body) if raw_body else {}; payload[key] = value\<close>\<close>

definition json_put :: "string \<Rightarrow> string \<Rightarrow> json \<Rightarrow> py_error + json" where
  "json_put key v payload =
     (case payload of
        JObj kvs \<Rightarrow> Inr (JObj (if dict_get kvs key \<noteq> None then map (\<lambda>(k, w). if k = key then (k, JStr v) else (k, w)) kvs
                              else kvs @ [(key, JStr v)]))
      | _ \<Rightarrow> Inl TypeError)"

definition body_with ::
  "(string \<Rightarrow> py_error + json) \<Rightarrow> (json \<Rightarrow> string) \<Rightarrow> string \<Rightarrow> string \<Rightarrow> string \<Rightarrow> py_error + string" where
  "body_with json_loads json_dumps key v raw =
     rbind (if raw \<noteq> [] then json_loads raw else Inr (JObj [])) (\<lambda>payload.
       rbind (json_put key v payload) (\<lambda>p. Inr (json_dumps p)))"

definition forwarded_methods :: "string set" where
  "forwarded_methods = {''qr'', ''autocharge'', ''plug-and-charge'', ''app''}"

definition methods_with_driver_id_in_body :: "string set" where
  "methods_with_driver_id_in_body = {''qr'', ''app''}"

definition forward_start ::
  "(string \<Rightarrow> py_error + json) \<Rightarrow> (json \<Rightarrow> string) \<Rightarrow> (string \<Rightarrow> string \<Rightarrow> string) \<Rightarrow> string \<Rightarrow> 'u client
    \<Rightarrow> string \<Rightarrow> string \<Rightarrow> driver_identity \<Rightarrow> 'u \<Rightarrow> (forward_error + http_response) \<times> 'u" where
  "forward_start json_loads json_dumps hmac secret client meth raw ident u =
     (if meth \<notin> forwarded_methods then (Inr \<lparr>hr_status = 404, hr_content = [], hr_media = None\<rparr>, u)
      else case (if meth \<in> methods_with_driver_id_in_body
                 then body_with json_loads json_dumps ''driver_id'' (str_uuid (di_driver ident)) raw else Inr raw) of
        Inl e \<Rightarrow> (Inl (ForwardRaised e), u)
      | Inr body \<Rightarrow> relay (client \<lparr>uq_method = ''POST'', uq_path = ''/charging/session/start/'' @ meth, uq_params = [], uq_body = body,
                              uq_headers = signed_json_headers hmac secret ident\<rparr> u))"

definition forward_get ::
  "(string \<Rightarrow> string \<Rightarrow> string) \<Rightarrow> string \<Rightarrow> 'u client \<Rightarrow> string \<Rightarrow> string \<Rightarrow> driver_identity \<Rightarrow> 'u \<Rightarrow> (forward_error + http_response) \<times> 'u" where
  "forward_get hmac secret client what sid ident u =
     relay (client \<lparr>uq_method = ''GET'', uq_path = ''/charging/session/'' @ sid @ ''/'' @ what, uq_params = [(''driver_id'', str_uuid (di_driver ident))],
                    uq_body = [], uq_headers = signed_tenant_headers hmac secret (di_tenant ident)\<rparr> u)"

definition forward_status ::
  "(string \<Rightarrow> string \<Rightarrow> string) \<Rightarrow> string \<Rightarrow> 'u client \<Rightarrow> string \<Rightarrow> driver_identity \<Rightarrow> 'u \<Rightarrow> (forward_error + http_response) \<times> 'u" where
  "forward_status hmac secret client sid = forward_get hmac secret client ''status'' sid"

definition forward_live ::
  "(string \<Rightarrow> string \<Rightarrow> string) \<Rightarrow> string \<Rightarrow> 'u client \<Rightarrow> string \<Rightarrow> driver_identity \<Rightarrow> 'u \<Rightarrow> (forward_error + http_response) \<times> 'u" where
  "forward_live hmac secret client sid = forward_get hmac secret client ''live'' sid"

text \<open>httpx adds the content type of a \<open>json=\<close> body.\<close>

definition forward_stop ::
  "(json \<Rightarrow> string) \<Rightarrow> (string \<Rightarrow> string \<Rightarrow> string) \<Rightarrow> string \<Rightarrow> 'u client \<Rightarrow> string \<Rightarrow> driver_identity \<Rightarrow> 'u
    \<Rightarrow> (forward_error + http_response) \<times> 'u" where
  "forward_stop json_dumps hmac secret client sid ident u =
     relay (client \<lparr>uq_method = ''POST'', uq_path = ''/charging/session/'' @ sid @ ''/stop'', uq_params = [],
                    uq_body = json_dumps (JObj [(''driver_id'', JStr (str_uuid (di_driver ident)))]),
                    uq_headers = signed_json_headers hmac secret ident\<rparr> u)"

definition forward_get_rewards ::
  "(string \<Rightarrow> string \<Rightarrow> string) \<Rightarrow> string \<Rightarrow> 'u client \<Rightarrow> driver_identity \<Rightarrow> 'u \<Rightarrow> (forward_error + http_response) \<times> 'u" where
  "forward_get_rewards hmac secret client ident u =
     relay (client \<lparr>uq_method = ''GET'', uq_path = ''/driver/rewards'', uq_params = [(''driver_id'', str_uuid (di_driver ident))],
                    uq_body = [], uq_headers = signed_json_headers hmac secret ident\<rparr> u)"

text \<open>A POST of the body with one field replaced: \<open>redeem\<close> and \<open>topup\<close>.\<close>

definition forward_post_with ::
  "(string \<Rightarrow> py_error + json) \<Rightarrow> (json \<Rightarrow> string) \<Rightarrow> (string \<Rightarrow> string \<Rightarrow> string) \<Rightarrow> string \<Rightarrow> 'u client
    \<Rightarrow> string \<Rightarrow> string \<Rightarrow> string \<Rightarrow> driver_identity \<Rightarrow> 'u \<Rightarrow> (forward_error + http_response) \<times> 'u" where
  "forward_post_with json_loads json_dumps hmac secret client path key raw ident u =
     (case body_with json_loads json_dumps key (str_uuid (di_driver ident)) raw of
        Inl e \<Rightarrow> (Inl (ForwardRaised e), u)
      | Inr body \<Rightarrow> relay (client \<lparr>uq_method = ''POST'', uq_path = path, uq_params = [], uq_body = body,
                              uq_headers = signed_json_headers hmac secret ident\<rparr> u))"

definition forward_redeem ::
  "(string \<Rightarrow> py_error + json) \<Rightarrow> (json \<Rightarrow> string) \<Rightarrow> (string \<Rightarrow> string \<Rightarrow> string) \<Rightarrow> string \<Rightarrow> 'u client
    \<Rightarrow> string \<Rightarrow> driver_identity \<Rightarrow> 'u \<Rightarrow> (forward_error + http_response) \<times> 'u" where
  "forward_redeem json_loads json_dumps hmac secret client =
     forward_post_with json_loads json_dumps hmac secret client ''/driver/rewards/redeem'' ''driver_id''"

definition forward_topup ::
  "(string \<Rightarrow> py_error + json) \<Rightarrow> (json \<Rightarrow> string) \<Rightarrow> (string \<Rightarrow> string \<Rightarrow> string) \<Rightarrow> string \<Rightarrow> 'u client
    \<Rightarrow> string \<Rightarrow> driver_identity \<Rightarrow> 'u \<Rightarrow> (forward_error + http_response) \<times> 'u" where
  "forward_topup json_loads json_dumps hmac secret client =
     forward_post_with json_loads json_dumps hmac secret client ''/wallet/topup'' ''wallet_id''"

definition forward_wallet ::
  "(string \<Rightarrow> string \<Rightarrow> string) \<Rightarrow> string \<Rightarrow> 'u client \<Rightarrow> string \<Rightarrow> string \<Rightarrow> string \<Rightarrow> driver_identity \<Rightarrow> 'u
    \<Rightarrow> (forward_error + http_response) \<times> 'u" where
  "forward_wallet hmac secret client meth what body ident u =
     relay (client \<lparr>uq_method = meth, uq_path = ''/wallet/'' @ str_uuid (di_driver ident) @ ''/'' @ what, uq_params = [], uq_body = body,
                    uq_headers = signed_json_headers hmac secret ident\<rparr> u)"

definition forward_get_balance ::
  "(string \<Rightarrow> string \<Rightarrow> string) \<Rightarrow> string \<Rightarrow> 'u client \<Rightarrow> driver_identity \<Rightarrow> 'u \<Rightarrow> (forward_error + http_response) \<times> 'u" where
  "forward_get_balance hmac secret client = forward_wallet hmac secret client ''GET'' ''balance'' []"

definition forward_get_payment_method ::
  "(string \<Rightarrow> string \<Rightarrow> string) \<Rightarrow> string \<Rightarrow> 'u client \<Rightarrow> driver_identity \<Rightarrow> 'u \<Rightarrow> (forward_error + http_response) \<times> 'u" where
  "forward_get_payment_method hmac secret client = forward_wallet hmac secret client ''GET'' ''payment-method'' []"

definition forward_set_payment_method ::
  "(string \<Rightarrow> string \<Rightarrow> string) \<Rightarrow> string \<Rightarrow> 'u client \<Rightarrow> string \<Rightarrow> driver_identity \<Rightarrow> 'u \<Rightarrow> (forward_error + http_response) \<times> 'u" where
  "forward_set_payment_method hmac secret client raw = forward_wallet hmac secret client ''POST'' ''payment-method'' raw"

subsection \<open>The development forwarder\<close>

definition hop_by_hop_request_headers :: "string set" where
  "hop_by_hop_request_headers = {''host'', ''content-length'', ''x-dev-tenant-id''}"

definition hop_by_hop_response_headers :: "string set" where
  "hop_by_hop_response_headers = {''content-length'', ''content-encoding'', ''transfer-encoding'', ''connection''}"

text \<open>\<open>{k: v for k, v in hs if k.lower() not in excluded}\<close>\<close>

definition headers_without :: "string set \<Rightarrow> headers \<Rightarrow> headers" where
  "headers_without excluded hs = fold (\<lambda>(k, v) d. if py_lower k \<in> excluded then d else dict_set k v d) hs []"

definition dev_signed_headers :: "(string \<Rightarrow> string \<Rightarrow> string) \<Rightarrow> string \<Rightarrow> headers \<Rightarrow> uuid \<Rightarrow> headers" where
  "dev_signed_headers hmac secret hs tenant =
     dict_set ''x-gateway-signature'' (sign_tenant_id hmac secret (str_uuid tenant))
       (dict_set ''x-tenant-id'' (str_uuid tenant) (headers_without hop_by_hop_request_headers hs))"

text \<open>The query parameters are a dictionary; the upstream answers status, content and headers.\<close>

definition dev_forward ::
  "(headers \<Rightarrow> string \<Rightarrow> string option) \<Rightarrow> (string \<Rightarrow> string \<Rightarrow> string) \<Rightarrow> string
    \<Rightarrow> (upstream_request \<Rightarrow> 'u \<Rightarrow> (string + int \<times> string \<times> headers) \<times> 'u)
    \<Rightarrow> string \<Rightarrow> string \<Rightarrow> headers \<Rightarrow> (string, string) pydict \<Rightarrow> string \<Rightarrow> 'u \<Rightarrow> (string + int \<times> string \<times> headers) \<times> 'u" where
  "dev_forward hget hmac secret client meth path hs query body u =
     (let from_header = hget hs ''x-dev-tenant-id'';
          raw = (if falsy from_header then dict_get query ''_dev_tenant_id'' else from_header)
      in if falsy raw then (Inr (400, ''X-Dev-Tenant-Id header (or _dev_tenant_id query param) required'', []), u)
         else case uuid_of_string (the raw) of
           None \<Rightarrow> (Inr (400, ''tenant id must be a UUID'', []), u)
         | Some tenant \<Rightarrow>
           (case client \<lparr>uq_method = meth, uq_path = ''/'' @ path, uq_params = dict_del ''_dev_tenant_id'' query, uq_body = body,
                         uq_headers = dev_signed_headers hmac secret hs tenant\<rparr> u of
              (Inl m, u') \<Rightarrow> (Inl m, u')
            | (Inr (status, content, rh), u') \<Rightarrow> (Inr (status, content, headers_without hop_by_hop_response_headers rh), u')))"

subsection \<open>Accounts and their emails\<close>

lemma strip_by_idem: "strip_by p (strip_by p s) = strip_by p s"
proof -
  define t where "t = dropWhile p s"
  define r where "r = rev (dropWhile p (rev t))"
  have at_end: "dropWhile p (rev r) = rev r" by (simp add: r_def dropWhile_idem)
  have "dropWhile p r = r"
  proof (cases r)
    case (Cons c cs)
    obtain q where "rev t = q @ rev r" using takeWhile_dropWhile_id[of p "rev t"] by (metis r_def rev_rev_ident)
    then have "t = r @ rev q" by (metis rev_append rev_rev_ident)
    with Cons have "t \<noteq> []" "hd t = c" by simp_all
    then have "\<not> p c" using hd_dropWhile[of p s] by (simp add: t_def)
    with Cons show ?thesis by simp
  qed simp
  with at_end show ?thesis by (simp add: strip_by_def r_def t_def)
qed

lemma is_space_lower: "is_space (char_lower c) = is_space c"
  by (auto simp: is_space_def char_lower_def Let_def)

lemma strip_lower: "py_strip (py_lower s) = py_lower (py_strip s)"
  by (simp add: strip_by_def dropWhile_map comp_def is_space_lower rev_map)

lemma normalized_email_idem [simp]: "normalized_email (normalized_email e) = normalized_email e"
  by (simp add: normalized_email_def strip_lower strip_by_idem comp_def)

text \<open>A signup, of anybody, with a fresh id.\<close>

inductive account_step :: "account_store \<Rightarrow> account_store \<Rightarrow> bool" where
  Created: "dict_get (as_by_id st) new_id = None \<Longrightarrow>
    account_step st (snd (account_create kdf salt new_id email name password tenant st))"

inductive_cases account_stepE: "account_step st st'"

definition no_accounts :: account_store where
  "no_accounts = \<lparr>as_by_id = [], as_id_by_email = []\<rparr>"

definition account_inv :: "account_store \<Rightarrow> bool" where
  "account_inv st \<longleftrightarrow>
     (\<forall>i a. dict_get (as_by_id st) i = Some a \<longrightarrow>
        da_id a = i \<and> normalized_email (da_email a) = da_email a \<and> dict_get (as_id_by_email st) (da_email a) = Some i)
     \<and> (\<forall>e i. dict_get (as_id_by_email st) e = Some i \<longrightarrow> (\<exists>a. dict_get (as_by_id st) i = Some a \<and> da_email a = e))"

lemma account_inv_step:
  assumes "account_step st st'" and "account_inv st"
  shows "account_inv st'"
  using assms(1)
proof (rule account_stepE)
  fix new_id kdf salt email name password tenant
  let ?n = "normalized_email email"
  assume st': "st' = snd (account_create kdf salt new_id email name password tenant st)" and new: "dict_get (as_by_id st) new_id = None"
  have inv: "dict_get (as_by_id st) i = Some a \<Longrightarrow> da_id a = i \<and> normalized_email (da_email a) = da_email a \<and> dict_get (as_id_by_email st) (da_email a) = Some i"
      "dict_get (as_id_by_email st) e = Some i \<Longrightarrow> \<exists>a. dict_get (as_by_id st) i = Some a \<and> da_email a = e" for i a e
    using assms(2) by (simp_all add: account_inv_def)
  show "account_inv st'"
  proof (cases "dict_get (as_id_by_email st) ?n")
    case None
    have "da_email a \<noteq> ?n" if "dict_get (as_by_id st) i = Some a" for i a using inv(1)[OF that] None by auto
    moreover have "dict_get (as_id_by_email st) e \<noteq> Some new_id" for e using inv(2)[of e new_id] new by auto
    ultimately show ?thesis using None inv by (auto simp: st' account_create_def Let_def account_inv_def)
  qed (use assms(2) in \<open>simp add: st' account_create_def Let_def\<close>)
qed

lemma account_inv_steps: "account_step\<^sup>*\<^sup>* st st' \<Longrightarrow> account_inv st \<Longrightarrow> account_inv st'"
  by (induction rule: rtranclp_induct) (auto dest: account_inv_step)

lemma account_inv_empty: "account_inv no_accounts"
  by (simp add: account_inv_def no_accounts_def)

text \<open>An account once created stays as it is, and so does its email entry.\<close>

lemma account_step_keeps:
  assumes "account_step st st'"
  shows "dict_get (as_by_id st) i = Some a \<Longrightarrow> dict_get (as_by_id st') i = Some a"
    and "dict_get (as_id_by_email st) e = Some i \<Longrightarrow> dict_get (as_id_by_email st') e = Some i"
  using assms by (auto elim!: account_stepE simp: account_create_def Let_def)

lemma find_by_email_kept:
  assumes "account_step\<^sup>*\<^sup>* st st'"
  shows "find_by_email st e = Some a \<Longrightarrow> find_by_email st' e = Some a"
  using assms
proof (induction rule: rtranclp_induct)
  case (step y z)
  then obtain i where "dict_get (as_id_by_email y) (normalized_email e) = Some i" "dict_get (as_by_id y) i = Some a"
    by (auto simp: find_by_email_def split: option.splits)
  then have "dict_get (as_id_by_email z) (normalized_email e) = Some i" "dict_get (as_by_id z) i = Some a"
    using account_step_keeps[OF step(2)] by blast+
  then show ?case by (simp add: find_by_email_def)
qed

text \<open>
  The account store stays well formed over every sequence of signups: each account is filed
  under its own id, its email in any spelling (case, surrounding blanks) finds it, and no other
  driver has the same email.
\<close>

theorem accounts_well_formed:
  assumes "account_step\<^sup>*\<^sup>* no_accounts st" and "account_get st i = Some a"
  shows "da_id a = i \<and> (\<forall>email. normalized_email email = da_email a \<longrightarrow> find_by_email st email = Some a)
    \<and> (\<forall>j b. account_get st j = Some b \<and> da_email b = da_email a \<longrightarrow> j = i)"
proof (intro conjI allI impI)
  have inv: "account_inv st" using account_inv_steps[OF assms(1) account_inv_empty] .
  have i: "dict_get (as_id_by_email st) (da_email a) = Some i"
    using assms(2) inv by (simp add: account_inv_def account_get_def)
  show "da_id a = i" using assms(2) inv by (simp add: account_inv_def account_get_def)
  show "find_by_email st email = Some a" if "normalized_email email = da_email a" for email
    using that i assms(2) by (simp add: find_by_email_def account_get_def)
  show "j = i" if "account_get st j = Some b \<and> da_email b = da_email a" for j b
  proof -
    have "dict_get (as_id_by_email st) (da_email b) = Some j"
      using that inv unfolding account_inv_def account_get_def by blast
    with i that show ?thesis by simp
  qed
qed

definition one_account :: account_store where
  "one_account = snd (account_create (\<lambda>p s. p) ''salt'' 5 '' Ann@X.io '' ''Ann'' ''pw'' 1 no_accounts)"

lemma one_account_reached: "account_step\<^sup>*\<^sup>* no_accounts one_account"
  unfolding one_account_def by (intro r_into_rtranclp account_step.Created) (simp add: no_accounts_def)

lemma normalized_ann: "normalized_email '' Ann@X.io '' = ''ann@x.io''" "normalized_email ''ANN@x.io'' = ''ann@x.io''"
  by code_simp+

theorem accounts_well_formed_witness:
  "\<exists>a. find_by_email one_account ''ANN@x.io'' = Some a \<and> da_id a = 5"
proof -
  obtain a where a: "account_get one_account 5 = Some a" "da_email a = ''ann@x.io''"
    by (simp add: one_account_def account_create_def no_accounts_def account_get_def Let_def normalized_ann)
  from accounts_well_formed[OF one_account_reached a(1)] a(2) normalized_ann show ?thesis by auto
qed

subsection \<open>Signing up and logging in\<close>

lemma verify_hash: "verify_credential kdf presented (hash_credential kdf salt secret) = Inr (kdf presented salt = kdf secret salt)"
  by (simp add: verify_credential_def split_hash hex_is_ascii set_bytes_hex)

text \<open>
  Whoever signs up can log in, and nobody else can: after a signup and any further signups, a
  login with the email in any spelling succeeds exactly when the password derives the stored
  key, with an access token for the new driver in the platform tenant; a wrong password
  is a 401 that changes nothing; and signing up again with that email is a 409 that changes
  nothing.
\<close>

theorem signup_then_login:
  assumes "route_signup kdf cfg d salt new_id email name password (st, rs) = (Inr sess, st1, rs1)"
    and "account_step\<^sup>*\<^sup>* st1 st2" and "check_email email2" and "normalized_email email2 = normalized_email email"
  shows "(kdf presented salt = kdf password salt \<longrightarrow>
            (\<exists>s. fst (route_login kdf cfg d2 email2 presented (st2, rs2)) = Inr s
               \<and> au_access s = access_token_for cfg d2 (str_uuid new_id) PLATFORM_TENANT_ID))
    \<and> (kdf presented salt \<noteq> kdf password salt \<longrightarrow>
          route_login kdf cfg d2 email2 presented (st2, rs2) = (Inl (HTTPException 401 ''invalid email or password''), st2, rs2))
    \<and> route_signup kdf cfg d2 salt2 new_id2 email2 name2 presented (st2, rs2) = (Inl (HTTPException 409 ''email already registered''), st2, rs2)"
proof -
  let ?a = "\<lparr>da_id = new_id, da_tenant = PLATFORM_TENANT_ID, da_email = normalized_email email, da_full_name = name,
    da_hash = hash_credential kdf salt password\<rparr>"
  have "find_by_email st1 email2 = Some ?a"
    using assms(1,4) by (auto simp: route_signup_def account_create_def Let_def find_by_email_def split: if_splits prod.splits)
  then have f: "find_by_email st2 email2 = Some ?a" by (rule find_by_email_kept[OF assms(2)])
  then have e: "dict_get (as_id_by_email st2) (normalized_email email2) \<noteq> None" by (auto simp: find_by_email_def split: option.splits)
  have v: "verify_password kdf ?a presented = Inr (kdf presented salt = kdf password salt)"
    by (simp add: verify_password_def verify_hash)
  show ?thesis
    using f e v assms(3)
    by (simp add: route_login_def route_signup_def account_create_def Let_def issue_session_def case_prod_beta split: bool.split)
qed

theorem signup_then_login_witness:
  "\<exists>s. fst (route_login (\<lambda>p s. p) sample_config (sample_draw ''t2'') ''ANN@x.io'' ''pw''
      (snd (route_signup (\<lambda>p s. p) sample_config (sample_draw ''t1'') ''salt'' 5 '' Ann@X.io '' ''Ann'' ''pw'' (no_accounts, sample_store)))) = Inr s"
proof -
  have "\<exists>sess. fst (route_signup (\<lambda>p s. p) sample_config (sample_draw ''t1'') ''salt'' 5 '' Ann@X.io '' ''Ann'' ''pw'' (no_accounts, sample_store)) = Inr sess"
    by (simp add: route_signup_def check_email_def account_create_def Let_def no_accounts_def split: prod.split)
  then obtain sess st1 rs1 where s: "route_signup (\<lambda>p s. p) sample_config (sample_draw ''t1'') ''salt'' 5 '' Ann@X.io '' ''Ann'' ''pw'' (no_accounts, sample_store)
      = (Inr sess, st1, rs1)" by (metis prod.collapse)
  from signup_then_login[OF s rtranclp.rtrancl_refl, of "''ANN@x.io''" "''pw''" "sample_draw ''t2''" rs1 "[]" 0 "[]"] show ?thesis
    unfolding s by (auto simp: check_email_def normalized_ann)
qed

subsection \<open>From the token to the identity\<close>

text \<open>
  What PyJWT promises of a token it signed and that has not expired at \<open>now\<close>: decoding it
  returns an object with the claims that were encoded.
\<close>

definition jwt_returns_claims :: "(access_claims \<Rightarrow> string) \<Rightarrow> (string \<Rightarrow> string + json) \<Rightarrow> datetime \<Rightarrow> bool" where
  "jwt_returns_claims encode decode now \<longleftrightarrow>
     (\<forall>c. now < ac_exp c \<longrightarrow> (\<exists>p. decode (encode c) = Inr p \<and> jitem p ''sub'' = Inr (JStr (ac_sub c)) \<and> jitem p ''tenant_id'' = Inr (JStr (ac_tenant c))))"

lemma bearer_prefix: "take 7 (''Bearer '' @ t) = ''Bearer ''" "drop 7 (''Bearer '' @ t) = t"
  by simp_all

lemma identity_of_token:
  assumes "jwt_returns_claims (gc_jwt cfg) jwt_decode now" and "now < gd_now d + gc_ttl cfg * us_per_second"
  shows "require_driver_identity jwt_decode (Some (''Bearer '' @ access_token_for cfg d (str_uuid driver) tenant))
     = Inr \<lparr>di_driver = driver, di_tenant = tenant\<rparr>"
proof -
  obtain p where "jwt_decode (access_token_for cfg d (str_uuid driver) tenant) = Inr p"
      "jitem p ''sub'' = Inr (JStr (str_uuid driver))" "jitem p ''tenant_id'' = Inr (JStr (str_uuid tenant))"
    using assms(2) assms(1)[unfolded jwt_returns_claims_def, rule_format,
        of "\<lparr>ac_sub = str_uuid driver, ac_tenant = str_uuid tenant, ac_iat = gd_now d,
          ac_exp = gd_now d + gc_ttl cfg * us_per_second, ac_jti = str_uuid (gd_jti d)\<rparr>"]
    by (auto simp: access_token_for_def create_access_token_def)
  then show ?thesis
    unfolding require_driver_identity_def option.case bearer_prefix by (simp add: decode_access_token_def identity_of_payload_def)
qed

text \<open>
  C39: The public authorization endpoint hands out any driver's identity. It asks for no proof of who the
  caller is, so anyone obtains a code for any subject and tenant, redeems it with a verifier of their own
  choosing, and the resulting access token is accepted by the driver routes as that driver:
  the tokens of the gateway and of the driver login are signed with the same key and carry the
  same claims.
\<close>

theorem oauth_token_impersonates_any_driver:
  assumes pyjwt: "jwt_returns_claims (gc_jwt cfg) jwt_decode now"
    and "now < gd_now d + gc_ttl cfg * us_per_second"
    and "verifier \<noteq> []" and "compute_code_challenge (gc_sha cfg) (gc_b64 cfg) verifier = Inr challenge" and "is_ascii challenge"
    and "fst (enforce_rate_limit cfg d tenant s) = Inr ()"
    and "q = \<lparr>tq_grant = ''authorization_code'', tq_code = Some (str_uuid code), tq_verifier = Some verifier, tq_refresh = None\<rparr>"
  shows "\<exists>resp. fst (route_token cfg d q (snd (route_authorize code (str_uuid driver) tenant challenge s))) = Inr resp
     \<and> require_driver_identity jwt_decode (Some (''Bearer '' @ tp_access resp)) = Inr \<lparr>di_driver = driver, di_tenant = tenant\<rparr>"
proof -
  define s1 where "s1 = snd (route_authorize code (str_uuid driver) tenant challenge s)"
  have pending: "dict_get (gs_codes s1) (str_uuid code) = Some \<lparr>pa_challenge = challenge, pa_subject = str_uuid driver, pa_tenant = tenant\<rparr>"
    by (simp add: s1_def route_authorize_def code_create_def)
  have limiter: "fst (enforce_rate_limit cfg d tenant (s1\<lparr>gs_codes := c\<rparr>)) = Inr ()" for c
    using assms(6) by (simp add: s1_def route_authorize_def code_create_def enforce_rate_limit_def case_prod_beta split: if_splits)
  have "verify_code_verifier (gc_sha cfg) (gc_b64 cfg) verifier challenge = Inr True"
    using assms(4,5) by (simp add: verify_code_verifier_def compare_digest_def)
  then have "route_token cfg d q s1 = issue_pair cfg d (str_uuid driver) tenant (s1\<lparr>gs_codes := dict_del (str_uuid code) (gs_codes s1)\<rparr>)"
    using pending assms(3) by (simp add: assms(7) route_token_def token_by_code_def falsy_def code_consume_def)
  then have "\<exists>resp. fst (route_token cfg d q s1) = Inr resp \<and> tp_access resp = access_token_for cfg d (str_uuid driver) tenant"
    using limiter by (auto simp: issue_pair_def case_prod_beta split: sum.split)
  then show ?thesis using identity_of_token[OF assms(1,2)] unfolding s1_def by metis
qed

text \<open>A codec that satisfies the law: the claims in hexadecimal, separated by dots.\<close>

definition sample_jwt :: "access_claims \<Rightarrow> string" where
  "sample_jwt c = bytes_hex (ac_sub c) @ CHR ''.'' # bytes_hex (ac_tenant c)"

definition sample_jwt_decode :: "string \<Rightarrow> string + json" where
  "sample_jwt_decode t =
     (case split_on (CHR ''.'') t of
        [a, b] \<Rightarrow> (case (bytes_fromhex a, bytes_fromhex b) of
          (Some s, Some u) \<Rightarrow> Inr (JObj [(''sub'', JStr s), (''tenant_id'', JStr u)])
        | _ \<Rightarrow> Inl ''Not enough segments'')
      | _ \<Rightarrow> Inl ''Not enough segments'')"

lemma hex_no_dot: "CHR ''.'' \<notin> set (bytes_hex s)"
  using set_bytes_hex[of s] hex_chars_other[of "CHR ''.''"] by auto

lemma sample_jwt_law: "jwt_returns_claims sample_jwt sample_jwt_decode now"
  by (simp add: jwt_returns_claims_def sample_jwt_def sample_jwt_decode_def hex_no_dot jitem_def)

definition jwt_config :: gateway_config where
  "jwt_config = sample_config\<lparr>gc_jwt := sample_jwt\<rparr>"

definition code_request_7 :: token_request where
  "code_request_7 = \<lparr>tq_grant = ''authorization_code'', tq_code = Some (str_uuid 7), tq_verifier = Some ''vv'', tq_refresh = None\<rparr>"

theorem oauth_token_impersonates_any_driver_witness:
  "\<exists>resp. fst (route_token jwt_config (sample_draw ''t1'') code_request_7 (snd (route_authorize 7 (str_uuid 42) 3 ''vv'' (sample_gateway [])))) = Inr resp
     \<and> require_driver_identity sample_jwt_decode (Some (''Bearer '' @ tp_access resp)) = Inr \<lparr>di_driver = 42, di_tenant = 3\<rparr>"
  by (rule oauth_token_impersonates_any_driver[where now = 0 and verifier = "''vv''"])
    (simp_all add: jwt_config_def sample_config_def sample_draw_def sample_gateway_def sample_jwt_law compute_code_challenge_def
      enforce_rate_limit_def allow_def dict_get_default_def Let_def code_request_7_def)

subsection \<open>What a forwarder may do\<close>

text \<open>
  The request a driver's call turns into: the internal middlewares accept it in the tenant of
  the token, and it names the token's driver and no other: in the query, in the path, or in the field of
  the body the upstream route reads.
\<close>

definition names_driver :: "(string \<Rightarrow> py_error + json) \<Rightarrow> string \<Rightarrow> uuid \<Rightarrow> upstream_request \<Rightarrow> bool" where
  "names_driver json_loads key driver rq \<longleftrightarrow>
     uq_params rq = [(key, str_uuid driver)]
     \<or> (\<exists>what. uq_path rq = ''/wallet/'' @ str_uuid driver @ ''/'' @ what)
     \<or> (\<exists>p. json_loads (uq_body rq) = Inr p \<and> jitem p key = Inr (JStr (str_uuid driver)))"

lemma jfield_put: "jfield (map (\<lambda>(k, w). if k = key then (k, v) else (k, w)) kvs) key = (if dict_get kvs key \<noteq> None then Some v else None)"
  by (induction kvs) (auto split: option.splits)

lemma json_put_item:
  assumes "json_put key v payload = Inr p"
  shows "jitem p key = Inr (JStr v)"
proof (cases payload)
  case (JObj kvs)
  show ?thesis
  proof (cases "dict_get kvs key")
    case None
    then show ?thesis using assms JObj by (auto simp: json_put_def jitem_def jfield_def)
  next
    case (Some w)
    then show ?thesis using assms JObj jfield_put[of key "JStr v" kvs] by (auto simp: json_put_def jitem_def)
  qed
qed (use assms in \<open>simp_all add: json_put_def\<close>)

lemma body_with_item:
  assumes "\<forall>j. json_loads (json_dumps j) = Inr j" and "body_with json_loads json_dumps key v raw = Inr body"
  shows "\<exists>p. json_loads body = Inr p \<and> jitem p key = Inr (JStr v)"
  using assms json_put_item by (auto simp: body_with_def rbind_Inr)

text \<open>The middlewares of the internal application accept the signed headers of a forwarder.\<close>

lemma signed_headers_accepted:
  assumes "\<forall>hs k. hget hs k = map_of hs (py_lower k)" and "path \<notin> exempt_paths"
    and "is_ascii (sign_tenant_id hmac secret (str_uuid tenant))" and "sign_tenant_id hmac secret (str_uuid tenant) \<noteq> []"
    and "hs = signed_tenant_headers hmac secret tenant \<or> hs = (''content-type'', ''application/json'') # signed_tenant_headers hmac secret tenant"
  shows "internal_request hmac secret hget path hs = Forward (Some tenant)"
proof -
  have "py_lower ''content-type'' = ''content-type''" "py_lower ''x-gateway-signature'' = ''x-gateway-signature''" by code_simp+
  then have low: "\<forall>p \<in> set hs. py_lower (fst p) = fst p" using assms(5) py_lower_tenant by (auto simp: signed_tenant_headers_def)
  have "header_dict hs ''x-tenant-id'' = Some (str_uuid tenant)" "hget hs ''x-tenant-id'' = Some (str_uuid tenant)"
      "header_dict hs ''x-gateway-signature'' = Some (sign_tenant_id hmac secret (str_uuid tenant))"
    using assms(5) unfolding header_dict_lower[OF low] spec[OF spec[OF assms(1)], of hs "''x-tenant-id''"] py_lower_tenant
    by (auto simp: signed_tenant_headers_def)
  then show ?thesis using internal_request_forward[OF assms(2)] assms(3,4) by simp
qed

lemma not_exempt_slash: "CHR ''/'' \<in> set (tl path) \<Longrightarrow> path \<notin> exempt_paths"
  by (auto simp: exempt_paths_def)

text \<open>
  The forwarders share one contract with the internal application: whatever request they send
  is accepted there in the tenant of the verified token.
\<close>

definition accepted_as :: "(string \<Rightarrow> string \<Rightarrow> string) \<Rightarrow> string \<Rightarrow> (headers \<Rightarrow> string \<Rightarrow> string option) \<Rightarrow> driver_identity \<Rightarrow> upstream_request \<Rightarrow> bool" where
  "accepted_as hmac secret hget ident rq \<longleftrightarrow> internal_request hmac secret hget (uq_path rq) (uq_headers rq) = Forward (Some (di_tenant ident))"

text \<open>A forwarder's result: nothing was sent, or one accepted request that names the driver was, and its answer is relayed.\<close>

definition sends_only ::
  "(upstream_request \<Rightarrow> bool) \<Rightarrow> 'u client \<Rightarrow> 'u \<Rightarrow> (forward_error + http_response) \<times> 'u \<Rightarrow> bool" where
  "sends_only ok client u x \<longleftrightarrow> (snd x = u \<and> (\<forall>r. fst x = Inr r \<longrightarrow> hr_status r = 404)) \<or> (\<exists>rq. ok rq \<and> x = relay (client rq u))"

lemma sends_one: "ok rq \<Longrightarrow> sends_only ok client u (relay (client rq u))"
  by (auto simp: sends_only_def)

lemma sends_none: "sends_only ok client u (Inl e, u)"
  by (simp add: sends_only_def)


text \<open>
  A codec that meets the law: JSON values are countable, so each has a number, written in unary.
\<close>

instance pyfloat :: countable
  by countable_datatype

instance json :: countable
  by countable_datatype

definition unary_dumps :: "json \<Rightarrow> string" where
  "unary_dumps j = replicate (to_nat j) (CHR ''1'')"

definition unary_loads :: "string \<Rightarrow> py_error + json" where
  "unary_loads s = Inr (from_nat (length s))"

lemma unary_codec: "\<forall>j. unary_loads (unary_dumps j) = Inr j"
  by (simp add: unary_loads_def unary_dumps_def)

definition echo_client :: "upstream_request list client" where
  "echo_client rq u = (Inr \<lparr>hr_status = 200, hr_content = [], hr_media = None\<rparr>, rq # u)"

definition sample_identity :: driver_identity where
  "sample_identity = \<lparr>di_driver = 42, di_tenant = 3\<rparr>"


end
