(* ===== verification/Fleet_Teams.thy ===== *)
theory Fleet_Teams
  imports Gateway_Auth
begin

text \<open>
  Teams: membership (\<open>fleet/team_membership.py\<close>), invite codes (\<open>fleet/team_invites.py\<close>), the
  redemption flow (\<open>fleet/team_join.py\<close>) and the visibility of team chargers
  (\<open>fleet/charger_visibility.py\<close>). The redemption flow is given twice: as one function, and as
  the steps between the suspension points of concurrent redemptions, with the per-code
  \<open>asyncio.Lock\<close> as the task that holds it.
\<close>

subsection \<open>Membership\<close>

definition ADMIN :: string where "ADMIN = ''admin''"
definition MEMBER :: string where "MEMBER = ''member''"

record membership =
  mb_driver :: uuid
  mb_team :: uuid
  mb_role :: string

definition membership_create :: "uuid \<Rightarrow> uuid \<Rightarrow> string \<Rightarrow> membership list \<Rightarrow> membership \<times> membership list" where
  "membership_create driver team role ms =
     (let m = \<lparr>mb_driver = driver, mb_team = team, mb_role = role\<rparr> in (m, ms @ [m]))"

definition list_for_team :: "membership list \<Rightarrow> uuid \<Rightarrow> membership list" where
  "list_for_team ms team = filter (\<lambda>m. mb_team m = team) ms"

definition list_team_ids_for_driver :: "membership list \<Rightarrow> uuid \<Rightarrow> uuid set" where
  "list_team_ids_for_driver ms driver = set (map mb_team (filter (\<lambda>m. mb_driver m = driver) ms))"

subsection \<open>Invites\<close>

definition invite_code_alphabet :: string where
  "invite_code_alphabet = ''ABCDEFGHIJKLMNOPQRSTUVWXYZ0123456789''"

definition invite_code_length :: nat where
  "invite_code_length = 8"

text \<open>\<open>draws\<close> are the indices \<open>secrets.choice\<close> draws, each below the length of the alphabet.\<close>

definition generate_invite_code :: "nat list \<Rightarrow> string" where
  "generate_invite_code draws = map (\<lambda>i. invite_code_alphabet ! i) (take invite_code_length draws)"

record team_invite =
  ti_code :: string
  ti_team :: uuid
  ti_role :: string
  ti_max :: int
  ti_used :: int
  ti_expires :: datetime

type_synonym invite_store = "(string, team_invite) pydict"

definition invite_add :: "team_invite \<Rightarrow> invite_store \<Rightarrow> invite_store" where
  "invite_add i st = dict_set (ti_code i) i st"

definition invite_get :: "invite_store \<Rightarrow> string \<Rightarrow> team_invite option" where
  "invite_get st code = dict_get st code"

text \<open>The critical section of \<open>try_increment_used_count\<close>, after its suspension.\<close>

definition try_increment_used_count :: "string \<Rightarrow> invite_store \<Rightarrow> bool \<times> invite_store" where
  "try_increment_used_count code st =
     (case dict_get st code of
        None \<Rightarrow> (False, st)
      | Some i \<Rightarrow> if ti_max i \<le> ti_used i then (False, st) else (True, dict_set code (i\<lparr>ti_used := ti_used i + 1\<rparr>) st))"

subsection \<open>Redeeming an invite\<close>

datatype join_error = InviteRedemptionError string

record join_service =
  js_limiter :: limiter
  js_invites :: invite_store
  js_members :: "membership list"
  js_max_attempts :: int
  js_window :: int

definition join_gate :: "pyfloat \<Rightarrow> string \<Rightarrow> join_service \<Rightarrow> bool \<times> join_service" where
  "join_gate tick requester s =
     (case allow tick (''team-join:'' @ requester) (js_max_attempts s) (js_window s) (js_limiter s) of (ok, l) \<Rightarrow> (ok, s\<lparr>js_limiter := l\<rparr>))"

definition join_lookup :: "string \<Rightarrow> datetime \<Rightarrow> join_service \<Rightarrow> join_error + team_invite" where
  "join_lookup code now s =
     (case invite_get (js_invites s) code of
        None \<Rightarrow> Inl (InviteRedemptionError ''invalid invite code'')
      | Some i \<Rightarrow> if ti_expires i \<le> now then Inl (InviteRedemptionError ''invite code has expired'') else Inr i)"

definition join_claim :: "string \<Rightarrow> join_service \<Rightarrow> bool \<times> join_service" where
  "join_claim code s = (case try_increment_used_count code (js_invites s) of (ok, st) \<Rightarrow> (ok, s\<lparr>js_invites := st\<rparr>))"

definition join_create :: "uuid \<Rightarrow> uuid \<Rightarrow> string \<Rightarrow> join_service \<Rightarrow> membership \<times> join_service" where
  "join_create driver team role s = (case membership_create driver team role (js_members s) of (m, ms) \<Rightarrow> (m, s\<lparr>js_members := ms\<rparr>))"

definition team_redeem ::
  "pyfloat \<Rightarrow> uuid \<Rightarrow> string \<Rightarrow> string \<Rightarrow> datetime \<Rightarrow> join_service \<Rightarrow> (join_error + membership) \<times> join_service" where
  "team_redeem tick driver code requester now s =
     (case join_gate tick requester s of
        (False, s1) \<Rightarrow> (Inl (InviteRedemptionError ''too many redemption attempts; try again later''), s1)
      | (True, s1) \<Rightarrow>
        (case join_lookup code now s1 of
           Inl e \<Rightarrow> (Inl e, s1)
         | Inr i \<Rightarrow>
           (case join_claim code s1 of
              (False, s2) \<Rightarrow> (Inl (InviteRedemptionError ''invite code has been fully redeemed''), s2)
            | (True, s2) \<Rightarrow> (case join_create driver (ti_team i) (ti_role i) s2 of (m, s3) \<Rightarrow> (Inr m, s3)))))"

subsection \<open>Concurrent redemptions\<close>

text \<open>Where a redemption stands; it keeps the invite it looked up.\<close>

datatype join_pc =
    Asking
  | Looking
  | Claiming team_invite
  | Holding team_invite
  | Joining team_invite
  | Joined membership
  | Refused join_error

record join_task =
  tk_driver :: uuid
  tk_code :: string
  tk_requester :: string
  tk_now :: datetime
  tk_pc :: join_pc

record join_system =
  jy_service :: join_service
  jy_holder :: "string \<Rightarrow> nat option"
  jy_tasks :: "join_task list"

text \<open>The next step of a redemption, \<open>None\<close> when it has ended; taking the lock is the system's.\<close>

definition task_step :: "pyfloat \<Rightarrow> join_task \<Rightarrow> join_service \<Rightarrow> (join_pc \<times> join_service) option" where
  "task_step tick t s =
     (case tk_pc t of
        Asking \<Rightarrow> (case join_gate tick (tk_requester t) s of (ok, s') \<Rightarrow>
          Some (if ok then Looking else Refused (InviteRedemptionError ''too many redemption attempts; try again later''), s'))
      | Looking \<Rightarrow> Some (case join_lookup (tk_code t) (tk_now t) s of Inl e \<Rightarrow> Refused e | Inr i \<Rightarrow> Claiming i, s)
      | Claiming i \<Rightarrow> Some (Holding i, s)
      | Holding i \<Rightarrow> (case join_claim (tk_code t) s of (ok, s') \<Rightarrow>
          Some (if ok then Joining i else Refused (InviteRedemptionError ''invite code has been fully redeemed''), s'))
      | Joining i \<Rightarrow> (case join_create (tk_driver t) (ti_team i) (ti_role i) s of (m, s') \<Rightarrow> Some (Joined m, s'))
      | Joined m \<Rightarrow> None
      | Refused e \<Rightarrow> None)"

definition lock_update :: "nat \<Rightarrow> join_task \<Rightarrow> (string \<Rightarrow> nat option) \<Rightarrow> string \<Rightarrow> nat option" where
  "lock_update k t h =
     (case tk_pc t of Claiming _ \<Rightarrow> h(tk_code t := Some k) | Holding _ \<Rightarrow> h(tk_code t := None) | _ \<Rightarrow> h)"

definition may_run :: "join_task \<Rightarrow> (string \<Rightarrow> nat option) \<Rightarrow> bool" where
  "may_run t h = (case tk_pc t of Claiming _ \<Rightarrow> h (tk_code t) = None | _ \<Rightarrow> True)"

inductive join_trans :: "join_system \<Rightarrow> join_system \<Rightarrow> bool" where
  Run: "k < length (jy_tasks y) \<Longrightarrow> t = jy_tasks y ! k \<Longrightarrow> may_run t (jy_holder y) \<Longrightarrow>
    task_step tick t (jy_service y) = Some (pc, s') \<Longrightarrow>
    join_trans y \<lparr>jy_service = s', jy_holder = lock_update k t (jy_holder y), jy_tasks = (jy_tasks y)[k := t\<lparr>tk_pc := pc\<rparr>]\<rparr>"

inductive_cases join_transE: "join_trans y y'"

text \<open>The state in which the redemptions are about to begin.\<close>

definition join_start :: "join_service \<Rightarrow> join_task list \<Rightarrow> join_system" where
  "join_start s ts = \<lparr>jy_service = s, jy_holder = (\<lambda>_. None), jy_tasks = map (\<lambda>t. t\<lparr>tk_pc := Asking\<rparr>) ts\<rparr>"

subsection \<open>Visibility of chargers\<close>

definition VIS_PUBLIC :: string where "VIS_PUBLIC = ''public''"
definition VIS_TEAM_ONLY :: string where "VIS_TEAM_ONLY = ''team_only''"

record bounding_box =
  bb_min_lat :: pyfloat
  bb_min_lng :: pyfloat
  bb_max_lat :: pyfloat
  bb_max_lng :: pyfloat

definition box_contains :: "bounding_box \<Rightarrow> pyfloat \<Rightarrow> pyfloat \<Rightarrow> bool" where
  "box_contains b lat lng \<longleftrightarrow> fle (bb_min_lat b) lat \<and> fle lat (bb_max_lat b) \<and> fle (bb_min_lng b) lng \<and> fle lng (bb_max_lng b)"

record charger_summary =
  cs_id :: uuid
  cs_visibility :: string
  cs_lat :: pyfloat
  cs_lng :: pyfloat

record charger_access =
  ca_chargers :: "(uuid, charger_summary) pydict"
  ca_teams :: "(uuid, uuid set) pydict"

definition add_charger :: "charger_summary \<Rightarrow> charger_access \<Rightarrow> charger_access" where
  "add_charger c r = r\<lparr>ca_chargers := dict_set (cs_id c) c (ca_chargers r)\<rparr>"

definition grant_team_access :: "uuid \<Rightarrow> uuid \<Rightarrow> charger_access \<Rightarrow> charger_access" where
  "grant_team_access charger team r =
     r\<lparr>ca_teams := dict_set charger (insert team (dict_get_default (ca_teams r) charger {})) (ca_teams r)\<rparr>"

definition access_list_chargers :: "charger_access \<Rightarrow> charger_summary list" where
  "access_list_chargers r = dict_values (ca_chargers r)"

definition get_authorized_team_ids_for_charger :: "charger_access \<Rightarrow> uuid \<Rightarrow> uuid set" where
  "get_authorized_team_ids_for_charger r charger = dict_get_default (ca_teams r) charger {}"

fun visible_loop :: "charger_access \<Rightarrow> uuid set \<Rightarrow> bounding_box option \<Rightarrow> charger_summary list \<Rightarrow> charger_summary list" where
  "visible_loop r teams bbox [] = []"
| "visible_loop r teams bbox (c # cs) =
     (if (case bbox of None \<Rightarrow> False | Some b \<Rightarrow> \<not> box_contains b (cs_lat c) (cs_lng c)) then visible_loop r teams bbox cs
      else if cs_visibility c = VIS_PUBLIC then c # visible_loop r teams bbox cs
      else if get_authorized_team_ids_for_charger r (cs_id c) \<inter> teams \<noteq> {} then c # visible_loop r teams bbox cs
      else visible_loop r teams bbox cs)"

definition query_visible_chargers :: "charger_access \<Rightarrow> membership list \<Rightarrow> uuid \<Rightarrow> bounding_box option \<Rightarrow> charger_summary list" where
  "query_visible_chargers r ms driver bbox = visible_loop r (list_team_ids_for_driver ms driver) bbox (access_list_chargers r)"

subsection \<open>Never more members than places\<close>

fun slot_taken :: "join_pc \<Rightarrow> bool" where
  "slot_taken (Joining _) = True"
| "slot_taken (Joined _) = True"
| "slot_taken _ = False"

fun has_joined :: "join_pc \<Rightarrow> bool" where
  "has_joined (Joined _) = True"
| "has_joined _ = False"

definition claimed :: "string \<Rightarrow> join_task \<Rightarrow> int" where
  "claimed c t = (if tk_code t = c \<and> slot_taken (tk_pc t) then 1 else 0)"

lemma sum_list_map_update:
  assumes "k < length xs"
  shows "(\<Sum>x\<leftarrow>xs[k := v]. f x :: int) = (\<Sum>x\<leftarrow>xs. f x) + f v - f (xs ! k)"
  using assms by (induction xs arbitrary: k) (auto split: nat.split)

text \<open>One step moves the counter of a code exactly when a place of that code is taken.\<close>

lemma task_step_claims:
  assumes "task_step tick t s = Some (pc, s')" and "dict_get (js_invites s) c = Some i"
  shows "\<exists>i'. dict_get (js_invites s') c = Some i' \<and> ti_max i' = ti_max i \<and> (ti_used i \<le> ti_max i \<longrightarrow> ti_used i' \<le> ti_max i')
    \<and> ti_used i' = ti_used i + claimed c (t\<lparr>tk_pc := pc\<rparr>) - claimed c t"
  using assms
  by (auto simp: task_step_def join_gate_def join_lookup_def join_claim_def join_create_def membership_create_def
      try_increment_used_count_def claimed_def Let_def split: join_pc.splits prod.splits sum.splits option.splits if_splits)

definition places_inv :: "string \<Rightarrow> team_invite \<Rightarrow> join_system \<Rightarrow> bool" where
  "places_inv c i0 y \<longleftrightarrow> (\<exists>i. dict_get (js_invites (jy_service y)) c = Some i \<and> ti_max i = ti_max i0
     \<and> (ti_used i0 \<le> ti_max i0 \<longrightarrow> ti_used i \<le> ti_max i) \<and> ti_used i = ti_used i0 + (\<Sum>t\<leftarrow>jy_tasks y. claimed c t))"

lemma places_inv_step:
  assumes "join_trans y y'" and "places_inv c i0 y"
  shows "places_inv c i0 y'"
  using assms(1)
proof cases
  case (Run k t tick pc s')
  note y' = Run(1) and k = Run(2) and t = Run(3) and st = Run(5)
  obtain i where i: "dict_get (js_invites (jy_service y)) c = Some i" "ti_max i = ti_max i0"
      "ti_used i0 \<le> ti_max i0 \<longrightarrow> ti_used i \<le> ti_max i" "ti_used i = ti_used i0 + (\<Sum>t\<leftarrow>jy_tasks y. claimed c t)"
    using assms(2) by (auto simp: places_inv_def)
  from task_step_claims[OF st i(1)] i(2-4) show ?thesis
    unfolding places_inv_def y' by (auto simp: sum_list_map_update[OF k] t)
qed

lemma places_inv_steps: "join_trans\<^sup>*\<^sup>* y y' \<Longrightarrow> places_inv c i0 y \<Longrightarrow> places_inv c i0 y'"
  by (induction rule: rtranclp_induct) (auto dest: places_inv_step)

lemma places_inv_start:
  assumes "dict_get (js_invites s) c = Some i0"
  shows "places_inv c i0 (join_start s ts)"
proof -
  have "(\<Sum>t\<leftarrow>map (\<lambda>t. t\<lparr>tk_pc := Asking\<rparr>) ts. claimed c t) = 0" by (induction ts) (simp_all add: claimed_def)
  with assms show ?thesis by (simp add: places_inv_def join_start_def)
qed

lemma joined_le_claimed:
  "int (length (filter (\<lambda>t. tk_code t = c \<and> has_joined (tk_pc t)) ts)) \<le> (\<Sum>t\<leftarrow>ts. claimed c t)"
proof (induction ts)
  case (Cons t ts)
  then show ?case by (cases "tk_pc t") (auto simp: claimed_def)
qed simp

text \<open>
  C29: An invite is never over-redeemed, however many redemptions run at once and however they are
  interleaved: at every moment the members who joined through a code, together with the uses it
  had before, are at most its \<open>max_uses\<close>, and the counter covers them.
\<close>

theorem invite_never_over_redeemed:
  assumes "dict_get (js_invites s) c = Some i0" and "ti_used i0 \<le> ti_max i0" and "join_trans\<^sup>*\<^sup>* (join_start s ts) y"
  shows "\<exists>i. dict_get (js_invites (jy_service y)) c = Some i \<and> ti_max i = ti_max i0 \<and> ti_used i \<le> ti_max i
     \<and> ti_used i0 + int (length (filter (\<lambda>t. tk_code t = c \<and> has_joined (tk_pc t)) (jy_tasks y))) \<le> ti_used i"
  using places_inv_steps[OF assms(3) places_inv_start[OF assms(1)]] assms(2) joined_le_claimed[of c "jy_tasks y"]
  by (auto simp: places_inv_def)

subsection \<open>Every redemption ends\<close>

fun steps_left :: "join_pc \<Rightarrow> nat" where
  "steps_left Asking = 5"
| "steps_left Looking = 4"
| "steps_left (Claiming _) = 3"
| "steps_left (Holding _) = 2"
| "steps_left (Joining _) = 1"
| "steps_left _ = 0"

definition work_left :: "join_system \<Rightarrow> nat" where
  "work_left y = (\<Sum>t\<leftarrow>jy_tasks y. steps_left (tk_pc t))"

definition holder_inv :: "join_system \<Rightarrow> bool" where
  "holder_inv y \<longleftrightarrow> (\<forall>c k. jy_holder y c = Some k \<longrightarrow>
     k < length (jy_tasks y) \<and> tk_code (jy_tasks y ! k) = c \<and> (\<exists>i. tk_pc (jy_tasks y ! k) = Holding i))"

lemma task_step_less:
  "task_step tick t s = Some (pc, s') \<Longrightarrow> steps_left pc < steps_left (tk_pc t)"
  by (auto simp: task_step_def split: join_pc.splits prod.splits sum.splits if_splits)

lemma task_step_pc:
  assumes "task_step tick t s = Some (pc, s')" and "tk_pc t = Claiming i"
  shows "pc = Holding i"
  using assms by (simp add: task_step_def)

lemma sum_list_update_less:
  assumes "k < length xs" and "f v < f (xs ! k)"
  shows "(\<Sum>x\<leftarrow>xs[k := v]. f x :: nat) < (\<Sum>x\<leftarrow>xs. f x)"
  using assms by (induction xs arbitrary: k) (auto split: nat.splits)

lemma work_left_step: "join_trans y y' \<Longrightarrow> work_left y' < work_left y"
  by (erule join_transE) (auto simp: work_left_def intro!: sum_list_update_less dest: task_step_less)

lemma holder_inv_step:
  assumes "join_trans y y'" and "holder_inv y"
  shows "holder_inv y'"
  using assms(1)
proof cases
  case (Run k t tick pc s')
  note y' = Run(1) and k = Run(2) and t = Run(3) and st = Run(5)
  show ?thesis unfolding holder_inv_def
  proof (intro allI impI)
    fix c j
    assume h: "jy_holder y' c = Some j"
    show "j < length (jy_tasks y') \<and> tk_code (jy_tasks y' ! j) = c \<and> (\<exists>i. tk_pc (jy_tasks y' ! j) = Holding i)"
    proof (cases "jy_holder y c = Some j")
      case True
      then have j: "j < length (jy_tasks y)" "tk_code (jy_tasks y ! j) = c" "\<exists>i. tk_pc (jy_tasks y ! j) = Holding i"
        using assms(2) by (auto simp: holder_inv_def)
      moreover have "j \<noteq> k"
        using h j t by (auto simp: y' lock_update_def split: if_splits)
      ultimately show ?thesis by (simp add: y')
    next
      case False
      then obtain i where "tk_pc t = Claiming i" "c = tk_code t" "j = k"
        using h by (auto simp: y' lock_update_def split: join_pc.splits if_splits)
      then show ?thesis using k task_step_pc[OF st] by (simp add: y')
    qed
  qed
qed

lemma task_step_enabled: "0 < steps_left (tk_pc t) \<Longrightarrow> \<exists>pc s'. task_step tick t s = Some (pc, s')"
  by (cases "tk_pc t") (auto simp: task_step_def split: prod.split)

lemma join_progress:
  assumes "holder_inv y" and "t \<in> set (jy_tasks y)" and "0 < steps_left (tk_pc t)"
  shows "\<exists>y'. join_trans y y'"
proof -
  have run: "\<exists>y'. join_trans y y'"
    if "k < length (jy_tasks y)" "may_run (jy_tasks y ! k) (jy_holder y)" "0 < steps_left (tk_pc (jy_tasks y ! k))" for k
    using that task_step_enabled[OF that(3), of undefined "jy_service y"] join_trans.Run[OF that(1) refl that(2)] by blast
  obtain k where k: "k < length (jy_tasks y)" "jy_tasks y ! k = t" using assms(2) by (auto simp: in_set_conv_nth)
  show ?thesis
  proof (cases "may_run t (jy_holder y)")
    case True
    then show ?thesis using run[of k] k assms(3) by simp
  next
    case False
    then obtain j where j: "jy_holder y (tk_code t) = Some j" by (auto simp: may_run_def split: join_pc.splits)
    then obtain i where "j < length (jy_tasks y)" "tk_pc (jy_tasks y ! j) = Holding i"
      using assms(1) by (auto simp: holder_inv_def)
    then show ?thesis using run[of j] by (simp add: may_run_def)
  qed
qed

lemma work_left_start: "work_left (join_start s ts) = 5 * length ts"
  by (induction ts) (simp_all add: work_left_def join_start_def)

lemma join_run_bounds:
  assumes "(join_trans ^^ n) (join_start s ts) y"
  shows "n + work_left y \<le> 5 * length ts \<and> holder_inv y"
  using assms
proof (induction n arbitrary: y)
  case 0
  then show ?case using work_left_start[of s ts] by (auto simp: holder_inv_def join_start_def)
next
  case (Suc n)
  then obtain x where x: "(join_trans ^^ n) (join_start s ts) x" "join_trans x y" by auto
  show ?case using Suc.IH[OF x(1)] work_left_step[OF x(2)] holder_inv_step[OF x(2)] by auto
qed

text \<open>
  C30: Concurrent redemptions neither deadlock on the invite locks nor run forever: from the start,
  no interleaving of \<open>n\<close> redemptions has more than five steps for each of them, and in every state it
  reaches either all redemptions have ended (joined or refused) or one of them can take a
  step.
\<close>

theorem redemptions_terminate:
  assumes "(join_trans ^^ n) (join_start s ts) y"
  shows "n \<le> 5 * length ts \<and> ((\<forall>t \<in> set (jy_tasks y). steps_left (tk_pc t) = 0) \<or> (\<exists>y'. join_trans y y'))"
  using join_run_bounds[OF assms] join_progress[of y] by (metis add_leD1 not_gr_zero)

text \<open>Running a schedule: at each entry a clock reading and the task to run, skipped when it cannot.\<close>

definition exec_join :: "pyfloat \<times> nat \<Rightarrow> join_system \<Rightarrow> join_system" where
  "exec_join e y = (case e of (tick, k) \<Rightarrow>
     if k < length (jy_tasks y) \<and> may_run (jy_tasks y ! k) (jy_holder y)
     then (case task_step tick (jy_tasks y ! k) (jy_service y) of
        None \<Rightarrow> y
      | Some (pc, s') \<Rightarrow> \<lparr>jy_service = s', jy_holder = lock_update k (jy_tasks y ! k) (jy_holder y),
                          jy_tasks = (jy_tasks y)[k := (jy_tasks y ! k)\<lparr>tk_pc := pc\<rparr>]\<rparr>)
     else y)"

lemma exec_join_trans: "join_trans\<^sup>=\<^sup>= y (exec_join e y)"
  by (auto simp: exec_join_def split: prod.split option.split intro: join_trans.Run)

lemma exec_schedule: "join_trans\<^sup>*\<^sup>* y (fold exec_join es y)"
proof (induction es arbitrary: y)
  case (Cons e es)
  have "join_trans\<^sup>*\<^sup>* y (exec_join e y)" using exec_join_trans[of y e] by auto
  with Cons[of "exec_join e y"] show ?case by simp
qed simp

definition one_place :: join_service where
  "one_place = \<lparr>js_limiter = [], js_invites = [(''CODE'', \<lparr>ti_code = ''CODE'', ti_team = 8, ti_role = ''member'', ti_max = 1, ti_used = 0, ti_expires = 100\<rparr>)],
     js_members = [], js_max_attempts = 5, js_window = 60\<rparr>"

definition redeemer :: "uuid \<Rightarrow> join_task" where
  "redeemer u = \<lparr>tk_driver = u, tk_code = ''CODE'', tk_requester = ''ip'', tk_now = 10, tk_pc = Asking\<rparr>"

definition two_redeemers :: join_system where
  "two_redeemers = join_start one_place [redeemer 1, redeemer 2]"

definition alternating :: "(pyfloat \<times> nat) list" where
  "alternating = [(Fin 0, 0), (Fin 0, 1), (Fin 0, 0), (Fin 0, 1), (Fin 0, 0), (Fin 0, 1), (Fin 0, 0), (Fin 0, 1), (Fin 0, 0), (Fin 0, 1)]"

theorem invite_never_over_redeemed_witness:
  "\<exists>i. dict_get (js_invites (jy_service (fold exec_join alternating two_redeemers))) ''CODE'' = Some i \<and> ti_used i \<le> 1
     \<and> int (length (filter (\<lambda>t. tk_code t = ''CODE'' \<and> has_joined (tk_pc t)) (jy_tasks (fold exec_join alternating two_redeemers)))) \<le> ti_used i"
  using invite_never_over_redeemed[OF _ _ exec_schedule[of "join_start one_place [redeemer 1, redeemer 2]" alternating], of "''CODE''"]
  by (auto simp: two_redeemers_def one_place_def)

theorem redemptions_terminate_witness:
  "\<exists>y'. join_trans two_redeemers y'"
  using redemptions_terminate[of 0 one_place "[redeemer 1, redeemer 2]" two_redeemers] by (auto simp: two_redeemers_def join_start_def)

subsection \<open>The steps are the operation\<close>

fun run_task :: "nat \<Rightarrow> pyfloat \<Rightarrow> join_task \<Rightarrow> join_service \<Rightarrow> join_pc \<times> join_service" where
  "run_task 0 tick t s = (tk_pc t, s)"
| "run_task (Suc n) tick t s =
     (case task_step tick t s of None \<Rightarrow> (tk_pc t, s) | Some (pc, s') \<Rightarrow> run_task n tick (t\<lparr>tk_pc := pc\<rparr>) s')"

text \<open>
  The step model is the code's \<open>redeem\<close>: a redemption that runs its five steps without
  interruption ends in the result and the state of \<open>TeamJoinService.redeem\<close>, joined with the membership it returns or refused with the
  error it raises.
\<close>

theorem steps_implement_redeem:
  "run_task 5 tick (t\<lparr>tk_pc := Asking\<rparr>) s =
     (case team_redeem tick (tk_driver t) (tk_code t) (tk_requester t) (tk_now t) s of
        (r, s') \<Rightarrow> (case r of Inl e \<Rightarrow> Refused e | Inr m \<Rightarrow> Joined m, s'))"
proof -
  obtain ok1 s1 where g: "join_gate tick (tk_requester t) s = (ok1, s1)" by fastforce
  show ?thesis
  proof (cases "join_lookup (tk_code t) (tk_now t) s1")
    case (Inl e)
    with g show ?thesis by (cases ok1) (simp_all add: numeral_eq_Suc task_step_def team_redeem_def)
  next
    case (Inr i)
    obtain ok2 s2 where c: "join_claim (tk_code t) s1 = (ok2, s2)" by fastforce
    with g Inr show ?thesis
      by (cases ok1; cases ok2) (simp_all add: numeral_eq_Suc task_step_def team_redeem_def case_prod_beta)
  qed
qed

subsection \<open>Who sees which charger\<close>

lemma visible_loop_filter:
  "visible_loop r teams bbox cs = filter (\<lambda>c. (case bbox of None \<Rightarrow> True | Some b \<Rightarrow> box_contains b (cs_lat c) (cs_lng c))
     \<and> (cs_visibility c = VIS_PUBLIC \<or> get_authorized_team_ids_for_charger r (cs_id c) \<inter> teams \<noteq> {})) cs"
  by (induction cs) (auto split: option.splits)

text \<open>
  A charger that is not public appears in a driver's map exactly when one of the driver's teams has been
  granted access to it (and it lies in the box), and the map keeps the order of the repository; joining a team therefore shows the new member every charger
  granted to that team, and changes nothing for any other driver.
\<close>

theorem joining_reveals_team_chargers:
  assumes "team_redeem tick driver code requester now s = (Inr m, s')"
  shows "set (query_visible_chargers r (js_members s') driver bbox) =
      set (query_visible_chargers r (js_members s) driver bbox)
      \<union> {c \<in> set (access_list_chargers r). (case bbox of None \<Rightarrow> True | Some b \<Rightarrow> box_contains b (cs_lat c) (cs_lng c))
           \<and> mb_team m \<in> get_authorized_team_ids_for_charger r (cs_id c)}
    \<and> (\<forall>other. other \<noteq> driver \<longrightarrow> query_visible_chargers r (js_members s') other bbox = query_visible_chargers r (js_members s) other bbox)"
proof -
  have m: "js_members s' = js_members s @ [m] \<and> mb_driver m = driver"
    using assms by (auto simp: team_redeem_def join_gate_def join_claim_def join_create_def membership_create_def Let_def
        split: prod.splits bool.splits sum.splits)
  then have teams: "list_team_ids_for_driver (js_members s') driver = insert (mb_team m) (list_team_ids_for_driver (js_members s) driver)"
      "\<And>other. other \<noteq> driver \<Longrightarrow> list_team_ids_for_driver (js_members s') other = list_team_ids_for_driver (js_members s) other"
    by (auto simp: list_team_ids_for_driver_def)
  show ?thesis unfolding query_visible_chargers_def visible_loop_filter teams(1) using teams(2) by auto
qed

definition team_charger :: charger_access where
  "team_charger = grant_team_access 5 8 (add_charger \<lparr>cs_id = 5, cs_visibility = ''team_only'', cs_lat = Fin 0, cs_lng = Fin 0\<rparr> \<lparr>ca_chargers = [], ca_teams = []\<rparr>)"

theorem joining_reveals_team_chargers_witness:
  "set (query_visible_chargers team_charger (js_members (snd (team_redeem (Fin 0) 1 ''CODE'' ''ip'' 10 one_place))) 1 None)
     = set (access_list_chargers team_charger)"
proof -
  have "team_redeem (Fin 0) 1 ''CODE'' ''ip'' 10 one_place
      = (Inr \<lparr>mb_driver = 1, mb_team = 8, mb_role = ''member''\<rparr>, snd (team_redeem (Fin 0) 1 ''CODE'' ''ip'' 10 one_place))"
    by (simp add: team_redeem_def join_gate_def allow_def one_place_def join_lookup_def invite_get_def join_claim_def
        try_increment_used_count_def join_create_def membership_create_def dict_get_default_def Let_def case_prod_beta fsub_def fle_def)
  from joining_reveals_team_chargers[OF this, of team_charger None] show ?thesis
    by (auto simp: query_visible_chargers_def visible_loop_filter team_charger_def grant_team_access_def add_charger_def access_list_chargers_def
        get_authorized_team_ids_for_charger_def dict_get_default_def)
qed

end
