(* ===== verification/Fleet_Costs.thy ===== *)
theory Fleet_Costs
  imports Ocpi_Partners
begin

text \<open>
  Fleet costs: the nightly rollup (\<open>fleet/rollup.py\<close>), the cost report over it and its CSV export
  (\<open>fleet/cost_report.py\<close>), and the portal's endpoints (\<open>fleet/cost_report_router.py\<close>).
  Both the rollup and the report group records into buckets with \<open>setdefault\<close>; the grouping is one definition here, and its
  conservation law carries the properties of both.
\<close>

subsection \<open>Buckets\<close>

record bucket =
  bk_count :: int
  bk_kwh :: int
  bk_cost :: int

definition no_usage :: bucket where
  "no_usage = \<lparr>bk_count = 0, bk_kwh = 0, bk_cost = 0\<rparr>"

definition bucket_add :: "bucket \<Rightarrow> bucket \<Rightarrow> bucket" where
  "bucket_add b u = \<lparr>bk_count = bk_count b + bk_count u, bk_kwh = bk_kwh b + bk_kwh u, bk_cost = bk_cost b + bk_cost u\<rparr>"

definition bucket_into :: "('a \<Rightarrow> 'k) \<Rightarrow> ('a \<Rightarrow> bucket) \<Rightarrow> 'a \<Rightarrow> ('k, bucket) pydict \<Rightarrow> ('k, bucket) pydict" where
  "bucket_into key use x d = dict_set (key x) (bucket_add (dict_get_default d (key x) no_usage) (use x)) d"

definition group_usage :: "('a \<Rightarrow> 'k) \<Rightarrow> ('a \<Rightarrow> bucket) \<Rightarrow> 'a list \<Rightarrow> ('k, bucket) pydict" where
  "group_usage key use xs = fold (bucket_into key use) xs []"

subsection \<open>The nightly rollup\<close>

record usage_record =
  ur_team :: uuid
  ur_driver :: uuid
  ur_site :: "uuid option"
  ur_timestamp :: datetime
  ur_kwh :: int
  ur_cost :: int

record daily_rollup =
  dr_team :: uuid
  dr_driver :: uuid
  dr_site :: "uuid option"
  dr_date :: date
  dr_count :: int
  dr_kwh :: int
  dr_cost :: int

record rollup_store =
  rs_rollups :: "daily_rollup list"
  rs_incomplete :: "date list"

text \<open>The set of incomplete dates is a list without repetitions; only its sorted selection is read.\<close>

definition save_rollup :: "daily_rollup \<Rightarrow> rollup_store \<Rightarrow> rollup_store" where
  "save_rollup r st = st\<lparr>rs_rollups := rs_rollups st @ [r]\<rparr>"

definition mark_incomplete :: "date \<Rightarrow> rollup_store \<Rightarrow> rollup_store" where
  "mark_incomplete d st = st\<lparr>rs_incomplete := List.insert d (rs_incomplete st)\<rparr>"

definition rollup_query :: "rollup_store \<Rightarrow> uuid \<Rightarrow> date \<Rightarrow> date \<Rightarrow> daily_rollup list" where
  "rollup_query st team from until = filter (\<lambda>r. dr_team r = team \<and> from \<le> dr_date r \<and> dr_date r \<le> until) (rs_rollups st)"

definition incomplete_dates_in_range :: "rollup_store \<Rightarrow> date \<Rightarrow> date \<Rightarrow> date list" where
  "incomplete_dates_in_range st from until = sort (filter (\<lambda>d. from \<le> d \<and> d \<le> until) (rs_incomplete st))"

definition session_use :: "usage_record \<Rightarrow> bucket" where
  "session_use u = \<lparr>bk_count = 1, bk_kwh = ur_kwh u, bk_cost = ur_cost u\<rparr>"

definition usage_key :: "usage_record \<Rightarrow> uuid \<times> uuid \<times> uuid option" where
  "usage_key u = (ur_team u, ur_driver u, ur_site u)"

definition rollup_of :: "date \<Rightarrow> (uuid \<times> uuid \<times> uuid option) \<times> bucket \<Rightarrow> daily_rollup" where
  "rollup_of d e = (case e of ((team, driver, site), b) \<Rightarrow>
     \<lparr>dr_team = team, dr_driver = driver, dr_site = site, dr_date = d, dr_count = bk_count b, dr_kwh = bk_kwh b, dr_cost = bk_cost b\<rparr>)"

definition run_daily_rollup :: "usage_record list \<Rightarrow> date list \<Rightarrow> date \<Rightarrow> rollup_store \<Rightarrow> rollup_store" where
  "run_daily_rollup sessions failing d st =
     (if d \<in> set failing then mark_incomplete d st
      else fold (\<lambda>e. save_rollup (rollup_of d e))
             (group_usage usage_key session_use (filter (\<lambda>u. date_of (ur_timestamp u) = d) sessions)) st)"

subsection \<open>The cost report\<close>

definition GROUP_BY_DRIVER :: string where "GROUP_BY_DRIVER = ''driver''"
definition GROUP_BY_SITE :: string where "GROUP_BY_SITE = ''site''"
definition no_site_key :: uuid where "no_site_key = 0"

record cost_row =
  cw_key :: string
  cw_count :: int
  cw_kwh :: int
  cw_cost :: int

record cost_report =
  cp_group_by :: string
  cp_rows :: "cost_row list"
  cp_total_count :: int
  cp_total_kwh :: int
  cp_total_cost :: int
  cp_incomplete :: "date list"

text \<open>A \<open>UUID\<close> object is always true, so \<open>site_id or _NO_SITE_KEY\<close> replaces only \<open>None\<close>.\<close>

definition report_key :: "string \<Rightarrow> daily_rollup \<Rightarrow> uuid" where
  "report_key group_by r =
     (if group_by = GROUP_BY_DRIVER then dr_driver r else (case dr_site r of None \<Rightarrow> no_site_key | Some s \<Rightarrow> s))"

definition rollup_use :: "daily_rollup \<Rightarrow> bucket" where
  "rollup_use r = \<lparr>bk_count = dr_count r, bk_kwh = dr_kwh r, bk_cost = dr_cost r\<rparr>"

definition cost_row_of :: "uuid \<times> bucket \<Rightarrow> cost_row" where
  "cost_row_of e = \<lparr>cw_key = str_uuid (fst e), cw_count = bk_count (snd e), cw_kwh = bk_kwh (snd e), cw_cost = bk_cost (snd e)\<rparr>"

definition generate_report :: "rollup_store \<Rightarrow> uuid \<Rightarrow> date \<Rightarrow> date \<Rightarrow> string \<Rightarrow> cost_report" where
  "generate_report st team from until group_by =
     (let rows = map cost_row_of (group_usage (report_key group_by) rollup_use (rollup_query st team from until))
      in \<lparr>cp_group_by = group_by, cp_rows = rows, cp_total_count = sum_list (map cw_count rows), cp_total_kwh = sum_list (map cw_kwh rows),
          cp_total_cost = sum_list (map cw_cost rows), cp_incomplete = incomplete_dates_in_range st from until\<rparr>)"

definition export_cost_report_csv :: "cost_report \<Rightarrow> string" where
  "export_cost_report_csv r =
     csv_row [cp_group_by r, ''session_count'', ''kwh_total'', ''cost_total_minor_units'']
     @ concat (map (\<lambda>w. csv_row [cw_key w, str_int (cw_count w), str_int (cw_kwh w), str_int (cw_cost w)]) (cp_rows r))"

subsection \<open>Endpoints\<close>

definition validate_group_by :: "string \<Rightarrow> bool" where
  "validate_group_by g \<longleftrightarrow> g \<in> {GROUP_BY_DRIVER, GROUP_BY_SITE}"

definition cost_row_dict :: "cost_row \<Rightarrow> json" where
  "cost_row_dict w = JObj [(''key'', JStr (cw_key w)), (''session_count'', JInt (cw_count w)), (''kwh_total'', JInt (cw_kwh w)),
     (''cost_total_minor_units'', JInt (cw_cost w))]"

definition report_dict :: "(date \<Rightarrow> string) \<Rightarrow> cost_report \<Rightarrow> json" where
  "report_dict isodate r =
     JObj [(''group_by'', JStr (cp_group_by r)), (''rows'', JList (map cost_row_dict (cp_rows r))),
       (''total_session_count'', JInt (cp_total_count r)), (''total_kwh'', JInt (cp_total_kwh r)),
       (''total_cost_minor_units'', JInt (cp_total_cost r)), (''incomplete_dates'', JList (map (\<lambda>d. JStr (isodate d)) (cp_incomplete r)))]"

definition route_cost_report ::
  "(date \<Rightarrow> string) \<Rightarrow> uuid \<Rightarrow> date \<Rightarrow> date \<Rightarrow> string \<Rightarrow> rollup_store \<Rightarrow> py_error http_error + json" where
  "route_cost_report isodate team from until group_by st =
     (if \<not> validate_group_by group_by then Inl (HTTPException 422 ''group_by must be one of ['driver', 'site']'')
      else Inr (report_dict isodate (generate_report st team from until group_by)))"

definition route_cost_report_csv :: "uuid \<Rightarrow> date \<Rightarrow> date \<Rightarrow> string \<Rightarrow> rollup_store \<Rightarrow> py_error http_error + string" where
  "route_cost_report_csv team from until group_by st =
     (if \<not> validate_group_by group_by then Inl (HTTPException 422 ''group_by must be one of ['driver', 'site']'')
      else Inr (export_cost_report_csv (generate_report st team from until group_by)))"

subsection \<open>Grouping conserves usage\<close>

definition total_use :: "bucket list \<Rightarrow> bucket" where
  "total_use bs = foldr bucket_add bs no_usage"

lemma bucket_add_simps [simp]:
  "bucket_add no_usage b = b" "bucket_add b no_usage = b"
  "bucket_add (bucket_add a b) c = bucket_add a (bucket_add b c)"
  by (simp_all add: bucket_add_def no_usage_def)

lemma bucket_add_commute: "bucket_add a b = bucket_add b a"
  by (simp add: bucket_add_def)

lemma bucket_add_left_commute: "bucket_add a (bucket_add b c) = bucket_add b (bucket_add a c)"
  by (simp add: bucket_add_def)

lemmas bucket_ac = bucket_add_commute bucket_add_left_commute

lemma total_use_simps [simp]:
  "total_use [] = no_usage" "total_use (b # bs) = bucket_add b (total_use bs)"
  "total_use (bs @ cs) = bucket_add (total_use bs) (total_use cs)"
proof -
  show "total_use [] = no_usage" "total_use (b # bs) = bucket_add b (total_use bs)" by (simp_all add: total_use_def)
  then show "total_use (bs @ cs) = bucket_add (total_use bs) (total_use cs)" by (induction bs) (simp_all add: total_use_def)
qed

lemma bucket_cong: "bk_count a = bk_count b \<Longrightarrow> bk_kwh a = bk_kwh b \<Longrightarrow> bk_cost a = bk_cost b \<Longrightarrow> a = (b::bucket)"
  by simp

lemma bucket_into_total:
  "total_use (dict_values (dict_set k (bucket_add (dict_get_default d k no_usage) u) d)) = bucket_add (total_use (dict_values d)) u"
proof (induction d)
  case (Cons e d)
  then show ?case by (cases e) (auto simp: dict_get_default_def bucket_ac)
qed (simp add: dict_get_default_def)

text \<open>The sum of the buckets is the sum of what went into them.\<close>

lemma group_usage_total: "total_use (dict_values (group_usage key use xs)) = total_use (map use xs)"
proof -
  have "total_use (dict_values (fold (bucket_into key use) xs d)) = bucket_add (total_use (dict_values d)) (total_use (map use xs))" for d
    by (induction xs arbitrary: d) (simp_all add: bucket_into_def bucket_into_total)
  from this[of "[]"] show ?thesis by (simp add: group_usage_def)
qed

lemma bucket_into_total_filter:
  "total_use (map snd (filter (\<lambda>e. P (fst e)) (dict_set k (bucket_add (dict_get_default d k no_usage) u) d)))
     = bucket_add (total_use (map snd (filter (\<lambda>e. P (fst e)) d))) (if P k then u else no_usage)"
proof (induction d)
  case (Cons e d)
  then show ?case by (cases e) (auto simp: dict_get_default_def bucket_ac)
qed (simp add: dict_get_default_def)

text \<open>The same for the buckets of some of the keys.\<close>

lemma group_usage_total_filter:
  "total_use (map snd (filter (\<lambda>e. P (fst e)) (group_usage key use xs))) = total_use (map use (filter (\<lambda>x. P (key x)) xs))"
proof -
  have "total_use (map snd (filter (\<lambda>e. P (fst e)) (fold (bucket_into key use) xs d)))
      = bucket_add (total_use (map snd (filter (\<lambda>e. P (fst e)) d))) (total_use (map use (filter (\<lambda>x. P (key x)) xs)))" for d
    by (induction xs arbitrary: d) (simp_all add: bucket_into_def bucket_into_total_filter)
  from this[of "[]"] show ?thesis by (simp add: group_usage_def)
qed

lemma group_usage_inv: "dict_inv (group_usage key use xs)"
proof -
  have "dict_inv d \<Longrightarrow> dict_inv (fold (bucket_into key use) xs d)" for d
    by (induction xs arbitrary: d) (simp_all add: bucket_into_def)
  then show ?thesis by (simp add: group_usage_def)
qed

lemma total_use_filter_or:
  assumes "\<And>x. \<not> (p x \<and> q x)"
  shows "total_use (map use (filter (\<lambda>x. p x \<or> q x) xs)) = bucket_add (total_use (map use (filter p xs))) (total_use (map use (filter q xs)))"
  using assms by (induction xs) (auto simp: bucket_ac)

lemma total_use_days:
  assumes "distinct ds"
  shows "total_use (concat (map (\<lambda>d. if ok d then map use (filter (\<lambda>x. day x = d \<and> p x) xs) else []) ds))
       = total_use (map use (filter (\<lambda>x. p x \<and> ok (day x) \<and> day x \<in> set ds) xs))"
  using assms
proof (induction ds)
  case Nil
  show ?case by simp
next
  case (Cons d ds)
  have "filter (\<lambda>x. p x \<and> ok (day x) \<and> day x \<in> set (d # ds)) xs
      = filter (\<lambda>x. (p x \<and> ok (day x) \<and> day x = d) \<or> (p x \<and> ok (day x) \<and> day x \<in> set ds)) xs"
    by (rule filter_cong) auto
  moreover have "filter (\<lambda>x. p x \<and> ok (day x) \<and> day x = d) xs = (if ok d then filter (\<lambda>x. day x = d \<and> p x) xs else [])"
    by (auto simp: filter_empty_conv intro!: filter_cong)
  ultimately show ?case using Cons
    by (subst (2) total_use_filter_or[symmetric] | simp add: total_use_filter_or)+
qed

subsection \<open>What the report shows\<close>

definition empty_rollups :: rollup_store where
  "empty_rollups = \<lparr>rs_rollups = [], rs_incomplete = []\<rparr>"

definition day_of :: "usage_record \<Rightarrow> date" where
  "day_of u = date_of (ur_timestamp u)"

definition day_rows :: "usage_record list \<Rightarrow> date list \<Rightarrow> date \<Rightarrow> daily_rollup list" where
  "day_rows sessions failing d =
     (if d \<in> set failing then [] else map (rollup_of d) (group_usage usage_key session_use (filter (\<lambda>u. day_of u = d) sessions)))"

lemma save_all: "fold (\<lambda>e. save_rollup (rollup_of d e)) es st = st\<lparr>rs_rollups := rs_rollups st @ map (rollup_of d) es\<rparr>"
  by (induction es arbitrary: st) (simp_all add: save_rollup_def)

lemma run_daily_rollup_rows:
  "rs_rollups (run_daily_rollup sessions failing d st) = rs_rollups st @ day_rows sessions failing d"
  "set (rs_incomplete (run_daily_rollup sessions failing d st)) = set (rs_incomplete st) \<union> (if d \<in> set failing then {d} else {})"
  "distinct (rs_incomplete st) \<Longrightarrow> distinct (rs_incomplete (run_daily_rollup sessions failing d st))"
  by (simp_all add: run_daily_rollup_def day_rows_def mark_incomplete_def save_all day_of_def)

lemma rollup_runs:
  "rs_rollups (fold (run_daily_rollup sessions failing) ds st) = rs_rollups st @ concat (map (day_rows sessions failing) ds)"
  "set (rs_incomplete (fold (run_daily_rollup sessions failing) ds st)) = set (rs_incomplete st) \<union> (set ds \<inter> set failing)"
  "distinct (rs_incomplete st) \<Longrightarrow> distinct (rs_incomplete (fold (run_daily_rollup sessions failing) ds st))"
proof (induction ds arbitrary: st)
  case (Cons d ds)
  { case 1 show ?case using Cons.IH(1) by (simp add: run_daily_rollup_rows) }
  { case 2 show ?case using Cons.IH(2) by (auto simp: run_daily_rollup_rows) }
  { case 3 then show ?case using Cons.IH(3) by (simp add: run_daily_rollup_rows) }
qed simp_all

lemma day_rows_total:
  "total_use (map rollup_use (filter (\<lambda>r. dr_team r = team \<and> from \<le> dr_date r \<and> dr_date r \<le> until) (day_rows sessions failing d)))
     = total_use (if d \<notin> set failing \<and> from \<le> d \<and> d \<le> until then map session_use (filter (\<lambda>u. day_of u = d \<and> ur_team u = team) sessions) else [])"
proof (cases "d \<notin> set failing \<and> from \<le> d \<and> d \<le> until")
  case True
  let ?g = "group_usage usage_key session_use (filter (\<lambda>u. day_of u = d) sessions)"
  have "filter (\<lambda>r. dr_team r = team \<and> from \<le> dr_date r \<and> dr_date r \<le> until) (map (rollup_of d) ?g) = map (rollup_of d) (filter (\<lambda>e. fst (fst e) = team) ?g)"
    using True by (simp add: filter_map comp_def rollup_of_def case_prod_beta)
  moreover have "rollup_use (rollup_of d e) = snd e" for e by (simp add: rollup_use_def rollup_of_def case_prod_beta)
  ultimately show ?thesis
    using True group_usage_total_filter[of "\<lambda>k. fst k = team" usage_key session_use "filter (\<lambda>u. day_of u = d) sessions"]
    by (simp add: day_rows_def comp_def usage_key_def)
next
  case False
  then show ?thesis by (auto simp: day_rows_def filter_empty_conv rollup_of_def case_prod_beta)
qed

definition report_total :: "cost_report \<Rightarrow> bucket" where
  "report_total r = \<lparr>bk_count = cp_total_count r, bk_kwh = cp_total_kwh r, bk_cost = cp_total_cost r\<rparr>"

lemma total_use_fields:
  "bk_count (total_use bs) = sum_list (map bk_count bs)" "bk_kwh (total_use bs) = sum_list (map bk_kwh bs)"
  "bk_cost (total_use bs) = sum_list (map bk_cost bs)"
  by (induction bs) (simp_all add: no_usage_def bucket_add_def)

lemma report_total_rollups: "report_total (generate_report st team from until g) = total_use (map rollup_use (rollup_query st team from until))"
proof -
  have "total_use (dict_values (group_usage (report_key g) rollup_use (rollup_query st team from until)))
      = report_total (generate_report st team from until g)"
    by (rule bucket_cong) (simp_all add: total_use_fields report_total_def generate_report_def cost_row_of_def Let_def comp_def)
  then show ?thesis by (simp add: group_usage_total)
qed

lemma total_use_concat: "total_use (concat bss) = total_use (map total_use bss)"
  by (induction bss) simp_all

lemma rolled_up_total:
  assumes "distinct ds"
  shows "report_total (generate_report (fold (run_daily_rollup sessions failing) ds empty_rollups) team from until g)
     = total_use (map session_use (filter (\<lambda>u. ur_team u = team \<and> (day_of u \<notin> set failing \<and> from \<le> day_of u \<and> day_of u \<le> until) \<and> day_of u \<in> set ds) sessions))"
proof -
  let ?day = "\<lambda>d. if d \<notin> set failing \<and> from \<le> d \<and> d \<le> until then map session_use (filter (\<lambda>u. day_of u = d \<and> ur_team u = team) sessions) else []"
  have "map rollup_use (rollup_query (fold (run_daily_rollup sessions failing) ds empty_rollups) team from until)
      = concat (map (\<lambda>d. map rollup_use (filter (\<lambda>r. dr_team r = team \<and> from \<le> dr_date r \<and> dr_date r \<le> until) (day_rows sessions failing d))) ds)"
    by (simp add: rollup_query_def rollup_runs empty_rollups_def filter_concat map_concat comp_def)
  then have "total_use (map rollup_use (rollup_query (fold (run_daily_rollup sessions failing) ds empty_rollups) team from until))
      = total_use (concat (map ?day ds))"
    by (simp add: total_use_concat comp_def day_rows_total)
  also have "\<dots> = total_use (map session_use (filter (\<lambda>u. ur_team u = team \<and> (day_of u \<notin> set failing \<and> from \<le> day_of u \<and> day_of u \<le> until) \<and> day_of u \<in> set ds) sessions))"
    by (rule total_use_days[OF assms])
  finally show ?thesis by (simp add: report_total_rollups)
qed

text \<open>
  C26: The cost report shows what was charged: when the nightly job has run once for each of the days
  \<open>ds\<close>, the report of a team over any range, grouped by driver or by site, totals exactly the
  sessions, the energy and the cost of that team's sessions on those days, less the days whose
  aggregation failed; those days, and only those, are listed in order as incomplete;
  and no driver or site has two rows.
\<close>

theorem cost_report_totals_sessions:
  assumes "distinct ds"
  shows "report_total (generate_report (fold (run_daily_rollup sessions failing) ds empty_rollups) team from until g)
      = total_use (map session_use (filter (\<lambda>u. ur_team u = team \<and> (day_of u \<notin> set failing \<and> from \<le> day_of u \<and> day_of u \<le> until) \<and> day_of u \<in> set ds) sessions))
    \<and> cp_incomplete (generate_report (fold (run_daily_rollup sessions failing) ds empty_rollups) team from until g)
      = sorted_list_of_set {d \<in> set ds \<inter> set failing. from \<le> d \<and> d \<le> until}
    \<and> distinct (map cw_key (cp_rows (generate_report (fold (run_daily_rollup sessions failing) ds empty_rollups) team from until g)))"
proof (intro conjI)
  let ?st = "fold (run_daily_rollup sessions failing) ds empty_rollups"
  show "cp_incomplete (generate_report ?st team from until g) = sorted_list_of_set {d \<in> set ds \<inter> set failing. from \<le> d \<and> d \<le> until}"
  proof -
    let ?l = "filter (\<lambda>d. from \<le> d \<and> d \<le> until) (rs_incomplete ?st)"
    have s: "set ?l = {d \<in> set ds \<inter> set failing. from \<le> d \<and> d \<le> until}"
      using rollup_runs(2)[of sessions failing ds empty_rollups] by (auto simp: empty_rollups_def)
    have "distinct ?l" using rollup_runs(3)[of empty_rollups sessions failing ds] by (simp add: empty_rollups_def)
    then have "sort ?l = sorted_list_of_set (set ?l)" by (simp only: sorted_list_of_set_sort_remdups distinct_remdups_id)
    then show ?thesis unfolding s by (simp add: generate_report_def Let_def incomplete_dates_in_range_def)
  qed
  show "distinct (map cw_key (cp_rows (generate_report ?st team from until g)))"
    using group_usage_inv[of "report_key g" rollup_use "rollup_query ?st team from until"]
    by (simp add: generate_report_def Let_def cost_row_of_def comp_def distinct_map inj_on_def)
qed (rule rolled_up_total[OF assms])

definition sample_usage :: "usage_record list" where
  "sample_usage = [\<lparr>ur_team = 1, ur_driver = 2, ur_site = None, ur_timestamp = 0, ur_kwh = 10, ur_cost = 300\<rparr>,
     \<lparr>ur_team = 1, ur_driver = 3, ur_site = Some 4, ur_timestamp = 5, ur_kwh = 5, ur_cost = 150\<rparr>,
     \<lparr>ur_team = 9, ur_driver = 3, ur_site = None, ur_timestamp = 5, ur_kwh = 7, ur_cost = 70\<rparr>]"

theorem cost_report_totals_sessions_witness:
  "report_total (generate_report (fold (run_daily_rollup sample_usage [1]) [0, 1] empty_rollups) 1 0 6 ''driver'')
     = \<lparr>bk_count = 2, bk_kwh = 15, bk_cost = 450\<rparr>"
  using cost_report_totals_sessions[of "[0, 1]" sample_usage "[1]" 1 0 6 "''driver''"]
  by (simp add: sample_usage_def day_of_def date_of_def session_use_def bucket_add_def no_usage_def)

text \<open>
  The nightly job is not idempotent: a second run for the same day appends the same rows again,
  so the report over that day shows twice the sessions, energy and cost; and a day marked incomplete stays so after a
  run that succeeds.
\<close>

theorem rollup_rerun_doubles_report:
  assumes "d \<notin> set failing" and "from \<le> d" and "d \<le> until"
  shows "report_total (generate_report (run_daily_rollup sessions failing d (run_daily_rollup sessions failing d empty_rollups)) team from until g)
      = bucket_add (report_total (generate_report (run_daily_rollup sessions failing d empty_rollups) team from until g))
          (report_total (generate_report (run_daily_rollup sessions failing d empty_rollups) team from until g))
    \<and> (d \<in> set (rs_incomplete st) \<longrightarrow> d \<in> set (cp_incomplete (generate_report (run_daily_rollup sessions failing d st) team from until g)))"
proof
  have "d \<in> set (rs_incomplete st) \<Longrightarrow> d \<in> set (rs_incomplete (run_daily_rollup sessions failing d st))" by (simp add: run_daily_rollup_rows)
  then show "d \<in> set (rs_incomplete st) \<longrightarrow> d \<in> set (cp_incomplete (generate_report (run_daily_rollup sessions failing d st) team from until g))"
    using assms by (simp add: generate_report_def incomplete_dates_in_range_def Let_def)
qed (simp add: report_total_rollups rollup_query_def run_daily_rollup_rows empty_rollups_def)

theorem rollup_rerun_doubles_report_witness:
  "report_total (generate_report (run_daily_rollup sample_usage [] 0 (run_daily_rollup sample_usage [] 0 empty_rollups)) 1 0 6 ''driver'')
     = \<lparr>bk_count = 4, bk_kwh = 30, bk_cost = 900\<rparr>"
proof -
  have "report_total (generate_report (run_daily_rollup sample_usage [] 0 empty_rollups) 1 0 6 ''driver'') = \<lparr>bk_count = 2, bk_kwh = 15, bk_cost = 450\<rparr>"
    using rolled_up_total[of "[0]" sample_usage "[]" 1 0 6 "''driver''"]
    by (simp add: sample_usage_def day_of_def date_of_def session_use_def bucket_add_def no_usage_def)
  then show ?thesis
    using rollup_rerun_doubles_report[of 0 "[]" 0 6 sample_usage 1 "''driver''" empty_rollups] by (simp add: bucket_add_def)
qed

end
