(* ===== verification/Carbon.thy ===== *)
theory Carbon
  imports Py_Text
begin

text \<open>
  Grid carbon intensity: the zone map (\<open>carbon/zone_map.py\<close>), the cache
  (\<open>carbon/cache.py\<close>), the provider client with its retries and the testing stand-in
  (\<open>carbon/provider.py\<close>), the service with its stale fallback (\<open>carbon/service.py\<close>) and the
  endpoint (\<open>carbon/router.py\<close>). What the service needs of a cache is the locale
  \<open>carbon_cache\<close>; the in-memory cache interprets it.
\<close>

datatype carbon_error = CarbonProviderError string | ZoneNotSupportedError string | CarbonRaised py_error

subsection \<open>Zones\<close>

type_synonym zone_map = "(string \<times> string, string) pydict"

definition set_zone_mapping :: "string \<Rightarrow> string \<Rightarrow> string \<Rightarrow> zone_map \<Rightarrow> zone_map" where
  "set_zone_mapping country area zone m = dict_set (country, area) zone m"

definition get_provider_zone_id :: "zone_map \<Rightarrow> string \<Rightarrow> string \<Rightarrow> string option" where
  "get_provider_zone_id m country area = dict_get m (country, area)"

subsection \<open>The cache\<close>

record carbon_entry =
  ce_value :: pyfloat
  ce_fetched :: datetime

definition cache_key :: "string \<Rightarrow> string \<Rightarrow> string" where
  "cache_key country area = ''carbon:'' @ country @ '':'' @ area"

type_synonym memory_cache_store = "(string, carbon_entry) pydict"

definition memory_cache_get :: "string \<Rightarrow> string \<Rightarrow> memory_cache_store \<Rightarrow> py_error + carbon_entry option" where
  "memory_cache_get country area st = Inr (dict_get st (cache_key country area))"

definition memory_cache_set :: "string \<Rightarrow> string \<Rightarrow> pyfloat \<Rightarrow> datetime \<Rightarrow> memory_cache_store \<Rightarrow> memory_cache_store" where
  "memory_cache_set country area v t st = dict_set (cache_key country area) \<lparr>ce_value = v, ce_fetched = t\<rparr> st"

text \<open>\<open>rget\<close> and \<open>rset\<close> are the Redis client; \<open>json_loads\<close>, \<open>json_dumps\<close>, \<open>isofmt\<close> and \<open>fromiso\<close> the codecs.\<close>

definition cache_backstop_ttl_seconds :: int where
  "cache_backstop_ttl_seconds = 7 * 24 * 60 * 60"

definition redis_cache_get ::
  "(string \<Rightarrow> 'r \<Rightarrow> string option) \<Rightarrow> (string \<Rightarrow> py_error + json) \<Rightarrow> (json \<Rightarrow> py_error + datetime) \<Rightarrow> string \<Rightarrow> string \<Rightarrow> 'r
    \<Rightarrow> py_error + carbon_entry option" where
  "redis_cache_get rget json_loads fromiso country area r =
     (case rget (cache_key country area) r of
        None \<Rightarrow> Inr None
      | Some raw \<Rightarrow>
        rbind (json_loads raw) (\<lambda>payload. rbind (jitem payload ''value'') (\<lambda>v. rbind (rbind (jitem payload ''fetched_at'') fromiso) (\<lambda>t.
          case v of JFloat x \<Rightarrow> Inr (Some \<lparr>ce_value = x, ce_fetched = t\<rparr>) | _ \<Rightarrow> Inl IllTyped))))"

definition redis_cache_set ::
  "(string \<Rightarrow> string \<Rightarrow> int \<Rightarrow> 'r \<Rightarrow> 'r) \<Rightarrow> (json \<Rightarrow> string) \<Rightarrow> (datetime \<Rightarrow> string) \<Rightarrow> string \<Rightarrow> string \<Rightarrow> pyfloat \<Rightarrow> datetime \<Rightarrow> 'r \<Rightarrow> 'r" where
  "redis_cache_set rset json_dumps isofmt country area v t r =
     rset (cache_key country area) (json_dumps (JObj [(''value'', JFloat v), (''fetched_at'', JStr (isofmt t))])) cache_backstop_ttl_seconds r"

subsection \<open>The provider\<close>

text \<open>
  One request of the client: an \<open>httpx.HTTPError\<close> (transport or status), an undecodable body, or
  the decoded JSON. \<open>parse_float\<close> is \<open>float(s)\<close> on a string.
\<close>

datatype fetch_failure = HttpFailure | BadJson

fun py_float :: "(string \<Rightarrow> pyfloat option) \<Rightarrow> json \<Rightarrow> py_error + pyfloat" where
  "py_float parse_float (JFloat x) = Inr x"
| "py_float parse_float (JInt n) = (case float_of_int n of Inl e \<Rightarrow> Inl (Arith e) | Inr q \<Rightarrow> Inr (Fin q))"
| "py_float parse_float (JBool b) = Inr (Fin (if b then 1 else 0))"
| "py_float parse_float (JStr s) = (case parse_float s of None \<Rightarrow> Inl (PyValueError []) | Some x \<Rightarrow> Inr x)"
| "py_float parse_float _ = Inl TypeError"

definition read_intensity :: "(string \<Rightarrow> pyfloat option) \<Rightarrow> fetch_failure + json \<Rightarrow> py_error + pyfloat" where
  "read_intensity parse_float x =
     (case x of Inl HttpFailure \<Rightarrow> Inl (RuntimeError []) | Inl BadJson \<Rightarrow> Inl (PyValueError [])
      | Inr data \<Rightarrow> rbind (jitem data ''carbonIntensity'') (py_float parse_float))"

text \<open>The exceptions the loop catches: \<open>httpx.HTTPError\<close>, \<open>KeyError\<close>, \<open>ValueError\<close>, \<open>TypeError\<close>.\<close>

fun retried :: "py_error \<Rightarrow> bool" where
  "retried (RuntimeError _) = True"
| "retried (KeyError _) = True"
| "retried (PyValueError _) = True"
| "retried TypeError = True"
| "retried _ = False"

record em_client =
  em_max_attempts :: nat
  em_backoff :: pyfloat

text \<open>The loop over \<open>range(max_attempts)\<close>; the sleeps are returned with the result.\<close>

fun fetch_loop ::
  "(string \<Rightarrow> pyfloat option) \<Rightarrow> (string \<Rightarrow> 'u \<Rightarrow> (fetch_failure + json) \<times> 'u) \<Rightarrow> em_client \<Rightarrow> string \<Rightarrow> nat list \<Rightarrow> 'u
    \<Rightarrow> (carbon_error + pyfloat) \<times> pyfloat list \<times> 'u" where
  "fetch_loop parse_float get c zone [] u =
     (Inl (CarbonProviderError (''failed to fetch carbon intensity for zone '' @ zone @ '' after '' @ str_int (int (em_max_attempts c)) @ '' attempts'')), [], u)"
| "fetch_loop parse_float get c zone (a # as) u =
     (case get zone u of (x, u1) \<Rightarrow>
        (case read_intensity parse_float x of
           Inr v \<Rightarrow> (Inr v, [], u1)
         | Inl e \<Rightarrow>
           if retried e
           then (case fetch_loop parse_float get c zone as u1 of (r, sleeps, u2) \<Rightarrow>
             (r, (if a + 1 < em_max_attempts c then [fmul_fin (em_backoff c) (2 ^ a)] else []) @ sleeps, u2))
           else (Inl (CarbonRaised e), [], u1)))"

definition fetch_intensity ::
  "(string \<Rightarrow> pyfloat option) \<Rightarrow> (string \<Rightarrow> 'u \<Rightarrow> (fetch_failure + json) \<times> 'u) \<Rightarrow> em_client \<Rightarrow> string \<Rightarrow> 'u
    \<Rightarrow> (carbon_error + pyfloat) \<times> pyfloat list \<times> 'u" where
  "fetch_intensity parse_float get c zone u = fetch_loop parse_float get c zone [0..<em_max_attempts c] u"

text \<open>\<open>round(x, 1)\<close>: the nearest multiple of a tenth, ties to even, rounded to a double.\<close>

definition round1 :: "rat \<Rightarrow> rat" where
  "round1 x = rnd64 (of_int (rhe (x * 10)) / 10)"

definition int_from_bytes_big :: "string \<Rightarrow> int" where
  "int_from_bytes_big bs = foldl (\<lambda>n b. 256 * n + of_char b) 0 bs"

type_synonym mock_provider = "(string, pyfloat) pydict"

definition set_response :: "string \<Rightarrow> pyfloat \<Rightarrow> mock_provider \<Rightarrow> mock_provider" where
  "set_response zone v m = dict_set zone v m"

definition mock_fetch_intensity :: "(string \<Rightarrow> string) \<Rightarrow> mock_provider \<Rightarrow> string \<Rightarrow> pyfloat" where
  "mock_fetch_intensity sha m zone =
     (case dict_get m zone of
        Some v \<Rightarrow> v
      | None \<Rightarrow>
        (let fraction = rnd64 (of_int (int_from_bytes_big (take 4 (sha zone))) / 4294967295)
         in Fin (round1 (rnd64 (120 + rnd64 (fraction * 380))))))"

subsection \<open>The service\<close>

record intensity_result =
  ir_value :: pyfloat
  ir_stale :: bool

definition default_ttl_seconds :: int where
  "default_ttl_seconds = 15 * 60"

text \<open>\<open>(now - fetched_at).total_seconds() < ttl\<close>\<close>

definition cache_fresh :: "int \<Rightarrow> datetime \<Rightarrow> datetime \<Rightarrow> bool" where
  "cache_fresh ttl fetched now = flt (fl64 (of_int (now - fetched) / 1000000)) (Fin (of_int ttl))"

definition get_intensity ::
  "zone_map \<Rightarrow> (string \<Rightarrow> string \<Rightarrow> 'c \<Rightarrow> py_error + carbon_entry option) \<Rightarrow> (string \<Rightarrow> string \<Rightarrow> pyfloat \<Rightarrow> datetime \<Rightarrow> 'c \<Rightarrow> 'c)
    \<Rightarrow> (string \<Rightarrow> 'u \<Rightarrow> (carbon_error + pyfloat) \<times> 'u) \<Rightarrow> int \<Rightarrow> datetime \<Rightarrow> string \<Rightarrow> string \<Rightarrow> 'c \<times> 'u
    \<Rightarrow> (carbon_error + intensity_result) \<times> 'c \<times> 'u" where
  "get_intensity zones cget cset fetch ttl now country area s =
     (case get_provider_zone_id zones country area of
        None \<Rightarrow> (Inl (ZoneNotSupportedError (''zone not supported: '' @ country @ ''/'' @ area)), s)
      | Some zone \<Rightarrow>
        (case cget country area (fst s) of
           Inl e \<Rightarrow> (Inl (CarbonRaised e), s)
         | Inr cached \<Rightarrow>
           (case cached of
              Some e \<Rightarrow>
                if cache_fresh ttl (ce_fetched e) now then (Inr \<lparr>ir_value = ce_value e, ir_stale = False\<rparr>, s)
                else (case fetch zone (snd s) of
                  (Inl (CarbonProviderError _), u) \<Rightarrow> (Inr \<lparr>ir_value = ce_value e, ir_stale = True\<rparr>, fst s, u)
                | (Inl x, u) \<Rightarrow> (Inl x, fst s, u)
                | (Inr v, u) \<Rightarrow> (Inr \<lparr>ir_value = v, ir_stale = False\<rparr>, cset country area v now (fst s), u))
            | None \<Rightarrow>
                (case fetch zone (snd s) of
                  (Inl x, u) \<Rightarrow> (Inl x, fst s, u)
                | (Inr v, u) \<Rightarrow> (Inr \<lparr>ir_value = v, ir_stale = False\<rparr>, cset country area v now (fst s), u)))))"

definition route_get_carbon_intensity ::
  "(string \<Rightarrow> string \<Rightarrow> 's \<Rightarrow> (carbon_error + intensity_result) \<times> 's) \<Rightarrow> string \<Rightarrow> 's \<Rightarrow> (carbon_error http_error + json) \<times> 's" where
  "route_get_carbon_intensity service zone s =
     (case split_once (CHR '':'') zone of
        None \<Rightarrow> (Inl (HTTPException 400 ''zone must be formatted as {country_code}:{area_code}''), s)
      | Some (country, area) \<Rightarrow>
        (case service country area s of
           (Inl (ZoneNotSupportedError _), s') \<Rightarrow> (Inl (HTTPException 404 (''zone not supported: '' @ zone)), s')
         | (Inl e, s') \<Rightarrow> (Inl (Raised e), s')
         | (Inr r, s') \<Rightarrow> (Inr (JObj [(''zone'', JStr zone), (''value'', JFloat (ir_value r)), (''unit'', JStr ''gCO2/kWh''),
                                     (''stale'', JBool (ir_stale r))]), s')))"

subsection \<open>Retries\<close>

definition upstream_after :: "(string \<Rightarrow> 'u \<Rightarrow> (fetch_failure + json) \<times> 'u) \<Rightarrow> string \<Rightarrow> nat \<Rightarrow> 'u \<Rightarrow> 'u" where
  "upstream_after get zone n u = ((\<lambda>u. snd (get zone u)) ^^ n) u"

definition upstream_answer :: "(string \<Rightarrow> pyfloat option) \<Rightarrow> (string \<Rightarrow> 'u \<Rightarrow> (fetch_failure + json) \<times> 'u) \<Rightarrow> string \<Rightarrow> nat \<Rightarrow> 'u \<Rightarrow> py_error + pyfloat" where
  "upstream_answer parse_float get zone n u = read_intensity parse_float (fst (get zone (upstream_after get zone n u)))"

definition transient :: "py_error + pyfloat \<Rightarrow> bool" where
  "transient x = (case x of Inl e \<Rightarrow> retried e | Inr _ \<Rightarrow> False)"

lemma upstream_shift:
  "upstream_after get zone n (snd (get zone u)) = upstream_after get zone (Suc n) u"
  "upstream_answer pf get zone n (snd (get zone u)) = upstream_answer pf get zone (Suc n) u"
  using funpow_swap1[of "\<lambda>u. snd (get zone u)" n u] by (simp_all add: upstream_after_def upstream_answer_def)

lemma fetch_loop_fails:
  assumes "\<forall>i < n. transient (upstream_answer pf get zone i u)"
  shows "fetch_loop pf get c zone ([a..<a + n] @ rest) u
     = (case fetch_loop pf get c zone rest (upstream_after get zone n u) of
          (r, sleeps, u') \<Rightarrow> (r, map (\<lambda>i. fmul_fin (em_backoff c) (2 ^ i)) (filter (\<lambda>i. i + 1 < em_max_attempts c) [a..<a + n]) @ sleeps, u'))"
  using assms
proof (induction n arbitrary: a u)
  case 0
  show ?case by (simp add: upstream_after_def split: prod.split)
next
  case (Suc n)
  have "transient (upstream_answer pf get zone 0 u)" using Suc.prems by blast
  then obtain e where e: "read_intensity pf (fst (get zone u)) = Inl e" "retried e"
    by (auto simp: transient_def upstream_answer_def upstream_after_def split: sum.splits)
  have "\<forall>i < n. transient (upstream_answer pf get zone i (snd (get zone u)))" using Suc.prems by (auto simp: upstream_shift)
  note IH = Suc.IH[OF this, of "Suc a"]
  have l: "[a..<a + Suc n] = a # [Suc a..<Suc a + n]" by (simp add: upt_rec)
  show ?case unfolding l using e IH
    by (simp add: case_prod_beta upstream_shift)
qed

text \<open>
  The provider client retries exactly as configured. If the first \<open>k\<close> attempts fail transiently
  (transport or status error, malformed body) and the next succeeds within \<open>max_attempts\<close>, the
  result is that attempt's value after \<open>k + 1\<close> requests, with the waits \<open>base\<close>, \<open>2 base\<close>,
  \<open>4 base\<close>, and so on between them; if all \<open>max_attempts\<close> fail, the provider error is raised
  after exactly that many requests, with no wait after the last.
\<close>

theorem fetch_retries_exactly:
  "(k < em_max_attempts c \<longrightarrow> (\<forall>i < k. transient (upstream_answer pf get zone i u)) \<longrightarrow> upstream_answer pf get zone k u = Inr v \<longrightarrow>
      fetch_intensity pf get c zone u = (Inr v, map (\<lambda>i. fmul_fin (em_backoff c) (2 ^ i)) [0..<k], upstream_after get zone (Suc k) u))
   \<and> ((\<forall>i < em_max_attempts c. transient (upstream_answer pf get zone i u)) \<longrightarrow>
      (\<exists>m. fetch_intensity pf get c zone u = (Inl (CarbonProviderError m), map (\<lambda>i. fmul_fin (em_backoff c) (2 ^ i)) [0..<em_max_attempts c - 1],
         upstream_after get zone (em_max_attempts c) u)))"
proof (intro conjI impI)
  assume k: "k < em_max_attempts c" and f: "\<forall>i < k. transient (upstream_answer pf get zone i u)" and v: "upstream_answer pf get zone k u = Inr v"
  have l: "[0..<em_max_attempts c] = [0..<0 + k] @ k # [Suc k..<em_max_attempts c]"
    using k upt_add_eq_append[of 0 k "em_max_attempts c - k"] by (simp add: upt_conv_Cons)
  have "filter (\<lambda>i. i + 1 < em_max_attempts c) [0..<k] = [0..<k]" using k by (auto simp: filter_id_conv)
  then show "fetch_intensity pf get c zone u = (Inr v, map (\<lambda>i. fmul_fin (em_backoff c) (2 ^ i)) [0..<k], upstream_after get zone (Suc k) u)"
    using v unfolding fetch_intensity_def l fetch_loop_fails[OF f]
    by (simp add: upstream_answer_def upstream_after_def case_prod_beta)
next
  assume f: "\<forall>i < em_max_attempts c. transient (upstream_answer pf get zone i u)"
  have "filter (\<lambda>i. Suc i < em_max_attempts c) [0..<em_max_attempts c] = [0..<em_max_attempts c - 1]"
  proof (cases "em_max_attempts c")
    case (Suc n)
    have "filter (\<lambda>i. i < n) [0..<n] = [0..<n]" by (simp add: filter_id_conv)
    with Suc show ?thesis by simp
  qed simp
  then show "\<exists>m. fetch_intensity pf get c zone u = (Inl (CarbonProviderError m), map (\<lambda>i. fmul_fin (em_backoff c) (2 ^ i)) [0..<em_max_attempts c - 1],
         upstream_after get zone (em_max_attempts c) u)"
    using fetch_loop_fails[OF f, of c 0 "[]"] by (simp add: fetch_intensity_def)
qed

definition scripted :: "string \<Rightarrow> (fetch_failure + json) list \<Rightarrow> (fetch_failure + json) \<times> (fetch_failure + json) list" where
  "scripted zone xs = (case xs of [] \<Rightarrow> (Inl HttpFailure, []) | x # ys \<Rightarrow> (x, ys))"

theorem fetch_retries_exactly_witness:
  "fetch_intensity (\<lambda>_. None) scripted \<lparr>em_max_attempts = 3, em_backoff = Fin 0\<rparr> ''DE'' [Inl HttpFailure, Inr (JObj [(''carbonIntensity'', JBool True)])]
     = (Inr (Fin 1), [Fin 0], [])"
  using fetch_retries_exactly[of 1 "\<lparr>em_max_attempts = 3, em_backoff = Fin 0\<rparr>" "\<lambda>_. None" scripted "''DE''"
      "[Inl HttpFailure, Inr (JObj [(''carbonIntensity'', JBool True)])]" "Fin 1"]
  by (simp add: upstream_answer_def upstream_after_def scripted_def read_intensity_def transient_def jitem_def)

subsection \<open>The stand-in provider\<close>

lemma int_from_bytes_bounds: "0 \<le> int_from_bytes_big bs \<and> int_from_bytes_big bs < 256 ^ length bs"
proof (induction bs rule: rev_induct)
  case Nil
  show ?case by (simp add: int_from_bytes_big_def)
next
  case (snoc b bs)
  have "(of_char b :: int) < 256" "0 \<le> (of_char b :: int)" by (simp_all add: of_char_def horner_sum_of_bool_2_less)
  with snoc show ?case by (simp add: int_from_bytes_big_def)
qed

lemma rnd64_int: "\<bar>n\<bar> \<le> 2 ^ 53 \<Longrightarrow> rnd64 (of_int n) = of_int n"
  by (rule rnd64_of_int)

lemma rnd64_between:
  assumes "of_int a \<le> x" and "x \<le> of_int b" and "\<bar>a\<bar> \<le> 2 ^ 53" and "\<bar>b\<bar> \<le> 2 ^ 53"
  shows "of_int a \<le> rnd64 x \<and> rnd64 x \<le> of_int b"
  using rnd64_mono[OF assms(1)] rnd64_mono[OF assms(2)] rnd64_int[OF assms(3)] rnd64_int[OF assms(4)] by simp

text \<open>
  The stand-in provider of testing mode always answers a plausible intensity: for every zone without an override, and whatever
  the hash, the value is between 120 and 500 gCO2/kWh, with every rounding of the
  floating-point computation taken into account.
\<close>

theorem mock_intensity_bounded:
  assumes "dict_get m zone = None"
  shows "\<exists>q. mock_fetch_intensity sha m zone = Fin q \<and> 120 \<le> q \<and> q \<le> 500"
proof -
  define n where "n = int_from_bytes_big (take 4 (sha zone))"
  have "(256::int) ^ length (take 4 (sha zone)) \<le> 256 ^ 4" by (intro power_increasing) simp_all
  then have n: "0 \<le> n" "n \<le> 4294967295" using int_from_bytes_bounds[of "take 4 (sha zone)"] unfolding n_def by simp_all
  then have "0 \<le> (of_int n :: rat) / 4294967295" "(of_int n :: rat) / 4294967295 \<le> 1" by (simp_all add: of_int_le_numeral_iff)
  define f where "f = rnd64 (of_int n / 4294967295)"
  have f: "0 \<le> f" "f \<le> 1" using rnd64_between[of 0 "of_int n / 4294967295" 1] n unfolding f_def by (simp_all add: of_int_le_numeral_iff)
  define g where "g = rnd64 (f * 380)"
  have g: "0 \<le> g" "g \<le> 380" using rnd64_between[of 0 "f * 380" 380] f unfolding g_def by simp_all
  define h where "h = rnd64 (120 + g)"
  have h: "120 \<le> h" "h \<le> 500" using rnd64_between[of 120 "120 + g" 500] g unfolding h_def by simp_all
  have "1200 \<le> rhe (h * 10)" "rhe (h * 10) \<le> 5000" using rhe_ge_int[of 1200 "h * 10"] rhe_le_int[of "h * 10" 5000] h by simp_all
  then have "120 \<le> (of_int (rhe (h * 10)) :: rat) / 10" "(of_int (rhe (h * 10)) :: rat) / 10 \<le> 500" by simp_all
  then have "120 \<le> round1 h" "round1 h \<le> 500" using rnd64_between[of 120 "of_int (rhe (h * 10)) / 10" 500] unfolding round1_def by simp_all
  then show ?thesis using assms by (simp add: mock_fetch_intensity_def Let_def n_def f_def g_def h_def)
qed

theorem mock_intensity_bounded_witness:
  "\<exists>q. mock_fetch_intensity (\<lambda>s. s) [(''FR'', Fin 50)] ''DE'' = Fin q \<and> 120 \<le> q \<and> q \<le> 500"
  by (rule mock_intensity_bounded) simp

subsection \<open>What the service needs of a cache\<close>

text \<open>A run of requests: per request the answer and the provider's state before and after.\<close>

fun serve ::
  "zone_map \<Rightarrow> (string \<Rightarrow> string \<Rightarrow> 'c \<Rightarrow> py_error + carbon_entry option) \<Rightarrow> (string \<Rightarrow> string \<Rightarrow> pyfloat \<Rightarrow> datetime \<Rightarrow> 'c \<Rightarrow> 'c)
    \<Rightarrow> (string \<Rightarrow> 'u \<Rightarrow> (carbon_error + pyfloat) \<times> 'u) \<Rightarrow> int \<Rightarrow> (datetime \<times> string \<times> string) list \<Rightarrow> 'c \<times> 'u
    \<Rightarrow> ((carbon_error + intensity_result) \<times> 'u \<times> 'u) list" where
  "serve zones cget cset fetch ttl [] s = []"
| "serve zones cget cset fetch ttl ((now, country, area) # rs) s =
     (case get_intensity zones cget cset fetch ttl now country area s of
        (r, s') \<Rightarrow> (r, snd s, snd s') # serve zones cget cset fetch ttl rs s')"

locale carbon_cache =
  fixes cget :: "string \<Rightarrow> string \<Rightarrow> 'c \<Rightarrow> py_error + carbon_entry option"
    and cset :: "string \<Rightarrow> string \<Rightarrow> pyfloat \<Rightarrow> datetime \<Rightarrow> 'c \<Rightarrow> 'c"
  assumes get_set: "cget c a (cset c a v t s) = Inr (Some \<lparr>ce_value = v, ce_fetched = t\<rparr>)"
    and get_other: "(c', a') \<noteq> (c, a) \<Longrightarrow> CHR '':'' \<notin> set c \<Longrightarrow> CHR '':'' \<notin> set c' \<Longrightarrow> cget c' a' (cset c a v t s) = cget c' a' s"
begin

lemma hit:
  assumes "cget c a (fst s) = Inr (Some e)" and "cache_fresh ttl (ce_fetched e) now" and "get_provider_zone_id zones c a = Some z"
  shows "get_intensity zones cget cset fetch ttl now c a s = (Inr \<lparr>ir_value = ce_value e, ir_stale = False\<rparr>, s)"
  using assms by (simp add: get_intensity_def)

lemma other_zone_keeps:
  assumes "get_intensity zones cget cset fetch ttl now c' a' s = (r, s')" and "(c, a) \<noteq> (c', a')"
    and "CHR '':'' \<notin> set c" and "CHR '':'' \<notin> set c'"
  shows "cget c a (fst s') = cget c a (fst s)"
  using assms(1) get_other[OF assms(2) assms(4) assms(3)]
  by (auto simp: get_intensity_def split: option.splits sum.splits prod.splits carbon_error.splits if_splits)

lemma served_while_fresh:
  assumes "cget c a (fst s) = Inr (Some e)" and "get_provider_zone_id zones c a = Some z" and "CHR '':'' \<notin> set c"
    and "\<forall>(now, c', a') \<in> set rs. CHR '':'' \<notin> set c' \<and> ((c', a') = (c, a) \<longrightarrow> cache_fresh ttl (ce_fetched e) now)"
  shows "\<forall>(q, r, u, u') \<in> set (zip rs (serve zones cget cset fetch ttl rs s)).
      snd q = (c, a) \<longrightarrow> r = Inr \<lparr>ir_value = ce_value e, ir_stale = False\<rparr> \<and> u' = u"
  using assms(1,4)
proof (induction rs arbitrary: s)
  case Nil
  show ?case by simp
next
  case (Cons q rs)
  obtain now c' a' where q: "q = (now, c', a')" by (cases q)
  obtain r s' where g: "get_intensity zones cget cset fetch ttl now c' a' s = (r, s')" by (metis surj_pair)
  have here: "(c', a') = (c, a) \<Longrightarrow> r = Inr \<lparr>ir_value = ce_value e, ir_stale = False\<rparr> \<and> s' = s"
    using hit[OF Cons.prems(1) _ assms(2), of ttl now fetch] Cons.prems(2) g q by auto
  have "cget c a (fst s') = Inr (Some e)"
    using here other_zone_keeps[OF g _ assms(3)] Cons.prems q by (cases "(c', a') = (c, a)") auto
  from Cons.IH[OF this] here Cons.prems(2) show ?case by (auto simp: q g)
qed

lemma fetched_is_cached:
  assumes "get_intensity zones cget cset fetch ttl now c a s = (Inr \<lparr>ir_value = v, ir_stale = False\<rparr>, s1)"
    and "get_provider_zone_id zones c a = Some z"
    and "\<forall>e. cget c a (fst s) = Inr (Some e) \<longrightarrow> \<not> cache_fresh ttl (ce_fetched e) now"
  shows "cget c a (fst s1) = Inr (Some \<lparr>ce_value = v, ce_fetched = now\<rparr>)"
  using assms get_set[of c a v now "fst s"] by (auto simp: get_intensity_def split: sum.splits option.splits if_splits prod.splits carbon_error.splits)

end

lemma cache_key_inject:
  assumes "CHR '':'' \<notin> set c" and "CHR '':'' \<notin> set c'"
  shows "cache_key c a = cache_key c' a' \<longleftrightarrow> (c, a) = (c', a')"
proof
  assume "cache_key c a = cache_key c' a'"
  then have "split_once (CHR '':'') (c @ CHR '':'' # a) = split_once (CHR '':'') (c' @ CHR '':'' # a')" by (simp add: cache_key_def)
  then show "(c, a) = (c', a')" using assms by simp
qed simp

interpretation memory_carbon: carbon_cache memory_cache_get memory_cache_set
  by unfold_locales (auto simp: memory_cache_get_def memory_cache_set_def cache_key_inject)

text \<open>
  A value fetched from the provider is served from the cache for as long as it is fresh: after a
  request that found no fresh entry and fetched \<open>v\<close>, every later request for that zone within the
  time to live is answered \<open>v\<close>, not stale, without asking the provider, whatever
  requests for other zones, successful or failing, come in between.
\<close>

theorem fetched_value_served_while_fresh:
  assumes "get_intensity zones memory_cache_get memory_cache_set fetch ttl now0 c a s = (Inr \<lparr>ir_value = v, ir_stale = False\<rparr>, s1)"
    and "get_provider_zone_id zones c a = Some z"
    and "\<forall>e. memory_cache_get c a (fst s) = Inr (Some e) \<longrightarrow> \<not> cache_fresh ttl (ce_fetched e) now0"
    and "CHR '':'' \<notin> set c"
    and "\<forall>(now, c', a') \<in> set rs. CHR '':'' \<notin> set c' \<and> ((c', a') = (c, a) \<longrightarrow> cache_fresh ttl now0 now)"
  shows "\<forall>(q, r, u, u') \<in> set (zip rs (serve zones memory_cache_get memory_cache_set fetch ttl rs s1)).
      snd q = (c, a) \<longrightarrow> r = Inr \<lparr>ir_value = v, ir_stale = False\<rparr> \<and> u' = u"
  using memory_carbon.served_while_fresh[OF memory_carbon.fetched_is_cached[OF assms(1-3)] assms(2,4), of rs ttl fetch] assms(5) by simp

definition constant_provider :: "string \<Rightarrow> nat \<Rightarrow> (carbon_error + pyfloat) \<times> nat" where
  "constant_provider z n = (Inr (Fin 200), Suc n)"

definition two_zones :: zone_map where
  "two_zones = [((''DE'', ''1''), ''DE''), ((''FR'', ''1''), ''FR'')]"

definition first_fetch :: "memory_cache_store \<times> nat" where
  "first_fetch = snd (get_intensity two_zones memory_cache_get memory_cache_set constant_provider 900 0 ''DE'' ''1'' ([], 0))"

theorem fetched_value_served_while_fresh_witness:
  "serve two_zones memory_cache_get memory_cache_set constant_provider 900 [(0, ''DE'', ''1'')] first_fetch
     = [(Inr \<lparr>ir_value = Fin 200, ir_stale = False\<rparr>, snd first_fetch, snd first_fetch)]"
proof -
  have g: "get_intensity two_zones memory_cache_get memory_cache_set constant_provider 900 0 ''DE'' ''1'' ([], 0)
      = (Inr \<lparr>ir_value = Fin 200, ir_stale = False\<rparr>, first_fetch)"
    by (simp add: first_fetch_def get_intensity_def two_zones_def get_provider_zone_id_def memory_cache_get_def constant_provider_def)
  obtain r s' where s: "get_intensity two_zones memory_cache_get memory_cache_set constant_provider 900 0 ''DE'' ''1'' first_fetch = (r, s')" by (metis surj_pair)
  show ?thesis
    using fetched_value_served_while_fresh[OF g, of "''DE''" "[(0, ''DE'', ''1'')]"] s
    by (simp add: constant_provider_def two_zones_def get_provider_zone_id_def memory_cache_get_def cache_fresh_def)
qed

end
