(* ===== verification/Schema.thy ===== *)
theory Schema
  imports Py_Text "HOL-Library.List_Lexorder"
begin

text \<open>
  The relational schema (\<open>models/*.py\<close>): every mapped class with its columns, constraints and
  mixins, and the audit that every table with tenant data has row-level security
  (\<open>scripts/audit_rls.py\<close>).
\<close>

subsection \<open>Mapped classes\<close>

datatype sql_type = SqlUuid | SqlString nat | SqlInteger | SqlFloat | SqlBoolean | SqlDateTime | SqlDate | SqlJsonb

text \<open>
  \<open>col_server_default\<close> is a default the database fills in; \<open>col_default\<close> is one SQLAlchemy fills in when it
  inserts an object, which does not reach the table definition. Foreign keys all refer to the column
  \<open>id\<close> of the named table.
\<close>

record column =
  col_name :: string
  col_type :: sql_type
  col_nullable :: bool
  col_server_default :: bool
  col_default :: "json option"
  col_fk :: "string option"
  col_unique :: bool
  col_index :: bool
  col_primary :: bool

definition mapped_column :: "string \<Rightarrow> sql_type \<Rightarrow> bool \<Rightarrow> column" where
  "mapped_column name ty nullable = \<lparr>col_name = name, col_type = ty, col_nullable = nullable, col_server_default = False,
     col_default = None, col_fk = None, col_unique = False, col_index = False, col_primary = False\<rparr>"

datatype mixin = UUIDPKMixin | TimestampMixin | TenantScopedMixin

definition UUIDPKMixin_columns :: "column list" where
  "UUIDPKMixin_columns = [(mapped_column ''id'' SqlUuid False)\<lparr>col_primary := True, col_server_default := True\<rparr>]"

definition TimestampMixin_columns :: "column list" where
  "TimestampMixin_columns =
     [(mapped_column ''created_at'' SqlDateTime False)\<lparr>col_server_default := True\<rparr>,
      (mapped_column ''updated_at'' SqlDateTime False)\<lparr>col_server_default := True\<rparr>]"

definition TenantScopedMixin_columns :: "column list" where
  "TenantScopedMixin_columns = (mapped_column ''tenant_id'' SqlUuid False)\<lparr>col_index := True\<rparr> # UUIDPKMixin_columns @ TimestampMixin_columns"

fun mixin_columns :: "mixin \<Rightarrow> column list" where
  "mixin_columns UUIDPKMixin = UUIDPKMixin_columns"
| "mixin_columns TimestampMixin = TimestampMixin_columns"
| "mixin_columns TenantScopedMixin = TenantScopedMixin_columns"

record orm_class =
  oc_mixins :: "mixin list"
  oc_tablename :: string
  oc_columns :: "column list"
  oc_uniques :: "string list list"
  oc_pk :: "string list"

definition table_columns :: "orm_class \<Rightarrow> column list" where
  "table_columns c = oc_columns c @ concat (map mixin_columns (oc_mixins c))"

paragraph \<open>\<open>models/tenancy.py\<close>\<close>

definition Organization_model :: orm_class where
  "Organization_model = \<lparr>oc_mixins = [UUIDPKMixin, TimestampMixin], oc_tablename = ''organization'',
     oc_columns =
      [mapped_column ''name'' (SqlString 255) False],
     oc_uniques = [], oc_pk = []\<rparr>"

definition Site_model :: orm_class where
  "Site_model = \<lparr>oc_mixins = [TenantScopedMixin], oc_tablename = ''site'',
     oc_columns =
      [(mapped_column ''org_id'' SqlUuid False)\<lparr>col_fk := Some ''organization'', col_index := True\<rparr>,
       mapped_column ''name'' (SqlString 255) False,
       mapped_column ''address'' (SqlString 500) True],
     oc_uniques = [], oc_pk = []\<rparr>"

definition Team_model :: orm_class where
  "Team_model = \<lparr>oc_mixins = [TenantScopedMixin], oc_tablename = ''team'',
     oc_columns =
      [(mapped_column ''org_id'' SqlUuid False)\<lparr>col_fk := Some ''organization'', col_index := True\<rparr>,
       (mapped_column ''site_id'' SqlUuid True)\<lparr>col_fk := Some ''site'', col_index := True\<rparr>,
       mapped_column ''name'' (SqlString 255) False],
     oc_uniques = [], oc_pk = []\<rparr>"

definition DriverTeamMembership_model :: orm_class where
  "DriverTeamMembership_model = \<lparr>oc_mixins = [TenantScopedMixin], oc_tablename = ''driver_team_membership'',
     oc_columns =
      [(mapped_column ''driver_id'' SqlUuid False)\<lparr>col_fk := Some ''driver'', col_index := True\<rparr>,
       (mapped_column ''team_id'' SqlUuid False)\<lparr>col_fk := Some ''team'', col_index := True\<rparr>,
       mapped_column ''role'' (SqlString 20) False],
     oc_uniques = [[''driver_id'', ''team_id'']], oc_pk = []\<rparr>"

definition TeamInvite_model :: orm_class where
  "TeamInvite_model = \<lparr>oc_mixins = [TenantScopedMixin], oc_tablename = ''team_invite'',
     oc_columns =
      [(mapped_column ''code'' (SqlString 16) False)\<lparr>col_unique := True, col_index := True\<rparr>,
       (mapped_column ''team_id'' SqlUuid False)\<lparr>col_fk := Some ''team'', col_index := True\<rparr>,
       mapped_column ''role'' (SqlString 20) False,
       (mapped_column ''max_uses'' SqlInteger False)\<lparr>col_default := Some (JInt 1)\<rparr>,
       (mapped_column ''used_count'' SqlInteger False)\<lparr>col_default := Some (JInt 0)\<rparr>,
       mapped_column ''expires_at'' SqlDateTime False],
     oc_uniques = [], oc_pk = []\<rparr>"

paragraph \<open>\<open>models/identity.py\<close>\<close>

definition Driver_model :: orm_class where
  "Driver_model = \<lparr>oc_mixins = [TenantScopedMixin], oc_tablename = ''driver'',
     oc_columns =
      [(mapped_column ''email'' (SqlString 255) False)\<lparr>col_unique := True, col_index := True\<rparr>,
       mapped_column ''phone'' (SqlString 32) True,
       mapped_column ''full_name'' (SqlString 255) False,
       (mapped_column ''autocharge_mac'' (SqlString 17) True)\<lparr>col_index := True\<rparr>,
       mapped_column ''carbon_country_code'' (SqlString 2) True,
       mapped_column ''carbon_area_code'' (SqlString 50) True],
     oc_uniques = [], oc_pk = []\<rparr>"

definition OperatorUser_model :: orm_class where
  "OperatorUser_model = \<lparr>oc_mixins = [TenantScopedMixin], oc_tablename = ''operator_user'',
     oc_columns =
      [(mapped_column ''email'' (SqlString 255) False)\<lparr>col_unique := True, col_index := True\<rparr>,
       mapped_column ''full_name'' (SqlString 255) False,
       (mapped_column ''role'' (SqlString 20) False)\<lparr>col_default := Some (JStr ''staff'')\<rparr>],
     oc_uniques = [], oc_pk = []\<rparr>"

definition Credential_model :: orm_class where
  "Credential_model = \<lparr>oc_mixins = [TenantScopedMixin], oc_tablename = ''credential'',
     oc_columns =
      [mapped_column ''subject_type'' (SqlString 20) False,
       (mapped_column ''subject_id'' SqlUuid False)\<lparr>col_index := True\<rparr>,
       mapped_column ''credential_type'' (SqlString 20) False,
       mapped_column ''password_hash'' (SqlString 255) True,
       mapped_column ''sso_provider'' (SqlString 50) True,
       mapped_column ''sso_subject_id'' (SqlString 255) True],
     oc_uniques = [[''subject_type'', ''subject_id'', ''credential_type'']], oc_pk = []\<rparr>"

paragraph \<open>\<open>models/hardware.py\<close>\<close>

definition Charger_model :: orm_class where
  "Charger_model = \<lparr>oc_mixins = [TenantScopedMixin], oc_tablename = ''charger'',
     oc_columns =
      [(mapped_column ''charge_point_id'' (SqlString 255) False)\<lparr>col_unique := True, col_index := True\<rparr>,
       mapped_column ''vendor'' (SqlString 100) True,
       mapped_column ''model'' (SqlString 100) True,
       mapped_column ''firmware_version'' (SqlString 50) True,
       (mapped_column ''status'' (SqlString 20) False)\<lparr>col_default := Some (JStr ''pending'')\<rparr>,
       (mapped_column ''visibility'' (SqlString 20) False)\<lparr>col_default := Some (JStr ''public'')\<rparr>,
       mapped_column ''ws_credential_hash'' (SqlString 255) True,
       mapped_column ''last_boot_at'' SqlDateTime True],
     oc_uniques = [], oc_pk = []\<rparr>"

definition Connector_model :: orm_class where
  "Connector_model = \<lparr>oc_mixins = [TenantScopedMixin], oc_tablename = ''connector'',
     oc_columns =
      [(mapped_column ''charger_id'' SqlUuid False)\<lparr>col_fk := Some ''charger'', col_index := True\<rparr>,
       mapped_column ''connector_id'' SqlInteger False,
       (mapped_column ''status'' (SqlString 30) False)\<lparr>col_default := Some (JStr ''Available'')\<rparr>,
       mapped_column ''error_code'' (SqlString 50) True,
       mapped_column ''max_power_watts'' SqlInteger True],
     oc_uniques = [[''charger_id'', ''connector_id'']], oc_pk = []\<rparr>"

definition ChargerTeamAccess_model :: orm_class where
  "ChargerTeamAccess_model = \<lparr>oc_mixins = [TenantScopedMixin], oc_tablename = ''charger_team_access'',
     oc_columns =
      [(mapped_column ''charger_id'' SqlUuid False)\<lparr>col_fk := Some ''charger'', col_index := True\<rparr>,
       (mapped_column ''team_id'' SqlUuid False)\<lparr>col_fk := Some ''team'', col_index := True\<rparr>],
     oc_uniques = [[''charger_id'', ''team_id'']], oc_pk = []\<rparr>"

paragraph \<open>\<open>models/billing.py\<close>\<close>

definition Tariff_model :: orm_class where
  "Tariff_model = \<lparr>oc_mixins = [TenantScopedMixin], oc_tablename = ''tariff'',
     oc_columns =
      [mapped_column ''name'' (SqlString 255) False,
       mapped_column ''currency'' (SqlString 3) False],
     oc_uniques = [], oc_pk = []\<rparr>"

definition TariffComponent_model :: orm_class where
  "TariffComponent_model = \<lparr>oc_mixins = [TenantScopedMixin], oc_tablename = ''tariff_component'',
     oc_columns =
      [(mapped_column ''tariff_id'' SqlUuid False)\<lparr>col_fk := Some ''tariff'', col_index := True\<rparr>,
       mapped_column ''type'' (SqlString 10) False,
       mapped_column ''price_minor_units'' SqlInteger False,
       (mapped_column ''step_size'' SqlInteger False)\<lparr>col_default := Some (JInt 1)\<rparr>,
       mapped_column ''applies_after_minutes'' SqlInteger True],
     oc_uniques = [], oc_pk = []\<rparr>"

definition TariffVersion_model :: orm_class where
  "TariffVersion_model = \<lparr>oc_mixins = [TenantScopedMixin], oc_tablename = ''tariff_version'',
     oc_columns =
      [(mapped_column ''tariff_id'' SqlUuid False)\<lparr>col_fk := Some ''tariff'', col_index := True\<rparr>,
       mapped_column ''version_no'' SqlInteger False,
       mapped_column ''effective_from'' SqlDateTime False,
       mapped_column ''effective_to'' SqlDateTime True],
     oc_uniques = [], oc_pk = []\<rparr>"

definition Wallet_model :: orm_class where
  "Wallet_model = \<lparr>oc_mixins = [TenantScopedMixin], oc_tablename = ''wallet'',
     oc_columns =
      [(mapped_column ''driver_id'' SqlUuid False)\<lparr>col_fk := Some ''driver'', col_unique := True, col_index := True\<rparr>,
       (mapped_column ''balance_minor_units'' SqlInteger False)\<lparr>col_default := Some (JInt 0)\<rparr>,
       mapped_column ''currency'' (SqlString 3) False],
     oc_uniques = [], oc_pk = []\<rparr>"

definition WalletLedger_model :: orm_class where
  "WalletLedger_model = \<lparr>oc_mixins = [TenantScopedMixin], oc_tablename = ''wallet_ledger'',
     oc_columns =
      [(mapped_column ''wallet_id'' SqlUuid False)\<lparr>col_fk := Some ''wallet'', col_index := True\<rparr>,
       mapped_column ''amount_minor_units'' SqlInteger False,
       mapped_column ''type'' (SqlString 20) False,
       mapped_column ''reference_id'' (SqlString 255) False],
     oc_uniques = [], oc_pk = []\<rparr>"

definition PaymentMethod_model :: orm_class where
  "PaymentMethod_model = \<lparr>oc_mixins = [TenantScopedMixin], oc_tablename = ''payment_method'',
     oc_columns =
      [(mapped_column ''wallet_id'' SqlUuid False)\<lparr>col_fk := Some ''wallet'', col_index := True\<rparr>,
       mapped_column ''type'' (SqlString 20) False,
       mapped_column ''psp_token'' (SqlString 255) True,
       (mapped_column ''is_default'' SqlBoolean False)\<lparr>col_default := Some (JBool False)\<rparr>],
     oc_uniques = [], oc_pk = []\<rparr>"

definition Promotion_model :: orm_class where
  "Promotion_model = \<lparr>oc_mixins = [TenantScopedMixin], oc_tablename = ''promotion'',
     oc_columns =
      [(mapped_column ''code'' (SqlString 50) True)\<lparr>col_index := True\<rparr>,
       mapped_column ''discount_type'' (SqlString 10) False,
       mapped_column ''value'' SqlInteger False,
       mapped_column ''valid_from'' SqlDateTime False,
       mapped_column ''valid_to'' SqlDateTime False,
       mapped_column ''usage_limit'' SqlInteger True,
       (mapped_column ''site_id'' SqlUuid True)\<lparr>col_fk := Some ''site'', col_index := True\<rparr>,
       mapped_column ''operator_id'' SqlUuid True],
     oc_uniques = [], oc_pk = []\<rparr>"

definition PromotionRedemption_model :: orm_class where
  "PromotionRedemption_model = \<lparr>oc_mixins = [TenantScopedMixin], oc_tablename = ''promotion_redemption'',
     oc_columns =
      [(mapped_column ''promotion_id'' SqlUuid False)\<lparr>col_fk := Some ''promotion'', col_index := True\<rparr>,
       (mapped_column ''session_id'' SqlUuid False)\<lparr>col_index := True\<rparr>],
     oc_uniques = [[''promotion_id'', ''session_id'']], oc_pk = []\<rparr>"

definition Invoice_model :: orm_class where
  "Invoice_model = \<lparr>oc_mixins = [TenantScopedMixin], oc_tablename = ''invoice'',
     oc_columns =
      [(mapped_column ''account_id'' SqlUuid False)\<lparr>col_index := True\<rparr>,
       mapped_column ''period_start'' SqlDateTime False,
       mapped_column ''period_end'' SqlDateTime False,
       (mapped_column ''status'' (SqlString 20) False)\<lparr>col_default := Some (JStr ''draft'')\<rparr>,
       (mapped_column ''total_minor_units'' SqlInteger False)\<lparr>col_default := Some (JInt 0)\<rparr>,
       mapped_column ''due_at'' SqlDateTime True,
       mapped_column ''pdf_url'' (SqlString 500) True],
     oc_uniques = [], oc_pk = []\<rparr>"

definition InvoiceAdjustment_model :: orm_class where
  "InvoiceAdjustment_model = \<lparr>oc_mixins = [TenantScopedMixin], oc_tablename = ''invoice_adjustment'',
     oc_columns =
      [(mapped_column ''invoice_id'' SqlUuid False)\<lparr>col_fk := Some ''invoice'', col_index := True\<rparr>,
       mapped_column ''amount_minor_units'' SqlInteger False,
       mapped_column ''reason'' (SqlString 500) False],
     oc_uniques = [], oc_pk = []\<rparr>"

definition PayoutRule_model :: orm_class where
  "PayoutRule_model = \<lparr>oc_mixins = [TenantScopedMixin], oc_tablename = ''payout_rule'',
     oc_columns =
      [(mapped_column ''operator_id'' SqlUuid False)\<lparr>col_index := True\<rparr>,
       (mapped_column ''site_id'' SqlUuid True)\<lparr>col_fk := Some ''site'', col_index := True\<rparr>,
       mapped_column ''split_type'' (SqlString 10) False,
       mapped_column ''value'' SqlInteger False],
     oc_uniques = [], oc_pk = []\<rparr>"

definition Payout_model :: orm_class where
  "Payout_model = \<lparr>oc_mixins = [TenantScopedMixin], oc_tablename = ''payout'',
     oc_columns =
      [(mapped_column ''operator_id'' SqlUuid False)\<lparr>col_index := True\<rparr>,
       mapped_column ''period_start'' SqlDateTime False,
       mapped_column ''period_end'' SqlDateTime False,
       mapped_column ''amount_minor_units'' SqlInteger False,
       (mapped_column ''status'' (SqlString 20) False)\<lparr>col_default := Some (JStr ''pending'')\<rparr>],
     oc_uniques = [], oc_pk = []\<rparr>"

paragraph \<open>\<open>models/roaming.py\<close>\<close>

definition OcpiPartner_model :: orm_class where
  "OcpiPartner_model = \<lparr>oc_mixins = [TenantScopedMixin], oc_tablename = ''ocpi_partner'',
     oc_columns =
      [mapped_column ''party_id'' (SqlString 3) False,
       mapped_column ''country_code'' (SqlString 2) False,
       mapped_column ''negotiated_version'' (SqlString 10) True,
       mapped_column ''base_url'' (SqlString 500) False,
       mapped_column ''token_a'' (SqlString 255) True,
       mapped_column ''token_b'' (SqlString 255) True,
       mapped_column ''token_c'' (SqlString 255) True,
       (mapped_column ''status'' (SqlString 20) False)\<lparr>col_default := Some (JStr ''pending'')\<rparr>,
       mapped_column ''last_handshake_at'' SqlDateTime True],
     oc_uniques = [], oc_pk = []\<rparr>"

definition OcpiRoleConfig_model :: orm_class where
  "OcpiRoleConfig_model = \<lparr>oc_mixins = [TenantScopedMixin], oc_tablename = ''ocpi_role_config'',
     oc_columns =
      [mapped_column ''role'' (SqlString 10) False,
       mapped_column ''party_id'' (SqlString 3) False,
       mapped_column ''country_code'' (SqlString 2) False],
     oc_uniques = [[''tenant_id'', ''role'']], oc_pk = []\<rparr>"

definition OcpiSession_model :: orm_class where
  "OcpiSession_model = \<lparr>oc_mixins = [TenantScopedMixin], oc_tablename = ''ocpi_session'',
     oc_columns =
      [(mapped_column ''partner_id'' SqlUuid False)\<lparr>col_fk := Some ''ocpi_partner'', col_index := True\<rparr>,
       (mapped_column ''local_transaction_id'' SqlUuid True)\<lparr>col_fk := Some ''transaction'', col_index := True\<rparr>,
       (mapped_column ''external_session_id'' (SqlString 36) False)\<lparr>col_index := True\<rparr>,
       (mapped_column ''status'' (SqlString 20) False)\<lparr>col_default := Some (JStr ''pending'')\<rparr>,
       (mapped_column ''kwh'' SqlInteger False)\<lparr>col_default := Some (JInt 0)\<rparr>,
       mapped_column ''start_datetime'' SqlDateTime False,
       mapped_column ''end_datetime'' SqlDateTime True],
     oc_uniques = [], oc_pk = []\<rparr>"

definition OcpiCdr_model :: orm_class where
  "OcpiCdr_model = \<lparr>oc_mixins = [TenantScopedMixin], oc_tablename = ''ocpi_cdr'',
     oc_columns =
      [(mapped_column ''session_id'' SqlUuid False)\<lparr>col_fk := Some ''ocpi_session'', col_index := True\<rparr>,
       (mapped_column ''cdr_uid'' (SqlString 36) False)\<lparr>col_unique := True, col_index := True\<rparr>,
       mapped_column ''total_cost_minor_units'' SqlInteger False,
       mapped_column ''kwh'' SqlInteger False,
       (mapped_column ''correction_of'' SqlUuid True)\<lparr>col_fk := Some ''ocpi_cdr'', col_index := True\<rparr>],
     oc_uniques = [], oc_pk = []\<rparr>"

definition OcpiReconciliationResult_model :: orm_class where
  "OcpiReconciliationResult_model = \<lparr>oc_mixins = [TenantScopedMixin], oc_tablename = ''ocpi_reconciliation_result'',
     oc_columns =
      [(mapped_column ''partner_id'' SqlUuid False)\<lparr>col_fk := Some ''ocpi_partner'', col_index := True\<rparr>,
       (mapped_column ''local_cdr_id'' SqlUuid True)\<lparr>col_fk := Some ''ocpi_cdr'', col_index := True\<rparr>,
       mapped_column ''partner_cdr_uid'' (SqlString 36) False,
       (mapped_column ''status'' (SqlString 20) False)\<lparr>col_default := Some (JStr ''pending'')\<rparr>,
       mapped_column ''delta_minor_units'' SqlInteger True],
     oc_uniques = [], oc_pk = []\<rparr>"

paragraph \<open>\<open>models/ocpp.py\<close>\<close>

definition Transaction_model :: orm_class where
  "Transaction_model = \<lparr>oc_mixins = [TenantScopedMixin], oc_tablename = ''transaction'',
     oc_columns =
      [(mapped_column ''charger_id'' SqlUuid False)\<lparr>col_fk := Some ''charger'', col_index := True\<rparr>,
       mapped_column ''connector_id'' SqlInteger False,
       (mapped_column ''id_tag'' (SqlString 50) False)\<lparr>col_index := True\<rparr>,
       mapped_column ''meter_start'' SqlInteger False,
       mapped_column ''meter_stop'' SqlInteger True,
       mapped_column ''start_timestamp'' SqlDateTime False,
       mapped_column ''stop_timestamp'' SqlDateTime True,
       (mapped_column ''status'' (SqlString 20) False)\<lparr>col_default := Some (JStr ''active'')\<rparr>,
       mapped_column ''stop_reason'' (SqlString 50) True,
       (mapped_column ''payment_status'' (SqlString 20) False)\<lparr>col_default := Some (JStr ''pending'')\<rparr>],
     oc_uniques = [], oc_pk = []\<rparr>"

definition CommandLog_model :: orm_class where
  "CommandLog_model = \<lparr>oc_mixins = [TenantScopedMixin], oc_tablename = ''command_log'',
     oc_columns =
      [(mapped_column ''charger_id'' SqlUuid False)\<lparr>col_fk := Some ''charger'', col_index := True\<rparr>,
       (mapped_column ''command_id'' SqlUuid False)\<lparr>col_unique := True, col_index := True\<rparr>,
       mapped_column ''type'' (SqlString 50) False,
       (mapped_column ''status'' (SqlString 20) False)\<lparr>col_default := Some (JStr ''pending'')\<rparr>,
       mapped_column ''requested_at'' SqlDateTime False,
       mapped_column ''responded_at'' SqlDateTime True,
       mapped_column ''result'' SqlJsonb True],
     oc_uniques = [], oc_pk = []\<rparr>"

definition FirmwareUpdate_model :: orm_class where
  "FirmwareUpdate_model = \<lparr>oc_mixins = [TenantScopedMixin], oc_tablename = ''firmware_update'',
     oc_columns =
      [(mapped_column ''charger_id'' SqlUuid False)\<lparr>col_fk := Some ''charger'', col_index := True\<rparr>,
       mapped_column ''version'' (SqlString 50) False,
       (mapped_column ''status'' (SqlString 20) False)\<lparr>col_default := Some (JStr ''pending'')\<rparr>],
     oc_uniques = [], oc_pk = []\<rparr>"

paragraph \<open>\<open>models/timeseries.py\<close>\<close>

definition MeterValue_model :: orm_class where
  "MeterValue_model = \<lparr>oc_mixins = [TimestampMixin], oc_tablename = ''meter_value'',
     oc_columns =
      [(mapped_column ''id'' SqlUuid False)\<lparr>col_server_default := True\<rparr>,
       (mapped_column ''tenant_id'' SqlUuid False)\<lparr>col_index := True\<rparr>,
       mapped_column ''ts'' SqlDateTime False,
       (mapped_column ''transaction_id'' SqlUuid False)\<lparr>col_fk := Some ''transaction'', col_index := True\<rparr>,
       (mapped_column ''charger_id'' SqlUuid False)\<lparr>col_fk := Some ''charger'', col_index := True\<rparr>,
       mapped_column ''measurand'' (SqlString 50) False,
       mapped_column ''value'' SqlFloat False,
       mapped_column ''unit'' (SqlString 20) False],
     oc_uniques = [], oc_pk = [''id'', ''ts'']\<rparr>"

definition StatusLog_model :: orm_class where
  "StatusLog_model = \<lparr>oc_mixins = [TimestampMixin], oc_tablename = ''status_log'',
     oc_columns =
      [(mapped_column ''id'' SqlUuid False)\<lparr>col_server_default := True\<rparr>,
       (mapped_column ''tenant_id'' SqlUuid False)\<lparr>col_index := True\<rparr>,
       mapped_column ''ts'' SqlDateTime False,
       (mapped_column ''charger_id'' SqlUuid False)\<lparr>col_fk := Some ''charger'', col_index := True\<rparr>,
       mapped_column ''connector_id'' SqlInteger False,
       mapped_column ''status'' (SqlString 30) False,
       mapped_column ''error_code'' (SqlString 50) True],
     oc_uniques = [], oc_pk = [''id'', ''ts'']\<rparr>"

paragraph \<open>\<open>models/carbon.py\<close>\<close>

definition CarbonZone_model :: orm_class where
  "CarbonZone_model = \<lparr>oc_mixins = [UUIDPKMixin, TimestampMixin], oc_tablename = ''carbon_zone'',
     oc_columns =
      [mapped_column ''country_code'' (SqlString 2) False,
       mapped_column ''area_code'' (SqlString 50) False,
       mapped_column ''provider_zone_id'' (SqlString 50) False],
     oc_uniques = [[''country_code'', ''area_code'']], oc_pk = []\<rparr>"

paragraph \<open>\<open>models/rollups.py\<close>\<close>

definition TeamDriverDailyUsage_model :: orm_class where
  "TeamDriverDailyUsage_model = \<lparr>oc_mixins = [TenantScopedMixin], oc_tablename = ''team_driver_daily_usage'',
     oc_columns =
      [(mapped_column ''team_id'' SqlUuid False)\<lparr>col_fk := Some ''team'', col_index := True\<rparr>,
       (mapped_column ''driver_id'' SqlUuid False)\<lparr>col_fk := Some ''driver'', col_index := True\<rparr>,
       (mapped_column ''site_id'' SqlUuid True)\<lparr>col_fk := Some ''site'', col_index := True\<rparr>,
       mapped_column ''usage_date'' SqlDate False,
       (mapped_column ''session_count'' SqlInteger False)\<lparr>col_default := Some (JInt 0)\<rparr>,
       (mapped_column ''kwh_total'' SqlInteger False)\<lparr>col_default := Some (JInt 0)\<rparr>,
       (mapped_column ''cost_total_minor_units'' SqlInteger False)\<lparr>col_default := Some (JInt 0)\<rparr>,
       (mapped_column ''is_complete'' SqlBoolean False)\<lparr>col_default := Some (JBool True)\<rparr>],
     oc_uniques = [[''team_id'', ''driver_id'', ''usage_date'']], oc_pk = []\<rparr>"

definition DriverDailyUsage_model :: orm_class where
  "DriverDailyUsage_model = \<lparr>oc_mixins = [TenantScopedMixin], oc_tablename = ''driver_daily_usage'',
     oc_columns =
      [(mapped_column ''driver_id'' SqlUuid False)\<lparr>col_fk := Some ''driver'', col_index := True\<rparr>,
       mapped_column ''usage_date'' SqlDate False,
       (mapped_column ''session_count'' SqlInteger False)\<lparr>col_default := Some (JInt 0)\<rparr>,
       (mapped_column ''kwh_total'' SqlInteger False)\<lparr>col_default := Some (JInt 0)\<rparr>,
       (mapped_column ''cost_total_minor_units'' SqlInteger False)\<lparr>col_default := Some (JInt 0)\<rparr>],
     oc_uniques = [[''driver_id'', ''usage_date'']], oc_pk = []\<rparr>"

text \<open>The classes of the modules \<open>models/__init__.py\<close> imports.\<close>

definition all_models :: "orm_class list" where
  "all_models =
     [Organization_model, Site_model, Team_model, DriverTeamMembership_model, TeamInvite_model, Driver_model,
      OperatorUser_model, Credential_model, Charger_model, Connector_model, ChargerTeamAccess_model, Tariff_model,
      TariffComponent_model, TariffVersion_model, Wallet_model, WalletLedger_model, PaymentMethod_model, Promotion_model,
      PromotionRedemption_model, Invoice_model, InvoiceAdjustment_model, PayoutRule_model, Payout_model, OcpiPartner_model,
      OcpiRoleConfig_model, OcpiSession_model, OcpiCdr_model, OcpiReconciliationResult_model, Transaction_model,
      CommandLog_model, FirmwareUpdate_model, MeterValue_model, StatusLog_model, CarbonZone_model, TeamDriverDailyUsage_model,
      DriverDailyUsage_model]"

text \<open>
  \<open>__init_subclass__\<close> registers every subclass of the tenant mixin; the two hypertables are added by
  hand.
\<close>

definition TENANT_SCOPED_TABLES :: "string list" where
  "TENANT_SCOPED_TABLES =
     map oc_tablename (filter (\<lambda>c. TenantScopedMixin \<in> set (oc_mixins c)) all_models)
       @ [oc_tablename MeterValue_model, oc_tablename StatusLog_model]"

definition column_names :: "orm_class \<Rightarrow> string list" where
  "column_names c = map col_name (table_columns c)"

subsection \<open>The audit of row-level security\<close>

definition EXEMPT_TABLES :: "string list" where
  "EXEMPT_TABLES = [''carbon_zone'']"

definition SELF_TENANT_TABLES :: "string list" where
  "SELF_TENANT_TABLES = [''organization'']"

text \<open>The set, in the order \<open>sorted\<close> gives it.\<close>

definition tables_requiring_rls :: "string list" where
  "tables_requiring_rls = sort (remdups (filter (\<lambda>t. t \<notin> set EXEMPT_TABLES) (TENANT_SCOPED_TABLES @ SELF_TENANT_TABLES)))"

definition find_tables_missing_rls :: "(string, bool) pydict \<Rightarrow> (string, nat) pydict \<Rightarrow> string list" where
  "find_tables_missing_rls rowsecurity policies =
     filter (\<lambda>t. if \<not> dict_get_default rowsecurity t False then True else dict_get_default policies t 0 = 0) tables_requiring_rls"

text \<open>The column a policy compares with the tenant.\<close>

definition tenant_column :: "string \<Rightarrow> string" where
  "tenant_column t = (if t \<in> set SELF_TENANT_TABLES then ''id'' else ''tenant_id'')"

subsection \<open>What the audit reports\<close>

definition primary_key :: "orm_class \<Rightarrow> string list" where
  "primary_key c = (if oc_pk c \<noteq> [] then oc_pk c else map col_name (filter col_primary (table_columns c)))"

definition id_tables :: "string list" where
  "id_tables = map oc_tablename (filter (\<lambda>d. primary_key d = [''id'']) all_models)"

lemma id_tables_list [code]:
  "id_tables =
     [''organization'', ''site'', ''team'', ''driver_team_membership'', ''team_invite'', ''driver'', ''operator_user'',
      ''credential'', ''charger'', ''connector'', ''charger_team_access'', ''tariff'', ''tariff_component'',
      ''tariff_version'', ''wallet'', ''wallet_ledger'', ''payment_method'', ''promotion'', ''promotion_redemption'',
      ''invoice'', ''invoice_adjustment'', ''payout_rule'', ''payout'', ''ocpi_partner'', ''ocpi_role_config'',
      ''ocpi_session'', ''ocpi_cdr'', ''ocpi_reconciliation_result'', ''transaction'', ''command_log'', ''firmware_update'',
      ''carbon_zone'', ''team_driver_daily_usage'', ''driver_daily_usage'']"
  by code_simp

definition fk_ok :: "column \<Rightarrow> bool" where
  "fk_ok k = (case col_fk k of None \<Rightarrow> True | Some t \<Rightarrow> col_type k = SqlUuid \<and> t \<in> set id_tables)"


lemma required_tables:
  "distinct tables_requiring_rls" "sorted tables_requiring_rls"
  by (simp_all add: tables_requiring_rls_def)

lemma tables_requiring_rls_list [code]:
  "tables_requiring_rls =
     [''charger'', ''charger_team_access'', ''command_log'', ''connector'', ''credential'', ''driver'',
      ''driver_daily_usage'', ''driver_team_membership'', ''firmware_update'', ''invoice'', ''invoice_adjustment'',
      ''meter_value'', ''ocpi_cdr'', ''ocpi_partner'', ''ocpi_reconciliation_result'', ''ocpi_role_config'', ''ocpi_session'',
      ''operator_user'', ''organization'', ''payment_method'', ''payout'', ''payout_rule'', ''promotion'',
      ''promotion_redemption'', ''site'', ''status_log'', ''tariff'', ''tariff_component'', ''tariff_version'', ''team'',
      ''team_driver_daily_usage'', ''team_invite'', ''transaction'', ''wallet'', ''wallet_ledger'']"
  by code_simp

text \<open>
  Row-level security is required of exactly the tables that hold tenant data: a table is in the
  audited list if and only if it has a \<open>tenant_id\<close> column or is the organization table, and the
  column its policy compares, \<open>tenant_id\<close> or the organization's \<open>id\<close>, is a UUID that
  cannot be null. The one table left out is \<open>carbon_zone\<close>.
\<close>

theorem rls_required_exactly:
  "list_all (\<lambda>c. oc_tablename c \<in> set tables_requiring_rls \<longleftrightarrow> ''tenant_id'' \<in> set (column_names c) \<or> oc_tablename c = ''organization'') all_models
   \<and> list_all (\<lambda>t. list_ex (\<lambda>c. oc_tablename c = t \<and> list_ex (\<lambda>k. col_name k = tenant_column t \<and> col_type k = SqlUuid \<and> \<not> col_nullable k) (table_columns c)) all_models)
        tables_requiring_rls
   \<and> filter (\<lambda>t. t \<notin> set tables_requiring_rls) (map oc_tablename all_models) = [''carbon_zone'']"
  by code_simp

text \<open>
  The audit reports exactly the audited tables without protection: those whose row-level
  security is off or absent from the catalogue, or that have no policy; once each and sorted.
\<close>

theorem audit_exact:
  "set (find_tables_missing_rls rowsecurity policies)
     = {t \<in> set tables_requiring_rls. \<not> (dict_get rowsecurity t = Some True \<and> (\<exists>n>0. dict_get policies t = Some n))}
   \<and> sorted (find_tables_missing_rls rowsecurity policies) \<and> distinct (find_tables_missing_rls rowsecurity policies)"
proof -
  have "(if \<not> dict_get_default rowsecurity t False then True else dict_get_default policies t 0 = 0)
      \<longleftrightarrow> \<not> (dict_get rowsecurity t = Some True \<and> (\<exists>n>0. dict_get policies t = Some n))" for t
    by (auto simp: dict_get_default_def split: option.splits)
  then show ?thesis
    using required_tables unfolding find_tables_missing_rls_def by (auto intro: sorted_filter[of "\<lambda>x. x", simplified])
qed

end
