(* ===== verification/Row_Security.thy ===== *)
theory Row_Security
  imports Schema Gateway_Auth
begin

text \<open>
  Row-level security: the Alembic migrations (\<open>alembic/versions/*.py\<close>) as the statements they execute,
  the audit over the catalogue, and the tenant-scoped database session (\<open>core/tenancy.py\<close>,
  \<open>core/db.py\<close>). What PostgreSQL does with a statement and with a policy is a parameter with its
  documented effect as hypotheses.
\<close>

subsection \<open>Migrations\<close>

text \<open>
  The statements the migrations execute. Those whose effect on row-level security matters are constructors;
  the others carry their text. \<open>CreateRole r b\<close> creates the login role \<open>r\<close> unless it exists, with \<open>BYPASSRLS\<close> if \<open>b\<close>;
  \<open>CreateView\<close> and \<open>CreateContinuousAggregate\<close> carry the view and the table it reads.
\<close>

datatype sql =
    EnableRls string | ForceRls string | DisableRls string | NoForceRls string
  | CreatePolicy string string string
  | DropPolicy string string
  | CreateAll | DropAll
  | CreateRole string bool
  | CreateView string string
  | CreateContinuousAggregate string string
  | SqlText string

definition POLICY_NAME :: string where
  "POLICY_NAME = ''tenant_isolation''"

definition role_statements :: "sql list" where
  "role_statements =
     [CreateRole ''evagg_app'' False, CreateRole ''evagg_superadmin'' True,
      SqlText ''GRANT USAGE ON SCHEMA public TO evagg_app, evagg_superadmin'',
      SqlText ''GRANT SELECT, INSERT, UPDATE, DELETE ON ALL TABLES IN SCHEMA public TO evagg_app'',
      SqlText ''GRANT ALL ON ALL TABLES IN SCHEMA public TO evagg_superadmin'',
      SqlText ''GRANT SELECT, USAGE ON ALL SEQUENCES IN SCHEMA public TO evagg_app, evagg_superadmin'',
      SqlText ''ALTER DEFAULT PRIVILEGES IN SCHEMA public GRANT SELECT, INSERT, UPDATE, DELETE ON TABLES TO evagg_app'',
      SqlText ''ALTER DEFAULT PRIVILEGES IN SCHEMA public GRANT ALL ON TABLES TO evagg_superadmin'']"

definition protect_table :: "string \<Rightarrow> sql list" where
  "protect_table t = [EnableRls t, ForceRls t, CreatePolicy POLICY_NAME t (tenant_column t)]"

definition unprotect_table :: "string \<Rightarrow> sql list" where
  "unprotect_table t = [DropPolicy POLICY_NAME t, NoForceRls t, DisableRls t]"

definition rls_upgrade :: "sql list" where
  "rls_upgrade = role_statements @ concat (map protect_table tables_requiring_rls)"

definition rls_downgrade :: "sql list" where
  "rls_downgrade = concat (map unprotect_table tables_requiring_rls) @
     [SqlText ''REVOKE ALL ON ALL TABLES IN SCHEMA public FROM evagg_app, evagg_superadmin'',
      SqlText ''REVOKE USAGE ON SCHEMA public FROM evagg_app, evagg_superadmin'']"

definition core_upgrade :: "sql list" where
  "core_upgrade = [CreateAll]"

definition core_downgrade :: "sql list" where
  "core_downgrade = [DropAll]"

text \<open>\<open>available\<close> is the answer of \<open>_timescaledb_available\<close>, \<open>active\<close> that of \<open>_timescaledb_active\<close>.\<close>

definition hypertables_upgrade :: "bool \<Rightarrow> sql list" where
  "hypertables_upgrade available =
     (if \<not> available then [CreateView ''meter_value_hourly'' ''meter_value'']
      else [SqlText ''CREATE EXTENSION IF NOT EXISTS timescaledb'',
        SqlText ''SELECT create_hypertable('meter_value', 'ts', chunk_time_interval => INTERVAL '1 day', migrate_data => TRUE, if_not_exists => TRUE)'',
        SqlText ''SELECT create_hypertable('status_log', 'ts', chunk_time_interval => INTERVAL '1 day', migrate_data => TRUE, if_not_exists => TRUE)'',
        CreateContinuousAggregate ''meter_value_hourly'' ''meter_value'',
        SqlText ''SELECT add_continuous_aggregate_policy('meter_value_hourly', start_offset => INTERVAL '3 hours', end_offset => INTERVAL '1 hour', schedule_interval => INTERVAL '1 hour', if_not_exists => TRUE)''])"

definition hypertables_downgrade :: "bool \<Rightarrow> sql list" where
  "hypertables_downgrade available =
     [SqlText (if \<not> available then ''DROP VIEW IF EXISTS meter_value_hourly'' else ''DROP MATERIALIZED VIEW IF EXISTS meter_value_hourly CASCADE'')]"

definition retention_upgrade :: "bool \<Rightarrow> sql list" where
  "retention_upgrade active = (if \<not> active then []
     else [SqlText ''SELECT add_retention_policy('meter_value', INTERVAL '90 days')'', SqlText ''SELECT add_retention_policy('status_log', INTERVAL '90 days')''])"

definition retention_downgrade :: "bool \<Rightarrow> sql list" where
  "retention_downgrade active = (if \<not> active then []
     else [SqlText ''SELECT remove_retention_policy('status_log', if_exists => TRUE)'', SqlText ''SELECT remove_retention_policy('meter_value', if_exists => TRUE)''])"

text \<open>The columns, unique constraints and indexes the inspector finds on \<open>charger\<close>.\<close>

definition charge_point_id_upgrade :: "string list \<Rightarrow> string list \<Rightarrow> string list \<Rightarrow> sql list" where
  "charge_point_id_upgrade columns constraints indexes =
     (if ''charge_point_id'' \<notin> set columns
      then [SqlText ''ALTER TABLE charger ADD COLUMN charge_point_id VARCHAR(255)'',
        SqlText ''UPDATE charger SET charge_point_id = id::text WHERE charge_point_id IS NULL'',
        SqlText ''ALTER TABLE charger ALTER COLUMN charge_point_id SET NOT NULL''] else [])
     @ (if ''uq_charger_charge_point_id'' \<notin> set constraints
        then [SqlText ''ALTER TABLE charger ADD CONSTRAINT uq_charger_charge_point_id UNIQUE (charge_point_id)''] else [])
     @ (if ''ix_charger_charge_point_id'' \<notin> set indexes
        then [SqlText ''CREATE INDEX ix_charger_charge_point_id ON charger (charge_point_id)''] else [])"

definition charge_point_id_downgrade :: "sql list" where
  "charge_point_id_downgrade =
     [SqlText ''DROP INDEX ix_charger_charge_point_id'', SqlText ''ALTER TABLE charger DROP CONSTRAINT uq_charger_charge_point_id'',
      SqlText ''ALTER TABLE charger DROP COLUMN charge_point_id'']"

text \<open>\<open>alembic upgrade head\<close>: the revisions in the order of their \<open>down_revision\<close> links.\<close>

definition upgrade_head :: "bool \<Rightarrow> string list \<Rightarrow> string list \<Rightarrow> string list \<Rightarrow> sql list" where
  "upgrade_head timescale columns constraints indexes =
     core_upgrade @ hypertables_upgrade timescale @ rls_upgrade @ retention_upgrade timescale @ charge_point_id_upgrade columns constraints indexes"

subsection \<open>The tenant-scoped session\<close>

text \<open>
  \<open>bind_tenant_context\<close> sets \<open>app.current_tenant\<close> for the transaction; \<open>get_db\<close> binds the tenant of
  the request or raises 401.
\<close>

definition bind_tenant_context :: "uuid \<Rightarrow> string option" where
  "bind_tenant_context tenant = Some (str_uuid tenant)"

definition get_db :: "uuid option \<Rightarrow> py_error http_error + string option" where
  "get_db context = (case require_current_tenant context of Inl e \<Rightarrow> Inl e | Inr tenant \<Rightarrow> Inr (bind_tenant_context tenant))"

text \<open>
  The condition of the policies, \<open>column = NULLIF(current_setting('app.current_tenant', true), '')::uuid\<close>: an
  unset or empty setting is null, and a comparison with null admits no row.
\<close>

definition nullif_uuid :: "string option \<Rightarrow> uuid option" where
  "nullif_uuid setting = (case setting of None \<Rightarrow> None | Some s \<Rightarrow> if s = [] then None else uuid_of_string s)"

definition policy_using :: "(string \<Rightarrow> 'r \<Rightarrow> uuid option) \<Rightarrow> string \<Rightarrow> string option \<Rightarrow> 'r \<Rightarrow> bool" where
  "policy_using cell column setting r \<longleftrightarrow> nullif_uuid setting \<noteq> None \<and> cell column r = nullif_uuid setting"

subsection \<open>The migration protects every audited table\<close>

text \<open>
  The documented effect of the migration's statements on the catalogue: \<open>ENABLE\<close> and \<open>DISABLE ROW LEVEL
  SECURITY\<close> set the flag of their table, \<open>CREATE POLICY\<close> adds a policy with a new name, \<open>DROP POLICY IF
  EXISTS\<close> removes it, and the other statements touch neither.
\<close>

fun rls_after :: "sql \<Rightarrow> string \<Rightarrow> bool \<Rightarrow> bool" where
  "rls_after (EnableRls u) t b \<longleftrightarrow> t = u \<or> b"
| "rls_after (DisableRls u) t b \<longleftrightarrow> t \<noteq> u \<and> b"
| "rls_after _ t b \<longleftrightarrow> b"

fun policies_after :: "sql \<Rightarrow> string \<Rightarrow> (string \<times> string) list \<Rightarrow> (string \<times> string) list" where
  "policies_after (CreatePolicy n u col) t ps = (if t = u then ps @ [(n, col)] else ps)"
| "policies_after (DropPolicy n u) t ps = (if t = u then filter (\<lambda>p. fst p \<noteq> n) ps else ps)"
| "policies_after _ t ps = ps"

fun executable_in :: "(string \<Rightarrow> (string \<times> string) list) \<Rightarrow> sql \<Rightarrow> bool" where
  "executable_in pol (CreatePolicy n u col) \<longleftrightarrow> n \<notin> fst ` set (pol u)"
| "executable_in pol _ \<longleftrightarrow> True"

definition catalogue_laws ::
  "(sql \<Rightarrow> 'c \<Rightarrow> 'c) \<Rightarrow> ('c \<Rightarrow> string \<Rightarrow> bool) \<Rightarrow> ('c \<Rightarrow> string \<Rightarrow> (string \<times> string) list) \<Rightarrow> bool" where
  "catalogue_laws exec rls policies \<longleftrightarrow> (\<forall>s c. s \<in> set (rls_upgrade @ rls_downgrade) \<and> executable_in (policies c) s \<longrightarrow>
     (\<forall>t. rls (exec s c) t = rls_after s t (rls c t) \<and> policies (exec s c) t = policies_after s t (policies c t)))"

text \<open>\<open>audit\<close> on the rows the two queries of the catalogue return for the public tables.\<close>

definition audit :: "('c \<Rightarrow> string \<Rightarrow> bool) \<Rightarrow> ('c \<Rightarrow> string \<Rightarrow> (string \<times> string) list) \<Rightarrow> string list \<Rightarrow> 'c \<Rightarrow> string list" where
  "audit rls policies tables c =
     find_tables_missing_rls (map (\<lambda>t. (t, rls c t)) tables)
       (map (\<lambda>t. (t, length (policies c t))) (filter (\<lambda>t. policies c t \<noteq> []) tables))"

definition no_policy_named :: "string \<Rightarrow> ('c \<Rightarrow> string \<Rightarrow> (string \<times> string) list) \<Rightarrow> 'c \<Rightarrow> bool" where
  "no_policy_named n policies c \<longleftrightarrow> (\<forall>t. n \<notin> fst ` set (policies c t))"

lemma dict_get_tabulate: "dict_get (map (\<lambda>t. (t, f t)) ts) t = (if t \<in> set ts then Some (f t) else None)"
  by (induction ts) auto

lemma audit_alt:
  "audit rls policies tables c = filter (\<lambda>t. \<not> (t \<in> set tables \<and> rls c t \<and> policies c t \<noteq> [])) tables_requiring_rls"
  unfolding audit_def find_tables_missing_rls_def by (intro filter_cong) (auto simp: dict_get_default_def dict_get_tabulate)

lemma exec_law:
  assumes "catalogue_laws exec rls policies" and "s \<in> set (rls_upgrade @ rls_downgrade)" and "executable_in (policies c) s"
  shows "rls (exec s c) t = rls_after s t (rls c t)" "policies (exec s c) t = policies_after s t (policies c t)"
  using assms unfolding catalogue_laws_def by blast+

lemma protect_all:
  assumes laws: "catalogue_laws exec rls policies" and "distinct ts" and "set ts \<subseteq> set tables_requiring_rls"
    and "\<forall>t \<in> set ts. POLICY_NAME \<notin> fst ` set (policies c t)"
  shows "rls (fold exec (concat (map protect_table ts)) c) t = (t \<in> set ts \<or> rls c t)
    \<and> policies (fold exec (concat (map protect_table ts)) c) t = policies c t @ (if t \<in> set ts then [(POLICY_NAME, tenant_column t)] else [])"
  using assms(2-)
proof (induction ts arbitrary: c)
  case (Cons u ts)
  have m: "EnableRls u \<in> set (rls_upgrade @ rls_downgrade)" "ForceRls u \<in> set (rls_upgrade @ rls_downgrade)"
    "CreatePolicy POLICY_NAME u (tenant_column u) \<in> set (rls_upgrade @ rls_downgrade)"
    using Cons.prems(2) by (auto simp: rls_upgrade_def protect_table_def)
  let ?c1 = "exec (ForceRls u) (exec (EnableRls u) c)" and ?p = "CreatePolicy POLICY_NAME u (tenant_column u)"
  have c1: "rls ?c1 x = (x = u \<or> rls c x)" "policies ?c1 x = policies c x" for x
    using exec_law[OF laws m(1)] exec_law[OF laws m(2)] by simp_all
  have "executable_in (policies ?c1) ?p" using Cons.prems(3) c1(2) by simp
  then have c2: "rls (exec ?p ?c1) x = (x = u \<or> rls c x)"
    "policies (exec ?p ?c1) x = policies c x @ (if x = u then [(POLICY_NAME, tenant_column u)] else [])" for x
    using exec_law[OF laws m(3)] c1 by simp_all
  have "\<forall>x \<in> set ts. POLICY_NAME \<notin> fst ` set (policies (exec ?p ?c1) x)" using Cons.prems(1,3) c2(2) by auto
  from Cons.IH[OF _ _ this] Cons.prems(1,2) c2 show ?case by (auto simp: protect_table_def)
qed simp

lemma unprotect_all:
  assumes laws: "catalogue_laws exec rls policies" and "set ts \<subseteq> set tables_requiring_rls"
  shows "rls (fold exec (concat (map unprotect_table ts)) c) t = (t \<notin> set ts \<and> rls c t)
    \<and> policies (fold exec (concat (map unprotect_table ts)) c) t
        = (if t \<in> set ts then filter (\<lambda>p. fst p \<noteq> POLICY_NAME) (policies c t) else policies c t)"
  using assms(2)
proof (induction ts arbitrary: c)
  case (Cons u ts)
  have "DropPolicy POLICY_NAME u \<in> set (rls_upgrade @ rls_downgrade)" "NoForceRls u \<in> set (rls_upgrade @ rls_downgrade)"
    "DisableRls u \<in> set (rls_upgrade @ rls_downgrade)"
    using Cons.prems by (auto simp: rls_downgrade_def unprotect_table_def)
  note l = this[THEN exec_law(1)[OF laws]] this[THEN exec_law(2)[OF laws]]
  have "rls (fold exec (unprotect_table u) c) x = (x \<noteq> u \<and> rls c x)"
    "policies (fold exec (unprotect_table u) c) x = (if x = u then filter (\<lambda>p. fst p \<noteq> POLICY_NAME) (policies c x) else policies c x)" for x
    using l by (simp_all add: unprotect_table_def)
  then show ?case using Cons by auto
qed simp

lemma texts_keep:
  assumes laws: "catalogue_laws exec rls policies" and "set ss \<subseteq> set (rls_upgrade @ rls_downgrade)" and "list_all (\<lambda>s. case s of CreateRole _ _ \<Rightarrow> True | SqlText _ \<Rightarrow> True | _ \<Rightarrow> False) ss"
  shows "rls (fold exec ss c) t = rls c t \<and> policies (fold exec ss c) t = policies c t"
  using assms(2,3)
proof (induction ss arbitrary: c)
  case (Cons s ss)
  then have "executable_in (policies c) s" "rls_after s t b = b" "policies_after s t ps = ps" for b ps by (cases s; simp)+
  then show ?case using exec_law[OF laws, of s c] Cons by simp
qed simp

lemma after_rls_upgrade:
  assumes "catalogue_laws exec rls policies" and "no_policy_named POLICY_NAME policies c"
  shows "rls (fold exec rls_upgrade c) t = (t \<in> set tables_requiring_rls \<or> rls c t)"
    and "policies (fold exec rls_upgrade c) t = policies c t @ (if t \<in> set tables_requiring_rls then [(POLICY_NAME, tenant_column t)] else [])"
proof -
  let ?c = "fold exec role_statements c"
  have "rls ?c x = rls c x \<and> policies ?c x = policies c x" for x
    using texts_keep[OF assms(1), of role_statements] by (auto simp: rls_upgrade_def role_statements_def)
  then show "rls (fold exec rls_upgrade c) t = (t \<in> set tables_requiring_rls \<or> rls c t)"
    "policies (fold exec rls_upgrade c) t = policies c t @ (if t \<in> set tables_requiring_rls then [(POLICY_NAME, tenant_column t)] else [])"
    using protect_all[OF assms(1) required_tables(1) subset_refl, of ?c] assms(2) by (simp_all add: rls_upgrade_def no_policy_named_def)
qed

lemma after_rls_downgrade:
  assumes "catalogue_laws exec rls policies"
  shows "rls (fold exec rls_downgrade c) t = (t \<notin> set tables_requiring_rls \<and> rls c t)"
    and "policies (fold exec rls_downgrade c) t
      = (if t \<in> set tables_requiring_rls then filter (\<lambda>p. fst p \<noteq> POLICY_NAME) (policies c t) else policies c t)"
  unfolding rls_downgrade_def fold_append comp_apply
  using unprotect_all[OF assms subset_refl, of c t] texts_keep[OF assms, of "drop (length (concat (map unprotect_table tables_requiring_rls))) rls_downgrade"]
  by (simp_all add: rls_downgrade_def)

text \<open>
  C38: The migration satisfies the audit, and reverting it does not: over any catalogue on which the
  statements have their documented effect, the audit finds nothing after the upgrade, reports every
  audited table after the downgrade, and the downgrade leaves every table exactly the policies it had.
\<close>

theorem rls_migration_audited:
  assumes "catalogue_laws exec rls policies" and "no_policy_named POLICY_NAME policies c" and "set tables_requiring_rls \<subseteq> set tables"
  shows "audit rls policies tables (fold exec rls_upgrade c) = []
    \<and> audit rls policies tables (fold exec rls_downgrade (fold exec rls_upgrade c)) = tables_requiring_rls
    \<and> (\<forall>t. policies (fold exec rls_downgrade (fold exec rls_upgrade c)) t = policies c t)"
proof -
  note up = after_rls_upgrade[OF assms(1,2)] and down = after_rls_downgrade[OF assms(1), of "fold exec rls_upgrade c"]
  have "filter (\<lambda>p. fst p \<noteq> POLICY_NAME) (policies c t) = policies c t" for t
    using assms(2) by (force simp: no_policy_named_def filter_id_conv)
  then have "policies (fold exec rls_downgrade (fold exec rls_upgrade c)) t = policies c t" for t
    using up down by simp
  moreover have "audit rls policies tables (fold exec rls_upgrade c) = []"
    using assms(3) up by (auto simp: audit_alt filter_empty_conv)
  moreover have "audit rls policies tables (fold exec rls_downgrade (fold exec rls_upgrade c)) = tables_requiring_rls"
    using down by (auto simp: audit_alt filter_id_conv)
  ultimately show ?thesis by blast
qed

text \<open>A catalogue as a pair of functions, on which the statements have that effect.\<close>

type_synonym small_catalogue = "(string \<Rightarrow> bool) \<times> (string \<Rightarrow> (string \<times> string) list)"

definition small_exec :: "sql \<Rightarrow> small_catalogue \<Rightarrow> small_catalogue" where
  "small_exec s c = (\<lambda>t. rls_after s t (fst c t), \<lambda>t. policies_after s t (snd c t))"

lemma small_catalogue_laws: "catalogue_laws small_exec fst snd"
  by (simp add: catalogue_laws_def small_exec_def)

theorem rls_migration_audited_witness:
  "audit fst snd tables_requiring_rls (fold small_exec rls_upgrade (\<lambda>_. False, \<lambda>_. [])) = []"
  using rls_migration_audited[OF small_catalogue_laws, of "(\<lambda>_. False, \<lambda>_. [])" tables_requiring_rls]
  by (simp add: no_policy_named_def)

text \<open>
  What PostgreSQL returns to a role without \<open>BYPASSRLS\<close> from a table with forced row-level security: the rows some
  policy of the table admits.
\<close>

definition select_law ::
  "('c \<Rightarrow> string \<Rightarrow> string option \<Rightarrow> string \<Rightarrow> 'r list) \<Rightarrow> ('c \<Rightarrow> string \<Rightarrow> bool) \<Rightarrow> ('c \<Rightarrow> string \<Rightarrow> (string \<times> string) list)
    \<Rightarrow> ('c \<Rightarrow> string \<Rightarrow> 'r list) \<Rightarrow> (string \<Rightarrow> 'r \<Rightarrow> uuid option) \<Rightarrow> bool" where
  "select_law select rls policies stored cell \<longleftrightarrow>
     (\<forall>c setting t. rls c t \<longrightarrow> set (select c ''evagg_app'' setting t)
        = {r \<in> set (stored c t). \<exists>p \<in> set (policies c t). policy_using cell (snd p) setting r})"

text \<open>
  C8: Tenants are isolated in the database: after the migration, in any later state with the same
  policies, a session of \<open>get_db\<close> reads from every audited table exactly the rows of the tenant of its
  request; a request without tenant gets no session but a 401; and a connection on which no tenant was
  set reads no row.
\<close>

theorem get_db_isolates_tenants:
  assumes "catalogue_laws exec rls policies" and "no_policy_named POLICY_NAME policies c" and "select_law select rls policies stored cell"
    and "\<forall>t. rls c' t = rls (fold exec rls_upgrade c) t \<and> policies c' t = policies (fold exec rls_upgrade c) t"
    and "t \<in> set tables_requiring_rls" and "policies c t = []"
  shows "get_db None = Inl (HTTPException 401 ''tenant context required'')
    \<and> (\<exists>setting. get_db (Some tenant) = Inr setting
        \<and> set (select c' ''evagg_app'' setting t) = {r \<in> set (stored c' t). cell (tenant_column t) r = Some tenant})
    \<and> select c' ''evagg_app'' None t = []"
proof -
  have c': "rls c' t" "policies c' t = [(POLICY_NAME, tenant_column t)]"
    using after_rls_upgrade[OF assms(1,2)] assms(4-) by auto
  then have "set (select c' ''evagg_app'' s t) = {r \<in> set (stored c' t). policy_using cell (tenant_column t) s r}" for s
    using assms(3) unfolding select_law_def by auto
  note rows = this
  have "nullif_uuid (Some (str_uuid tenant)) = Some tenant" "nullif_uuid None = None" by (simp_all add: nullif_uuid_def)
  then have "set (select c' ''evagg_app'' (Some (str_uuid tenant)) t) = {r \<in> set (stored c' t). cell (tenant_column t) r = Some tenant}"
    "set (select c' ''evagg_app'' None t) = {}"
    unfolding rows policy_using_def by simp_all
  then show ?thesis by (simp add: get_db_def require_current_tenant_def bind_tenant_context_def)
qed

definition small_select :: "small_catalogue \<times> (string \<Rightarrow> (uuid \<times> nat) list) \<Rightarrow> string \<Rightarrow> string option \<Rightarrow> string \<Rightarrow> (uuid \<times> nat) list" where
  "small_select d role setting t = filter (\<lambda>r. \<not> fst (fst d) t
      \<or> list_ex (\<lambda>p. policy_using (\<lambda>_ r. Some (fst r)) (snd p) setting r) (snd (fst d) t)) (snd d t)"

theorem get_db_isolates_tenants_witness:
  "\<exists>setting. get_db (Some 7) = Inr setting
    \<and> set (small_select (fold small_exec rls_upgrade (\<lambda>_. False, \<lambda>_. []), \<lambda>_. [(7, 3), (8, 2)]) ''evagg_app'' setting ''wallet'') = {(7, 3)}"
proof -
  let ?exec = "\<lambda>s (d :: small_catalogue \<times> (string \<Rightarrow> (uuid \<times> nat) list)). (small_exec s (fst d), snd d)"
  let ?c = "((\<lambda>_. False, \<lambda>_. []) :: small_catalogue, \<lambda>_ :: string. [(7 :: uuid, 3 :: nat), (8, 2)])"
  have laws: "catalogue_laws ?exec (\<lambda>d. fst (fst d)) (\<lambda>d. snd (fst d))"
    by (simp add: catalogue_laws_def small_exec_def)
  have none: "no_policy_named POLICY_NAME (\<lambda>d. snd (fst d)) ?c" by (simp add: no_policy_named_def)
  have sel: "select_law small_select (\<lambda>d. fst (fst d)) (\<lambda>d. snd (fst d)) snd (\<lambda>_ r. Some (fst r))"
    by (auto simp: select_law_def small_select_def list_ex_iff)
  have f: "fold ?exec ss ?c = (fold small_exec ss (fst ?c), snd ?c)" for ss
    by (induction ss rule: rev_induct) simp_all
  have "''wallet'' \<in> set tables_requiring_rls" unfolding tables_requiring_rls_list by simp
  then have w: "\<exists>setting. get_db (Some 7) = Inr setting \<and> set (small_select (fold ?exec rls_upgrade ?c) ''evagg_app'' setting ''wallet'')
      = {r \<in> set (snd (fold ?exec rls_upgrade ?c) ''wallet''). Some (fst r) = Some 7}"
    using get_db_isolates_tenants[OF laws none sel, of "fold ?exec rls_upgrade ?c" "''wallet''" 7] by simp
  have "{r \<in> set [(7 :: uuid, 3 :: nat), (8, 2)]. Some (fst r) = Some 7} = {(7, 3)}" by auto
  then show ?thesis using w[unfolded f] by simp
qed

subsection \<open>The order of the migrations\<close>

text \<open>TimescaleDB refuses a continuous aggregate over a table whose row-level security is on.\<close>

fun aggregates_allowed :: "string list \<Rightarrow> sql list \<Rightarrow> bool" where
  "aggregates_allowed protected [] \<longleftrightarrow> True"
| "aggregates_allowed protected (s # ss) \<longleftrightarrow>
     (case s of CreateContinuousAggregate n base \<Rightarrow> base \<notin> set protected | _ \<Rightarrow> True)
     \<and> aggregates_allowed (case s of EnableRls t \<Rightarrow> t # protected | _ \<Rightarrow> protected) ss"

definition creates_aggregate :: "sql \<Rightarrow> bool" where
  "creates_aggregate s \<longleftrightarrow> (case s of CreateContinuousAggregate _ _ \<Rightarrow> True | _ \<Rightarrow> False)"

lemma no_aggregate_allowed: "list_all (\<lambda>s. \<not> creates_aggregate s) ss \<Longrightarrow> aggregates_allowed protected ss"
  by (induction ss arbitrary: protected) (auto simp: creates_aggregate_def split: sql.splits)

lemma aggregates_allowed_append:
  "list_all (\<lambda>s. case s of EnableRls _ \<Rightarrow> False | _ \<Rightarrow> True) as \<Longrightarrow>
   aggregates_allowed protected (as @ bs) \<longleftrightarrow> aggregates_allowed protected as \<and> aggregates_allowed protected bs"
  by (induction as arbitrary: protected) (auto split: sql.splits)

lemma later_statements_no_aggregate:
  "list_all (\<lambda>s. \<not> creates_aggregate s) (rls_upgrade @ retention_upgrade a @ charge_point_id_upgrade x y z)"
  by (auto simp: rls_upgrade_def role_statements_def protect_table_def retention_upgrade_def charge_point_id_upgrade_def creates_aggregate_def list_all_iff)

text \<open>
  The chain of migrations runs on TimescaleDB: whatever extensions, columns and indexes exist,
  \<open>upgrade head\<close> never creates a continuous aggregate over a table that already has row-level
  security; with the two migrations exchanged it would.
\<close>

theorem migration_chain_order:
  "aggregates_allowed [] (upgrade_head timescale columns constraints indexes)
   \<and> \<not> aggregates_allowed [] (core_upgrade @ rls_upgrade @ hypertables_upgrade True)"
proof -
  have "aggregates_allowed [] (core_upgrade @ hypertables_upgrade timescale)"
    by (simp add: core_upgrade_def hypertables_upgrade_def)
  moreover have "list_all (\<lambda>s. case s of EnableRls _ \<Rightarrow> False | _ \<Rightarrow> True) (core_upgrade @ hypertables_upgrade timescale)"
    by (simp add: core_upgrade_def hypertables_upgrade_def)
  ultimately have "aggregates_allowed [] (upgrade_head timescale columns constraints indexes)"
    using no_aggregate_allowed[OF later_statements_no_aggregate] aggregates_allowed_append unfolding upgrade_head_def by (metis append.assoc)
  moreover have "\<not> aggregates_allowed [] (core_upgrade @ rls_upgrade @ hypertables_upgrade True)"
    by code_simp
  ultimately show ?thesis by blast
qed

subsection \<open>The other two sessions\<close>

text \<open>
  \<open>get_tenant_scoped_db\<close> over a session factory: what happens to the session, in order; \<open>bind\<close> says whether the statement that
  binds the tenant succeeds. \<open>get_superadmin_db\<close> writes an access line before it opens a session of the bypassing role.
\<close>

datatype session_event = SessionOpened | TenantBound "string option" | SessionYielded | SessionClosed

definition get_tenant_scoped_db :: "(string option \<Rightarrow> py_error + unit) \<Rightarrow> uuid option \<Rightarrow> (py_error http_error + unit) \<times> session_event list" where
  "get_tenant_scoped_db bind context =
     (case require_current_tenant context of
        Inl e \<Rightarrow> (Inl e, [])
      | Inr tenant \<Rightarrow>
        (case bind (bind_tenant_context tenant) of
           Inl e \<Rightarrow> (Inl (Raised e), [SessionOpened, SessionClosed])
         | Inr _ \<Rightarrow> (Inr (), [SessionOpened, TenantBound (bind_tenant_context tenant), SessionYielded, SessionClosed])))"

record superadmin_access =
  sa_actor :: string
  sa_reason :: string
  sa_table :: "string option"

definition log_superadmin_access :: "string \<Rightarrow> string \<Rightarrow> string option \<Rightarrow> superadmin_access list \<Rightarrow> superadmin_access list" where
  "log_superadmin_access actor reason table lines = lines @ [\<lparr>sa_actor = actor, sa_reason = reason, sa_table = table\<rparr>]"

text \<open>The role of the session and the access log.\<close>

definition get_superadmin_db :: "string \<Rightarrow> string \<Rightarrow> superadmin_access list \<Rightarrow> string \<times> superadmin_access list" where
  "get_superadmin_db actor reason lines = (''evagg_superadmin'', log_superadmin_access actor reason None lines)"

text \<open>
  A session is never handed out unbound: whatever the factory's sessions do, one is yielded only after the tenant of the
  request was bound on it, every opened one is closed, and without tenant none is opened. The superadmin session is the role the
  migration creates with the right to bypass the policies, and each use adds one line to the access log.
\<close>

theorem sessions_bound_and_closed:
  "(case get_tenant_scoped_db bind context of
      (Inr _, es) \<Rightarrow> \<exists>tenant. context = Some tenant \<and> es = [SessionOpened, TenantBound (Some (str_uuid tenant)), SessionYielded, SessionClosed]
    | (Inl _, es) \<Rightarrow> es \<in> {[], [SessionOpened, SessionClosed]} \<and> (context = None \<longrightarrow> es = []))
   \<and> length (snd (get_superadmin_db actor reason lines)) = Suc (length lines)
   \<and> {s \<in> set rls_upgrade. \<exists>b. s = CreateRole (fst (get_superadmin_db actor reason lines)) b} = {CreateRole ''evagg_superadmin'' True}"
proof (intro conjI)
  show "case get_tenant_scoped_db bind context of
      (Inr _, es) \<Rightarrow> \<exists>tenant. context = Some tenant \<and> es = [SessionOpened, TenantBound (Some (str_uuid tenant)), SessionYielded, SessionClosed]
    | (Inl _, es) \<Rightarrow> es \<in> {[], [SessionOpened, SessionClosed]} \<and> (context = None \<longrightarrow> es = [])"
    by (auto simp: get_tenant_scoped_db_def require_current_tenant_def bind_tenant_context_def split: option.split sum.split)
  show "length (snd (get_superadmin_db actor reason lines)) = Suc (length lines)" by (simp add: get_superadmin_db_def log_superadmin_access_def)
  show "{s \<in> set rls_upgrade. \<exists>b. s = CreateRole (fst (get_superadmin_db actor reason lines)) b} = {CreateRole ''evagg_superadmin'' True}"
    by (auto simp: get_superadmin_db_def rls_upgrade_def role_statements_def protect_table_def)
qed

end
