(* ===== verification/Supabase.thy ===== *)
theory Supabase
  imports Tariffs Wallet Ocpp_Commands "HOL-Library.Multiset"
begin

text \<open>
  The Supabase backend: the PostgREST client (\<open>persistence/supabase_client.py\<close>) and the
  repositories built on it, the tariff store and the wallet ledger
  (\<open>persistence/supabase_billing.py\<close>) and the stores of the OCPP gateway
  (\<open>persistence/supabase_ocpp.py\<close>). An HTTP exchange is a function from the request and the state
  of the database to status, text and decoded body; what the repositories rely on is
  the locale \<open>postgrest\<close>, interpreted on the simulator the project's tests run them against
  (\<open>tests/unit/persistence/fake_postgrest.py\<close>).
\<close>

subsection \<open>Calls that may fail\<close>

datatype supabase_error = SupabaseError string | SbTariffNotFound string | SbUnknownTransaction string | SbRaised py_error

type_synonym ('d, 'a) sb = "'d \<Rightarrow> (supabase_error + 'a) \<times> 'd"

definition sret :: "'a \<Rightarrow> ('d, 'a) sb" where
  "sret x d = (Inr x, d)"

definition sbind :: "('d, 'a) sb \<Rightarrow> ('a \<Rightarrow> ('d, 'b) sb) \<Rightarrow> ('d, 'b) sb" where
  "sbind m f d = (case m d of (Inl e, d1) \<Rightarrow> (Inl e, d1) | (Inr a, d1) \<Rightarrow> f a d1)"

definition slift :: "py_error + 'a \<Rightarrow> ('d, 'a) sb" where
  "slift r d = (case r of Inl e \<Rightarrow> (Inl (SbRaised e), d) | Inr a \<Rightarrow> (Inr a, d))"

fun sforeach :: "('a \<Rightarrow> ('d, 'b) sb) \<Rightarrow> 'a list \<Rightarrow> ('d, 'b list) sb" where
  "sforeach f [] = sret []"
| "sforeach f (x # xs) = sbind (f x) (\<lambda>y. sbind (sforeach f xs) (\<lambda>ys. sret (y # ys)))"

lemma sbind_simps [simp]:
  "sbind (sret x) f = f x" "sbind m f d = (case m d of (Inl e, d1) \<Rightarrow> (Inl e, d1) | (Inr a, d1) \<Rightarrow> f a d1)"
  by (auto simp: sbind_def sret_def)

subsection \<open>The REST client\<close>

type_synonym row = "(string \<times> json) list"

record rest_request =
  rr_method :: string
  rr_url :: string
  rr_params :: "(string \<times> string) list"
  rr_headers :: "(string \<times> string) list"
  rr_json :: json

type_synonym 'd http = "rest_request \<Rightarrow> 'd \<Rightarrow> (int \<times> string \<times> json) \<times> 'd"

record sb_config =
  sb_url :: string
  sb_key :: string

definition sb_headers :: "sb_config \<Rightarrow> (string \<times> string) list" where
  "sb_headers c = [(''apikey'', sb_key c), (''Authorization'', ''Bearer '' @ sb_key c), (''Content-Type'', ''application/json'')]"

definition table_url :: "sb_config \<Rightarrow> string \<Rightarrow> string" where
  "table_url c table = rev (dropWhile (\<lambda>x. x = CHR ''/'') (rev (sb_url c))) @ ''/rest/v1/'' @ table"

text \<open>The filters are given with their values already rendered by \<open>str\<close>.\<close>

definition filter_params :: "(string \<times> string) list \<Rightarrow> (string \<times> string) list" where
  "filter_params fs = map (\<lambda>(c, v). (c, ''eq.'' @ v)) fs"

definition sb_failed :: "string \<Rightarrow> string \<Rightarrow> int \<Rightarrow> string \<Rightarrow> supabase_error" where
  "sb_failed verb table status msg = SupabaseError (verb @ '' '' @ table @ '' failed (status '' @ str_int status @ ''): '' @ msg)"

definition sb_send :: "'d http \<Rightarrow> string \<Rightarrow> string \<Rightarrow> rest_request \<Rightarrow> ('d, json) sb" where
  "sb_send http verb table rq d =
     (case http rq d of ((status, msg, body), d') \<Rightarrow> (if 400 \<le> status then Inl (sb_failed verb table status msg) else Inr body, d'))"

definition select_request :: "sb_config \<Rightarrow> string \<Rightarrow> (string \<times> string) list \<Rightarrow> string option \<Rightarrow> rest_request" where
  "select_request c table fs order =
     \<lparr>rr_method = ''GET'', rr_url = table_url c table,
      rr_params = filter_params fs @ (case order of None \<Rightarrow> [] | Some [] \<Rightarrow> [] | Some x \<Rightarrow> [(''order'', x)]),
      rr_headers = sb_headers c, rr_json = JNull\<rparr>"

definition rows_of_json :: "json \<Rightarrow> py_error + row list" where
  "rows_of_json j = (case j of JList xs \<Rightarrow>
       (if list_all (\<lambda>x. case x of JObj _ \<Rightarrow> True | _ \<Rightarrow> False) xs then Inr (map (\<lambda>x. case x of JObj kvs \<Rightarrow> kvs | _ \<Rightarrow> []) xs) else Inl IllTyped)
     | _ \<Rightarrow> Inl IllTyped)"

definition sb_select :: "'d http \<Rightarrow> sb_config \<Rightarrow> string \<Rightarrow> (string \<times> string) list \<Rightarrow> string option \<Rightarrow> ('d, row list) sb" where
  "sb_select http c table fs order = sbind (sb_send http ''GET'' table (select_request c table fs order)) (\<lambda>j. slift (rows_of_json j))"

definition sb_select_one :: "'d http \<Rightarrow> sb_config \<Rightarrow> string \<Rightarrow> (string \<times> string) list \<Rightarrow> ('d, row option) sb" where
  "sb_select_one http c table fs =
     sbind (sb_select http c table fs None) (\<lambda>rows. sret (case rows of [] \<Rightarrow> None | r # _ \<Rightarrow> Some r))"

definition write_request :: "sb_config \<Rightarrow> string \<Rightarrow> string \<Rightarrow> (string \<times> string) list \<Rightarrow> string \<Rightarrow> row \<Rightarrow> rest_request" where
  "write_request c meth table params prefer payload =
     \<lparr>rr_method = meth, rr_url = table_url c table, rr_params = params, rr_headers = sb_headers c @ [(''Prefer'', prefer)], rr_json = JObj payload\<rparr>"

text \<open>\<open>data[0] if isinstance(data, list) else data\<close>\<close>

definition first_row :: "json \<Rightarrow> py_error + row" where
  "first_row j = (case j of
      JList [] \<Rightarrow> Inl IndexError
    | JList (JObj kvs # _) \<Rightarrow> Inr kvs
    | JObj kvs \<Rightarrow> Inr kvs
    | _ \<Rightarrow> Inl IllTyped)"

definition sb_insert :: "'d http \<Rightarrow> sb_config \<Rightarrow> string \<Rightarrow> row \<Rightarrow> ('d, row) sb" where
  "sb_insert http c table payload =
     sbind (sb_send http ''POST'' table (write_request c ''POST'' table [] ''return=representation'' payload)) (\<lambda>j. slift (first_row j))"

definition sb_update :: "'d http \<Rightarrow> sb_config \<Rightarrow> string \<Rightarrow> (string \<times> string) list \<Rightarrow> row \<Rightarrow> ('d, row list) sb" where
  "sb_update http c table fs patch =
     sbind (sb_send http ''PATCH'' table (write_request c ''PATCH'' table (filter_params fs) ''return=representation'' patch)) (\<lambda>j. slift (rows_of_json j))"

definition sb_delete :: "'d http \<Rightarrow> sb_config \<Rightarrow> string \<Rightarrow> (string \<times> string) list \<Rightarrow> ('d, unit) sb" where
  "sb_delete http c table fs =
     sbind (sb_send http ''DELETE'' table \<lparr>rr_method = ''DELETE'', rr_url = table_url c table, rr_params = filter_params fs,
        rr_headers = sb_headers c, rr_json = JNull\<rparr>) (\<lambda>_. sret ())"

definition sb_upsert :: "'d http \<Rightarrow> sb_config \<Rightarrow> string \<Rightarrow> row \<Rightarrow> string \<Rightarrow> ('d, row) sb" where
  "sb_upsert http c table payload on_conflict =
     sbind (sb_send http ''UPSERT'' table (write_request c ''POST'' table [(''on_conflict'', on_conflict)]
       ''return=representation,resolution=merge-duplicates'' payload)) (\<lambda>j. slift (first_row j))"

subsection \<open>Reading a row\<close>

definition row_item :: "row \<Rightarrow> string \<Rightarrow> py_error + json" where
  "row_item r k = jitem (JObj r) k"

definition row_str :: "row \<Rightarrow> string \<Rightarrow> py_error + string" where
  "row_str r k = rbind (row_item r k) (\<lambda>v. case v of JStr s \<Rightarrow> Inr s | _ \<Rightarrow> Inl IllTyped)"

definition row_int :: "row \<Rightarrow> string \<Rightarrow> py_error + int" where
  "row_int r k = rbind (row_item r k) (\<lambda>v. case v of JInt n \<Rightarrow> Inr n | _ \<Rightarrow> Inl IllTyped)"

definition row_uuid :: "row \<Rightarrow> string \<Rightarrow> py_error + uuid" where
  "row_uuid r k = rbind (row_item r k) uuid_of_json"

fun jopt_int :: "int option \<Rightarrow> json" where
  "jopt_int None = JNull"
| "jopt_int (Some n) = JInt n"

text \<open>\<open>[f(r) for r in rows]\<close> for a fallible \<open>f\<close>.\<close>

fun rows_map :: "('a \<Rightarrow> py_error + 'b) \<Rightarrow> 'a list \<Rightarrow> py_error + 'b list" where
  "rows_map f [] = Inr []"
| "rows_map f (x # xs) = rbind (f x) (\<lambda>y. rbind (rows_map f xs) (\<lambda>ys. Inr (y # ys)))"

subsection \<open>Tariffs and the wallet ledger\<close>

definition component_row :: "uuid \<Rightarrow> uuid \<Rightarrow> tariff_component \<Rightarrow> row" where
  "component_row tenant tid c =
     [(''tenant_id'', JStr (str_uuid tenant)), (''tariff_id'', JStr (str_uuid tid)), (''type'', JStr (tc_type c)),
      (''price_minor_units'', JInt (tc_price c)), (''step_size'', JInt (tc_step c)), (''applies_after_minutes'', jopt_int (tc_after c))]"

definition sb_insert_components :: "'d http \<Rightarrow> sb_config \<Rightarrow> uuid \<Rightarrow> uuid \<Rightarrow> tariff_component list \<Rightarrow> ('d, unit) sb" where
  "sb_insert_components http c tenant tid cs =
     sbind (sforeach (\<lambda>x. sb_insert http c ''tariff_component'' (component_row tenant tid x)) cs) (\<lambda>_. sret ())"

definition sb_tariff_create :: "'d http \<Rightarrow> sb_config \<Rightarrow> uuid \<Rightarrow> string \<Rightarrow> string \<Rightarrow> tariff_component list \<Rightarrow> ('d, tariff) sb" where
  "sb_tariff_create http c tenant name currency cs =
     sbind (sb_insert http c ''tariff'' [(''tenant_id'', JStr (str_uuid tenant)), (''name'', JStr name), (''currency'', JStr currency)]) (\<lambda>r.
       sbind (slift (row_uuid r ''id'')) (\<lambda>tid.
         sbind (sb_insert_components http c tenant tid cs) (\<lambda>_.
           sret \<lparr>t_id = tid, t_tenant = tenant, t_name = name, t_currency = currency, t_components = cs\<rparr>)))"

definition sb_tariff_update :: "'d http \<Rightarrow> sb_config \<Rightarrow> uuid \<Rightarrow> string \<Rightarrow> tariff_component list \<Rightarrow> ('d, tariff) sb" where
  "sb_tariff_update http c tid name cs =
     sbind (sb_update http c ''tariff'' [(''id'', str_uuid tid)] [(''name'', JStr name)]) (\<lambda>rows.
       case rows of
         [] \<Rightarrow> (\<lambda>d. (Inl (SbTariffNotFound (str_uuid tid)), d))
       | existing # _ \<Rightarrow>
         sbind (sb_delete http c ''tariff_component'' [(''tariff_id'', str_uuid tid)]) (\<lambda>_.
           sbind (slift (row_uuid existing ''tenant_id'')) (\<lambda>tenant.
             sbind (sb_insert_components http c tenant tid cs) (\<lambda>_.
               sbind (slift (row_str existing ''currency'')) (\<lambda>currency.
                 sret \<lparr>t_id = tid, t_tenant = tenant, t_name = name, t_currency = currency, t_components = cs\<rparr>)))))"

definition component_of_row :: "row \<Rightarrow> py_error + tariff_component" where
  "component_of_row r =
     rbind (row_str r ''type'') (\<lambda>ty. rbind (row_int r ''price_minor_units'') (\<lambda>p. rbind (row_int r ''step_size'') (\<lambda>st.
       (case jfield r ''applies_after_minutes'' of
          None \<Rightarrow> Inr \<lparr>tc_type = ty, tc_price = p, tc_step = st, tc_after = None\<rparr>
        | Some JNull \<Rightarrow> Inr \<lparr>tc_type = ty, tc_price = p, tc_step = st, tc_after = None\<rparr>
        | Some (JInt n) \<Rightarrow> Inr \<lparr>tc_type = ty, tc_price = p, tc_step = st, tc_after = Some n\<rparr>
        | Some _ \<Rightarrow> Inl IllTyped))))"

definition sb_hydrate :: "'d http \<Rightarrow> sb_config \<Rightarrow> row \<Rightarrow> ('d, tariff) sb" where
  "sb_hydrate http c r =
     sbind (slift (row_uuid r ''id'')) (\<lambda>tid.
       sbind (sb_select http c ''tariff_component'' [(''tariff_id'', str_uuid tid)] None) (\<lambda>rows.
         sbind (slift (rows_map component_of_row rows)) (\<lambda>cs.
           sbind (slift (row_uuid r ''tenant_id'')) (\<lambda>tenant.
             sbind (slift (row_str r ''name'')) (\<lambda>name.
               sbind (slift (row_str r ''currency'')) (\<lambda>currency.
                 sret \<lparr>t_id = tid, t_tenant = tenant, t_name = name, t_currency = currency, t_components = cs\<rparr>))))))"

definition sb_tariff_get :: "'d http \<Rightarrow> sb_config \<Rightarrow> uuid \<Rightarrow> ('d, tariff option) sb" where
  "sb_tariff_get http c tid =
     sbind (sb_select_one http c ''tariff'' [(''id'', str_uuid tid)]) (\<lambda>r.
       case r of None \<Rightarrow> sret None | Some row \<Rightarrow> sbind (sb_hydrate http c row) (\<lambda>t. sret (Some t)))"

definition sb_tariff_list_all :: "'d http \<Rightarrow> sb_config \<Rightarrow> ('d, tariff list) sb" where
  "sb_tariff_list_all http c = sbind (sb_select http c ''tariff'' [] None) (sforeach (sb_hydrate http c))"

definition tenant_id_for_wallet :: "'d http \<Rightarrow> sb_config \<Rightarrow> uuid \<Rightarrow> ('d, json) sb" where
  "tenant_id_for_wallet http c w =
     sbind (sb_select_one http c ''wallet'' [(''id'', str_uuid w)]) (\<lambda>r.
       case r of None \<Rightarrow> sret JNull | Some [] \<Rightarrow> sret JNull | Some row \<Rightarrow> slift (row_item row ''tenant_id''))"

definition sb_ledger_append :: "'d http \<Rightarrow> sb_config \<Rightarrow> uuid \<Rightarrow> int \<Rightarrow> string \<Rightarrow> string \<Rightarrow> ('d, unit) sb" where
  "sb_ledger_append http c w amount ty ref =
     sbind (tenant_id_for_wallet http c w) (\<lambda>tenant.
       sbind (sb_insert http c ''wallet_ledger'' [(''tenant_id'', tenant), (''wallet_id'', JStr (str_uuid w)), (''amount_minor_units'', JInt amount),
          (''type'', JStr ty), (''reference_id'', JStr ref)]) (\<lambda>_. sret ()))"

definition sb_sum_for_wallet :: "'d http \<Rightarrow> sb_config \<Rightarrow> uuid \<Rightarrow> ('d, int) sb" where
  "sb_sum_for_wallet http c w =
     sbind (sb_select http c ''wallet_ledger'' [(''wallet_id'', str_uuid w)] None) (\<lambda>rows.
       sbind (slift (rows_map (\<lambda>r. row_int r ''amount_minor_units'') rows)) (\<lambda>ns. sret (sum_list ns)))"

definition sb_has_reference :: "'d http \<Rightarrow> sb_config \<Rightarrow> uuid \<Rightarrow> string \<Rightarrow> ('d, bool) sb" where
  "sb_has_reference http c w ref =
     sbind (sb_select http c ''wallet_ledger'' [(''wallet_id'', str_uuid w), (''reference_id'', ref)] None) (\<lambda>rows. sret (rows \<noteq> []))"

subsection \<open>The stores of the OCPP gateway\<close>

text \<open>\<open>now_iso\<close> is \<open>datetime.now().isoformat()\<close>; \<open>isofmt\<close> and \<open>fromiso\<close> convert timestamps.\<close>

definition sb_upsert_on_boot ::
  "'d http \<Rightarrow> sb_config \<Rightarrow> string \<Rightarrow> string \<Rightarrow> uuid \<Rightarrow> string option \<Rightarrow> string option \<Rightarrow> string option \<Rightarrow> ('d, boot_result) sb" where
  "sb_upsert_on_boot http c now_iso charger tenant vendor model firmware =
     sbind (sb_select_one http c ''charger'' [(''charge_point_id'', charger)]) (\<lambda>existing.
       case existing of
         None \<Rightarrow>
           sbind (sb_insert http c ''charger'' [(''charge_point_id'', JStr charger), (''tenant_id'', JStr (str_uuid tenant)), (''vendor'', jopt_str vendor),
              (''model'', jopt_str model), (''firmware_version'', jopt_str firmware), (''status'', JStr ''pending''), (''last_boot_at'', JStr now_iso)]) (\<lambda>_.
             sret \<lparr>br_status = ''pending'', br_new = True\<rparr>)
       | Some row \<Rightarrow>
           sbind (sb_update http c ''charger'' [(''charge_point_id'', charger)] [(''vendor'', jopt_str vendor), (''model'', jopt_str model),
              (''firmware_version'', jopt_str firmware), (''last_boot_at'', JStr now_iso)]) (\<lambda>_.
             sbind (slift (row_str row ''status'')) (\<lambda>st. sret \<lparr>br_status = st, br_new = False\<rparr>)))"

definition sb_charger_row :: "'d http \<Rightarrow> sb_config \<Rightarrow> string \<Rightarrow> ('d, row option) sb" where
  "sb_charger_row http c charger = sb_select_one http c ''charger'' [(''charge_point_id'', charger)]"

definition sb_update_status :: "'d http \<Rightarrow> sb_config \<Rightarrow> string \<Rightarrow> int \<Rightarrow> string \<Rightarrow> string option \<Rightarrow> ('d, unit) sb" where
  "sb_update_status http c charger connector status error_code =
     sbind (sb_charger_row http c charger) (\<lambda>r.
       case r of
         None \<Rightarrow> sret ()
       | Some row \<Rightarrow>
         sbind (slift (rbind (row_item row ''id'') (\<lambda>i. rbind (row_item row ''tenant_id'') (\<lambda>t. Inr (i, t))))) (\<lambda>(i, t).
           sbind (sb_upsert http c ''connector'' [(''charger_id'', i), (''connector_id'', JInt connector), (''status'', JStr status),
              (''error_code'', jopt_str error_code), (''tenant_id'', t)] ''charger_id,connector_id'') (\<lambda>_. sret ())))"

fun json_opt_str :: "json \<Rightarrow> py_error + string option" where
  "json_opt_str JNull = Inr None"
| "json_opt_str (JStr s) = Inr (Some s)"
| "json_opt_str _ = Inl IllTyped"

definition sb_get_status :: "'d http \<Rightarrow> sb_config \<Rightarrow> string \<Rightarrow> int \<Rightarrow> ('d, connector_status option) sb" where
  "sb_get_status http c charger connector =
     sbind (sb_charger_row http c charger) (\<lambda>r.
       case r of
         None \<Rightarrow> sret None
       | Some crow \<Rightarrow>
         sbind (slift (row_str crow ''id'')) (\<lambda>i.
           sbind (sb_select_one http c ''connector'' [(''charger_id'', i), (''connector_id'', str_int connector)]) (\<lambda>r2.
             case r2 of
               None \<Rightarrow> sret None
             | Some row \<Rightarrow>
               sbind (slift (rbind (row_str row ''status'') (\<lambda>st. rbind (rbind (row_item row ''error_code'') json_opt_str) (\<lambda>e. Inr (st, e))))) (\<lambda>(st, e).
                 sret (Some \<lparr>cs_charger = charger, cs_connector = connector, cs_status = st, cs_error = e\<rparr>)))))"

definition sb_set_credential :: "'d http \<Rightarrow> sb_config \<Rightarrow> (string \<Rightarrow> string \<Rightarrow> string) \<Rightarrow> string \<Rightarrow> string \<Rightarrow> string \<Rightarrow> ('d, unit) sb" where
  "sb_set_credential http c kdf salt charger secret =
     sbind (sb_update http c ''charger'' [(''charge_point_id'', charger)] [(''ws_credential_hash'', JStr (hash_credential kdf salt secret))]) (\<lambda>_. sret ())"

definition sb_verify :: "'d http \<Rightarrow> sb_config \<Rightarrow> (string \<Rightarrow> string \<Rightarrow> string) \<Rightarrow> string \<Rightarrow> string \<Rightarrow> ('d, bool) sb" where
  "sb_verify http c kdf charger credential =
     sbind (sb_select_one http c ''charger'' [(''charge_point_id'', charger)]) (\<lambda>r.
       case r of
         None \<Rightarrow> sret False
       | Some row \<Rightarrow>
         (case jfield row ''ws_credential_hash'' of
            None \<Rightarrow> sret False
          | Some v \<Rightarrow>
            if \<not> jtrue v then sret False
            else (case v of JStr stored \<Rightarrow> slift (verify_credential kdf credential stored) | _ \<Rightarrow> slift (Inl IllTyped))))"

definition sb_charger_uuid :: "'d http \<Rightarrow> sb_config \<Rightarrow> string \<Rightarrow> ('d, json) sb" where
  "sb_charger_uuid http c charger =
     sbind (sb_charger_row http c charger) (\<lambda>r.
       case r of None \<Rightarrow> sret JNull | Some [] \<Rightarrow> sret JNull | Some row \<Rightarrow> slift (row_item row ''id''))"

definition sb_get_active_transaction ::
  "'d http \<Rightarrow> sb_config \<Rightarrow> (string \<Rightarrow> py_error + datetime) \<Rightarrow> string \<Rightarrow> ('d, active_transaction option) sb" where
  "sb_get_active_transaction http c fromiso charger =
     sbind (sb_charger_uuid http c charger) (\<lambda>cid.
       case cid of
         JStr i \<Rightarrow>
           sbind (sb_select_one http c ''transaction'' [(''charger_id'', i), (''status'', ''active'')]) (\<lambda>r.
             case r of
               None \<Rightarrow> sret None
             | Some row \<Rightarrow>
               sbind (slift (rbind (row_uuid row ''id'') (\<lambda>i. rbind (row_int row ''connector_id'') (\<lambda>n. rbind (row_str row ''id_tag'') (\<lambda>tag.
                   rbind (rbind (row_str row ''start_timestamp'') fromiso) (\<lambda>t.
                     Inr \<lparr>at_id = i, at_charger = charger, at_connector = n, at_tag = tag, at_start = t\<rparr>)))))) (\<lambda>a. sret (Some a)))
       | JNull \<Rightarrow> sret None
       | _ \<Rightarrow> slift (Inl IllTyped))"

definition sb_start_transaction ::
  "'d http \<Rightarrow> sb_config \<Rightarrow> (datetime \<Rightarrow> string) \<Rightarrow> string \<Rightarrow> uuid \<Rightarrow> int \<Rightarrow> string \<Rightarrow> int \<Rightarrow> datetime \<Rightarrow> ('d, active_transaction) sb" where
  "sb_start_transaction http c isofmt charger tenant connector tag meter start =
     sbind (sb_charger_uuid http c charger) (\<lambda>cid.
       sbind (sb_insert http c ''transaction'' [(''tenant_id'', JStr (str_uuid tenant)), (''charger_id'', cid), (''connector_id'', JInt connector),
          (''id_tag'', JStr tag), (''meter_start'', JInt meter), (''start_timestamp'', JStr (isofmt start)), (''status'', JStr ''active'')]) (\<lambda>row.
         sbind (slift (row_uuid row ''id'')) (\<lambda>i.
           sret \<lparr>at_id = i, at_charger = charger, at_connector = connector, at_tag = tag, at_start = start\<rparr>)))"

text \<open>The result of a stop names the charge point of the charger row, if there is one.\<close>

record sb_stop_result =
  ss_already :: bool
  ss_tenant :: uuid
  ss_charger :: "string option"

definition sb_stop_result_of :: "'d http \<Rightarrow> sb_config \<Rightarrow> bool \<Rightarrow> row \<Rightarrow> ('d, sb_stop_result) sb" where
  "sb_stop_result_of http c already row =
     sbind (slift (row_item row ''charger_id'')) (\<lambda>cid.
       sbind (sb_select_one http c ''charger'' [(''id'', case cid of JStr s \<Rightarrow> s | JInt n \<Rightarrow> str_int n | _ \<Rightarrow> ''None'')]) (\<lambda>crow.
         sbind (slift (row_uuid row ''tenant_id'')) (\<lambda>tenant.
           sbind (case crow of None \<Rightarrow> sret None | Some [] \<Rightarrow> sret None
                  | Some cr \<Rightarrow> slift (rbind (row_str cr ''charge_point_id'') (\<lambda>s. Inr (Some s)))) (\<lambda>cp.
             sret \<lparr>ss_already = already, ss_tenant = tenant, ss_charger = cp\<rparr>))))"

definition sb_stop_transaction ::
  "'d http \<Rightarrow> sb_config \<Rightarrow> (datetime \<Rightarrow> string) \<Rightarrow> uuid \<Rightarrow> int \<Rightarrow> datetime \<Rightarrow> string option \<Rightarrow> ('d, sb_stop_result) sb" where
  "sb_stop_transaction http c isofmt tid meter stop reason =
     sbind (sb_select_one http c ''transaction'' [(''id'', str_uuid tid)]) (\<lambda>r.
       case r of
         None \<Rightarrow> (\<lambda>d. (Inl (SbUnknownTransaction (''unknown transaction_id: '' @ str_uuid tid)), d))
       | Some row \<Rightarrow>
         sbind (slift (row_item row ''status'')) (\<lambda>st.
           if st = JStr ''completed'' then sb_stop_result_of http c True row
           else sbind (sb_update http c ''transaction'' [(''id'', str_uuid tid)] [(''status'', JStr ''completed''), (''meter_stop'', JInt meter),
                  (''stop_timestamp'', JStr (isofmt stop)), (''stop_reason'', jopt_str reason)]) (\<lambda>_.
             sb_stop_result_of http c False row)))"

definition reading_row :: "(datetime \<Rightarrow> string) \<Rightarrow> json \<Rightarrow> meter_reading \<Rightarrow> row" where
  "reading_row isofmt cid x =
     [(''tenant_id'', JStr (str_uuid (mr_tenant x))), (''transaction_id'', JStr (str_uuid (mr_txn x))), (''charger_id'', cid), (''ts'', JStr (isofmt (mr_ts x))),
      (''measurand'', JStr (mr_measurand x)), (''value'', JFloat (mr_value x)), (''unit'', JStr (mr_unit x))]"

definition sb_write_batch :: "'d http \<Rightarrow> sb_config \<Rightarrow> (datetime \<Rightarrow> string) \<Rightarrow> meter_reading list \<Rightarrow> ('d, unit) sb" where
  "sb_write_batch http c isofmt xs =
     sbind (sforeach (\<lambda>x. sbind (sb_charger_uuid http c (mr_charger x)) (\<lambda>cid. sb_insert http c ''meter_value'' (reading_row isofmt cid x))) xs) (\<lambda>_. sret ())"

subsection \<open>The simulator\<close>

text \<open>
  Its tables, and the numbers it draws as ids. A JSON object is read with the last value of a repeated
  key, so \<open>d.update(e)\<close> appends \<open>e\<close> and \<open>d.setdefault(k, v)\<close> appends where \<open>k\<close> is missing.
\<close>

record fake_db =
  fd_tables :: "(string, row list) pydict"
  fd_next :: nat

definition table_rows :: "fake_db \<Rightarrow> string \<Rightarrow> row list" where
  "table_rows d table = dict_get_default (fd_tables d) table []"

text \<open>\<open>str\<close> of a decoded value; on lists, objects and floats the simulator's rows are not filtered.\<close>

fun py_str :: "json \<Rightarrow> string" where
  "py_str (JStr s) = s"
| "py_str (JInt n) = str_int n"
| "py_str JNull = ''None''"
| "py_str (JBool True) = ''True''"
| "py_str (JBool False) = ''False''"
| "py_str _ = []"

definition row_get :: "row \<Rightarrow> string \<Rightarrow> json" where
  "row_get r k = (case jfield r k of None \<Rightarrow> JNull | Some v \<Rightarrow> v)"

definition fake_match :: "(string \<times> string) list \<Rightarrow> row \<Rightarrow> bool" where
  "fake_match params r \<longleftrightarrow> list_all (\<lambda>(c, v). take 3 v = ''eq.'' \<longrightarrow> py_str (row_get r c) = drop 3 v) params"

definition fake_filters :: "(string \<times> string) list \<Rightarrow> (string \<times> string) list" where
  "fake_filters q = filter (\<lambda>p. fst p \<notin> {''order'', ''on_conflict'', ''select''}) q"

definition with_id :: "nat \<Rightarrow> row \<Rightarrow> row" where
  "with_id n r = (if jfield r ''id'' = None then r @ [(''id'', JStr (str_uuid (of_nat n)))] else r)"

definition set_rows :: "string \<Rightarrow> row list \<Rightarrow> fake_db \<Rightarrow> fake_db" where
  "set_rows table rows d = d\<lparr>fd_tables := dict_set table rows (fd_tables d)\<rparr>"

fun update_first :: "('a \<Rightarrow> bool) \<Rightarrow> ('a \<Rightarrow> 'a) \<Rightarrow> 'a list \<Rightarrow> 'a list" where
  "update_first p f [] = []"
| "update_first p f (x # xs) = (if p x then f x # xs else x # update_first p f xs)"

definition same_columns :: "string list \<Rightarrow> row \<Rightarrow> row \<Rightarrow> bool" where
  "same_columns cs r s \<longleftrightarrow> list_all (\<lambda>c. py_str (row_get r c) = py_str (row_get s c)) cs"

definition json_row :: "json \<Rightarrow> row" where
  "json_row j = (case j of JObj kvs \<Rightarrow> kvs | _ \<Rightarrow> [])"

definition fake_post :: "string \<Rightarrow> string option \<Rightarrow> row \<Rightarrow> fake_db \<Rightarrow> (int \<times> string \<times> json) \<times> fake_db" where
  "fake_post table on_conflict payload d =
     (case (case on_conflict of None \<Rightarrow> None | Some [] \<Rightarrow> None
            | Some cols \<Rightarrow> first_match (\<lambda>r. same_columns (split_on (CHR '','') cols) r payload) (table_rows d table)) of
        Some r \<Rightarrow> ((200, [], JList [JObj (r @ payload)]),
          set_rows table (update_first (\<lambda>r. same_columns (split_on (CHR '','') (the on_conflict)) r payload) (\<lambda>r. r @ payload) (table_rows d table)) d)
      | None \<Rightarrow> ((201, [], JList [JObj (with_id (fd_next d) payload)]),
          (set_rows table (table_rows d table @ [with_id (fd_next d) payload]) d)\<lparr>fd_next := Suc (fd_next d)\<rparr>))"

definition fake_handler :: "fake_db http" where
  "fake_handler rq d =
     (let table = last (split_on (CHR ''/'') (rr_url rq));
          fs = fake_filters (rr_params rq);
          rows = table_rows d table;
          payload = json_row (rr_json rq)
      in if rr_method rq = ''GET'' then ((200, [], JList (map JObj (filter (fake_match fs) rows))), set_rows table rows d)
         else if rr_method rq = ''POST'' then fake_post table (dict_get (rr_params rq) ''on_conflict'') payload d
         else if rr_method rq = ''PATCH'' then
           ((200, [], JList (map JObj (map (\<lambda>r. r @ payload) (filter (fake_match fs) rows)))),
            set_rows table (map (\<lambda>r. if fake_match fs r then r @ payload else r) rows) d)
         else if rr_method rq = ''DELETE'' then
           ((200, [], JList (map JObj (filter (fake_match fs) rows))), set_rows table (filter (\<lambda>r. \<not> fake_match fs r) rows) d)
         else ((405, [], JNull), set_rows table rows d))"

subsection \<open>What the repositories rely on\<close>

definition row_matches :: "(string \<times> string) list \<Rightarrow> row \<Rightarrow> bool" where
  "row_matches fs r \<longleftrightarrow> list_all (\<lambda>(c, v). py_str (row_get r c) = v) fs"

text \<open>
  Filters with \<open>=eq.\<close> reach rows in which the column is set (the schema declares the
  columns the repositories filter on \<open>NOT NULL\<close>). A query without \<open>order\<close> returns its rows in any
  order, so a table is a multiset of rows. \<open>accepts\<close> says which rows the
  constraints of the schema admit.
\<close>

definition columns_set :: "string list \<Rightarrow> row multiset \<Rightarrow> bool" where
  "columns_set cs M \<longleftrightarrow> (\<forall>r \<in># M. list_all (\<lambda>c. row_get r c \<noteq> JNull) cs)"

definition plain_name :: "string \<Rightarrow> bool" where
  "plain_name s \<longleftrightarrow> CHR ''/'' \<notin> set s"

definition plain_columns :: "string list \<Rightarrow> bool" where
  "plain_columns cs \<longleftrightarrow> set cs \<inter> {''order'', ''on_conflict'', ''select''} = {}"

definition same_tables :: "('d \<Rightarrow> string \<Rightarrow> row multiset) \<Rightarrow> 'd \<Rightarrow> 'd \<Rightarrow> bool" where
  "same_tables rows d d' \<longleftrightarrow> (\<forall>t. rows d' t = rows d t)"

definition row_added :: "('d \<Rightarrow> string \<Rightarrow> row multiset) \<Rightarrow> string \<Rightarrow> row \<Rightarrow> row \<Rightarrow> 'd \<Rightarrow> 'd \<Rightarrow> bool" where
  "row_added rows table r r' d d' \<longleftrightarrow> (\<forall>k v. jfield r k = Some v \<longrightarrow> jfield r' k = Some v)
     \<and> (jfield r ''id'' = None \<longrightarrow> (\<exists>u. jfield r' ''id'' = Some (JStr (str_uuid u))))
     \<and> rows d' table = add_mset r' (rows d table) \<and> (\<forall>t. t \<noteq> table \<longrightarrow> rows d' t = rows d t)"

locale postgrest =
  fixes http :: "'d http" and cfg :: sb_config and rows :: "'d \<Rightarrow> string \<Rightarrow> row multiset" and accepts :: "'d \<Rightarrow> string \<Rightarrow> row \<Rightarrow> bool"
  assumes select_law: "plain_name table \<Longrightarrow> plain_columns (map fst fs) \<Longrightarrow> columns_set (map fst fs) (rows d table) \<Longrightarrow>
      \<exists>msg rs d'. http (select_request cfg table fs None) d = ((200, msg, JList (map JObj rs)), d')
        \<and> mset rs = filter_mset (row_matches fs) (rows d table) \<and> same_tables rows d d'"
    and insert_law: "plain_name table \<Longrightarrow> accepts d table r \<Longrightarrow>
      \<exists>status msg r' d'. http (write_request cfg ''POST'' table [] ''return=representation'' r) d = ((status, msg, JList [JObj r']), d')
        \<and> status < 400 \<and> row_added rows table r r' d d'"
begin

lemma select_rows:
  assumes "plain_name table" and "plain_columns (map fst fs)" and "columns_set (map fst fs) (rows d table)"
  obtains rs d' where "sb_select http cfg table fs None d = (Inr rs, d')" "mset rs = filter_mset (row_matches fs) (rows d table)" "same_tables rows d d'"
proof -
  obtain msg rs d' where h: "http (select_request cfg table fs None) d = ((200, msg, JList (map JObj rs)), d')"
      "mset rs = filter_mset (row_matches fs) (rows d table)" "same_tables rows d d'"
    using select_law[OF assms] by blast
  have "rows_of_json (JList (map JObj xs)) = Inr xs" for xs
    by (simp add: rows_of_json_def list_all_iff comp_def)
  then have "sb_select http cfg table fs None d = (Inr rs, d')"
    using h(1) by (simp add: sb_select_def sb_send_def slift_def)
  then show ?thesis using h that by blast
qed

lemma insert_row:
  assumes "plain_name table" and "accepts d table r"
  obtains r' d' where "sb_insert http cfg table r d = (Inr r', d')" "row_added rows table r r' d d'"
proof -
  obtain status msg r' d' where h: "http (write_request cfg ''POST'' table [] ''return=representation'' r) d = ((status, msg, JList [JObj r']), d')"
      "status < 400" "row_added rows table r r' d d'"
    using insert_law[OF assms] by blast
  then have "sb_insert http cfg table r d = (Inr r', d')" by (simp add: sb_insert_def sb_send_def slift_def first_row_def)
  then show ?thesis using h that by blast
qed

end

subsection \<open>The simulator meets it\<close>

lemma table_of_url: "plain_name table \<Longrightarrow> last (split_on (CHR ''/'') (table_url c table)) = table"
  using last_split_on[of "CHR ''/''" "rev (dropWhile (\<lambda>x. x = CHR ''/'') (rev (sb_url c))) @ ''/rest/v1''" table]
  by (simp add: table_url_def plain_name_def)

lemma fake_match_params: "fake_match (filter_params fs) = row_matches fs"
  by (rule ext, induction fs) (auto simp: fake_match_def filter_params_def row_matches_def)

lemma fake_filters_params: "plain_columns (map fst fs) \<Longrightarrow> fake_filters (filter_params fs) = filter_params fs"
  unfolding fake_filters_def filter_params_def plain_columns_def filter_id_conv by force

lemma table_rows_set [simp]:
  "table_rows (set_rows table rs d) t = (if t = table then rs else table_rows d t)"
  "table_rows (d\<lparr>fd_next := n\<rparr>) t = table_rows d t"
  by (simp_all add: table_rows_def set_rows_def)

lemma jfield_append: "jfield (a @ b) k = (case jfield b k of Some v \<Rightarrow> Some v | None \<Rightarrow> jfield a k)"
  unfolding jfield_def by (simp add: map_add_def split: option.split)

lemma with_id_keeps: "jfield r k = Some v \<Longrightarrow> jfield (with_id n r) k = Some v"
  by (auto simp: with_id_def jfield_append split: option.split)

lemma with_id_id: "jfield r ''id'' = None \<Longrightarrow> \<exists>u. jfield (with_id n r) ''id'' = Some (JStr (str_uuid u))"
  by (auto simp: with_id_def jfield_append)

definition fake_rows :: "fake_db \<Rightarrow> string \<Rightarrow> row multiset" where
  "fake_rows d table = mset (table_rows d table)"

interpretation fake_postgrest: postgrest fake_handler cfg fake_rows "\<lambda>_ _ _. True" for cfg
proof
  show "\<exists>msg rs d'. fake_handler (select_request cfg table fs None) d = ((200, msg, JList (map JObj rs)), d')
        \<and> mset rs = filter_mset (row_matches fs) (fake_rows d table) \<and> same_tables fake_rows d d'"
    if "plain_name table" "plain_columns (map fst fs)" for table fs d
    using that by (auto simp: fake_handler_def select_request_def table_of_url fake_filters_params fake_match_params Let_def
        fake_rows_def same_tables_def intro!: exI[of _ "filter (row_matches fs) (table_rows d table)"])
  show "\<exists>status msg r' d'. fake_handler (write_request cfg ''POST'' table [] ''return=representation'' r) d = ((status, msg, JList [JObj r']), d')
        \<and> status < 400 \<and> row_added fake_rows table r r' d d'"
    if "plain_name table" for table r d
    using that by (simp add: fake_handler_def write_request_def table_of_url fake_post_def json_row_def with_id_keeps with_id_id Let_def
        fake_rows_def row_added_def)
qed

subsection \<open>The ledger in the database and the ledger in memory\<close>

text \<open>\<open>WalletService.handle_topup_webhook\<close> over the Supabase ledger.\<close>

definition sb_topup_webhook :: "'d http \<Rightarrow> sb_config \<Rightarrow> uuid \<Rightarrow> string \<Rightarrow> int \<Rightarrow> ('d, unit) sb" where
  "sb_topup_webhook http c w txn amount =
     sbind (sb_has_reference http c w txn) (\<lambda>seen. if seen then sret () else sb_ledger_append http c w amount TOPUP txn)"

definition entry_row :: "ledger_entry \<Rightarrow> row \<Rightarrow> bool" where
  "entry_row e r \<longleftrightarrow> jfield r ''wallet_id'' = Some (JStr (str_uuid (le_wallet e))) \<and> jfield r ''amount_minor_units'' = Some (JInt (le_amount e))
     \<and> jfield r ''type'' = Some (JStr (le_type e)) \<and> jfield r ''reference_id'' = Some (JStr (le_ref e))"

definition ledger_rows :: "ledger \<Rightarrow> row multiset \<Rightarrow> bool" where
  "ledger_rows l M \<longleftrightarrow> rel_mset entry_row (mset l) M"

definition ledger_row :: "json \<Rightarrow> uuid \<Rightarrow> int \<Rightarrow> string \<Rightarrow> string \<Rightarrow> row" where
  "ledger_row tenant w amount ty ref = [(''tenant_id'', tenant), (''wallet_id'', JStr (str_uuid w)), (''amount_minor_units'', JInt amount),
      (''type'', JStr ty), (''reference_id'', JStr ref)]"

text \<open>Every row of the wallet table has its id and its tenant.\<close>

definition wallets_ok :: "row multiset \<Rightarrow> bool" where
  "wallets_ok M \<longleftrightarrow> (\<forall>r \<in># M. row_get r ''id'' \<noteq> JNull \<and> jfield r ''tenant_id'' \<noteq> None)"

lemma ledger_rows_obtain:
  assumes "ledger_rows l M"
  obtains xs ys where "mset xs = mset l" "mset ys = M" "list_all2 entry_row xs ys"
  using assms unfolding ledger_rows_def rel_mset_def by blast

lemma list_all2_right: "list_all2 R xs ys \<Longrightarrow> y \<in> set ys \<Longrightarrow> \<exists>x. R x y"
  by (induction rule: list_all2_induct) auto

lemma sum_list_mset_cong: "mset xs = mset ys \<Longrightarrow> sum_list xs = (sum_list ys :: int)"
  by (metis sum_mset_sum_list)

lemma filter_mset_list_mem: "mset xs = filter_mset P M \<Longrightarrow> x \<in> set xs \<longleftrightarrow> x \<in># M \<and> P x"
  by (drule arg_cong[where f = set_mset]) auto

lemma ledger_rows_append: "ledger_rows l M \<Longrightarrow> entry_row e r \<Longrightarrow> ledger_rows (l @ [e]) (add_mset r M)"
  unfolding ledger_rows_def by (simp add: rel_mset_Plus)

lemma entry_row_matches:
  assumes "entry_row e r"
  shows "row_matches [(''wallet_id'', str_uuid w)] r \<longleftrightarrow> le_wallet e = w"
    and "row_matches [(''wallet_id'', str_uuid w), (''reference_id'', ref)] r \<longleftrightarrow> le_wallet e = w \<and> le_ref e = ref"
    and "row_int r ''amount_minor_units'' = Inr (le_amount e)"
  using assms by (auto simp: entry_row_def row_matches_def row_get_def row_int_def row_item_def jitem_def)

lemma ledger_columns_set:
  assumes "ledger_rows l M" shows "columns_set [''wallet_id'', ''reference_id''] M" "columns_set [''wallet_id''] M"
proof -
  obtain xs ys where h: "mset ys = M" "list_all2 entry_row xs ys" using assms by (rule ledger_rows_obtain)
  have "jfield r ''wallet_id'' \<noteq> None \<and> row_get r ''wallet_id'' \<noteq> JNull \<and> row_get r ''reference_id'' \<noteq> JNull" if "r \<in># M" for r
  proof -
    have "r \<in> set ys" using that h(1) by auto
    then obtain e where "entry_row e r" using list_all2_right[OF h(2)] by blast
    then show ?thesis by (simp add: entry_row_def row_get_def)
  qed
  then show "columns_set [''wallet_id'', ''reference_id''] M" "columns_set [''wallet_id''] M" by (simp_all add: columns_set_def)
qed

lemma filter_entry_rows:
  assumes "list_all2 entry_row xs ys" and "\<And>e r. entry_row e r \<Longrightarrow> P r \<longleftrightarrow> Q e"
  shows "list_all2 entry_row (filter Q xs) (filter P ys)"
  using assms(1) by (induction rule: list_all2_induct) (auto simp: assms(2))

lemma rows_map_amounts:
  assumes "list_all2 entry_row xs ys" and "mset zs = mset ys"
  shows "\<exists>ns. rows_map (\<lambda>r. row_int r ''amount_minor_units'') zs = Inr ns \<and> sum_list ns = (\<Sum>e\<leftarrow>xs. le_amount e)"
proof -
  define g where "g r = (case row_int r ''amount_minor_units'' of Inr n \<Rightarrow> n | Inl _ \<Rightarrow> 0)" for r
  have ys: "map g ys = map le_amount xs"
    using assms(1) by (induction rule: list_all2_induct) (auto simp: g_def entry_row_matches(3))
  have "row_int r ''amount_minor_units'' = Inr (g r)" if "r \<in> set zs" for r
  proof -
    have "r \<in> set ys" using that mset_eq_setD[OF assms(2)] by simp
    then obtain e where "entry_row e r" using list_all2_right[OF assms(1)] by blast
    then show ?thesis by (simp add: g_def entry_row_matches(3))
  qed
  then have "rows_map (\<lambda>r. row_int r ''amount_minor_units'') zs = Inr (map g zs)"
    by (induction zs) auto
  moreover have "sum_list (map g zs) = sum_list (map g ys)"
    using assms(2) by (intro sum_list_mset_cong) simp
  ultimately show ?thesis using ys by simp
qed

text \<open>The tenant \<open>append\<close> writes: that of the wallet's row, or null when there is none.\<close>

definition wallet_tenant :: "row multiset \<Rightarrow> uuid \<Rightarrow> json \<Rightarrow> bool" where
  "wallet_tenant M w tenant \<longleftrightarrow>
     (if \<exists>r \<in># M. row_matches [(''id'', str_uuid w)] r then \<exists>r \<in># M. row_matches [(''id'', str_uuid w)] r \<and> jfield r ''tenant_id'' = Some tenant
      else tenant = JNull)"

text \<open>With the wallets of \<open>d\<close>, the schema admits the ledger rows of the deliveries.\<close>

definition deliveries_accepted ::
  "('d \<Rightarrow> string \<Rightarrow> row \<Rightarrow> bool) \<Rightarrow> ('d \<Rightarrow> string \<Rightarrow> row multiset) \<Rightarrow> row multiset \<Rightarrow> (uuid \<times> string \<times> int) list \<Rightarrow> bool" where
  "deliveries_accepted accepts rows W ds \<longleftrightarrow> (\<forall>d. rows d ''wallet'' = W \<longrightarrow>
     (\<forall>(w, t, a) \<in> set ds. \<forall>tenant. wallet_tenant W w tenant \<longrightarrow> accepts d ''wallet_ledger'' (ledger_row tenant w a TOPUP t)))"

lemma entry_row_ledger_row:
  assumes "\<forall>k v. jfield (ledger_row tenant w a ty ref) k = Some v \<longrightarrow> jfield r k = Some v"
  shows "entry_row \<lparr>le_wallet = w, le_amount = a, le_type = ty, le_ref = ref\<rparr> r"
proof -
  have "jfield (ledger_row tenant w a ty ref) ''wallet_id'' = Some (JStr (str_uuid w))"
    "jfield (ledger_row tenant w a ty ref) ''amount_minor_units'' = Some (JInt a)"
    "jfield (ledger_row tenant w a ty ref) ''type'' = Some (JStr ty)" "jfield (ledger_row tenant w a ty ref) ''reference_id'' = Some (JStr ref)"
    by (simp_all add: ledger_row_def)
  then show ?thesis using assms by (simp add: entry_row_def)
qed

context postgrest
begin

lemma plain_tables: "plain_name ''wallet_ledger''" "plain_name ''wallet''"
  by (simp_all add: plain_name_def)

lemma sum_refines:
  assumes "ledger_rows l (rows d ''wallet_ledger'')"
  obtains d' where "sb_sum_for_wallet http cfg w d = (Inr (sum_for_wallet l w), d')" "same_tables rows d d'"
proof -
  obtain xs ys where h: "mset xs = mset l" "mset ys = rows d ''wallet_ledger''" "list_all2 entry_row xs ys"
    using assms by (rule ledger_rows_obtain)
  obtain rs d' where s: "sb_select http cfg ''wallet_ledger'' [(''wallet_id'', str_uuid w)] None d = (Inr rs, d')"
      "mset rs = filter_mset (row_matches [(''wallet_id'', str_uuid w)]) (rows d ''wallet_ledger'')" "same_tables rows d d'"
    using select_rows[of "''wallet_ledger''" "[(''wallet_id'', str_uuid w)]" d] plain_tables ledger_columns_set(2)[OF assms] by (auto simp: plain_columns_def)
  have "mset rs = mset (filter (row_matches [(''wallet_id'', str_uuid w)]) ys)" using s(2) h(2) by simp
  moreover have "list_all2 entry_row (filter (\<lambda>e. le_wallet e = w) xs) (filter (row_matches [(''wallet_id'', str_uuid w)]) ys)"
    using h(3) entry_row_matches(1) by (rule filter_entry_rows)
  ultimately obtain ns where "rows_map (\<lambda>r. row_int r ''amount_minor_units'') rs = Inr ns" "sum_list ns = (\<Sum>e\<leftarrow>filter (\<lambda>e. le_wallet e = w) xs. le_amount e)"
    using rows_map_amounts by blast
  moreover have "(\<Sum>e\<leftarrow>filter (\<lambda>e. le_wallet e = w) xs. le_amount e) = sum_for_wallet l w"
    unfolding sum_for_wallet_def using h(1) by (intro sum_list_mset_cong) simp
  ultimately show ?thesis using s that[of d'] by (simp add: sb_sum_for_wallet_def slift_def sret_def)
qed

lemma has_reference_refines:
  assumes "ledger_rows l (rows d ''wallet_ledger'')"
  obtains d' where "sb_has_reference http cfg w ref d = (Inr (has_reference l w ref), d')" "same_tables rows d d'"
proof -
  let ?fs = "[(''wallet_id'', str_uuid w), (''reference_id'', ref)]"
  obtain xs ys where h: "mset xs = mset l" "mset ys = rows d ''wallet_ledger''" "list_all2 entry_row xs ys"
    using assms by (rule ledger_rows_obtain)
  obtain rs d' where s: "sb_select http cfg ''wallet_ledger'' ?fs None d = (Inr rs, d')"
      "mset rs = filter_mset (row_matches ?fs) (rows d ''wallet_ledger'')" "same_tables rows d d'"
    using select_rows[of "''wallet_ledger''" ?fs d] plain_tables ledger_columns_set(1)[OF assms] by (auto simp: plain_columns_def)
  have "list_all2 entry_row (filter (\<lambda>e. le_wallet e = w \<and> le_ref e = ref) xs) (filter (row_matches ?fs) ys)"
    using h(3) entry_row_matches(2) by (rule filter_entry_rows)
  then have "filter (row_matches ?fs) ys \<noteq> [] \<longleftrightarrow> filter (\<lambda>e. le_wallet e = w \<and> le_ref e = ref) xs \<noteq> []" by (auto dest: list_all2_lengthD)
  moreover have "rs = [] \<longleftrightarrow> filter (row_matches ?fs) ys = []" using arg_cong[OF s(2), of size] arg_cong[OF h(2), of "\<lambda>M. size (filter_mset (row_matches ?fs) M)"] by (simp flip: length_0_conv mset_filter)
  moreover have "filter (\<lambda>e. le_wallet e = w \<and> le_ref e = ref) xs \<noteq> [] \<longleftrightarrow> has_reference l w ref"
    using mset_eq_setD[OF h(1)] by (auto simp: has_reference_def filter_empty_conv list_ex_iff)
  ultimately show ?thesis using s that[of d'] by (simp add: sb_has_reference_def sret_def)
qed

lemma wallet_tenant_read:
  assumes "wallets_ok (rows d ''wallet'')"
  obtains tenant d' where "tenant_id_for_wallet http cfg w d = (Inr tenant, d')" "wallet_tenant (rows d ''wallet'') w tenant" "same_tables rows d d'"
proof -
  let ?fs = "[(''id'', str_uuid w)]"
  obtain rs d' where s: "sb_select http cfg ''wallet'' ?fs None d = (Inr rs, d')"
      "mset rs = filter_mset (row_matches ?fs) (rows d ''wallet'')" "same_tables rows d d'"
    using select_rows[of "''wallet''" ?fs d] plain_tables assms by (auto simp: plain_columns_def columns_set_def wallets_ok_def)
  show ?thesis
  proof (cases rs)
    case Nil
    then have "\<not> (\<exists>r \<in># rows d ''wallet''. row_matches ?fs r)" using filter_mset_list_mem[OF s(2)] by auto
    then show ?thesis using s Nil that[of JNull d'] by (simp add: tenant_id_for_wallet_def sb_select_one_def sret_def wallet_tenant_def)
  next
    case (Cons r rs')
    then have r: "r \<in># rows d ''wallet''" "row_matches ?fs r" using filter_mset_list_mem[OF s(2)] by auto
    then obtain tenant where t: "jfield r ''tenant_id'' = Some tenant" using assms by (auto simp: wallets_ok_def)
    then have "r \<noteq> []" by auto
    then have "tenant_id_for_wallet http cfg w d = (Inr tenant, d')"
      using s Cons t by (cases r) (simp_all add: tenant_id_for_wallet_def sb_select_one_def sret_def slift_def row_item_def jitem_def)
    moreover have "wallet_tenant (rows d ''wallet'') w tenant" using r t unfolding wallet_tenant_def by auto
    ultimately show ?thesis using s that by blast
  qed
qed

lemma append_refines:
  assumes l: "ledger_rows l (rows d ''wallet_ledger'')" and w: "wallets_ok (rows d ''wallet'')"
    and acc: "\<And>e tenant. rows e ''wallet'' = rows d ''wallet'' \<Longrightarrow> wallet_tenant (rows d ''wallet'') w tenant \<Longrightarrow>
      accepts e ''wallet_ledger'' (ledger_row tenant w a ty ref)"
  obtains d' where "sb_ledger_append http cfg w a ty ref d = (Inr (), d')" "ledger_rows (ledger_append w a ty ref l) (rows d' ''wallet_ledger'')"
    "rows d' ''wallet'' = rows d ''wallet''"
proof -
  obtain tenant d1 where t: "tenant_id_for_wallet http cfg w d = (Inr tenant, d1)" "wallet_tenant (rows d ''wallet'') w tenant" "same_tables rows d d1"
    using wallet_tenant_read[OF w] by blast
  then have "accepts d1 ''wallet_ledger'' (ledger_row tenant w a ty ref)" using acc by (simp add: same_tables_def)
  then obtain r' d2 where i: "sb_insert http cfg ''wallet_ledger'' (ledger_row tenant w a ty ref) d1 = (Inr r', d2)"
      "row_added rows ''wallet_ledger'' (ledger_row tenant w a ty ref) r' d1 d2"
    using insert_row[OF plain_tables(1)] by blast
  have "sb_ledger_append http cfg w a ty ref d = (Inr (), d2)"
    using t(1) i(1) by (simp add: sb_ledger_append_def ledger_row_def sret_def)
  moreover have "entry_row \<lparr>le_wallet = w, le_amount = a, le_type = ty, le_ref = ref\<rparr> r'"
    using i(2) by (intro entry_row_ledger_row[of tenant]) (simp add: row_added_def)
  then have "ledger_rows (ledger_append w a ty ref l) (rows d2 ''wallet_ledger'')"
    using ledger_rows_append[OF l] t(3) i(2) by (simp add: ledger_append_def same_tables_def row_added_def)
  moreover have "rows d2 ''wallet'' = rows d ''wallet''" using t(3) i(2) by (simp add: same_tables_def row_added_def)
  ultimately show ?thesis by (rule that)
qed

lemma webhook_refines:
  assumes l: "ledger_rows (ws_ledger s) (rows d ''wallet_ledger'')" and w: "wallets_ok (rows d ''wallet'')"
    and acc: "deliveries_accepted accepts rows (rows d ''wallet'') [(w, t, a)]"
  obtains d' where "sb_topup_webhook http cfg w t a d = (Inr (), d')"
    "ledger_rows (ws_ledger (handle_topup_webhook w t a s)) (rows d' ''wallet_ledger'')" "rows d' ''wallet'' = rows d ''wallet''"
proof -
  obtain d1 where h: "sb_has_reference http cfg w t d = (Inr (has_reference (ws_ledger s) w t), d1)" "same_tables rows d d1"
    using has_reference_refines[OF l] by blast
  then have d1: "rows d1 x = rows d x" for x by (simp add: same_tables_def)
  show ?thesis
  proof (cases "has_reference (ws_ledger s) w t")
    case True
    then show ?thesis using h(1) l d1 that[of d1] by (simp add: sb_topup_webhook_def handle_topup_webhook_def sret_def)
  next
    case False
    obtain d2 where "sb_ledger_append http cfg w a TOPUP t d1 = (Inr (), d2)"
        "ledger_rows (ledger_append w a TOPUP t (ws_ledger s)) (rows d2 ''wallet_ledger'')" "rows d2 ''wallet'' = rows d1 ''wallet''"
      using append_refines[of "ws_ledger s" d1 w a TOPUP t] l w acc d1 by (auto simp: deliveries_accepted_def)
    then show ?thesis using False h(1) d1 that[of d2] by (simp add: sb_topup_webhook_def handle_topup_webhook_def)
  qed
qed

lemma webhooks_refine:
  assumes "ledger_rows (ws_ledger s) (rows d ''wallet_ledger'')" and "wallets_ok (rows d ''wallet'')"
    and "deliveries_accepted accepts rows (rows d ''wallet'') ds"
  shows "\<exists>us d'. sforeach (\<lambda>(w, t, a). sb_topup_webhook http cfg w t a) ds d = (Inr us, d')
    \<and> ledger_rows (ws_ledger (fold (\<lambda>(w, t, a). handle_topup_webhook w t a) ds s)) (rows d' ''wallet_ledger'')"
  using assms
proof (induction ds arbitrary: s d)
  case (Cons x ds)
  obtain w t a where x: "x = (w, t, a)" by (cases x)
  have acc: "deliveries_accepted accepts rows (rows d ''wallet'') [(w, t, a)]" "deliveries_accepted accepts rows (rows d ''wallet'') ds"
    using Cons.prems(3) x by (auto simp: deliveries_accepted_def)
  obtain d1 where h: "sb_topup_webhook http cfg w t a d = (Inr (), d1)"
      "ledger_rows (ws_ledger (handle_topup_webhook w t a s)) (rows d1 ''wallet_ledger'')" "rows d1 ''wallet'' = rows d ''wallet''"
    using webhook_refines[OF Cons.prems(1,2) acc(1)] by blast
  obtain us d2 where "sforeach (\<lambda>(w, t, a). sb_topup_webhook http cfg w t a) ds d1 = (Inr us, d2)"
      "ledger_rows (ws_ledger (fold (\<lambda>(w, t, a). handle_topup_webhook w t a) ds (handle_topup_webhook w t a s))) (rows d2 ''wallet_ledger'')"
    using Cons.IH[OF h(2)] Cons.prems(2) acc(2) h(3) by auto
  then show ?case using h(1) x by (simp add: sret_def)
qed (simp add: sret_def)

end


definition sample_db :: fake_db where
  "sample_db = \<lparr>fd_tables = [(''wallet'', [[(''id'', JStr (str_uuid 1)), (''tenant_id'', JStr (str_uuid 9))]])], fd_next = 0\<rparr>"

definition sample_cfg :: sb_config where
  "sample_cfg = \<lparr>sb_url = ''https://project.supabase.co'', sb_key = ''k''\<rparr>"

lemma sample_db_tables:
  "fake_rows sample_db ''wallet_ledger'' = {#}"
  "fake_rows sample_db ''wallet'' = {#[(''id'', JStr (str_uuid 1)), (''tenant_id'', JStr (str_uuid 9))]#}"
  by (simp_all add: fake_rows_def table_rows_def sample_db_def dict_get_default_def)


subsection \<open>A tariff created in the database is read back\<close>

definition component_stored :: "uuid \<Rightarrow> tariff_component \<Rightarrow> row \<Rightarrow> bool" where
  "component_stored tid c r \<longleftrightarrow> component_of_row r = Inr c \<and> row_matches [(''tariff_id'', str_uuid tid)] r \<and> row_get r ''tariff_id'' \<noteq> JNull"

definition tariff_stored :: "uuid \<Rightarrow> uuid \<Rightarrow> string \<Rightarrow> string \<Rightarrow> row \<Rightarrow> bool" where
  "tariff_stored tid tenant name currency r \<longleftrightarrow> row_uuid r ''id'' = Inr tid \<and> row_uuid r ''tenant_id'' = Inr tenant \<and> row_str r ''name'' = Inr name
     \<and> row_str r ''currency'' = Inr currency \<and> row_matches [(''id'', str_uuid tid)] r \<and> row_get r ''id'' \<noteq> JNull"

definition tariff_rows_accepted :: "('d \<Rightarrow> string \<Rightarrow> row \<Rightarrow> bool) \<Rightarrow> uuid \<Rightarrow> string \<Rightarrow> string \<Rightarrow> tariff_component list \<Rightarrow> bool" where
  "tariff_rows_accepted accepts tenant name currency cs \<longleftrightarrow>
     (\<forall>d. accepts d ''tariff'' [(''tenant_id'', JStr (str_uuid tenant)), (''name'', JStr name), (''currency'', JStr currency)]
        \<and> (\<forall>tid. \<forall>c \<in> set cs. accepts d ''tariff_component'' (component_row tenant tid c)))"

text \<open>No row refers to the id yet.\<close>

definition tariff_id_unused :: "('d \<Rightarrow> string \<Rightarrow> row multiset) \<Rightarrow> 'd \<Rightarrow> uuid \<Rightarrow> bool" where
  "tariff_id_unused rows d tid \<longleftrightarrow> (\<forall>r \<in># rows d ''tariff''. \<not> row_matches [(''id'', str_uuid tid)] r)
     \<and> (\<forall>r \<in># rows d ''tariff_component''. \<not> row_matches [(''tariff_id'', str_uuid tid)] r)"

lemma component_row_stored:
  assumes "\<forall>k v. jfield (component_row tenant tid c) k = Some v \<longrightarrow> jfield r k = Some v"
  shows "component_stored tid c r"
proof -
  have "jfield (component_row tenant tid c) ''tariff_id'' = Some (JStr (str_uuid tid))"
    "jfield (component_row tenant tid c) ''type'' = Some (JStr (tc_type c))"
    "jfield (component_row tenant tid c) ''price_minor_units'' = Some (JInt (tc_price c))"
    "jfield (component_row tenant tid c) ''step_size'' = Some (JInt (tc_step c))"
    "jfield (component_row tenant tid c) ''applies_after_minutes'' = Some (jopt_int (tc_after c))"
    by (simp_all add: component_row_def)
  then have "jfield r ''tariff_id'' = Some (JStr (str_uuid tid))" "jfield r ''type'' = Some (JStr (tc_type c))"
    "jfield r ''price_minor_units'' = Some (JInt (tc_price c))" "jfield r ''step_size'' = Some (JInt (tc_step c))"
    "jfield r ''applies_after_minutes'' = Some (jopt_int (tc_after c))"
    using assms by blast+
  then show ?thesis
    by (cases "tc_after c")
      (simp_all add: component_stored_def component_of_row_def row_matches_def row_get_def row_str_def row_int_def row_item_def jitem_def)
qed

lemma rows_map_components:
  assumes "list_all2 (component_stored tid) cs rs" and "mset xs = mset rs"
  shows "\<exists>cs'. rows_map component_of_row xs = Inr cs' \<and> mset cs' = mset cs"
proof -
  define g where "g r = (case component_of_row r of Inr c \<Rightarrow> c | Inl _ \<Rightarrow> undefined)" for r
  have rs: "map g rs = cs"
    using assms(1) by (induction rule: list_all2_induct) (auto simp: g_def component_stored_def)
  have "component_of_row r = Inr (g r)" if "r \<in> set xs" for r
  proof -
    have "r \<in> set rs" using that mset_eq_setD[OF assms(2)] by simp
    then obtain c where "component_stored tid c r" using list_all2_right[OF assms(1)] by blast
    then show ?thesis by (simp add: g_def component_stored_def)
  qed
  then have "rows_map component_of_row xs = Inr (map g xs)" by (induction xs) auto
  moreover have "mset (map g xs) = mset cs" using assms(2) rs by auto
  ultimately show ?thesis by blast
qed

context postgrest
begin

lemma plain_tariff_tables: "plain_name ''tariff''" "plain_name ''tariff_component''"
  by (simp_all add: plain_name_def)

lemma components_inserted:
  assumes "\<forall>d. \<forall>c \<in> set cs. accepts d ''tariff_component'' (component_row tenant tid c)"
  shows "\<exists>d' rs. sb_insert_components http cfg tenant tid cs d = (Inr (), d') \<and> list_all2 (component_stored tid) cs rs
    \<and> rows d' ''tariff_component'' = mset rs + rows d ''tariff_component'' \<and> (\<forall>t. t \<noteq> ''tariff_component'' \<longrightarrow> rows d' t = rows d t)"
proof -
  have "\<exists>us d' rs. sforeach (\<lambda>x. sb_insert http cfg ''tariff_component'' (component_row tenant tid x)) cs d = (Inr us, d') \<and> list_all2 (component_stored tid) cs rs
    \<and> rows d' ''tariff_component'' = mset rs + rows d ''tariff_component'' \<and> (\<forall>t. t \<noteq> ''tariff_component'' \<longrightarrow> rows d' t = rows d t)"
    using assms
  proof (induction cs arbitrary: d)
    case (Cons c cs)
    obtain r' d1 where i: "sb_insert http cfg ''tariff_component'' (component_row tenant tid c) d = (Inr r', d1)"
        "row_added rows ''tariff_component'' (component_row tenant tid c) r' d d1"
      using insert_row[OF plain_tariff_tables(2), of d "component_row tenant tid c"] Cons.prems by auto
    have "component_stored tid c r'" using i(2) by (intro component_row_stored[of tenant]) (simp add: row_added_def)
    moreover obtain us d2 rs where "sforeach (\<lambda>x. sb_insert http cfg ''tariff_component'' (component_row tenant tid x)) cs d1 = (Inr us, d2)"
        "list_all2 (component_stored tid) cs rs" "rows d2 ''tariff_component'' = mset rs + rows d1 ''tariff_component''"
        "\<forall>t. t \<noteq> ''tariff_component'' \<longrightarrow> rows d2 t = rows d1 t"
      using Cons by force
    ultimately show ?case using i by (intro exI[of _ "r' # us"] exI[of _ d2] exI[of _ "r' # rs"]) (simp add: sret_def row_added_def)
  qed (simp add: sret_def)
  then show ?thesis by (auto simp: sb_insert_components_def sret_def)
qed

lemma tariff_created:
  assumes acc: "tariff_rows_accepted accepts tenant name currency cs"
  obtains tid d' r rs where "sb_tariff_create http cfg tenant name currency cs d
      = (Inr \<lparr>t_id = tid, t_tenant = tenant, t_name = name, t_currency = currency, t_components = cs\<rparr>, d')"
    "tariff_stored tid tenant name currency r" "rows d' ''tariff'' = add_mset r (rows d ''tariff'')"
    "list_all2 (component_stored tid) cs rs" "rows d' ''tariff_component'' = mset rs + rows d ''tariff_component''"
proof -
  let ?p = "[(''tenant_id'', JStr (str_uuid tenant)), (''name'', JStr name), (''currency'', JStr currency)]"
  obtain r d1 where i: "sb_insert http cfg ''tariff'' ?p d = (Inr r, d1)" "row_added rows ''tariff'' ?p r d d1"
    using insert_row[OF plain_tariff_tables(1), of d ?p] acc by (auto simp: tariff_rows_accepted_def)
  obtain tid where tid: "jfield r ''id'' = Some (JStr (str_uuid tid))" using i(2) by (auto simp: row_added_def)
  have "jfield ?p ''tenant_id'' = Some (JStr (str_uuid tenant))" "jfield ?p ''name'' = Some (JStr name)" "jfield ?p ''currency'' = Some (JStr currency)"
    by simp_all
  then have "jfield r ''tenant_id'' = Some (JStr (str_uuid tenant))" "jfield r ''name'' = Some (JStr name)" "jfield r ''currency'' = Some (JStr currency)"
    using i(2) unfolding row_added_def by blast+
  then have st: "tariff_stored tid tenant name currency r"
    using tid by (simp add: tariff_stored_def row_uuid_def row_str_def row_item_def jitem_def row_matches_def row_get_def)
  obtain d2 rs where c: "sb_insert_components http cfg tenant tid cs d1 = (Inr (), d2)" "list_all2 (component_stored tid) cs rs"
      "rows d2 ''tariff_component'' = mset rs + rows d1 ''tariff_component''" "\<forall>t. t \<noteq> ''tariff_component'' \<longrightarrow> rows d2 t = rows d1 t"
    using components_inserted[of cs tenant tid d1] acc by (auto simp: tariff_rows_accepted_def)
  have "sb_tariff_create http cfg tenant name currency cs d
      = (Inr \<lparr>t_id = tid, t_tenant = tenant, t_name = name, t_currency = currency, t_components = cs\<rparr>, d2)"
    using i(1) c(1) st by (simp add: sb_tariff_create_def slift_def sret_def tariff_stored_def)
  then show ?thesis using that st i(2) c by (simp add: row_added_def)
qed

lemma tariff_read_back:
  assumes st: "tariff_stored tid tenant name currency r" "rows d' ''tariff'' = add_mset r (rows d ''tariff'')"
    and cs: "list_all2 (component_stored tid) cs rs" "rows d' ''tariff_component'' = mset rs + rows d ''tariff_component''"
    and set: "columns_set [''id''] (rows d ''tariff'')" "columns_set [''tariff_id''] (rows d ''tariff_component'')"
    and fresh: "tariff_id_unused rows d tid"
  shows "\<exists>cs'. fst (sb_tariff_get http cfg tid d')
      = Inr (Some \<lparr>t_id = tid, t_tenant = tenant, t_name = name, t_currency = currency, t_components = cs'\<rparr>) \<and> mset cs' = mset cs"
proof -
  have "columns_set [''id''] (rows d' ''tariff'')" using st set(1) by (simp add: columns_set_def tariff_stored_def)
  then obtain xs d1 where s: "sb_select http cfg ''tariff'' [(''id'', str_uuid tid)] None d' = (Inr xs, d1)"
      "mset xs = filter_mset (row_matches [(''id'', str_uuid tid)]) (rows d' ''tariff'')" "same_tables rows d' d1"
    using select_rows[of "''tariff''" "[(''id'', str_uuid tid)]" d'] plain_tariff_tables by (auto simp: plain_columns_def)
  have "filter_mset (row_matches [(''id'', str_uuid tid)]) (rows d' ''tariff'') = {#r#}"
    using st fresh by (auto simp: tariff_stored_def tariff_id_unused_def filter_mset_eq_conv)
  then have xs: "xs = [r]" using s(2) by simp
  have d1: "rows d1 ''tariff_component'' = mset rs + rows d ''tariff_component''" using s(3) cs(2) by (simp add: same_tables_def)
  have rs: "row_matches [(''tariff_id'', str_uuid tid)] x \<and> row_get x ''tariff_id'' \<noteq> JNull" if "x \<in> set rs" for x
    using list_all2_right[OF cs(1) that] by (auto simp: component_stored_def)
  have "columns_set [''tariff_id''] (rows d1 ''tariff_component'')" using set(2) d1 rs by (auto simp: columns_set_def)
  then obtain ys d2 where c: "sb_select http cfg ''tariff_component'' [(''tariff_id'', str_uuid tid)] None d1 = (Inr ys, d2)"
      "mset ys = filter_mset (row_matches [(''tariff_id'', str_uuid tid)]) (rows d1 ''tariff_component'')" "same_tables rows d1 d2"
    using select_rows[of "''tariff_component''" "[(''tariff_id'', str_uuid tid)]" d1] plain_tariff_tables by (auto simp: plain_columns_def)
  have "filter (row_matches [(''tariff_id'', str_uuid tid)]) rs = rs" using rs by (simp add: filter_id_conv)
  moreover have "filter_mset (row_matches [(''tariff_id'', str_uuid tid)]) (rows d ''tariff_component'') = {#}"
    using fresh by (auto simp: tariff_id_unused_def multiset_eq_iff not_in_iff[symmetric])
  ultimately have "mset ys = mset rs" using c(2) d1 by (simp flip: mset_filter)
  then obtain cs' where cs': "rows_map component_of_row ys = Inr cs'" "mset cs' = mset cs" using rows_map_components[OF cs(1)] by blast
  then have "fst (sb_tariff_get http cfg tid d') = Inr (Some \<lparr>t_id = tid, t_tenant = tenant, t_name = name, t_currency = currency, t_components = cs'\<rparr>)"
    using s(1) xs st(1) c(1) by (simp add: sb_tariff_get_def sb_select_one_def sb_hydrate_def slift_def sret_def tariff_stored_def)
  then show ?thesis using cs'(2) by blast
qed

end

text \<open>
  A tariff created through the Supabase store is read back: \<open>create\<close> returns a tariff with
  the arguments, and when the database drew an id no row refers to, \<open>get\<close> on that id returns
  the same tariff with the same components, though in whatever order the database lists them.
\<close>

theorem supabase_tariff_round_trip:
  assumes "postgrest http cfg rows accepts" and "tariff_rows_accepted accepts tenant name currency cs"
    and "columns_set [''id''] (rows d ''tariff'')" and "columns_set [''tariff_id''] (rows d ''tariff_component'')"
  shows "\<exists>tid d'. sb_tariff_create http cfg tenant name currency cs d
        = (Inr \<lparr>t_id = tid, t_tenant = tenant, t_name = name, t_currency = currency, t_components = cs\<rparr>, d')
      \<and> (tariff_id_unused rows d tid \<longrightarrow>
          (\<exists>cs'. fst (sb_tariff_get http cfg tid d')
              = Inr (Some \<lparr>t_id = tid, t_tenant = tenant, t_name = name, t_currency = currency, t_components = cs'\<rparr>) \<and> mset cs' = mset cs))"
proof -
  obtain tid d' r rs where h: "sb_tariff_create http cfg tenant name currency cs d
      = (Inr \<lparr>t_id = tid, t_tenant = tenant, t_name = name, t_currency = currency, t_components = cs\<rparr>, d')"
    "tariff_stored tid tenant name currency r" "rows d' ''tariff'' = add_mset r (rows d ''tariff'')"
    "list_all2 (component_stored tid) cs rs" "rows d' ''tariff_component'' = mset rs + rows d ''tariff_component''"
    by (rule postgrest.tariff_created[OF assms(1), OF assms(2)])
  then show ?thesis using postgrest.tariff_read_back[OF assms(1), OF h(2-5) assms(3,4)] by blast
qed

theorem supabase_tariff_round_trip_witness:
  "\<exists>tid d'. sb_tariff_create fake_handler sample_cfg 9 ''Day'' ''EUR'' [\<lparr>tc_type = ''ENERGY'', tc_price = 30, tc_step = 1, tc_after = None\<rparr>] sample_db
        = (Inr \<lparr>t_id = tid, t_tenant = 9, t_name = ''Day'', t_currency = ''EUR'', t_components = [\<lparr>tc_type = ''ENERGY'', tc_price = 30, tc_step = 1, tc_after = None\<rparr>]\<rparr>, d')
      \<and> fst (sb_tariff_get fake_handler sample_cfg tid d')
              = Inr (Some \<lparr>t_id = tid, t_tenant = 9, t_name = ''Day'', t_currency = ''EUR'',
                  t_components = [\<lparr>tc_type = ''ENERGY'', tc_price = 30, tc_step = 1, tc_after = None\<rparr>]\<rparr>)"
proof -
  let ?c = "\<lparr>tc_type = ''ENERGY'', tc_price = 30, tc_step = 1, tc_after = None\<rparr>"
  have e: "fake_rows sample_db ''tariff'' = {#}" "fake_rows sample_db ''tariff_component'' = {#}"
    by (simp_all add: fake_rows_def table_rows_def sample_db_def dict_get_default_def)
  then have "tariff_rows_accepted (\<lambda>_ _ _. True) 9 ''Day'' ''EUR'' [?c]" "columns_set [''id''] (fake_rows sample_db ''tariff'')"
    "columns_set [''tariff_id''] (fake_rows sample_db ''tariff_component'')"
    by (simp_all add: tariff_rows_accepted_def columns_set_def)
  from supabase_tariff_round_trip[OF fake_postgrest.postgrest_axioms, OF this, of sample_cfg]
  obtain tid d' where h: "sb_tariff_create fake_handler sample_cfg 9 ''Day'' ''EUR'' [?c] sample_db
        = (Inr \<lparr>t_id = tid, t_tenant = 9, t_name = ''Day'', t_currency = ''EUR'', t_components = [?c]\<rparr>, d')"
    "tariff_id_unused fake_rows sample_db tid \<longrightarrow> (\<exists>cs'. fst (sb_tariff_get fake_handler sample_cfg tid d')
        = Inr (Some \<lparr>t_id = tid, t_tenant = 9, t_name = ''Day'', t_currency = ''EUR'', t_components = cs'\<rparr>) \<and> mset cs' = mset [?c])"
    by blast
  have "tariff_id_unused fake_rows sample_db tid" by (simp add: tariff_id_unused_def e)
  with h show ?thesis by auto
qed

subsection \<open>A transaction in the database is stopped once\<close>

definition patched :: "row \<Rightarrow> row \<Rightarrow> row \<Rightarrow> bool" where
  "patched patch r r' \<longleftrightarrow> (\<forall>k. jfield r' k = (case jfield patch k of Some v \<Rightarrow> Some v | None \<Rightarrow> jfield r k))"

definition rows_patched :: "('d \<Rightarrow> string \<Rightarrow> row multiset) \<Rightarrow> string \<Rightarrow> (string \<times> string) list \<Rightarrow> (row \<Rightarrow> row) \<Rightarrow> 'd \<Rightarrow> 'd \<Rightarrow> bool" where
  "rows_patched rows table fs upd d d' \<longleftrightarrow>
     rows d' table = image_mset upd (filter_mset (row_matches fs) (rows d table)) + filter_mset (\<lambda>r. \<not> row_matches fs r) (rows d table)
     \<and> (\<forall>t. t \<noteq> table \<longrightarrow> rows d' t = rows d t)"

locale postgrest_patch = postgrest +
  assumes update_law: "plain_name table \<Longrightarrow> plain_columns (map fst fs) \<Longrightarrow> columns_set (map fst fs) (rows d table) \<Longrightarrow>
      \<exists>status msg rs upd d'. http (write_request cfg ''PATCH'' table (filter_params fs) ''return=representation'' p) d = ((status, msg, JList (map JObj rs)), d')
        \<and> status < 400 \<and> (\<forall>r. patched p r (upd r)) \<and> rows_patched rows table fs upd d d'"
begin

lemma update_rows:
  assumes "plain_name table" and "plain_columns (map fst fs)" and "columns_set (map fst fs) (rows d table)"
  obtains rs upd d' where "sb_update http cfg table fs p d = (Inr rs, d')" "\<forall>r. patched p r (upd r)" "rows_patched rows table fs upd d d'"
proof -
  obtain status msg rs upd d' where h: "http (write_request cfg ''PATCH'' table (filter_params fs) ''return=representation'' p) d = ((status, msg, JList (map JObj rs)), d')"
      "status < 400" "\<forall>r. patched p r (upd r)" "rows_patched rows table fs upd d d'"
    using update_law[OF assms, of p] by blast
  have "rows_of_json (JList (map JObj xs)) = Inr xs" for xs
    by (simp add: rows_of_json_def list_all_iff comp_def)
  then have "sb_update http cfg table fs p d = (Inr rs, d')" using h(1,2) by (simp add: sb_update_def sb_send_def slift_def)
  then show ?thesis using h that by blast
qed

lemma select_the_row:
  assumes "plain_name table" and "plain_columns (map fst fs)" and "columns_set (map fst fs) (rows d table)"
    and "filter_mset (row_matches fs) (rows d table) = {#r#}"
  obtains d' where "sb_select_one http cfg table fs d = (Inr (Some r), d')" "same_tables rows d d'"
proof -
  obtain rs d' where "sb_select http cfg table fs None d = (Inr rs, d')" "mset rs = filter_mset (row_matches fs) (rows d table)" "same_tables rows d d'"
    by (rule select_rows[OF assms(1-3)])
  then show ?thesis using assms(4) that by (simp add: sb_select_one_def sret_def)
qed

end

lemma mset_map_if: "mset (map (\<lambda>x. if P x then f x else x) xs) = image_mset f (filter_mset P (mset xs)) + filter_mset (\<lambda>x. \<not> P x) (mset xs)"
  by (induction xs) auto

interpretation fake_patch: postgrest_patch fake_handler cfg fake_rows "\<lambda>_ _ _. True" for cfg
proof
  show "\<exists>status msg rs upd d'. fake_handler (write_request cfg ''PATCH'' table (filter_params fs) ''return=representation'' p) d = ((status, msg, JList (map JObj rs)), d')
        \<and> status < 400 \<and> (\<forall>r. patched p r (upd r)) \<and> rows_patched fake_rows table fs upd d d'"
    if "plain_name table" "plain_columns (map fst fs)" for table fs p d
  proof (intro exI conjI)
    let ?rs = "map (\<lambda>r. r @ p) (filter (row_matches fs) (table_rows d table))"
    show "fake_handler (write_request cfg ''PATCH'' table (filter_params fs) ''return=representation'' p) d
        = ((200, [], JList (map JObj ?rs)), set_rows table (map (\<lambda>r. if row_matches fs r then r @ p else r) (table_rows d table)) d)"
      using that by (simp add: fake_handler_def write_request_def table_of_url fake_filters_params fake_match_params json_row_def Let_def)
    show "\<forall>r. patched p r (r @ p)" by (simp add: patched_def jfield_append)
    show "rows_patched fake_rows table fs (\<lambda>r. r @ p) d (set_rows table (map (\<lambda>r. if row_matches fs r then r @ p else r) (table_rows d table)) d)"
      by (simp add: rows_patched_def fake_rows_def mset_map_if del: mset_map)
  qed simp
qed

text \<open>A transaction row as \<open>start_transaction\<close> writes it for a known charger, and the charger rows it refers to.\<close>

definition transaction_row :: "uuid \<Rightarrow> string \<Rightarrow> string \<Rightarrow> row \<Rightarrow> bool" where
  "transaction_row tenant cid st r \<longleftrightarrow> jfield r ''tenant_id'' = Some (JStr (str_uuid tenant)) \<and> jfield r ''charger_id'' = Some (JStr cid)
     \<and> jfield r ''status'' = Some (JStr st)"

definition chargers_ok :: "row multiset \<Rightarrow> bool" where
  "chargers_ok M \<longleftrightarrow> (\<forall>r \<in># M. row_get r ''id'' \<noteq> JNull \<and> (\<exists>s. jfield r ''charge_point_id'' = Some (JStr s)))"

definition the_transaction :: "('d \<Rightarrow> string \<Rightarrow> row multiset) \<Rightarrow> 'd \<Rightarrow> uuid \<Rightarrow> row \<Rightarrow> bool" where
  "the_transaction rows d tid r \<longleftrightarrow> columns_set [''id''] (rows d ''transaction'') \<and> chargers_ok (rows d ''charger'')
     \<and> filter_mset (row_matches [(''id'', str_uuid tid)]) (rows d ''transaction'') = {#r#}"

context postgrest_patch
begin

lemma plain_ocpp_tables: "plain_name ''transaction''" "plain_name ''charger''" "plain_columns [''id'']"
  by (simp_all add: plain_name_def plain_columns_def)

lemma stop_result_read:
  assumes "transaction_row tenant cid st r" and "chargers_ok (rows d ''charger'')"
  obtains cp d' where "sb_stop_result_of http cfg b r d = (Inr \<lparr>ss_already = b, ss_tenant = tenant, ss_charger = cp\<rparr>, d')" "same_tables rows d d'"
proof -
  obtain rs d' where s: "sb_select http cfg ''charger'' [(''id'', cid)] None d = (Inr rs, d')"
      "mset rs = filter_mset (row_matches [(''id'', cid)]) (rows d ''charger'')" "same_tables rows d d'"
    using select_rows[of "''charger''" "[(''id'', cid)]" d] plain_ocpp_tables assms(2) by (auto simp: columns_set_def chargers_ok_def)
  have rd: "row_item r ''charger_id'' = Inr (JStr cid)" "row_uuid r ''tenant_id'' = Inr tenant"
    using assms(1) by (simp_all add: transaction_row_def row_item_def jitem_def row_uuid_def)
  show ?thesis
  proof (cases rs)
    case Nil
    then show ?thesis using s rd that by (simp add: sb_stop_result_of_def sb_select_one_def slift_def sret_def)
  next
    case (Cons c cs)
    then obtain cp where cp: "jfield c ''charge_point_id'' = Some (JStr cp)"
      using filter_mset_list_mem[OF s(2), of c] assms(2) by (auto simp: chargers_ok_def)
    then have "row_str c ''charge_point_id'' = Inr cp" "c \<noteq> []" by (auto simp: row_str_def row_item_def jitem_def)
    then show ?thesis using s Cons rd that[of "Some cp" d']
      by (cases c) (simp_all add: sb_stop_result_of_def sb_select_one_def slift_def sret_def)
  qed
qed

lemma first_stop:
  assumes t: "the_transaction rows d tid r" and r: "transaction_row tenant cid st r" and st: "st \<noteq> ''completed''"
  obtains cp r' d' where "sb_stop_transaction http cfg isofmt tid m t1 reason d = (Inr \<lparr>ss_already = False, ss_tenant = tenant, ss_charger = cp\<rparr>, d')"
    "the_transaction rows d' tid r'" "transaction_row tenant cid ''completed'' r'"
proof -
  let ?fs = "[(''id'', str_uuid tid)]"
  let ?p = "[(''status'', JStr ''completed''), (''meter_stop'', JInt m), (''stop_timestamp'', JStr (isofmt t1)), (''stop_reason'', jopt_str reason)]"
  obtain d1 where s: "sb_select_one http cfg ''transaction'' ?fs d = (Inr (Some r), d1)" "same_tables rows d d1"
    using select_the_row[of "''transaction''" ?fs d r] plain_ocpp_tables t by (auto simp: the_transaction_def)
  then have d1: "rows d1 x = rows d x" for x by (simp add: same_tables_def)
  have "plain_columns (map fst ?fs)" "columns_set (map fst ?fs) (rows d1 ''transaction'')" using plain_ocpp_tables t d1 by (simp_all add: the_transaction_def)
  then obtain rs upd d2 where u: "sb_update http cfg ''transaction'' ?fs ?p d1 = (Inr rs, d2)" "\<forall>x. patched ?p x (upd x)" "rows_patched rows ''transaction'' ?fs upd d1 d2"
    by (rule update_rows[OF plain_ocpp_tables(1)])
  have upd: "jfield (upd x) ''status'' = Some (JStr ''completed'')" "jfield (upd x) ''id'' = jfield x ''id''"
    "jfield (upd x) ''tenant_id'' = jfield x ''tenant_id''" "jfield (upd x) ''charger_id'' = jfield x ''charger_id''" for x
    using u(2) by (simp_all add: patched_def)
  have fr: "filter_mset (row_matches ?fs) (rows d ''transaction'') = {#r#}" using t by (simp add: the_transaction_def)
  then have "row_matches ?fs r" by (metis filter_mset_eq_conv union_single_eq_member)
  then have ru: "row_matches ?fs (upd r)" by (simp add: row_matches_def row_get_def upd(2))
  have d2: "rows d2 ''transaction'' = add_mset (upd r) (filter_mset (\<lambda>x. \<not> row_matches ?fs x) (rows d ''transaction''))"
    "rows d2 ''charger'' = rows d ''charger''"
    using u(3) d1 fr by (simp_all add: rows_patched_def)
  have "r \<in># rows d ''transaction''" using fr by (metis filter_mset_eq_conv mset_subset_eq_insertD multiset_filter_subset)
  then have "columns_set [''id''] (rows d2 ''transaction'')"
    using t d2 upd(2)[of r] by (auto simp: the_transaction_def columns_set_def row_get_def)
  then have "the_transaction rows d2 tid (upd r)"
    using t d2 ru by (simp add: the_transaction_def filter_filter_mset)
  moreover have "transaction_row tenant cid ''completed'' (upd r)" using r upd by (simp add: transaction_row_def)
  moreover obtain cp d3 where e: "sb_stop_result_of http cfg False r d2 = (Inr \<lparr>ss_already = False, ss_tenant = tenant, ss_charger = cp\<rparr>, d3)" "same_tables rows d2 d3"
    using stop_result_read[OF r, of d2] t d2(2) by (auto simp: the_transaction_def)
  moreover have "row_item r ''status'' = Inr (JStr st)" using r by (simp add: transaction_row_def row_item_def jitem_def)
  then have "sb_stop_transaction http cfg isofmt tid m t1 reason d = (Inr \<lparr>ss_already = False, ss_tenant = tenant, ss_charger = cp\<rparr>, d3)"
    using s(1) u(1) e(1) st by (simp add: sb_stop_transaction_def slift_def)
  ultimately show ?thesis using that[of cp d3 "upd r"] by (simp add: the_transaction_def same_tables_def)
qed

lemma later_stop:
  assumes t: "the_transaction rows d tid r" and r: "transaction_row tenant cid ''completed'' r"
  obtains cp d' where "sb_stop_transaction http cfg isofmt tid m t1 reason d = (Inr \<lparr>ss_already = True, ss_tenant = tenant, ss_charger = cp\<rparr>, d')"
    "same_tables rows d d'"
proof -
  obtain d1 where s: "sb_select_one http cfg ''transaction'' [(''id'', str_uuid tid)] d = (Inr (Some r), d1)" "same_tables rows d d1"
    using select_the_row[of "''transaction''" "[(''id'', str_uuid tid)]" d r] plain_ocpp_tables t by (auto simp: the_transaction_def)
  then have "chargers_ok (rows d1 ''charger'')" using t by (simp add: the_transaction_def same_tables_def)
  then obtain cp d2 where e: "sb_stop_result_of http cfg True r d1 = (Inr \<lparr>ss_already = True, ss_tenant = tenant, ss_charger = cp\<rparr>, d2)" "same_tables rows d1 d2"
    using stop_result_read[OF r] by blast
  have "row_item r ''status'' = Inr (JStr ''completed'')" using r by (simp add: transaction_row_def row_item_def jitem_def)
  then have "sb_stop_transaction http cfg isofmt tid m t1 reason d = (Inr \<lparr>ss_already = True, ss_tenant = tenant, ss_charger = cp\<rparr>, d2)"
    using s(1) e(1) by (simp add: sb_stop_transaction_def slift_def)
  then show ?thesis using s(2) e(2) that by (simp add: same_tables_def)
qed

end

text \<open>
  With the Supabase repository a transaction is stopped once: the first stop of a transaction
  that is not completed returns it as newly stopped, and every later stop, with whatever meter
  value, time and reason, returns that it was already stopped and changes no table, so that the
  meter reading of the first stop is kept.
\<close>

theorem supabase_stop_exactly_once:
  assumes "postgrest_patch http cfg rows accepts" and "the_transaction rows d tid r" and "transaction_row tenant cid st r" and "st \<noteq> ''completed''"
  shows "\<exists>res d'. sb_stop_transaction http cfg isofmt tid m t1 reason d = (Inr res, d') \<and> \<not> ss_already res \<and> ss_tenant res = tenant
    \<and> (\<forall>m' t' reason'. \<exists>res' d''. sb_stop_transaction http cfg isofmt tid m' t' reason' d' = (Inr res', d'')
         \<and> ss_already res' \<and> ss_tenant res' = tenant \<and> (\<forall>table. rows d'' table = rows d' table))"
proof -
  obtain cp r' d' where h: "sb_stop_transaction http cfg isofmt tid m t1 reason d = (Inr \<lparr>ss_already = False, ss_tenant = tenant, ss_charger = cp\<rparr>, d')"
    "the_transaction rows d' tid r'" "transaction_row tenant cid ''completed'' r'"
    by (rule postgrest_patch.first_stop[OF assms(1), OF assms(2-4)])
  have "\<exists>res' d''. sb_stop_transaction http cfg isofmt tid m' t' reason' d' = (Inr res', d'')
         \<and> ss_already res' \<and> ss_tenant res' = tenant \<and> (\<forall>table. rows d'' table = rows d' table)" for m' t' reason'
    by (rule postgrest_patch.later_stop[OF assms(1), OF h(2,3), where isofmt = isofmt and m = m' and ?t1.0 = t' and reason = reason'])
      (auto simp: same_tables_def)
  then show ?thesis using h(1) by simp
qed

definition stop_row :: row where
  "stop_row = [(''id'', JStr (str_uuid 5)), (''tenant_id'', JStr (str_uuid 9)), (''charger_id'', JStr (str_uuid 2)), (''status'', JStr ''active'')]"

definition stop_db :: fake_db where
  "stop_db = \<lparr>fd_tables = [(''transaction'', [stop_row]),
     (''charger'', [[(''id'', JStr (str_uuid 2)), (''charge_point_id'', JStr ''CP1'')]])], fd_next = 0\<rparr>"

theorem supabase_stop_exactly_once_witness:
  "\<exists>res d' res' d''. sb_stop_transaction fake_handler sample_cfg (\<lambda>_. ''t'') 5 1200 0 None stop_db = (Inr res, d') \<and> \<not> ss_already res
    \<and> sb_stop_transaction fake_handler sample_cfg (\<lambda>_. ''t'') 5 9900 1 (Some ''Remote'') d' = (Inr res', d'') \<and> ss_already res'
    \<and> fake_rows d'' ''transaction'' = fake_rows d' ''transaction''"
proof -
  have "the_transaction fake_rows stop_db 5 stop_row" "transaction_row 9 (str_uuid 2) ''active'' stop_row"
    by (simp_all add: the_transaction_def transaction_row_def fake_rows_def table_rows_def dict_get_default_def stop_db_def stop_row_def columns_set_def
        chargers_ok_def row_get_def row_matches_def)
  from supabase_stop_exactly_once[OF fake_patch.postgrest_patch_axioms, OF this, of sample_cfg "\<lambda>_. ''t''" 1200 0 None]
  obtain res d' where h: "sb_stop_transaction fake_handler sample_cfg (\<lambda>_. ''t'') 5 1200 0 None stop_db = (Inr res, d')" "\<not> ss_already res"
    "\<forall>m' t' reason'. \<exists>res' d''. sb_stop_transaction fake_handler sample_cfg (\<lambda>_. ''t'') 5 m' t' reason' d' = (Inr res', d'')
         \<and> ss_already res' \<and> ss_tenant res' = 9 \<and> (\<forall>table. fake_rows d'' table = fake_rows d' table)"
    by auto
  from h(3)[rule_format, of 9900 1 "Some ''Remote''"] obtain res' d'' where
    "sb_stop_transaction fake_handler sample_cfg (\<lambda>_. ''t'') 5 9900 1 (Some ''Remote'') d' = (Inr res', d'')" "ss_already res'"
    "fake_rows d'' ''transaction'' = fake_rows d' ''transaction''" by auto
  with h(1,2) show ?thesis by blast
qed

end
