(* ===== verification/Supabase_Schema.thy ===== *)
theory Supabase_Schema
  imports Supabase Schema
begin

text \<open>
  The rows the Supabase repositories insert (\<open>persistence/supabase_*.py\<close>) against the tables
  \<open>docs/supabase/schema.sql\<close> creates from the mapped classes (\<open>models/*.py\<close>): a default declared on the
  class is filled in by SQLAlchemy and not by the database, so a row sent over REST must carry every
  column that is not nullable and has no server default.
\<close>

subsection \<open>Required columns\<close>

definition required_columns :: "orm_class \<Rightarrow> string list" where
  "required_columns c = map col_name (filter (\<lambda>k. \<not> col_nullable k \<and> \<not> col_server_default k) (table_columns c))"

definition required_of :: "string \<Rightarrow> string list option" where
  "required_of table = map_of (map (\<lambda>c. (oc_tablename c, required_columns c)) all_models) table"

definition missing_required :: "string \<Rightarrow> row \<Rightarrow> bool" where
  "missing_required table r \<longleftrightarrow> (case required_of table of None \<Rightarrow> False | Some ks \<Rightarrow> list_ex (\<lambda>k. row_get r k = JNull) ks)"

lemma required_lists:
  "required_of ''charger'' = Some [''charge_point_id'', ''status'', ''visibility'', ''tenant_id'']"
  "required_of ''transaction''
     = Some [''charger_id'', ''connector_id'', ''id_tag'', ''meter_start'', ''start_timestamp'', ''status'', ''payment_status'', ''tenant_id'']"
  "required_of ''connector'' = Some [''charger_id'', ''connector_id'', ''status'', ''tenant_id'']"
  "required_of ''meter_value'' = Some [''tenant_id'', ''ts'', ''transaction_id'', ''charger_id'', ''measurand'', ''value'', ''unit'']"
  "required_of ''tariff'' = Some [''name'', ''currency'', ''tenant_id'']"
  "required_of ''tariff_component'' = Some [''tariff_id'', ''type'', ''price_minor_units'', ''step_size'', ''tenant_id'']"
  "required_of ''wallet_ledger'' = Some [''wallet_id'', ''amount_minor_units'', ''type'', ''reference_id'', ''tenant_id'']"
  by code_simp+

text \<open>The rows of \<open>upsert_on_boot\<close> and \<open>start_transaction\<close>, and that of \<open>update_status\<close>.\<close>

definition boot_row :: "string \<Rightarrow> uuid \<Rightarrow> string option \<Rightarrow> string option \<Rightarrow> string option \<Rightarrow> string \<Rightarrow> row" where
  "boot_row charger tenant vendor model firmware now_iso =
     [(''charge_point_id'', JStr charger), (''tenant_id'', JStr (str_uuid tenant)), (''vendor'', jopt_str vendor),
      (''model'', jopt_str model), (''firmware_version'', jopt_str firmware), (''status'', JStr ''pending''), (''last_boot_at'', JStr now_iso)]"

definition start_row :: "uuid \<Rightarrow> json \<Rightarrow> int \<Rightarrow> string \<Rightarrow> int \<Rightarrow> string \<Rightarrow> row" where
  "start_row tenant cid connector tag meter start =
     [(''tenant_id'', JStr (str_uuid tenant)), (''charger_id'', cid), (''connector_id'', JInt connector),
      (''id_tag'', JStr tag), (''meter_start'', JInt meter), (''start_timestamp'', JStr start), (''status'', JStr ''active'')]"

definition status_row :: "json \<Rightarrow> int \<Rightarrow> string \<Rightarrow> string option \<Rightarrow> json \<Rightarrow> row" where
  "status_row cid connector status error_code tenant =
     [(''charger_id'', cid), (''connector_id'', JInt connector), (''status'', JStr status), (''error_code'', jopt_str error_code), (''tenant_id'', tenant)]"

text \<open>
  Which rows of the Supabase repositories fit the schema: those of tariffs, their components,
  connectors and meter values carry every required column, a ledger row does when the wallet's tenant was
  found, and the rows of a new charger (no \<open>visibility\<close>) and of a new transaction (no
  \<open>payment_status\<close>) never do.
\<close>

theorem supabase_rows_against_schema:
  "\<not> missing_required ''tariff'' [(''tenant_id'', JStr (str_uuid tenant)), (''name'', JStr name), (''currency'', JStr currency)]
   \<and> \<not> missing_required ''tariff_component'' (component_row tenant tid c)
   \<and> (missing_required ''connector'' (status_row cid connector status error_code ten) \<longleftrightarrow> cid = JNull \<or> ten = JNull)
   \<and> (missing_required ''meter_value'' (reading_row isofmt cid reading) \<longleftrightarrow> cid = JNull)
   \<and> (missing_required ''wallet_ledger'' (ledger_row ten w amount ty ref) \<longleftrightarrow> ten = JNull)
   \<and> missing_required ''charger'' (boot_row charger tenant vendor model firmware now_iso)
   \<and> missing_required ''transaction'' (start_row tenant cid connector tag meter start)"
  by (auto simp: missing_required_def required_lists row_get_def component_row_def status_row_def reading_row_def ledger_row_def boot_row_def start_row_def)

subsection \<open>A server that enforces the schema\<close>

text \<open>
  The documented answer to a row that lacks a required column: an error status, and no change.
\<close>

definition not_null_law :: "'d http \<Rightarrow> sb_config \<Rightarrow> bool" where
  "not_null_law http cfg \<longleftrightarrow> (\<forall>d table r. missing_required table r \<longrightarrow>
     (\<exists>status msg body. http (write_request cfg ''POST'' table [] ''return=representation'' r) d = ((status, msg, body), d) \<and> 400 \<le> status))"

definition checked_handler :: "fake_db http" where
  "checked_handler rq d =
     (if rr_method rq = ''POST'' \<and> missing_required (last (split_on (CHR ''/'') (rr_url rq))) (json_row (rr_json rq))
      then ((400, ''null value violates not-null constraint'', JNull), d) else fake_handler rq d)"

lemma required_names_plain: "required_of table \<noteq> None \<Longrightarrow> plain_name table"
proof -
  have "list_all plain_name (map oc_tablename all_models)" by code_simp
  then show "required_of table \<noteq> None \<Longrightarrow> plain_name table"
    by (auto simp: required_of_def list_all_iff dest!: map_of_SomeD)
qed

lemma checked_not_null: "not_null_law checked_handler cfg"
proof -
  have "last (split_on (CHR ''/'') (table_url cfg table)) = table" if "missing_required table r" for table r
    using that required_names_plain[of table] by (intro table_of_url) (auto simp: missing_required_def split: option.splits)
  then show ?thesis by (auto simp: not_null_law_def checked_handler_def write_request_def json_row_def)
qed

interpretation checked_postgrest: postgrest checked_handler cfg fake_rows "\<lambda>_ table r. \<not> missing_required table r" for cfg
proof
  show "\<exists>msg rs d'. checked_handler (select_request cfg table fs None) d = ((200, msg, JList (map JObj rs)), d')
        \<and> mset rs = filter_mset (row_matches fs) (fake_rows d table) \<and> same_tables fake_rows d d'"
    if "plain_name table" "plain_columns (map fst fs)" "columns_set (map fst fs) (fake_rows d table)" for table fs d
    using fake_postgrest.select_law[OF that, of cfg] by (simp add: checked_handler_def select_request_def)
  show "\<exists>status msg r' d'. checked_handler (write_request cfg ''POST'' table [] ''return=representation'' r) d = ((status, msg, JList [JObj r']), d')
        \<and> status < 400 \<and> row_added fake_rows table r r' d d'"
    if "plain_name table" "\<not> missing_required table r" for table r d
    using fake_postgrest.insert_law[OF that(1) TrueI, of cfg r d] that
    by (simp add: checked_handler_def write_request_def table_of_url json_row_def)
qed

subsection \<open>New chargers and transactions are refused\<close>

definition charger_rows_ok :: "row multiset \<Rightarrow> bool" where
  "charger_rows_ok M \<longleftrightarrow> (\<forall>r \<in># M. row_get r ''charge_point_id'' \<noteq> JNull \<and> jfield r ''id'' \<noteq> None)"

lemma insert_refused:
  assumes "not_null_law http cfg" and "missing_required table r"
  obtains msg where "sb_insert http cfg table r d = (Inl (SupabaseError msg), d)"
proof -
  obtain status msg body where "http (write_request cfg ''POST'' table [] ''return=representation'' r) d = ((status, msg, body), d)" "400 \<le> status"
    using assms unfolding not_null_law_def by blast
  then show ?thesis using that by (simp add: sb_insert_def sb_send_def sb_failed_def)
qed

context postgrest
begin

lemma charger_row_read:
  assumes "charger_rows_ok (rows d ''charger'')"
  obtains res d' where "sb_select_one http cfg ''charger'' [(''charge_point_id'', charger)] d = (Inr res, d')" "same_tables rows d d'"
    "case res of None \<Rightarrow> True | Some r \<Rightarrow> r \<in># rows d ''charger'' \<and> row_matches [(''charge_point_id'', charger)] r"
proof -
  have "plain_name ''charger''" "plain_columns (map fst [(''charge_point_id'', charger)])"
    "columns_set (map fst [(''charge_point_id'', charger)]) (rows d ''charger'')"
    using assms by (simp_all add: plain_name_def plain_columns_def columns_set_def charger_rows_ok_def)
  then obtain rs d' where s: "sb_select http cfg ''charger'' [(''charge_point_id'', charger)] None d = (Inr rs, d')"
      "mset rs = filter_mset (row_matches [(''charge_point_id'', charger)]) (rows d ''charger'')" "same_tables rows d d'"
    by (rule select_rows)
  show ?thesis
    using s filter_mset_list_mem[OF s(2)] that[of "case rs of [] \<Rightarrow> None | r # _ \<Rightarrow> Some r" d']
    by (cases rs) (auto simp: sb_select_one_def sret_def)
qed

lemma boot_refused:
  assumes "not_null_law http cfg" and "charger_rows_ok (rows d ''charger'')"
    and "\<forall>r \<in># rows d ''charger''. \<not> row_matches [(''charge_point_id'', charger)] r"
  shows "\<exists>msg d'. sb_upsert_on_boot http cfg now_iso charger tenant vendor model firmware d = (Inl (SupabaseError msg), d') \<and> same_tables rows d d'"
proof -
  obtain res d1 where "sb_select_one http cfg ''charger'' [(''charge_point_id'', charger)] d = (Inr res, d1)" "same_tables rows d d1"
      "case res of None \<Rightarrow> True | Some r \<Rightarrow> r \<in># rows d ''charger'' \<and> row_matches [(''charge_point_id'', charger)] r"
    using assms(2) by (rule charger_row_read)
  then have s: "sb_select_one http cfg ''charger'' [(''charge_point_id'', charger)] d = (Inr None, d1)" "same_tables rows d d1"
    using assms(3) by (auto split: option.splits)
  have "missing_required ''charger'' (boot_row charger tenant vendor model firmware now_iso)"
    by (simp add: missing_required_def required_lists row_get_def boot_row_def)
  with assms(1) obtain msg where "sb_insert http cfg ''charger'' (boot_row charger tenant vendor model firmware now_iso) d1 = (Inl (SupabaseError msg), d1)"
    by (rule insert_refused)
  then show ?thesis using s by (simp add: sb_upsert_on_boot_def boot_row_def)
qed

lemma start_refused:
  assumes "not_null_law http cfg" and "charger_rows_ok (rows d ''charger'')"
  shows "\<exists>msg d'. sb_start_transaction http cfg isofmt charger tenant connector tag meter start d = (Inl (SupabaseError msg), d') \<and> same_tables rows d d'"
proof -
  obtain res d1 where s: "sb_select_one http cfg ''charger'' [(''charge_point_id'', charger)] d = (Inr res, d1)" "same_tables rows d d1"
      "case res of None \<Rightarrow> True | Some r \<Rightarrow> r \<in># rows d ''charger'' \<and> row_matches [(''charge_point_id'', charger)] r"
    using assms(2) by (rule charger_row_read)
  then obtain cid where cid: "sb_charger_uuid http cfg charger d = (Inr cid, d1)"
    using assms(2) by (cases res rule: option.exhaust; cases "the res")
      (auto simp: sb_charger_uuid_def sb_charger_row_def sret_def slift_def row_item_def jitem_def charger_rows_ok_def)
  have "missing_required ''transaction'' (start_row tenant cid connector tag meter (isofmt start))"
    by (simp add: missing_required_def required_lists row_get_def start_row_def)
  with assms(1) obtain msg where
    "sb_insert http cfg ''transaction'' (start_row tenant cid connector tag meter (isofmt start)) d1 = (Inl (SupabaseError msg), d1)"
    by (rule insert_refused)
  then show ?thesis using s(2) cid by (simp add: sb_start_transaction_def start_row_def)
qed

end

text \<open>
  C28: With the Supabase backend no charger can be registered and no charging session can begin: on any
  server that answers reads as documented and enforces the schema's \<open>NOT NULL\<close> columns, the boot of an
  unknown charger and every \<open>start_transaction\<close> raise \<open>SupabaseError\<close> and change no table.
\<close>

theorem supabase_refuses_boot_and_start:
  assumes "postgrest http cfg rows accepts" and "not_null_law http cfg" and "charger_rows_ok (rows d ''charger'')"
    and "\<forall>r \<in># rows d ''charger''. \<not> row_matches [(''charge_point_id'', charger)] r"
  shows "(\<exists>msg d'. sb_upsert_on_boot http cfg now_iso charger tenant vendor model firmware d = (Inl (SupabaseError msg), d') \<and> same_tables rows d d')
    \<and> (\<forall>charger'. \<exists>msg d'. sb_start_transaction http cfg isofmt charger' tenant connector tag meter start d = (Inl (SupabaseError msg), d') \<and> same_tables rows d d')"
  using postgrest.boot_refused[OF assms(1), OF assms(2-4)] postgrest.start_refused[OF assms(1), OF assms(2,3)] by blast

theorem supabase_refuses_boot_and_start_witness:
  "(\<exists>msg d'. sb_upsert_on_boot checked_handler sample_cfg ''2026-01-01T00:00:00'' ''CP9'' 9 None None None stop_db = (Inl (SupabaseError msg), d'))
   \<and> (\<exists>msg d'. sb_start_transaction checked_handler sample_cfg (\<lambda>_. ''t'') ''CP1'' 9 1 ''TAG'' 0 0 stop_db = (Inl (SupabaseError msg), d'))"
proof -
  have "fake_rows stop_db ''charger'' = {#[(''id'', JStr (str_uuid 2)), (''charge_point_id'', JStr ''CP1'')]#}"
    by (simp add: fake_rows_def table_rows_def dict_get_default_def stop_db_def)
  then have "charger_rows_ok (fake_rows stop_db ''charger'')" "\<forall>r \<in># fake_rows stop_db ''charger''. \<not> row_matches [(''charge_point_id'', ''CP9'')] r"
    by (simp_all add: charger_rows_ok_def row_get_def row_matches_def)
  from supabase_refuses_boot_and_start[OF checked_postgrest.postgrest_axioms checked_not_null, OF this, where cfg = sample_cfg]
  show ?thesis by blast
qed

end
