(* ===== verification/Routing.thy ===== *)
theory Routing
  imports Driver_App
begin

text \<open>
  Distances and routes: the great-circle distance (\<open>driver_app/geo.py\<close>), the straight-line stand-in and the
  OSRM client with its retries (\<open>driver_app/routing_client.py\<close>), and the route planner over the OSRM client.
  The functions of the C mathematics library, the text of a double and HTTP are parameters.
\<close>

subsection \<open>Great-circle distance\<close>

text \<open>
  The functions of \<open>math\<close> the code calls, with the exceptions they raise, and the power \<open>x ** 2\<close> of
  doubles.
\<close>

record libm =
  lm_radians :: "pyfloat \<Rightarrow> pyfloat"
  lm_sin :: "pyfloat \<Rightarrow> py_error + pyfloat"
  lm_cos :: "pyfloat \<Rightarrow> py_error + pyfloat"
  lm_asin :: "pyfloat \<Rightarrow> py_error + pyfloat"
  lm_sqrt :: "pyfloat \<Rightarrow> py_error + pyfloat"
  lm_square :: "pyfloat \<Rightarrow> py_error + pyfloat"

text \<open>The product of two doubles.\<close>

fun fmul :: "pyfloat \<Rightarrow> pyfloat \<Rightarrow> pyfloat" where
  "fmul x (Fin b) = fmul_fin x b"
| "fmul (Fin a) y = fmul_fin y a"
| "fmul NaN _ = NaN"
| "fmul _ NaN = NaN"
| "fmul PosInf y = y"
| "fmul NegInf y = fneg y"

definition EARTH_RADIUS_KM :: rat where
  "EARTH_RADIUS_KM = 6371"

definition haversine_h :: "libm \<Rightarrow> point \<Rightarrow> point \<Rightarrow> py_error + pyfloat" where
  "haversine_h m a b =
     (let lat1 = lm_radians m (fst a); lng1 = lm_radians m (snd a);
          lat2 = lm_radians m (fst b); lng2 = lm_radians m (snd b);
          d_lat = fsub lat2 lat1; d_lng = fsub lng2 lng1
      in rbind (lm_sin m (fdiv_fin d_lat 2)) (\<lambda>s1. rbind (lm_square m s1) (\<lambda>q1.
           rbind (lm_cos m lat1) (\<lambda>c1. rbind (lm_cos m lat2) (\<lambda>c2.
             rbind (lm_sin m (fdiv_fin d_lng 2)) (\<lambda>s2. rbind (lm_square m s2) (\<lambda>q2.
               Inr (fadd q1 (fmul (fmul c1 c2) q2)))))))))"

definition haversine_km :: "libm \<Rightarrow> point \<Rightarrow> point \<Rightarrow> py_error + pyfloat" where
  "haversine_km m a b =
     rbind (haversine_h m a b) (\<lambda>h. rbind (lm_sqrt m h) (\<lambda>r. rbind (lm_asin m r) (\<lambda>x.
       Inr (fmul (fl64 (2 * EARTH_RADIUS_KM)) x))))"

subsection \<open>The stand-in client\<close>

record route_estimate =
  re_distance :: pyfloat
  re_duration :: pyfloat

definition fake_get_route :: "libm \<Rightarrow> rat \<Rightarrow> point \<Rightarrow> point \<Rightarrow> py_error + route_estimate" where
  "fake_get_route m speed origin destination =
     rbind (haversine_km m origin destination) (\<lambda>d.
       if speed = 0 then Inl (Arith ZeroDivisionError)
       else Inr \<lparr>re_distance = d, re_duration = fmul_fin (fdiv_fin d speed) 60\<rparr>)"

subsection \<open>The OSRM client\<close>

datatype routing_failure = RoutingFailed json | RoutingRaised py_error

text \<open>The answer to one request: a transport error, or a status with the decoded body (none if it is not JSON).\<close>

datatype osrm_answer = OsrmHttpError | OsrmResponse int "json option"

record osrm_client =
  or_base :: string
  or_max_attempts :: nat
  or_backoff :: pyfloat

definition osrm_url :: "(pyfloat \<Rightarrow> string) \<Rightarrow> osrm_client \<Rightarrow> point \<Rightarrow> point \<Rightarrow> string" where
  "osrm_url fstr c origin destination =
     or_base c @ ''/route/v1/driving/'' @ fstr (snd origin) @ '','' @ fstr (fst origin) @ '';'' @ fstr (snd destination) @ '','' @ fstr (fst destination)"

text \<open>\<open>x / n\<close> on a decoded number.\<close>

fun json_div :: "json \<Rightarrow> int \<Rightarrow> py_error + pyfloat" where
  "json_div (JFloat x) n = Inr (fdiv_fin x (of_int n))"
| "json_div (JInt k) n = (case int_truediv k n of Inl e \<Rightarrow> Inl (Arith e) | Inr q \<Rightarrow> Inr (Fin q))"
| "json_div (JBool b) n = (case int_truediv (if b then 1 else 0) n of Inl e \<Rightarrow> Inl (Arith e) | Inr q \<Rightarrow> Inr (Fin q))"
| "json_div _ n = Inl TypeError"

definition read_route :: "json \<Rightarrow> py_error + route_estimate" where
  "read_route route =
     rbind (jitem route ''distance'') (\<lambda>d. rbind (json_div d 1000) (\<lambda>km.
       rbind (jitem route ''duration'') (\<lambda>s. rbind (json_div s 60) (\<lambda>mins. Inr \<lparr>re_distance = km, re_duration = mins\<rparr>))))"

text \<open>What follows a response below 500; \<open>repr_json\<close> is \<open>repr\<close> of a decoded value.\<close>

definition read_answer :: "(json \<Rightarrow> string) \<Rightarrow> int \<Rightarrow> json option \<Rightarrow> routing_failure + route_estimate" where
  "read_answer repr_json status body =
     (case body of
        None \<Rightarrow> Inl (RoutingFailed (JStr ''malformed routing provider response body''))
      | Some data \<Rightarrow>
        if 400 \<le> status then
          (case jget data ''message'' (JStr (''routing request rejected (status '' @ str_int status @ '')'')) of
             None \<Rightarrow> Inl (RoutingRaised AttributeError) | Some m \<Rightarrow> Inl (RoutingFailed m))
        else
          (case (jget data ''code'' JNull, jget data ''routes'' JNull) of
             (Some code, Some routes) \<Rightarrow>
               if code \<noteq> JStr ''Ok'' \<or> \<not> jtrue routes then Inl (RoutingFailed (JStr (''routing provider returned no route: '' @ repr_json code)))
               else (case routes of
                   JList (r # _) \<Rightarrow> (case read_route r of Inl e \<Rightarrow> Inl (RoutingRaised e) | Inr x \<Rightarrow> Inr x)
                 | _ \<Rightarrow> Inl (RoutingRaised IllTyped))
           | _ \<Rightarrow> Inl (RoutingRaised AttributeError)))"

fun osrm_transient :: "osrm_answer \<Rightarrow> bool" where
  "osrm_transient OsrmHttpError \<longleftrightarrow> True"
| "osrm_transient (OsrmResponse status body) \<longleftrightarrow> 500 \<le> status"

fun osrm_loop ::
  "(json \<Rightarrow> string) \<Rightarrow> (string \<Rightarrow> 'u \<Rightarrow> osrm_answer \<times> 'u) \<Rightarrow> osrm_client \<Rightarrow> string \<Rightarrow> nat list \<Rightarrow> 'u
    \<Rightarrow> (routing_failure + route_estimate) \<times> pyfloat list \<times> 'u" where
  "osrm_loop repr_json get c url [] u =
     (Inl (RoutingFailed (JStr (''routing request failed after '' @ str_int (int (or_max_attempts c)) @ '' attempts''))), [], u)"
| "osrm_loop repr_json get c url (a # as) u =
     (case get url u of (x, u1) \<Rightarrow>
        if osrm_transient x then
          (case osrm_loop repr_json get c url as u1 of (r, sleeps, u2) \<Rightarrow>
            (r, (if a + 1 < or_max_attempts c then [fmul_fin (or_backoff c) (2 ^ a)] else []) @ sleeps, u2))
        else (case x of OsrmResponse status body \<Rightarrow> (read_answer repr_json status body, [], u1)
              | OsrmHttpError \<Rightarrow> (Inl (RoutingRaised IllTyped), [], u1)))"

definition osrm_get_route ::
  "(pyfloat \<Rightarrow> string) \<Rightarrow> (json \<Rightarrow> string) \<Rightarrow> (string \<Rightarrow> 'u \<Rightarrow> osrm_answer \<times> 'u) \<Rightarrow> osrm_client \<Rightarrow> point \<Rightarrow> point \<Rightarrow> 'u
    \<Rightarrow> (routing_failure + route_estimate) \<times> pyfloat list \<times> 'u" where
  "osrm_get_route fstr repr_json get c origin destination u =
     osrm_loop repr_json get c (osrm_url fstr c origin destination) [0..<or_max_attempts c] u"

subsection \<open>The distance is symmetric\<close>

definition sin_odd :: "libm \<Rightarrow> bool" where
  "sin_odd m \<longleftrightarrow> (\<forall>x. lm_sin m (fneg x) = (case lm_sin m x of Inl e \<Rightarrow> Inl e | Inr y \<Rightarrow> Inr (fneg y)))"

definition square_even :: "libm \<Rightarrow> bool" where
  "square_even m \<longleftrightarrow> (\<forall>x. lm_square m (fneg x) = lm_square m x)"

lemma fl64_minus: "fl64 (- q) = fneg (fl64 q)"
  by (auto simp: fl64_def rnd64_minus Let_def)

lemma fneg_fneg [simp]: "fneg (fneg x) = x"
  by (cases x) auto

lemma fsub_swap: "fsub y x = fneg (fsub x y)"
proof (cases x; cases y)
  fix a b assume "x = Fin a" "y = Fin b"
  then show ?thesis using fl64_minus[of "a - b"] by (simp add: fsub_def)
qed (simp_all add: fsub_def)

lemma fdiv_fin_fneg: "0 < b \<Longrightarrow> fdiv_fin (fneg x) b = fneg (fdiv_fin x b)"
  by (cases x) (simp_all add: fl64_minus[symmetric])

lemma fmul_comm: "fmul x y = fmul y x"
  by (cases x; cases y) (simp_all add: mult.commute)

lemma sin_square_fneg:
  assumes "sin_odd m" and "square_even m"
  shows "rbind (lm_sin m (fneg x)) (\<lambda>s. rbind (lm_square m s) f) = rbind (lm_sin m x) (\<lambda>s. rbind (lm_square m s) f)"
  using assms by (simp add: sin_odd_def square_even_def split: sum.split)

text \<open>
  The great-circle distance does not depend on the direction: whenever sine is odd and squaring even, as
  IEEE arithmetic has them, the code computes exactly the same double from \<open>a\<close> to \<open>b\<close> and from
  \<open>b\<close> to \<open>a\<close>, all roundings included.
\<close>

theorem haversine_symmetric:
  assumes "sin_odd m" and "square_even m"
  shows "haversine_km m a b = Inr d \<longleftrightarrow> haversine_km m b a = Inr d"
proof -
  have "haversine_h m a b = Inr h \<longleftrightarrow> haversine_h m b a = Inr h" for h
  proof -
    let ?f = "\<lambda>x y. fdiv_fin (fsub (lm_radians m x) (lm_radians m y)) 2"
    have s: "?f x y = fneg (?f y x)" for x y
      using fsub_swap[of "lm_radians m x" "lm_radians m y"] by (simp add: fdiv_fin_fneg)
    show ?thesis
      unfolding haversine_h_def Let_def rbind_Inr s[of "fst a" "fst b"] s[of "snd a" "snd b"]
      using assms by (auto simp: sin_odd_def square_even_def fmul_comm split: sum.splits)
  qed
  then show ?thesis by (simp add: haversine_km_def rbind_Inr)
qed

text \<open>
  The distance from a point to itself is zero, provided the library has sine, square root and arc sine of
  zero as zero, and a cosine of at most one.
\<close>

theorem haversine_same_point:
  assumes "lm_radians m (fst a) = Fin x" and "lm_radians m (snd a) = Fin y" and "lm_cos m (Fin x) = Inr (Fin c)" and "\<bar>c\<bar> \<le> 1"
    and "lm_sin m (Fin 0) = Inr (Fin 0)" and "lm_square m (Fin 0) = Inr (Fin 0)" and "lm_sqrt m (Fin 0) = Inr (Fin 0)" and "lm_asin m (Fin 0) = Inr (Fin 0)"
  shows "haversine_km m a a = Inr (Fin 0)"
proof -
  have z: "fl64 0 = Fin 0" by (simp add: fl64_def)
  have "0 \<le> c * c" "c * c \<le> 1" using assms(4) by (simp_all add: abs_square_le_1 flip: power2_eq_square)
  then have "0 \<le> rnd64 (c * c)" "rnd64 (c * c) \<le> 1" using rnd64_nonneg rnd64_le_power[of "c * c" 0] by simp_all
  then have q: "fl64 (c * c) = Fin (rnd64 (c * c))" by (simp add: fl64_def Let_def)
  have "rnd64 12742 = 12742" using rnd64_of_int[of 12742] by simp
  then have "fl64 (2 * EARTH_RADIUS_KM) = Fin 12742" by (simp add: fl64_def EARTH_RADIUS_KM_def)
  then show ?thesis
    using assms z q by (simp add: haversine_km_def haversine_h_def fsub_def)
qed

definition flat_libm :: libm where
  "flat_libm = \<lparr>lm_radians = (\<lambda>x. x), lm_sin = Inr, lm_cos = (\<lambda>_. Inr (Fin 1)), lm_asin = Inr, lm_sqrt = Inr, lm_square = (\<lambda>x. Inr (fmul x x))\<rparr>"

lemma fmul_fneg: "fmul (fneg x) (fneg x) = fmul x x"
  by (cases x) auto

theorem haversine_symmetric_witness:
  "haversine_km flat_libm (Fin 0, Fin 0) (Fin 0, Fin 0) = Inr (Fin 0) \<and> sin_odd flat_libm
   \<and> (haversine_km flat_libm (Fin 2, Fin 1) (Fin 7, Fin 3) = Inr (Fin 5) \<longleftrightarrow> haversine_km flat_libm (Fin 7, Fin 3) (Fin 2, Fin 1) = Inr (Fin 5))"
proof -
  have f: "sin_odd flat_libm" "square_even flat_libm" by (simp_all add: sin_odd_def square_even_def flat_libm_def fmul_fneg)
  have "haversine_km flat_libm (Fin 0, Fin 0) (Fin 0, Fin 0) = Inr (Fin 0)"
    by (rule haversine_same_point[of _ _ 0 0 1]) (simp_all add: flat_libm_def fl64_def)
  then show ?thesis using f haversine_symmetric[OF f, of "(Fin 2, Fin 1)" "(Fin 7, Fin 3)" "Fin 5"] by simp
qed

subsection \<open>How often the client asks\<close>

text \<open>The state of the provider after \<open>n\<close> requests, and its answer to the request after them.\<close>

fun osrm_after :: "(string \<Rightarrow> 'u \<Rightarrow> osrm_answer \<times> 'u) \<Rightarrow> string \<Rightarrow> nat \<Rightarrow> 'u \<Rightarrow> 'u" where
  "osrm_after get url 0 u = u"
| "osrm_after get url (Suc n) u = osrm_after get url n (snd (get url u))"

definition osrm_answer_at :: "(string \<Rightarrow> 'u \<Rightarrow> osrm_answer \<times> 'u) \<Rightarrow> string \<Rightarrow> nat \<Rightarrow> 'u \<Rightarrow> osrm_answer" where
  "osrm_answer_at get url n u = fst (get url (osrm_after get url n u))"

definition osrm_waits :: "osrm_client \<Rightarrow> nat list \<Rightarrow> pyfloat list" where
  "osrm_waits c as = map (\<lambda>a. fmul_fin (or_backoff c) (2 ^ a)) (filter (\<lambda>a. a + 1 < or_max_attempts c) as)"

lemma osrm_loop_transient:
  assumes "\<forall>i < n. osrm_transient (osrm_answer_at get url i u)"
  shows "osrm_loop rj get c url ([a..<a + n] @ rest) u
     = (case osrm_loop rj get c url rest (osrm_after get url n u) of (r, sleeps, u') \<Rightarrow> (r, osrm_waits c [a..<a + n] @ sleeps, u'))"
  using assms
proof (induction n arbitrary: a u)
  case 0
  show ?case by (simp add: osrm_waits_def split: prod.split)
next
  case (Suc n)
  have "osrm_transient (fst (get url u))" using Suc.prems by (force simp: osrm_answer_at_def)
  moreover have "\<forall>i < n. osrm_transient (osrm_answer_at get url i (snd (get url u)))"
    using Suc.prems by (auto simp: osrm_answer_at_def dest: spec[of _ "Suc _"])
  note IH = Suc.IH[OF this, of "Suc a"]
  have "[a..<a + Suc n] = a # [Suc a..<Suc a + n]" by (simp add: upt_rec)
  ultimately show ?case using IH by (simp add: osrm_waits_def case_prod_beta)
qed

text \<open>
  C34: The OSRM client retries transport errors and server errors only, and exactly as configured: if \<open>k\<close>
  transient answers are followed by a conclusive one within \<open>max_attempts\<close>, the result is the reading of that
  answer, a rejection included, after \<open>k + 1\<close> requests with the doubling waits between them; if
  every attempt is transient, the client gives up with a \<open>RoutingError\<close> after exactly \<open>max_attempts\<close> requests,
  without waiting after the last.
\<close>

theorem osrm_retries_exactly:
  assumes "url = osrm_url fstr c origin destination" and "\<forall>i < k. osrm_transient (osrm_answer_at get url i u)"
  shows "(k < or_max_attempts c \<and> osrm_answer_at get url k u = OsrmResponse status body \<and> status < 500 \<longrightarrow>
        osrm_get_route fstr rj get c origin destination u
          = (read_answer rj status body, map (\<lambda>a. fmul_fin (or_backoff c) (2 ^ a)) [0..<k], osrm_after get url (Suc k) u))
    \<and> (k = or_max_attempts c \<longrightarrow>
        (\<exists>m. osrm_get_route fstr rj get c origin destination u
          = (Inl (RoutingFailed m), map (\<lambda>a. fmul_fin (or_backoff c) (2 ^ a)) [0..<k - 1], osrm_after get url k u)))"
proof (intro conjI impI)
  assume k: "k < or_max_attempts c \<and> osrm_answer_at get url k u = OsrmResponse status body \<and> status < 500"
  then have l: "[0..<or_max_attempts c] = [0..<0 + k] @ k # [Suc k..<or_max_attempts c]"
    using upt_add_eq_append[of 0 k "or_max_attempts c - k"] by (simp add: upt_conv_Cons)
  have "filter (\<lambda>a. a + 1 < or_max_attempts c) [0..<k] = [0..<k]" using k by (auto simp: filter_id_conv)
  moreover have "osrm_after get url (Suc n) v = snd (get url (osrm_after get url n v))" for n v by (induction n arbitrary: v) simp_all
  ultimately show "osrm_get_route fstr rj get c origin destination u
      = (read_answer rj status body, map (\<lambda>a. fmul_fin (or_backoff c) (2 ^ a)) [0..<k], osrm_after get url (Suc k) u)"
    using k assms(1) unfolding osrm_get_route_def l osrm_loop_transient[OF assms(2)[unfolded assms(1)]]
    by (simp add: osrm_waits_def osrm_answer_at_def case_prod_beta del: osrm_after.simps)
next
  assume k: "k = or_max_attempts c"
  have "filter (\<lambda>a. a + 1 < k) [0..<k] = [0..<k - 1]"
  proof (cases k)
    case (Suc n)
    have "filter (\<lambda>a. a < n) [0..<n] = [0..<n]" by (simp add: filter_id_conv)
    with Suc show ?thesis by simp
  qed simp
  then show "\<exists>m. osrm_get_route fstr rj get c origin destination u
          = (Inl (RoutingFailed m), map (\<lambda>a. fmul_fin (or_backoff c) (2 ^ a)) [0..<k - 1], osrm_after get url k u)"
    using osrm_loop_transient[OF assms(2), of rj c 0 "[]"] assms(1) k by (simp add: osrm_get_route_def osrm_waits_def)
qed

definition scripted_osrm :: "string \<Rightarrow> osrm_answer list \<Rightarrow> osrm_answer \<times> osrm_answer list" where
  "scripted_osrm url xs = (case xs of [] \<Rightarrow> (OsrmHttpError, []) | x # ys \<Rightarrow> (x, ys))"

theorem osrm_retries_exactly_witness:
  "osrm_get_route (\<lambda>_. ''0'') (\<lambda>_. []) scripted_osrm \<lparr>or_base = [], or_max_attempts = 3, or_backoff = PosInf\<rparr> (Fin 0, Fin 0) (Fin 1, Fin 1)
      [OsrmHttpError, OsrmResponse 503 None, OsrmResponse 404 (Some (JObj [(''message'', JStr ''no'')])), OsrmHttpError]
    = (Inl (RoutingFailed (JStr ''no'')), [PosInf, PosInf], [OsrmHttpError])"
  using osrm_retries_exactly[OF refl, where k = 2 and get = scripted_osrm
      and u = "[OsrmHttpError, OsrmResponse 503 None, OsrmResponse 404 (Some (JObj [(''message'', JStr ''no'')])), OsrmHttpError]"
      and c = "\<lparr>or_base = [], or_max_attempts = 3, or_backoff = PosInf\<rparr>" and status = 404 and body = "Some (JObj [(''message'', JStr ''no'')])"
      and fstr = "\<lambda>_. ''0''" and rj = "\<lambda>_. []" and origin = "(Fin 0, Fin 0)" and destination = "(Fin 1, Fin 1)"]
  by (simp add: osrm_answer_at_def scripted_osrm_def numeral_2_eq_2 less_Suc_eq all_conj_distrib read_answer_def jget_def)

end
