(* ===== verification/Deployment.thy ===== *)
theory Deployment
  imports Session_Start Platform
begin

text \<open>
  The two processes of a deployment. \<open>main.py\<close> and \<open>edge_app.py\<close> each call \<open>build_services\<close>, so that every
  in-memory store exists once per process: charge points connect to the edge process, whose handlers record
  transactions, meter readings and vehicles there, while the session service that drivers are
  forwarded to runs in the main process on its own stores.
\<close>

subsection \<open>The session service of the main process\<close>

definition initial_sessions :: "wiring \<Rightarrow> 't command_service \<Rightarrow> txn_repo \<Rightarrow> 't session_service" where
  "initial_sessions w cs txns =
     \<lparr>ss_methods = wi_methods w, ss_commands = cs, ss_map = wi_sessions w, ss_txns = txns, ss_vehicles = wi_vehicles w,
      ss_rewards = wi_rewards w, ss_readings = wi_readings w,
      ss_tariffs = \<lparr>ts_store = (case wi_tariffs w of Inl _ \<Rightarrow> [] | Inr st \<Rightarrow> st), ts_currency = wi_currencies w\<rparr>,
      ss_history = wi_history w, ss_owner = []\<rparr>"

text \<open>
  The steps of the main process on this state. Its routers start sessions in four ways and stop them; the
  tariff, payment-method, rewards and command routers change the stores they share with the session
  service. It mounts no OCPP endpoint and no vehicle router.
\<close>

inductive main_step :: "'t session_service \<Rightarrow> 't session_service \<Rightarrow> bool" where
  start_qr: "main_step s (snd (start_via_qr decode hmac send wallet_of d new_id now token driver secret tenant s))"
| start_autocharge: "main_step s (snd (start_via_autocharge send wallet_of d new_id mac charger tenant macs s))"
| start_pnc: "main_step s (snd (start_via_plug_and_charge (ops :: string x509_ops) t send wallet_of d new_id pem charger tenant v s))"
| start_app: "main_step s (snd (start_via_app send wallet_of d new_id charger connector driver tenant s))"
| stop: "main_step s (snd (stop_session send d now sid driver tenant s))"
| tariffs: "main_step s (s\<lparr>ss_tariffs := ts\<rparr>)"
| methods: "main_step s (s\<lparr>ss_methods := ms\<rparr>)"
| rewards: "main_step s (s\<lparr>ss_rewards := rs\<rparr>)"
| commands: "main_step s (s\<lparr>ss_commands := cs\<rparr>)"

inductive main_reachable :: "'t session_service \<Rightarrow> 't session_service \<Rightarrow> bool" for s0 where
  initial: "main_reachable s0 s0"
| step: "main_reachable s0 s \<Longrightarrow> main_step s s' \<Longrightarrow> main_reachable s0 s'"

definition no_charging_data :: "'t session_service \<Rightarrow> bool" where
  "no_charging_data s \<longleftrightarrow> tr_active (ss_txns s) = [] \<and> ss_vehicles s = [] \<and> ss_readings s = [] \<and> ss_history s = []"

lemma no_charging_data_update [simp]:
  "no_charging_data (s\<lparr>ss_tariffs := ts\<rparr>) = no_charging_data s" "no_charging_data (s\<lparr>ss_methods := ms\<rparr>) = no_charging_data s"
  "no_charging_data (s\<lparr>ss_rewards := rs\<rparr>) = no_charging_data s" "no_charging_data (s\<lparr>ss_commands := cs\<rparr>) = no_charging_data s"
  by (simp_all add: no_charging_data_def)

lemma dispatch_keeps_data:
  "no_charging_data s \<Longrightarrow> no_charging_data (snd (dispatch_remote_start send wallet_of d new_id driver tenant charger connector tag auth s))"
  by (auto simp: no_charging_data_def dispatch_remote_start_def Let_def case_prod_beta split: sum.split command_error.split)

lemma stop_without_transaction:
  assumes "no_charging_data s"
  shows "stop_session send d now sid driver tenant s
    = ((case owned_binding sid driver s of Inl e \<Rightarrow> Inl e | Inr _ \<Rightarrow> Inl (SessionStartError ''no active transaction on this charger'')), s)"
  using assms by (simp add: stop_session_def no_charging_data_def get_active_transaction_def split: sum.split)

lemma main_step_keeps_data: "main_step s s' \<Longrightarrow> no_charging_data s \<Longrightarrow> no_charging_data s'"
  by (induction rule: main_step.induct)
    (auto simp: stop_without_transaction start_via_qr_def start_via_autocharge_def start_via_plug_and_charge_def start_via_app_def dispatch_keeps_data
       split: sum.split qr_error.split pnc_error.split option.split)

lemma main_reachable_data:
  assumes "main_reachable s0 s" and "no_charging_data s0" shows "no_charging_data s"
  using assms by (induction rule: main_reachable.induct) (auto intro: main_step_keeps_data)

lemma opt_in_refused: "no_charging_data s \<Longrightarrow> require_plug_and_charge_opt_in driver s \<noteq> Inr ()"
  by (simp add: no_charging_data_def require_plug_and_charge_opt_in_def vehicle_list_for_driver_def)

text \<open>
  C16: With in-memory stores the two processes do not see each other. In every state the main process can
  reach, no session can be stopped (a known session answers that there is no active
  transaction on its charger), the live status of every session is \<open>finished\<close> with no energy and no
  cost, and no session can be started by autocharge or plug and charge, because the transactions,
  readings and vehicles are recorded in the edge process; and no completed session is ever recorded.
\<close>

theorem main_process_blind_to_charging:
  assumes "build_services kdf salt node st = Inr w" and "st_persistence_backend st = MemoryBackend" and "wi_txns w = Inr txns"
    and "main_reachable (initial_sessions w cs txns) s"
  shows "fst (stop_session send d now sid driver tenant s) \<in> {Inl (SessionNotFoundError sid), Inl (SessionStartError ''no active transaction on this charger'')}
    \<and> get_live_status sid driver tenant now s \<in> {Inl (SessionNotFoundError sid),
         Inr \<lparr>lv_status = ''finished'', lv_energy = Fin 0, lv_power = Fin 0, lv_cost = 0, lv_currency = ''AED'', lv_started = now, lv_updated = now\<rparr>}
    \<and> isl (fst (start_via_autocharge send wallet_of d new_id mac charger tenant macs s))
    \<and> isl (fst (start_via_plug_and_charge ops t send wallet_of d new_id pem charger tenant v s))
    \<and> ss_history s = []"
proof -
  have "no_charging_data (initial_sessions w cs txns)"
    using assms(1-3) by (auto simp: no_charging_data_def initial_sessions_def build_services_def rbind_Inr supabase_or_def)
  with assms(4) have s: "no_charging_data s" by (rule main_reachable_data)
  have b: "owned_binding sid driver s = Inl (SessionNotFoundError sid) \<or> (\<exists>b. owned_binding sid driver s = Inr b)"
    by (auto simp: owned_binding_def split: option.split)
  have "fst (stop_session send d now sid driver tenant s) \<in> {Inl (SessionNotFoundError sid), Inl (SessionStartError ''no active transaction on this charger'')}"
    using b unfolding stop_without_transaction[OF s] by auto
  moreover have "get_live_status sid driver tenant now s \<in> {Inl (SessionNotFoundError sid),
         Inr \<lparr>lv_status = ''finished'', lv_energy = Fin 0, lv_power = Fin 0, lv_cost = 0, lv_currency = ''AED'', lv_started = now, lv_updated = now\<rparr>}"
    using b s by (auto simp: get_live_status_def no_charging_data_def get_active_transaction_def)
  moreover have "isl (fst (start_via_autocharge send wallet_of d new_id mac charger tenant macs s))"
    using opt_in_refused[OF s] by (auto simp: start_via_autocharge_def split: option.split sum.split)
  moreover have "isl (fst (start_via_plug_and_charge ops t send wallet_of d new_id pem charger tenant v s))"
    using opt_in_refused[OF s] by (auto simp: start_via_plug_and_charge_def split: sum.split pnc_error.split)
  ultimately show ?thesis using s by (simp add: no_charging_data_def)
qed

theorem main_process_blind_to_charging_witness:
  "\<exists>w txns. build_services (\<lambda>s t. s) [] 1 default_settings = Inr w \<and> wi_txns w = Inr txns
    \<and> fst (stop_session fake_send (4, 1, 2) 0 ''s1'' 1 7 (initial_sessions w sample_service txns))
        \<in> {Inl (SessionNotFoundError ''s1''), Inl (SessionStartError ''no active transaction on this charger'')}"
proof -
  have m: "st_app_mode default_settings = Testing" "st_persistence_backend default_settings = MemoryBackend" by (simp_all add: default_settings_def)
  then obtain w where w: "build_services (\<lambda>s t. s) [] 1 default_settings = Inr w" "wi_txns w = Inr \<lparr>tr_active = [], tr_records = []\<rparr>"
    by (simp add: build_services_def supabase_or_def)
  from main_process_blind_to_charging[OF w(1) m(2) w(2) main_reachable.initial] show ?thesis using w by blast
qed

subsection \<open>The gateway of the edge process\<close>

definition initial_gateway ::
  "wiring \<Rightarrow> presence \<Rightarrow> credential_store \<Rightarrow> txn_repo \<Rightarrow> charger_registry \<Rightarrow> connector_store \<Rightarrow> meter_reading list list \<Rightarrow> gateway" where
  "initial_gateway w presence creds txns chargers connectors batches =
     \<lparr>gw_presence = presence, gw_credentials = creds, gw_txns = txns, gw_registry = chargers,
      gw_events = \<lparr>ev_disconnected = [], ev_status = [], ev_stop = [], ev_ocpp = []\<rparr>, gw_connectors = connectors, gw_auth = wi_authorizer w,
      gw_meter = \<lparr>mb_batches = batches, mb_max = 50, mb_interval = Fin 2, mb_buffer = [], mb_opened = None\<rparr>,
      gw_firmware = Some (wi_firmware w), gw_latest = Some (wi_readings w), gw_node = wi_node w, gw_interval = wi_heartbeat w\<rparr>"

definition same_seeds :: "gateway \<Rightarrow> gateway \<Rightarrow> bool" where
  "same_seeds g g' \<longleftrightarrow> gw_credentials g' = gw_credentials g \<and> az_local (gw_auth g') = az_local (gw_auth g) \<and> az_roaming (gw_auth g') = az_roaming (gw_auth g)"

lemma same_seeds_refl [simp]: "same_seeds g g"
  by (simp add: same_seeds_def)

lemma same_seeds_trans: "same_seeds g h \<Longrightarrow> same_seeds h k \<Longrightarrow> same_seeds g k"
  by (simp add: same_seeds_def)

lemma authorize_keeps_seeds [simp]: "az_local (snd (authorize tag a)) = az_local a" "az_roaming (snd (authorize tag a)) = az_roaming a"
  by (simp_all add: authorize_def roaming_check_def split: option.split)

lemma meter_values_seeds: "same_seeds g (snd (handle_meter_values clk tenant tid c ts rs g))"
proof (induction rs arbitrary: clk g)
  case (Cons r rs)
  have "same_seeds g (add_reading (clk 0) x g)" for x by (simp add: same_seeds_def add_reading_def Let_def)
  then have "same_seeds g (snd (handle_meter_values (\<lambda>i. clk (Suc i)) tenant tid c ts rs (add_reading (clk 0) x g)))" for x
    using Cons same_seeds_trans by blast
  then show ?case by (simp split: sum.split)
qed simp

lemma frame_seeds: "same_seeds g (snd (handle_frame env c tenant action p g))"
proof -
  have "same_seeds g (snd (dispatch_boot env c tenant p g))"
    by (auto simp: dispatch_boot_def frame_fail_def same_seeds_def handle_boot_notification_def Let_def case_prod_beta split: sum.split)
  moreover have "same_seeds g (snd (dispatch_status c tenant p g))"
    by (auto simp: dispatch_status_def frame_fail_def same_seeds_def handle_status_notification_def Let_def case_prod_beta split: sum.split)
  moreover have "same_seeds g (snd (dispatch_authorize p g))"
    by (auto simp: dispatch_authorize_def frame_fail_def same_seeds_def handle_authorize_def Let_def case_prod_beta split: sum.split)
  moreover have "same_seeds g (snd (dispatch_start env c tenant p g))"
    by (auto simp: dispatch_start_def frame_fail_def same_seeds_def handle_authorize_def handle_start_transaction_def Let_def case_prod_beta split: sum.split)
  moreover have "same_seeds g (snd (handle_stop_transaction tid m t r g))" for tid m t r
    by (auto simp: handle_stop_transaction_def same_seeds_def Let_def case_prod_beta split: sum.split txn_error.split)
  then have "same_seeds g (snd (dispatch_stop p g))"
    by (cases rule: dispatch_stop_cases[of p g]) simp_all
  moreover have "same_seeds g (snd (dispatch_meter env c tenant p g))"
    using meter_values_seeds by (auto simp: dispatch_meter_def frame_fail_def Let_def case_prod_beta split: sum.split)
  moreover have "same_seeds g (snd (dispatch_firmware c tenant p g))"
    by (auto simp: dispatch_firmware_def frame_fail_def same_seeds_def handle_firmware_status_notification_def publish_event_def Let_def case_prod_beta
        split: sum.split option.split)
  then have "same_seeds g (snd (dispatch_events c tenant action p g))"
    by (auto simp: dispatch_events_def frame_fail_def same_seeds_def handle_data_transfer_def handle_diagnostics_status_notification_def
        handle_security_event_notification_def handle_log_status_notification_def publish_event_def Let_def case_prod_beta split: sum.split)
  ultimately show ?thesis by (simp add: handle_frame_def)
qed

lemma offline_seeds: "same_seeds g (snd (offline_and_publish c p g))"
  by (simp add: same_seeds_def offline_and_publish_def Let_def split: option.split)

lemma sweep_seeds: "same_seeds g (snd (check_and_expire_heartbeats now i cs g))"
proof (induction cs arbitrary: g)
  case (Cons c cs)
  have "same_seeds g g' \<Longrightarrow> same_seeds g (snd (check_and_expire_heartbeats now i cs g'))" for g'
    using Cons same_seeds_trans by blast
  then show ?case using offline_seeds[of g c] Cons
    by (auto simp: case_prod_beta split: option.split sum.split) 
qed simp

lemma connection_seeds:
  "same_seeds g (handle_inbound_frame now c g)" "same_seeds g (snd (handle_handshake kdf now c tenant cred sub g))" "same_seeds g (snd (handle_disconnect c g))"
  using offline_seeds by (simp_all add: handle_inbound_frame_def handle_handshake_def handle_disconnect_def same_seeds_def split: option.split sum.split)

lemma gateway_step_seeds: "gateway_step g g' \<Longrightarrow> same_seeds g g'"
  by (induction rule: gateway_step.induct) (simp_all add: frame_seeds sweep_seeds connection_seeds)

definition accepted_tag :: "gateway \<Rightarrow> string \<Rightarrow> bool" where
  "accepted_tag g tag \<longleftrightarrow> fst (authorize tag (gw_auth g)) = ACCEPTED"

lemma accepted_tag_seeds: "same_seeds g g' \<Longrightarrow> accepted_tag g' tag = accepted_tag g tag"
  by (simp add: same_seeds_def accepted_tag_def authorize_def local_lookup_def roaming_check_def split: option.split)

definition seeded_inv :: "gateway \<Rightarrow> bool" where
  "seeded_inv g \<longleftrightarrow> (\<forall>c t. dict_get (tr_active (gw_txns g)) c = Some t \<longrightarrow> accepted_tag g (at_tag t))
     \<and> ((\<forall>tag. \<not> accepted_tag g tag) \<longrightarrow> gw_txns g = \<lparr>tr_active = [], tr_records = []\<rparr>)"

lemma seeded_inv_cong: "keeps_txns g g' \<Longrightarrow> same_seeds g g' \<Longrightarrow> seeded_inv g \<Longrightarrow> seeded_inv g'"
  by (simp add: seeded_inv_def keeps_txns_def accepted_tag_seeds)

lemma seeded_inv_start:
  assumes "seeded_inv g" and "accepted_tag g tag"
  shows "seeded_inv (g\<lparr>gw_auth := snd (authorize tag (gw_auth g)), gw_txns := snd (start_transaction new_id c tenant n tag m t (gw_txns g))\<rparr>)"
proof -
  let ?g = "g\<lparr>gw_auth := snd (authorize tag (gw_auth g)), gw_txns := snd (start_transaction new_id c tenant n tag m t (gw_txns g))\<rparr>"
  have "same_seeds g ?g" by (simp add: same_seeds_def)
  then have "accepted_tag ?g x = accepted_tag g x" for x by (rule accepted_tag_seeds)
  then show ?thesis using assms by (auto simp: seeded_inv_def start_transaction_def Let_def)
qed

lemma stop_transaction_active:
  assumes "dict_get (tr_active (snd (stop_transaction tid m t reason r))) c = Some x" shows "dict_get (tr_active r) c = Some x"
proof (cases "dict_get (tr_records r) tid")
  case (Some rec)
  then show ?thesis using assms
    by (cases "dict_get (tr_active r) (tx_charger rec)") (simp_all add: stop_transaction_def Let_def split: if_splits)
qed (use assms in \<open>simp add: stop_transaction_def\<close>)

lemma seeded_inv_stop:
  assumes "seeded_inv g"
  shows "seeded_inv (snd (handle_stop_transaction tid m t reason g))"
proof -
  let ?g = "snd (handle_stop_transaction tid m t reason g)"
  have t: "gw_txns ?g = snd (stop_transaction tid m t reason (gw_txns g))" and "gw_auth ?g = gw_auth g"
    by (simp_all add: handle_stop_transaction_def Let_def case_prod_beta split: sum.split txn_error.split)
  then have acc: "accepted_tag ?g x = accepted_tag g x" for x by (simp add: accepted_tag_def)
  have "accepted_tag g (at_tag x)" if "dict_get (tr_active (gw_txns ?g)) c = Some x" for c x
    using assms stop_transaction_active[OF that[unfolded t]] unfolding seeded_inv_def by blast
  moreover have "gw_txns ?g = \<lparr>tr_active = [], tr_records = []\<rparr>" if "\<forall>tag. \<not> accepted_tag g tag"
  proof -
    have "gw_txns g = \<lparr>tr_active = [], tr_records = []\<rparr>" using assms that unfolding seeded_inv_def by blast
    then show ?thesis unfolding t by (simp add: stop_transaction_def)
  qed
  ultimately show ?thesis unfolding seeded_inv_def acc by blast
qed

lemma seeded_inv_frame:
  assumes "seeded_inv g" shows "seeded_inv (snd (handle_frame env c tenant action p g))"
proof -
  consider "action = ''StartTransaction''" | "action = ''StopTransaction''"
    | "action \<noteq> ''StartTransaction''" "action \<noteq> ''StopTransaction''" by blast
  then show ?thesis
  proof cases
    case 1
    then have e: "snd (handle_frame env c tenant action p g) = snd (dispatch_start env c tenant p g)" by (simp add: handle_frame_def)
    have "seeded_inv (snd (handle_start_transaction new_id c tenant n tag m t g))" for new_id n tag m t
    proof (cases "accepted_tag g tag")
      case True
      then show ?thesis using seeded_inv_start[OF assms] start_authorized by (simp add: accepted_tag_def)
    next
      case False
      moreover have "same_seeds g (g\<lparr>gw_auth := snd (authorize tag (gw_auth g))\<rparr>)" by (simp add: same_seeds_def)
      ultimately show ?thesis using seeded_inv_cong[OF _ _ assms] start_unauthorized by (simp add: accepted_tag_def)
    qed
    then show ?thesis unfolding e by (cases rule: dispatch_start_cases[of env c tenant p g]) (use assms in simp_all)
  next
    case 2
    then have e: "snd (handle_frame env c tenant action p g) = snd (dispatch_stop p g)" by (simp add: handle_frame_def)
    show ?thesis unfolding e by (cases rule: dispatch_stop_cases[of p g]) (use assms seeded_inv_stop in simp_all)
  next
    case 3
    then show ?thesis using seeded_inv_cong[OF other_frames_keep frame_seeds assms] by blast
  qed
qed

lemma seeded_inv_step: "gateway_step g g' \<Longrightarrow> seeded_inv g \<Longrightarrow> seeded_inv g'"
proof (induction rule: gateway_step.induct)
  case (frame g env c tenant action p)
  then show ?case by (simp add: seeded_inv_frame)
next
  case (inbound g now c)
  then show ?case using seeded_inv_cong[OF _ connection_seeds(1)] by (simp add: handle_inbound_frame_def)
next
  case (handshake g kdf now c tenant cred sub)
  then show ?case by (rule seeded_inv_cong[OF handshake_keeps connection_seeds(2)])
next
  case (disconnect g c)
  have "keeps_txns g (snd (handle_disconnect c g))" by (simp add: handle_disconnect_def offline_and_publish_keeps split: option.split)
  then show ?case using disconnect seeded_inv_cong[OF _ connection_seeds(3)] by blast
next
  case (sweep g now interval cs)
  then show ?case by (rule seeded_inv_cong[OF sweep_keeps sweep_seeds])
qed

lemma gateway_steps_seeds: "gateway_step\<^sup>*\<^sup>* g g' \<Longrightarrow> seeded_inv g \<Longrightarrow> same_seeds g g' \<and> seeded_inv g'"
  by (induction rule: rtranclp_induct) (auto intro: same_seeds_trans gateway_step_seeds seeded_inv_step)

lemma seeded_authorizer_accepts:
  "fst (authorize tag (seeded_authorizer st)) = ACCEPTED \<longleftrightarrow> st_app_mode st = Testing \<and> tag = ''TAG-123''"
  by (simp add: seeded_authorizer_def authorize_def local_lookup_def local_set_status_def roaming_check_def dict_get_default_def Let_def)

text \<open>
  C17: What the edge process serves with in-memory stores, in every state its gateway can reach from the
  services it builds. In production no charger passes the handshake and no transaction is ever recorded. In
  testing only the demo charger passes, with a secret that derives the seeded key, and every active transaction was
  opened with the demo tag. Stops are published exactly once in both.
\<close>

theorem edge_gateway_serves_only_demo:
  assumes "build_services kdf salt node st = Inr w" and "st_persistence_backend st = MemoryBackend"
    and "wi_credentials w = Inr creds" and "wi_txns w = Inr txns"
    and "gateway_step\<^sup>*\<^sup>* (initial_gateway w presence creds txns chargers connectors batches) g"
  shows "(\<forall>hs. fst (handle_handshake kdf now c tenant secret sub g) = Inr hs \<longrightarrow> hs_accepted hs \<longrightarrow>
        st_app_mode st = Testing \<and> c = ''demo-charger-1'' \<and> kdf secret salt = kdf ''demo-secret'' salt)
    \<and> (st_app_mode st = Production \<longrightarrow> gw_txns g = \<lparr>tr_active = [], tr_records = []\<rparr>)
    \<and> (\<forall>t. get_active_transaction (gw_txns g) c = Some t \<longrightarrow> at_tag t = ''TAG-123'')
    \<and> stops_of g tid = (if completed g tid then 1 else 0)"
proof -
  let ?g0 = "initial_gateway w presence creds txns chargers connectors batches"
  have w: "creds = seeded_credentials kdf salt st" "txns = \<lparr>tr_active = [], tr_records = []\<rparr>" "wi_authorizer w = seeded_authorizer st"
    using assms(1-4) by (auto simp: build_services_def rbind_Inr supabase_or_def)
  have inv: "seeded_inv ?g0" "stop_inv ?g0"
    by (simp_all add: w(2) initial_gateway_def seeded_inv_def stop_inv_def txn_inv_def completed_def)
  have g: "same_seeds ?g0 g" "seeded_inv g" using gateway_steps_seeds[OF assms(5) inv(1)] by auto
  have acc: "accepted_tag g tag \<longleftrightarrow> st_app_mode st = Testing \<and> tag = ''TAG-123''" for tag
    unfolding accepted_tag_seeds[OF g(1)] by (simp add: accepted_tag_def initial_gateway_def w(3) seeded_authorizer_accepts)
  have cr: "gw_credentials g = seeded_credentials kdf salt st" using g(1) by (simp add: same_seeds_def initial_gateway_def w(1))
  have "stop_inv g" using assms(5) inv(2) by (induction rule: rtranclp_induct) (simp_all add: stop_inv_step)
  moreover have "st_app_mode st = Testing \<and> c = ''demo-charger-1'' \<and> kdf secret salt = kdf ''demo-secret'' salt"
    if "fst (handle_handshake kdf now c tenant secret sub g) = Inr hs" "hs_accepted hs" for hs
  proof -
    have "credential_verify kdf (gw_credentials g) c secret = Inr True"
      using that by (cases "credential_verify kdf (gw_credentials g) c secret") (auto simp: handle_handshake_def split: option.splits if_splits)
    then show ?thesis unfolding cr credential_verify_seeded by simp
  qed
  moreover have "gw_txns g = \<lparr>tr_active = [], tr_records = []\<rparr>" if "st_app_mode st = Production"
  proof -
    have "\<forall>tag. \<not> accepted_tag g tag" using that by (simp add: acc)
    then show ?thesis using g(2) unfolding seeded_inv_def by (elim conjE impE)
  qed
  moreover have "at_tag t = ''TAG-123''" if "get_active_transaction (gw_txns g) c = Some t" for t
  proof -
    have "accepted_tag g (at_tag t)" using conjunct1[OF g(2)[unfolded seeded_inv_def]] that unfolding get_active_transaction_def by blast
    then show ?thesis by (simp add: acc)
  qed
  ultimately show ?thesis by (simp add: stop_inv_def)
qed

theorem edge_gateway_serves_only_demo_witness:
  "\<exists>w creds txns. build_services (\<lambda>s t. s @ t) ''salt'' 1 default_settings = Inr w \<and> wi_credentials w = Inr creds \<and> wi_txns w = Inr txns
    \<and> (\<nexists>hs. fst (handle_handshake (\<lambda>s t. s @ t) (Fin 0) ''CP1'' 7 ''demo-secret'' (Some ''ocpp1.6'') (initial_gateway w [] creds txns [] [] [])) = Inr hs
        \<and> hs_accepted hs)"
proof -
  have m: "st_app_mode default_settings = Testing" "st_persistence_backend default_settings = MemoryBackend" by (simp_all add: default_settings_def)
  then obtain w creds txns where w: "build_services (\<lambda>s t. s @ t) ''salt'' 1 default_settings = Inr w" "wi_credentials w = Inr creds" "wi_txns w = Inr txns"
    by (simp add: build_services_def supabase_or_def)
  from edge_gateway_serves_only_demo[OF w(1) m(2) w(2,3) rtranclp.rtrancl_refl, of "Fin 0" "''CP1''" 7 "''demo-secret''" "Some ''ocpp1.6''"]
  show ?thesis using w by (intro exI[of _ w] exI[of _ creds] exI[of _ txns]) auto
qed

end
