(* ===== verification/Routes.thy ===== *)
theory Routes
  imports Identity Platform
begin

text \<open>
  The routes of the three applications (\<open>main.py\<close>, \<open>edge_app.py\<close>, \<open>gateway_app.py\<close> and the routers they
  mount) as tables in registration order, and where a request goes: on one application, and through the
  forwarders from the edge and the gateway to the internal application. How the web framework matches a
  path and picks a route is a parameter with its documented behaviour as hypotheses.
\<close>

subsection \<open>Route tables\<close>

text \<open>An HTTP route with its methods, path template and endpoint, or a WebSocket route.\<close>

datatype route = Http "string list" string string | Ws string string

fun endpoint :: "route \<Rightarrow> string" where
  "endpoint (Http ms t e) = e"
| "endpoint (Ws t e) = e"

text \<open>\<open>APIRouter(prefix=\<dots>)\<close> with the routes declared on it.\<close>

definition prefixed :: "string \<Rightarrow> (string \<times> string \<times> string) list \<Rightarrow> route list" where
  "prefixed p rs = map (\<lambda>(m, t, e). Http [m] (p @ t) e) rs"

definition tariff_routes :: "route list" where
  "tariff_routes = prefixed ''/admin/tariffs''
     [(''GET'', '''', ''list_tariffs''), (''POST'', '''', ''create_tariff''), (''PUT'', ''/{tariff_id}'', ''update_tariff''),
      (''GET'', ''/{tariff_id}/preview'', ''preview_tariff'')]"

definition wallet_routes :: "route list" where
  "wallet_routes = prefixed ''/wallet''
     [(''POST'', ''/topup'', ''topup''), (''POST'', ''/topup/webhook'', ''topup_webhook''), (''GET'', ''/{wallet_id}/balance'', ''get_balance'')]"

definition payment_method_routes :: "route list" where
  "payment_method_routes = prefixed ''/wallet/{wallet_id}/payment-method''
     [(''GET'', '''', ''get_payment_method''), (''POST'', '''', ''set_payment_method'')]"

definition stripe_webhook_routes :: "route list" where
  "stripe_webhook_routes = prefixed ''/billing/stripe'' [(''POST'', ''/webhook'', ''stripe_webhook'')]"

definition carbon_routes :: "route list" where
  "carbon_routes = prefixed ''/internal'' [(''GET'', ''/carbon-intensity'', ''get_carbon_intensity'')]"

definition cost_report_routes :: "route list" where
  "cost_report_routes = prefixed ''/admin/teams/{team_id}/cost-report''
     [(''GET'', '''', ''get_cost_report''), (''GET'', ''/csv'', ''get_cost_report_csv'')]"

definition session_start_routes :: "route list" where
  "session_start_routes = prefixed ''/charging/session/start''
     [(''POST'', ''/qr'', ''start_via_qr''), (''POST'', ''/autocharge'', ''start_via_autocharge''),
      (''POST'', ''/plug-and-charge'', ''start_via_plug_and_charge''), (''POST'', ''/app'', ''start_via_app'')]"

definition session_routes :: "route list" where
  "session_routes = prefixed ''/charging/session''
     [(''GET'', ''/{session_id}/status'', ''get_status''), (''GET'', ''/{session_id}/live'', ''get_live_status''),
      (''POST'', ''/{session_id}/stop'', ''stop_session'')]"

definition rewards_routes :: "route list" where
  "rewards_routes = prefixed ''/driver/rewards'' [(''GET'', '''', ''get_rewards''), (''POST'', ''/redeem'', ''redeem'')]"

definition presence_routes :: "route list" where
  "presence_routes = prefixed ''/internal/chargers''
     [(''GET'', ''/presence'', ''bulk_presence''), (''GET'', ''/{charger_id}/presence'', ''single_presence'')]"

definition command_routes :: "route list" where
  "command_routes = prefixed ''/admin/chargers/{charger_id}/commands''
     [(''POST'', '''', ''send_command''), (''GET'', '''', ''list_recent_commands''), (''GET'', ''/{command_id}'', ''get_command'')]"

definition metrics_routes :: "route list" where
  "metrics_routes = prefixed '''' [(''GET'', ''/metrics'', ''metrics'')]"

definition healthz_routes :: "route list" where
  "healthz_routes = prefixed '''' [(''GET'', ''/healthz'', ''healthz'')]"

text \<open>The documentation routes a \<open>FastAPI\<close> application has before any other.\<close>

definition docs_routes :: "route list" where
  "docs_routes = map (\<lambda>(t, e). Http [''GET'', ''HEAD''] t e)
     [(''/openapi.json'', ''openapi''), (''/docs'', ''swagger_ui_html''), (''/docs/oauth2-redirect'', ''swagger_ui_redirect''), (''/redoc'', ''redoc_html'')]"

definition main_routes :: "route list" where
  "main_routes = docs_routes @ tariff_routes @ wallet_routes @ payment_method_routes @ stripe_webhook_routes @ carbon_routes
     @ cost_report_routes @ session_start_routes @ session_routes @ rewards_routes @ presence_routes @ command_routes
     @ metrics_routes @ healthz_routes"

subsection \<open>The edge application\<close>

definition driver_auth_routes :: "route list" where
  "driver_auth_routes = prefixed ''/auth'' [(''POST'', ''/signup'', ''signup''), (''POST'', ''/login'', ''login''), (''POST'', ''/refresh'', ''refresh'')]"

definition map_routes :: "route list" where
  "map_routes = prefixed ''/map'' [(''GET'', ''/chargers'', ''list_chargers'')]"

definition vehicle_routes :: "route list" where
  "vehicle_routes = prefixed ''/driver/vehicles''
     [(''GET'', '''', ''list_vehicles''), (''POST'', '''', ''create_vehicle''), (''PATCH'', ''/{vehicle_id}/plug-and-charge'', ''set_plug_and_charge''),
      (''DELETE'', ''/{vehicle_id}'', ''delete_vehicle'')]"

definition reservation_routes :: "route list" where
  "reservation_routes = prefixed ''/driver/reservations''
     [(''GET'', '''', ''list_reservations''), (''POST'', '''', ''create_reservation''), (''DELETE'', ''/{reservation_id}'', ''cancel_reservation'')]"

definition route_planner_routes :: "route list" where
  "route_planner_routes = prefixed ''/driver/route-plan'' [(''POST'', '''', ''plan_route'')]"

definition usage_insights_routes :: "route list" where
  "usage_insights_routes = prefixed ''/driver/usage-insights'' [(''GET'', '''', ''get_daily_usage'')]"

definition session_start_forwarder_routes :: "route list" where
  "session_start_forwarder_routes = prefixed ''''
     [(''POST'', ''/charging/session/start/{method}'', ''forward''), (''GET'', ''/charging/session/{session_id}/status'', ''forward_status''),
      (''GET'', ''/charging/session/{session_id}/live'', ''forward_live''), (''POST'', ''/charging/session/{session_id}/stop'', ''forward_stop'')]"

definition wallet_forwarder_routes :: "route list" where
  "wallet_forwarder_routes = prefixed ''''
     [(''GET'', ''/wallet/balance'', ''forward_get_balance''), (''POST'', ''/wallet/topup'', ''forward_topup''),
      (''GET'', ''/wallet/payment-method'', ''forward_get_payment_method''), (''POST'', ''/wallet/payment-method'', ''forward_set_payment_method'')]"

definition rewards_forwarder_routes :: "route list" where
  "rewards_forwarder_routes = prefixed ''''
     [(''GET'', ''/driver/rewards'', ''forward_get_rewards''), (''POST'', ''/driver/rewards/redeem'', ''forward_redeem'')]"

text \<open>\<open>_register_commands\<close> and \<open>_register_charging_preferences\<close>, called for two versions.\<close>

definition register_commands :: "string \<Rightarrow> (string \<times> string \<times> string) list" where
  "register_commands version =
     [(''POST'', ''/'' @ version @ ''/commands/START_SESSION'', ''start_session_'' @ version),
      (''POST'', ''/'' @ version @ ''/commands/STOP_SESSION'', ''stop_session_'' @ version),
      (''POST'', ''/'' @ version @ ''/commands/RESERVE_NOW'', ''reserve_now_'' @ version),
      (''POST'', ''/'' @ version @ ''/commands/UNLOCK_CONNECTOR'', ''unlock_connector_'' @ version),
      (''POST'', ''/'' @ version @ ''/commands/CANCEL_RESERVATION'', ''cancel_reservation_'' @ version)]"

definition register_charging_preferences :: "string \<Rightarrow> (string \<times> string \<times> string) list" where
  "register_charging_preferences version =
     [(''PUT'', ''/'' @ version @ ''/sessions/{session_id}/charging_preferences'', ''set_charging_prefs_'' @ version),
      (''GET'', ''/'' @ version @ ''/sessions/{session_id}/charging_preferences'', ''get_charging_prefs_'' @ version)]"

definition ocpi_routes :: "route list" where
  "ocpi_routes = prefixed ''/ocpi''
     ([(''GET'', ''/versions'', ''versions''), (''POST'', ''/{version}/credentials'', ''credentials''),
       (''GET'', ''/2.1.1/locations'', ''list_locations_v211''), (''GET'', ''/2.1.1/locations/{location_id}'', ''get_location_v211''),
       (''GET'', ''/2.1.1/tariffs'', ''list_tariffs_v211''), (''GET'', ''/2.1.1/tariffs/{tariff_id}'', ''get_tariff_v211''),
       (''PATCH'', ''/2.1.1/tokens/{token_uid}'', ''reject_v211_token_write''), (''PUT'', ''/2.1.1/tokens/{token_uid}'', ''reject_v211_token_write''),
       (''PATCH'', ''/2.1.1/sessions/{session_id}'', ''reject_v211_session_write''), (''PUT'', ''/2.1.1/sessions/{session_id}'', ''reject_v211_session_write''),
       (''GET'', ''/2.2.1/locations/{location_id}'', ''get_location_v221''),
       (''GET'', ''/2.2.1/tariffs'', ''list_tariffs_v221''), (''GET'', ''/2.2.1/tariffs/{tariff_id}'', ''get_tariff_v221''),
       (''GET'', ''/2.3.0/locations/{location_id}'', ''get_location_v230''),
       (''GET'', ''/2.3.0/tariffs'', ''list_tariffs_v230''), (''GET'', ''/2.3.0/tariffs/{tariff_id}'', ''get_tariff_v230''),
       (''PUT'', ''/2.2.1/chargingprofiles/{session_id}'', ''put_charging_profile_v221''),
       (''GET'', ''/2.2.1/chargingprofiles/{session_id}'', ''get_charging_profile_v221''),
       (''PUT'', ''/2.3.0/chargingprofiles/{session_id}'', ''put_charging_profile_v230''),
       (''GET'', ''/2.3.0/chargingprofiles/{session_id}'', ''get_charging_profile_v230'')]
      @ register_commands ''2.2.1'' @ register_commands ''2.3.0''
      @ register_charging_preferences ''2.2.1'' @ register_charging_preferences ''2.3.0'')"

definition admin_routes :: "route list" where
  "admin_routes = prefixed ''/admin/ocpi''
     [(''GET'', ''/partners'', ''list_partners''), (''POST'', ''/partners'', ''create_partner''),
      (''POST'', ''/partners/{partner_id}/rotate-token'', ''rotate_token''), (''POST'', ''/partners/{partner_id}/price-lists'', ''attach_price_list''),
      (''GET'', ''/reconciliation'', ''reconciliation''), (''GET'', ''/reconciliation/export'', ''reconciliation_export''),
      (''POST'', ''/sessions/{session_id}/binding'', ''bind_session_to_charger'')]"

definition ocpp_ws_routes :: "route list" where
  "ocpp_ws_routes = [Ws ''/ocpp/{charger_id}'' ''ocpp_endpoint'']"

definition edge_routes :: "route list" where
  "edge_routes = docs_routes @ driver_auth_routes @ map_routes @ vehicle_routes @ reservation_routes @ route_planner_routes @ usage_insights_routes
     @ session_start_forwarder_routes @ wallet_forwarder_routes @ rewards_forwarder_routes @ ocpi_routes @ admin_routes @ ocpp_ws_routes
     @ metrics_routes @ healthz_routes"

subsection \<open>The gateway application\<close>

definition gateway_app_routes :: "route list" where
  "gateway_app_routes = prefixed ''''
     [(''POST'', ''/oauth/authorize'', ''authorize''), (''POST'', ''/oauth/token'', ''token''), (''POST'', ''/sso/{provider_id}/callback'', ''sso_callback''),
      (''GET'', ''/healthz'', ''healthz'')]"

definition dev_prefixes :: "string list" where
  "dev_prefixes = [''/admin/tariffs'', ''/admin/teams'', ''/admin/chargers'']"

definition dev_forwarder_routes :: "string list \<Rightarrow> route list" where
  "dev_forwarder_routes prefixes =
     concat (map (\<lambda>p. [Http [''GET'', ''POST'', ''PUT'', ''PATCH'', ''DELETE''] (p @ ''/{path:path}'') ''forward_with_subpath'',
                       Http [''GET'', ''POST'', ''PUT'', ''PATCH'', ''DELETE''] p ''forward_bare'']) prefixes)"

definition gateway_routes :: "settings \<Rightarrow> route list" where
  "gateway_routes st = docs_routes @ gateway_app_routes
     @ (if st_app_mode st = Testing then dev_forwarder_routes dev_prefixes else []) @ metrics_routes"

text \<open>The path the development forwarder sends on: \<open>f"{_bare}/{path}"\<close> or \<open>_bare\<close>, after a slash.\<close>

definition dev_upstream_path :: "string \<Rightarrow> string option \<Rightarrow> string" where
  "dev_upstream_path prefix sub =
     (let bare = dropWhile (\<lambda>c. c = CHR ''/'') prefix
      in ''/'' @ (case sub of None \<Rightarrow> bare | Some path \<Rightarrow> bare @ ''/'' @ path))"

subsection \<open>Matching and picking a route\<close>

text \<open>
  The documented matching of a path template, on paths without newline: \<open>{name}\<close> stands for one non-empty segment, \<open>{name:path}\<close>
  for any rest, everything else for itself.
\<close>

datatype seg = Lit string | Param | Rest

definition compile_seg :: "string \<Rightarrow> seg" where
  "compile_seg s = (if s \<noteq> [] \<and> hd s = CHR ''{'' \<and> last s = CHR ''}''
     then (if drop (length s - 6) s = '':path}'' then Rest else Param) else Lit s)"

definition compile :: "string \<Rightarrow> seg list" where
  "compile t = map compile_seg (split_on (CHR ''/'') t)"

fun seg_match :: "seg list \<Rightarrow> string list \<Rightarrow> bool" where
  "seg_match [] ps \<longleftrightarrow> ps = []"
| "seg_match (Rest # ts) ps \<longleftrightarrow> ps \<noteq> [] \<and> ts = []"
| "seg_match (Param # ts) (p # ps) \<longleftrightarrow> p \<noteq> [] \<and> seg_match ts ps"
| "seg_match (Lit s # ts) (p # ps) \<longleftrightarrow> p = s \<and> seg_match ts ps"
| "seg_match (_ # ts) [] \<longleftrightarrow> False"

definition template_matches :: "string \<Rightarrow> string \<Rightarrow> bool" where
  "template_matches t p \<longleftrightarrow> seg_match (compile t) (split_on (CHR ''/'') p)"

definition matching_law :: "(string \<Rightarrow> string \<Rightarrow> bool) \<Rightarrow> bool" where
  "matching_law matches \<longleftrightarrow> (\<forall>t p. CHR 0x0A \<notin> set p \<longrightarrow> matches t p = template_matches t p)"

fun path_match :: "(string \<Rightarrow> string \<Rightarrow> bool) \<Rightarrow> string \<Rightarrow> route \<Rightarrow> bool" where
  "path_match matches path (Http ms t e) \<longleftrightarrow> matches t path"
| "path_match matches path (Ws t e) \<longleftrightarrow> False"

fun full_match :: "(string \<Rightarrow> string \<Rightarrow> bool) \<Rightarrow> string \<Rightarrow> string \<Rightarrow> route \<Rightarrow> bool" where
  "full_match matches meth path (Http ms t e) \<longleftrightarrow> meth \<in> set ms \<and> matches t path"
| "full_match matches meth path (Ws t e) \<longleftrightarrow> False"

text \<open>
  The documented choice: the first registered route that matches path and method is called; with none, no endpoint is, and a
  path that matches no route, with or without trailing slash, is not found.
\<close>

datatype dispatched = Handled string | MethodNotAllowed | RedirectTo string | NotFound

definition slash_toggled :: "string \<Rightarrow> string" where
  "slash_toggled p = (if p \<noteq> [] \<and> last p = CHR ''/'' then rev (dropWhile (\<lambda>c. c = CHR ''/'') (rev p)) else p @ ''/'')"

definition routing_law :: "(string \<Rightarrow> string \<Rightarrow> bool) \<Rightarrow> (route list \<Rightarrow> string \<Rightarrow> string \<Rightarrow> dispatched) \<Rightarrow> bool" where
  "routing_law matches router \<longleftrightarrow> (\<forall>rs meth path.
     case find (full_match matches meth path) rs of
       Some r \<Rightarrow> router rs meth path = Handled (endpoint r)
     | None \<Rightarrow> (\<forall>e. router rs meth path \<noteq> Handled e)
         \<and> ((\<forall>r \<in> set rs. \<not> path_match matches path r \<and> \<not> path_match matches (slash_toggled path) r) \<longrightarrow> router rs meth path = NotFound))"

text \<open>A router with this behaviour.\<close>

definition first_match_router :: "route list \<Rightarrow> string \<Rightarrow> string \<Rightarrow> dispatched" where
  "first_match_router rs meth path =
     (case find (full_match template_matches meth path) rs of
        Some r \<Rightarrow> Handled (endpoint r)
      | None \<Rightarrow> if list_ex (path_match template_matches path) rs then MethodNotAllowed
          else if list_ex (path_match template_matches (slash_toggled path)) rs then RedirectTo (slash_toggled path) else NotFound)"

lemma matching_law_template: "matching_law template_matches"
  by (simp add: matching_law_def)

lemma routing_law_first_match: "routing_law template_matches first_match_router"
  by (auto simp: routing_law_def first_match_router_def list_ex_iff split: option.split)

subsection \<open>No request has two routes\<close>

fun seg_disjoint :: "seg list \<Rightarrow> seg list \<Rightarrow> bool" where
  "seg_disjoint [] us \<longleftrightarrow> us \<noteq> []"
| "seg_disjoint (t # ts) us =
     (case us of [] \<Rightarrow> True
      | u # us' \<Rightarrow>
        (case t of
           Rest \<Rightarrow> False
         | Param \<Rightarrow> (case u of Rest \<Rightarrow> False | _ \<Rightarrow> seg_disjoint ts us')
         | Lit s \<Rightarrow> (case u of Rest \<Rightarrow> False | Param \<Rightarrow> seg_disjoint ts us' | Lit v \<Rightarrow> if s = v then seg_disjoint ts us' else True)))"

lemma seg_match_Nil: "seg_match us [] \<longleftrightarrow> us = []"
  by (cases us; cases "hd us") auto

lemma seg_disjoint_sound: "seg_disjoint ts us \<Longrightarrow> seg_match ts ps \<Longrightarrow> \<not> seg_match us ps"
proof (induction ts arbitrary: us ps)
  case Nil
  then show ?case by (simp add: seg_match_Nil)
next
  case (Cons t ts)
  show ?case
  proof (cases us)
    case Nil
    then show ?thesis using Cons.prems by (cases t) auto
  next
    case u: (Cons u us')
    show ?thesis
    proof (cases ps)
      case p: (Cons p ps')
      show ?thesis using Cons.prems Cons.IH[of us' ps'] unfolding u p by (cases t; cases u) (auto split: if_splits)
    qed (use Cons.prems in \<open>cases t; simp\<close>)
  qed
qed

text \<open>A route's methods and compiled template; routes whose keys are disjoint never match one request.\<close>

fun route_key :: "route \<Rightarrow> (string list \<times> seg list) option" where
  "route_key (Http ms t e) = Some (ms, compile t)"
| "route_key (Ws t e) = None"

fun key_disjoint :: "(string list \<times> seg list) option \<Rightarrow> (string list \<times> seg list) option \<Rightarrow> bool" where
  "key_disjoint (Some (ms, ts)) (Some (ns, us)) \<longleftrightarrow> (if seg_disjoint ts us then True else list_all (\<lambda>m. m \<notin> set ns) ms)"
| "key_disjoint _ _ \<longleftrightarrow> True"

lemma key_disjoint_sound:
  "key_disjoint (route_key r) (route_key s) \<Longrightarrow> full_match template_matches meth path r \<Longrightarrow> \<not> full_match template_matches meth path s"
  by (cases r; cases s) (auto simp: template_matches_def list_all_iff dest: seg_disjoint_sound split: if_splits)

lemma filter_at_most_one:
  assumes "sorted_wrt (\<lambda>r s. \<not> (P r \<and> P s)) rs" shows "length (filter P rs) \<le> 1"
  using assms
proof (induction rs)
  case (Cons r rs)
  then show ?case by (cases "P r") (auto simp: filter_empty_conv)
qed simp

lemma main_routes_disjoint: "sorted_wrt key_disjoint (map route_key main_routes)"
  by code_simp

lemma gateway_routes_disjoint: "sorted_wrt key_disjoint (map route_key (gateway_routes st))"
proof -
  have "sorted_wrt key_disjoint (map route_key (docs_routes @ gateway_app_routes @ dev_forwarder_routes dev_prefixes @ metrics_routes))"
    "sorted_wrt key_disjoint (map route_key (docs_routes @ gateway_app_routes @ [] @ metrics_routes))" by code_simp+
  then show ?thesis unfolding gateway_routes_def by (simp only: split: if_split) simp
qed

text \<open>The one pair of routes of the edge application that can match the same request.\<close>

definition start_stop_overlap :: "(string list \<times> seg list) option \<Rightarrow> (string list \<times> seg list) option \<Rightarrow> bool" where
  "start_stop_overlap a b \<longleftrightarrow> a = Some ([''POST''], [Lit [], Lit ''charging'', Lit ''session'', Lit ''start'', Param])
     \<and> b = Some ([''POST''], [Lit [], Lit ''charging'', Lit ''session'', Param, Lit ''stop''])"

lemma edge_routes_disjoint:
  "sorted_wrt (\<lambda>a b. if key_disjoint a b then True else start_stop_overlap a b) (map route_key edge_routes)"
  by code_simp


lemma full_match_path: "full_match matches meth path r \<Longrightarrow> path_match matches path r"
  by (cases r) simp_all

lemma full_match_law:
  assumes "matching_law matches" and "CHR 0x0A \<notin> set path"
  shows "full_match matches meth path = full_match template_matches meth path"
proof
  fix r show "full_match matches meth path r = full_match template_matches meth path r" using assms by (cases r) (simp_all add: matching_law_def)
qed

lemma unambiguous:
  assumes "matching_law matches" and "CHR 0x0A \<notin> set path" and "sorted_wrt key_disjoint (map route_key rs)"
  shows "length (filter (full_match matches meth path) rs) \<le> 1"
proof -
  have "sorted_wrt (\<lambda>r s. \<not> (full_match template_matches meth path r \<and> full_match template_matches meth path s)) rs"
    using assms(3) unfolding sorted_wrt_map by (rule sorted_wrt_mono_rel[rotated]) (use key_disjoint_sound in blast)
  then show ?thesis unfolding full_match_law[OF assms(1,2)] by (rule filter_at_most_one)
qed

lemma split_on_eq_Nil [simp]: "split_on c p \<noteq> []"
  by (induction p) (auto split: list.split)

fun join_on :: "char \<Rightarrow> string list \<Rightarrow> string" where
  "join_on c [] = []"
| "join_on c [a] = a"
| "join_on c (a # b # bs) = a @ c # join_on c (b # bs)"

lemma join_split: "join_on c (split_on c p) = p"
proof (induction p)
  case (Cons x p)
  obtain w ws where w: "split_on c p = w # ws" by (cases "split_on c p") simp_all
  then show ?case using Cons by (cases ws) auto
qed simp

lemma overlap_path:
  assumes "seg_match [Lit [], Lit ''charging'', Lit ''session'', Lit ''start'', Param] (split_on (CHR ''/'') p)"
    and "seg_match [Lit [], Lit ''charging'', Lit ''session'', Param, Lit ''stop''] (split_on (CHR ''/'') p)"
  shows "p = ''/charging/session/start/stop''"
proof -
  have "split_on (CHR ''/'') p = [[], ''charging'', ''session'', ''start'', ''stop'']"
  proof -
    obtain a as where 1: "split_on (CHR ''/'') p = a # as" by (cases "split_on (CHR ''/'') p") simp_all
    obtain b bs where 2: "as = b # bs" using assms(1) 1 by (cases as) simp_all
    obtain d ds where 3: "bs = d # ds" using assms(1) 1 2 by (cases bs) simp_all
    obtain e es where 4: "ds = e # es" using assms(1) 1 2 3 by (cases ds) simp_all
    obtain f fs where 5: "es = f # fs" using assms(1) 1 2 3 4 by (cases es) simp_all
    show ?thesis using assms 1 2 3 4 5 by simp
  qed
  from arg_cong[OF this, of "join_on (CHR ''/'')"] show ?thesis unfolding join_split by simp
qed

lemma edge_unambiguous:
  assumes "matching_law matches" and "CHR 0x0A \<notin> set path"
  shows "meth = ''POST'' \<and> path = ''/charging/session/start/stop'' \<or> length (filter (full_match matches meth path) edge_routes) \<le> 1"
proof (cases "meth = ''POST'' \<and> path = ''/charging/session/start/stop''")
  case False
  let ?P = "full_match template_matches meth path"
  have both: "\<not> (?P r \<and> ?P s)" if "if key_disjoint (route_key r) (route_key s) then True else start_stop_overlap (route_key r) (route_key s)" for r s
  proof (cases "key_disjoint (route_key r) (route_key s)")
    case True
    then show ?thesis using key_disjoint_sound by blast
  next
    case overlap: False
    then have "start_stop_overlap (route_key r) (route_key s)" using that by simp
    then show ?thesis using False overlap_path by (cases r; cases s) (auto simp: start_stop_overlap_def template_matches_def)
  qed
  have "sorted_wrt (\<lambda>r s. \<not> (?P r \<and> ?P s)) edge_routes"
    using edge_routes_disjoint unfolding sorted_wrt_map by (rule sorted_wrt_mono_rel[rotated]) (rule both)
  then show ?thesis unfolding full_match_law[OF assms] by (intro disjI2 filter_at_most_one)
qed simp

lemma sole_route:
  assumes "routing_law matches router" and "length (filter (full_match matches meth path) rs) \<le> 1"
    and "r \<in> set rs" and "full_match matches meth path r"
  shows "router rs meth path = Handled (endpoint r)"
proof -
  have "find (full_match matches meth path) rs = Some r"
    using assms(2-4)
  proof (induction rs)
    case (Cons x xs)
    show ?case
    proof (cases "full_match matches meth path x")
      case True
      then have "filter (full_match matches meth path) xs = []" using Cons.prems by simp
      then have "x = r" using Cons.prems(2,3) by (auto simp: filter_empty_conv)
      then show ?thesis using True by simp
    qed (use Cons in auto)
  qed simp
  then show ?thesis using spec[OF spec[OF spec[OF assms(1)[unfolded routing_law_def], of rs], of meth], of path] by simp
qed

lemma handled_route:
  assumes "routing_law matches router" and "router rs meth path = Handled x"
  shows "\<exists>r \<in> set rs. full_match matches meth path r \<and> endpoint r = x"
  using spec[OF spec[OF spec[OF assms(1)[unfolded routing_law_def], of rs], of meth], of path] assms(2)
  by (cases "find (full_match matches meth path) rs") (auto simp: find_Some_iff)

text \<open>
  The order in which routers are mounted decides nothing: on each application at most one route matches
  a request, except that on the edge a POST to \<open>/charging/session/start/stop\<close> matches two.
\<close>

theorem routes_unambiguous:
  assumes "matching_law matches" and "CHR 0x0A \<notin> set path"
  shows "length (filter (full_match matches meth path) main_routes) \<le> 1
    \<and> length (filter (full_match matches meth path) (gateway_routes st)) \<le> 1
    \<and> (meth = ''POST'' \<and> path = ''/charging/session/start/stop'' \<or> length (filter (full_match matches meth path) edge_routes) \<le> 1)"
proof (intro conjI)
  show "length (filter (full_match matches meth path) main_routes) \<le> 1" by (rule unambiguous[OF assms main_routes_disjoint])
  show "length (filter (full_match matches meth path) (gateway_routes st)) \<le> 1" by (rule unambiguous[OF assms gateway_routes_disjoint])
  show "meth = ''POST'' \<and> path = ''/charging/session/start/stop'' \<or> length (filter (full_match matches meth path) edge_routes) \<le> 1"
    by (rule edge_unambiguous[OF assms])
qed

theorem routes_unambiguous_witness:
  "length (filter (full_match template_matches ''GET'' ''/wallet/w1/balance'') main_routes) \<le> 1"
  by (rule conjunct1[OF routes_unambiguous[OF matching_law_template]]) simp

subsection \<open>Where the forwarders' requests arrive\<close>

text \<open>A text that can stand for a path parameter.\<close>

definition path_segment :: "string \<Rightarrow> bool" where
  "path_segment s \<longleftrightarrow> s \<noteq> [] \<and> CHR ''/'' \<notin> set s \<and> CHR 0x0A \<notin> set s"

lemma path_segment_uuid [simp]: "path_segment (str_uuid u)"
proof -
  have "CHR ''/'' \<notin> set hex_chars" "CHR 0x0A \<notin> set hex_chars" by code_simp+
  then show ?thesis using set_str_uuid[of u] uuid_hex_chars[of _ u] by (auto simp: path_segment_def)
qed

lemma main_route:
  assumes "matching_law matches" and "routing_law matches router" and "CHR 0x0A \<notin> set path"
    and "Http [meth] t e \<in> set main_routes" and "template_matches t path"
  shows "router main_routes meth path = Handled e"
proof -
  have "full_match matches meth path (Http [meth] t e)" using assms(1,3,5) by (simp add: matching_law_def)
  from sole_route[OF assms(2) unambiguous[OF assms(1,3) main_routes_disjoint] assms(4) this] show ?thesis by simp
qed

lemma edge_route:
  assumes "matching_law matches" and "routing_law matches router" and "CHR 0x0A \<notin> set path"
    and "Http [meth] t e \<in> set edge_routes" and "template_matches t path" and "path \<noteq> ''/charging/session/start/stop''"
  shows "router edge_routes meth path = Handled e"
proof -
  have "full_match matches meth path (Http [meth] t e)" using assms(1,3,5) by (simp add: matching_law_def)
  moreover have "length (filter (full_match matches meth path) edge_routes) \<le> 1" using edge_unambiguous[OF assms(1,3), of meth] assms(6) by blast
  ultimately show ?thesis using sole_route[OF assms(2) _ assms(4)] by simp
qed

lemma session_path_matches:
  assumes "path_segment sid"
  shows "split_on (CHR ''/'') (''/charging/session/'' @ sid @ ''/'' @ what) = [] # ''charging'' # ''session'' # sid # split_on (CHR ''/'') what"
    "split_on (CHR ''/'') (''/wallet/'' @ sid @ ''/'' @ what) = [] # ''wallet'' # sid # split_on (CHR ''/'') what"
proof -
  have s: "split_on (CHR ''/'') (sid @ CHR ''/'' # what) = sid # split_on (CHR ''/'') what" using assms by (simp add: path_segment_def)
  show "split_on (CHR ''/'') (''/charging/session/'' @ sid @ ''/'' @ what) = [] # ''charging'' # ''session'' # sid # split_on (CHR ''/'') what"
    "split_on (CHR ''/'') (''/wallet/'' @ sid @ ''/'' @ what) = [] # ''wallet'' # sid # split_on (CHR ''/'') what"
    by (simp_all add: s)
qed

lemma main_route_members:
  "Http [''GET''] ''/charging/session/{session_id}/status'' ''get_status'' \<in> set main_routes"
  "Http [''GET''] ''/charging/session/{session_id}/live'' ''get_live_status'' \<in> set main_routes"
  "Http [''POST''] ''/charging/session/{session_id}/stop'' ''stop_session'' \<in> set main_routes"
  "Http [''GET''] ''/wallet/{wallet_id}/balance'' ''get_balance'' \<in> set main_routes"
  "Http [''GET''] ''/wallet/{wallet_id}/payment-method'' ''get_payment_method'' \<in> set main_routes"
  "Http [''POST''] ''/wallet/{wallet_id}/payment-method'' ''set_payment_method'' \<in> set main_routes"
  "Http [''POST''] ''/wallet/topup'' ''topup'' \<in> set main_routes"
  "Http [''GET''] ''/driver/rewards'' ''get_rewards'' \<in> set main_routes"
  "Http [''POST''] ''/driver/rewards/redeem'' ''redeem'' \<in> set main_routes"
  "Http [''POST''] ''/charging/session/start/qr'' ''start_via_qr'' \<in> set main_routes"
  "Http [''POST''] ''/charging/session/start/autocharge'' ''start_via_autocharge'' \<in> set main_routes"
  "Http [''POST''] ''/charging/session/start/plug-and-charge'' ''start_via_plug_and_charge'' \<in> set main_routes"
  "Http [''POST''] ''/charging/session/start/app'' ''start_via_app'' \<in> set main_routes"
  by code_simp+

lemma compiled_templates:
  "compile ''/charging/session/{session_id}/status'' = [Lit [], Lit ''charging'', Lit ''session'', Param, Lit ''status'']"
  "compile ''/charging/session/{session_id}/live'' = [Lit [], Lit ''charging'', Lit ''session'', Param, Lit ''live'']"
  "compile ''/charging/session/{session_id}/stop'' = [Lit [], Lit ''charging'', Lit ''session'', Param, Lit ''stop'']"
  "compile ''/wallet/{wallet_id}/balance'' = [Lit [], Lit ''wallet'', Param, Lit ''balance'']"
  "compile ''/wallet/{wallet_id}/payment-method'' = [Lit [], Lit ''wallet'', Param, Lit ''payment-method'']"
  by code_simp+

lemma edge_route_members:
  "Http [''GET''] ''/charging/session/{session_id}/status'' ''forward_status'' \<in> set edge_routes"
  "Http [''GET''] ''/charging/session/{session_id}/live'' ''forward_live'' \<in> set edge_routes"
  "Http [''POST''] ''/charging/session/{session_id}/stop'' ''forward_stop'' \<in> set edge_routes"
  "Http [''POST''] ''/charging/session/start/{method}'' ''forward'' \<in> set edge_routes"
  by code_simp+

text \<open>A client that answers every request and records it.\<close>

definition recording :: "http_response \<Rightarrow> upstream_request list client" where
  "recording resp rq sent = (Inr resp, sent @ [rq])"

lemma recorded [simp]: "snd (relay (recording resp rq sent)) = sent @ [rq]"
  by (simp add: relay_def recording_def)

text \<open>One request was sent, and the internal application calls this endpoint for it.\<close>

definition arrives :: "(route list \<Rightarrow> string \<Rightarrow> string \<Rightarrow> dispatched) \<Rightarrow> string \<Rightarrow> upstream_request list \<Rightarrow> bool" where
  "arrives router e sent \<longleftrightarrow> (\<exists>rq. sent = [rq] \<and> router main_routes (uq_method rq) (uq_path rq) = Handled e)"

lemma main_literal_route:
  assumes "matching_law matches" and "routing_law matches router" and "Http [meth] path e \<in> set main_routes"
    and "compile path = map Lit (split_on (CHR ''/'') path)" and "CHR 0x0A \<notin> set path"
  shows "router main_routes meth path = Handled e"
proof -
  have "seg_match (map Lit ss) ss" for ss by (induction ss) simp_all
  then show ?thesis using main_route[OF assms(1,2,5,3)] assms(4) by (simp add: template_matches_def)
qed

lemma start_endpoints:
  assumes "matching_law matches" and "routing_law matches router"
    and "(meth, e) \<in> {(''qr'', ''start_via_qr''), (''autocharge'', ''start_via_autocharge''),
           (''plug-and-charge'', ''start_via_plug_and_charge''), (''app'', ''start_via_app'')}"
  shows "router main_routes ''POST'' (''/charging/session/start/'' @ meth) = Handled e \<and> router edge_routes ''POST'' (''/charging/session/start/'' @ meth) = Handled ''forward''"
proof -
  have l: "compile p = map Lit (split_on (CHR ''/'') p) \<and> CHR 0x0A \<notin> set p \<and> template_matches ''/charging/session/start/{method}'' p"
    if "p \<in> {''/charging/session/start/qr'', ''/charging/session/start/autocharge'', ''/charging/session/start/plug-and-charge'', ''/charging/session/start/app''}" for p
    using that by (elim insertE emptyE) (hypsubst, code_simp)+
  note m = main_literal_route[OF assms(1,2)] edge_route[OF assms(1,2) _ edge_route_members(4)]
  show ?thesis using assms(3) l by (elim insertE emptyE) (simp_all add: m main_route_members)
qed

lemma session_endpoints:
  assumes "matching_law matches" and "routing_law matches router" and "path_segment sid"
  shows "router main_routes ''GET'' (''/charging/session/'' @ sid @ ''/status'') = Handled ''get_status''"
    "router main_routes ''GET'' (''/charging/session/'' @ sid @ ''/live'') = Handled ''get_live_status''"
    "router main_routes ''POST'' (''/charging/session/'' @ sid @ ''/stop'') = Handled ''stop_session''"
    "router edge_routes ''GET'' (''/charging/session/'' @ sid @ ''/status'') = Handled ''forward_status''"
    "router edge_routes ''GET'' (''/charging/session/'' @ sid @ ''/live'') = Handled ''forward_live''"
    "sid \<noteq> ''start'' \<Longrightarrow> router edge_routes ''POST'' (''/charging/session/'' @ sid @ ''/stop'') = Handled ''forward_stop''"
proof -
  have nl: "CHR 0x0A \<notin> set (''/charging/session/'' @ sid @ ''/status'')" "CHR 0x0A \<notin> set (''/charging/session/'' @ sid @ ''/live'')"
    "CHR 0x0A \<notin> set (''/charging/session/'' @ sid @ ''/stop'')" using assms(3) by (simp_all add: path_segment_def)
  have m: "template_matches ''/charging/session/{session_id}/status'' (''/charging/session/'' @ sid @ ''/status'')"
    "template_matches ''/charging/session/{session_id}/live'' (''/charging/session/'' @ sid @ ''/live'')"
    "template_matches ''/charging/session/{session_id}/stop'' (''/charging/session/'' @ sid @ ''/stop'')"
    using session_path_matches(1)[OF assms(3), of "''status''"] session_path_matches(1)[OF assms(3), of "''live''"]
      session_path_matches(1)[OF assms(3), of "''stop''"] assms(3)
    unfolding template_matches_def compiled_templates by (simp_all add: path_segment_def)
  show "router main_routes ''GET'' (''/charging/session/'' @ sid @ ''/status'') = Handled ''get_status''"
    by (rule main_route[OF assms(1,2) nl(1) main_route_members(1) m(1)])
  show "router main_routes ''GET'' (''/charging/session/'' @ sid @ ''/live'') = Handled ''get_live_status''"
    by (rule main_route[OF assms(1,2) nl(2) main_route_members(2) m(2)])
  show "router main_routes ''POST'' (''/charging/session/'' @ sid @ ''/stop'') = Handled ''stop_session''"
    by (rule main_route[OF assms(1,2) nl(3) main_route_members(3) m(3)])
  have "last (''/charging/session/'' @ sid @ ''/status'') \<noteq> last ''/charging/session/start/stop''"
    "last (''/charging/session/'' @ sid @ ''/live'') \<noteq> last ''/charging/session/start/stop''" by simp_all
  then have ne: "''/charging/session/'' @ sid @ ''/status'' \<noteq> ''/charging/session/start/stop''"
    "''/charging/session/'' @ sid @ ''/live'' \<noteq> ''/charging/session/start/stop''" by metis+
  show "router edge_routes ''GET'' (''/charging/session/'' @ sid @ ''/status'') = Handled ''forward_status''"
    by (rule edge_route[OF assms(1,2) nl(1) edge_route_members(1) m(1) ne(1)])
  show "router edge_routes ''GET'' (''/charging/session/'' @ sid @ ''/live'') = Handled ''forward_live''"
    by (rule edge_route[OF assms(1,2) nl(2) edge_route_members(2) m(2) ne(2)])
  assume "sid \<noteq> ''start''"
  then have "sid @ ''/stop'' \<noteq> ''start'' @ ''/stop''" unfolding append_same_eq .
  then have "''/charging/session/'' @ sid @ ''/stop'' \<noteq> ''/charging/session/start/stop''" by simp
  then show "router edge_routes ''POST'' (''/charging/session/'' @ sid @ ''/stop'') = Handled ''forward_stop''"
    by (rule edge_route[OF assms(1,2) nl(3) edge_route_members(3) m(3)])
qed

lemma wallet_endpoints:
  assumes "matching_law matches" and "routing_law matches router"
  shows "router main_routes ''GET'' (''/wallet/'' @ str_uuid u @ ''/balance'') = Handled ''get_balance''"
    "router main_routes ''GET'' (''/wallet/'' @ str_uuid u @ ''/payment-method'') = Handled ''get_payment_method''"
    "router main_routes ''POST'' (''/wallet/'' @ str_uuid u @ ''/payment-method'') = Handled ''set_payment_method''"
proof -
  have p: "path_segment (str_uuid u)" by simp
  have nl: "CHR 0x0A \<notin> set (''/wallet/'' @ str_uuid u @ ''/balance'')" "CHR 0x0A \<notin> set (''/wallet/'' @ str_uuid u @ ''/payment-method'')"
    using p by (simp_all add: path_segment_def)
  have m: "template_matches ''/wallet/{wallet_id}/balance'' (''/wallet/'' @ str_uuid u @ ''/balance'')"
    "template_matches ''/wallet/{wallet_id}/payment-method'' (''/wallet/'' @ str_uuid u @ ''/payment-method'')"
    using session_path_matches(2)[OF p, of "''balance''"] session_path_matches(2)[OF p, of "''payment-method''"] p
    unfolding template_matches_def compiled_templates by (simp_all add: path_segment_def)
  show "router main_routes ''GET'' (''/wallet/'' @ str_uuid u @ ''/balance'') = Handled ''get_balance''"
    by (rule main_route[OF assms nl(1) main_route_members(4) m(1)])
  show "router main_routes ''GET'' (''/wallet/'' @ str_uuid u @ ''/payment-method'') = Handled ''get_payment_method''"
    by (rule main_route[OF assms nl(2) main_route_members(5) m(2)])
  show "router main_routes ''POST'' (''/wallet/'' @ str_uuid u @ ''/payment-method'') = Handled ''set_payment_method''"
    by (rule main_route[OF assms nl(2) main_route_members(6) m(2)])
qed



subsection \<open>URLs handed to roaming partners\<close>

text \<open>No route matches any of the paths.\<close>

definition unmatched :: "string list \<Rightarrow> route list \<Rightarrow> bool" where
  "unmatched paths rs =
     (let pss = map (split_on (CHR ''/'')) paths
      in list_all (\<lambda>r. case route_key r of None \<Rightarrow> True | Some (ms, ts) \<Rightarrow> list_all (\<lambda>ps. \<not> seg_match ts ps) pss) rs)"

lemma unmatched_path:
  assumes "unmatched paths rs" and "p \<in> set paths" and "r \<in> set rs"
  shows "\<not> path_match template_matches p r"
  using assms by (cases r) (auto simp: unmatched_def list_all_iff template_matches_def)

lemma not_found:
  assumes "matching_law matches" and "routing_law matches router"
    and "CHR 0x0A \<notin> set path" and "CHR 0x0A \<notin> set (slash_toggled path)"
    and "list_all (\<lambda>r. \<not> path_match template_matches path r \<and> \<not> path_match template_matches (slash_toggled path) r) rs"
  shows "router rs meth path = NotFound"
proof -
  have p: "path_match matches p r = path_match template_matches p r" if "CHR 0x0A \<notin> set p" for p r
    using assms(1) that by (cases r) (simp_all add: matching_law_def)
  have none: "\<forall>r \<in> set rs. \<not> path_match matches path r \<and> \<not> path_match matches (slash_toggled path) r"
    using assms(5) unfolding p[OF assms(3)] p[OF assms(4)] by (simp add: list_all_iff)
  have "find (full_match matches meth path) rs = None" using none full_match_path by (auto simp: find_None_iff)
  then show ?thesis using spec[OF spec[OF spec[OF assms(2)[unfolded routing_law_def], of rs], of meth], of path] none by simp
qed

text \<open>
  C33: The URLs of the OCPI handshake lead nowhere. A successful handshake answers, for the negotiated version, a versions URL
  under \<open>/ocpi\<close>, and the versions endpoint lists one URL per version under the configured base; on the edge application,
  where both are served, a GET of any of these paths is not found.
\<close>

theorem handshake_urls_not_found:
  assumes "matching_law matches" and "routing_law matches router"
    and "negotiate_credentials isofmt t1 t2 new_token token_a version reg = (Inr body, reg')"
  shows "(\<exists>data url. jitem body ''data'' = Inr data \<and> jitem data ''url'' = Inr (JStr url) \<and> router edge_routes ''GET'' url = NotFound)
    \<and> (\<exists>es. jitem (build_versions_response isofmt now ''https://api.example.com/ocpi'') ''data'' = Inr (JList es) \<and> es \<noteq> []
        \<and> list_all (\<lambda>e. \<exists>path. jitem e ''url'' = Inr (JStr (''https://api.example.com'' @ path)) \<and> router edge_routes ''GET'' path = NotFound) es)"
proof -
  let ?paths = "[''/ocpi/2.1.1/versions'', ''/ocpi/2.2.1/versions'', ''/ocpi/2.3.0/versions'', ''/ocpi/2.1.1'', ''/ocpi/2.2.1'', ''/ocpi/2.3.0'']"
  have n: "list_all (\<lambda>p. CHR 0x0A \<notin> set p \<and> slash_toggled p = p @ ''/'') ?paths" "unmatched (?paths @ map (\<lambda>p. p @ ''/'') ?paths) edge_routes"
    by code_simp+
  have "router edge_routes ''GET'' p = NotFound" if p: "p \<in> set ?paths" for p
  proof -
    have t: "slash_toggled p = p @ ''/''" "CHR 0x0A \<notin> set p" using n(1) p unfolding list_all_iff by blast+
    have "p @ ''/'' \<in> set (?paths @ map (\<lambda>p. p @ ''/'') ?paths)" "p \<in> set (?paths @ map (\<lambda>p. p @ ''/'') ?paths)" using p by (auto simp del: append.simps)
    then have "list_all (\<lambda>r. \<not> path_match template_matches p r \<and> \<not> path_match template_matches (p @ ''/'') r) edge_routes"
      using unmatched_path[OF n(2)] unfolding list_all_iff by blast
    then show ?thesis using not_found[OF assms(1,2) t(2)] t by simp
  qed
  then have nf: "list_all (\<lambda>p. router edge_routes ''GET'' p = NotFound) ?paths" by (simp only: list_all_iff ball_simps) blast
  have v: "version \<in> set supported_versions" "jitem body ''data'' = Inr (JObj [(''token'', JStr new_token), (''url'', JStr (''/ocpi/'' @ version @ ''/versions'')), (''roles'', JList [])])"
    using assms(3) by (auto simp: negotiate_credentials_def jitem_def split: if_splits option.splits sum.splits prod.splits)
  have "router edge_routes ''GET'' (''/ocpi/'' @ version @ ''/versions'') = NotFound"
    using v(1) nf unfolding supported_versions_def by auto
  then have 1: "\<exists>data url. jitem body ''data'' = Inr data \<and> jitem data ''url'' = Inr (JStr url) \<and> router edge_routes ''GET'' url = NotFound"
    unfolding v(2) by (simp add: jitem_def)
  have 2: "\<exists>path. jitem (JObj [(''version'', JStr v), (''url'', JStr (''https://api.example.com/ocpi'' @ ''/'' @ v))]) ''url'' = Inr (JStr (''https://api.example.com'' @ path))
      \<and> router edge_routes ''GET'' path = NotFound" if "v \<in> set supported_versions" for v
    using that nf unfolding supported_versions_def by (intro exI[of _ "''/ocpi/'' @ v"]) (auto simp: jitem_def)
  show ?thesis
  proof (intro conjI 1 exI)
    show "jitem (build_versions_response isofmt now ''https://api.example.com/ocpi'') ''data''
        = Inr (JList (map (\<lambda>v. JObj [(''version'', JStr v), (''url'', JStr (''https://api.example.com/ocpi'' @ ''/'' @ v))]) supported_versions))"
      by (simp add: build_versions_response_def jitem_def)
  qed (use 2 in \<open>simp_all add: list_all_iff supported_versions_def del: append.simps\<close>)
qed

theorem handshake_urls_not_found_witness:
  "\<exists>data url. jitem (case negotiate_credentials (\<lambda>_. []) 5 6 ''new'' ''A'' ''2.3.0'' [(1, sample_partner)] of (Inr body, _) \<Rightarrow> body | _ \<Rightarrow> JNull) ''data'' = Inr data
    \<and> jitem data ''url'' = Inr (JStr url) \<and> first_match_router edge_routes ''GET'' url = NotFound"
proof -
  obtain body reg' where n: "negotiate_credentials (\<lambda>_. []) 5 6 ''new'' ''A'' ''2.3.0'' [(1, sample_partner)] = (Inr body, reg')"
    by (simp add: negotiate_credentials_def supported_versions_def find_by_token_a_def set_negotiated_version_def sample_partner_def)
  from conjunct1[OF handshake_urls_not_found[OF matching_law_template routing_law_first_match n]] show ?thesis unfolding n by simp
qed

subsection \<open>What the development forwarder forwards\<close>

lemma split_on_append: "split_on c (p @ c # q) = split_on c p @ split_on c q"
proof (induction p)
  case (Cons x p)
  obtain w ws where "split_on c p = w # ws" by (cases "split_on c p") simp_all
  then show ?case using Cons by simp
qed simp

lemma join_on_append: "ls \<noteq> [] \<Longrightarrow> join_on c (ls @ x # xs) = join_on c ls @ c # join_on c (x # xs)"
  by (induction ls rule: join_on.induct) simp_all

lemma seg_match_lits: "seg_match (map Lit ls) ps \<longleftrightarrow> ps = ls"
proof (induction ls arbitrary: ps)
  case (Cons l ls)
  then show ?case by (cases ps) auto
qed simp

lemma seg_match_rest: "seg_match (map Lit ls @ [Rest]) ps \<longleftrightarrow> (\<exists>x xs. ps = ls @ x # xs)"
proof (induction ls arbitrary: ps)
  case Nil
  then show ?case by (cases ps) auto
next
  case (Cons l ls)
  then show ?case by (cases ps) auto
qed

lemma literal_matches:
  assumes "compile t = map Lit (split_on (CHR ''/'') p)" shows "template_matches t path \<longleftrightarrow> path = p"
  unfolding template_matches_def assms seg_match_lits using join_split by metis

lemma rest_matches:
  assumes "compile t = map Lit (split_on (CHR ''/'') p) @ [Rest]"
  shows "template_matches t path \<longleftrightarrow> (\<exists>rest. path = p @ ''/'' @ rest)"
proof -
  have "path = p @ CHR ''/'' # join_on (CHR ''/'') (x # xs)" if "split_on (CHR ''/'') path = split_on (CHR ''/'') p @ x # xs" for x xs
    using arg_cong[OF that, of "join_on (CHR ''/'')"] by (simp add: join_split join_on_append)
  moreover have "\<exists>x xs. split_on (CHR ''/'') (p @ CHR ''/'' # rest) = split_on (CHR ''/'') p @ x # xs" for rest
    by (cases "split_on (CHR ''/'') rest") (simp_all add: split_on_append)
  ultimately show ?thesis unfolding template_matches_def assms seg_match_rest by auto
qed

lemma dev_prefix_templates:
  assumes "p \<in> set dev_prefixes"
  shows "compile p = map Lit (split_on (CHR ''/'') p)" "compile (p @ ''/{path:path}'') = map Lit (split_on (CHR ''/'') p) @ [Rest]"
    "dropWhile (\<lambda>c. c = CHR ''/'') p = tl p" "hd p = CHR ''/''" "p \<noteq> []"
proof -
  have "list_all (\<lambda>p. compile p = map Lit (split_on (CHR ''/'') p) \<and> compile (p @ ''/{path:path}'') = map Lit (split_on (CHR ''/'') p) @ [Rest]
      \<and> dropWhile (\<lambda>c. c = CHR ''/'') p = tl p \<and> hd p = CHR ''/'' \<and> p \<noteq> []) dev_prefixes" by code_simp
  then show "compile p = map Lit (split_on (CHR ''/'') p)" "compile (p @ ''/{path:path}'') = map Lit (split_on (CHR ''/'') p) @ [Rest]"
    "dropWhile (\<lambda>c. c = CHR ''/'') p = tl p" "hd p = CHR ''/''" "p \<noteq> []" using assms by (simp_all add: list_all_iff)
qed

abbreviation dev_methods :: "string list" where
  "dev_methods \<equiv> [''GET'', ''POST'', ''PUT'', ''PATCH'', ''DELETE'']"

lemma dev_route_iff:
  "r \<in> set (gateway_routes st) \<and> endpoint r \<in> {''forward_with_subpath'', ''forward_bare''} \<longleftrightarrow> st_app_mode st = Testing \<and> (\<exists>p \<in> set dev_prefixes.
     r = Http dev_methods (p @ ''/{path:path}'') ''forward_with_subpath'' \<or> r = Http dev_methods p ''forward_bare'')"
proof -
  have "list_all (\<lambda>r. endpoint r \<noteq> ''forward_with_subpath'' \<and> endpoint r \<noteq> ''forward_bare'') (docs_routes @ gateway_app_routes @ metrics_routes)" by code_simp
  then show ?thesis by (auto simp: gateway_routes_def list_all_iff dev_forwarder_routes_def)
qed

text \<open>
  The development forwarder is confined to testing and to its prefixes. On the gateway application a request reaches it
  exactly in testing mode, with one of five methods, on a path that is one of the three prefixes or continues one after a
  slash; and the path it sends on is the path it received.
\<close>

theorem dev_forwarder_scope:
  assumes "matching_law matches" and "routing_law matches router" and "CHR 0x0A \<notin> set path"
  shows "(router (gateway_routes st) meth path \<in> {Handled ''forward_with_subpath'', Handled ''forward_bare''} \<longleftrightarrow>
      st_app_mode st = Testing \<and> meth \<in> {''GET'', ''POST'', ''PUT'', ''PATCH'', ''DELETE''}
      \<and> (\<exists>p \<in> set dev_prefixes. path = dev_upstream_path p None \<or> (\<exists>rest. path = dev_upstream_path p (Some rest))))
    \<and> (\<forall>p \<in> set dev_prefixes. dev_upstream_path p None = p \<and> dev_upstream_path p (Some sub) = p @ ''/'' @ sub)"
proof -
  have up: "dev_upstream_path p None = p" "dev_upstream_path p (Some sub) = p @ ''/'' @ sub" if "p \<in> set dev_prefixes" for p sub
    using dev_prefix_templates(3-)[OF that] by (cases p; simp add: dev_upstream_path_def)+
  have m: "matches t path = template_matches t path" for t using assms(1,3) by (simp add: matching_law_def)
  have to: "r \<in> set (gateway_routes st) \<Longrightarrow> full_match matches meth path r \<Longrightarrow> router (gateway_routes st) meth path = Handled (endpoint r)" for r
    by (rule sole_route[OF assms(2) unambiguous[OF assms(1,3) gateway_routes_disjoint]])
  have handled: "router (gateway_routes st) meth path = Handled x \<longleftrightarrow> (\<exists>r \<in> set (gateway_routes st). full_match matches meth path r \<and> endpoint r = x)" for x
    using to handled_route[OF assms(2)] by auto
  have "router (gateway_routes st) meth path \<in> {Handled ''forward_with_subpath'', Handled ''forward_bare''} \<longleftrightarrow>
      (\<exists>r. (r \<in> set (gateway_routes st) \<and> endpoint r \<in> {''forward_with_subpath'', ''forward_bare''}) \<and> full_match matches meth path r)"
    unfolding insert_iff empty_iff handled by blast
  also have "\<dots> \<longleftrightarrow> st_app_mode st = Testing \<and> meth \<in> set dev_methods \<and> (\<exists>p \<in> set dev_prefixes. path = p \<or> (\<exists>rest. path = p @ ''/'' @ rest))"
  proof -
    let ?A = "\<lambda>p. Http dev_methods (p @ ''/{path:path}'') ''forward_with_subpath''" and ?B = "\<lambda>p. Http dev_methods p ''forward_bare''"
    have fm: "full_match matches meth path (?A p) \<longleftrightarrow> meth \<in> set dev_methods \<and> (\<exists>rest. path = p @ ''/'' @ rest)"
      "full_match matches meth path (?B p) \<longleftrightarrow> meth \<in> set dev_methods \<and> path = p" if "p \<in> set dev_prefixes" for p
      unfolding full_match.simps m literal_matches[OF dev_prefix_templates(1)[OF that]] rest_matches[OF dev_prefix_templates(2)[OF that]] by (rule refl)+
    have "(\<exists>r. (st_app_mode st = Testing \<and> (\<exists>p \<in> set dev_prefixes. r = ?A p \<or> r = ?B p)) \<and> full_match matches meth path r)
        \<longleftrightarrow> st_app_mode st = Testing \<and> (\<exists>p \<in> set dev_prefixes. full_match matches meth path (?A p) \<or> full_match matches meth path (?B p))"
      by blast
    then show ?thesis unfolding dev_route_iff using fm by blast
  qed
  finally show ?thesis using up by simp
qed

theorem dev_forwarder_scope_witness:
  "first_match_router (gateway_routes default_settings) ''PUT'' ''/admin/tariffs/t1'' \<in> {Handled ''forward_with_subpath'', Handled ''forward_bare''}"
proof -
  have c: "CHR 0x0A \<notin> set ''/admin/tariffs/t1''" "st_app_mode default_settings = Testing" "''/admin/tariffs/t1'' = dev_upstream_path ''/admin/tariffs'' (Some ''t1'')"
    "''/admin/tariffs'' \<in> set dev_prefixes" "''PUT'' \<in> {''GET'', ''POST'', ''PUT'', ''PATCH'', ''DELETE''}" by code_simp+
  have "\<exists>p \<in> set dev_prefixes. ''/admin/tariffs/t1'' = dev_upstream_path p None \<or> (\<exists>rest. ''/admin/tariffs/t1'' = dev_upstream_path p (Some rest))"
    by (rule bexI[OF _ c(4)], rule disjI2, rule exI, rule c(3))
  with c show ?thesis by (intro iffD2[OF conjunct1[OF dev_forwarder_scope[OF matching_law_template routing_law_first_match c(1)]]] conjI)
qed

subsection \<open>What the internal application serves without a tenant\<close>



end
