(* ===== verification/Gateway_Delivery.thy ===== *)
theory Gateway_Delivery
  imports
    Ocpp_Commands
    "HOL-Library.Sublist"
begin

text \<open>
  The gateway on the ports it really runs on (\<open>ocpp_gateway/message_handlers.py\<close>,
  \<open>connection_manager.py\<close>, \<open>bus_event_publisher.py\<close>, \<open>meter_values.py\<close>,
  \<open>event_bus.py\<close>). \<open>Ocpp_Gateway\<close> models the handlers over an event log and a
  sink that never fail; here the event bus and the meter sink are parameters whose calls may
  raise. Two contracts are stated as locales: ports that never fail, over which the gateway
  refines the in-memory one message for message, and ports that deliver at most once, over
  which a stop is published at most once and a lost one is never published again.
\<close>

subsection \<open>The ports\<close>

text \<open>\<open>EventBus.publish\<close> with the id it draws, and \<open>MeterValueSink.write_batch\<close>.\<close>

type_synonym message = "string \<times> (string \<times> json) list"
type_synonym 'b publish_op = "uuid \<Rightarrow> string \<Rightarrow> (string \<times> json) list \<Rightarrow> 'b \<Rightarrow> (py_error + unit) \<times> 'b"
type_synonym 'm write_op = "meter_reading list \<Rightarrow> 'm \<Rightarrow> (py_error + unit) \<times> 'm"

record ('b, 'm) ports =
  pt_publish :: "'b publish_op"
  pt_write :: "'m write_op"

text \<open>
  A gateway node: the state of the handlers and the connection manager, the bus and the sink.
  Its own \<open>gw_events\<close> and \<open>mb_batches\<close> are not used.
\<close>

record ('b, 'm) node =
  nd_gw :: gateway
  nd_bus :: 'b
  nd_sink :: 'm

definition with_gw :: "(gateway \<Rightarrow> gateway) \<Rightarrow> ('b, 'm) node \<Rightarrow> ('b, 'm) node" where
  "with_gw f n = n\<lparr>nd_gw := f (nd_gw n)\<rparr>"

definition on_gw :: "(gateway \<Rightarrow> 'r \<times> gateway) \<Rightarrow> ('b, 'm) node \<Rightarrow> 'r \<times> ('b, 'm) node" where
  "on_gw f n = (let (r, g) = f (nd_gw n) in (r, n\<lparr>nd_gw := g\<rparr>))"

subsection \<open>The bus-backed publisher\<close>

text \<open>The subject and payload of each event; a missing tenant is formatted as \<open>None\<close>.\<close>

definition disconnected_message :: "uuid \<Rightarrow> string \<Rightarrow> message" where
  "disconnected_message t c = (event_subject t c ''disconnected'', [(''charger_id'', JStr c)])"

definition status_message :: "uuid \<Rightarrow> string \<Rightarrow> int \<Rightarrow> string \<Rightarrow> string option \<Rightarrow> message" where
  "status_message t c k st err = (event_subject t c ''status_notification'',
     [(''charger_id'', JStr c), (''connector_id'', JInt k), (''status'', JStr st), (''error_code'', jopt_str err)])"

definition stop_message :: "uuid option \<Rightarrow> string \<Rightarrow> uuid \<Rightarrow> message" where
  "stop_message t c tid =
     (case t of Some u \<Rightarrow> event_subject u c ''stop_transaction'' | None \<Rightarrow> ''ocpp.None.'' @ c @ ''.stop_transaction'',
      [(''charger_id'', JStr c), (''transaction_id'', JStr (str_uuid tid))])"

definition ocpp_message :: "uuid \<Rightarrow> string \<Rightarrow> string \<Rightarrow> (string \<times> json) list \<Rightarrow> message" where
  "ocpp_message t c ty payload = (event_subject t c ty, fold (\<lambda>(k, v). dict_set k v) payload [(''charger_id'', JStr c)])"

definition node_publish ::
  "('b, 'm) ports \<Rightarrow> uuid \<Rightarrow> message \<Rightarrow> ('b, 'm) node \<Rightarrow> (py_error + unit) \<times> ('b, 'm) node" where
  "node_publish P eid m n = (let (r, b) = pt_publish P eid (fst m) (snd m) (nd_bus n) in (r, n\<lparr>nd_bus := b\<rparr>))"

subsection \<open>The meter value buffer\<close>

text \<open>\<open>flush\<close> takes the rows out of the buffer before it writes them.\<close>

definition node_flush :: "('b, 'm) ports \<Rightarrow> ('b, 'm) node \<Rightarrow> (py_error + unit) \<times> ('b, 'm) node" where
  "node_flush P n =
     (let b = gw_meter (nd_gw n) in
      if mb_buffer b = [] then (Inr (), n)
      else
        let n1 = with_gw (\<lambda>g. g\<lparr>gw_meter := b\<lparr>mb_buffer := [], mb_opened := None\<rparr>\<rparr>) n;
            (r, m) = pt_write P (mb_buffer b) (nd_sink n1)
        in (r, n1\<lparr>nd_sink := m\<rparr>))"

definition node_add ::
  "('b, 'm) ports \<Rightarrow> pyfloat \<Rightarrow> pyfloat \<Rightarrow> meter_reading \<Rightarrow> ('b, 'm) node \<Rightarrow> (py_error + unit) \<times> ('b, 'm) node" where
  "node_add P t1 t2 x n =
     (let b = gw_meter (nd_gw n);
          b1 = (if mb_buffer b = [] then b\<lparr>mb_opened := Some t1\<rparr> else b);
          b2 = b1\<lparr>mb_buffer := mb_buffer b1 @ [x]\<rparr>;
          n2 = with_gw (\<lambda>g. g\<lparr>gw_meter := b2\<rparr>) n
      in if should_flush t2 b2 then node_flush P n2 else (Inr (), n2))"

subsection \<open>The connection manager\<close>

definition node_offline ::
  "('b, 'm) ports \<Rightarrow> uuid \<Rightarrow> string \<Rightarrow> presence_state \<Rightarrow> ('b, 'm) node \<Rightarrow> (py_error + unit) \<times> ('b, 'm) node" where
  "node_offline P eid c p n =
     (let n1 = with_gw (\<lambda>g. g\<lparr>gw_presence := mark_offline c (gw_presence g)\<rparr>) n in
      case uuid_of_string (ps_tenant p) of
        None \<Rightarrow> (Inl (PyValueError ''badly formed hexadecimal UUID string''), n1)
      | Some t \<Rightarrow> node_publish P eid (disconnected_message t c) n1)"

definition node_disconnect ::
  "('b, 'm) ports \<Rightarrow> uuid \<Rightarrow> string \<Rightarrow> ('b, 'm) node \<Rightarrow> (py_error + unit) \<times> ('b, 'm) node" where
  "node_disconnect P eid c n =
     (case presence_get (gw_presence (nd_gw n)) c of
        None \<Rightarrow> (Inr (), n)
      | Some p \<Rightarrow> if ps_status p \<noteq> ''online'' then (Inr (), n) else node_offline P eid c p n)"

fun node_sweep ::
  "('b, 'm) ports \<Rightarrow> (nat \<Rightarrow> uuid) \<Rightarrow> pyfloat \<Rightarrow> int \<Rightarrow> string list \<Rightarrow> ('b, 'm) node
    \<Rightarrow> (py_error + string list) \<times> ('b, 'm) node" where
  "node_sweep P eids now interval [] n = (Inr [], n)"
| "node_sweep P eids now interval (c # cs) n =
     (let later = node_sweep P (\<lambda>i. eids (Suc i)) now interval cs in
      case presence_get (gw_presence (nd_gw n)) c of
        None \<Rightarrow> later n
      | Some p \<Rightarrow>
        if ps_status p \<noteq> ''online'' then later n
        else if flt (Fin (of_int (interval * 2))) (fsub now (ps_last_seen p))
        then (case node_offline P (eids 0) c p n of
                (Inl e, n') \<Rightarrow> (Inl e, n')
              | (Inr _, n') \<Rightarrow>
                (case later n' of (Inl e, n'') \<Rightarrow> (Inl e, n'') | (Inr off, n'') \<Rightarrow> (Inr (c # off), n'')))
        else later n)"

subsection \<open>The message handlers\<close>

definition node_status_notification ::
  "('b, 'm) ports \<Rightarrow> uuid \<Rightarrow> string \<Rightarrow> uuid \<Rightarrow> int \<Rightarrow> string \<Rightarrow> string option \<Rightarrow> ('b, 'm) node
    \<Rightarrow> (py_error + unit) \<times> ('b, 'm) node" where
  "node_status_notification P eid c tenant k st err n =
     node_publish P eid (status_message tenant c k st err)
       (with_gw (\<lambda>g. g\<lparr>gw_connectors := connector_update c k st err (gw_connectors g)\<rparr>) n)"

definition node_stop_transaction ::
  "('b, 'm) ports \<Rightarrow> uuid \<Rightarrow> uuid \<Rightarrow> int \<Rightarrow> datetime \<Rightarrow> string option \<Rightarrow> ('b, 'm) node
    \<Rightarrow> (frame_error + string) \<times> ('b, 'm) node" where
  "node_stop_transaction P eid tid meter stop reason n =
     (case node_flush P n of
        (Inl e, n1) \<Rightarrow> (Inl (FramePy e), n1)
      | (Inr _, n1) \<Rightarrow>
        (let (r, txns) = stop_transaction tid meter stop reason (gw_txns (nd_gw n1));
             n2 = with_gw (\<lambda>g. g\<lparr>gw_txns := txns\<rparr>) n1
         in case r of
              Inl (UnknownTransactionError m) \<Rightarrow> (Inl (FrameUnknownTransaction m), n2)
            | Inr sr \<Rightarrow>
              if st_already sr then (Inr ''Accepted'', n2)
              else (case node_publish P eid (stop_message (st_tenant sr) (st_charger sr) tid) n2 of
                      (Inl e, n3) \<Rightarrow> (Inl (FramePy e), n3)
                    | (Inr _, n3) \<Rightarrow> (Inr ''Accepted'', n3))))"

fun node_meter_values ::
  "('b, 'm) ports \<Rightarrow> (nat \<Rightarrow> pyfloat \<times> pyfloat) \<Rightarrow> uuid \<Rightarrow> uuid \<Rightarrow> string \<Rightarrow> datetime \<Rightarrow> json list list
    \<Rightarrow> ('b, 'm) node \<Rightarrow> (py_error + unit) \<times> ('b, 'm) node" where
  "node_meter_values P clk tenant tid c ts [] n = (Inr (), n)"
| "node_meter_values P clk tenant tid c ts (r # rs) n =
     (case reading_of tenant tid c ts r of
        Inl e \<Rightarrow> (Inl e, n)
      | Inr x \<Rightarrow>
        (case node_add P (fst (clk 0)) (snd (clk 0)) x n of
           (Inl e, n1) \<Rightarrow> (Inl e, n1)
         | (Inr _, n1) \<Rightarrow> node_meter_values P (\<lambda>i. clk (Suc i)) tenant tid c ts rs
             (with_gw (\<lambda>g. g\<lparr>gw_latest := map_option (latest_update x) (gw_latest g)\<rparr>) n1)))"

definition node_event ::
  "('b, 'm) ports \<Rightarrow> uuid \<Rightarrow> string \<Rightarrow> uuid \<Rightarrow> string \<Rightarrow> (string \<times> json) list \<Rightarrow> ('b, 'm) node
    \<Rightarrow> (py_error + unit) \<times> ('b, 'm) node" where
  "node_event P eid c tenant ty payload n = node_publish P eid (ocpp_message tenant c ty payload) n"

definition node_firmware_status ::
  "('b, 'm) ports \<Rightarrow> uuid \<Rightarrow> string \<Rightarrow> uuid \<Rightarrow> string \<Rightarrow> ('b, 'm) node \<Rightarrow> (py_error + unit) \<times> ('b, 'm) node" where
  "node_firmware_status P eid c tenant status n =
     (case node_event P eid c tenant ''firmware_status'' [(''status'', JStr status)] n of
        (Inl e, n1) \<Rightarrow> (Inl e, n1)
      | (Inr _, n1) \<Rightarrow>
        (case gw_firmware (nd_gw n1) of
           None \<Rightarrow> (Inr (), n1)
         | Some fs \<Rightarrow>
           (case get_latest_for_charger fs c of
              None \<Rightarrow> (Inr (), n1)
            | Some rec \<Rightarrow>
              (let (r, fs') = firmware_update_status c (fw_version rec) status fs
               in (case r of Inl e \<Rightarrow> Inl e | Inr _ \<Rightarrow> Inr (), with_gw (\<lambda>g. g\<lparr>gw_firmware := Some fs'\<rparr>) n1)))))"

subsection \<open>Dispatch\<close>

text \<open>
  \<open>handle_frame\<close> first reads its arguments out of the payload, in the order of the call,
  and then runs one handler; \<open>parse_frame\<close> is the first half.
\<close>

datatype frame_call =
  CallBoot "string option" "string option" "string option"
| CallStatus int string "string option"
| CallAuthorize string
| CallStart int string int datetime
| CallStop uuid int datetime "string option"
| CallMeter uuid datetime "json list list"
| CallFirmware string
| CallEvent string "(string \<times> json) list" json

definition parse_event :: "string \<Rightarrow> fpayload \<Rightarrow> py_error + frame_call" where
  "parse_event action p =
     (if action = ''DataTransfer'' then rbind (fitem_json p ''vendor_id'') (\<lambda>v. Inr (CallEvent ''data_transfer''
           [(''vendor_id'', v), (''message_id'', fget_json p ''message_id''), (''data'', fget_json p ''data'')]
           (JObj [(''status'', JStr ''Accepted'')])))
      else if action = ''FirmwareStatusNotification'' then rbind (fitem_str p ''status'') (\<lambda>s. Inr (CallFirmware s))
      else if action = ''DiagnosticsStatusNotification'' then rbind (fitem_json p ''status'') (\<lambda>s.
        Inr (CallEvent ''diagnostics_status'' [(''status'', s)] (JObj [])))
      else if action = ''SecurityEventNotification'' then rbind (fitem_json p ''type'') (\<lambda>ty.
        rbind (fitem_json p ''timestamp'') (\<lambda>t. Inr (CallEvent ''security_event''
          [(''type'', ty), (''timestamp'', t), (''tech_info'', fget_json p ''tech_info'')] (JObj []))))
      else if action = ''LogStatusNotification'' then rbind (fitem_json p ''status'') (\<lambda>s.
        Inr (CallEvent ''log_status'' [(''status'', s), (''request_id'', fget_json p ''request_id'')] (JObj [])))
      else Inl (PyValueError (''unsupported OCPP action: '' @ action)))"

definition parse_frame :: "string \<Rightarrow> fpayload \<Rightarrow> py_error + frame_call" where
  "parse_frame action p =
     (if action = ''BootNotification'' then rbind (fget_str p ''vendor'') (\<lambda>v. rbind (fget_str p ''model'') (\<lambda>m.
        rbind (fget_str p ''firmware_version'') (\<lambda>f. Inr (CallBoot v m f))))
      else if action = ''StatusNotification'' then rbind (fitem_int p ''connector_id'') (\<lambda>k.
        rbind (fitem_str p ''status'') (\<lambda>s. rbind (fget_str p ''error_code'') (\<lambda>e. Inr (CallStatus k s e))))
      else if action = ''Authorize'' then rbind (fitem_str p ''id_tag'') (\<lambda>tag. Inr (CallAuthorize tag))
      else if action = ''StartTransaction'' then rbind (fitem_int p ''connector_id'') (\<lambda>k.
        rbind (fitem_str p ''id_tag'') (\<lambda>tag. rbind (fitem_int p ''meter_start'') (\<lambda>m.
          rbind (fitem_time p ''start_timestamp'') (\<lambda>t. Inr (CallStart k tag m t)))))
      else if action = ''StopTransaction'' then rbind (fitem_uuid p ''transaction_id'') (\<lambda>tid.
        rbind (fitem_int p ''meter_stop'') (\<lambda>m. rbind (fitem_time p ''stop_timestamp'') (\<lambda>t.
          rbind (fget_str p ''reason'') (\<lambda>r. Inr (CallStop tid m t r)))))
      else if action = ''MeterValues'' then rbind (fitem_uuid p ''transaction_id'') (\<lambda>tid.
        rbind (fitem_time p ''ts'') (\<lambda>t. rbind (fitem p ''readings'') (\<lambda>rs.
          case rs of FReadings xs \<Rightarrow> Inr (CallMeter tid t xs) | _ \<Rightarrow> Inl IllTyped)))
      else parse_event action p)"

text \<open>A handler's result as the reply: a raise, or the dictionary \<open>handle_frame\<close> returns.\<close>

definition replied :: "('r \<Rightarrow> json) \<Rightarrow> (py_error + 'r) \<times> 's \<Rightarrow> (frame_error + json) \<times> 's" where
  "replied f r = (case r of (Inl e, s) \<Rightarrow> (Inl (FramePy e), s) | (Inr x, s) \<Rightarrow> (Inr (f x), s))"

definition replied_frame :: "('r \<Rightarrow> json) \<Rightarrow> (frame_error + 'r) \<times> 's \<Rightarrow> (frame_error + json) \<times> 's" where
  "replied_frame f r = (case r of (Inl e, s) \<Rightarrow> (Inl e, s) | (Inr x, s) \<Rightarrow> (Inr (f x), s))"

definition boot_reply :: "string \<times> int \<Rightarrow> json" where
  "boot_reply r = JObj [(''status'', JStr (fst r)), (''interval'', JInt (snd r))]"

definition authorize_reply :: "auth_status \<Rightarrow> json" where
  "authorize_reply st = JObj [(''id_tag_status'', JStr (auth_value st))]"

definition start_reply :: "uuid \<times> string \<Rightarrow> json" where
  "start_reply r = JObj [(''transaction_id'', JStr (str_uuid (fst r))), (''id_tag_status'', JStr (snd r))]"

definition stop_reply :: "string \<Rightarrow> json" where
  "stop_reply st = JObj [(''id_tag_status'', JStr st)]"

fun memory_call :: "frame_env \<Rightarrow> string \<Rightarrow> uuid \<Rightarrow> frame_call \<Rightarrow> gateway \<Rightarrow> frame_result" where
  "memory_call env c tenant (CallBoot v m f) g = replied_frame boot_reply (handle_boot_notification (fe_now env) c tenant v m f g)"
| "memory_call env c tenant (CallStatus k s e) g = (Inr (JObj []), handle_status_notification c tenant k s e g)"
| "memory_call env c tenant (CallAuthorize tag) g = apfst (Inr \<circ> authorize_reply) (handle_authorize tag g)"
| "memory_call env c tenant (CallStart k tag m t) g = apfst (Inr \<circ> start_reply) (handle_start_transaction (fe_id env) c tenant k tag m t g)"
| "memory_call env c tenant (CallStop tid m t r) g = replied_frame stop_reply (handle_stop_transaction tid m t r g)"
| "memory_call env c tenant (CallMeter tid t xs) g = replied (\<lambda>_. JObj []) (handle_meter_values (fe_clk env) tenant tid c t xs g)"
| "memory_call env c tenant (CallFirmware s) g = replied (\<lambda>_. JObj []) (handle_firmware_status_notification c tenant s g)"
| "memory_call env c tenant (CallEvent ty payload j) g = (Inr j, publish_event c tenant ty payload g)"

fun node_call ::
  "('b, 'm) ports \<Rightarrow> frame_env \<Rightarrow> uuid \<Rightarrow> string \<Rightarrow> uuid \<Rightarrow> frame_call \<Rightarrow> ('b, 'm) node
    \<Rightarrow> (frame_error + json) \<times> ('b, 'm) node" where
  "node_call P env eid c tenant (CallBoot v m f) n =
     replied_frame boot_reply (on_gw (handle_boot_notification (fe_now env) c tenant v m f) n)"
| "node_call P env eid c tenant (CallStatus k s e) n = replied (\<lambda>_. JObj []) (node_status_notification P eid c tenant k s e n)"
| "node_call P env eid c tenant (CallAuthorize tag) n = apfst (Inr \<circ> authorize_reply) (on_gw (handle_authorize tag) n)"
| "node_call P env eid c tenant (CallStart k tag m t) n =
     apfst (Inr \<circ> start_reply) (on_gw (handle_start_transaction (fe_id env) c tenant k tag m t) n)"
| "node_call P env eid c tenant (CallStop tid m t r) n = replied_frame stop_reply (node_stop_transaction P eid tid m t r n)"
| "node_call P env eid c tenant (CallMeter tid t xs) n =
     replied (\<lambda>_. JObj []) (node_meter_values P (fe_clk env) tenant tid c t xs n)"
| "node_call P env eid c tenant (CallFirmware s) n = replied (\<lambda>_. JObj []) (node_firmware_status P eid c tenant s n)"
| "node_call P env eid c tenant (CallEvent ty payload j) n = replied (\<lambda>_. j) (node_event P eid c tenant ty payload n)"

definition node_frame ::
  "('b, 'm) ports \<Rightarrow> frame_env \<Rightarrow> uuid \<Rightarrow> string \<Rightarrow> uuid \<Rightarrow> string \<Rightarrow> fpayload \<Rightarrow> ('b, 'm) node
    \<Rightarrow> (frame_error + json) \<times> ('b, 'm) node" where
  "node_frame P env eid c tenant action p n =
     (case parse_frame action p of Inl e \<Rightarrow> (Inl (FramePy e), n) | Inr k \<Rightarrow> node_call P env eid c tenant k n)"

text \<open>The in-memory dispatch is the same parse followed by the in-memory handlers.\<close>

lemma parsed_frame:
  "handle_frame env c tenant ''BootNotification'' p g
     = (case parse_frame ''BootNotification'' p of Inl e \<Rightarrow> (Inl (FramePy e), g) | Inr k \<Rightarrow> memory_call env c tenant k g)"
  "handle_frame env c tenant ''StatusNotification'' p g
     = (case parse_frame ''StatusNotification'' p of Inl e \<Rightarrow> (Inl (FramePy e), g) | Inr k \<Rightarrow> memory_call env c tenant k g)"
  "handle_frame env c tenant ''Authorize'' p g
     = (case parse_frame ''Authorize'' p of Inl e \<Rightarrow> (Inl (FramePy e), g) | Inr k \<Rightarrow> memory_call env c tenant k g)"
  "handle_frame env c tenant ''StartTransaction'' p g
     = (case parse_frame ''StartTransaction'' p of Inl e \<Rightarrow> (Inl (FramePy e), g) | Inr k \<Rightarrow> memory_call env c tenant k g)"
  "handle_frame env c tenant ''StopTransaction'' p g
     = (case parse_frame ''StopTransaction'' p of Inl e \<Rightarrow> (Inl (FramePy e), g) | Inr k \<Rightarrow> memory_call env c tenant k g)"
  "handle_frame env c tenant ''MeterValues'' p g
     = (case parse_frame ''MeterValues'' p of Inl e \<Rightarrow> (Inl (FramePy e), g) | Inr k \<Rightarrow> memory_call env c tenant k g)"
  by (simp_all add: handle_frame_def parse_frame_def dispatch_boot_def dispatch_status_def dispatch_authorize_def
      dispatch_start_def dispatch_stop_def dispatch_meter_def frame_fail_def replied_def replied_frame_def boot_reply_def
      authorize_reply_def start_reply_def stop_reply_def case_prod_beta apfst_def map_prod_def rbind_def
      split: sum.split fval.split prod.split)

lemma parsed_event:
  "dispatch_events c tenant action p g
     = (case parse_event action p of Inl e \<Rightarrow> (Inl (FramePy e), g) | Inr k \<Rightarrow> memory_call env c tenant k g)"
  by (simp add: parse_event_def dispatch_events_def dispatch_firmware_def frame_fail_def handle_data_transfer_def
      handle_diagnostics_status_notification_def handle_security_event_notification_def handle_log_status_notification_def
      replied_def case_prod_beta rbind_def split: sum.split prod.split)

lemma handle_frame_parse:
  "handle_frame env c tenant action p g
     = (case parse_frame action p of Inl e \<Rightarrow> (Inl (FramePy e), g) | Inr k \<Rightarrow> memory_call env c tenant k g)"
proof (cases "action \<in> {''BootNotification'', ''StatusNotification'', ''Authorize'', ''StartTransaction'',
    ''StopTransaction'', ''MeterValues''}")
  case True
  then show ?thesis by (elim insertE emptyE) (simp_all only: parsed_frame)
next
  case False
  then have "handle_frame env c tenant action p g = dispatch_events c tenant action p g"
    "parse_frame action p = parse_event action p" by (simp_all add: handle_frame_def parse_frame_def)
  then show ?thesis by (simp only: parsed_event[of c tenant action p g env])
qed

subsection \<open>Ports that never fail\<close>

text \<open>Which event a message is, by the keys of its payload.\<close>

definition is_stop_message :: "message \<Rightarrow> bool" where
  "is_stop_message m \<longleftrightarrow> dict_get (snd m) ''transaction_id'' \<noteq> None"

definition is_status_message :: "message \<Rightarrow> bool" where
  "is_status_message m \<longleftrightarrow> dict_get (snd m) ''connector_id'' \<noteq> None"

definition is_disconnected_message :: "message \<Rightarrow> bool" where
  "is_disconnected_message m \<longleftrightarrow> length (snd m) = 1"

definition is_ocpp_message :: "message \<Rightarrow> bool" where
  "is_ocpp_message m \<longleftrightarrow> \<not> is_stop_message m \<and> \<not> is_status_message m \<and> \<not> is_disconnected_message m"

text \<open>The messages a bus has taken carry exactly the events of a log, each kind in order.\<close>

definition carries :: "message list \<Rightarrow> event_log \<Rightarrow> bool" where
  "carries ms l \<longleftrightarrow>
     filter is_disconnected_message ms = map (\<lambda>(t, c). disconnected_message t c) (ev_disconnected l)
   \<and> filter is_status_message ms = map (\<lambda>(t, c, k, st, err). status_message t c k st err) (ev_status l)
   \<and> filter is_stop_message ms = map (\<lambda>(t, c, tid). stop_message t c tid) (ev_stop l)
   \<and> filter is_ocpp_message ms = map (\<lambda>(t, c, ty, payload). ocpp_message t c ty payload) (ev_ocpp l)"

lemma message_kinds [simp]:
  "is_disconnected_message (disconnected_message t c)" "\<not> is_status_message (disconnected_message t c)"
  "\<not> is_stop_message (disconnected_message t c)" "\<not> is_ocpp_message (disconnected_message t c)"
  "\<not> is_disconnected_message (status_message t c k st err)" "is_status_message (status_message t c k st err)"
  "\<not> is_stop_message (status_message t c k st err)" "\<not> is_ocpp_message (status_message t c k st err)"
  "\<not> is_disconnected_message (stop_message tn c tid)" "\<not> is_status_message (stop_message tn c tid)"
  "is_stop_message (stop_message tn c tid)" "\<not> is_ocpp_message (stop_message tn c tid)"
  by (simp_all add: is_disconnected_message_def is_status_message_def is_stop_message_def is_ocpp_message_def
      disconnected_message_def status_message_def stop_message_def)

text \<open>The payloads \<open>handle_frame\<close> publishes never look like one of the other events.\<close>

lemma fold_dict_set_get:
  "k \<notin> fst ` set xs \<Longrightarrow> dict_get (fold (\<lambda>(k, v). dict_set k v) xs d) k = dict_get d k"
  by (induction xs arbitrary: d) auto

lemma dict_set_length: "length d \<le> length (dict_set k v d)"
  by (induction d) auto

lemma fold_dict_set_length: "length d \<le> length (fold (\<lambda>(k, v). dict_set k v) xs d)"
proof (induction xs arbitrary: d)
  case (Cons x xs)
  have "length d \<le> length (dict_set (fst x) (snd x) d)" by (rule dict_set_length)
  also have "\<dots> \<le> length (fold (\<lambda>(k, v). dict_set k v) xs (dict_set (fst x) (snd x) d))" by (rule Cons.IH)
  finally show ?case by (cases x) (simp only: fst_conv snd_conv fold_Cons comp_apply prod.case)
qed simp

definition plain_payload :: "(string \<times> json) list \<Rightarrow> bool" where
  "plain_payload payload \<longleftrightarrow> payload \<noteq> []
     \<and> fst ` set payload \<inter> {''transaction_id'', ''connector_id'', ''charger_id''} = {}"

lemma plain_ocpp_message:
  assumes "plain_payload payload"
  shows "is_ocpp_message (ocpp_message t c ty payload)"
proof -
  obtain k v rest where p: "payload = (k, v) # rest" using assms by (cases payload) (auto simp: plain_payload_def)
  have n: "k' \<notin> fst ` set payload" if "k' \<in> {''transaction_id'', ''connector_id'', ''charger_id''}" for k'
    using assms that unfolding plain_payload_def by blast
  have "''charger_id'' \<noteq> k" using n[of "''charger_id''"] by (simp add: p)
  then have l: "length (dict_set k v [(''charger_id'', JStr c)]) = 2" by simp
  then have "2 \<le> length (snd (ocpp_message t c ty payload))"
    using fold_dict_set_length[of "dict_set k v [(''charger_id'', JStr c)]" rest]
    unfolding l ocpp_message_def p by (simp only: snd_conv fold_Cons comp_apply prod.case)
  moreover have "dict_get (snd (ocpp_message t c ty payload)) ''transaction_id'' = None"
    unfolding ocpp_message_def snd_conv by (subst fold_dict_set_get[OF n]) simp_all
  moreover have "dict_get (snd (ocpp_message t c ty payload)) ''connector_id'' = None"
    unfolding ocpp_message_def snd_conv by (subst fold_dict_set_get[OF n]) simp_all
  ultimately show ?thesis
    by (simp add: is_ocpp_message_def is_stop_message_def is_status_message_def is_disconnected_message_def)
qed

fun plain_call :: "frame_call \<Rightarrow> bool" where
  "plain_call (CallEvent ty payload j) = plain_payload payload"
| "plain_call _ = True"

lemma parse_frame_plain:
  assumes "parse_frame action p = Inr k"
  shows "plain_call k"
proof -
  have e: "plain_call k" if "parse_event action p = Inr k"
    using that by (auto simp: parse_event_def rbind_Inr plain_payload_def split: if_splits)
  have m: "plain_call k" if "(case rs of FReadings xs \<Rightarrow> Inr (CallMeter tid t xs) | _ \<Rightarrow> Inl IllTyped) = Inr k" for rs tid t
    using that by (cases rs) auto
  show ?thesis using assms e m by (auto simp: parse_frame_def rbind_Inr split: if_splits)
qed

lemma firmware_payload_plain [simp]: "plain_payload [(''status'', j)]"
  by (simp add: plain_payload_def)

lemma carries_disconnected:
  "carries ms l \<Longrightarrow> carries (ms @ [disconnected_message t c]) (publish_disconnected t c l)"
  by (simp add: carries_def publish_disconnected_def)

lemma carries_status:
  "carries ms l \<Longrightarrow> carries (ms @ [status_message t c k st err]) (publish_status_notification t c k st err l)"
  by (simp add: carries_def publish_status_notification_def)

lemma carries_stop:
  "carries ms l \<Longrightarrow> carries (ms @ [stop_message tn c tid]) (publish_stop_transaction tn c tid l)"
  by (simp add: carries_def publish_stop_transaction_def)

lemma carries_ocpp:
  assumes "carries ms l" "plain_payload payload"
  shows "carries (ms @ [ocpp_message t c ty payload]) (publish_ocpp_event t c ty payload l)"
  using assms plain_ocpp_message[OF assms(2), of t c ty]
  by (simp add: carries_def publish_ocpp_event_def is_ocpp_message_def)


text \<open>
  A node stands for an in-memory gateway when they agree on everything but the log and the
  batches, and the bus and the sink have taken what the log and the batches hold.
\<close>

definition same_core :: "gateway \<Rightarrow> gateway \<Rightarrow> bool" where
  "same_core a g \<longleftrightarrow> gw_presence a = gw_presence g \<and> gw_credentials a = gw_credentials g \<and> gw_txns a = gw_txns g
     \<and> gw_registry a = gw_registry g \<and> gw_connectors a = gw_connectors g \<and> gw_auth a = gw_auth g
     \<and> mb_max (gw_meter a) = mb_max (gw_meter g) \<and> mb_interval (gw_meter a) = mb_interval (gw_meter g)
     \<and> mb_buffer (gw_meter a) = mb_buffer (gw_meter g) \<and> mb_opened (gw_meter a) = mb_opened (gw_meter g)
     \<and> gw_firmware a = gw_firmware g \<and> gw_latest a = gw_latest g \<and> gw_node a = gw_node g \<and> gw_interval a = gw_interval g"

definition refines ::
  "('b \<Rightarrow> bool) \<Rightarrow> ('b \<Rightarrow> message list) \<Rightarrow> ('m \<Rightarrow> meter_reading list list) \<Rightarrow> ('b, 'm) node \<Rightarrow> gateway \<Rightarrow> bool" where
  "refines up sent batches n g \<longleftrightarrow> up (nd_bus n) \<and> carries (sent (nd_bus n)) (gw_events g)
     \<and> batches (nd_sink n) = mb_batches (gw_meter g) \<and> same_core (nd_gw n) g"

lemma same_coreD:
  assumes "same_core a g"
  shows "gw_presence a = gw_presence g" "gw_credentials a = gw_credentials g" "gw_txns a = gw_txns g"
    "gw_registry a = gw_registry g" "gw_connectors a = gw_connectors g" "gw_auth a = gw_auth g"
    "mb_max (gw_meter a) = mb_max (gw_meter g)" "mb_interval (gw_meter a) = mb_interval (gw_meter g)"
    "mb_buffer (gw_meter a) = mb_buffer (gw_meter g)" "mb_opened (gw_meter a) = mb_opened (gw_meter g)"
    "gw_firmware a = gw_firmware g" "gw_latest a = gw_latest g" "gw_node a = gw_node g" "gw_interval a = gw_interval g"
  using assms by (simp_all add: same_core_def)

text \<open>A handler that touches neither the log nor the batches, and depends on neither.\<close>

definition core_op :: "(gateway \<Rightarrow> 'r \<times> gateway) \<Rightarrow> bool" where
  "core_op f \<longleftrightarrow> (\<forall>a g. same_core a g \<longrightarrow> fst (f a) = fst (f g) \<and> same_core (snd (f a)) (snd (f g)))
     \<and> (\<forall>g. gw_events (snd (f g)) = gw_events g \<and> mb_batches (gw_meter (snd (f g))) = mb_batches (gw_meter g))"

lemma core_ops:
  "core_op (handle_boot_notification now c tenant v m f)" "core_op (handle_authorize tag)"
  "core_op (handle_start_transaction i c tenant k tag ms t)" "core_op (handle_handshake kdf tn c tenant cred sub)"
  by (auto simp: core_op_def same_core_def handle_boot_notification_def handle_authorize_def handle_start_transaction_def
      handle_handshake_def Let_def case_prod_beta split: option.split sum.split)

locale reliable_ports =
  fixes P :: "('b, 'm) ports"
    and up :: "'b \<Rightarrow> bool"
    and sent :: "'b \<Rightarrow> message list"
    and batches :: "'m \<Rightarrow> meter_reading list list"
  assumes publish_ok: "up b \<Longrightarrow> \<exists>b'. pt_publish P i subject payload b = (Inr (), b') \<and> up b' \<and> sent b' = sent b @ [(subject, payload)]"
    and write_ok: "\<exists>m'. pt_write P rows m = (Inr (), m') \<and> batches m' = batches m @ [rows]"
begin

abbreviation ref where
  "ref \<equiv> refines up sent batches"

text \<open>An operation of the node refines one of the gateway: the same answer, and related states.\<close>

abbreviation refd where
  "refd x y \<equiv> fst x = fst y \<and> ref (snd x) (snd y)"

lemma ref_on_gw:
  assumes "ref n g" "core_op f"
  shows "refd (on_gw f n) (f g)"
  using assms by (simp add: refines_def core_op_def on_gw_def case_prod_beta)

lemma ref_with_gw:
  assumes "ref n g" "same_core (h (nd_gw n)) (f g)" "gw_events (f g) = gw_events g"
    "mb_batches (gw_meter (f g)) = mb_batches (gw_meter g)"
  shows "ref (with_gw h n) (f g)"
  using assms by (simp add: refines_def with_gw_def)

lemma ref_publish:
  assumes "ref n g" "\<And>ms. carries ms (gw_events g) \<Longrightarrow> carries (ms @ [m]) l'"
  shows "refd (node_publish P eid m n) (Inr (), g\<lparr>gw_events := l'\<rparr>)"
proof -
  obtain b' where b: "pt_publish P eid (fst m) (snd m) (nd_bus n) = (Inr (), b')" "up b'"
    "sent b' = sent (nd_bus n) @ [(fst m, snd m)]"
    using publish_ok[of "nd_bus n" eid "fst m" "snd m"] assms(1) by (auto simp: refines_def)
  show ?thesis using assms by (simp add: node_publish_def b refines_def same_core_def)
qed

lemma ref_flush:
  assumes "ref n g"
  shows "refd (node_flush P n) (Inr (), g\<lparr>gw_meter := meter_flush (gw_meter g)\<rparr>)"
proof -
  obtain m' where m: "pt_write P (mb_buffer (gw_meter g)) (nd_sink n) = (Inr (), m')"
    "batches m' = batches (nd_sink n) @ [mb_buffer (gw_meter g)]" using write_ok by blast
  have s: "same_core (nd_gw n) g" using assms by (simp add: refines_def)
  show ?thesis using assms
    by (simp add: node_flush_def with_gw_def same_coreD[OF s] m refines_def meter_flush_def write_batch_def same_core_def)
qed

lemma ref_add:
  assumes "ref n g"
  shows "refd (node_add P t1 t2 x n) (Inr (), g\<lparr>gw_meter := meter_add t1 t2 x (gw_meter g)\<rparr>)"
proof -
  let ?b1 = "\<lambda>b. if mb_buffer b = [] then b\<lparr>mb_opened := Some t1\<rparr> else b"
  let ?b2 = "\<lambda>b. (?b1 b)\<lparr>mb_buffer := mb_buffer (?b1 b) @ [x]\<rparr>"
  let ?g = "\<lambda>g. g\<lparr>gw_meter := ?b2 (gw_meter g)\<rparr>"
  have s: "same_core (nd_gw n) g" using assms by (simp add: refines_def)
  have r: "ref (with_gw (\<lambda>a. a\<lparr>gw_meter := ?b2 (gw_meter (nd_gw n))\<rparr>) n) (?g g)"
    using assms by (intro ref_with_gw) (simp_all add: same_core_def same_coreD[OF s])
  have f: "should_flush t2 (?b2 (gw_meter (nd_gw n))) = should_flush t2 (?b2 (gw_meter g))"
    by (simp add: should_flush_def same_coreD[OF s] split: option.split)
  show ?thesis
  proof (cases "should_flush t2 (?b2 (gw_meter g))")
    case True
    then show ?thesis using ref_flush[OF r] f unfolding node_add_def meter_add_def Let_def by simp
  next
    case False
    then show ?thesis using r f unfolding node_add_def meter_add_def Let_def by simp
  qed
qed

lemma ref_meter_values:
  assumes "ref n g"
  shows "refd (node_meter_values P clk tenant tid c ts rs n) (handle_meter_values clk tenant tid c ts rs g)"
  using assms
proof (induction rs arbitrary: clk n g)
  case Nil
  then show ?case by simp
next
  case (Cons r rs)
  show ?case
  proof (cases "reading_of tenant tid c ts r")
    case (Inl e)
    then show ?thesis using Cons.prems by simp
  next
    case (Inr x)
    obtain n1 where a: "node_add P (fst (clk 0)) (snd (clk 0)) x n = (Inr (), n1)"
      "ref n1 (g\<lparr>gw_meter := meter_add (fst (clk 0)) (snd (clk 0)) x (gw_meter g)\<rparr>)"
      using ref_add[OF Cons.prems, of "fst (clk 0)" "snd (clk 0)" x] by (metis fst_conv prod.collapse snd_conv)
    have "ref (with_gw (\<lambda>g. g\<lparr>gw_latest := map_option (latest_update x) (gw_latest g)\<rparr>) n1) (add_reading (clk 0) x g)"
      using a(2) by (simp add: refines_def with_gw_def add_reading_def same_core_def)
    from Cons.IH[OF this, of "\<lambda>i. clk (Suc i)"] show ?thesis using Inr a(1) by simp
  qed
qed

lemma ref_stop:
  assumes "ref n g"
  shows "refd (node_stop_transaction P eid tid m t reason n) (handle_stop_transaction tid m t reason g)"
proof -
  let ?g1 = "g\<lparr>gw_meter := meter_flush (gw_meter g)\<rparr>"
  obtain n1 where a: "node_flush P n = (Inr (), n1)" "ref n1 ?g1"
    using ref_flush[OF assms] by (metis fst_conv prod.collapse snd_conv)
  obtain r txns where s: "stop_transaction tid m t reason (gw_txns g) = (r, txns)" by fastforce
  have e: "gw_txns (nd_gw n1) = gw_txns g" using a(2) by (simp add: refines_def same_core_def)
  have n2: "ref (with_gw (\<lambda>g. g\<lparr>gw_txns := txns\<rparr>) n1) (?g1\<lparr>gw_txns := txns\<rparr>)"
    using a(2) by (simp add: refines_def with_gw_def same_core_def)
  show ?thesis
  proof (cases r)
    case (Inl e')
    then show ?thesis using n2 by (cases e') (simp add: node_stop_transaction_def handle_stop_transaction_def a e s)
  next
    case (Inr sr)
    let ?g2 = "?g1\<lparr>gw_txns := txns, gw_events := publish_stop_transaction (st_tenant sr) (st_charger sr) tid (gw_events g)\<rparr>"
    have "refd (node_publish P eid (stop_message (st_tenant sr) (st_charger sr) tid) (with_gw (\<lambda>g. g\<lparr>gw_txns := txns\<rparr>) n1)) (Inr (), ?g2)"
      by (rule ref_publish[OF n2]) (simp add: carries_stop)
    then obtain n3 where "node_publish P eid (stop_message (st_tenant sr) (st_charger sr) tid) (with_gw (\<lambda>g. g\<lparr>gw_txns := txns\<rparr>) n1)
        = (Inr (), n3)" "ref n3 ?g2" by (metis fst_conv prod.collapse snd_conv)
    then show ?thesis using n2 Inr
      by (simp add: node_stop_transaction_def handle_stop_transaction_def a e s Let_def)
  qed
qed

lemma ref_event:
  assumes "ref n g" "plain_payload payload"
  shows "refd (node_event P eid c tenant ty payload n) (Inr (), publish_event c tenant ty payload g)"
  using ref_publish[OF assms(1) carries_ocpp[OF _ assms(2)]] by (simp add: node_event_def publish_event_def)

lemma ref_firmware:
  assumes "ref n g"
  shows "refd (node_firmware_status P eid c tenant st n) (handle_firmware_status_notification c tenant st g)"
proof -
  let ?g1 = "publish_event c tenant ''firmware_status'' [(''status'', JStr st)] g"
  obtain n1 where a: "node_event P eid c tenant ''firmware_status'' [(''status'', JStr st)] n = (Inr (), n1)" "ref n1 ?g1"
    using ref_event[OF assms firmware_payload_plain] by (metis fst_conv prod.collapse snd_conv)
  have e: "gw_firmware (nd_gw n1) = gw_firmware g" "gw_firmware ?g1 = gw_firmware g"
    using a(2) by (simp_all add: refines_def same_core_def publish_event_def)
  have w: "ref (with_gw (\<lambda>g. g\<lparr>gw_firmware := Some fs\<rparr>) n1) (?g1\<lparr>gw_firmware := Some fs\<rparr>)" for fs
    using a(2) by (simp add: refines_def with_gw_def same_core_def)
  show ?thesis using a w
    by (simp add: node_firmware_status_def handle_firmware_status_notification_def e Let_def case_prod_beta split: option.split)
qed

lemma ref_status:
  assumes "ref n g"
  shows "refd (node_status_notification P eid c tenant k st err n) (Inr (), handle_status_notification c tenant k st err g)"
proof -
  let ?f = "\<lambda>g. g\<lparr>gw_connectors := connector_update c k st err (gw_connectors g)\<rparr>"
  have r: "ref (with_gw ?f n) (?f g)" using assms by (simp add: refines_def with_gw_def same_core_def)
  show ?thesis unfolding node_status_notification_def handle_status_notification_def
    by (rule ref_publish[OF r]) (simp add: carries_status)
qed

lemma refd_replied:
  "refd x y \<Longrightarrow> refd (replied f x) (replied f y)" "refd x' y' \<Longrightarrow> refd (replied_frame f' x') (replied_frame f' y')"
  by (auto simp: replied_def replied_frame_def case_prod_beta split: sum.split)

lemma ref_call:
  assumes "ref n g" "plain_call k"
  shows "refd (node_call P env eid c tenant k n) (memory_call env c tenant k g)"
proof (cases k)
  case (CallStatus x y z)
  then show ?thesis using ref_status[OF assms(1), of eid c tenant x y z] by (auto simp: replied_def case_prod_beta)
next
  case (CallEvent x y z)
  then show ?thesis using ref_event[OF assms(1), of y eid c tenant x] assms(2) by (auto simp: replied_def case_prod_beta)
next
  case (CallBoot x y z)
  then show ?thesis using refd_replied(2)[OF ref_on_gw[OF assms(1) core_ops(1)]] by simp
next
  case (CallAuthorize x)
  then show ?thesis using ref_on_gw[OF assms(1) core_ops(2), of x] by (simp add: apfst_def map_prod_def case_prod_beta)
next
  case (CallStart x y z w)
  then show ?thesis using ref_on_gw[OF assms(1) core_ops(3), of "fe_id env" c tenant x y z w]
    by (simp add: apfst_def map_prod_def case_prod_beta)
qed (simp_all add: refd_replied ref_stop ref_meter_values ref_firmware assms(1))

lemma ref_frame:
  assumes "ref n g"
  shows "refd (node_frame P env eid c tenant action p n) (handle_frame env c tenant action p g)"
  using assms ref_call parse_frame_plain unfolding node_frame_def handle_frame_parse by (auto split: sum.split)

lemma ref_offline:
  assumes "ref n g"
  shows "refd (node_offline P eid c p n) (offline_and_publish c p g)"
proof -
  let ?f = "\<lambda>g. g\<lparr>gw_presence := mark_offline c (gw_presence g)\<rparr>"
  have r: "ref (with_gw ?f n) (?f g)" using assms by (simp add: refines_def with_gw_def same_core_def)
  have "refd (node_publish P eid (disconnected_message t c) (with_gw ?f n))
     (Inr (), (?f g)\<lparr>gw_events := publish_disconnected t c (gw_events (?f g))\<rparr>)" for t
    by (rule ref_publish[OF r]) (simp add: carries_disconnected)
  then show ?thesis using r by (simp add: node_offline_def offline_and_publish_def Let_def split: option.split)
qed

lemma ref_presence: "ref n g \<Longrightarrow> gw_presence (nd_gw n) = gw_presence g"
  by (simp add: refines_def same_core_def)

lemma ref_disconnect:
  assumes "ref n g"
  shows "refd (node_disconnect P eid c n) (handle_disconnect c g)"
  using assms ref_offline[OF assms] by (simp add: node_disconnect_def handle_disconnect_def ref_presence split: option.split)

lemma ref_sweep:
  assumes "ref n g"
  shows "refd (node_sweep P eids now i cs n) (check_and_expire_heartbeats now i cs g)"
  using assms
proof (induction cs arbitrary: eids n g)
  case Nil
  then show ?case by simp
next
  case (Cons c cs)
  note later = Cons.IH[of _ _ "\<lambda>i. eids (Suc i)"]
  show ?case
  proof (cases "presence_get (gw_presence g) c")
    case None
    then show ?thesis using later[OF Cons.prems] by (simp add: ref_presence[OF Cons.prems])
  next
    case (Some p)
    obtain r n' where a: "node_offline P (eids 0) c p n = (r, n')" by fastforce
    obtain r' g' where b: "offline_and_publish c p g = (r', g')" by fastforce
    have ab: "r = r'" "ref n' g'" using ref_offline[OF Cons.prems, of "eids 0" c p] a b by simp_all
    show ?thesis using later[OF Cons.prems] later[OF ab(2)] ab a b
      by (simp add: Some ref_presence[OF Cons.prems] case_prod_beta split: sum.split)
  qed
qed

lemma ref_inbound: "ref n g \<Longrightarrow> ref (with_gw (handle_inbound_frame now c) n) (handle_inbound_frame now c g)"
  by (simp add: refines_def with_gw_def same_core_def handle_inbound_frame_def)

end

text \<open>One operation of the gateway on a node and in memory, with its answer as a value.\<close>

datatype gateway_op =
  OpFrame frame_env uuid string uuid string fpayload
| OpInbound pyfloat string
| OpHandshake pyfloat string uuid string "string option"
| OpDisconnect uuid string
| OpSweep "nat \<Rightarrow> uuid" pyfloat int "string list"

datatype gateway_answer =
  AnsFrame "frame_error + json"
| AnsHandshake "py_error + handshake_result"
| AnsUnit "py_error + unit"
| AnsSweep "py_error + string list"

fun node_op :: "('b, 'm) ports \<Rightarrow> (string \<Rightarrow> string \<Rightarrow> string) \<Rightarrow> gateway_op \<Rightarrow> ('b, 'm) node \<Rightarrow> gateway_answer \<times> ('b, 'm) node" where
  "node_op P kdf (OpFrame env eid c tenant action p) n = apfst AnsFrame (node_frame P env eid c tenant action p n)"
| "node_op P kdf (OpInbound now c) n = (AnsUnit (Inr ()), with_gw (handle_inbound_frame now c) n)"
| "node_op P kdf (OpHandshake now c tenant cred sub) n = apfst AnsHandshake (on_gw (handle_handshake kdf now c tenant cred sub) n)"
| "node_op P kdf (OpDisconnect eid c) n = apfst AnsUnit (node_disconnect P eid c n)"
| "node_op P kdf (OpSweep eids now i cs) n = apfst AnsSweep (node_sweep P eids now i cs n)"

fun memory_op :: "(string \<Rightarrow> string \<Rightarrow> string) \<Rightarrow> gateway_op \<Rightarrow> gateway \<Rightarrow> gateway_answer \<times> gateway" where
  "memory_op kdf (OpFrame env eid c tenant action p) g = apfst AnsFrame (handle_frame env c tenant action p g)"
| "memory_op kdf (OpInbound now c) g = (AnsUnit (Inr ()), handle_inbound_frame now c g)"
| "memory_op kdf (OpHandshake now c tenant cred sub) g = apfst AnsHandshake (handle_handshake kdf now c tenant cred sub g)"
| "memory_op kdf (OpDisconnect eid c) g = apfst AnsUnit (handle_disconnect c g)"
| "memory_op kdf (OpSweep eids now i cs) g = apfst AnsSweep (check_and_expire_heartbeats now i cs g)"

fun run_ops :: "('o \<Rightarrow> 's \<Rightarrow> 'r \<times> 's) \<Rightarrow> 'o list \<Rightarrow> 's \<Rightarrow> 'r list \<times> 's" where
  "run_ops f [] s = ([], s)"
| "run_ops f (x # xs) s = (let (r, s1) = f x s; (rs, s2) = run_ops f xs s1 in (r # rs, s2))"

context reliable_ports
begin

lemma ref_op:
  assumes "ref n g"
  shows "refd (node_op P kdf x n) (memory_op kdf x g)"
proof (cases x)
  case (OpFrame env eid c tenant action p)
  then show ?thesis using ref_frame[OF assms, of env eid c tenant action p] by (simp add: apfst_def map_prod_def case_prod_beta)
next
  case (OpInbound now c)
  then show ?thesis using ref_inbound[OF assms] by simp
next
  case (OpHandshake now c tenant cred sub)
  then show ?thesis using ref_on_gw[OF assms core_ops(4), of kdf now c tenant cred sub]
    by (simp add: apfst_def map_prod_def case_prod_beta)
next
  case (OpDisconnect eid c)
  then show ?thesis using ref_disconnect[OF assms, of eid c] by (simp add: apfst_def map_prod_def case_prod_beta)
next
  case (OpSweep eids now i cs)
  then show ?thesis using ref_sweep[OF assms, of eids now i cs] by (simp add: apfst_def map_prod_def case_prod_beta)
qed

lemma ref_run:
  assumes "ref n g"
  shows "refd (run_ops (node_op P kdf) xs n) (run_ops (memory_op kdf) xs g)"
  using assms
proof (induction xs arbitrary: n g)
  case (Cons x xs)
  obtain r n' where a: "node_op P kdf x n = (r, n')" by fastforce
  obtain r' g' where b: "memory_op kdf x g = (r', g')" by fastforce
  have "r = r'" "ref n' g'" using ref_op[OF Cons.prems, of kdf x] a b by simp_all
  then show ?case using Cons.IH[of n' g'] a b by (simp add: case_prod_beta)
qed simp

end

subsection \<open>Ports that deliver at most once\<close>

text \<open>
  A publish call stores its message once or not at all, and stores it when it returns; a
  raise may leave it either way, as a lost acknowledgement does. Nothing is asked of the sink.
\<close>

definition delivers_at_most_once :: "('b, 'm) ports \<Rightarrow> ('b \<Rightarrow> message list) \<Rightarrow> bool" where
  "delivers_at_most_once P sent \<longleftrightarrow> (\<forall>i s p b.
     sent (snd (pt_publish P i s p b)) = sent b @ [(s, p)]
     \<or> sent (snd (pt_publish P i s p b)) = sent b \<and> fst (pt_publish P i s p b) \<noteq> Inr ())"

definition stop_of :: "uuid \<Rightarrow> message \<Rightarrow> bool" where
  "stop_of tid m \<longleftrightarrow> dict_get (snd m) ''transaction_id'' = Some (JStr (str_uuid tid))"

definition stops_sent :: "('b \<Rightarrow> message list) \<Rightarrow> ('b, 'm) node \<Rightarrow> uuid \<Rightarrow> nat" where
  "stops_sent sent n tid = length (filter (stop_of tid) (sent (nd_bus n)))"

text \<open>A step of the node: any operation; the id a StartTransaction draws is new.\<close>

fun fresh_op :: "gateway_op \<Rightarrow> ('b, 'm) node \<Rightarrow> bool" where
  "fresh_op (OpFrame env eid c tenant action p) n \<longleftrightarrow> dict_get (tr_records (gw_txns (nd_gw n))) (fe_id env) = None"
| "fresh_op _ n \<longleftrightarrow> True"

inductive node_step :: "('b, 'm) ports \<Rightarrow> (string \<Rightarrow> string \<Rightarrow> string) \<Rightarrow> ('b, 'm) node \<Rightarrow> ('b, 'm) node \<Rightarrow> bool" for P kdf where
  "fresh_op x n \<Longrightarrow> node_step P kdf n (snd (node_op P kdf x n))"

lemma stop_of_stop [simp]: "stop_of tid (stop_message tn c tid') \<longleftrightarrow> tid = tid'"
  by (auto simp: stop_of_def stop_message_def)

lemma stop_of_other [simp]:
  "\<not> stop_of tid (status_message t c k st err)" "\<not> stop_of tid (disconnected_message t c)"
  "plain_payload payload \<Longrightarrow> \<not> stop_of tid (ocpp_message t c ty payload)"
  using plain_ocpp_message[of payload t c ty]
  by (auto simp: stop_of_def status_message_def disconnected_message_def is_ocpp_message_def is_stop_message_def)

locale fallible_ports =
  fixes P :: "('b, 'm) ports"
    and sent :: "'b \<Rightarrow> message list"
  assumes at_most_once: "delivers_at_most_once P sent"
begin

abbreviation stops where
  "stops \<equiv> stops_sent sent"

text \<open>What leaves the repository and the stop messages alone.\<close>

definition quiet where
  "quiet n n' \<longleftrightarrow> gw_txns (nd_gw n') = gw_txns (nd_gw n) \<and> (\<forall>tid. stops n' tid = stops n tid)"

lemma quiet_refl [simp]: "quiet n n"
  by (simp add: quiet_def)

lemma quiet_trans: "quiet n n' \<Longrightarrow> quiet n' n'' \<Longrightarrow> quiet n n''"
  by (simp add: quiet_def)

lemma quiet_with_gw: "(\<And>g. gw_txns (f g) = gw_txns g) \<Longrightarrow> quiet n (with_gw f n)"
  by (simp add: quiet_def with_gw_def stops_sent_def)

lemma quiet_on_gw: "(\<And>g. gw_txns (snd (f g)) = gw_txns g) \<Longrightarrow> quiet n (snd (on_gw f n))"
  by (simp add: quiet_def on_gw_def stops_sent_def case_prod_beta)

lemma publish_sent:
  "sent (nd_bus (snd (node_publish P eid m n))) = sent (nd_bus n) @ [m]
    \<or> sent (nd_bus (snd (node_publish P eid m n))) = sent (nd_bus n) \<and> fst (node_publish P eid m n) \<noteq> Inr ()"
  using at_most_once[unfolded delivers_at_most_once_def, rule_format, of eid "fst m" "snd m" "nd_bus n"]
  by (simp add: node_publish_def case_prod_beta)

lemma publish_gw [simp]: "nd_gw (snd (node_publish P eid m n)) = nd_gw n"
  by (simp add: node_publish_def case_prod_beta)

lemma quiet_publish:
  assumes "\<And>tid. \<not> stop_of tid m"
  shows "quiet n (snd (node_publish P eid m n))"
  using publish_sent[of eid m n] assms by (auto simp: quiet_def stops_sent_def)

lemma quiet_flush: "quiet n (snd (node_flush P n))"
  by (simp add: quiet_def node_flush_def with_gw_def stops_sent_def case_prod_beta Let_def)

lemma quiet_add: "quiet n (snd (node_add P t1 t2 x n))"
proof -
  have q: "quiet n (with_gw (\<lambda>g. g\<lparr>gw_meter := b\<rparr>) n)" for b by (rule quiet_with_gw) simp
  have "quiet n (snd (node_flush P (with_gw (\<lambda>g. g\<lparr>gw_meter := b\<rparr>) n)))" for b by (rule quiet_trans[OF q quiet_flush])
  then show ?thesis using q by (simp add: node_add_def Let_def)
qed

lemma quiet_meter: "quiet n (snd (node_meter_values P clk tenant tid c ts rs n))"
proof (induction rs arbitrary: clk n)
  case (Cons r rs)
  show ?case
  proof (cases "reading_of tenant tid c ts r")
    case (Inr x)
    obtain r' n1 where a: "node_add P (fst (clk 0)) (snd (clk 0)) x n = (r', n1)" by fastforce
    let ?n2 = "with_gw (\<lambda>g. g\<lparr>gw_latest := map_option (latest_update x) (gw_latest g)\<rparr>) n1"
    have q: "quiet n n1" using quiet_add[of n "fst (clk 0)" "snd (clk 0)" x] a by simp
    have "quiet n1 ?n2" by (rule quiet_with_gw) simp
    then have "quiet n (snd (node_meter_values P (\<lambda>i. clk (Suc i)) tenant tid c ts rs ?n2))"
      using quiet_trans[OF q] quiet_trans Cons.IH by blast
    then show ?thesis using Inr a q by (cases r') simp_all
  qed simp
qed simp

lemma quiet_offline: "quiet n (snd (node_offline P eid c p n))"
proof -
  have q: "quiet n (with_gw (\<lambda>g. g\<lparr>gw_presence := mark_offline c (gw_presence g)\<rparr>) n)" by (rule quiet_with_gw) simp
  have "quiet n (snd (node_publish P eid (disconnected_message t c)
      (with_gw (\<lambda>g. g\<lparr>gw_presence := mark_offline c (gw_presence g)\<rparr>) n)))" for t
    by (rule quiet_trans[OF q quiet_publish]) simp
  then show ?thesis using q by (simp add: node_offline_def Let_def split: option.split)
qed

lemma quiet_sweep: "quiet n (snd (node_sweep P eids now i cs n))"
proof (induction cs arbitrary: eids n)
  case (Cons c cs)
  have l: "quiet n' n'' \<Longrightarrow> quiet n' (snd (node_sweep P (\<lambda>i. eids (Suc i)) now i cs n''))" for n' n''
    using quiet_trans Cons.IH by blast
  show ?case
  proof (cases "presence_get (gw_presence (nd_gw n)) c")
    case (Some p)
    obtain r n' where a: "node_offline P (eids 0) c p n = (r, n')" by fastforce
    have "quiet n n'" using quiet_offline[of n "eids 0" c p] a by simp
    then show ?thesis using Some l a
      by (cases r) (auto simp: case_prod_beta Let_def split: sum.split)
  qed (simp add: l)
qed simp

lemma quiet_event: "plain_payload payload \<Longrightarrow> quiet n (snd (node_event P eid c tenant ty payload n))"
  unfolding node_event_def by (rule quiet_publish) simp

lemma quiet_firmware: "quiet n (snd (node_firmware_status P eid c tenant st n))"
proof -
  obtain r n1 where a: "node_event P eid c tenant ''firmware_status'' [(''status'', JStr st)] n = (r, n1)" by fastforce
  have q: "quiet n n1" using quiet_event[OF firmware_payload_plain, of n eid c tenant "''firmware_status''" "JStr st"] a by simp
  have "quiet n (with_gw (\<lambda>g. g\<lparr>gw_firmware := Some fs\<rparr>) n1)" for fs
    by (rule quiet_trans[OF q quiet_with_gw]) simp
  then show ?thesis using q by (cases r) (simp_all add: node_firmware_status_def a Let_def case_prod_beta split: option.split)
qed

lemma quiet_status: "quiet n (snd (node_status_notification P eid c tenant k st err n))"
proof -
  have "quiet n (with_gw (\<lambda>g. g\<lparr>gw_connectors := connector_update c k st err (gw_connectors g)\<rparr>) n)"
    by (rule quiet_with_gw) simp
  then show ?thesis unfolding node_status_notification_def by (rule quiet_trans[OF _ quiet_publish]) simp
qed

lemma snd_replied [simp]: "snd (replied f x) = snd x" "snd (replied_frame f' y) = snd y"
  by (simp_all add: replied_def replied_frame_def case_prod_beta split: sum.split)

text \<open>A stop: nothing, or the repository's stop and at most one message for this transaction.\<close>

lemma stop_node_cases:
  obtains (quiet) "quiet n (snd (node_stop_transaction P eid tid m t reason n))"
  | (stopped) rec where "dict_get (tr_records (gw_txns (nd_gw n))) tid = Some rec" "tx_status rec \<noteq> ''completed''"
      "gw_txns (nd_gw (snd (node_stop_transaction P eid tid m t reason n)))
         = snd (stop_transaction tid m t reason (gw_txns (nd_gw n)))"
      "\<And>u. stops (snd (node_stop_transaction P eid tid m t reason n)) u \<le> stops n u + (if u = tid then 1 else 0)"
      "\<And>u. u \<noteq> tid \<Longrightarrow> stops (snd (node_stop_transaction P eid tid m t reason n)) u = stops n u"
proof -
  obtain fr n1 where f: "node_flush P n = (fr, n1)" by fastforce
  have q1: "quiet n n1" using quiet_flush[of n] f by simp
  then have e: "gw_txns (nd_gw n1) = gw_txns (nd_gw n)" by (simp add: quiet_def)
  obtain r txns where s: "stop_transaction tid m t reason (gw_txns (nd_gw n)) = (r, txns)" by fastforce
  let ?n2 = "with_gw (\<lambda>g. g\<lparr>gw_txns := txns\<rparr>) n1"
  have same: "quiet n ?n2" if "txns = gw_txns (nd_gw n)"
    using that q1 e by (simp add: quiet_def with_gw_def stops_sent_def)
  show thesis
  proof (cases fr)
    case (Inl x)
    then show ?thesis using that(1) q1 by (simp add: node_stop_transaction_def f)
  next
    case (Inr x)
    note red = node_stop_transaction_def f Inr e s Let_def
    show ?thesis
    proof (cases "dict_get (tr_records (gw_txns (nd_gw n))) tid")
      case None
      then have "r = Inl (UnknownTransactionError (''unknown transaction_id: '' @ str_uuid tid))" "txns = gw_txns (nd_gw n)"
        using s by (simp_all add: stop_transaction_def)
      then show ?thesis using that(1) same by (simp add: red)
    next
      case (Some rec)
      show ?thesis
      proof (cases "tx_status rec = ''completed''")
        case True
        then have "st_already sr" if "r = Inr sr" for sr using s that by (auto simp: stop_completed[OF Some])
        then show ?thesis using that(1) same s by (simp add: red stop_completed[OF Some True])
      next
        case False
        let ?sr = "\<lparr>st_already = False, st_tenant = tx_tenant rec, st_charger = tx_charger rec\<rparr>"
        let ?m = "stop_message (tx_tenant rec) (tx_charger rec) tid"
        have r: "r = Inr ?sr" using stop_active(1)[OF Some False] s by (metis fst_conv)
        have n': "snd (node_stop_transaction P eid tid m t reason n) = snd (node_publish P eid ?m ?n2)"
          by (simp add: red r case_prod_beta split: sum.split)
        have "stops ?n2 u = stops n u" for u using q1 by (simp add: quiet_def with_gw_def stops_sent_def)
        moreover have "stops (snd (node_publish P eid ?m ?n2)) u \<le> stops ?n2 u + (if u = tid then 1 else 0)
           \<and> (u \<noteq> tid \<longrightarrow> stops (snd (node_publish P eid ?m ?n2)) u = stops ?n2 u)" for u
          using publish_sent[of eid ?m ?n2] by (auto simp: stops_sent_def)
        ultimately show ?thesis using that(2)[OF Some False] s unfolding n' by (simp add: with_gw_def)
      qed
    qed
  qed
qed

text \<open>What every step keeps: at most one stop message each, and none after the completion.\<close>

definition sound where
  "sound n \<longleftrightarrow> (\<forall>tid. stops n tid \<le> (if completed (nd_gw n) tid then 1 else 0))"

definition settles where
  "settles n n' \<longleftrightarrow> (sound n \<longrightarrow> sound n')
     \<and> (\<forall>tid. completed (nd_gw n) tid \<longrightarrow> completed (nd_gw n') tid \<and> stops n' tid = stops n tid)"

lemma settles_trans: "settles n n' \<Longrightarrow> settles n' n'' \<Longrightarrow> settles n n''"
  by (simp add: settles_def)

lemma settlesI:
  assumes "\<And>u. completed (nd_gw n') u = completed (nd_gw n) u" "\<And>u. stops n' u = stops n u"
  shows "settles n n'"
  using assms by (simp add: settles_def sound_def)

lemma quiet_settles: "quiet n n' \<Longrightarrow> settles n n'"
  by (rule settlesI) (simp_all add: quiet_def completed_def)

lemma stop_settles: "settles n (snd (node_stop_transaction P eid tid m t reason n))"
proof (cases rule: stop_node_cases[of n eid tid m t reason])
  case quiet
  then show "settles n (snd (node_stop_transaction P eid tid m t reason n))" by (rule quiet_settles)
next
  case (stopped rec)
  let ?n = "snd (node_stop_transaction P eid tid m t reason n)"
  have c: "completed (nd_gw ?n) u \<longleftrightarrow> u = tid \<or> completed (nd_gw n) u" for u
    unfolding completed_def stopped(3) stop_active(2)[OF stopped(1,2)] by simp
  have nc: "\<not> completed (nd_gw n) tid" using stopped(1,2) by (simp add: completed_def)
  have "sound ?n" if "sound n"
    unfolding sound_def
  proof
    fix u
    have "stops n u \<le> (if completed (nd_gw n) u then 1 else 0)" using that by (simp add: sound_def)
    then show "stops ?n u \<le> (if completed (nd_gw ?n) u then 1 else 0)" using stopped(4)[of u] stopped(5)[of u] nc
      by (cases "u = tid") (simp_all add: c)
  qed
  then show "settles n ?n" using stopped(5) nc c unfolding settles_def by metis
qed

lemma start_settles:
  assumes "dict_get (tr_records (gw_txns (nd_gw n))) i = None"
  shows "settles n (snd (on_gw (handle_start_transaction i c tenant k tag m t) n))"
proof -
  let ?g = "snd (handle_start_transaction i c tenant k tag m t (nd_gw n))"
  have "completed ?g u = completed (nd_gw n) u" for u
  proof (cases "fst (authorize tag (gw_auth (nd_gw n))) = ACCEPTED")
    case True
    then show ?thesis using assms unfolding start_authorized[OF True] by (auto simp: completed_def start_transaction_def Let_def)
  next
    case False
    then show ?thesis unfolding start_unauthorized[OF False] by (simp add: completed_def)
  qed
  then show ?thesis by (intro settlesI) (simp_all add: on_gw_def case_prod_beta stops_sent_def)
qed

lemma call_settles:
  assumes "plain_call k" "dict_get (tr_records (gw_txns (nd_gw n))) (fe_id env) = None"
  shows "settles n (snd (node_call P env eid c tenant k n))"
proof (cases k)
  case (CallBoot v m f)
  have "quiet n (snd (on_gw (handle_boot_notification (fe_now env) c tenant v m f) n))"
    by (rule quiet_on_gw) (simp add: handle_boot_notification_def Let_def case_prod_beta)
  then show ?thesis using CallBoot quiet_settles by simp
next
  case (CallAuthorize tag)
  have "quiet n (snd (on_gw (handle_authorize tag) n))"
    by (rule quiet_on_gw) (simp add: handle_authorize_def Let_def case_prod_beta)
  then show ?thesis using CallAuthorize quiet_settles by simp
next
  case (CallStart x tag m t)
  then show ?thesis using start_settles[OF assms(2)] by simp
next
  case (CallEvent ty payload j)
  then show ?thesis using quiet_settles[OF quiet_event] assms(1) by simp
qed (simp_all add: stop_settles quiet_settles quiet_status quiet_meter quiet_firmware)

lemma step_settles:
  assumes "node_step P kdf n n'"
  shows "settles n n'"
  using assms
proof (cases rule: node_step.cases)
  case (1 x)
  show ?thesis
  proof (cases x)
    case (OpFrame env eid c tenant action p)
    have "settles n n" by (simp add: quiet_settles)
    then show ?thesis using 1 OpFrame parse_frame_plain call_settles
      by (auto simp: node_frame_def split: sum.split)
  next
    case (OpInbound now c)
    have "quiet n (with_gw (handle_inbound_frame now c) n)" by (rule quiet_with_gw) (simp add: handle_inbound_frame_def)
    then show ?thesis using 1 OpInbound quiet_settles by simp
  next
    case (OpHandshake now c tenant cred sub)
    have "quiet n (snd (on_gw (handle_handshake kdf now c tenant cred sub) n))"
      using handshake_keeps unfolding keeps_txns_def by (intro quiet_on_gw) blast
    then show ?thesis using 1 OpHandshake quiet_settles by simp
  next
    case (OpDisconnect eid c)
    have "quiet n (snd (node_disconnect P eid c n))"
      by (simp add: node_disconnect_def quiet_offline split: option.split)
    then show ?thesis using 1 OpDisconnect quiet_settles by simp
  next
    case (OpSweep eids now i cs)
    then show ?thesis using 1 quiet_settles[OF quiet_sweep] by simp
  qed
qed

lemma steps_settle: "(node_step P kdf)\<^sup>*\<^sup>* n n' \<Longrightarrow> settles n n'"
proof (induction rule: rtranclp_induct)
  case base
  show ?case by (simp add: quiet_settles)
next
  case (step y z)
  then show ?case using settles_trans step_settles by blast
qed

text \<open>A completed transaction's stop is accepted again and publishes nothing.\<close>

lemma completed_stop_accepted:
  assumes "completed (nd_gw n) tid" "fst (node_flush P n) = Inr ()"
  shows "fst (node_stop_transaction P eid tid m t reason n) = Inr ''Accepted''"
proof -
  obtain n1 where f: "node_flush P n = (Inr (), n1)" using assms(2) by (metis prod.collapse)
  obtain rec where r: "dict_get (tr_records (gw_txns (nd_gw n))) tid = Some rec" "tx_status rec = ''completed''"
    using assms(1) by (auto simp: completed_def)
  have "gw_txns (nd_gw n1) = gw_txns (nd_gw n)" using quiet_flush[of n] f by (simp add: quiet_def)
  then show ?thesis by (simp add: node_stop_transaction_def f stop_completed[OF r] Let_def)
qed

text \<open>A stop of an active transaction that raises a Python error after its flush has completed it.\<close>

lemma raised_stop_completed:
  assumes "dict_get (tr_records (gw_txns (nd_gw n))) tid = Some rec" "tx_status rec \<noteq> ''completed''"
    and "fst (node_flush P n) = Inr ()"
  shows "completed (nd_gw (snd (node_stop_transaction P eid tid m t reason n))) tid"
proof -
  obtain n1 where f: "node_flush P n = (Inr (), n1)" using assms(3) by (metis prod.collapse)
  have e: "gw_txns (nd_gw n1) = gw_txns (nd_gw n)" using quiet_flush[of n] f by (simp add: quiet_def)
  obtain r txns where s: "stop_transaction tid m t reason (gw_txns (nd_gw n)) = (r, txns)" by fastforce
  have r: "r = Inr \<lparr>st_already = False, st_tenant = tx_tenant rec, st_charger = tx_charger rec\<rparr>"
    using stop_active(1)[OF assms(1,2)] s by (metis fst_conv)
  have "gw_txns (nd_gw (snd (node_stop_transaction P eid tid m t reason n))) = txns"
    by (simp add: node_stop_transaction_def f e s r Let_def case_prod_beta with_gw_def split: sum.split)
  then show ?thesis using stop_active(2)[OF assms(1,2), of m t reason] s by (simp add: completed_def)
qed

end

subsection \<open>The readings a failing sink loses\<close>

text \<open>A write stores a prefix of its rows, and all of them when it returns.\<close>

definition writes_prefix :: "('b, 'm) ports \<Rightarrow> ('m \<Rightarrow> meter_reading list) \<Rightarrow> bool" where
  "writes_prefix P written \<longleftrightarrow> (\<forall>rows m.
     (\<exists>k. written (snd (pt_write P rows m)) = written m @ take k rows)
     \<and> (fst (pt_write P rows m) = Inr () \<longrightarrow> written (snd (pt_write P rows m)) = written m @ rows))"

fun node_meter :: "('b, 'm) ports \<Rightarrow> meter_op \<Rightarrow> ('b, 'm) node \<Rightarrow> (py_error + unit) \<times> ('b, 'm) node" where
  "node_meter P (Add t1 t2 x) n = node_add P t1 t2 x n"
| "node_meter P Flush n = node_flush P n"

definition node_rows :: "('m \<Rightarrow> meter_reading list) \<Rightarrow> ('b, 'm) node \<Rightarrow> meter_reading list" where
  "node_rows written n = written (nd_sink n) @ mb_buffer (gw_meter (nd_gw n))"

lemma node_flush_rows:
  assumes "writes_prefix P written"
  shows "subseq (node_rows written (snd (node_flush P n))) (node_rows written n)"
    "fst (node_flush P n) = Inr () \<Longrightarrow> node_rows written (snd (node_flush P n)) = node_rows written n"
    "mb_buffer (gw_meter (nd_gw (snd (node_flush P n)))) = []"
proof -
  let ?rows = "mb_buffer (gw_meter (nd_gw n))"
  note w = assms[unfolded writes_prefix_def, rule_format, of ?rows "nd_sink n"]
  obtain k where k: "written (snd (pt_write P ?rows (nd_sink n))) = written (nd_sink n) @ take k ?rows" using w by blast
  have "subseq (take k ?rows) ?rows" by (metis append_take_drop_id list_emb_append2 subseq_order.refl subseq_rev_drop_many)
  then have "subseq (written (nd_sink n) @ take k ?rows) (written (nd_sink n) @ ?rows)" by (rule list_emb_append_mono[OF subseq_order.refl])
  with k show "subseq (node_rows written (snd (node_flush P n))) (node_rows written n)"
    by (simp add: node_rows_def node_flush_def with_gw_def Let_def case_prod_beta)
  show "node_rows written (snd (node_flush P n)) = node_rows written n" if "fst (node_flush P n) = Inr ()"
    using that w by (auto simp: node_rows_def node_flush_def with_gw_def Let_def case_prod_beta split: if_splits)
  show "mb_buffer (gw_meter (nd_gw (snd (node_flush P n)))) = []"
    by (simp add: node_flush_def with_gw_def Let_def case_prod_beta)
qed

lemma node_add_rows:
  assumes "writes_prefix P written"
  shows "subseq (node_rows written (snd (node_add P t1 t2 x n))) (node_rows written n @ [x])"
    "fst (node_add P t1 t2 x n) = Inr () \<Longrightarrow> node_rows written (snd (node_add P t1 t2 x n)) = node_rows written n @ [x]"
    "fst (node_add P t1 t2 x n) \<noteq> Inr () \<Longrightarrow> mb_buffer (gw_meter (nd_gw (snd (node_add P t1 t2 x n)))) = []"
proof -
  let ?b1 = "if mb_buffer (gw_meter (nd_gw n)) = [] then (gw_meter (nd_gw n))\<lparr>mb_opened := Some t1\<rparr> else gw_meter (nd_gw n)"
  let ?b2 = "?b1\<lparr>mb_buffer := mb_buffer ?b1 @ [x]\<rparr>"
  let ?n2 = "with_gw (\<lambda>g. g\<lparr>gw_meter := ?b2\<rparr>) n"
  have r: "node_rows written ?n2 = node_rows written n @ [x]" by (simp add: node_rows_def with_gw_def)
  have e: "node_add P t1 t2 x n = (if should_flush t2 ?b2 then node_flush P ?n2 else (Inr (), ?n2))"
    unfolding node_add_def Let_def by (rule refl)
  note f = node_flush_rows[OF assms, of ?n2]
  show "subseq (node_rows written (snd (node_add P t1 t2 x n))) (node_rows written n @ [x])"
    using f(1) unfolding e r by (simp split: if_split add: r)
  show "node_rows written (snd (node_add P t1 t2 x n)) = node_rows written n @ [x]" if "fst (node_add P t1 t2 x n) = Inr ()"
    using f(2) that unfolding e r by (simp split: if_split_asm add: r)
  show "mb_buffer (gw_meter (nd_gw (snd (node_add P t1 t2 x n)))) = []" if "fst (node_add P t1 t2 x n) \<noteq> Inr ()"
    using f(3) that unfolding e by (simp split: if_split_asm)
qed

lemma node_meter_rows:
  assumes "writes_prefix P written"
  shows "subseq (node_rows written (snd (node_meter P a n))) (node_rows written n @ added [a])"
    "fst (node_meter P a n) = Inr () \<Longrightarrow> node_rows written (snd (node_meter P a n)) = node_rows written n @ added [a]"
    "fst (node_meter P a n) \<noteq> Inr () \<Longrightarrow> mb_buffer (gw_meter (nd_gw (snd (node_meter P a n)))) = []"
  using node_flush_rows[OF assms] node_add_rows[OF assms] by (cases a; simp)+

lemma added_Cons: "added (a # ops) = added [a] @ added ops"
  by (cases a) simp_all

lemma node_meter_run:
  assumes "writes_prefix P written"
  shows "subseq (node_rows written (snd (run_ops (node_meter P) ops n))) (node_rows written n @ added ops)
    \<and> (set (fst (run_ops (node_meter P) ops n)) \<subseteq> {Inr ()}
        \<longrightarrow> node_rows written (snd (run_ops (node_meter P) ops n)) = node_rows written n @ added ops)
    \<and> (fst (run_ops (node_meter P) ops n) \<noteq> [] \<and> last (fst (run_ops (node_meter P) ops n)) \<noteq> Inr ()
        \<longrightarrow> mb_buffer (gw_meter (nd_gw (snd (run_ops (node_meter P) ops n)))) = [])"
proof (induction ops arbitrary: n)
  case Nil
  then show ?case by simp
next
  case (Cons a ops)
  obtain r n1 where a: "node_meter P a n = (r, n1)" by fastforce
  obtain rs n2 where b: "run_ops (node_meter P) ops n1 = (rs, n2)" by fastforce
  note st = node_meter_rows[OF assms, of a n, unfolded a fst_conv snd_conv]
  have ih: "subseq (node_rows written n2) (node_rows written n1 @ added ops)"
    "set rs \<subseteq> {Inr ()} \<longrightarrow> node_rows written n2 = node_rows written n1 @ added ops"
    "rs \<noteq> [] \<and> last rs \<noteq> Inr () \<longrightarrow> mb_buffer (gw_meter (nd_gw n2)) = []"
    using Cons.IH[of n1] b by simp_all
  have "subseq (node_rows written n1 @ added ops) ((node_rows written n @ added [a]) @ added ops)"
    by (rule list_emb_append_mono[OF st(1) subseq_order.refl])
  then have "subseq (node_rows written n2) (node_rows written n @ added (a # ops))"
    using subseq_order.trans[OF ih(1)] by (simp add: added_Cons[of a ops])
  moreover have "node_rows written n2 = node_rows written n @ added (a # ops)" if "set (r # rs) \<subseteq> {Inr ()}"
    using that st(2) ih(2) by (simp add: added_Cons[of a ops])
  moreover have "mb_buffer (gw_meter (nd_gw n2)) = []" if "last (r # rs) \<noteq> Inr ()"
  proof (cases "rs = []")
    case True
    then have "n2 = n1" using b by (cases ops) (auto simp: case_prod_beta)
    then show ?thesis using that True st(3) by simp
  next
    case False
    then show ?thesis using that ih(3) by simp
  qed
  ultimately show ?case by (simp add: a b)
qed

subsection \<open>The adapters\<close>

text \<open>
  \<open>NatsEventBus\<close>: the server is a state the client calls act on, each answering whether it
  succeeded; an exception of the client is \<open>RuntimeError []\<close>. \<open>connect\<close> stores the stream
  context before it provisions the stream, so a refused \<open>add_stream\<close> leaves the bus publishing.
\<close>

definition STREAM_NAME :: string where "STREAM_NAME = ''OCPP_EVENTS''"
definition STREAM_SUBJECT_WILDCARD :: string where "STREAM_SUBJECT_WILDCARD = ''ocpp.>''"
definition STREAM_MAX_AGE_SECONDS :: int where "STREAM_MAX_AGE_SECONDS = 7 * 24 * 60 * 60"
definition CONSUMER_NAMES :: "string list" where
  "CONSUMER_NAMES = [''ocpi-sync'', ''billing-cdr'', ''portal-live-feed'', ''notification-dispatch'']"

record 'j nats_bus =
  nb_url :: string
  nb_nc :: bool
  nb_js :: "'j option"

definition nats_bus_init :: "string \<Rightarrow> 'j nats_bus" where
  "nats_bus_init url = \<lparr>nb_url = url, nb_nc = False, nb_js = None\<rparr>"

definition outcome :: "bool \<Rightarrow> py_error + unit" where
  "outcome ok = (if ok then Inr () else Inl (RuntimeError []))"

definition nats_bus_connect ::
  "(string \<Rightarrow> 'j option) \<Rightarrow> (string \<Rightarrow> string list \<Rightarrow> string \<Rightarrow> int \<Rightarrow> 'j \<Rightarrow> bool \<times> 'j) \<Rightarrow> 'j nats_bus
    \<Rightarrow> (py_error + unit) \<times> 'j nats_bus" where
  "nats_bus_connect dial add_stream b =
     (case dial (nb_url b) of
        None \<Rightarrow> (outcome False, b)
      | Some j \<Rightarrow>
        (let (ok, j') = add_stream STREAM_NAME [STREAM_SUBJECT_WILDCARD] ''limits'' STREAM_MAX_AGE_SECONDS j
         in (outcome ok, b\<lparr>nb_nc := True, nb_js := Some j'\<rparr>)))"

definition nats_bus_publish :: "(string \<Rightarrow> json \<Rightarrow> string \<Rightarrow> 'j \<Rightarrow> bool \<times> 'j) \<Rightarrow> 'j nats_bus publish_op" where
  "nats_bus_publish js new_id subject payload b =
     (case nb_js b of
        None \<Rightarrow> (Inl (RuntimeError ''NatsEventBus.connect() must be called before publish()''), b)
      | Some j \<Rightarrow> (let (ok, j') = js subject (JObj payload) (str_uuid new_id) j in (outcome ok, b\<lparr>nb_js := Some j'\<rparr>)))"

definition nats_bus_close :: "('j nats_bus \<Rightarrow> bool \<times> 'j nats_bus) \<Rightarrow> 'j nats_bus \<Rightarrow> (py_error + unit) \<times> 'j nats_bus" where
  "nats_bus_close close b = (if nb_nc b then apfst outcome (close b) else (Inr (), b))"

definition memory_bus_port :: "'s event_bus publish_op" where
  "memory_bus_port i subject payload b = (Inr (), snd (bus_publish i subject payload None b))"

text \<open>\<open>InMemoryMeterValueSink\<close>: the batches, which a write never refuses.\<close>

definition memory_sink :: "meter_reading list list write_op" where
  "memory_sink rows bs = (Inr (), bs @ [rows])"

definition memory_ports :: "('s event_bus, meter_reading list list) ports" where
  "memory_ports = \<lparr>pt_publish = memory_bus_port, pt_write = memory_sink\<rparr>"

definition nats_ports :: "(string \<Rightarrow> json \<Rightarrow> string \<Rightarrow> 'j \<Rightarrow> bool \<times> 'j) \<Rightarrow> 'm write_op \<Rightarrow> ('j nats_bus, 'm) ports" where
  "nats_ports js wr = \<lparr>pt_publish = nats_bus_publish js, pt_write = wr\<rparr>"

definition bus_sent :: "'s event_bus \<Rightarrow> message list" where
  "bus_sent b = map (\<lambda>e. (e_subject e, e_payload e)) (eb_published b)"

definition nats_sent :: "('j \<Rightarrow> message list) \<Rightarrow> 'j nats_bus \<Rightarrow> message list" where
  "nats_sent stored b = (case nb_js b of None \<Rightarrow> [] | Some j \<Rightarrow> stored j)"

definition connected :: "'j nats_bus \<Rightarrow> bool" where
  "connected b \<longleftrightarrow> nb_js b \<noteq> None"

text \<open>What the stream promises: a publish that is acknowledged is stored, once.\<close>

definition stream_stores :: "(string \<Rightarrow> json \<Rightarrow> string \<Rightarrow> 'j \<Rightarrow> bool \<times> 'j) \<Rightarrow> ('j \<Rightarrow> message list) \<Rightarrow> bool" where
  "stream_stores js stored \<longleftrightarrow> (\<forall>s p i j. stored (snd (js s (JObj p) i j)) = stored j @ [(s, p)]
     \<or> stored (snd (js s (JObj p) i j)) = stored j \<and> \<not> fst (js s (JObj p) i j))"

definition stream_up :: "(string \<Rightarrow> json \<Rightarrow> string \<Rightarrow> 'j \<Rightarrow> bool \<times> 'j) \<Rightarrow> bool" where
  "stream_up js \<longleftrightarrow> (\<forall>s p i j. fst (js s (JObj p) i j))"

lemma deliver_published [simp]: "eb_published (deliver e n k b) = eb_published b"
  by (simp add: deliver_def mark_processed_def alert_consumer_lag_def Let_def case_prod_beta)

lemma deliver_all_published [simp]: "eb_published (deliver_all e ns b) = eb_published b"
  by (induction ns arbitrary: b) (simp_all split: option.split)

interpretation memory_node: reliable_ports memory_ports "\<lambda>b. True" bus_sent "\<lambda>bs. bs"
  by unfold_locales
    (simp_all add: memory_ports_def memory_bus_port_def bus_publish_def bus_sent_def memory_sink_def Let_def)

interpretation memory_delivery: fallible_ports memory_ports bus_sent
  by unfold_locales
    (simp add: delivers_at_most_once_def memory_ports_def memory_bus_port_def bus_publish_def bus_sent_def Let_def)

lemma nats_delivers: "stream_stores js stored \<Longrightarrow> delivers_at_most_once (nats_ports js wr) (nats_sent stored)"
  unfolding stream_stores_def delivers_at_most_once_def nats_ports_def nats_bus_publish_def nats_sent_def outcome_def
  by (simp add: case_prod_beta split: option.split) blast

lemma nats_fallible: "stream_stores js stored \<Longrightarrow> fallible_ports (nats_ports js wr) (nats_sent stored)"
  by (rule fallible_ports.intro) (rule nats_delivers)

lemma nats_reliable:
  assumes "stream_stores js stored" "stream_up js"
    and "\<And>rows m. fst (wr rows m) = Inr () \<and> batches (snd (wr rows m)) = batches m @ [rows]"
  shows "reliable_ports (nats_ports js wr) connected (nats_sent stored) batches"
proof unfold_locales
  fix b :: "'a nats_bus" and i subject payload
  assume "connected b"
  then obtain j where j: "nb_js b = Some j" by (auto simp: connected_def)
  have "fst (js subject (JObj payload) (str_uuid i) j)" using assms(2) by (simp add: stream_up_def)
  moreover have "stored (snd (js subject (JObj payload) (str_uuid i) j)) = stored j @ [(subject, payload)]"
    using assms(1,2) unfolding stream_stores_def stream_up_def by blast
  ultimately show "\<exists>b'. pt_publish (nats_ports js wr) i subject payload b = (Inr (), b') \<and> connected b'
      \<and> nats_sent stored b' = nats_sent stored b @ [(subject, payload)]"
    by (simp add: nats_ports_def nats_bus_publish_def j case_prod_beta outcome_def connected_def nats_sent_def)
next
  fix rows m
  show "\<exists>m'. pt_write (nats_ports js wr) rows m = (Inr (), m') \<and> batches m' = batches m @ [rows]"
    using assms(3)[of rows m] by (simp add: nats_ports_def) (metis prod.collapse)
qed

definition sink_keeps :: "'m write_op \<Rightarrow> ('m \<Rightarrow> meter_reading list list) \<Rightarrow> bool" where
  "sink_keeps wr batches \<longleftrightarrow> (\<forall>rows m. fst (wr rows m) = Inr () \<and> batches (snd (wr rows m)) = batches m @ [rows])"

subsection \<open>Properties\<close>

text \<open>
  C22: On a connected NATS bus whose stream acknowledges and stores every message, and a sink
  that refuses nothing, the gateway refines the in-memory one: every sequence of frames,
  handshakes, disconnects and sweeps gets the same answers, and the stream holds exactly the
  events of the in-memory log, each kind in order, and the sink the same batches.
\<close>

theorem nats_gateway_refines_memory:
  assumes "stream_stores js stored" "stream_up js" "sink_keeps wr batches"
    and "refines connected (nats_sent stored) batches n g"
  shows "fst (run_ops (node_op (nats_ports js wr) kdf) ops n) = fst (run_ops (memory_op kdf) ops g)
    \<and> refines connected (nats_sent stored) batches
        (snd (run_ops (node_op (nats_ports js wr) kdf) ops n)) (snd (run_ops (memory_op kdf) ops g))"
proof -
  have "\<And>rows m. fst (wr rows m) = Inr () \<and> batches (snd (wr rows m)) = batches m @ [rows]"
    using assms(3) by (simp add: sink_keeps_def)
  from reliable_ports.ref_run[OF nats_reliable[OF assms(1,2) this] assms(4)] show ?thesis .
qed

definition storing_stream :: "string \<Rightarrow> json \<Rightarrow> string \<Rightarrow> message list \<Rightarrow> bool \<times> message list" where
  "storing_stream s p i q = (True, q @ [(s, case p of JObj xs \<Rightarrow> xs | _ \<Rightarrow> [])])"

definition failing_stream :: "string \<Rightarrow> json \<Rightarrow> string \<Rightarrow> message list \<Rightarrow> bool \<times> message list" where
  "failing_stream s p i q = (False, q)"

definition sample_node :: "(message list nats_bus, meter_reading list list) node" where
  "sample_node = \<lparr>nd_gw = sample_started, nd_bus = \<lparr>nb_url = ''nats://n'', nb_nc = True, nb_js = Some []\<rparr>, nd_sink = []\<rparr>"

lemma sample_streams:
  "stream_stores storing_stream (\<lambda>q. q)" "stream_up storing_stream" "stream_stores failing_stream (\<lambda>q. q)"
  "sink_keeps memory_sink (\<lambda>bs. bs)"
  by (simp_all add: stream_stores_def stream_up_def storing_stream_def failing_stream_def sink_keeps_def memory_sink_def)

lemma sample_started_log:
  "gw_events sample_started = \<lparr>ev_disconnected = [], ev_status = [], ev_stop = [], ev_ocpp = []\<rparr>"
  "mb_batches (gw_meter sample_started) = []" "mb_buffer (gw_meter sample_started) = []"
  unfolding sample_started_def start_authorized[OF sample_started_simps(1)] by (simp_all add: sample_gateway_def)

lemma sample_stop_frame:
  "parse_frame ''StopTransaction'' sample_stop = Inr (CallStop 5 900 7 None)"
  by (simp add: parse_frame_def sample_stop_def fitem_uuid_def fitem_def fitem_int_def fitem_time_def fget_str_def)

lemma sample_memory_stop:
  "ev_stop (gw_events (snd (handle_stop_transaction 5 900 7 None sample_started))) = [(Some 1, ''CP'', 5)]"
  by (simp add: handle_stop_transaction_def meter_flush_def sample_started_log stop_transaction_def sample_started_simps(2)
      publish_stop_transaction_def Let_def)

theorem nats_gateway_refines_memory_witness:
  "filter is_stop_message (nats_sent (\<lambda>q. q) (nd_bus (snd (run_ops (node_op (nats_ports storing_stream memory_sink) sample_kdf)
      [OpFrame (sample_env 8) 9 ''CP'' 1 ''StopTransaction'' sample_stop] sample_node)))) = [stop_message (Some 1) ''CP'' 5]"
proof -
  have "refines connected (nats_sent (\<lambda>q. q)) (\<lambda>bs. bs) sample_node sample_started"
    by (simp add: refines_def sample_node_def connected_def nats_sent_def carries_def sample_started_log same_core_def)
  from nats_gateway_refines_memory[OF sample_streams(1,2,4) this, of sample_kdf
      "[OpFrame (sample_env 8) 9 ''CP'' 1 ''StopTransaction'' sample_stop]"]
  show ?thesis
    by (simp add: refines_def carries_def handle_frame_parse sample_stop_frame apfst_def map_prod_def case_prod_beta
        replied_frame_def sample_memory_stop split: sum.splits)
qed

text \<open>
  C23: Over a bus that stores a message at most once, and whatever the sink does, no sequence
  of operations publishes a transaction's stop twice, none is published before the
  transaction is completed, and once it is completed nothing changes its count any more.
\<close>

theorem stop_delivered_at_most_once:
  assumes "delivers_at_most_once P sent" "(node_step P kdf)\<^sup>*\<^sup>* n n'"
    and "\<And>u. stops_sent sent n u \<le> (if completed (nd_gw n) u then 1 else 0)"
  shows "stops_sent sent n' tid \<le> (if completed (nd_gw n') tid then 1 else 0)
    \<and> (completed (nd_gw n) tid \<longrightarrow> completed (nd_gw n') tid \<and> stops_sent sent n' tid = stops_sent sent n tid)"
proof -
  have l: "fallible_ports P sent" by (rule fallible_ports.intro[OF assms(1)])
  show ?thesis
    using fallible_ports.steps_settle[OF l assms(2)] assms(3)
    unfolding fallible_ports.settles_def[OF l] fallible_ports.sound_def[OF l] by blast
qed

lemma sample_node_sound: "stops_sent (nats_sent (\<lambda>q. q)) sample_node u \<le> (if completed (nd_gw sample_node) u then 1 else 0)"
  by (simp add: stops_sent_def sample_node_def nats_sent_def)

lemma sample_node_step:
  "node_step P sample_kdf sample_node (snd (node_stop_transaction P 9 5 900 7 None sample_node))"
proof -
  have "fresh_op (OpFrame (sample_env 8) 9 ''CP'' 1 ''StopTransaction'' sample_stop) sample_node"
    by (simp add: sample_env_def sample_node_def sample_started_simps(2))
  from node_step.intros[OF this, of P sample_kdf] show ?thesis
    by (simp add: node_frame_def sample_stop_frame apfst_def map_prod_def case_prod_beta replied_frame_def split: sum.splits)
qed

theorem stop_delivered_at_most_once_witness:
  "stops_sent (nats_sent (\<lambda>q. q))
     (snd (node_stop_transaction (nats_ports storing_stream memory_sink) 9 5 900 7 None sample_node)) 5 \<le> 1"
proof -
  let ?P = "nats_ports storing_stream memory_sink"
  have "(node_step ?P sample_kdf)\<^sup>*\<^sup>* sample_node (snd (node_stop_transaction ?P 9 5 900 7 None sample_node))"
    using sample_node_step by (rule r_into_rtranclp)
  from stop_delivered_at_most_once[OF nats_delivers[OF sample_streams(1)] this sample_node_sound, of 5]
  show ?thesis by (simp split: if_splits)
qed

text \<open>
  C24: A stop whose publication did not reach the bus is lost for good: the transaction is
  already completed, so no later operation publishes it, and the charge point's repeated
  StopTransaction is answered Accepted as soon as the buffer can be flushed.
\<close>

theorem lost_stop_never_published:
  assumes "delivers_at_most_once P sent"
    and "dict_get (tr_records (gw_txns (nd_gw n))) tid = Some rec" "tx_status rec \<noteq> ''completed''"
    and "stops_sent sent n tid = 0" "fst (node_flush P n) = Inr ()"
    and "n1 = snd (node_stop_transaction P eid tid m t reason n)" "stops_sent sent n1 tid = 0"
    and "(node_step P kdf)\<^sup>*\<^sup>* n1 n2"
  shows "completed (nd_gw n2) tid \<and> stops_sent sent n2 tid = 0
    \<and> (fst (node_flush P n2) = Inr () \<longrightarrow> fst (node_stop_transaction P eid' tid m' t' reason' n2) = Inr ''Accepted'')"
proof -
  have l: "fallible_ports P sent" by (rule fallible_ports.intro[OF assms(1)])
  have c: "completed (nd_gw n1) tid"
    unfolding assms(6) by (rule fallible_ports.raised_stop_completed[OF l assms(2,3,5)])
  then have "completed (nd_gw n2) tid" "stops_sent sent n2 tid = 0"
    using fallible_ports.steps_settle[OF l assms(8)] assms(7) unfolding fallible_ports.settles_def[OF l] by simp_all
  then show ?thesis using fallible_ports.completed_stop_accepted[OF l] by blast
qed

theorem lost_stop_never_published_witness:
  "stops_sent (nats_sent (\<lambda>q. q))
     (snd (node_stop_transaction (nats_ports failing_stream memory_sink) 9 5 900 7 None sample_node)) 5 = 0
   \<and> completed (nd_gw (snd (node_stop_transaction (nats_ports failing_stream memory_sink) 9 5 900 7 None sample_node))) 5"
proof -
  let ?P = "nats_ports failing_stream memory_sink"
  let ?n1 = "snd (node_stop_transaction ?P 9 5 900 7 None sample_node)"
  note d = nats_delivers[OF sample_streams(3), of memory_sink]
  have r: "dict_get (tr_records (gw_txns (nd_gw sample_node))) 5 = Some \<lparr>tx_status = ''active'', tx_tenant = Some 1,
      tx_charger = ''CP'', tx_meter_start = Some 100, tx_start = Some 3, tx_meter_stop = None, tx_stop = None, tx_reason = None\<rparr>"
    by (simp add: sample_node_def sample_started_simps(2))
  have f: "node_flush ?P sample_node = (Inr (), sample_node)"
    by (simp add: node_flush_def sample_node_def sample_started_log)
  have z: "stops_sent (nats_sent (\<lambda>q. q)) sample_node 5 = 0" by (simp add: stops_sent_def sample_node_def nats_sent_def)
  have bus: "nats_sent (\<lambda>q. q) (nd_bus (snd (node_publish ?P e x k))) = nats_sent (\<lambda>q. q) (nd_bus k)" for e x k
    by (simp add: node_publish_def nats_ports_def nats_bus_publish_def failing_stream_def nats_sent_def split: option.split)
  have z1: "stops_sent (nats_sent (\<lambda>q. q)) ?n1 5 = 0"
    using z bus by (simp add: node_stop_transaction_def f stops_sent_def case_prod_beta Let_def with_gw_def
        split: sum.split txn_error.split)
  show ?thesis using lost_stop_never_published[OF d r _ z _ refl z1 rtranclp.rtrancl_refl] f by simp
qed

text \<open>
  C25: Over a sink that stores a prefix of each batch, the meter path never duplicates,
  reorders or invents a reading; as long as no call raises it loses none; and a call that
  raises leaves the buffer empty, so what the sink did not take is gone.
\<close>

theorem readings_lost_only_on_raise:
  assumes "writes_prefix P written"
  shows "subseq (node_rows written (snd (run_ops (node_meter P) ops n))) (node_rows written n @ added ops)
    \<and> (set (fst (run_ops (node_meter P) ops n)) \<subseteq> {Inr ()}
        \<longrightarrow> node_rows written (snd (run_ops (node_meter P) ops n)) = node_rows written n @ added ops)
    \<and> (fst (run_ops (node_meter P) ops n) \<noteq> [] \<and> last (fst (run_ops (node_meter P) ops n)) \<noteq> Inr ()
        \<longrightarrow> mb_buffer (gw_meter (nd_gw (snd (run_ops (node_meter P) ops n)))) = [])"
  by (rule node_meter_run[OF assms])

definition failing_sink :: "meter_reading list list write_op" where
  "failing_sink rows bs = (outcome False, bs)"

theorem readings_lost_only_on_raise_witness:
  "mb_buffer (gw_meter (nd_gw (snd (run_ops (node_meter (nats_ports storing_stream failing_sink))
      [Add (Fin 0) (Fin 0) (sample_reading 4), Flush] sample_node)))) = []"
proof -
  let ?P = "nats_ports storing_stream failing_sink"
  have "writes_prefix ?P concat"
    by (auto simp: writes_prefix_def nats_ports_def failing_sink_def outcome_def intro: exI[of _ 0])
  note r = readings_lost_only_on_raise[OF this, of "[Add (Fin 0) (Fin 0) (sample_reading 4), Flush]" sample_node]
  have b: "mb_max (gw_meter sample_started) = 50" "mb_interval (gw_meter sample_started) = Fin 2"
    unfolding sample_started_def start_authorized[OF sample_started_simps(1)] by (simp_all add: sample_gateway_def)
  have "fst (run_ops (node_meter ?P) [Add (Fin 0) (Fin 0) (sample_reading 4), Flush] sample_node)
      = [Inr (), Inl (RuntimeError [])]"
    by (simp add: node_add_def sample_node_def sample_started_log b should_flush_def with_gw_def node_flush_def
        nats_ports_def failing_sink_def outcome_def fsub_def fle_def Let_def)
  then show ?thesis using r by simp
qed

end
