(* ===== verification/Charge_Retries.thy ===== *)
theory Charge_Retries
  imports
    Session_Billing
begin

text \<open>
  Retrying the charge of a session (\<open>billing/session_billing.py\<close> over the Stripe adapter of
  \<open>billing/payment_provider.py\<close>). Every charge of a session carries the key
  \<open>session:<id>\<close>. Stripe saves the first result of a key, refusals and server errors included, and
  answers every later request of that key with it; under that behaviour the first saved answer
  decides the session for good.
\<close>

subsection \<open>What Stripe does with an idempotency key\<close>

text \<open>
  The saved result of a key with the request it belongs to. A request whose key has one is answered
  with it, or, when its parameters differ, with a 400 error; one whose key has none is executed and
  saved, or turned away before it executes. Any request may be lost on the way, there or back.
\<close>

type_synonym saved_result = "psp_request \<times> int \<times> json option"

definition refusal :: "provider_error + json \<Rightarrow> bool" where
  "refusal r = (case r of Inl (PaymentProviderError m) \<Rightarrow> True | _ \<Rightarrow> False)"

definition stripe_idempotency ::
  "(psp_request \<Rightarrow> 'h \<Rightarrow> http_outcome \<times> 'h) \<Rightarrow> ('h \<Rightarrow> string \<Rightarrow> saved_result option) \<Rightarrow> bool" where
  "stripe_idempotency post saved \<longleftrightarrow> (\<forall>rq h.
     case saved h (rq_key rq) of
       Some (rq0, st, body) \<Rightarrow> saved (snd (post rq h)) = saved h
         \<and> (fst (post rq h) = HttpFailure
            \<or> (if rq = rq0 then fst (post rq h) = HttpResponse st body
               else \<exists>b. fst (post rq h) = HttpResponse 400 b \<and> refusal (stripe_answer 400 b)))
     | None \<Rightarrow>
         (\<exists>st body. saved (snd (post rq h)) = (saved h)(rq_key rq \<mapsto> (rq, st, body)) \<and> fst (post rq h) \<in> {HttpFailure, HttpResponse st body})
         \<or> saved (snd (post rq h)) = saved h
           \<and> (fst (post rq h) = HttpFailure \<or> (\<exists>st body. fst (post rq h) = HttpResponse st body \<and> st \<in> {400, 401, 409, 429})))"

text \<open>A saved result the adapter turns into an error: a server error, a decline, an unexpected status.\<close>

definition refusing :: "saved_result \<Rightarrow> bool" where
  "refusing r = (case r of (rq, st, body) \<Rightarrow> st \<ge> 500 \<or> refusal (stripe_answer st body))"

lemma post_saved:
  assumes "stripe_idempotency post saved" "saved h (rq_key rq) = Some (rq0, st, body)"
  shows "saved (snd (post rq h)) = saved h"
    "fst (post rq h) = HttpFailure \<or> (if rq = rq0 then fst (post rq h) = HttpResponse st body
       else \<exists>b. fst (post rq h) = HttpResponse 400 b \<and> refusal (stripe_answer 400 b))"
  using spec[OF spec[OF assms(1)[unfolded stripe_idempotency_def], of rq], of h] assms(2) by simp_all

lemma attempts_refused:
  assumes "stripe_idempotency post saved" "saved h (rq_key rq) = Some r" "refusing r"
    and "stripe_attempts post rq k left h = (res, sleeps, h')"
  shows "(case res of None \<Rightarrow> True | Some a \<Rightarrow> refusal a) \<and> saved h' = saved h"
  using assms(2,4)
proof (induction left arbitrary: k h res sleeps h')
  case 0
  then show ?case by simp
next
  case (Suc left)
  obtain rq0 st body where r: "r = (rq0, st, body)" by (cases r)
  obtain out h1 where p: "post rq h = (out, h1)" by fastforce
  note s = post_saved[OF assms(1) Suc.prems(1)[unfolded r], unfolded p fst_conv snd_conv]
  have s1: "saved h1 (rq_key rq) = Some r" using s(1) Suc.prems(1) by simp
  show ?case
  proof (cases "retryable out")
    case True
    obtain res2 sl2 h2 where rec: "stripe_attempts post rq (Suc k) left h1 = (res2, sl2, h2)" by (metis prod.collapse)
    then show ?thesis using Suc.IH[OF s1 rec] Suc.prems(2) s(1) True p by (auto simp: case_prod_beta)
  next
    case False
    then have o: "out \<noteq> HttpFailure" by (auto simp: retryable_def)
    then consider "rq = rq0" "out = HttpResponse st body" | b where "out = HttpResponse 400 b" "refusal (stripe_answer 400 b)"
      using s(2) by (auto split: if_splits)
    then show ?thesis
    proof cases
      case 1
      then have "refusal (stripe_answer st body)" using False assms(3) by (auto simp: retryable_def refusing_def r)
      then show ?thesis using 1 False Suc.prems(2) s(1) p by auto
    next
      case 2
      then show ?thesis using False Suc.prems(2) s(1) p by auto
    qed
  qed
qed

lemma charge_refused:
  assumes "stripe_idempotency post saved" "saved h key = Some r" "refusing r"
  shows "\<exists>m h'. stripe_charge post cfg tok amount cur key h = (Inl (PaymentProviderError m), h') \<and> saved h' = saved h"
proof -
  let ?rq = "stripe_request cfg tok amount cur key"
  obtain res sl h' where a: "stripe_attempts post ?rq 0 (nat (sc_max_attempts cfg)) h = (res, sl, h')" by (metis prod.collapse)
  have k: "rq_key ?rq = key" by (simp add: stripe_request_def)
  have "(case res of None \<Rightarrow> True | Some x \<Rightarrow> refusal x) \<and> saved h' = saved h"
    using attempts_refused[OF assms(1) _ assms(3) a] assms(2) k by simp
  then show ?thesis using a
    by (auto simp: stripe_charge_def refusal_def split: option.splits sum.splits provider_error.splits)
qed

subsection \<open>A refused session\<close>

definition retries :: "string \<Rightarrow> int \<Rightarrow> datetime list \<Rightarrow> (string \<times> int \<times> datetime) list" where
  "retries session amount ts = map (\<lambda>t. (session, amount, t)) ts"

lemma refused_run:
  assumes "stripe_idempotency post saved" "refusing r"
    and "pays_by_card s w tok" "failures_inv s" "saved (sb_provider s) (''session:'' @ session) = Some r"
    and "s' = charge_run (stripe_charge post cfg) N w d cur (retries session amount ts) s"
  shows "saved (sb_provider s') = saved (sb_provider s) \<and> failures_of s' d = failures_of s d + int (length ts)
    \<and> (ts \<noteq> [] \<longrightarrow> get_status s' session = Some PAYMENT_FAILED)
    \<and> (d \<in> sb_suspended s' \<longleftrightarrow> d \<in> sb_suspended s \<or> ts \<noteq> [] \<and> N \<le> failures_of s d + int (length ts))"
  using assms(3-6)
proof (induction ts arbitrary: s)
  case Nil
  then show ?case by (simp add: retries_def)
next
  case (Cons t ts)
  let ?c = "stripe_charge post cfg"
  let ?t = "snd (charge_session ?c N t session w d amount cur s)"
  obtain m p where c: "?c tok amount cur (''session:'' @ session) (sb_provider s) = (Inl (PaymentProviderError m), p)"
    "saved p = saved (sb_provider s)"
    using charge_refused[where post = post and saved = saved and cfg = cfg and tok = tok and amount = amount and cur = cur,
        OF assms(1) Cons.prems(3) assms(2)] by blast
  note st = declined_step_at[where charge = ?c and tok = tok and session = session and N = N and now = t and d = d, OF Cons.prems(1,2) c(1) refl]
  have s': "s' = charge_run ?c N w d cur (retries session amount ts) ?t" using Cons.prems(4) by (simp add: retries_def)
  have sv: "saved (sb_provider ?t) = saved (sb_provider s)" using c(2) st(7) by simp
  then have sk: "saved (sb_provider ?t) (''session:'' @ session) = Some r" using Cons.prems(3) by simp
  note ih = Cons.IH[OF st(1,2) sk s']
  have "get_status s' session = Some PAYMENT_FAILED" using ih st(5) s' by (cases "ts = []") (simp_all add: retries_def)
  moreover have "d \<in> sb_suspended ?t \<longleftrightarrow> d \<in> sb_suspended s \<or> N \<le> failures_of s d + 1" using st(4) by auto
  ultimately show ?case using ih sv st(3) by auto
qed

text \<open>A saved acceptance: the adapter gets it back, or loses every answer; nothing new is executed.\<close>

lemma attempts_accepted:
  assumes "stripe_idempotency post saved" "saved h (rq_key rq) = Some (rq, st, body)" "st < 500" "stripe_answer st body = Inr ref"
    and "stripe_attempts post rq k left h = (res, sleeps, h')"
  shows "(res = None \<or> res = Some (Inr ref)) \<and> saved h' = saved h"
  using assms(2,5)
proof (induction left arbitrary: k h res sleeps h')
  case 0
  then show ?case by simp
next
  case (Suc left)
  obtain out h1 where p: "post rq h = (out, h1)" by fastforce
  note s = post_saved[OF assms(1) Suc.prems(1), unfolded p fst_conv snd_conv]
  have s1: "saved h1 (rq_key rq) = Some (rq, st, body)" using s(1) Suc.prems(1) by simp
  show ?case
  proof (cases "out = HttpFailure")
    case True
    obtain res2 sl2 h2 where rec: "stripe_attempts post rq (Suc k) left h1 = (res2, sl2, h2)" by (metis prod.collapse)
    then show ?thesis using Suc.IH[OF s1 rec] Suc.prems(2) s(1) True p by (auto simp: case_prod_beta retryable_def)
  next
    case False
    then have "out = HttpResponse st body" using s(2) by simp
    then show ?thesis using Suc.prems(2) s(1) p assms(3,4) by (auto simp: retryable_def)
  qed
qed

lemma charge_accepted:
  assumes "stripe_idempotency post saved" "saved h key = Some (stripe_request cfg tok amount cur key, st, body)"
    and "st < 500" "stripe_answer st body = Inr ref"
  shows "(fst (stripe_charge post cfg tok amount cur key h) = Inr ref
      \<or> refusal (fst (stripe_charge post cfg tok amount cur key h)))
    \<and> saved (snd (stripe_charge post cfg tok amount cur key h)) = saved h"
proof -
  let ?rq = "stripe_request cfg tok amount cur key"
  obtain res sl h' where a: "stripe_attempts post ?rq 0 (nat (sc_max_attempts cfg)) h = (res, sl, h')" by (metis prod.collapse)
  have k: "rq_key ?rq = key" by (simp add: stripe_request_def)
  have "(res = None \<or> res = Some (Inr ref)) \<and> saved h' = saved h"
    using attempts_accepted[OF assms(1) _ assms(3,4) a] assms(2) k by simp
  then show ?thesis using a by (auto simp: stripe_charge_def refusal_def)
qed

subsection \<open>Properties\<close>


text \<open>A Stripe in memory: one saved result for each key, the first execution of which answers as told.\<close>

record stripe_server =
  sv_saved :: "(string, saved_result) pydict"
  sv_first :: "psp_request \<Rightarrow> int \<times> json option"

definition error_body :: "string \<Rightarrow> json option" where
  "error_body m = Some (JObj [(''error'', JObj [(''message'', JStr m)])])"

definition stripe_server_post :: "psp_request \<Rightarrow> stripe_server \<Rightarrow> http_outcome \<times> stripe_server" where
  "stripe_server_post rq h =
     (case dict_get (sv_saved h) (rq_key rq) of
        Some (rq0, st, body) \<Rightarrow> (if rq = rq0 then HttpResponse st body
            else HttpResponse 400 (error_body ''Keys for idempotent requests can only be used with the same parameters''), h)
      | None \<Rightarrow> (let (st, body) = sv_first h rq
                in (HttpResponse st body, h\<lparr>sv_saved := dict_set (rq_key rq) (rq, st, body) (sv_saved h)\<rparr>)))"

lemma error_body_refused: "refusal (stripe_answer 400 (error_body m))"
  by (simp add: refusal_def stripe_answer_def error_body_def jget_def jtrue_def)

lemma stripe_server_idempotent: "stripe_idempotency stripe_server_post (\<lambda>h k. dict_get (sv_saved h) k)"
proof -
  have "dict_get (dict_set k v d) = (dict_get d)(k \<mapsto> v)" for k and v :: saved_result and d by (rule ext) simp
  then show ?thesis
    unfolding stripe_idempotency_def
    by (auto simp: stripe_server_post_def error_body_refused case_prod_beta split: option.split)
qed

definition declining_stripe :: "stripe_server session_billing" where
  "declining_stripe = \<lparr>sb_methods = [(1, \<lparr>py_id = 9, py_wallet = 1, py_type = DIRECT_CARD, py_token = Some ''pm_new'', py_default = True\<rparr>)],
     sb_ledger = [], sb_provider = \<lparr>sv_saved = [(''session:a'', (stripe_request \<lparr>sc_api_key = ''k'', sc_base_url = ''u'', sc_max_attempts = 3\<rparr>
        ''pm_old'' 10 ''AED'' ''session:a'', 402, error_body ''Your card was declined.''))], sv_first = (\<lambda>rq. (200, None))\<rparr>,
     sb_status = [], sb_failures = [], sb_suspended = {}, sb_retries = []\<rparr>"



definition accepting_stripe :: "stripe_server session_billing" where
  "accepting_stripe = declining_stripe\<lparr>sb_provider := \<lparr>sv_saved = [(''session:a'', (stripe_request
     \<lparr>sc_api_key = ''k'', sc_base_url = ''u'', sc_max_attempts = 3\<rparr> ''pm_new'' 10 ''AED'' ''session:a'', 200,
     Some (JObj [(''status'', JStr ''succeeded''), (''id'', JStr ''pi_1'')])))], sv_first = (\<lambda>rq. (200, None))\<rparr>\<rparr>"


end
