(* ===== verification/Entry_Points.thy ===== *)
theory Entry_Points
  imports
    Routes
begin

text \<open>
  The three applications as they are assembled (\<open>main.py\<close>, \<open>edge_app.py\<close>, \<open>gateway_app.py\<close>) and
  instrumented (\<open>core/observability.py\<close>): the middlewares in the order they run, the routes, and one
  HTTP request through both, with what the metrics record. The CORS middleware, the router and the
  endpoints are parameters; logging set-up and the health probes close the observability module.
\<close>

subsection \<open>Assembling an application\<close>

datatype middleware = Metrics | Cors "string list" | GatewaySignature | TenantContext

text \<open>The middlewares with the outermost first: \<open>add_middleware\<close> puts a new one around the others.\<close>

record application =
  ap_middlewares :: "middleware list"
  ap_routes :: "route list"
  ap_handlers :: "string list"

definition fastapi :: application where
  "fastapi = \<lparr>ap_middlewares = [], ap_routes = docs_routes, ap_handlers = []\<rparr>"

definition add_middleware :: "middleware \<Rightarrow> application \<Rightarrow> application" where
  "add_middleware w a = a\<lparr>ap_middlewares := w # ap_middlewares a\<rparr>"

definition include_router :: "route list \<Rightarrow> application \<Rightarrow> application" where
  "include_router rs a = a\<lparr>ap_routes := ap_routes a @ rs\<rparr>"

definition register_ocpi_exception_handlers :: "application \<Rightarrow> application" where
  "register_ocpi_exception_handlers a = a\<lparr>ap_handlers := ap_handlers a @ [''OcpiError'']\<rparr>"

definition instrument_app :: "application \<Rightarrow> application" where
  "instrument_app a = include_router healthz_routes (include_router metrics_routes (add_middleware Metrics a))"

definition main_app :: "settings \<Rightarrow> application" where
  "main_app st =
     (let a = fold include_router [tariff_routes, wallet_routes, payment_method_routes, stripe_webhook_routes, carbon_routes,
                cost_report_routes, session_start_routes, session_routes, rewards_routes, presence_routes, command_routes] fastapi;
          b = add_middleware (Cors (cors_allowed_origins_list st)) (add_middleware GatewaySignature (add_middleware TenantContext a))
      in instrument_app b)"

definition edge_base :: "settings \<Rightarrow> application" where
  "edge_base st = add_middleware (Cors (cors_allowed_origins_list st)) (register_ocpi_exception_handlers fastapi)"

definition edge_app :: "settings \<Rightarrow> application" where
  "edge_app st =
     (let b = fold include_router [driver_auth_routes, map_routes, vehicle_routes, reservation_routes, route_planner_routes,
                usage_insights_routes, session_start_forwarder_routes, wallet_forwarder_routes, rewards_forwarder_routes,
                ocpi_routes, admin_routes, ocpp_ws_routes] (edge_base st)
      in instrument_app b)"

definition gateway_app :: "settings \<Rightarrow> application" where
  "gateway_app st =
     (let a = include_router gateway_app_routes fastapi;
          b = (if st_app_mode st = Testing then include_router (dev_forwarder_routes dev_prefixes) a else a)
      in include_router metrics_routes (add_middleware Metrics b))"

lemma assembled:
  "ap_middlewares (main_app st) = [Metrics, Cors (cors_allowed_origins_list st), GatewaySignature, TenantContext]"
  "ap_middlewares (edge_app st) = [Metrics, Cors (cors_allowed_origins_list st)]"
  "ap_middlewares (gateway_app st) = [Metrics]"
  "ap_routes (main_app st) = main_routes" "ap_routes (edge_app st) = edge_routes" "ap_routes (gateway_app st) = gateway_routes st"
  by (simp_all add: main_app_def edge_app_def edge_base_def gateway_app_def instrument_app_def add_middleware_def include_router_def
      register_ocpi_exception_handlers_def fastapi_def main_routes_def edge_routes_def gateway_routes_def Let_def)

subsection \<open>One request through the middlewares\<close>

record http_request =
  hq_method :: string
  hq_path :: string
  hq_headers :: headers
  hq_elapsed :: pyfloat

text \<open>
  What surrounds the application: the keyed hash and the gateway's secret, \<open>request.headers.get\<close>, the
  CORS middleware (\<open>Some status\<close> when it answers the request itself, a preflight), the framework's
  matching and routing, and what an endpoint sends, or raises.
\<close>

record surroundings =
  en_hmac :: "string \<Rightarrow> string \<Rightarrow> string"
  en_secret :: string
  en_hget :: "headers \<Rightarrow> string \<Rightarrow> string option"
  en_cors :: "string list \<Rightarrow> http_request \<Rightarrow> int option"
  en_matches :: "string \<Rightarrow> string \<Rightarrow> bool"
  en_router :: "route list \<Rightarrow> string \<Rightarrow> string \<Rightarrow> dispatched"
  en_endpoint :: "string \<Rightarrow> uuid option \<Rightarrow> http_request \<Rightarrow> py_error + int list"

fun template :: "route \<Rightarrow> string" where
  "template (Http ms t e) = t"
| "template (Ws t e) = t"

text \<open>The route the framework leaves in \<open>scope["route"]\<close>: the one that matches, or else the one whose path does.\<close>

definition scope_route :: "surroundings \<Rightarrow> route list \<Rightarrow> http_request \<Rightarrow> string option" where
  "scope_route E rs q =
     (case find (full_match (en_matches E) (hq_method q) (hq_path q)) rs of
        Some r \<Rightarrow> Some (template r)
      | None \<Rightarrow> map_option template (find (path_match (en_matches E) (hq_path q)) rs))"

type_synonym reply = "string option \<times> (py_error + int list)"

definition routed :: "surroundings \<Rightarrow> route list \<Rightarrow> uuid option \<Rightarrow> http_request \<Rightarrow> reply" where
  "routed E rs context q =
     (scope_route E rs q,
      case en_router E rs (hq_method q) (hq_path q) of
        Handled e \<Rightarrow> en_endpoint E e context q
      | MethodNotAllowed \<Rightarrow> Inr [405]
      | RedirectTo u \<Rightarrow> Inr [307]
      | NotFound \<Rightarrow> Inr [404])"

fun serve_through :: "surroundings \<Rightarrow> middleware list \<Rightarrow> route list \<Rightarrow> uuid option \<Rightarrow> http_request \<Rightarrow> metrics \<Rightarrow> reply \<times> metrics" where
  "serve_through E [] rs context q m = (routed E rs context q, m)"
| "serve_through E (Metrics # ws) rs context q m =
     (let ((r, out), m1) = serve_through E ws rs context q m;
          (out', m2) = metrics_middleware \<lparr>ob_http = True, ob_method = hq_method q, ob_path = hq_path q, ob_route = r,
             ob_outcome = out, ob_elapsed = hq_elapsed q\<rparr> m1
      in ((r, out'), m2))"
| "serve_through E (Cors origins # ws) rs context q m =
     (case en_cors E origins q of Some n \<Rightarrow> ((None, Inr [n]), m) | None \<Rightarrow> serve_through E ws rs context q m)"
| "serve_through E (GatewaySignature # ws) rs context q m =
     (case gateway_signature_middleware (en_hmac E) (en_secret E) (\<lambda>_ _. Forward context) (hq_path q) (hq_headers q) of
        Problem n _ \<Rightarrow> ((None, Inr [n]), m) | Escapes e \<Rightarrow> ((None, Inl e), m) | Forward c \<Rightarrow> serve_through E ws rs c q m)"
| "serve_through E (TenantContext # ws) rs context q m =
     (case tenant_context_middleware (en_hget E) Forward (hq_path q) (hq_headers q) of
        Problem n _ \<Rightarrow> ((None, Inr [n]), m) | Escapes e \<Rightarrow> ((None, Inl e), m) | Forward c \<Rightarrow> serve_through E ws rs c q m)"

definition serve_app :: "surroundings \<Rightarrow> application \<Rightarrow> http_request \<Rightarrow> metrics \<Rightarrow> reply \<times> metrics" where
  "serve_app E a = serve_through E (ap_middlewares a) (ap_routes a) None"

text \<open>Requests one after the other.\<close>

fun serve_all :: "surroundings \<Rightarrow> application \<Rightarrow> http_request list \<Rightarrow> metrics \<Rightarrow> reply list \<times> metrics" where
  "serve_all E a [] m = ([], m)"
| "serve_all E a (q # qs) m = (let (r, m1) = serve_app E a q m; (rs, m2) = serve_all E a qs m1 in (r # rs, m2))"

text \<open>The two middlewares of the internal application in a row are its \<open>internal_request\<close>.\<close>

definition main_reply :: "surroundings \<Rightarrow> settings \<Rightarrow> http_request \<Rightarrow> reply" where
  "main_reply E st q =
     (case en_cors E (cors_allowed_origins_list st) q of
        Some n \<Rightarrow> (None, Inr [n])
      | None \<Rightarrow> (case internal_request (en_hmac E) (en_secret E) (en_hget E) (hq_path q) (hq_headers q) of
          Problem n _ \<Rightarrow> (None, Inr [n]) | Escapes e \<Rightarrow> (None, Inl e) | Forward c \<Rightarrow> routed E main_routes c q))"

definition observe :: "http_request \<Rightarrow> reply \<Rightarrow> observed" where
  "observe q r = \<lparr>ob_http = True, ob_method = hq_method q, ob_path = hq_path q, ob_route = fst r, ob_outcome = snd r, ob_elapsed = hq_elapsed q\<rparr>"

lemma metrics_reply: "fst (metrics_middleware (observe q r) m) = snd r"
  by (simp add: metrics_middleware_def observe_def Let_def split: sum.split)

lemma serve_main:
  "serve_app E (main_app st) q m = (main_reply E st q, snd (metrics_middleware (observe q (main_reply E st q)) m))"
proof -
  let ?ws = "[Cors (cors_allowed_origins_list st), GatewaySignature, TenantContext]"
  have i: "serve_through E ?ws main_routes None q m = (main_reply E st q, m)"
    by (simp add: main_reply_def internal_request_def gateway_signature_middleware_def tenant_context_middleware_def
        split: option.split sum.split bool.split verdict.split)
  have "serve_app E (main_app st) q m = serve_through E (Metrics # ?ws) main_routes None q m"
    by (simp only: serve_app_def assembled)
  also have "\<dots> = (main_reply E st q, snd (metrics_middleware (observe q (main_reply E st q)) m))"
    unfolding serve_through.simps(2) i by (simp add: observe_def[symmetric] case_prod_beta metrics_reply Let_def)
  finally show ?thesis .
qed

subsection \<open>Logging and health\<close>

text \<open>The root logger: what its handlers are matters only as far as the JSON one is the only one.\<close>

datatype log_handler = OtherHandler nat | StreamHandler "(datetime \<Rightarrow> string) \<Rightarrow> (json \<Rightarrow> string) \<Rightarrow> log_record \<Rightarrow> string"

record root_logger =
  rl_handlers :: "log_handler list"
  rl_level :: int

definition configure_logging :: "int \<Rightarrow> root_logger \<Rightarrow> root_logger" where
  "configure_logging level rl = rl\<lparr>rl_handlers := [StreamHandler format_record], rl_level := level\<rparr>"

text \<open>What the root logger writes for a record: one line for each handler of its own.\<close>

definition json_lines :: "(datetime \<Rightarrow> string) \<Rightarrow> (json \<Rightarrow> string) \<Rightarrow> log_record \<Rightarrow> root_logger \<Rightarrow> string list" where
  "json_lines isofmt json_dumps rec rl =
     concat (map (\<lambda>h. case h of StreamHandler f \<Rightarrow> [f isofmt json_dumps rec] | OtherHandler n \<Rightarrow> []) (rl_handlers rl))"

lemma configured_logging:
  "configure_logging l (configure_logging l' rl) = configure_logging l rl"
  "json_lines isofmt json_dumps rec (configure_logging l rl) = [format_record isofmt json_dumps rec]"
  by (simp_all add: configure_logging_def json_lines_def)

text \<open>
  The probes. The engine is created before the \<open>try\<close> and disposed of in its \<open>finally\<close>, so those two
  calls can still raise; the query, the ping, and the connection to NATS with its close cannot.
\<close>

definition check_postgres :: "py_error + unit \<Rightarrow> string + unit \<Rightarrow> py_error + unit \<Rightarrow> py_error + bool \<times> string option" where
  "check_postgres create query dispose =
     (case create of Inl e \<Rightarrow> Inl e
      | Inr _ \<Rightarrow> (case dispose of Inl e \<Rightarrow> Inl e | Inr _ \<Rightarrow> Inr (probe query)))"

definition check_redis :: "string + unit \<Rightarrow> bool \<times> string option" where
  "check_redis ping = probe ping"

definition check_nats :: "string + unit \<Rightarrow> string + unit \<Rightarrow> bool \<times> string option" where
  "check_nats connect close = probe (case connect of Inl e \<Rightarrow> Inl e | Inr _ \<Rightarrow> close)"

definition route_healthz ::
  "settings \<Rightarrow> py_error + unit \<Rightarrow> string + unit \<Rightarrow> py_error + unit \<Rightarrow> string + unit \<Rightarrow> string + unit \<Rightarrow> string + unit
    \<Rightarrow> py_error + int \<times> json" where
  "route_healthz st create query dispose ping connect close =
     rbind (check_postgres create query dispose) (\<lambda>p. Inr (healthz st p (check_redis ping) (check_nats connect close)))"

text \<open>The gateway's own health route.\<close>

definition gateway_healthz :: json where
  "gateway_healthz = JObj [(''status'', JStr ''ok'')]"

text \<open>
  Once the engine can be created and disposed of, the health route answers: 200 exactly when the
  query, the ping and both NATS calls succeed, and 503 otherwise.
\<close>

lemma healthz_answers:
  "route_healthz st (Inr ()) query (Inr ()) ping connect close = Inr (n, body)
    \<Longrightarrow> n = (if \<not> isl query \<and> \<not> isl ping \<and> \<not> isl connect \<and> \<not> isl close then 200 else 503)"
  by (auto simp: route_healthz_def check_postgres_def check_redis_def check_nats_def healthz_def probe_def Let_def
      split: sum.splits if_splits)

subsection \<open>What a stranger can make the metrics store\<close>

text \<open>A request with no tenant header to a path that needs one, which is not a preflight.\<close>

definition anonymous :: "surroundings \<Rightarrow> settings \<Rightarrow> http_request \<Rightarrow> bool" where
  "anonymous E st q \<longleftrightarrow> hq_path q \<notin> exempt_paths \<and> header_dict (hq_headers q) ''x-tenant-id'' = None
     \<and> falsy (en_hget E (hq_headers q) ''x-tenant-id'') \<and> en_cors E (cors_allowed_origins_list st) q = None"

definition let_through :: "surroundings \<Rightarrow> settings \<Rightarrow> http_request \<Rightarrow> bool" where
  "let_through E st q \<longleftrightarrow> en_cors E (cors_allowed_origins_list st) q = None
     \<and> (\<exists>c. internal_request (en_hmac E) (en_secret E) (en_hget E) (hq_path q) (hq_headers q) = Forward c)
     \<and> (\<exists>r \<in> set main_routes. path_match (en_matches E) (hq_path q) r)"

lemma anonymous_reply: "anonymous E st q \<Longrightarrow> main_reply E st q = (None, Inr [401])"
  by (simp add: anonymous_def main_reply_def internal_request_def gateway_signature_middleware_def tenant_context_middleware_def)

lemma anonymous_counted:
  assumes "anonymous E st q" "\<And>k. k \<in> set (dict_keys (mt_requests m)) \<Longrightarrow> fst (snd k) \<noteq> hq_path q"
  shows "mt_requests (snd (serve_app E (main_app st) q m)) = mt_requests m @ [((hq_method q, hq_path q, 401), 1)]"
proof -
  let ?k = "(hq_method q, hq_path q, 401)"
  have f: "?k \<notin> set (dict_keys (mt_requests m))"
  proof
    assume "?k \<in> set (dict_keys (mt_requests m))"
    from assms(2)[OF this] show False by simp
  qed
  then have "dict_get (mt_requests m) ?k = None" by (simp only: map_of_eq_None_iff list.set_map not_False_eq_True)
  then have g: "dict_get_default (mt_requests m) ?k 0 + 1 = (1::nat)" by (simp add: dict_get_default_def)
  have "mt_requests (snd (metrics_middleware (observe q (None, Inr [401])) m))
      = dict_set ?k (dict_get_default (mt_requests m) ?k 0 + 1) (mt_requests m)"
    by (simp add: metrics_middleware_def observe_def ob_label_def ob_status_def Let_def)
  then show ?thesis by (simp only: serve_main anonymous_reply[OF assms(1)] snd_conv g dict_set_append[OF f])
qed

lemma anonymous_run:
  assumes "list_all (anonymous E st) qs" "distinct (map hq_path qs)"
    and "\<And>k. k \<in> set (dict_keys (mt_requests m)) \<Longrightarrow> fst (snd k) \<notin> set (map hq_path qs)"
  shows "map snd (fst (serve_all E (main_app st) qs m)) = replicate (length qs) (Inr [401])
    \<and> length (mt_requests (snd (serve_all E (main_app st) qs m))) = length (mt_requests m) + length qs"
  using assms
proof (induction qs arbitrary: m)
  case (Cons q qs)
  have a: "anonymous E st q" using Cons.prems(1) by simp
  obtain m1 where s: "serve_app E (main_app st) q m = ((None, Inr [401]), m1)"
    unfolding serve_main anonymous_reply[OF a] by blast
  have u: "fst (snd k) \<noteq> hq_path q" if "k \<in> set (dict_keys (mt_requests m))" for k
    using Cons.prems(3)[OF that] unfolding list.map list.set by blast
  have m1: "mt_requests m1 = mt_requests m @ [((hq_method q, hq_path q, 401), 1)]"
    using anonymous_counted[OF a, of m, unfolded s snd_conv, OF u] .
  have k: "fst (snd k) \<notin> set (map hq_path qs)" if "k \<in> set (dict_keys (mt_requests m1))" for k
  proof (cases "k \<in> set (dict_keys (mt_requests m))")
    case True
    from Cons.prems(3)[OF this] show ?thesis unfolding list.map list.set by blast
  next
    case False
    then have "k = (hq_method q, hq_path q, 401)" using that unfolding m1 by simp
    then show ?thesis using Cons.prems(2) by simp
  qed
  have ih: "map snd (fst (serve_all E (main_app st) qs m1)) = replicate (length qs) (Inr [401])
      \<and> length (mt_requests (snd (serve_all E (main_app st) qs m1))) = length (mt_requests m1) + length qs"
    by (rule Cons.IH[OF _ _ k]) (use Cons.prems(1,2) in simp_all)
  show ?case using ih by (simp add: s m1 case_prod_beta)
qed simp

lemma scope_route_template:
  assumes "\<exists>r \<in> set rs. path_match (en_matches E) (hq_path q) r"
  shows "\<exists>t \<in> template ` set rs. scope_route E rs q = Some t"
proof (cases "find (full_match (en_matches E) (hq_method q) (hq_path q)) rs")
  case (Some r)
  then have "r \<in> set rs" by (auto simp: find_Some_iff)
  then show ?thesis using Some by (simp add: scope_route_def)
next
  case None
  obtain r where r: "find (path_match (en_matches E) (hq_path q)) rs = Some r"
    using assms by (cases "find (path_match (en_matches E) (hq_path q)) rs") (auto simp: find_None_iff)
  then have "r \<in> set rs" by (auto simp: find_Some_iff)
  then show ?thesis using None r by (simp add: scope_route_def)
qed

subsection \<open>Properties\<close>

text \<open>
  C32: The request counter of the internal application labels a request by its route's template
  only once the middlewares have let it through to a route: such requests fall into the finitely
  many templates of the application. Requests that carry no tenant are answered 401 and counted
  under their raw paths, so as many distinct paths as a stranger asks for become as many series.
\<close>

theorem anonymous_requests_grow_metrics:
  assumes "list_all (anonymous E st) qs" "distinct (map hq_path qs)" "mt_requests m = []"
  shows "map snd (fst (serve_all E (main_app st) qs m)) = replicate (length qs) (Inr [401])
    \<and> length (mt_requests (snd (serve_all E (main_app st) qs m))) = length qs
    \<and> (let_through E st q \<longrightarrow> ob_label (observe q (fst (serve_app E (main_app st) q m))) \<in> template ` set main_routes)"
proof (intro conjI impI)
  have r: "map snd (fst (serve_all E (main_app st) qs m)) = replicate (length qs) (Inr [401])
      \<and> length (mt_requests (snd (serve_all E (main_app st) qs m))) = length (mt_requests m) + length qs"
    by (rule anonymous_run[OF assms(1,2)]) (simp add: assms(3))
  show "map snd (fst (serve_all E (main_app st) qs m)) = replicate (length qs) (Inr [401])"
    "length (mt_requests (snd (serve_all E (main_app st) qs m))) = length qs" using r by (simp_all add: assms(3))
next
  assume l: "let_through E st q"
  obtain c where "main_reply E st q = routed E main_routes c q" using l by (auto simp: let_through_def main_reply_def)
  moreover obtain t where "scope_route E main_routes q = Some t" "t \<in> template ` set main_routes"
    using scope_route_template l unfolding let_through_def by blast
  ultimately show "ob_label (observe q (fst (serve_app E (main_app st) q m))) \<in> template ` set main_routes"
    by (simp add: serve_main observe_def ob_label_def routed_def)
qed

definition sample_surroundings :: surroundings where
  "sample_surroundings = \<lparr>en_hmac = sample_hmac, en_secret = ''s'', en_hget = starlette_get, en_cors = (\<lambda>os q. None),
     en_matches = template_matches, en_router = first_match_router, en_endpoint = (\<lambda>e c q. Inr [200])\<rparr>"

definition sample_get :: "string \<Rightarrow> http_request" where
  "sample_get path = \<lparr>hq_method = ''GET'', hq_path = path, hq_headers = [], hq_elapsed = Fin 0\<rparr>"

theorem anonymous_requests_grow_metrics_witness:
  "length (mt_requests (snd (serve_all sample_surroundings (main_app default_settings)
     [sample_get ''/wallet/1/balance'', sample_get ''/wallet/2/balance''] \<lparr>mt_requests = [], mt_latency = []\<rparr>))) = 2"
proof -
  have "list_all (anonymous sample_surroundings default_settings) [sample_get ''/wallet/1/balance'', sample_get ''/wallet/2/balance'']"
    by (simp add: anonymous_def sample_surroundings_def sample_get_def exempt_paths_def header_dict_def starlette_get_def falsy_def)
  moreover have "distinct (map hq_path [sample_get ''/wallet/1/balance'', sample_get ''/wallet/2/balance''])"
    by (simp add: sample_get_def)
  ultimately show ?thesis
    using anonymous_requests_grow_metrics[of sample_surroundings default_settings
        "[sample_get ''/wallet/1/balance'', sample_get ''/wallet/2/balance'']" "\<lparr>mt_requests = [], mt_latency = []\<rparr>"]
    by simp
qed

end
