(* ===== verification/Edge_Process.thy ===== *)
theory Edge_Process
  imports
    Deployment
begin

text \<open>
  The edge process as a whole: the stores \<open>composition.py\<close> hands to the routers of \<open>edge_app.py\<close>,
  which of them are shared between services, and every operation those routers and the gateway offer,
  on one state. The theorem collects what no operation of the process can ever fill when the stores are
  in memory.
\<close>

subsection \<open>The services the edge routers are mounted against\<close>

record 't edge_state =
  es_partners :: partner_registry
  es_reconciliation :: reconciliation_runs
  es_price_lists :: "partner_price_list list"
  es_locations :: location_repo
  es_tariffs :: tariff_service
  es_map :: session_charger_map
  es_profiles :: "(string, charging_profile) pydict"
  es_capacity :: capacity_provider
  es_preferences :: "(string, charging_preferences) pydict"
  es_commands :: "'t command_service"
  es_owner :: "(string, uuid) pydict"
  es_reservations :: "(string, reservation) pydict"
  es_accounts :: account_store
  es_refresh :: refresh_store
  es_vehicles :: vehicle_store
  es_history :: "completed_session list"
  es_gateway :: gateway

text \<open>\<open>RemoteCommandService(\<dots>)\<close> with its default timeout.\<close>

definition initial_commands :: "wiring \<Rightarrow> presence \<Rightarrow> 't \<Rightarrow> 't command_service" where
  "initial_commands w presence transport =
     \<lparr>sv_presence = presence, sv_log = wi_command_log w, sv_transport = transport, sv_firmware = wi_firmware w, sv_timeout = Fin 30\<rparr>"

definition memory_tariffs :: "wiring \<Rightarrow> tariff_service" where
  "memory_tariffs w = \<lparr>ts_store = (case wi_tariffs w of Inl _ \<Rightarrow> [] | Inr st \<Rightarrow> st), ts_currency = wi_currencies w\<rparr>"

definition initial_edge :: "wiring \<Rightarrow> presence \<Rightarrow> 't \<Rightarrow> gateway \<Rightarrow> 't edge_state" where
  "initial_edge w presence transport g =
     \<lparr>es_partners = wi_partners w, es_reconciliation = wi_reconciliation w, es_price_lists = wi_price_lists w,
      es_locations = wi_locations w, es_tariffs = memory_tariffs w, es_map = wi_sessions w, es_profiles = wi_profiles w,
      es_capacity = wi_capacities w, es_preferences = wi_preferences w, es_commands = initial_commands w presence transport,
      es_owner = [], es_reservations = [], es_accounts = wi_accounts w, es_refresh = wi_refresh_tokens w,
      es_vehicles = wi_vehicles w, es_history = wi_history w, es_gateway = g\<rparr>"

text \<open>The services the routers of the main process are mounted against; an adapter is its kind.\<close>

record 't main_services =
  mn_tariffs :: "(sb_config + tariff_store) \<times> currency_provider"
  mn_wallet :: "(sb_config + ledger) \<times> payment_kind"
  mn_methods :: payment_method_store
  mn_carbon :: "zone_map \<times> carbon_kind \<times> int"
  mn_costs :: rollup_store
  mn_sessions :: "'t session_service"
  mn_macs :: mac_store
  mn_pnc :: "string list \<times> (string, uuid) pydict \<times> ocsp_kind"
  mn_presence :: presence
  mn_commands :: "'t command_service"
  mn_log :: command_log
  mn_rewards :: rewards_store

definition initial_main :: "wiring \<Rightarrow> presence \<Rightarrow> 't \<Rightarrow> txn_repo \<Rightarrow> 't main_services" where
  "initial_main w presence transport txns =
     (let cs = initial_commands w presence transport in
      \<lparr>mn_tariffs = (wi_tariffs w, wi_currencies w), mn_wallet = (wi_ledger w, wi_payment w), mn_methods = wi_methods w,
       mn_carbon = (wi_zones w, wi_carbon w, wi_carbon_ttl w), mn_costs = wi_rollups w, mn_sessions = initial_sessions w cs txns,
       mn_macs = wi_macs w, mn_pnc = (wi_trusted_cas w, wi_emaids w, wi_ocsp w), mn_presence = presence, mn_commands = cs,
       mn_log = sv_log cs, mn_rewards = wi_rewards w\<rparr>)"

text \<open>The stores two services of the main process share start out equal.\<close>

lemma initial_main_shares:
  "ss_methods (mn_sessions (initial_main w p tr txns)) = mn_methods (initial_main w p tr txns)"
  "ss_rewards (mn_sessions (initial_main w p tr txns)) = mn_rewards (initial_main w p tr txns)"
  "ss_commands (mn_sessions (initial_main w p tr txns)) = mn_commands (initial_main w p tr txns)"
  "sv_log (mn_commands (initial_main w p tr txns)) = mn_log (initial_main w p tr txns)"
  by (simp_all add: initial_main_def initial_sessions_def Let_def)

text \<open>
  The services over the shared stores: the charging-profile, command and reservation services read and
  write the same session map and the same command service, and the command service reads the
  transactions of the gateway.
\<close>

definition profile_service_of :: "'t edge_state \<Rightarrow> 't profile_service" where
  "profile_service_of s = \<lparr>fp_map = es_map s, fp_active = es_profiles s, fp_commands = es_commands s, fp_capacity = es_capacity s\<rparr>"

definition with_profiles :: "'r \<times> 't profile_service \<Rightarrow> 't edge_state \<Rightarrow> 'r \<times> 't edge_state" where
  "with_profiles r s = (fst r, s\<lparr>es_profiles := fp_active (snd r), es_commands := fp_commands (snd r)\<rparr>)"

definition ocpi_service_of :: "'t edge_state \<Rightarrow> 't ocpi_command_service" where
  "ocpi_service_of s = \<lparr>os_map = es_map s, os_txns = gw_txns (es_gateway s), os_commands = es_commands s\<rparr>"

definition with_ocpi :: "'r \<times> 't ocpi_command_service \<Rightarrow> 't edge_state \<Rightarrow> 'r \<times> 't edge_state" where
  "with_ocpi r s = (fst r, s\<lparr>es_map := os_map (snd r), es_commands := os_commands (snd r)\<rparr>)"

definition reservation_service_of :: "'t edge_state \<Rightarrow> 't reservation_service" where
  "reservation_service_of s = \<lparr>rs_ocpi = ocpi_service_of s, rs_owner = es_owner s, rs_reservations = es_reservations s\<rparr>"

definition with_reservations :: "'r \<times> 't reservation_service \<Rightarrow> 't edge_state \<Rightarrow> 'r \<times> 't edge_state" where
  "with_reservations r s =
     (fst r, snd (with_ocpi (fst r, rs_ocpi (snd r)) s)\<lparr>es_owner := rs_owner (snd r), es_reservations := rs_reservations (snd r)\<rparr>)"

text \<open>A step of the gateway; the firmware store and the presence registry are the command service's too.\<close>

definition with_gateway :: "gateway \<Rightarrow> 't edge_state \<Rightarrow> 't edge_state" where
  "with_gateway g s = s\<lparr>es_gateway := g, es_commands := (es_commands s)\<lparr>sv_presence := gw_presence g,
     sv_firmware := (case gw_firmware g of None \<Rightarrow> sv_firmware (es_commands s) | Some fs \<Rightarrow> fs)\<rparr>\<rparr>"

definition with_accounts :: "'r \<times> account_store \<times> refresh_store \<Rightarrow> 't edge_state \<Rightarrow> 't edge_state" where
  "with_accounts r s = s\<lparr>es_accounts := fst (snd r), es_refresh := snd (snd r)\<rparr>"

subsection \<open>What the process can do\<close>

text \<open>One request to a router of the edge application that changes a store, or one step of the gateway.\<close>

inductive edge_step :: "'t transport \<Rightarrow> 't edge_state \<Rightarrow> 't edge_state \<Rightarrow> bool" for send where
  create_partner: "edge_step send s (s\<lparr>es_partners := snd (route_create_partner isofmt i token tenant party country (es_partners s))\<rparr>)"
| rotate_token: "edge_step send s (s\<lparr>es_partners := snd (route_rotate_token token i (es_partners s))\<rparr>)"
| credentials: "edge_step send s (s\<lparr>es_partners := snd (route_credentials isofmt t1 t2 token version auth (es_partners s))\<rparr>)"
| price_list: "edge_step send s (s\<lparr>es_price_lists := snd (route_attach_price_list isofmt partner connector tariff from (es_price_lists s))\<rparr>)"
| bind_session: "edge_step send s (s\<lparr>es_map := snd (route_bind_session sid charger tenant connector (es_map s))\<rparr>)"
| put_profile: "edge_step send s (snd (with_profiles
      (put_charging_profile send d sid rate_unit periods duration min_rate start (profile_service_of s)) s))"
| start_session: "edge_step send s (snd (with_ocpi (route_start_session send d new_id tenant location token connector (ocpi_service_of s)) s))"
| stop_session: "edge_step send s (snd (with_ocpi (route_stop_session send d tenant sid (ocpi_service_of s)) s))"
| reserve_now: "edge_step send s (snd (with_ocpi (route_reserve_now send isofmt d tenant location token expires rid connector (ocpi_service_of s)) s))"
| unlock: "edge_step send s (snd (with_ocpi (route_unlock_connector send d tenant location connector (ocpi_service_of s)) s))"
| cancel_ocpi: "edge_step send s (snd (with_ocpi (route_cancel_reservation_ocpi send d tenant location rid (ocpi_service_of s)) s))"
| preferences: "edge_step send s (s\<lparr>es_preferences :=
      snd (route_set_charging_preferences (es_map s) sid ty departure energy discharge (es_preferences s))\<rparr>)"
| signup: "edge_step send s (with_accounts (route_signup kdf cfg gd salt new_id email name password (es_accounts s, es_refresh s)) s)"
| login: "edge_step send s (with_accounts (route_login kdf cfg gd email password (es_accounts s, es_refresh s)) s)"
| refresh: "edge_step send s (with_accounts (route_refresh cfg gd token (es_accounts s, es_refresh s)) s)"
| create_vehicle: "edge_step send s (s\<lparr>es_vehicles := snd (route_create_vehicle i driver mk model connector capacity (es_vehicles s))\<rparr>)"
| plug_and_charge: "edge_step send s (s\<lparr>es_vehicles := snd (route_set_plug_and_charge driver i enabled (es_vehicles s))\<rparr>)"
| delete_vehicle: "edge_step send s (s\<lparr>es_vehicles := snd (route_delete_vehicle driver i (es_vehicles s))\<rparr>)"
| create_reservation: "edge_step send s (snd (with_reservations
      (route_create_reservation send isofmt d new_id charger connector expires driver tenant (reservation_service_of s)) s))"
| cancel_reservation: "edge_step send s (snd (with_reservations
      (route_cancel_reservation send d rid driver tenant (reservation_service_of s)) s))"
| gateway: "gateway_step (es_gateway s) g \<Longrightarrow> edge_step send s (with_gateway g s)"

text \<open>What no operation of the process writes.\<close>

definition never_written :: "'t edge_state \<Rightarrow> location_repo \<times> tariff_service \<times> capacity_provider \<times> completed_session list \<times> reconciliation_runs" where
  "never_written s = (es_locations s, es_tariffs s, es_capacity s, es_history s, es_reconciliation s)"

lemma edge_step_never_writes: "edge_step send s s' \<Longrightarrow> never_written s' = never_written s"
  by (induction rule: edge_step.induct)
    (simp_all add: never_written_def with_profiles_def with_ocpi_def with_reservations_def with_gateway_def with_accounts_def)

lemma edge_steps_never_write: "(edge_step send)\<^sup>*\<^sup>* s s' \<Longrightarrow> never_written s' = never_written s"
  by (induction rule: rtranclp_induct) (simp_all add: edge_step_never_writes)

lemma initial_edge_empty:
  assumes "build_services kdf salt node st = Inr w" "st_persistence_backend st = MemoryBackend"
  shows "never_written (initial_edge w presence transport g) = ([], \<lparr>ts_store = [], ts_currency = wi_currencies w\<rparr>, [], [], [])"
  using assms by (auto simp: never_written_def initial_edge_def memory_tariffs_def build_services_def rbind_Inr supabase_or_def)

subsection \<open>Properties\<close>

text \<open>
  C18: With in-memory stores, in every state the edge process can reach by its routes and its
  gateway, partners are shown no tariff and drivers no charger and no usage, reconciliation has
  no run to report, and no charging profile is ever refused for exceeding a connector's capacity:
  each of these stores is filled by code that runs in the other process or nowhere.
\<close>

theorem edge_process_serves_nothing_stored:
  assumes "build_services kdf salt node st = Inr w" "st_persistence_backend st = MemoryBackend"
    and "(edge_step send)\<^sup>*\<^sup>* (initial_edge w presence transport g) s"
  shows "catalog_list_all nows party country (es_tariffs s) = Inr []
    \<and> catalog_get now party country tariff_id (es_tariffs s) = Inr None
    \<and> location_list_all (es_locations s) = []
    \<and> get_daily_usage fsum (es_history s) (es_locations s) driver from until = []
    \<and> query_runs (es_reconciliation s) t1 t2 = []
    \<and> send_set_charging_profile send i u1 u2 c tenant k watts (fp_capacity (profile_service_of s)) payload cs
        = send_command send i u1 u2 c tenant ''SetChargingProfile'' payload None cs"
proof -
  have n: "never_written s = ([], \<lparr>ts_store = [], ts_currency = wi_currencies w\<rparr>, [], [], [])"
    using edge_steps_never_write[OF assms(3)] initial_edge_empty[OF assms(1,2)] by simp
  then have e: "es_locations s = []" "es_tariffs s = \<lparr>ts_store = [], ts_currency = wi_currencies w\<rparr>" "es_capacity s = []"
    "es_history s = []" "es_reconciliation s = []" by (simp_all add: never_written_def)
  show ?thesis
    by (simp add: e catalog_list_all_def catalog_get_def list_all_tariffs_def get_tariff_def tariff_store_list_all_def tariff_store_get_def location_list_all_def get_daily_usage_def
        history_list_for_driver_def group_by_day_def query_runs_def profile_service_of_def send_set_charging_profile_def
        get_max_power_watts_def split: option.split)
qed

theorem edge_process_serves_nothing_stored_witness:
  "\<exists>w. build_services (\<lambda>s t. s) [] 1 default_settings = Inr w
    \<and> catalog_list_all (\<lambda>i. 0) ''ABC'' ''AE'' (es_tariffs (snd (with_ocpi (route_start_session fake_send (4, 1, 2) 5 7 ''CP'' ''tok'' 1
          (ocpi_service_of (initial_edge w [] (sv_transport sample_service) Ocpp_Gateway.sample_gateway)))
        (initial_edge w [] (sv_transport sample_service) Ocpp_Gateway.sample_gateway)))) = Inr []"
proof -
  have m: "st_app_mode default_settings = Testing" "st_persistence_backend default_settings = MemoryBackend" by (simp_all add: default_settings_def)
  then obtain w where w: "build_services (\<lambda>s t. s) [] 1 default_settings = Inr w" by (simp add: build_services_def)
  let ?s = "initial_edge w [] (sv_transport sample_service) Ocpp_Gateway.sample_gateway"
  have "(edge_step fake_send)\<^sup>*\<^sup>* ?s (snd (with_ocpi (route_start_session fake_send (4, 1, 2) 5 7 ''CP'' ''tok'' 1 (ocpi_service_of ?s)) ?s))"
    by (rule r_into_rtranclp) (rule edge_step.start_session)
  from conjunct1[OF edge_process_serves_nothing_stored[OF w m(2) this]] w show ?thesis by blast
qed

end
