(* ===== verification/Request_Models.thy ===== *)
theory Request_Models
  imports
    Routes
begin

text \<open>
  The bodies the three applications accept: the pydantic class of every route with a body, as data, the
  table of the routes that declare one, and the validation a \<open>BaseModel\<close> documents: a body is an object,
  a required field must be there, a missing optional one takes its default, an unknown one is dropped.
  How a single value is converted to its declared type is a parameter.
\<close>

subsection \<open>Declarations and validation\<close>

datatype scalar = SStr | SInt | SFloat | SBool | SUuid | SDatetime | SDict

text \<open>
  A declared type; \<open>Checked\<close> is a string with a \<open>field_validator\<close> of the source. A field has its name,
  its type and its default, if it has one.
\<close>

datatype body_type =
  Of scalar
| Optional body_type
| ListOf body_type
| Checked "string \<Rightarrow> bool" body_type
| Model "body_field list"
and body_field = Field string body_type "json option"

fun field_name :: "body_field \<Rightarrow> string" where
  "field_name (Field n t d) = n"

abbreviation required :: "string \<Rightarrow> scalar \<Rightarrow> body_field" where
  "required n s \<equiv> Field n (Of s) None"

abbreviation optional :: "string \<Rightarrow> scalar \<Rightarrow> body_field" where
  "optional n s \<equiv> Field n (Optional (Of s)) (Some JNull)"

text \<open>What the route receives, or \<open>None\<close> for the framework's 422. A default is not validated.\<close>

fun validated :: "(scalar \<Rightarrow> json \<Rightarrow> json option) \<Rightarrow> body_type \<Rightarrow> json \<Rightarrow> json option"
  and validated_fields :: "(scalar \<Rightarrow> json \<Rightarrow> json option) \<Rightarrow> body_field list \<Rightarrow> (string \<times> json) list \<Rightarrow> (string \<times> json) list option" where
  "validated conv (Of s) j = conv s j"
| "validated conv (Optional t) j = (if j = JNull then Some JNull else validated conv t j)"
| "validated conv (ListOf t) j = (case j of JList xs \<Rightarrow> map_option JList (those (map (validated conv t) xs)) | _ \<Rightarrow> None)"
| "validated conv (Checked ok t) j =
     (case validated conv t j of Some (JStr v) \<Rightarrow> if ok v then Some (JStr v) else None | _ \<Rightarrow> None)"
| "validated conv (Model fs) j = (case j of JObj kvs \<Rightarrow> map_option JObj (validated_fields conv fs kvs) | _ \<Rightarrow> None)"
| "validated_fields conv [] kvs = Some []"
| "validated_fields conv (Field n t d # fs) kvs =
     (case (case jfield kvs n of None \<Rightarrow> d | Some j \<Rightarrow> validated conv t j) of
        None \<Rightarrow> None
      | Some v \<Rightarrow> map_option ((#) (n, v)) (validated_fields conv fs kvs))"

subsection \<open>The bodies of the internal application\<close>

text \<open>\<open>billing/tariff_router.py\<close>, \<open>billing/wallet_router.py\<close>, \<open>billing/payment_method_router.py\<close>\<close>

definition TariffComponentBody :: body_type where
  "TariffComponentBody = Model [required ''type'' SStr, required ''price_minor_units'' SInt, Field ''step_size'' (Of SInt) (Some (JInt 1)),
     optional ''applies_after_minutes'' SInt]"

definition CreateTariffBody :: body_type where
  "CreateTariffBody = Model [required ''tenant_id'' SUuid, required ''name'' SStr, Field ''components'' (ListOf TariffComponentBody) None]"

definition UpdateTariffBody :: body_type where
  "UpdateTariffBody = Model [required ''name'' SStr, Field ''components'' (ListOf TariffComponentBody) None]"

definition TopupRequest :: body_type where
  "TopupRequest = Model [required ''wallet_id'' SUuid, required ''psp_token'' SStr, required ''amount_minor_units'' SInt, required ''currency'' SStr]"

definition TopupWebhookPayload :: body_type where
  "TopupWebhookPayload = Model [required ''wallet_id'' SUuid, required ''psp_transaction_id'' SStr, required ''amount_minor_units'' SInt]"

definition SetPaymentMethodRequest :: body_type where
  "SetPaymentMethodRequest = Model [Field ''type'' (Checked validate_method_type (Of SStr)) None, optional ''psp_token'' SStr]"

text \<open>\<open>charging_auth/session_start_router.py\<close>\<close>

definition QrStartRequest :: body_type where
  "QrStartRequest = Model [required ''token'' SStr, required ''driver_id'' SStr, required ''secret'' SStr]"

definition AutochargeStartRequest :: body_type where
  "AutochargeStartRequest = Model [required ''mac_address'' SStr, required ''charger_id'' SStr]"

definition PlugAndChargeStartRequest :: body_type where
  "PlugAndChargeStartRequest = Model [required ''cert_pem'' SStr, required ''charger_id'' SStr]"

definition AppStartRequest :: body_type where
  "AppStartRequest = Model [required ''charger_id'' SStr, required ''connector_id'' SInt, required ''driver_id'' SStr]"

definition StopSessionRequest :: body_type where
  "StopSessionRequest = Model [required ''driver_id'' SStr]"

text \<open>\<open>driver_app/rewards_router.py\<close>, \<open>ocpp_gateway/command_router.py\<close>\<close>

definition RedeemRequest :: body_type where
  "RedeemRequest = Model [required ''driver_id'' SStr, required ''reward_id'' SStr]"

definition SendCommandRequest :: body_type where
  "SendCommandRequest = Model [required ''tenant_id'' SUuid, required ''command_type'' SStr, Field ''payload'' (Of SDict) (Some (JObj [])),
     optional ''timeout_seconds'' SFloat]"

text \<open>The endpoint and the class of its \<open>body\<close> parameter.\<close>

definition main_bodies :: "(string \<times> body_type) list" where
  "main_bodies =
     [(''create_tariff'', CreateTariffBody), (''update_tariff'', UpdateTariffBody), (''topup'', TopupRequest),
      (''topup_webhook'', TopupWebhookPayload), (''set_payment_method'', SetPaymentMethodRequest), (''start_via_qr'', QrStartRequest),
      (''start_via_autocharge'', AutochargeStartRequest), (''start_via_plug_and_charge'', PlugAndChargeStartRequest),
      (''start_via_app'', AppStartRequest), (''stop_session'', StopSessionRequest), (''redeem'', RedeemRequest),
      (''send_command'', SendCommandRequest)]"

subsection \<open>The bodies of the edge application and of the gateway\<close>

text \<open>\<open>identity/driver_auth_router.py\<close>\<close>

definition SignupRequest :: body_type where
  "SignupRequest = Model [Field ''email'' (Checked check_email (Of SStr)) None, required ''full_name'' SStr, required ''password'' SStr]"

definition LoginRequest :: body_type where
  "LoginRequest = Model [Field ''email'' (Checked check_email (Of SStr)) None, required ''password'' SStr]"

definition RefreshRequest :: body_type where
  "RefreshRequest = Model [required ''refresh_token'' SStr]"

text \<open>\<open>driver_app/*_router.py\<close>\<close>

definition CreateVehicleRequest :: body_type where
  "CreateVehicleRequest = Model [required ''make'' SStr, required ''model'' SStr, required ''connector_type'' SStr, required ''battery_capacity_kwh'' SFloat]"

definition SetPlugAndChargeRequest :: body_type where
  "SetPlugAndChargeRequest = Model [required ''enabled'' SBool]"

definition CreateReservationRequest :: body_type where
  "CreateReservationRequest = Model [required ''charger_id'' SStr, Field ''connector_id'' (Of SInt) (Some (JInt 1)), required ''expires_at'' SDatetime]"

definition LatLng :: body_type where
  "LatLng = Model [required ''lat'' SFloat, required ''lng'' SFloat]"

definition RoutePlanRequest :: body_type where
  "RoutePlanRequest = Model [required ''vehicle_id'' SUuid, Field ''origin'' LatLng None, Field ''destination'' LatLng None]"

text \<open>\<open>ocpi/router.py\<close>: its \<open>StopSessionRequest\<close> is not the one of the drivers.\<close>

definition StartSessionRequest :: body_type where
  "StartSessionRequest = Model [required ''tenant_id'' SUuid, required ''location_id'' SStr, required ''token_uid'' SStr,
     Field ''connector_id'' (Of SInt) (Some (JInt 1)), optional ''response_url'' SStr]"

definition OcpiStopSessionRequest :: body_type where
  "OcpiStopSessionRequest = Model [required ''tenant_id'' SUuid, required ''session_id'' SStr, optional ''response_url'' SStr]"

definition ReserveNowRequest :: body_type where
  "ReserveNowRequest = Model [required ''tenant_id'' SUuid, required ''location_id'' SStr, required ''token_uid'' SStr,
     required ''expiry_date'' SDatetime, required ''reservation_id'' SStr, Field ''connector_id'' (Of SInt) (Some (JInt 1)),
     optional ''response_url'' SStr]"

definition UnlockConnectorRequest :: body_type where
  "UnlockConnectorRequest = Model [required ''tenant_id'' SUuid, required ''location_id'' SStr,
     Field ''connector_id'' (Of SInt) (Some (JInt 1)), optional ''response_url'' SStr]"

definition CancelReservationRequest :: body_type where
  "CancelReservationRequest = Model [required ''tenant_id'' SUuid, required ''location_id'' SStr, required ''reservation_id'' SStr,
     optional ''response_url'' SStr]"

definition ChargingPreferencesRequest :: body_type where
  "ChargingPreferencesRequest = Model [required ''profile_type'' SStr, optional ''departure_time'' SDatetime, optional ''energy_need_kwh'' SFloat,
     optional ''discharge_allowed'' SBool]"

definition ChargingProfilePeriodPayload :: body_type where
  "ChargingProfilePeriodPayload = Model [required ''start_period'' SInt, required ''limit'' SFloat]"

definition ChargingProfilePayload :: body_type where
  "ChargingProfilePayload = Model [required ''charging_rate_unit'' SStr, Field ''charging_profile_period'' (ListOf ChargingProfilePeriodPayload) None,
     optional ''start_date_time'' SDatetime, optional ''min_charging_rate'' SFloat]"

definition SetChargingProfileRequest :: body_type where
  "SetChargingProfileRequest = Model [Field ''charging_profile'' ChargingProfilePayload None, optional ''duration'' SInt, optional ''response_url'' SStr]"

text \<open>\<open>ocpi/admin_router.py\<close>\<close>

definition SessionBindingRequest :: body_type where
  "SessionBindingRequest = Model [required ''charger_id'' SStr, required ''tenant_id'' SUuid, required ''connector_id'' SInt]"

definition CreatePartnerRequest :: body_type where
  "CreatePartnerRequest = Model [required ''tenant_id'' SUuid, required ''party_id'' SStr, required ''country_code'' SStr]"

definition AttachPriceListRequest :: body_type where
  "AttachPriceListRequest = Model [required ''connector_type'' SStr, required ''tariff_id'' SUuid, required ''effective_from'' SDatetime]"

text \<open>\<open>_register_commands\<close> and \<open>_register_charging_preferences\<close> declare the same bodies for both versions.\<close>

definition command_bodies :: "string \<Rightarrow> (string \<times> body_type) list" where
  "command_bodies version =
     [(''start_session_'' @ version, StartSessionRequest), (''stop_session_'' @ version, OcpiStopSessionRequest),
      (''reserve_now_'' @ version, ReserveNowRequest), (''unlock_connector_'' @ version, UnlockConnectorRequest),
      (''cancel_reservation_'' @ version, CancelReservationRequest), (''set_charging_prefs_'' @ version, ChargingPreferencesRequest)]"

definition edge_bodies :: "(string \<times> body_type) list" where
  "edge_bodies =
     [(''signup'', SignupRequest), (''login'', LoginRequest), (''refresh'', RefreshRequest), (''create_vehicle'', CreateVehicleRequest),
      (''set_plug_and_charge'', SetPlugAndChargeRequest), (''create_reservation'', CreateReservationRequest), (''plan_route'', RoutePlanRequest),
      (''put_charging_profile_v221'', SetChargingProfileRequest), (''put_charging_profile_v230'', SetChargingProfileRequest)]
      @ command_bodies ''2.2.1'' @ command_bodies ''2.3.0''
      @ [(''bind_session_to_charger'', SessionBindingRequest), (''create_partner'', CreatePartnerRequest),
         (''attach_price_list'', AttachPriceListRequest)]"

text \<open>\<open>gateway/app.py\<close>\<close>

definition AuthorizeRequest :: body_type where
  "AuthorizeRequest = Model [required ''subject'' SStr, required ''tenant_id'' SUuid, required ''code_challenge'' SStr]"

definition TokenRequest :: body_type where
  "TokenRequest = Model [required ''grant_type'' SStr, optional ''code'' SStr, optional ''code_verifier'' SStr, optional ''refresh_token'' SStr]"

definition SSOCallbackRequest :: body_type where
  "SSOCallbackRequest = Model [required ''tenant_id'' SUuid, required ''credential'' SStr]"

definition gateway_bodies :: "(string \<times> body_type) list" where
  "gateway_bodies = [(''authorize'', AuthorizeRequest), (''token'', TokenRequest), (''sso_callback'', SSOCallbackRequest)]"

definition request_models :: "body_type list" where
  "request_models = map snd (main_bodies @ edge_bodies @ gateway_bodies)"

named_theorems model_defs \<open>the declarations of the request models\<close>

declare TariffComponentBody_def [model_defs] CreateTariffBody_def [model_defs] UpdateTariffBody_def [model_defs] TopupRequest_def [model_defs]
  TopupWebhookPayload_def [model_defs] SetPaymentMethodRequest_def [model_defs] QrStartRequest_def [model_defs]
  AutochargeStartRequest_def [model_defs] PlugAndChargeStartRequest_def [model_defs] AppStartRequest_def [model_defs]
  StopSessionRequest_def [model_defs] RedeemRequest_def [model_defs] SendCommandRequest_def [model_defs] SignupRequest_def [model_defs]
  LoginRequest_def [model_defs] RefreshRequest_def [model_defs] CreateVehicleRequest_def [model_defs] SetPlugAndChargeRequest_def [model_defs]
  CreateReservationRequest_def [model_defs] LatLng_def [model_defs] RoutePlanRequest_def [model_defs] StartSessionRequest_def [model_defs]
  OcpiStopSessionRequest_def [model_defs] ReserveNowRequest_def [model_defs] UnlockConnectorRequest_def [model_defs]
  CancelReservationRequest_def [model_defs] ChargingPreferencesRequest_def [model_defs] ChargingProfilePeriodPayload_def [model_defs]
  ChargingProfilePayload_def [model_defs] SetChargingProfileRequest_def [model_defs] SessionBindingRequest_def [model_defs]
  CreatePartnerRequest_def [model_defs] AttachPriceListRequest_def [model_defs] AuthorizeRequest_def [model_defs] TokenRequest_def [model_defs]
  SSOCallbackRequest_def [model_defs]

text \<open>Every endpoint of the tables is one of its application's routes.\<close>

lemma bodies_are_routed:
  "list_all (\<lambda>b. fst b \<in> set (map endpoint main_routes)) main_bodies"
  "list_all (\<lambda>b. fst b \<in> set (map endpoint edge_routes)) edge_bodies"
  "list_all (\<lambda>b. fst b \<in> set (map endpoint (gateway_routes default_settings))) gateway_bodies"
  by code_simp+

subsection \<open>What a validated body looks like\<close>

text \<open>Names are distinct, and every default is a value of its field's type: it validates to itself.\<close>

fun well_declared :: "(scalar \<Rightarrow> json \<Rightarrow> json option) \<Rightarrow> body_type \<Rightarrow> bool"
  and fields_declared :: "(scalar \<Rightarrow> json \<Rightarrow> json option) \<Rightarrow> body_field list \<Rightarrow> bool" where
  "well_declared conv (Of s) = True"
| "well_declared conv (Optional t) = well_declared conv t"
| "well_declared conv (ListOf t) = well_declared conv t"
| "well_declared conv (Checked ok t) = well_declared conv t"
| "well_declared conv (Model fs) = fields_declared conv fs"
| "fields_declared conv [] = True"
| "fields_declared conv (Field n t d # fs) =
     (n \<notin> set (map field_name fs) \<and> well_declared conv t \<and> (case d of None \<Rightarrow> True | Some v \<Rightarrow> validated conv t v = Some v)
      \<and> fields_declared conv fs)"

text \<open>Converting a converted value changes nothing.\<close>

definition stable :: "(scalar \<Rightarrow> json \<Rightarrow> json option) \<Rightarrow> bool" where
  "stable conv \<longleftrightarrow> (\<forall>s j j'. conv s j = Some j' \<longrightarrow> conv s j' = Some j')"

lemma those_Some: "those xs = Some ys \<longleftrightarrow> xs = map Some ys"
  by (induction xs arbitrary: ys) (auto split: option.splits)

lemma map_Some_all2: "map f xs = map Some ys \<longleftrightarrow> list_all2 (\<lambda>x y. f x = Some y) xs ys"
  by (induction xs arbitrary: ys) (auto simp: list_all2_Cons1 Cons_eq_map_conv)

text \<open>Each field on its own: its declared name, and the value of it or its default.\<close>

fun field_value :: "(scalar \<Rightarrow> json \<Rightarrow> json option) \<Rightarrow> (string \<times> json) list \<Rightarrow> body_field \<Rightarrow> json option" where
  "field_value conv kvs (Field n t d) = (case jfield kvs n of None \<Rightarrow> d | Some j \<Rightarrow> validated conv t j)"

lemma validated_fields_iff:
  "validated_fields conv fs kvs = Some out \<longleftrightarrow> list_all2 (\<lambda>f nv. fst nv = field_name f \<and> field_value conv kvs f = Some (snd nv)) fs out"
proof (induction fs arbitrary: out)
  case (Cons f fs)
  obtain n t d where "f = Field n t d" by (cases f)
  then show ?case using Cons by (cases out) (auto split: option.splits)
qed auto

lemma validated_field_names: "validated_fields conv fs kvs = Some out \<Longrightarrow> map fst out = map field_name fs"
  unfolding validated_fields_iff by (induction rule: list_all2_induct) simp_all

lemma fields_declared_iff:
  "fields_declared conv fs \<longleftrightarrow> distinct (map field_name fs)
     \<and> list_all (\<lambda>f. case f of Field n t d \<Rightarrow> well_declared conv t \<and> (case d of None \<Rightarrow> True | Some v \<Rightarrow> validated conv t v = Some v)) fs"
proof (induction fs)
  case (Cons f fs)
  then show ?case by (cases f) auto
qed simp

lemma jfield_distinct: "distinct (map fst kvs) \<Longrightarrow> (n, v) \<in> set kvs \<Longrightarrow> jfield kvs n = Some v"
  by (simp add: jfield_def map_of_eq_Some_iff rev_map[symmetric])

lemma validated_stable:
  assumes "stable conv"
  shows "well_declared conv t \<Longrightarrow> validated conv t j = Some j' \<Longrightarrow> validated conv t j' = Some j'"
proof (induction t arbitrary: j j' rule: body_type.induct[where ?P2.0 = "\<lambda>f. case f of Field n t d \<Rightarrow>
    well_declared conv t \<longrightarrow> (\<forall>j j'. validated conv t j = Some j' \<longrightarrow> validated conv t j' = Some j')"])
  case (Of s)
  then show ?case using assms by (auto simp: stable_def)
next
  case (Optional t)
  then show ?case by (auto split: if_splits)
next
  case (ListOf t)
  obtain xs ys where x: "j = JList xs" "j' = JList ys" "list_all2 (\<lambda>a b. validated conv t a = Some b) xs ys"
    using ListOf.prems(2) by (auto simp: those_Some map_Some_all2 split: json.splits)
  have "list_all2 (\<lambda>a b. validated conv t a = Some b) ys ys"
    using x(3) ListOf.IH ListOf.prems(1) by (auto simp: list_all2_conv_all_nth)
  then have "map (validated conv t) ys = map Some ys" by (simp only: map_Some_all2)
  then show ?case by (simp add: x(2) those_Some)
next
  case (Checked ok t)
  then show ?case by (auto split: option.splits json.splits if_splits)
next
  case (Model fs)
  obtain kvs out where o: "j = JObj kvs" "j' = JObj out" "validated_fields conv fs kvs = Some out"
    using Model.prems(2) by (auto split: json.splits)
  note n = validated_field_names[OF o(3)]
  have d: "distinct (map fst out)" using Model.prems(1) by (simp add: n fields_declared_iff)
  have "field_value conv out (fs ! i) = Some (snd (out ! i))" if i: "i < length fs" for i
  proof -
    obtain m t df where f: "fs ! i = Field m t df" by (cases "fs ! i")
    have l: "length out = length fs" using n by (metis length_map)
    have v: "fst (out ! i) = m" "field_value conv kvs (Field m t df) = Some (snd (out ! i))"
      using o(3) i f unfolding validated_fields_iff by (auto simp: list_all2_conv_all_nth)
    have "(m, snd (out ! i)) \<in> set out" using i l v(1) by (metis nth_mem prod.collapse)
    from jfield_distinct[OF d this] have jf: "jfield out m = Some (snd (out ! i))" .
    have m: "Field m t df \<in> set fs" using i f by (metis nth_mem)
    have w: "well_declared conv t" "df = Some x \<Longrightarrow> validated conv t x = Some x" for x
      using Model.prems(1) m by (force simp: fields_declared_iff list_all_iff)+
    have "\<forall>j j'. validated conv t j = Some j' \<longrightarrow> validated conv t j' = Some j'" using Model(1)[OF m] w(1) by simp
    then have "validated conv t (snd (out ! i)) = Some (snd (out ! i))" using v(2) w(2) by (auto split: option.splits)
    then show ?thesis by (simp add: f jf)
  qed
  moreover have "length out = length fs" "\<And>i. i < length fs \<Longrightarrow> fst (out ! i) = field_name (fs ! i)"
    using n by (metis length_map, metis length_map nth_map)
  ultimately have "validated_fields conv fs out = Some out"
    unfolding validated_fields_iff by (auto simp: list_all2_conv_all_nth)
  then show ?case by (simp add: o(2))
next
  case (Field n t d)
  then show ?case by auto
qed

text \<open>Each of the repository's models is well declared, if the values of its defaults are values of their types.\<close>

lemma request_models_declared:
  assumes "conv SInt (JInt 1) = Some (JInt 1)" "conv SDict (JObj []) = Some (JObj [])"
  shows "list_all (well_declared conv) request_models"
  by (simp add: request_models_def main_bodies_def edge_bodies_def gateway_bodies_def command_bodies_def model_defs assms)

subsection \<open>What the forwarders send\<close>

lemma json_put_field:
  assumes "json_put key v (JObj kvs) = Inr (JObj kvs')"
  shows "jfield kvs' k = (if k = key then Some (JStr v) else jfield kvs k)"
proof (cases "dict_get kvs key = None")
  case True
  then have "kvs' = kvs @ [(key, JStr v)]" using assms by (simp add: json_put_def)
  then show ?thesis by (simp add: jfield_def)
next
  case False
  have m: "map_of (map (\<lambda>(k, w). if k = key then (k, JStr v) else (k, w)) l) k
      = (if k = key then map_option (\<lambda>_. JStr v) (map_of l k) else map_of l k)" for l
    by (induction l) auto
  have "kvs' = map (\<lambda>(k, w). if k = key then (k, JStr v) else (k, w)) kvs" using False assms by (simp add: json_put_def)
  moreover have "map_of (rev kvs) key \<noteq> None" using False by (simp add: map_of_eq_None_iff)
  ultimately show ?thesis by (auto simp: jfield_def rev_map m)
qed

lemma validated_fields_defined: "validated_fields conv fs kvs \<noteq> None \<longleftrightarrow> list_all (\<lambda>f. field_value conv kvs f \<noteq> None) fs"
proof (induction fs)
  case (Cons f fs)
  then show ?case by (cases f) (auto split: option.splits)
qed simp

lemma field_value_put:
  assumes "\<And>k. jfield kvs' k = (if k = key then Some v else jfield kvs k)"
  shows "field_value conv kvs' (Field n t d) = (if n = key then validated conv t v else field_value conv kvs (Field n t d))"
  using assms by simp

lemma validated_put:
  assumes "\<And>k. jfield kvs' k = (if k = key then Some v else jfield kvs k)"
    and "distinct (map field_name fs)" "Field key t d \<in> set fs" "validated conv t v = Some w"
  shows "validated_fields conv fs kvs' \<noteq> None \<longleftrightarrow> validated_fields conv (filter (\<lambda>f. field_name f \<noteq> key) fs) kvs \<noteq> None"
    and "validated_fields conv fs kvs' = Some out \<Longrightarrow> jfield out key = Some w"
proof -
  have o: "f = Field key t d" if "f \<in> set fs" "field_name f = key" for f
    using inj_onD[OF distinct_map[THEN iffD1, THEN conjunct2, OF assms(2)], of f "Field key t d"] that assms(3) by simp
  have "field_value conv kvs' f \<noteq> None \<longleftrightarrow> field_name f = key \<or> field_value conv kvs f \<noteq> None" if f: "f \<in> set fs" for f
  proof (cases "field_name f = key")
    case True
    then show ?thesis using o[OF f True] assms(1,4) by simp
  next
    case False
    then show ?thesis using assms(1) by (cases f) simp
  qed
  then show "validated_fields conv fs kvs' \<noteq> None \<longleftrightarrow> validated_fields conv (filter (\<lambda>f. field_name f \<noteq> key) fs) kvs \<noteq> None"
    unfolding validated_fields_defined list_all_iff by auto
  assume v: "validated_fields conv fs kvs' = Some out"
  obtain i where i: "i < length fs" "fs ! i = Field key t d" using assms(3) by (metis in_set_conv_nth)
  have r: "length out = length fs" "fst (out ! i) = key" "snd (out ! i) = w"
    using v i assms(1,4) unfolding validated_fields_iff by (auto simp: list_all2_conv_all_nth)
  then have "(key, w) \<in> set out" using i(1) by (metis nth_mem prod.collapse)
  moreover have "distinct (map fst out)" using validated_field_names[OF v] assms(2) by simp
  ultimately show "jfield out key = Some w" by (simp add: jfield_distinct)
qed

text \<open>What an endpoint of the internal application makes of a request's body.\<close>

definition received ::
  "(scalar \<Rightarrow> json \<Rightarrow> json option) \<Rightarrow> (string \<Rightarrow> py_error + json) \<Rightarrow> string \<Rightarrow> upstream_request \<Rightarrow> json option" where
  "received conv json_loads e rq =
     (case (json_loads (uq_body rq), dict_get main_bodies e) of (Inr j, Some t) \<Rightarrow> validated conv t j | _ \<Rightarrow> None)"

text \<open>The client's body without one of the fields.\<close>

fun accepted_without :: "(scalar \<Rightarrow> json \<Rightarrow> json option) \<Rightarrow> string \<Rightarrow> body_type \<Rightarrow> (string \<times> json) list \<Rightarrow> bool" where
  "accepted_without conv key (Model fs) kvs = (validated_fields conv (filter (\<lambda>f. field_name f \<noteq> key) fs) kvs \<noteq> None)"
| "accepted_without conv key t kvs = False"

text \<open>The models of the endpoints that get a field from a forwarder.\<close>

lemma injected_bodies:
  "dict_get main_bodies ''start_via_qr'' = Some QrStartRequest" "dict_get main_bodies ''start_via_app'' = Some AppStartRequest"
  "dict_get main_bodies ''topup'' = Some TopupRequest" "dict_get main_bodies ''redeem'' = Some RedeemRequest"
  "dict_get main_bodies ''stop_session'' = Some StopSessionRequest"
  by (simp_all add: main_bodies_def)

definition driver_strings :: "(scalar \<Rightarrow> json \<Rightarrow> json option) \<Rightarrow> bool" where
  "driver_strings conv \<longleftrightarrow> (\<forall>u. conv SStr (JStr (str_uuid u)) = Some (JStr (str_uuid u)) \<and> conv SUuid (JStr (str_uuid u)) = Some (JStr (str_uuid u)))"

lemma received_put:
  assumes "driver_strings conv" "json_loads (uq_body rq) = Inr (JObj kvs')" "json_put key (str_uuid u) (JObj kvs) = Inr (JObj kvs')"
    and "dict_get main_bodies e = Some (Model fs)" "distinct (map field_name fs)"
    and "Field key (Of SStr) None \<in> set fs \<or> Field key (Of SUuid) None \<in> set fs"
  shows "(received conv json_loads e rq \<noteq> None \<longleftrightarrow> accepted_without conv key (Model fs) kvs)
    \<and> (\<forall>out. received conv json_loads e rq = Some (JObj out) \<longrightarrow> jfield out key = Some (JStr (str_uuid u)))"
proof -
  obtain t where t: "Field key t None \<in> set fs" "validated conv t (JStr (str_uuid u)) = Some (JStr (str_uuid u))"
    using assms(1,6) by (auto simp: driver_strings_def)
  note p = validated_put[OF json_put_field[OF assms(3)] assms(5) t]
  have r: "received conv json_loads e rq = map_option JObj (validated_fields conv fs kvs')"
    by (simp add: received_def assms(2,4))
  show ?thesis using p by (auto simp: r)
qed

lemma json_put_object: "\<exists>kvs'. json_put key v (JObj kvs) = Inr (JObj kvs')"
  by (simp add: json_put_def)

subsection \<open>Properties\<close>


text \<open>A conversion that takes exactly the values of the type.\<close>

fun strict :: "scalar \<Rightarrow> json \<Rightarrow> json option" where
  "strict SInt (JInt n) = Some (JInt n)"
| "strict SStr (JStr v) = Some (JStr v)"
| "strict SUuid (JStr v) = Some (JStr v)"
| "strict SDatetime (JStr v) = Some (JStr v)"
| "strict SFloat (JFloat x) = Some (JFloat x)"
| "strict SBool (JBool b) = Some (JBool b)"
| "strict SDict (JObj kvs) = Some (JObj kvs)"
| "strict s j = None"

lemma strict_laws: "stable strict" "driver_strings strict"
proof -
  have "strict s j' = Some j'" if "strict s j = Some j'" for s j j'
    using that by (cases "(s, j)" rule: strict.cases) auto
  then show "stable strict" by (simp add: stable_def)
qed (simp add: driver_strings_def)


definition sample_topup :: "(string \<times> json) list" where
  "sample_topup = [(''wallet_id'', JStr ''someone else''), (''psp_token'', JStr ''tok''), (''amount_minor_units'', JInt 10), (''currency'', JStr ''AED'')]"

definition sample_topup' :: "(string \<times> json) list" where
  "sample_topup' = (''wallet_id'', JStr (str_uuid 1)) # tl sample_topup"

definition sample_stop_body :: json where
  "sample_stop_body = JObj [(''driver_id'', JStr (str_uuid 1))]"



end
