(* ===== verification/Hourly_Rollup.thy ===== *)
theory Hourly_Rollup
  imports
    Row_Security
begin

text \<open>
  The hourly rollup of the meter values (\<open>alembic/versions/8679657fe757\<close>): the query of the plain view and that of
  the continuous aggregate, as functions of the rows of \<open>meter_value\<close> (\<open>models/timeseries.py\<close>), and what a
  tenant's session reads through them. The aggregate functions of PostgreSQL are parameters.
\<close>

subsection \<open>The two queries\<close>

record meter_row =
  mv_id :: uuid
  mv_tenant :: uuid
  mv_ts :: datetime
  mv_transaction :: uuid
  mv_charger :: uuid
  mv_measurand :: string
  mv_value :: pyfloat
  mv_unit :: string

record hourly_row =
  mh_tenant :: uuid
  mh_charger :: uuid
  mh_transaction :: uuid
  mh_measurand :: string
  mh_unit :: string
  mh_bucket :: datetime
  mh_avg :: pyfloat
  mh_max :: pyfloat
  mh_min :: pyfloat
  mh_count :: nat

record aggregates =
  ag_avg :: "pyfloat list \<Rightarrow> pyfloat"
  ag_max :: "pyfloat list \<Rightarrow> pyfloat"
  ag_min :: "pyfloat list \<Rightarrow> pyfloat"

definition hour_us :: int where "hour_us = 3600 * us_per_second"

text \<open>
  \<open>date_trunc('hour', ts)\<close> truncates in the time zone of the session, whose offset from UTC at an instant is
  \<open>zone\<close>; \<open>time_bucket(INTERVAL '1 hour', ts)\<close> counts from a midnight in UTC, as the instants here do.
\<close>

definition date_trunc_hour :: "(datetime \<Rightarrow> int) \<Rightarrow> datetime \<Rightarrow> datetime" where
  "date_trunc_hour zone ts = (ts + zone ts) div hour_us * hour_us - zone ts"

definition time_bucket_hour :: "datetime \<Rightarrow> datetime" where
  "time_bucket_hour ts = ts div hour_us * hour_us"

text \<open>\<open>GROUP BY tenant_id, charger_id, transaction_id, measurand, unit, bucket\<close>\<close>

definition group_of :: "(datetime \<Rightarrow> datetime) \<Rightarrow> meter_row \<Rightarrow> uuid \<times> uuid \<times> uuid \<times> string \<times> string \<times> datetime" where
  "group_of bucket r = (mv_tenant r, mv_charger r, mv_transaction r, mv_measurand r, mv_unit r, bucket (mv_ts r))"

definition hourly_of :: "aggregates \<Rightarrow> uuid \<times> uuid \<times> uuid \<times> string \<times> string \<times> datetime \<Rightarrow> pyfloat list \<Rightarrow> hourly_row" where
  "hourly_of ag k vs = (case k of (tenant, charger, txn, measurand, unit, bucket) \<Rightarrow>
     \<lparr>mh_tenant = tenant, mh_charger = charger, mh_transaction = txn, mh_measurand = measurand, mh_unit = unit, mh_bucket = bucket,
      mh_avg = ag_avg ag vs, mh_max = ag_max ag vs, mh_min = ag_min ag vs, mh_count = length vs\<rparr>)"

definition hourly_rollup :: "(datetime \<Rightarrow> datetime) \<Rightarrow> aggregates \<Rightarrow> meter_row list \<Rightarrow> hourly_row list" where
  "hourly_rollup bucket ag rows =
     map (\<lambda>k. hourly_of ag k (map mv_value (filter (\<lambda>r. group_of bucket r = k) rows))) (remdups (map (group_of bucket) rows))"

definition plain_rollup :: "(datetime \<Rightarrow> int) \<Rightarrow> aggregates \<Rightarrow> meter_row list \<Rightarrow> hourly_row list" where
  "plain_rollup zone = hourly_rollup (date_trunc_hour zone)"

definition continuous_rollup :: "aggregates \<Rightarrow> meter_row list \<Rightarrow> hourly_row list" where
  "continuous_rollup = hourly_rollup time_bucket_hour"

definition group_key :: "hourly_row \<Rightarrow> uuid \<times> uuid \<times> uuid \<times> string \<times> string \<times> datetime" where
  "group_key h = (mh_tenant h, mh_charger h, mh_transaction h, mh_measurand h, mh_unit h, mh_bucket h)"

lemma hourly_of_simps [simp]: "group_key (hourly_of ag k vs) = k" "mh_count (hourly_of ag k vs) = length vs"
  by (simp_all add: group_key_def hourly_of_def split: prod.split)

lemma rollup_keys: "map group_key (hourly_rollup bucket ag rows) = remdups (map (group_of bucket) rows)"
  by (simp add: hourly_rollup_def o_def)

lemma rollup_member:
  assumes "r \<in> set rows"
  shows "\<exists>h \<in> set (hourly_rollup bucket ag rows). group_key h = group_of bucket r \<and> 0 < mh_count h"
proof -
  let ?h = "hourly_of ag (group_of bucket r) (map mv_value (filter (\<lambda>x. group_of bucket x = group_of bucket r) rows))"
  have "?h \<in> set (hourly_rollup bucket ag rows)" using assms by (simp add: hourly_rollup_def)
  moreover have "filter (\<lambda>x. group_of bucket x = group_of bucket r) rows \<noteq> []" using assms by (auto simp: filter_empty_conv)
  ultimately show ?thesis by (intro bexI[of _ ?h]) simp_all
qed

lemma hour_pos: "0 < hour_us" by (simp add: hour_us_def)

lemma trunc_whole: "hour_us dvd zone ts \<Longrightarrow> date_trunc_hour zone ts = time_bucket_hour ts"
  using hour_pos by (auto simp: date_trunc_hour_def time_bucket_hour_def dvd_def algebra_simps)

lemma trunc_fraction: "\<not> hour_us dvd zone ts \<Longrightarrow> date_trunc_hour zone ts \<noteq> time_bucket_hour ts"
proof
  assume n: "\<not> hour_us dvd zone ts" and e: "date_trunc_hour zone ts = time_bucket_hour ts"
  have "zone ts = hour_us * ((ts + zone ts) div hour_us - ts div hour_us)"
    using e by (simp add: date_trunc_hour_def time_bucket_hour_def algebra_simps)
  then show False using n by (metis dvd_triv_left)
qed

subsection \<open>Properties\<close>

text \<open>
  Neither query loses or repeats a meter value: each row is counted in exactly one hourly row, the one of its
  group, and the sample counts add up to the number of rows.
\<close>

theorem rollup_partitions:
  assumes "r \<in> set rows"
  shows "sum_list (map mh_count (hourly_rollup bucket ag rows)) = length rows
    \<and> (\<exists>!h. h \<in> set (hourly_rollup bucket ag rows) \<and> group_key h = group_of bucket r)"
proof
  have "sum_list (map mh_count (hourly_rollup bucket ag rows)) = (\<Sum>k \<in> set (map (group_of bucket) rows). length (filter (\<lambda>x. group_of bucket x = k) rows))"
    by (simp add: hourly_rollup_def o_def sum_list_distinct_conv_sum_set)
  also have "\<dots> = (\<Sum>k \<in> set (map (group_of bucket) rows). count_list (map (group_of bucket) rows) k)"
    by (simp add: count_list_eq_length_filter filter_map o_def eq_commute)
  also have "\<dots> = length rows" using sum_count_set[of "map (group_of bucket) rows" "set (map (group_of bucket) rows)"] by simp
  finally show "sum_list (map mh_count (hourly_rollup bucket ag rows)) = length rows" .
  obtain h where h: "h \<in> set (hourly_rollup bucket ag rows)" "group_key h = group_of bucket r" using rollup_member[OF assms] by blast
  have "distinct (map group_key (hourly_rollup bucket ag rows))" unfolding rollup_keys by (rule distinct_remdups)
  then have "inj_on group_key (set (hourly_rollup bucket ag rows))" by (simp only: distinct_map)
  then show "\<exists>!h. h \<in> set (hourly_rollup bucket ag rows) \<and> group_key h = group_of bucket r" using h by (metis inj_onD)
qed

definition sample_meter_row :: "uuid \<Rightarrow> datetime \<Rightarrow> meter_row" where
  "sample_meter_row tenant ts = \<lparr>mv_id = 1, mv_tenant = tenant, mv_ts = ts, mv_transaction = 2, mv_charger = 3, mv_measurand = ''Energy'',
     mv_value = Fin 4, mv_unit = ''kWh''\<rparr>"

definition sample_aggregates :: aggregates where
  "sample_aggregates = \<lparr>ag_avg = hd, ag_max = hd, ag_min = hd\<rparr>"

theorem rollup_partitions_witness:
  "sum_list (map mh_count (hourly_rollup time_bucket_hour sample_aggregates [sample_meter_row 7 5, sample_meter_row 8 6])) = 2"
  using rollup_partitions[of "sample_meter_row 7 5" "[sample_meter_row 7 5, sample_meter_row 8 6]" time_bucket_hour sample_aggregates]
  by simp

text \<open>
  The fallback view and the continuous aggregate agree in every session whose time zone is a whole number of
  hours from UTC, and only there: in a zone of another offset they put a row in different hours.
\<close>

theorem rollups_agree_in_whole_hour_zones:
  shows "(list_all (\<lambda>r. hour_us dvd zone (mv_ts r)) rows \<longrightarrow> plain_rollup zone ag rows = continuous_rollup ag rows)
    \<and> (\<not> hour_us dvd zone (mv_ts r) \<longrightarrow> plain_rollup zone ag [r] \<noteq> continuous_rollup ag [r])"
proof (intro conjI impI)
  assume "list_all (\<lambda>r. hour_us dvd zone (mv_ts r)) rows"
  then have e: "\<And>x. x \<in> set rows \<Longrightarrow> group_of (date_trunc_hour zone) x = group_of time_bucket_hour x"
    by (simp add: list_all_iff group_of_def trunc_whole)
  then have m: "map (group_of (date_trunc_hour zone)) rows = map (group_of time_bucket_hour) rows" by simp
  have f: "filter (\<lambda>x. group_of (date_trunc_hour zone) x = k) rows = filter (\<lambda>x. group_of time_bucket_hour x = k) rows" for k
    using e by (intro filter_cong) simp_all
  show "plain_rollup zone ag rows = continuous_rollup ag rows"
    unfolding plain_rollup_def continuous_rollup_def hourly_rollup_def m f ..
next
  assume "\<not> hour_us dvd zone (mv_ts r)"
  from trunc_fraction[where zone = zone, OF this] show "plain_rollup zone ag [r] \<noteq> continuous_rollup ag [r]"
    by (simp add: plain_rollup_def continuous_rollup_def hourly_rollup_def hourly_of_def group_of_def)
qed

theorem rollups_agree_in_whole_hour_zones_witness:
  "plain_rollup (\<lambda>_. 19800000000) sample_aggregates [sample_meter_row 7 5] \<noteq> continuous_rollup sample_aggregates [sample_meter_row 7 5]"
proof -
  have "\<not> hour_us dvd (19800000000 :: int)" by (simp add: hour_us_def)
  then show ?thesis
    using rollups_agree_in_whole_hour_zones[of "\<lambda>_. 19800000000" "[]" sample_aggregates "sample_meter_row 7 5"] by simp
qed

subsection \<open>Reading the view\<close>

text \<open>
  PostgreSQL reads a view with the rights of its owner unless it is declared \<open>security_invoker\<close>, and the owner, the role
  of the migrations, is a superuser, whom row-level security does not restrict: every role that may select
  from the view gets the query over all stored rows.
\<close>

definition owner_view_law ::
  "('c \<Rightarrow> string \<Rightarrow> string option \<Rightarrow> hourly_row list) \<Rightarrow> (meter_row list \<Rightarrow> hourly_row list) \<Rightarrow> ('c \<Rightarrow> string \<Rightarrow> meter_row list) \<Rightarrow> bool" where
  "owner_view_law select_hourly query stored \<longleftrightarrow> (\<forall>c role setting. select_hourly c role setting = query (stored c ''meter_value''))"



end
