(* ===== verification/Spec2Isabelle.thy ===== *)
theory Spec2Isabelle
  imports Tariffs Pricing Session_Billing Invoicing Ocpp_Commands Ocpi_Data Session_Start Identity Fleet_Teams Fleet_Costs
    Carbon Row_Security Supabase_Schema Deployment Routes Gateway_Delivery Charge_Retries Entry_Points Edge_Process
    Request_Models Hourly_Rollup
begin

text \<open>
  The EVAggregator backend (\<open>src/backend/src/evagg\<close>): a platform that runs charge points for several tenants, bills
  charging sessions, and roams with other operators over OCPI. It is deployed as three processes.

  \<^item> The \<^emph>\<open>edge\<close> (\<open>edge_app.py\<close>) talks to charge points over an OCPP WebSocket, to roaming partners over OCPI and to the drivers' mobile
    application. It forwards what a driver may do on internal state, with the driver and tenant of the verified token.
  \<^item> The \<^emph>\<open>internal application\<close> (\<open>main.py\<close>) holds billing, sessions, fleets and commands behind two middlewares that accept
    only a tenant header signed by a trusted process.
  \<^item> The \<^emph>\<open>gateway\<close> (\<open>gateway_app.py\<close>) issues tokens and, in testing, forwards the operator portal's calls.

  \<open>composition.py\<close> builds the services of a process from the settings; the stores are in memory or in Supabase. Background
  material (Redis, NATS, PostgreSQL, Stripe, PyJWT, X.509, HTTP) is not part of the source: each is a parameter of the
  definitions that use it, and what the code relies on is a named hypothesis or a locale assumption, met by a concrete instance.

  \<^bold>\<open>Conventions.\<close> A class with state is a record, an operation a function from arguments and state to result and state; what
  Python raises is a value: \<open>Inl\<close> of the exception, \<open>Inr\<close> of the result, with the state reached when it was raised. Random
  ids, tokens and clock readings are arguments. A dictionary is an association list in insertion order (\<open>Py_Base\<close>), an \<open>int\<close> is an
  unbounded integer, a \<open>float\<close> is IEEE binary64 with round-to-nearest-even over the rationals, infinities and NaN (\<open>Py_Float\<close>; the
  sign of zero is not kept), a string is a list of characters below 256 (\<open>Py_Text\<close>), a decoded JSON value a datatype; a value
  of a type the annotations exclude is the distinct error \<open>IllTyped\<close>. \<open>asyncio\<close> suspends only at awaits that
  reach outside: an operation over in-memory stores is atomic, and the operations that do suspend (team redemption, webhook on a suspending ledger)
  also have a step relation for their interleavings.

  \<^bold>\<open>Theories\<close>, with the directories and files they model.

  \<^item> \<open>Py_Base\<close>, \<open>Py_Float\<close>, \<open>Py_Text\<close>: the prelude. Dictionaries and their laws, errors as sums, doubles and their rounding, strings, UUIDs, JSON,
    formats of numbers and dates.
  \<^item> Billing. \<open>Tariffs\<close> (\<open>billing/tariff*.py\<close>): prices are monotone, a validated tariff prices every session. \<open>Pricing\<close>
    (\<open>promotions.py\<close>, \<open>pricing_resolution.py\<close>, \<open>payouts.py\<close>). \<open>Wallet\<close> (\<open>payment_provider.py\<close>, \<open>payment_methods.py\<close>, \<open>wallet.py\<close>, \<open>stripe_webhook.py\<close> and routers):
    redelivered webhooks credit once, only signed ones credit. \<open>Session_Billing\<close> (\<open>session_billing.py\<close>): a charged session is
    billed once, by wallet or by card; suspension after declines. \<open>Charge_Retries\<close>: the charge on Stripe with its documented idempotency, under which
    an accepted charge is executed once and a refused one by no retry. \<open>Invoicing\<close> (\<open>invoicing.py\<close>, \<open>invoice_pdf.py\<close>): adjacent periods partition the revenue.
  \<^item> Charge points. \<open>Ocpp_Stores\<close> (presence, credentials, registration, transactions, connectors, meter values): readings are conserved, the
    Redis presence refines the one in memory. \<open>Ocpp_Gateway\<close> (\<open>connection_manager.py\<close>, \<open>message_handlers.py\<close>, \<open>authorize.py\<close>, \<open>ws_app.py\<close>): every
    frame and the receive loop; \<open>gateway_step\<close> is one frame or connection event, and in every reachable state a stop was
    published exactly once per completed transaction. \<open>Gateway_Delivery\<close>: the same handlers on a bus and a sink whose calls may raise, and the NATS
    adapter; with ports that keep what they are given they refine \<open>Ocpp_Gateway\<close>, with failing ones a stop is published at most once. \<open>Ocpp_Commands\<close> (\<open>event_bus.py\<close>, \<open>commands.py\<close>, \<open>nats_command_transport.py\<close>): delivery isolates the
    consumers and processes an event at most once.
  \<^item> Roaming. \<open>Ocpi_Commands\<close> (charging profiles, preferences, commands), \<open>Ocpi_Partners\<close> (registry, handshake, tokens, reconciliation),
    \<open>Ocpi_Data\<close> (domain model, adapters to three versions, CDRs, push, routes).
  \<^item> Drivers. \<open>Driver_App\<close> (vehicles, rewards, history, reservations, map, route planner), \<open>Routing\<close> (great-circle distance, OSRM client),
    \<open>Charging_Auth\<close> (QR tokens, autocharge, plug and charge), \<open>Session_Start\<close> (start, status and stop of sessions): ownership of a started session.
  \<^item> Access. \<open>Gateway_Auth\<close> (\<open>gateway/*.py\<close>, \<open>core/tenancy.py\<close>: rate limits, refresh tokens, PKCE, SSO, the tenant middlewares), \<open>Identity\<close> (driver accounts and
    tokens, the forwarders): a rotated token closes its family when replayed, a tenant needs a signature, a forwarder acts for the token's driver.
  \<^item> Fleets. \<open>Fleet_Teams\<close> (membership, invites: redemption as interleaved steps under the per-code lock, with termination), \<open>Fleet_Costs\<close> (nightly rollup and cost report).
    \<open>Carbon\<close> (\<open>carbon/*.py\<close>): grid intensity with its caches and retries.
  \<^item> Persistence. \<open>Schema\<close> (\<open>models/*.py\<close>): every mapped class as data, and the consistency of keys and constraints. \<open>Row_Security\<close> (the migrations under
    \<open>alembic/versions\<close>, \<open>scripts/audit_rls.py\<close>, \<open>core/db.py\<close>): the migration protects exactly the audited tables, and a session reads
    its tenant's rows only. \<open>Supabase\<close> (\<open>persistence/*.py\<close> and the simulator of its tests): the repositories over any server with
    the laws of the locale \<open>postgrest\<close>, where they refine the in-memory stores. \<open>Supabase_Schema\<close>: the rows they insert against the columns the schema requires.
    \<open>Hourly_Rollup\<close>: the queries of the hourly view and of the continuous aggregate, and what a tenant reads through them.
  \<^item> Composition. \<open>Platform\<close> (\<open>core/config.py\<close>, \<open>composition.py\<close>, \<open>core/observability.py\<close>, the lifespan of \<open>main.py\<close>): settings, choice of adapters and stores,
    connections, metrics, health. \<open>Deployment\<close>: the session service of the internal process and the gateway of the edge process as
    \<open>build_services\<close> makes them, with the invariants of all their reachable states. \<open>Routes\<close> (\<open>main.py\<close>, \<open>edge_app.py\<close>, \<open>gateway_app.py\<close>,
    every router): the route tables, that no request has two routes, and that what an edge route forwards arrives at the intended internal endpoint.
    \<open>Entry_Points\<close>: the applications assembled from middlewares and routes, one request through them, logging and health probes. \<open>Edge_Process\<close>: the
    services each application hands to its routers, with their shared stores, and the steps of the edge process as a whole. \<open>Request_Models\<close>: the
    body class of every route as data and the validation it documents; what the edge forwards is accepted by the internal routes.
  \<^item> \<open>Spec2Isabelle\<close>: properties that span the components above.

  \<^bold>\<open>Interfaces.\<close> The contracts between a component and its stores are locales, each interpreted on the code's own implementation: \<open>presence_registry\<close>,
  \<open>wallet_ledger\<close>, \<open>redemption_counter\<close>, \<open>token_cache_laws\<close>, \<open>carbon_cache\<close>, \<open>accepting_charger\<close>, \<open>reliable_ports\<close> and
  \<open>fallible_ports\<close> (on the in-memory bus and sink), \<open>postgrest\<close> and its extension \<open>postgrest_patch\<close>; the last two on the simulator the
  repository's tests use, and \<open>postgrest\<close> also on one that enforces the required columns.

  \<^bold>\<open>Bounds and termination.\<close> The retry loops (Stripe, carbon provider, OSRM) recurse over the list of attempts, the rest is structural
  recursion: every definition is total, and no fuel is used. Doubles are exact up to 53 bits; where a theorem needs a bound on magnitudes, it is a hypothesis.

  \<^bold>\<open>What does not hold.\<close> Some theorems state how the code falls short of its documentation, with the code as it is:
  \<open>started_session_cannot_charge\<close> and \<open>stripe_delivery_is_refused\<close> below, \<open>main_process_blind_to_charging\<close> (two processes, two sets of in-memory stores),
  \<open>duplicate_tenant_header_is_spoofed\<close>, \<open>oauth_token_impersonates_any_driver\<close>, \<open>qr_route_accepts_forged_tokens\<close>,
  \<open>stop_is_repeatable_and_unowned\<close>, \<open>rate_limited_refresh_revokes_family\<close>, \<open>supabase_refuses_boot_and_start\<close>, \<open>supabase_placeholder_accepted\<close>,
  \<open>handshake_urls_not_found\<close>, \<open>lifespan_leaves_open\<close>, \<open>lost_stop_never_published\<close>, \<open>readings_lost_only_on_raise\<close>, \<open>refused_session_never_charged\<close>,
  \<open>anonymous_requests_grow_metrics\<close>, \<open>edge_process_serves_nothing_stored\<close>, \<open>hourly_view_crosses_tenants\<close>.

  \<^bold>\<open>Not modelled.\<close> The operator portal and the mobile application (other languages); SQLAlchemy's engines, Alembic's environment, and what PostgreSQL,
  TimescaleDB, Redis and NATS do beyond the laws assumed; how FastAPI converts a single value to its declared type (a route receives validated
  values; the body classes and the validators of the source are modelled), its matching of paths and CORS; the Prometheus text format; the command line of the audit.
\<close>

subsection \<open>The composed authorizer\<close>

lemma dispatch_start_tag:
  "dispatch_remote_start send wallet_of d new_id driver tenant charger connector tag auth s = (Inr x, s') \<Longrightarrow> sr_tag x = tag"
  by (auto simp: dispatch_remote_start_def Let_def case_prod_beta split: sum.splits command_error.splits if_splits)

lemma seeded_authorizer_refuses:
  assumes "tag \<noteq> ''TAG-123''" and "az_local (gw_auth g) = az_local (seeded_authorizer st)" and "az_roaming (gw_auth g) = []"
  shows "handle_start_transaction i c tenant n tag m t g = ((0, ''Invalid''), g\<lparr>gw_auth := snd (authorize tag (gw_auth g))\<rparr>)"
  using assms
  by (auto simp: handle_start_transaction_def handle_authorize_def authorize_def local_lookup_def roaming_check_def
      dict_get_default_def seeded_authorizer_def local_set_status_def Let_def split: if_splits)

text \<open>
  C15: No session started by a driver can charge. Each way of starting one (app, QR code, autocharge, plug and charge) sends the
  charger an id tag made up for the driver or the vehicle; when the charger then opens
  the transaction with the tag it was given, the gateway's authorizer, which knows no such tag
  (in testing mode it knows one demo tag, in production none), answers the zero transaction
  id with status \<open>Invalid\<close>, and no transaction is recorded.
\<close>

theorem started_session_cannot_charge:
  assumes "start_via_app send wallet_of d new_id charger connector driver tenant s = (Inr x, s')
     \<or> start_via_qr decode hmac send wallet_of d new_id now token driver secret tenant s = (Inr x, s')
     \<or> start_via_autocharge send wallet_of d new_id mac charger tenant macs s = (Inr x, s')
     \<or> start_via_plug_and_charge ops t0 send wallet_of d new_id pem charger tenant v s = (Inr x, s')"
    and "az_local (gw_auth g) = az_local (seeded_authorizer st)" and "az_roaming (gw_auth g) = []"
  shows "fst (handle_start_transaction i (sr_charger x) tenant n (sr_tag x) m t g) = (0, ''Invalid'')
    \<and> gw_txns (snd (handle_start_transaction i (sr_charger x) tenant n (sr_tag x) m t g)) = gw_txns g"
proof -
  have "\<exists>u. sr_tag x = synthesize_id_tag_for_driver u \<or> (\<exists>w. sr_tag x = synthesize_id_tag_for_mac w)"
    using assms(1)
    by (auto simp: start_via_app_def start_via_qr_def start_via_autocharge_def start_via_plug_and_charge_def
        split: sum.splits option.splits qr_error.splits pnc_error.splits dest!: dispatch_start_tag)
  then have "sr_tag x \<noteq> ''TAG-123''" by (auto simp: synthesize_id_tag_for_driver_def synthesize_id_tag_for_mac_def)
  from seeded_authorizer_refuses[OF this assms(2,3)] show ?thesis by simp
qed

lemma sample_start: "\<exists>x. fst (start_via_app fake_send id (4, 1, 2) 5 ''CP'' 1 3 7 sample_sessions) = Inr x \<and> sr_charger x = ''CP''"
  by (simp add: start_via_app_def dispatch_remote_start_def sample_sessions_def remote_command_def send_command_def
      sample_service_def presence_get_def mark_online_def fake_send_def dict_get_default_def log_create_def mark_responded_def Let_def)

definition testing_gateway :: gateway where
  "testing_gateway = Ocpp_Gateway.sample_gateway\<lparr>gw_auth := seeded_authorizer default_settings\<rparr>"

theorem started_session_cannot_charge_witness:
  "\<exists>x. fst (start_via_app fake_send id (4, 1, 2) 5 ''CP'' 1 3 7 sample_sessions) = Inr x
     \<and> fst (handle_start_transaction 6 (sr_charger x) 7 1 (sr_tag x) 0 0 testing_gateway) = (0, ''Invalid'')"
proof -
  obtain x where x: "fst (start_via_app fake_send id (4, 1, 2) 5 ''CP'' 1 3 7 sample_sessions) = Inr x" using sample_start by blast
  then have "start_via_app fake_send id (4, 1, 2) 5 ''CP'' 1 3 7 sample_sessions
      = (Inr x, snd (start_via_app fake_send id (4, 1, 2) 5 ''CP'' 1 3 7 sample_sessions))" by (metis prod.collapse)
  from started_session_cannot_charge[OF disjI1[OF this], of testing_gateway default_settings] x show ?thesis
    by (simp add: testing_gateway_def seeded_authorizer_def local_set_status_def Let_def)
qed

subsection \<open>From the driver's phone to the session\<close>

text \<open>
  The internal application as the forwarder's upstream, for the route that starts a session from
  the app: the two middlewares, the body as pydantic reads it (\<open>parse_body\<close>), the
  route, and the answer. \<open>json_dumps\<close> renders the answer.
\<close>

definition answer :: "int \<Rightarrow> string \<Rightarrow> string + http_response" where
  "answer status content = Inr \<lparr>hr_status = status, hr_content = content, hr_media = Some ''application/json''\<rparr>"

definition route_answer :: "(json \<Rightarrow> string) \<Rightarrow> session_error http_error + json \<Rightarrow> string + http_response" where
  "route_answer json_dumps r =
     (case r of Inr j \<Rightarrow> answer 200 (json_dumps j)
      | Inl (HTTPException status detail) \<Rightarrow> answer status (json_dumps (JObj [(''detail'', JStr detail)]))
      | Inl (Raised _) \<Rightarrow> answer 500 ''Internal Server Error'')"

definition main_start_app ::
  "(string \<Rightarrow> string \<Rightarrow> string) \<Rightarrow> string \<Rightarrow> (headers \<Rightarrow> string \<Rightarrow> string option) \<Rightarrow> (string \<Rightarrow> (string \<times> int \<times> string) option) \<Rightarrow> (json \<Rightarrow> string)
    \<Rightarrow> 't transport \<Rightarrow> (uuid \<Rightarrow> uuid) \<Rightarrow> draw \<Rightarrow> uuid \<Rightarrow> 't session_service client" where
  "main_start_app hmac secret hget parse_body json_dumps send wallet_of d new_id rq s =
     (case internal_request hmac secret hget (uq_path rq) (uq_headers rq) of
        Problem status title \<Rightarrow> (answer status title, s)
      | Escapes e \<Rightarrow> (answer 500 ''Internal Server Error'', s)
      | Forward context \<Rightarrow>
        (case parse_body (uq_body rq) of
           None \<Rightarrow> (answer 422 [], s)
         | Some (charger, connector, driver) \<Rightarrow>
           (case require_current_tenant context of
              Inl (HTTPException status detail) \<Rightarrow> (answer status detail, s)
            | Inl (Raised _) \<Rightarrow> (answer 500 ''Internal Server Error'', s)
            | Inr tenant \<Rightarrow>
              (case route_start_app send wallet_of d new_id charger connector driver tenant s of
                 (r, s') \<Rightarrow> (route_answer json_dumps r, s')))))"


definition sample_parse :: "string \<Rightarrow> (string \<times> int \<times> string) option" where
  "sample_parse body = (case unary_loads body of
     Inr p \<Rightarrow> (case jitem p ''driver_id'' of Inr (JStr u) \<Rightarrow> Some (''CP'', 1, u) | _ \<Rightarrow> None) | _ \<Rightarrow> None)"

definition phone_start :: "(forward_error + http_response) \<times> fake_transport session_service" where
  "phone_start = forward_start unary_loads unary_dumps sample_hmac ''s''
     (main_start_app sample_hmac ''s'' starlette_get sample_parse unary_dumps fake_send id (4, 1, 2) 5) ''app'' [] sample_identity sample_sessions"


subsection \<open>Payment notifications\<close>

text \<open>
  C19: Stripe's notifications never reach the wallet. The webhook is mounted on the internal application, behind both middlewares, and its path
  is not exempt; a delivery carries Stripe's own signature but no tenant header, so it is
  answered 401 before the route runs, whatever its payload and signature, and the top-up it
  reports is never credited.
\<close>

theorem stripe_delivery_is_refused:
  assumes starlette_get: "\<forall>hs k. hget hs k = map_of hs (py_lower k)"
    and "\<forall>p \<in> set hs. py_lower (fst p) = fst p \<and> fst p \<noteq> ''x-tenant-id''"
  shows "internal_request hmac secret hget ''/billing/stripe/webhook'' hs = Problem 401 ''tenant context required''"
proof -
  have none: "map_of hs ''x-tenant-id'' = None" "map_of (rev hs) ''x-tenant-id'' = None"
    using assms(2) by (force simp: map_of_eq_None_iff)+
  have "header_dict hs ''x-tenant-id'' = None" using header_dict_lower[of hs "''x-tenant-id''"] assms(2) none(2) by simp
  moreover have "hget hs ''x-tenant-id'' = None" using assms(1) py_lower_tenant none(1) by metis
  moreover have "''/billing/stripe/webhook'' \<notin> exempt_paths" by (rule not_exempt_slash) simp
  ultimately show ?thesis
    by (simp add: internal_request_def gateway_signature_middleware_def tenant_context_middleware_def falsy_def)
qed

theorem stripe_delivery_is_refused_witness:
  "internal_request sample_hmac ''s'' starlette_get ''/billing/stripe/webhook'' [(''stripe-signature'', ''t=1,v1=abc'')]
     = Problem 401 ''tenant context required''"
proof (rule stripe_delivery_is_refused)
  have "py_lower ''stripe-signature'' = ''stripe-signature''" by code_simp
  then show "\<forall>p \<in> set [(''stripe-signature'', ''t=1,v1=abc'')]. py_lower (fst p) = fst p \<and> fst p \<noteq> ''x-tenant-id''" by simp
qed (simp add: starlette_get_def)

end
